(* ===== verification/Heimdall_Prelude.thy ===== *)
theory Heimdall_Prelude
  imports Complex_Main "HOL-Library.Product_Lexorder"
begin

text \<open>
  Shared vocabulary of the development: the Go values the modelled packages pass around
  (errors, byte strings, times and durations, decoded JSON), the table operations the SQL
  statements of the source are written with, and the generic lemmas about them.

  Conventions.
  \<^item> A Go \<open>string\<close> is its list of bytes (\<open>char list\<close>).
  \<^item> A \<open>time.Time\<close> is the number of nanoseconds since the zero time (year 1), so that
    \<open>t.IsZero()\<close> is \<open>t = 0\<close>; a \<open>time.Duration\<close> is its number of nanoseconds.
  \<^item> A UUID is its 128-bit value as a number; \<open>uuid.Nil\<close> is \<open>0\<close>.
  \<^item> A Go \<open>(T, error)\<close> result is \<open>error + T\<close>.
  \<^item> A JSON document is the value \<open>json.Unmarshal\<close> reads from its text.
\<close>

named_theorems table_simps \<open>rewriting of table operations\<close>

type_synonym uuid = nat
type_synonym gotime = int
type_synonym duration = int

abbreviation (input) uuid_Nil :: uuid where
  "uuid_Nil \<equiv> 0"

section \<open>Errors\<close>

text \<open>
  \<open>Sentinel\<close> is one of a package's \<open>errors.New\<close> variables, \<open>NewError\<close> an error made on the
  spot, \<open>DBError\<close> whatever the database driver reports, and \<open>Wrap\<close> the result of
  \<open>fmt.Errorf("...: %w", err)\<close>.
\<close>

datatype 'e go_error =
    Sentinel 'e
  | NewError string
  | DBError string
  | Wrap string "'e go_error"

fun errors_Is :: "'e go_error \<Rightarrow> 'e \<Rightarrow> bool" where
  "errors_Is (Sentinel x) e = (x = e)"
| "errors_Is (NewError _) e = False"
| "errors_Is (DBError _) e = False"
| "errors_Is (Wrap _ err) e = errors_Is err e"

section \<open>Byte strings\<close>

text \<open>The UTF-8 encodings of the code points with \<open>unicode.IsSpace\<close>.\<close>

definition space_encodings :: "string list" where
  "space_encodings =
     [[CHR 0x09], [CHR 0x0A], [CHR 0x0B], [CHR 0x0C], [CHR 0x0D], [CHR 0x20],
      [CHR 0xC2, CHR 0x85], [CHR 0xC2, CHR 0xA0], [CHR 0xE1, CHR 0x9A, CHR 0x80],
      [CHR 0xE2, CHR 0x80, CHR 0x80], [CHR 0xE2, CHR 0x80, CHR 0x81],
      [CHR 0xE2, CHR 0x80, CHR 0x82], [CHR 0xE2, CHR 0x80, CHR 0x83],
      [CHR 0xE2, CHR 0x80, CHR 0x84], [CHR 0xE2, CHR 0x80, CHR 0x85],
      [CHR 0xE2, CHR 0x80, CHR 0x86], [CHR 0xE2, CHR 0x80, CHR 0x87],
      [CHR 0xE2, CHR 0x80, CHR 0x88], [CHR 0xE2, CHR 0x80, CHR 0x89],
      [CHR 0xE2, CHR 0x80, CHR 0x8A], [CHR 0xE2, CHR 0x80, CHR 0xA8],
      [CHR 0xE2, CHR 0x80, CHR 0xA9], [CHR 0xE2, CHR 0x80, CHR 0xAF],
      [CHR 0xE2, CHR 0x81, CHR 0x9F], [CHR 0xE3, CHR 0x80, CHR 0x80]]"

definition starts_with :: "string \<Rightarrow> string \<Rightarrow> bool" where
  "starts_with w s \<longleftrightarrow> take (length w) s = w"

text \<open>Drops words of \<open>ws\<close> from the front of \<open>s\<close> as long as one matches.\<close>

function strip :: "string list \<Rightarrow> string \<Rightarrow> string" where
  "strip ws s =
     (case find (\<lambda>w. w \<noteq> [] \<and> starts_with w s) ws of
        None \<Rightarrow> s
      | Some w \<Rightarrow> strip ws (drop (length w) s))"
  by pat_completeness auto
termination
proof (relation "measure (\<lambda>(ws, s). length s)")
  fix ws :: "string list" and s w :: string
  assume "find (\<lambda>w. w \<noteq> [] \<and> starts_with w s) ws = Some w"
  then have "w \<noteq> []" and "take (length w) s = w"
    by (auto simp: find_Some_iff starts_with_def)
  then have "s \<noteq> []" and "0 < length w" by auto
  then show "((ws, drop (length w) s), ws, s) \<in> measure (\<lambda>(ws, s). length s)" by simp
qed simp

declare strip.simps [simp del]

definition TrimSpace :: "string \<Rightarrow> string" where
  "TrimSpace s = rev (strip (map rev space_encodings) (rev (strip space_encodings s)))"

text \<open>
  \<open>strings.ToLower\<close> on the ASCII letters and on the two other letters whose lower case is one, the
  Kelvin sign and the dotted capital i; the code compares the result with ASCII words.
\<close>

definition lower_char :: "char \<Rightarrow> char" where
  "lower_char c = (if 65 \<le> (of_char c :: nat) \<and> (of_char c :: nat) \<le> 90
                   then char_of ((of_char c :: nat) + 32) else c)"

fun ToLower :: "string \<Rightarrow> string" where
  "ToLower [] = []"
| "ToLower (c # cs) =
     (if c = CHR 0xE2 \<and> take 2 cs = [CHR 0x84, CHR 0xAA] then CHR ''k'' # ToLower (drop 2 cs)
      else if c = CHR 0xC4 \<and> take 1 cs = [CHR 0xB0] then CHR ''i'' # ToLower (drop 1 cs)
      else lower_char c # ToLower cs)"

text \<open>\<open>strconv.Atoi\<close> on a 64-bit platform.\<close>

fun digits_value :: "int \<Rightarrow> string \<Rightarrow> int option" where
  "digits_value acc [] = Some acc"
| "digits_value acc (c # cs) =
     (let n = (of_char c :: nat) in
      if 48 \<le> n \<and> n \<le> 57 then digits_value (acc * 10 + int n - 48) cs else None)"

definition Atoi :: "string \<Rightarrow> int option" where
  "Atoi s =
     (let neg = (s \<noteq> [] \<and> hd s = CHR ''-'');
          ds = (if s \<noteq> [] \<and> hd s \<in> {CHR ''-'', CHR ''+''} then tl s else s) in
      if ds = [] then None
      else case digits_value 0 ds of
          None \<Rightarrow> None
        | Some n \<Rightarrow>
            (let v = (if neg then - n else n) in
             if - (2 ^ 63) \<le> v \<and> v < 2 ^ 63 then Some v else None))"

text \<open>Assignment to a key of a Go map, on the list of its entries.\<close>

definition map_put :: "'k \<Rightarrow> 'v \<Rightarrow> ('k \<times> 'v) list \<Rightarrow> ('k \<times> 'v) list" where
  "map_put k v m = (k, v) # filter (\<lambda>(k', _). k' \<noteq> k) m"

lemma map_of_map_put [simp]: "map_of (map_put k v m) k' = (if k' = k then Some v else map_of m k')"
  by (induction m) (auto simp: map_put_def)

lemma distinct_map_put: "distinct (map fst m) \<Longrightarrow> distinct (map fst (map_put k v m))"
  by (auto simp: map_put_def distinct_map_filter)

subsection \<open>Facts about trimming\<close>

definition unstripped :: "string list \<Rightarrow> string \<Rightarrow> bool" where
  "unstripped ws s \<longleftrightarrow> (\<forall>w \<in> set ws. w \<noteq> [] \<longrightarrow> \<not> starts_with w s)"

lemma strip_unstripped: "unstripped ws (strip ws s)"
proof (induction ws s rule: strip.induct)
  case (1 ws s)
  show ?case
  proof (cases "find (\<lambda>w. w \<noteq> [] \<and> starts_with w s) ws")
    case None
    then have "strip ws s = s" by (simp add: strip.simps [of ws s])
    with None show ?thesis by (auto simp: find_None_iff unstripped_def)
  next
    case (Some w)
    with 1 show ?thesis by (simp add: strip.simps [of ws s])
  qed
qed

lemma strip_id: "unstripped ws s \<Longrightarrow> strip ws s = s"
proof -
  assume "unstripped ws s"
  then have "find (\<lambda>w. w \<noteq> [] \<and> starts_with w s) ws = None"
    by (auto simp: find_None_iff unstripped_def)
  then show ?thesis by (simp add: strip.simps [of ws s])
qed

lemma strip_suffix: "\<exists>p. s = p @ strip ws s"
proof (induction ws s rule: strip.induct)
  case (1 ws s)
  show ?case
  proof (cases "find (\<lambda>w. w \<noteq> [] \<and> starts_with w s) ws")
    case None
    then show ?thesis by (simp add: strip.simps [of ws s])
  next
    case (Some w)
    with 1 obtain p where "drop (length w) s = p @ strip ws (drop (length w) s)" by auto
    moreover from Some have "s = w @ drop (length w) s"
      by (metis (no_types, lifting) append_take_drop_id find_Some_iff starts_with_def)
    ultimately have "s = (w @ p) @ strip ws s"
      using Some by (simp add: strip.simps [of ws s])
    then show ?thesis ..
  qed
qed

lemma unstripped_prefix: "unstripped ws (s @ t) \<Longrightarrow> unstripped ws s"
  unfolding unstripped_def starts_with_def
  by (metis length_take nat_le_linear take_all take_append
      append_self_conv diff_is_0_eq' take0)

lemma TrimSpace_idem [simp]: "TrimSpace (TrimSpace s) = TrimSpace s"
proof -
  let ?l = "strip space_encodings s"
  obtain p where p: "rev ?l = p @ strip (map rev space_encodings) (rev ?l)"
    using strip_suffix by blast
  then have "?l = TrimSpace s @ rev p"
    by (metis TrimSpace_def rev_append rev_rev_ident)
  then have "unstripped space_encodings (TrimSpace s)"
    by (metis strip_unstripped unstripped_prefix)
  then have "strip space_encodings (TrimSpace s) = TrimSpace s" by (rule strip_id)
  moreover have "strip (map rev space_encodings) (rev (TrimSpace s)) = rev (TrimSpace s)"
    by (simp add: TrimSpace_def strip_id strip_unstripped)
  ultimately show ?thesis by (simp add: TrimSpace_def [of "TrimSpace s"])
qed

lemma TrimSpace_Nil [simp]: "TrimSpace [] = []"
proof -
  have "unstripped ws []" for ws :: "string list"
    by (simp add: unstripped_def starts_with_def)
  then show ?thesis by (simp add: TrimSpace_def strip_id)
qed

text \<open>Text without a byte that begins or ends the encoding of a space is left alone.\<close>

definition space_bytes :: string where
  "space_bytes = concat space_encodings"

lemma unstripped_disjoint:
  assumes "set s \<inter> set (concat ws) = {}"
  shows "unstripped ws s"
  unfolding unstripped_def starts_with_def
proof (intro ballI impI notI)
  fix w assume "w \<in> set ws" "w \<noteq> []" "take (length w) s = w"
  moreover from \<open>w \<noteq> []\<close> have "hd w \<in> set w" by simp
  ultimately obtain c where "c \<in> set w" by blast
  then have "c \<in> set s" using \<open>take (length w) s = w\<close> by (metis in_set_takeD)
  moreover have "c \<in> set (concat ws)" using \<open>c \<in> set w\<close> \<open>w \<in> set ws\<close> by auto
  ultimately show False using assms by blast
qed

lemma TrimSpace_no_space:
  assumes "set s \<inter> set space_bytes = {}"
  shows "TrimSpace s = s"
proof -
  have "set (rev s) \<inter> set (concat (map rev space_encodings)) = {}"
    using assms by (auto simp: space_bytes_def)
  then show ?thesis
    using assms unfolding TrimSpace_def space_bytes_def
    by (simp add: strip_id unstripped_disjoint)
qed

section \<open>Decoded JSON\<close>

datatype json =
    JNull
  | JBool bool
  | JNum rat
  | JStr string
  | JArr "json list"
  | JObj "(string \<times> json) list"

text \<open>
  A \<open>json.RawMessage\<close>: no bytes at all, bytes that are not a JSON text, or the text of a
  JSON value.
\<close>

datatype raw_json = RawEmpty | RawInvalid | RawJSON json

definition json_Valid :: "raw_json \<Rightarrow> bool" where
  "json_Valid r \<longleftrightarrow> (case r of RawJSON _ \<Rightarrow> True | _ \<Rightarrow> False)"

section \<open>Tables\<close>

text \<open>\<open>UPDATE ... SET f WHERE p\<close>, the row count it reports, and \<open>DELETE ... WHERE p\<close>.\<close>

definition upd_where :: "('r \<Rightarrow> bool) \<Rightarrow> ('r \<Rightarrow> 'r) \<Rightarrow> 'r list \<Rightarrow> 'r list" where
  "upd_where p f rs = map (\<lambda>r. if p r then f r else r) rs"

definition count_where :: "('r \<Rightarrow> bool) \<Rightarrow> 'r list \<Rightarrow> nat" where
  "count_where p rs = length (filter p rs)"

text \<open>\<open>SELECT ... WHERE p ORDER BY k LIMIT n\<close>.\<close>

definition select_order_limit ::
  "('r \<Rightarrow> bool) \<Rightarrow> ('r \<Rightarrow> 'k::linorder) \<Rightarrow> int \<Rightarrow> 'r list \<Rightarrow> 'r list" where
  "select_order_limit p k n rs = take (nat n) (sort_key k (filter p rs))"

lemma upd_where_Nil [simp, table_simps]: "upd_where p f [] = []"
  by (simp add: upd_where_def)

lemma upd_where_Cons [simp, table_simps]:
  "upd_where p f (r # rs) = (if p r then f r else r) # upd_where p f rs"
  by (simp add: upd_where_def)

lemma map_upd_where_id:
  "(\<And>r. p r \<Longrightarrow> g (f r) = g r) \<Longrightarrow> map g (upd_where p f rs) = map g rs"
  by (induction rs) auto

lemma set_upd_where:
  "set (upd_where p f rs) = f ` {r \<in> set rs. p r} \<union> {r \<in> set rs. \<not> p r}"
  by (auto simp: upd_where_def)

lemma in_upd_where:
  "r' \<in> set (upd_where p f rs) \<longleftrightarrow>
     (\<exists>r \<in> set rs. (p r \<and> r' = f r) \<or> (\<not> p r \<and> r' = r))"
  by (auto simp: set_upd_where)

lemma upd_where_none: "(\<And>r. r \<in> set rs \<Longrightarrow> \<not> p r) \<Longrightarrow> upd_where p f rs = rs"
  by (induction rs) auto

lemma find_upd_where:
  "(\<And>r. q (f r) = q r) \<Longrightarrow>
   find q (upd_where p f rs) = map_option (\<lambda>r. if p r then f r else r) (find q rs)"
  by (induction rs) auto

lemma count_where_0: "count_where p rs = 0 \<longleftrightarrow> (\<forall>r \<in> set rs. \<not> p r)"
  by (simp add: count_where_def filter_empty_conv)

lemma set_select_order_limit_subset:
  "set (select_order_limit p k n rs) \<subseteq> {r \<in> set rs. p r}"
  by (auto simp: select_order_limit_def dest: in_set_takeD)

lemma length_select_order_limit:
  "length (select_order_limit p k n rs) = min (nat n) (count_where p rs)"
  by (simp add: select_order_limit_def count_where_def)

lemma select_order_limit_Nil:
  "0 < n \<Longrightarrow> select_order_limit p k n rs = [] \<longleftrightarrow> (\<forall>r \<in> set rs. \<not> p r)"
  by (simp flip: length_0_conv count_where_0 add: length_select_order_limit) auto

text \<open>The rows a limit drops sort after every row it keeps.\<close>

lemma select_order_limit_first:
  assumes "r \<in> set (select_order_limit p k n rs)"
    and "r' \<in> set rs" "p r'" "r' \<notin> set (select_order_limit p k n rs)"
  shows "k r \<le> k r'"
proof -
  let ?xs = "sort_key k (filter p rs)"
  have "r' \<in> set ?xs" using assms by simp
  then have "r' \<in> set (take (nat n) ?xs) \<union> set (drop (nat n) ?xs)"
    by (metis append_take_drop_id set_append)
  with assms(4) have d: "r' \<in> set (drop (nat n) ?xs)"
    by (simp add: select_order_limit_def)
  have "sorted (map k (take (nat n) ?xs @ drop (nat n) ?xs))" by simp
  then have "sorted (map k (take (nat n) ?xs) @ map k (drop (nat n) ?xs))"
    by (simp only: map_append)
  with d assms(1) show ?thesis
    by (auto simp: sorted_append select_order_limit_def)
qed

section \<open>Lists\<close>

lemma find_SomeD: "find p xs = Some x \<Longrightarrow> x \<in> set xs \<and> p x"
  by (auto simp: find_Some_iff)

lemma find_append:
  "find p (xs @ ys) = (case find p xs of None \<Rightarrow> find p ys | Some x \<Rightarrow> Some x)"
  by (induction xs) auto

lemma concat_map_concat:
  "concat (map f (concat xss)) = concat (map (\<lambda>xs. concat (map f xs)) xss)"
  by (induction xss) auto

end
