(* ===== verification/Database.thy ===== *)
theory Database
  imports Heimdall_Prelude
begin

text \<open>
  The database as the stores see it: one record per table row (with the columns of the
  Go struct scanned from it), the connection a \<open>database.Querier\<close> stands for, and the
  tenant-scoped connections and transactions of \<open>internal/platform/database/tenant.go\<close>.

  A statement of the source is a function on the connection run by \<open>sql\<close>. A script of
  driver faults (\<open>db_faults\<close>, one entry per statement) decides whether a statement reaches
  the tables at all, so every \<open>if err != nil\<close> of the source is a branch of the model and
  every theorem holds for every script.
\<close>

section \<open>Rows\<close>

datatype LinkState = LinkStatePendingVerification | LinkStateVerified | LinkStateRevoked

datatype OutboxStatus =
    OutboxStatusPending
  | OutboxStatusSending
  | OutboxStatusPendingApproval
  | OutboxStatusSent
  | OutboxStatusDead

record ChannelLink =
  ln_ID :: uuid
  ln_TenantID :: uuid
  ln_UserID :: uuid
  ln_Platform :: string
  ln_PlatformUserID :: string
  ln_State :: LinkState
  ln_Verified :: bool
  ln_CreatedAt :: gotime
  ln_VerifiedAt :: "gotime option"
  ln_RevokedAt :: "gotime option"
  ln_VerificationMethod :: string
  ln_VerificationMetadata :: raw_json

record ChannelOutbox =
  ob_ID :: uuid
  ob_TenantID :: uuid
  ob_ChannelMessageID :: uuid
  ob_Provider :: string
  ob_RecipientID :: string
  ob_Payload :: raw_json
  ob_Status :: OutboxStatus
  ob_AttemptCount :: int
  ob_MaxAttempts :: int
  ob_NextAttemptAt :: gotime
  ob_LastError :: "string option"
  ob_LockedAt :: "gotime option"
  ob_SentAt :: "gotime option"
  ob_CreatedAt :: gotime
  ob_UpdatedAt :: gotime

record ProviderCredential =
  pc_ID :: uuid
  pc_TenantID :: uuid
  pc_Provider :: string
  pc_AccessToken :: string
  pc_SigningSecret :: string
  pc_SecretToken :: string
  pc_APIBaseURL :: string
  pc_APIVersion :: string
  pc_PhoneNumberID :: string
  pc_CreatedAt :: gotime
  pc_UpdatedAt :: gotime

text \<open>A row of \<open>channel_messages\<close>; \<open>metadata\<close> is the JSON value of the column.\<close>

record ChannelMessage =
  cm_ID :: uuid
  cm_TenantID :: uuid
  cm_Platform :: string
  cm_PlatformUserID :: string
  cm_PlatformMessageID :: string
  cm_IdempotencyKey :: string
  cm_PayloadFingerprint :: string
  cm_CorrelationID :: string
  cm_Status :: string
  cm_Metadata :: json
  cm_FirstSeenAt :: gotime
  cm_ExpiresAt :: gotime
  cm_CreatedAt :: gotime

datatype ApprovalStatus =
    StatusPending
  | StatusApproved
  | StatusDenied
  | StatusExpired
  | StatusCancelled

record Request =
  rq_ID :: uuid
  rq_TenantID :: uuid
  rq_AgentID :: "uuid option"
  rq_RequestedBy :: "uuid option"
  rq_ReviewedBy :: "uuid option"
  rq_ChannelOutboxID :: "uuid option"
  rq_RiskClass :: string
  rq_Status :: ApprovalStatus
  rq_TargetType :: string
  rq_TargetLabel :: string
  rq_ActionSummary :: string
  rq_Metadata :: "(string \<times> json) list"
  rq_CreatedAt :: gotime
  rq_ReviewedAt :: "gotime option"
  rq_ExpiresAt :: "gotime option"

datatype GovernedActionStatus =
    GovernedActionStatusPending
  | GovernedActionStatusAwaitingApproval
  | GovernedActionStatusApproved
  | GovernedActionStatusDenied
  | GovernedActionStatusExecuted
  | GovernedActionStatusFailed

record GovernedAction =
  ga_ID :: uuid
  ga_TenantID :: uuid
  ga_AgentID :: "uuid option"
  ga_ApprovalRequestID :: "uuid option"
  ga_ConnectorID :: uuid
  ga_SessionID :: string
  ga_CorrelationID :: string
  ga_ToolName :: string
  ga_RiskClass :: string
  ga_TargetType :: string
  ga_TargetLabel :: string
  ga_ActionSummary :: string
  ga_Arguments :: raw_json
  ga_Status :: GovernedActionStatus
  ga_CreatedAt :: gotime
  ga_UpdatedAt :: gotime

datatype VMStatus =
    StatusWarm
  | StatusProvisioning
  | StatusRunning
  | StatusUnhealthy
  | StatusDestroying
  | StatusDestroyed

record AgentInstance =
  ai_ID :: uuid
  ai_TenantID :: "uuid option"
  ai_UserID :: "string option"
  ai_DepartmentID :: "uuid option"
  ai_VMID :: "string option"
  ai_Status :: VMStatus
  ai_Config :: raw_json
  ai_VsockCID :: "nat option"
  ai_VMDriver :: string
  ai_ToolAllowlist :: raw_json
  ai_ConsecutiveFailures :: nat
  ai_CreatedAt :: gotime
  ai_LastHealthCheck :: "gotime option"

record Connector =
  co_ID :: uuid
  co_TenantID :: uuid
  co_Name :: string
  co_ConnectorType :: string
  co_Endpoint :: string
  co_AuthConfig :: raw_json
  co_Resources :: raw_json
  co_Tools :: raw_json
  co_Status :: string
  co_CreatedAt :: gotime

record KnowledgeBase =
  kb_ID :: uuid
  kb_TenantID :: uuid
  kb_Name :: string

text \<open>Accounts: users, departments, roles, assignments, refresh token families and invites.\<close>

record User =
  us_ID :: uuid
  us_TenantID :: uuid
  us_Email :: string
  us_DisplayName :: "string option"
  us_OIDCSubject :: "string option"
  us_OIDCIssuer :: "string option"
  us_Status :: string
  us_CreatedAt :: gotime
  us_IsPlatformAdmin :: bool

record Department =
  dp_ID :: uuid
  dp_TenantID :: uuid
  dp_Name :: string
  dp_ParentID :: "uuid option"
  dp_CreatedAt :: gotime

record Role =
  rl_ID :: uuid
  rl_TenantID :: uuid
  rl_Name :: string
  rl_Permissions :: "string list"
  rl_IsSystem :: bool
  rl_CreatedAt :: gotime

record UserRole =
  ur_UserID :: uuid
  ur_RoleID :: uuid
  ur_ScopeType :: string
  ur_ScopeID :: uuid

record TokenFamily =
  tf_ID :: uuid
  tf_TenantID :: uuid
  tf_UserID :: uuid
  tf_CurrentGeneration :: int
  tf_CurrentTokenHash :: string
  tf_RevokedAt :: "gotime option"
  tf_CreatedAt :: gotime
  tf_UpdatedAt :: gotime
  tf_LegacyTokenHash :: "string option"

record Invite =
  iv_ID :: uuid
  iv_TenantID :: uuid
  iv_Code :: string
  iv_Role :: string
  iv_CreatedBy :: uuid
  iv_ExpiresAt :: gotime
  iv_UsedBy :: "uuid option"
  iv_UsedAt :: "gotime option"
  iv_CreatedAt :: gotime

record Tenant =
  tn_ID :: uuid
  tn_Name :: string
  tn_Slug :: string
  tn_Status :: string
  tn_CreatedAt :: gotime
  tn_UpdatedAt :: gotime

section \<open>The connection\<close>

text \<open>
  \<open>db_tenant\<close> is the session setting \<open>app.current_tenant_id\<close> (\<open>None\<close> when it is not set);
  \<open>db_rls\<close> says whether the role is subject to the row-level security policies (a table
  owner is not); \<open>db_locked\<close> holds the rows other sessions have locked, which
  \<open>FOR UPDATE SKIP LOCKED\<close> passes over; \<open>db_now\<close> is \<open>now()\<close>; \<open>db_next\<close> supplies
  \<open>gen_random_uuid()\<close>. \<open>db_settings\<close> is the nullable column \<open>settings\<close> of \<open>tenants\<close>;
  a grant of a knowledge base has the base, the kind and the target; \<open>db_tenants\<close> has the keys of
  \<open>tenants\<close> and \<open>db_tenant_rows\<close> the rows; \<open>db_user_departments\<close> has users and their departments.
\<close>

record db =
  db_tenant :: "uuid option"
  db_rls :: bool
  db_locked :: "uuid list"
  db_now :: gotime
  db_next :: nat
  db_faults :: "string option list"
  db_tenants :: "uuid list"
  db_users :: "User list"
  db_links :: "ChannelLink list"
  db_credentials :: "ProviderCredential list"
  db_messages :: "ChannelMessage list"
  db_outbox :: "ChannelOutbox list"
  db_approvals :: "Request list"
  db_actions :: "GovernedAction list"
  db_agents :: "AgentInstance list"
  db_connectors :: "Connector list"
  db_settings :: "uuid \<rightharpoonup> json"
  db_knowledge_bases :: "KnowledgeBase list"
  db_kb_grants :: "(uuid \<times> string \<times> uuid) list"
  db_user_roles :: "UserRole list"
  db_roles :: "Role list"
  db_departments :: "Department list"
  db_user_departments :: "(uuid \<times> uuid) list"
  db_families :: "TokenFamily list"
  db_invites :: "Invite list"
  db_tenant_rows :: "Tenant list"

definition empty_db :: db where
  "empty_db = \<lparr>db_tenant = None, db_rls = False, db_locked = [], db_now = 1, db_next = 1,
     db_faults = [], db_tenants = [], db_users = [], db_links = [], db_credentials = [], db_messages = [],
     db_outbox = [], db_approvals = [], db_actions = [],
     db_agents = [], db_connectors = [], db_settings = Map.empty,
     db_knowledge_bases = [], db_kb_grants = [], db_user_roles = [], db_roles = [],
     db_departments = [], db_user_departments = [], db_families = [], db_invites = [], db_tenant_rows = []\<rparr>"

definition sql :: "(db \<Rightarrow> 'a \<times> db) \<Rightarrow> db \<Rightarrow> ('e go_error + 'a) \<times> db" where
  "sql stmt s =
     (case db_faults s of
        [] \<Rightarrow> map_prod Inr id (stmt s)
      | None # fs \<Rightarrow> map_prod Inr id (stmt (s\<lparr>db_faults := fs\<rparr>))
      | Some m # fs \<Rightarrow> (Inl (DBError m), s\<lparr>db_faults := fs\<rparr>))"

text \<open>\<open>WHERE tenant_id = current_setting('app.current_tenant_id', true)::UUID\<close>\<close>

definition own :: "db \<Rightarrow> uuid \<Rightarrow> bool" where
  "own s t \<longleftrightarrow> db_tenant s = Some t"

text \<open>The \<open>tenant_isolation\<close> policy of a table.\<close>

definition visible :: "db \<Rightarrow> uuid \<Rightarrow> bool" where
  "visible s t \<longleftrightarrow> (db_rls s \<longrightarrow> own s t)"

section \<open>The three shapes of a statement's result\<close>

text \<open>
  \<open>Exec\<close> with a row count: a driver error is wrapped with the operation's message, an
  update of no row is the given sentinel.
\<close>

definition exec_rows ::
  "string \<Rightarrow> 'e \<Rightarrow> ('e go_error + nat) \<times> db \<Rightarrow> ('e go_error + unit) \<times> db" where
  "exec_rows msg none r =
     (case r of
        (Inl e, s) \<Rightarrow> (Inl (Wrap msg e), s)
      | (Inr n, s) \<Rightarrow> if n = 0 then (Inl (Sentinel none), s) else (Inr (), s))"

text \<open>\<open>QueryRow\<close>: no row is \<open>pgx.ErrNoRows\<close>, turned into the given sentinel.\<close>

definition query_row ::
  "string \<Rightarrow> 'e \<Rightarrow> ('e go_error + 'a option) \<times> db \<Rightarrow> ('e go_error + 'a) \<times> db" where
  "query_row msg none r =
     (case r of
        (Inl e, s) \<Rightarrow> (Inl (Wrap msg e), s)
      | (Inr None, s) \<Rightarrow> (Inl (Sentinel none), s)
      | (Inr (Some a), s) \<Rightarrow> (Inr a, s))"

text \<open>\<open>Query\<close>: the rows themselves.\<close>

definition wrap_err ::
  "string \<Rightarrow> ('e go_error + 'a) \<times> db \<Rightarrow> ('e go_error + 'a) \<times> db" where
  "wrap_err msg r = (case r of (Inl e, s) \<Rightarrow> (Inl (Wrap msg e), s) | (Inr a, s) \<Rightarrow> (Inr a, s))"

text \<open>
  A statement that a constraint of the schema may refuse: the violation is an error of the
  driver, and the statement has no effect.
\<close>

definition checked ::
  "('e go_error + (string + 'a)) \<times> db \<Rightarrow> ('e go_error + 'a) \<times> db" where
  "checked r =
     (case r of
        (Inl e, s) \<Rightarrow> (Inl e, s)
      | (Inr (Inl m), s) \<Rightarrow> (Inl (DBError m), s)
      | (Inr (Inr a), s) \<Rightarrow> (Inr a, s))"

section \<open>Tenant-scoped connections\<close>

text \<open>
  Acquiring the connection, setting the tenant and the deferred reset each run a statement.
  The error of the reset is discarded.
\<close>

definition reset_tenant :: "db \<Rightarrow> db" where
  "reset_tenant s =
     snd (sql (\<lambda>s. ((), s\<lparr>db_tenant := None\<rparr>)) s :: (unit go_error + unit) \<times> db)"

definition acquire :: "uuid \<Rightarrow> db \<Rightarrow> ('e go_error + unit) \<times> db" where
  "acquire t s =
     (case sql (\<lambda>s. ((), s)) s of
        (Inl e, s1) \<Rightarrow> (Inl (Wrap ''acquiring connection'' e), s1)
      | (Inr _, s1) \<Rightarrow>
          (case sql (\<lambda>s. ((), s\<lparr>db_tenant := Some t\<rparr>)) s1 of
             (Inl e, s2) \<Rightarrow> (Inl (Wrap ''setting tenant context'' e), reset_tenant s2)
           | (Inr _, s2) \<Rightarrow> (Inr (), s2)))"

definition WithTenantConnection ::
  "uuid \<Rightarrow> (db \<Rightarrow> ('e go_error + 'a) \<times> db) \<Rightarrow> db \<Rightarrow> ('e go_error + 'a) \<times> db" where
  "WithTenantConnection t fn s =
     (case acquire t s of
        (Inl e, s1) \<Rightarrow> (Inl e, s1)
      | (Inr _, s1) \<Rightarrow> (case fn s1 of (r, s2) \<Rightarrow> (r, reset_tenant s2)))"

text \<open>The callers pass the tenant as text, which the session setting has to read as a UUID.\<close>

definition tenant_connection ::
  "(string \<Rightarrow> uuid option) \<Rightarrow> string \<Rightarrow> (db \<Rightarrow> ('e go_error + 'a) \<times> db) \<Rightarrow> db \<Rightarrow> ('e go_error + 'a) \<times> db" where
  "tenant_connection parse_uuid tenantID fn s =
     (case parse_uuid tenantID of
        None \<Rightarrow> (Inl (DBError ''invalid input syntax for type uuid''), s)
      | Some t \<Rightarrow> WithTenantConnection t fn s)"

text \<open>
  A rollback gives back the tables as they were at \<open>BEGIN\<close>; consumed faults and handed-out
  identifiers stay consumed.
\<close>

definition rollback_to :: "db \<Rightarrow> db \<Rightarrow> db" where
  "rollback_to s0 s1 = s0\<lparr>db_faults := db_faults s1, db_next := db_next s1\<rparr>"

definition run_transaction ::
  "(db \<Rightarrow> ('e go_error + 'a) \<times> db) \<Rightarrow> db \<Rightarrow> ('e go_error + 'a) \<times> db" where
  "run_transaction fn s =
     (case sql (\<lambda>s. ((), s)) s of
        (Inl e, s1) \<Rightarrow> (Inl (Wrap ''beginning transaction'' e), s1)
      | (Inr _, s1) \<Rightarrow>
          (case fn s1 of
             (Inl e, s2) \<Rightarrow> (Inl e, rollback_to s1 s2)
           | (Inr a, s2) \<Rightarrow>
               (case sql (\<lambda>s. ((), s)) s2 of
                  (Inl e, s3) \<Rightarrow> (Inl (Wrap ''committing transaction'' e), rollback_to s1 s3)
                | (Inr _, s3) \<Rightarrow> (Inr a, s3))))"

definition WithTenantTransaction ::
  "uuid \<Rightarrow> (db \<Rightarrow> ('e go_error + 'a) \<times> db) \<Rightarrow> db \<Rightarrow> ('e go_error + 'a) \<times> db" where
  "WithTenantTransaction t fn = WithTenantConnection t (run_transaction fn)"

section \<open>Facts about statements\<close>

lemma sql_cases [consumes 1, case_names fault ok]:
  assumes "sql stmt s = (r, s')"
  obtains m where "r = Inl (DBError m)" "s' = s\<lparr>db_faults := tl (db_faults s)\<rparr>"
  | fs a where "stmt (s\<lparr>db_faults := fs\<rparr>) = (a, s')" "r = Inr a"
proof (cases "db_faults s")
  case Nil
  obtain a t where a: "stmt s = (a, t)" by fastforce
  have "s\<lparr>db_faults := []\<rparr> = s" using Nil by simp
  with a have "stmt (s\<lparr>db_faults := []\<rparr>) = (a, t)" by metis
  with a show ?thesis using assms Nil that(2) [of "[]" a] by (simp add: sql_def)
next
  case (Cons x fs)
  show ?thesis
  proof (cases x)
    case None
    obtain a t where "stmt (s\<lparr>db_faults := fs\<rparr>) = (a, t)" by fastforce
    then show ?thesis using assms Cons None that(2) [of fs a] by (simp add: sql_def)
  next
    case (Some m)
    then show ?thesis using assms Cons that(1) [of m] by (simp add: sql_def)
  qed
qed

lemma sql_Inr: "sql stmt s = (Inr a, s') \<Longrightarrow> \<exists>fs. stmt (s\<lparr>db_faults := fs\<rparr>) = (a, s')"
  by (auto elim: sql_cases)

text \<open>
  A property of the tables that does not look at the fault script holds after a statement
  whenever the statement itself keeps it.
\<close>

definition fault_blind :: "(db \<Rightarrow> bool) \<Rightarrow> bool" where
  "fault_blind P \<longleftrightarrow> (\<forall>s fs. P (s\<lparr>db_faults := fs\<rparr>) = P s)"

lemma sql_keeps:
  assumes "sql stmt s = (r, s')" "fault_blind P" "P s"
    and "\<And>s a s'. P s \<Longrightarrow> stmt s = (a, s') \<Longrightarrow> P s'"
  shows "P s'"
  using assms(1)
proof (cases rule: sql_cases)
  case (fault m)
  then show ?thesis using assms(2,3) by (simp add: fault_blind_def)
next
  case (ok fs a)
  then show ?thesis using assms(2-4) by (metis fault_blind_def)
qed

lemma sql_no_faults [simp]:
  "db_faults s = [] \<Longrightarrow> sql stmt s = map_prod Inr id (stmt s)"
  by (simp add: sql_def)

lemma snd_exec_rows [simp]: "snd (exec_rows msg none r) = snd r"
  by (auto simp: exec_rows_def split: prod.splits sum.splits)

lemma snd_query_row [simp]: "snd (query_row msg none r) = snd r"
  by (auto simp: query_row_def split: prod.splits sum.splits option.splits)

lemma snd_wrap_err [simp]: "snd (wrap_err msg r) = snd r"
  by (auto simp: wrap_err_def split: prod.splits sum.splits)

lemma wrap_err_Inr [simp]: "wrap_err msg r = (Inr a, s) \<longleftrightarrow> r = (Inr a, s)"
  by (auto simp: wrap_err_def split: prod.splits sum.splits)

lemma query_row_Inr [simp]: "query_row msg none r = (Inr a, s) \<longleftrightarrow> r = (Inr (Some a), s)"
  by (auto simp: query_row_def split: prod.splits sum.splits option.splits)

lemma exec_rows_Inr [simp]:
  "exec_rows msg none r = (Inr u, s) \<longleftrightarrow> (\<exists>n. r = (Inr n, s) \<and> n \<noteq> 0)"
  by (auto simp: exec_rows_def split: prod.splits sum.splits)

lemma snd_checked [simp]: "snd (checked r) = snd r"
  by (auto simp: checked_def split: prod.splits sum.splits)

lemma checked_Inr [simp]: "checked r = (Inr a, s) \<longleftrightarrow> r = (Inr (Inr a), s)"
  by (auto simp: checked_def split: prod.splits sum.splits)

text \<open>Operations that keep a property of the database.\<close>

definition keeps :: "(db \<Rightarrow> bool) \<Rightarrow> (db \<Rightarrow> 'a \<times> db) \<Rightarrow> bool" where
  "keeps P f \<longleftrightarrow> (\<forall>s. P s \<longrightarrow> P (snd (f s)))"

lemma keepsI: "(\<And>s. P s \<Longrightarrow> P (snd (f s))) \<Longrightarrow> keeps P f"
  by (simp add: keeps_def)

lemma keepsD: "keeps P f \<Longrightarrow> P s \<Longrightarrow> f s = (a, s') \<Longrightarrow> P s'"
  by (metis keeps_def snd_conv)

lemma keeps_sql:
  assumes "fault_blind P" "keeps P stmt"
  shows "keeps P (sql stmt :: db \<Rightarrow> ('e go_error + 'a) \<times> db)"
proof (rule keepsI)
  fix s assume "P s"
  obtain r :: "'e go_error + 'a" and s' where rs: "sql stmt s = (r, s')" by fastforce
  then have "P s'" using assms(1) \<open>P s\<close> by (rule sql_keeps) (erule (1) keepsD [OF assms(2)])
  with rs show "P (snd (sql stmt s :: ('e go_error + 'a) \<times> db))" by simp
qed

lemma keeps_query: "keeps P (\<lambda>s. (f s, s))"
  by (simp add: keeps_def)

lemma keeps_wrap_err: "keeps P f \<Longrightarrow> keeps P (\<lambda>s. wrap_err msg (f s))"
  by (simp add: keeps_def)

lemma keeps_query_row: "keeps P f \<Longrightarrow> keeps P (\<lambda>s. query_row msg none (f s))"
  by (simp add: keeps_def)

lemma keeps_exec_rows: "keeps P f \<Longrightarrow> keeps P (\<lambda>s. exec_rows msg none (f s))"
  by (simp add: keeps_def)

lemma keeps_checked: "keeps P f \<Longrightarrow> keeps P (\<lambda>s. checked (f s))"
  by (simp add: keeps_def)

text \<open>Sequencing: the continuation runs only when the first operation succeeds.\<close>

lemma keeps_bind:
  assumes "keeps P f" "\<And>a. keeps P (g a)"
  shows "keeps P (\<lambda>s. case f s of (Inl e, s1) \<Rightarrow> (h e, s1) | (Inr a, s1) \<Rightarrow> g a s1)"
  using assms by (force simp: keeps_def split: prod.splits sum.splits)

lemma keeps_if: "keeps P f \<Longrightarrow> keeps P g \<Longrightarrow> keeps P (\<lambda>s. if c then f s else g s)"
  by (simp add: keeps_def)

lemma keeps_ifI:
  "(c \<Longrightarrow> keeps P f) \<Longrightarrow> (\<not> c \<Longrightarrow> keeps P g) \<Longrightarrow> keeps P (\<lambda>s. if c then f s else g s)"
  by (cases c) simp_all

lemma keeps_option:
  "(x = None \<Longrightarrow> keeps P f) \<Longrightarrow> (\<And>a. x = Some a \<Longrightarrow> keeps P (g a)) \<Longrightarrow>
   keeps P (\<lambda>s. case x of None \<Rightarrow> f s | Some a \<Rightarrow> g a s)"
  by (cases x) simp_all

lemma keeps_sum:
  "(\<And>e. x = Inl e \<Longrightarrow> keeps P (f e)) \<Longrightarrow> (\<And>a. x = Inr a \<Longrightarrow> keeps P (g a)) \<Longrightarrow>
   keeps P (\<lambda>s. case x of Inl e \<Rightarrow> f e s | Inr a \<Rightarrow> g a s)"
  by (cases x) simp_all

lemma keeps_return: "keeps P (\<lambda>s. (a, s))"
  by (simp add: keeps_def)

text \<open>
  Transactions: a property that ignores faults and the session, and that a rollback to a
  state with it keeps.
\<close>

definition session_blind :: "(db \<Rightarrow> bool) \<Rightarrow> bool" where
  "session_blind P \<longleftrightarrow>
     (\<forall>s fs t. P (s\<lparr>db_faults := fs\<rparr>) = P s \<and> P (s\<lparr>db_tenant := t\<rparr>) = P s)"

lemma session_blind_faults: "session_blind P \<Longrightarrow> fault_blind P"
  by (simp add: session_blind_def fault_blind_def)

lemma keeps_set_tenant: "session_blind P \<Longrightarrow> keeps P (\<lambda>s. (a, s\<lparr>db_tenant := t\<rparr>))"
  by (simp add: keeps_def session_blind_def)

lemma reset_tenant_keeps:
  assumes "session_blind P" "P s"
  shows "P (reset_tenant s)"
proof -
  have "keeps P (sql (\<lambda>s. ((), s\<lparr>db_tenant := None\<rparr>)) :: db \<Rightarrow> (unit go_error + unit) \<times> db)"
    by (rule keeps_sql [OF session_blind_faults [OF assms(1)] keeps_set_tenant [OF assms(1)]])
  then show ?thesis using assms(2) by (simp add: reset_tenant_def keeps_def)
qed

lemma acquire_keeps:
  assumes "session_blind P"
  shows "keeps P (acquire t :: db \<Rightarrow> ('e go_error + unit) \<times> db)"
proof (rule keepsI)
  fix s assume P: "P s"
  obtain r1 :: "'e go_error + unit" and s1 where 1: "sql (\<lambda>s. ((), s)) s = (r1, s1)" by fastforce
  obtain r2 :: "'e go_error + unit" and s2 where
    2: "sql (\<lambda>s. ((), s\<lparr>db_tenant := Some t\<rparr>)) s1 = (r2, s2)" by fastforce
  have p1: "P s1"
    by (rule keepsD [OF keeps_sql [OF session_blind_faults [OF assms] keeps_return] P 1])
  then have p2: "P s2"
    by (rule keepsD [OF keeps_sql [OF session_blind_faults [OF assms] keeps_set_tenant [OF assms]] _ 2])
  show "P (snd (acquire t s :: ('e go_error + unit) \<times> db))"
    using p1 p2 reset_tenant_keeps [OF assms p2] by (simp add: acquire_def 1 2 split: sum.splits)
qed

lemma WithTenantConnection_keeps:
  assumes "session_blind P" "keeps P fn"
  shows "keeps P (WithTenantConnection t fn :: db \<Rightarrow> ('e go_error + 'a) \<times> db)"
proof (rule keepsI)
  fix s assume P: "P s"
  obtain r1 :: "'e go_error + unit" and s1 where 1: "acquire t s = (r1, s1)" by fastforce
  obtain r2 s2 where 2: "fn s1 = (r2, s2)" by fastforce
  have p1: "P s1" by (rule keepsD [OF acquire_keeps [OF assms(1)] P 1])
  have "P s2" by (rule keepsD [OF assms(2) p1 2])
  with p1 reset_tenant_keeps [OF assms(1)] show "P (snd (WithTenantConnection t fn s))"
    by (simp add: WithTenantConnection_def 1 2 split: sum.splits)
qed

section \<open>Atomicity\<close>

definition same_tables :: "db \<Rightarrow> db \<Rightarrow> bool" where
  "same_tables s s' \<longleftrightarrow>
     db_tenants s' = db_tenants s \<and> db_users s' = db_users s \<and> db_links s' = db_links s \<and> db_credentials s' = db_credentials s \<and>
     db_messages s' = db_messages s \<and> db_outbox s' = db_outbox s \<and>
     db_approvals s' = db_approvals s \<and> db_actions s' = db_actions s \<and>
     db_agents s' = db_agents s \<and> db_connectors s' = db_connectors s \<and>
     db_settings s' = db_settings s \<and> db_knowledge_bases s' = db_knowledge_bases s \<and>
     db_kb_grants s' = db_kb_grants s \<and> db_user_roles s' = db_user_roles s \<and>
     db_roles s' = db_roles s \<and> db_departments s' = db_departments s \<and>
     db_user_departments s' = db_user_departments s \<and> db_families s' = db_families s \<and>
     db_invites s' = db_invites s \<and> db_tenant_rows s' = db_tenant_rows s"

lemma same_tables_blind: "session_blind (same_tables s)"
  by (simp add: session_blind_def same_tables_def)

lemma same_tables_refl [simp]: "same_tables s s"
  by (simp add: same_tables_def)

lemma same_tables_trans: "same_tables s t \<Longrightarrow> same_tables t u \<Longrightarrow> same_tables s u"
  by (simp add: same_tables_def)

text \<open>The body of a tenant connection runs on the same tables, with the tenant set.\<close>

lemma acquire_Inr:
  assumes "acquire t s = (Inr u, s1)"
  shows "db_tenant s1 = Some t \<and> same_tables s s1"
proof -
  obtain r1 :: "'a go_error + unit" and s0 where 1: "sql (\<lambda>s. ((), s)) s = (r1, s0)" by fastforce
  obtain r2 :: "'a go_error + unit" and s2 where
    2: "sql (\<lambda>s. ((), s\<lparr>db_tenant := Some t\<rparr>)) s0 = (r2, s2)" by fastforce
  have "same_tables s s1"
    by (rule keepsD [OF acquire_keeps [OF same_tables_blind] same_tables_refl assms])
  moreover have "db_tenant s1 = Some t"
    using assms 1 2 by (auto simp: acquire_def split: sum.splits dest!: sql_Inr)
  ultimately show ?thesis by simp
qed

lemma WithTenantConnection_Inr:
  assumes "WithTenantConnection t fn s = (Inr a, s')"
  obtains s1 s2 where "db_tenant s1 = Some t" "same_tables s s1" "fn s1 = (Inr a, s2)"
    "s' = reset_tenant s2"
proof -
  obtain r1 :: "'a go_error + unit" and s1 where 1: "acquire t s = (r1, s1)" by fastforce
  with assms obtain u where u: "r1 = Inr u" by (cases r1) (auto simp: WithTenantConnection_def)
  with assms 1 obtain s2 where "fn s1 = (Inr a, s2)" "s' = reset_tenant s2"
    by (auto simp: WithTenantConnection_def split: prod.splits)
  with acquire_Inr [OF 1 [unfolded u]] show thesis using that by blast
qed

text \<open>Without faults the body runs with the tenant set, and the setting is gone afterwards.\<close>

lemma connection_no_faults:
  assumes "db_faults s = []" "fn (s\<lparr>db_tenant := Some t\<rparr>) = (r, s2)" "db_faults s2 = []"
  shows "WithTenantConnection t fn s = (r, s2\<lparr>db_tenant := None\<rparr>)"
  using assms by (simp add: WithTenantConnection_def acquire_def reset_tenant_def)

lemma keeps_nop:
  "same_tables s0 s \<Longrightarrow> sql (\<lambda>s. ((), s)) s = (r, s') \<Longrightarrow> same_tables s0 s'"
  by (rule keepsD [OF keeps_sql [OF session_blind_faults [OF same_tables_blind] keeps_return]])

lemma rollback_tables: "same_tables s0 s1 \<Longrightarrow> same_tables s0 (rollback_to s1 s2)"
  by (simp add: same_tables_def rollback_to_def)

lemma run_transaction_rollback:
  assumes "run_transaction fn s = (Inl e, s')"
  shows "same_tables s s'"
proof -
  obtain r1 :: "'a go_error + unit" and s1 where 1: "sql (\<lambda>s. ((), s)) s = (r1, s1)" by fastforce
  then have s1: "same_tables s s1" by (rule keeps_nop [OF same_tables_refl])
  with assms 1 show ?thesis
    by (auto simp: run_transaction_def rollback_tables split: sum.splits prod.splits)
qed

text \<open>A tenant transaction is atomic. Whatever the body does and at whatever point a driver
  fault, an error of the body or a failing commit stops it, a call that returns an error
  leaves every table as it was.
\<close>

theorem transaction_atomic:
  assumes "WithTenantTransaction t fn s = (Inl e, s')"
  shows "same_tables s s'"
proof -
  obtain r1 :: "'a go_error + unit" and s1 where 1: "acquire t s = (r1, s1)" by fastforce
  have s1: "same_tables s s1"
    by (rule keepsD [OF acquire_keeps [OF same_tables_blind] same_tables_refl 1])
  show ?thesis
  proof (cases r1)
    case (Inl x)
    with assms 1 s1 show ?thesis by (simp add: WithTenantTransaction_def WithTenantConnection_def)
  next
    case (Inr u)
    with assms 1 obtain s2 where 2: "run_transaction fn s1 = (Inl e, s2)" and s': "s' = reset_tenant s2"
      by (auto simp: WithTenantTransaction_def WithTenantConnection_def split: prod.splits)
    from run_transaction_rollback [OF 2] s1 have "same_tables s s2" by (rule same_tables_trans [rotated])
    then show ?thesis unfolding s' by (rule reset_tenant_keeps [OF same_tables_blind])
  qed
qed

theorem transaction_atomic_witness:
  "\<exists>s'. WithTenantTransaction 7
     (\<lambda>s. (Inl (NewError ''stop'') :: unit go_error + unit, s\<lparr>db_tenants := [7]\<rparr>)) empty_db =
       (Inl (NewError ''stop''), s') \<and> same_tables empty_db s'"
proof -
  let ?r = "WithTenantTransaction 7
     (\<lambda>s. (Inl (NewError ''stop'') :: unit go_error + unit, s\<lparr>db_tenants := [7]\<rparr>)) empty_db"
  have "?r = (Inl (NewError ''stop''), snd ?r)"
    by (simp add: WithTenantTransaction_def WithTenantConnection_def acquire_def run_transaction_def
        reset_tenant_def empty_db_def)
  then show ?thesis using transaction_atomic [of 7 _ empty_db] by metis
qed

end
