(* ===== verification/Governed_Actions.thy ===== *)
theory Governed_Actions
  imports Database
begin

text \<open>
  Governed connector actions (\<open>internal/connectors/actions.go\<close>): the store of write actions
  that need approval, and the machine of their status.

  The table is under forced row-level security, so an insert for another tenant than the
  session's is refused by the database.
\<close>

section \<open>Errors and parameters\<close>

datatype gov_sentinel =
    ErrApprovalNotFound
  | ErrApprovalNotPending
  | ErrApprovalSelfReview
  | ErrGovernedActionNotFound
  | ErrGovernedActionInvalidTransition

type_synonym gov_error = "gov_sentinel go_error"
type_synonym 'a gov_op = "db \<Rightarrow> (gov_error + 'a) \<times> db"

text \<open>A status of \<open>None\<close> is the empty string.\<close>

record CreateGovernedActionParams =
  gp_TenantID :: uuid
  gp_AgentID :: "uuid option"
  gp_ConnectorID :: uuid
  gp_SessionID :: string
  gp_CorrelationID :: string
  gp_ToolName :: string
  gp_RiskClass :: string
  gp_TargetType :: string
  gp_TargetLabel :: string
  gp_ActionSummary :: string
  gp_Arguments :: raw_json
  gp_Status :: "GovernedActionStatus option"

section \<open>Operations\<close>

text \<open>
  The column \<open>arguments\<close> is JSONB: text that is no JSON is refused, and so is a row the
  policy of the table does not admit.
\<close>

definition insert_action ::
  "CreateGovernedActionParams \<Rightarrow> raw_json \<Rightarrow> GovernedActionStatus \<Rightarrow> db \<Rightarrow>
   (string + GovernedAction) \<times> db" where
  "insert_action p args st s =
     (if \<not> json_Valid args then (Inl ''invalid input syntax for type json'', s)
      else if \<not> own s (gp_TenantID p) then (Inl ''new row violates row-level security policy'', s)
      else
        (let row = \<lparr>ga_ID = db_next s, ga_TenantID = gp_TenantID p, ga_AgentID = gp_AgentID p,
                    ga_ApprovalRequestID = None, ga_ConnectorID = gp_ConnectorID p,
                    ga_SessionID = gp_SessionID p, ga_CorrelationID = gp_CorrelationID p,
                    ga_ToolName = gp_ToolName p, ga_RiskClass = gp_RiskClass p,
                    ga_TargetType = gp_TargetType p, ga_TargetLabel = gp_TargetLabel p,
                    ga_ActionSummary = gp_ActionSummary p, ga_Arguments = args, ga_Status = st,
                    ga_CreatedAt = db_now s, ga_UpdatedAt = db_now s\<rparr>
         in (Inr row, s\<lparr>db_actions := db_actions s @ [row], db_next := Suc (db_next s)\<rparr>)))"

definition ga_Create :: "CreateGovernedActionParams \<Rightarrow> GovernedAction gov_op" where
  "ga_Create params s =
     (let args = (if gp_Arguments params = RawEmpty then RawJSON (JObj []) else gp_Arguments params);
          st = (case gp_Status params of None \<Rightarrow> GovernedActionStatusPending | Some st \<Rightarrow> st) in
      wrap_err ''creating governed connector action'' (checked (sql (insert_action params args st) s)))"

definition ga_GetByID :: "uuid \<Rightarrow> GovernedAction gov_op" where
  "ga_GetByID i s =
     query_row ''getting governed connector action'' ErrGovernedActionNotFound
       (sql (\<lambda>s. (find (\<lambda>r. ga_ID r = i \<and> own s (ga_TenantID r)) (db_actions s), s)) s)"

definition move_action ::
  "uuid option \<Rightarrow> GovernedActionStatus \<Rightarrow> gotime \<Rightarrow> GovernedAction \<Rightarrow> GovernedAction" where
  "move_action approvalRef nextStatus t r =
     r\<lparr>ga_Status := nextStatus,
       ga_ApprovalRequestID := (case approvalRef of None \<Rightarrow> ga_ApprovalRequestID r | Some a \<Rightarrow> Some a),
       ga_UpdatedAt := t\<rparr>"

text \<open>\<open>approval_request_id\<close> refers to a row of \<open>approval_requests\<close>.\<close>

definition update_action ::
  "uuid \<Rightarrow> uuid option \<Rightarrow> GovernedActionStatus \<Rightarrow> GovernedActionStatus list \<Rightarrow> db \<Rightarrow>
   (string + GovernedAction option) \<times> db" where
  "update_action i approvalRef nextStatus allowed s =
     (let p = (\<lambda>r. ga_ID r = i \<and> own s (ga_TenantID r) \<and> ga_Status r \<in> set allowed);
          f = move_action approvalRef nextStatus (db_now s) in
      case find p (db_actions s) of
        None \<Rightarrow> (Inr None, s)
      | Some r \<Rightarrow>
          if approvalRef \<noteq> None \<and> approvalRef \<notin> Some ` set (map rq_ID (db_approvals s))
          then (Inl ''foreign key violation: approval_request_id'', s)
          else (Inr (Some (f r)), s\<lparr>db_actions := upd_where p f (db_actions s)\<rparr>))"

definition updateStatus ::
  "uuid \<Rightarrow> uuid \<Rightarrow> GovernedActionStatus \<Rightarrow> GovernedActionStatus list \<Rightarrow> GovernedAction gov_op" where
  "updateStatus i approvalID nextStatus allowed s =
     (let approvalRef = (if approvalID \<noteq> uuid_Nil then Some approvalID else None) in
      case checked (sql (update_action i approvalRef nextStatus allowed) s) of
        (Inl e, s1) \<Rightarrow> (Inl (Wrap ''updating governed connector action'' e), s1)
      | (Inr None, s1) \<Rightarrow>
          (case ga_GetByID i s1 of
             (Inl e, s2) \<Rightarrow> (Inl e, s2)
           | (Inr _, s2) \<Rightarrow> (Inl (Sentinel ErrGovernedActionInvalidTransition), s2))
      | (Inr (Some a), s1) \<Rightarrow> (Inr a, s1))"

definition MarkAwaitingApproval :: "uuid \<Rightarrow> uuid \<Rightarrow> GovernedAction gov_op" where
  "MarkAwaitingApproval i approvalID =
     updateStatus i approvalID GovernedActionStatusAwaitingApproval [GovernedActionStatusPending]"

definition MarkApproved :: "uuid \<Rightarrow> GovernedAction gov_op" where
  "MarkApproved i =
     updateStatus i uuid_Nil GovernedActionStatusApproved
       [GovernedActionStatusAwaitingApproval, GovernedActionStatusPending]"

definition MarkDenied :: "uuid \<Rightarrow> GovernedAction gov_op" where
  "MarkDenied i =
     updateStatus i uuid_Nil GovernedActionStatusDenied
       [GovernedActionStatusAwaitingApproval, GovernedActionStatusPending]"

definition MarkExecuted :: "uuid \<Rightarrow> GovernedAction gov_op" where
  "MarkExecuted i =
     updateStatus i uuid_Nil GovernedActionStatusExecuted
       [GovernedActionStatusApproved, GovernedActionStatusPending]"

definition MarkFailed :: "uuid \<Rightarrow> GovernedAction gov_op" where
  "MarkFailed i =
     updateStatus i uuid_Nil GovernedActionStatusFailed
       [GovernedActionStatusPending, GovernedActionStatusAwaitingApproval, GovernedActionStatusApproved]"

section \<open>The machine of an action\<close>

inductive act_step :: "GovernedActionStatus \<Rightarrow> GovernedActionStatus \<Rightarrow> bool" where
  await: "act_step GovernedActionStatusPending GovernedActionStatusAwaitingApproval"
| approve: "st \<in> {GovernedActionStatusPending, GovernedActionStatusAwaitingApproval} \<Longrightarrow>
    act_step st GovernedActionStatusApproved"
| deny: "st \<in> {GovernedActionStatusPending, GovernedActionStatusAwaitingApproval} \<Longrightarrow>
    act_step st GovernedActionStatusDenied"
| execute: "st \<in> {GovernedActionStatusPending, GovernedActionStatusApproved} \<Longrightarrow>
    act_step st GovernedActionStatusExecuted"
| fail: "st \<in> {GovernedActionStatusPending, GovernedActionStatusAwaitingApproval,
             GovernedActionStatusApproved} \<Longrightarrow> act_step st GovernedActionStatusFailed"

inductive_cases act_step_denied: "act_step GovernedActionStatusDenied st"
inductive_cases act_step_executed: "act_step GovernedActionStatusExecuted st"
inductive_cases act_step_failed: "act_step GovernedActionStatusFailed st"
inductive_cases act_step_awaiting: "act_step GovernedActionStatusAwaitingApproval st"

definition terminal :: "GovernedActionStatus \<Rightarrow> bool" where
  "terminal st \<longleftrightarrow>
     st \<in> {GovernedActionStatusDenied, GovernedActionStatusExecuted, GovernedActionStatusFailed}"

text \<open>What is decided about is what was asked for: these columns never change.\<close>

definition same_action :: "GovernedAction \<Rightarrow> GovernedAction \<Rightarrow> bool" where
  "same_action r r' \<longleftrightarrow>
     ga_ID r' = ga_ID r \<and> ga_TenantID r' = ga_TenantID r \<and> ga_AgentID r' = ga_AgentID r \<and>
     ga_ConnectorID r' = ga_ConnectorID r \<and> ga_ToolName r' = ga_ToolName r \<and>
     ga_Arguments r' = ga_Arguments r \<and> ga_RiskClass r' = ga_RiskClass r"

text \<open>
  What one operation may do to a row: nothing, or one edge of the machine, for the session's
  own tenant and for the target of the operation only.
\<close>

definition action_row_step ::
  "uuid option \<Rightarrow> (uuid \<times> GovernedActionStatus) option \<Rightarrow> GovernedAction \<Rightarrow> GovernedAction \<Rightarrow> bool" where
  "action_row_step t tgt r r' \<longleftrightarrow>
     r' = r \<or> (tgt = Some (ga_ID r, ga_Status r') \<and> t = Some (ga_TenantID r) \<and> same_action r r' \<and>
              act_step (ga_Status r) (ga_Status r'))"

text \<open>Rows step in place; an insert appends rows.\<close>

definition actions_step :: "(uuid \<times> GovernedActionStatus) option \<Rightarrow> db \<Rightarrow> db \<Rightarrow> bool" where
  "actions_step tgt s s' \<longleftrightarrow> db_tenant s' = db_tenant s \<and>
     (\<exists>ys zs. db_actions s' = ys @ zs \<and>
        list_all2 (action_row_step (db_tenant s) tgt) (db_actions s) ys)"

section \<open>Calls\<close>

datatype action_call =
    AcSession "uuid option" gotime "string option list"
  | AcCreate CreateGovernedActionParams
  | AcGet uuid
  | AcAwait uuid uuid
  | AcApprove uuid
  | AcDeny uuid
  | AcExecute uuid
  | AcFail uuid

fun exec_action :: "action_call \<Rightarrow> db \<Rightarrow> db" where
  "exec_action (AcSession t now fs) s = s\<lparr>db_tenant := t, db_now := now, db_faults := fs\<rparr>"
| "exec_action (AcCreate p) s = snd (ga_Create p s)"
| "exec_action (AcGet i) s = snd (ga_GetByID i s)"
| "exec_action (AcAwait i a) s = snd (MarkAwaitingApproval i a s)"
| "exec_action (AcApprove i) s = snd (MarkApproved i s)"
| "exec_action (AcDeny i) s = snd (MarkDenied i s)"
| "exec_action (AcExecute i) s = snd (MarkExecuted i s)"
| "exec_action (AcFail i) s = snd (MarkFailed i s)"

fun exec_actions :: "action_call list \<Rightarrow> db \<Rightarrow> db" where
  "exec_actions [] s = s"
| "exec_actions (c # cs) s = exec_actions cs (exec_action c s)"

fun target :: "action_call \<Rightarrow> (uuid \<times> GovernedActionStatus) option" where
  "target (AcAwait i _) = Some (i, GovernedActionStatusAwaitingApproval)"
| "target (AcApprove i) = Some (i, GovernedActionStatusApproved)"
| "target (AcDeny i) = Some (i, GovernedActionStatusDenied)"
| "target (AcExecute i) = Some (i, GovernedActionStatusExecuted)"
| "target (AcFail i) = Some (i, GovernedActionStatusFailed)"
| "target _ = None"

section \<open>Every operation is a step\<close>

lemma action_row_step_refl [simp]: "action_row_step t tgt r r"
  by (simp add: action_row_step_def)

lemma actions_stepI:
  "list_all2 (action_row_step (db_tenant s) tgt) (db_actions s) ys \<Longrightarrow> db_actions s' = ys @ zs \<Longrightarrow>
   db_tenant s' = db_tenant s \<Longrightarrow> actions_step tgt s s'"
  unfolding actions_step_def by blast

lemma actions_step_same:
  "db_actions s' = db_actions s @ zs \<Longrightarrow> db_tenant s' = db_tenant s \<Longrightarrow> actions_step tgt s s'"
  by (rule actions_stepI [of _ _ "db_actions s"]) (simp_all add: list_all2_refl)

lemma actions_step_refl [simp]: "actions_step tgt s s"
  by (rule actions_step_same [of _ _ "[]"]) simp_all

lemma actions_step_faults [simp]:
  "actions_step tgt (s\<lparr>db_faults := fs\<rparr>) t = actions_step tgt s t"
  "actions_step tgt s (t\<lparr>db_faults := fs\<rparr>) = actions_step tgt s t"
  by (simp_all add: actions_step_def)

lemma update_action_step:
  assumes "\<And>st. st \<in> set allowed \<Longrightarrow> act_step st nextStatus"
  shows "actions_step (Some (i, nextStatus)) s (snd (update_action i a nextStatus allowed s))"
proof -
  let ?p = "\<lambda>r. ga_ID r = i \<and> own s (ga_TenantID r) \<and> ga_Status r \<in> set allowed"
  let ?f = "move_action a nextStatus (db_now s)"
  have "list_all2 (action_row_step (db_tenant s) (Some (i, nextStatus))) (db_actions s)
      (upd_where ?p ?f (db_actions s))"
    using assms
    by (auto simp: upd_where_def list_all2_map2 action_row_step_def same_action_def move_action_def
        own_def intro!: list.rel_refl_strong)
  then have "actions_step (Some (i, nextStatus)) s (s\<lparr>db_actions := upd_where ?p ?f (db_actions s)\<rparr>)"
    by (rule actions_stepI [where zs = "[]"]) simp_all
  then show ?thesis by (simp add: update_action_def Let_def split: option.splits)
qed

lemma insert_action_step: "actions_step None s (snd (insert_action p args st s))"
  by (auto simp: insert_action_def Let_def intro: actions_step_same)

lemma sql_actions_step:
  assumes "\<And>s. actions_step tgt s (snd (stmt s))"
  shows "actions_step tgt s (snd (sql stmt s :: ('e go_error + 'a) \<times> db))"
proof -
  obtain r :: "'e go_error + 'a" and s' where rs: "sql stmt s = (r, s')" by fastforce
  then have "actions_step tgt s s'"
  proof (cases rule: sql_cases)
    case (ok fs a)
    then show ?thesis using assms [of "s\<lparr>db_faults := fs\<rparr>"] by simp
  qed simp
  with rs show ?thesis by simp
qed

lemma ga_GetByID_state: "snd (ga_GetByID i s) = s\<lparr>db_faults := tl (db_faults s)\<rparr>"
  by (simp add: ga_GetByID_def sql_def split: list.splits option.splits)

lemma updateStatus_state:
  "\<exists>fs. snd (updateStatus i a st allowed s) =
     (snd (sql (update_action i (if a \<noteq> 0 then Some a else None) st allowed) s
        :: (gov_error + _) \<times> db))\<lparr>db_faults := fs\<rparr>"
proof -
  let ?u = "sql (update_action i (if a \<noteq> 0 then Some a else None) st allowed) s
        :: (gov_error + _) \<times> db"
  obtain r s1 where u: "checked ?u = (r, s1)" by fastforce
  then have s1: "snd ?u = s1" by (metis snd_checked snd_conv)
  have "snd (updateStatus i a st allowed s) = s1 \<or>
      snd (updateStatus i a st allowed s) = snd (ga_GetByID i s1)"
    unfolding updateStatus_def Let_def u by (auto split: prod.splits sum.splits option.splits)
  then show ?thesis
  proof
    assume "snd (updateStatus i a st allowed s) = s1"
    then show ?thesis unfolding s1 by (intro exI [of _ "db_faults s1"]) simp
  next
    assume "snd (updateStatus i a st allowed s) = snd (ga_GetByID i s1)"
    then show ?thesis unfolding s1 ga_GetByID_state by blast
  qed
qed

lemma updateStatus_step:
  assumes "\<And>st. st \<in> set allowed \<Longrightarrow> act_step st nextStatus"
  shows "actions_step (Some (i, nextStatus)) s (snd (updateStatus i a nextStatus allowed s))"
proof -
  have "actions_step (Some (i, nextStatus)) s
      (snd (sql (update_action i (if a \<noteq> 0 then Some a else None) nextStatus allowed) s
        :: (gov_error + _) \<times> db))"
    by (rule sql_actions_step, rule update_action_step, rule assms)
  moreover obtain fs where "snd (updateStatus i a nextStatus allowed s) =
     (snd (sql (update_action i (if a \<noteq> 0 then Some a else None) nextStatus allowed) s
        :: (gov_error + _) \<times> db))\<lparr>db_faults := fs\<rparr>"
    using updateStatus_state by blast
  ultimately show ?thesis by simp
qed

lemmas mark_defs = MarkAwaitingApproval_def MarkApproved_def MarkDenied_def MarkExecuted_def
  MarkFailed_def

lemma mark_steps:
  "actions_step (Some (i, GovernedActionStatusAwaitingApproval)) s (snd (MarkAwaitingApproval i a s))"
  "actions_step (Some (i, GovernedActionStatusApproved)) s (snd (MarkApproved i s))"
  "actions_step (Some (i, GovernedActionStatusDenied)) s (snd (MarkDenied i s))"
  "actions_step (Some (i, GovernedActionStatusExecuted)) s (snd (MarkExecuted i s))"
  "actions_step (Some (i, GovernedActionStatusFailed)) s (snd (MarkFailed i s))"
  unfolding mark_defs by (rule updateStatus_step, force intro: act_step.intros)+

lemma create_step: "actions_step None s (snd (ga_Create p s))"
proof -
  have "actions_step None s (snd (sql (insert_action p args st) s :: (gov_error + _) \<times> db))" for args st
    by (rule sql_actions_step, rule insert_action_step)
  then show ?thesis by (simp add: ga_Create_def Let_def)
qed

lemma exec_action_step:
  "(\<And>t n f. c \<noteq> AcSession t n f) \<Longrightarrow> actions_step (target c) s (exec_action c s)"
  by (cases c) (auto simp: mark_steps create_step ga_GetByID_state)

text \<open>What becomes of the row at one place of the table.\<close>

lemma exec_action_row:
  assumes "k < length (db_actions s)"
  shows "k < length (db_actions (exec_action c s)) \<and>
    (db_actions (exec_action c s) ! k = db_actions s ! k \<or>
     (target c = Some (ga_ID (db_actions s ! k), ga_Status (db_actions (exec_action c s) ! k)) \<and>
      same_action (db_actions s ! k) (db_actions (exec_action c s) ! k) \<and>
      act_step (ga_Status (db_actions s ! k)) (ga_Status (db_actions (exec_action c s) ! k))))"
proof (cases "\<exists>t n f. c = AcSession t n f")
  case True
  with assms show ?thesis by auto
next
  case False
  then obtain ys zs where "db_actions (exec_action c s) = ys @ zs"
    and "list_all2 (action_row_step (db_tenant s) (target c)) (db_actions s) ys"
    using exec_action_step [of c s] by (auto simp: actions_step_def)
  with assms show ?thesis
    by (auto simp: list_all2_conv_all_nth nth_append action_row_step_def)
qed

section \<open>Properties\<close>

definition sample_action :: "GovernedActionStatus \<Rightarrow> GovernedAction" where
  "sample_action st =
     \<lparr>ga_ID = 1, ga_TenantID = 7, ga_AgentID = Some 3, ga_ApprovalRequestID = Some 2,
      ga_ConnectorID = 4, ga_SessionID = ''s'', ga_CorrelationID = ''c'', ga_ToolName = ''pay'',
      ga_RiskClass = ''external_writes'', ga_TargetType = ''connector_action'',
      ga_TargetLabel = ''bank:pay'', ga_ActionSummary = ''pay via bank'',
      ga_Arguments = RawJSON (JObj []), ga_Status = st, ga_CreatedAt = 1, ga_UpdatedAt = 1\<rparr>"

definition sample_actions_db :: "GovernedActionStatus \<Rightarrow> db" where
  "sample_actions_db st =
     empty_db\<lparr>db_tenant := Some 7, db_now := 5, db_next := 9, db_actions := [sample_action st]\<rparr>"

text \<open>A decision is final. Once an action is denied, executed or failed, no sequence of
  operations, sessions and driver faults changes its row.
\<close>

theorem action_decision_final:
  assumes "k < length (db_actions s)" "terminal (ga_Status (db_actions s ! k))"
  shows "k < length (db_actions (exec_actions cs s)) \<and>
    db_actions (exec_actions cs s) ! k = db_actions s ! k"
  using assms
proof (induction cs arbitrary: s)
  case (Cons c cs)
  have "db_actions (exec_action c s) ! k = db_actions s ! k"
    using exec_action_row [OF Cons.prems(1), of c] Cons.prems(2)
    by (auto simp: terminal_def elim: act_step_denied act_step_executed act_step_failed)
  moreover have "k < length (db_actions (exec_action c s))"
    using exec_action_row [OF Cons.prems(1)] by blast
  ultimately show ?case using Cons.IH [of "exec_action c s"] Cons.prems(2) by simp
qed simp

theorem action_decision_final_witness:
  "db_actions (exec_actions [AcApprove 1, AcExecute 1]
     (sample_actions_db GovernedActionStatusDenied)) ! 0 = sample_action GovernedActionStatusDenied"
  using action_decision_final [of 0 "sample_actions_db GovernedActionStatusDenied"
      "[AcApprove 1, AcExecute 1]"]
  by (simp add: sample_actions_db_def sample_action_def terminal_def del: exec_actions.simps)

text \<open>
  C26: No execution without approval. An action that waits for approval is never executed, and
  its tool, arguments and connector never change, by any sequence of operations in which
  nobody approves that very action; the only ways on are denial and failure.
\<close>

theorem no_execution_without_approval:
  assumes "k < length (db_actions s)"
    and "ga_Status (db_actions s ! k) = GovernedActionStatusAwaitingApproval"
    and "AcApprove (ga_ID (db_actions s ! k)) \<notin> set cs"
  shows "same_action (db_actions s ! k) (db_actions (exec_actions cs s) ! k) \<and>
    ga_Status (db_actions (exec_actions cs s) ! k) \<in>
      {GovernedActionStatusAwaitingApproval, GovernedActionStatusDenied, GovernedActionStatusFailed}"
proof -
  let ?ok = "{GovernedActionStatusAwaitingApproval, GovernedActionStatusDenied,
    GovernedActionStatusFailed}"
  have "same_action (db_actions s ! k) (db_actions (exec_actions cs s) ! k) \<and>
      ga_Status (db_actions (exec_actions cs s) ! k) \<in> ?ok"
    if "k < length (db_actions s)" "ga_Status (db_actions s ! k) \<in> ?ok"
      "AcApprove (ga_ID (db_actions s ! k)) \<notin> set cs"
    using that
  proof (induction cs arbitrary: s)
    case (Cons c cs)
    let ?r = "db_actions s ! k" and ?r' = "db_actions (exec_action c s) ! k"
    note row = exec_action_row [OF Cons.prems(1), of c]
    have "target c \<noteq> Some (ga_ID ?r, GovernedActionStatusApproved)"
      using Cons.prems(3) by (cases c) auto
    then have 1: "same_action ?r ?r' \<and> ga_Status ?r' \<in> ?ok"
      using row Cons.prems(2)
      by (auto simp: same_action_def elim: act_step_denied act_step_failed act_step_awaiting)
    moreover from 1 have "ga_ID ?r' = ga_ID ?r" by (simp add: same_action_def)
    ultimately show ?case
      using Cons.IH [of "exec_action c s"] row Cons.prems(3) by (auto simp: same_action_def)
  qed (simp add: same_action_def)
  with assms show ?thesis by blast
qed

theorem no_execution_without_approval_witness:
  "ga_Status (db_actions (exec_actions [AcExecute 1, AcApprove 2, AcExecute 1]
     (sample_actions_db GovernedActionStatusAwaitingApproval)) ! 0) \<in>
   {GovernedActionStatusAwaitingApproval, GovernedActionStatusDenied, GovernedActionStatusFailed}"
  using no_execution_without_approval [of 0 "sample_actions_db GovernedActionStatusAwaitingApproval"
      "[AcExecute 1, AcApprove 2, AcExecute 1]"]
  by (simp add: sample_actions_db_def sample_action_def del: exec_actions.simps)

end
