(* ===== verification/Approvals.thy ===== *)
theory Approvals
  imports Governed_Actions
begin

text \<open>
  Approval requests (\<open>internal/approvals\<close>): creation, listing, resolution with its effect on
  the linked outbox job, the creation of an approval together with its governed action, and
  the HTTP handlers.

  \<open>uuid.Parse\<close> and \<open>UUID.String\<close> belong to a third-party package and are the parameters
  \<open>parse_uuid\<close> and \<open>show_uuid\<close>; \<open>bytes_of\<close> gives the text of a raw JSON message.
\<close>

section \<open>Parameters\<close>

record CreateParams =
  cp_TenantID :: uuid
  cp_AgentID :: "uuid option"
  cp_RequestedBy :: "uuid option"
  cp_ChannelOutboxID :: "uuid option"
  cp_RiskClass :: string
  cp_TargetType :: string
  cp_TargetLabel :: string
  cp_ActionSummary :: string
  cp_Metadata :: "(string \<times> json) list"
  cp_ExpiresAt :: "gotime option"

record ConnectorActionParams =
  ca_TenantID :: uuid
  ca_AgentID :: "uuid option"
  ca_RequestedBy :: "uuid option"
  ca_ConnectorID :: uuid
  ca_ConnectorName :: string
  ca_SessionID :: string
  ca_CorrelationID :: string
  ca_ToolName :: string
  ca_RiskClass :: string
  ca_TargetType :: string
  ca_TargetLabel :: string
  ca_ActionSummary :: string
  ca_Arguments :: raw_json
  ca_Metadata :: "(string \<times> json) list"
  ca_ExpiresAt :: "gotime option"

record ConnectorActionResult =
  cr_Approval :: Request
  cr_Action :: GovernedAction

record GovernedActionWriter =
  aw_Create :: "CreateGovernedActionParams \<Rightarrow> GovernedAction gov_op"
  aw_MarkAwaitingApproval :: "uuid \<Rightarrow> uuid \<Rightarrow> GovernedAction gov_op"

definition status_text :: "ApprovalStatus \<Rightarrow> string" where
  "status_text st =
     (case st of
        StatusPending \<Rightarrow> ''pending''
      | StatusApproved \<Rightarrow> ''approved''
      | StatusDenied \<Rightarrow> ''denied''
      | StatusExpired \<Rightarrow> ''expired''
      | StatusCancelled \<Rightarrow> ''cancelled'')"

section \<open>The store\<close>

text \<open>
  The table is under row-level security and its \<open>channel_outbox_id\<close> refers to a row of
  \<open>channel_outbox\<close>.
\<close>

definition insert_request :: "CreateParams \<Rightarrow> db \<Rightarrow> (string + Request) \<times> db" where
  "insert_request p s =
     (if \<not> visible s (cp_TenantID p) then (Inl ''new row violates row-level security policy'', s)
      else if cp_ChannelOutboxID p \<noteq> None \<and>
              cp_ChannelOutboxID p \<notin> Some ` set (map ob_ID (db_outbox s))
      then (Inl ''foreign key violation: channel_outbox_id'', s)
      else
        (let row = \<lparr>rq_ID = db_next s, rq_TenantID = cp_TenantID p, rq_AgentID = cp_AgentID p,
                    rq_RequestedBy = cp_RequestedBy p, rq_ReviewedBy = None,
                    rq_ChannelOutboxID = cp_ChannelOutboxID p, rq_RiskClass = cp_RiskClass p,
                    rq_Status = StatusPending, rq_TargetType = cp_TargetType p,
                    rq_TargetLabel = cp_TargetLabel p, rq_ActionSummary = cp_ActionSummary p,
                    rq_Metadata = cp_Metadata p, rq_CreatedAt = db_now s, rq_ReviewedAt = None,
                    rq_ExpiresAt = cp_ExpiresAt p\<rparr>
         in (Inr row, s\<lparr>db_approvals := db_approvals s @ [row], db_next := Suc (db_next s)\<rparr>)))"

definition rq_Create :: "CreateParams \<Rightarrow> Request gov_op" where
  "rq_Create params s =
     wrap_err ''creating approval request'' (checked (sql (insert_request params) s))"

definition normalizeConnectorTargetType :: "string \<Rightarrow> string" where
  "normalizeConnectorTargetType value = (if value = [] then ''connector_action'' else value)"

definition normalizeConnectorTargetLabel :: "string \<Rightarrow> string \<Rightarrow> string \<Rightarrow> string" where
  "normalizeConnectorTargetLabel value connectorName toolName =
     (if value \<noteq> [] then value
      else if connectorName \<noteq> [] then connectorName @ '':'' @ toolName
      else toolName)"

definition normalizeConnectorActionSummary :: "string \<Rightarrow> string \<Rightarrow> string \<Rightarrow> string" where
  "normalizeConnectorActionSummary value connectorName toolName =
     (if value \<noteq> [] then value
      else if connectorName \<noteq> [] then toolName @ '' via '' @ connectorName
      else toolName)"

definition approval_metadata ::
  "(uuid \<Rightarrow> string) \<Rightarrow> (raw_json \<Rightarrow> string) \<Rightarrow> ConnectorActionParams \<Rightarrow> GovernedAction \<Rightarrow>
   (string \<times> json) list" where
  "approval_metadata show_uuid bytes_of params action =
     (let m = ca_Metadata params;
          m = map_put ''connector_id'' (JStr (show_uuid (ca_ConnectorID params))) m;
          m = map_put ''connector_name'' (JStr (ca_ConnectorName params)) m;
          m = map_put ''tool_name'' (JStr (ca_ToolName params)) m;
          m = map_put ''governed_action_id'' (JStr (show_uuid (ga_ID action))) m;
          m = map_put ''correlation_id'' (JStr (ca_CorrelationID params)) m;
          m = map_put ''session_id'' (JStr (ca_SessionID params)) m
      in if ca_Arguments params \<noteq> RawEmpty
         then map_put ''arguments'' (JStr (bytes_of (ca_Arguments params))) m else m)"

definition action_params :: "ConnectorActionParams \<Rightarrow> CreateGovernedActionParams" where
  "action_params params =
     \<lparr>gp_TenantID = ca_TenantID params, gp_AgentID = ca_AgentID params,
      gp_ConnectorID = ca_ConnectorID params, gp_SessionID = ca_SessionID params,
      gp_CorrelationID = ca_CorrelationID params, gp_ToolName = ca_ToolName params,
      gp_RiskClass = ca_RiskClass params,
      gp_TargetType = normalizeConnectorTargetType (ca_TargetType params),
      gp_TargetLabel = normalizeConnectorTargetLabel (ca_TargetLabel params) (ca_ConnectorName params)
                         (ca_ToolName params),
      gp_ActionSummary = normalizeConnectorActionSummary (ca_ActionSummary params)
                           (ca_ConnectorName params) (ca_ToolName params),
      gp_Arguments = ca_Arguments params, gp_Status = Some GovernedActionStatusPending\<rparr>"

definition CreateForConnectorAction ::
  "(uuid \<Rightarrow> string) \<Rightarrow> (raw_json \<Rightarrow> string) \<Rightarrow> GovernedActionWriter option \<Rightarrow> ConnectorActionParams \<Rightarrow>
   ConnectorActionResult gov_op" where
  "CreateForConnectorAction show_uuid bytes_of actionWriter params s =
     (case actionWriter of
        None \<Rightarrow> (Inl (NewError ''governed action writer is required''), s)
      | Some w \<Rightarrow>
          (case aw_Create w (action_params params) s of
             (Inl e, s1) \<Rightarrow> (Inl (Wrap ''creating governed connector action'' e), s1)
           | (Inr action, s1) \<Rightarrow>
               (case rq_Create
                       \<lparr>cp_TenantID = ca_TenantID params, cp_AgentID = ca_AgentID params,
                        cp_RequestedBy = ca_RequestedBy params, cp_ChannelOutboxID = None,
                        cp_RiskClass = ca_RiskClass params, cp_TargetType = ga_TargetType action,
                        cp_TargetLabel = ga_TargetLabel action,
                        cp_ActionSummary = ga_ActionSummary action,
                        cp_Metadata = approval_metadata show_uuid bytes_of params action,
                        cp_ExpiresAt = ca_ExpiresAt params\<rparr> s1 of
                  (Inl e, s2) \<Rightarrow> (Inl (Wrap ''creating connector approval request'' e), s2)
                | (Inr approval, s2) \<Rightarrow>
                    (case aw_MarkAwaitingApproval w (ga_ID action) (rq_ID approval) s2 of
                       (Inl e, s3) \<Rightarrow>
                         (Inl (Wrap ''marking governed connector action awaiting approval'' e), s3)
                     | (Inr action, s3) \<Rightarrow>
                         (Inr \<lparr>cr_Approval = approval, cr_Action = action\<rparr>, s3)))))"

text \<open>The service of the same name; a service lacking a part is \<open>None\<close>.\<close>

definition service_CreateForConnectorAction ::
  "(uuid \<Rightarrow> string) \<Rightarrow> (raw_json \<Rightarrow> string) \<Rightarrow> GovernedActionWriter option \<Rightarrow> uuid \<Rightarrow>
   ConnectorActionParams \<Rightarrow> ConnectorActionResult gov_op" where
  "service_CreateForConnectorAction show_uuid bytes_of service tenantID params s =
     (case service of
        None \<Rightarrow> (Inl (NewError ''connector action service is not configured''), s)
      | Some w \<Rightarrow>
          WithTenantTransaction tenantID
            (CreateForConnectorAction show_uuid bytes_of (Some w) params) s)"

definition list_requests_stmt :: "uuid \<Rightarrow> string option \<Rightarrow> int \<Rightarrow> db \<Rightarrow> Request list \<times> db" where
  "list_requests_stmt tenantID status limit s =
     (select_order_limit
        (\<lambda>r. visible s (rq_TenantID r) \<and> rq_TenantID r = tenantID \<and>
             (case status of None \<Rightarrow> True | Some v \<Rightarrow> status_text (rq_Status r) = v))
        (\<lambda>r. - rq_CreatedAt r) limit (db_approvals s), s)"

definition rq_List :: "uuid \<Rightarrow> string option \<Rightarrow> int \<Rightarrow> Request list gov_op" where
  "rq_List tenantID status limit s =
     wrap_err ''listing approval requests'' (sql (list_requests_stmt tenantID status limit) s)"

definition getForResolve :: "uuid \<Rightarrow> uuid \<Rightarrow> Request gov_op" where
  "getForResolve approvalID tenantID s =
     query_row ''loading approval request'' ErrApprovalNotFound
       (sql (\<lambda>s. (find (\<lambda>r. visible s (rq_TenantID r) \<and> rq_ID r = approvalID \<and>
                           rq_TenantID r = tenantID) (db_approvals s), s)) s)"

definition resolved_request :: "ApprovalStatus \<Rightarrow> uuid \<Rightarrow> gotime \<Rightarrow> Request \<Rightarrow> Request" where
  "resolved_request status reviewerID t r =
     r\<lparr>rq_Status := status, rq_ReviewedBy := Some reviewerID, rq_ReviewedAt := Some t\<rparr>"

definition resolve_stmt ::
  "uuid \<Rightarrow> ApprovalStatus \<Rightarrow> uuid \<Rightarrow> uuid \<Rightarrow> db \<Rightarrow> Request option \<times> db" where
  "resolve_stmt approvalID status reviewerID tenantID s =
     (let p = (\<lambda>r. visible s (rq_TenantID r) \<and> rq_ID r = approvalID \<and> rq_Status r = StatusPending \<and>
                   rq_TenantID r = tenantID \<and>
                   (case rq_RequestedBy r of None \<Rightarrow> True | Some u \<Rightarrow> u \<noteq> reviewerID));
          f = resolved_request status reviewerID (db_now s) in
      (map_option f (find p (db_approvals s)),
       s\<lparr>db_approvals := upd_where p f (db_approvals s)\<rparr>))"

text \<open>The linked outbox job: back to the queue, or dead.\<close>

definition released_job :: "gotime \<Rightarrow> ChannelOutbox \<Rightarrow> ChannelOutbox" where
  "released_job t r =
     r\<lparr>ob_Status := OutboxStatusPending, ob_NextAttemptAt := t, ob_LastError := None,
       ob_LockedAt := None, ob_UpdatedAt := t\<rparr>"

definition refused_job :: "gotime \<Rightarrow> ChannelOutbox \<Rightarrow> ChannelOutbox" where
  "refused_job t r =
     r\<lparr>ob_Status := OutboxStatusDead, ob_LastError := Some ''approval denied'',
       ob_LockedAt := None, ob_UpdatedAt := t\<rparr>"

definition outbox_link_stmt :: "(gotime \<Rightarrow> ChannelOutbox \<Rightarrow> ChannelOutbox) \<Rightarrow> uuid \<Rightarrow> db \<Rightarrow> unit \<times> db" where
  "outbox_link_stmt f outboxID s =
     ((), s\<lparr>db_outbox := upd_where (\<lambda>r. visible s (ob_TenantID r) \<and> ob_ID r = outboxID \<and>
              ob_Status r = OutboxStatusPendingApproval) (f (db_now s)) (db_outbox s)\<rparr>)"

definition resolve :: "uuid \<Rightarrow> uuid \<Rightarrow> uuid \<Rightarrow> ApprovalStatus \<Rightarrow> Request gov_op" where
  "resolve approvalID reviewerID tenantID status s =
     (case getForResolve approvalID tenantID s of
        (Inl e, s1) \<Rightarrow> (Inl e, s1)
      | (Inr existing, s1) \<Rightarrow>
          if rq_RequestedBy existing = Some reviewerID then (Inl (Sentinel ErrApprovalSelfReview), s1)
          else if rq_Status existing \<noteq> StatusPending then (Inl (Sentinel ErrApprovalNotPending), s1)
          else
            (case query_row ''resolving approval request'' ErrApprovalNotPending
                    (sql (resolve_stmt approvalID status reviewerID tenantID) s1) of
               (Inl e, s2) \<Rightarrow> (Inl e, s2)
             | (Inr request, s2) \<Rightarrow>
                 (case rq_ChannelOutboxID request of
                    None \<Rightarrow> (Inr request, s2)
                  | Some outboxID \<Rightarrow>
                      (case sql (outbox_link_stmt
                               (if status = StatusApproved then released_job else refused_job) outboxID) s2 of
                         (Inl e, s3) \<Rightarrow> (Inl (Wrap ''updating linked outbox status'' e), s3)
                       | (Inr _, s3) \<Rightarrow> (Inr request, s3)))))"

definition Approve :: "uuid \<Rightarrow> uuid \<Rightarrow> uuid \<Rightarrow> Request gov_op" where
  "Approve approvalID reviewerID tenantID = resolve approvalID reviewerID tenantID StatusApproved"

definition Deny :: "uuid \<Rightarrow> uuid \<Rightarrow> uuid \<Rightarrow> Request gov_op" where
  "Deny approvalID reviewerID tenantID = resolve approvalID reviewerID tenantID StatusDenied"

section \<open>The handlers\<close>

datatype http_body =
    ErrorBody string
  | ApprovalBody Request
  | ApprovalsBody "Request list" nat

type_synonym http_response = "int \<times> http_body"

type_synonym resolver = "uuid \<Rightarrow> Request \<Rightarrow> bool \<Rightarrow> unit gov_op"

definition parseTenant :: "(string \<Rightarrow> uuid option) \<Rightarrow> string \<Rightarrow> http_response + uuid" where
  "parseTenant parse_uuid tenantIDStr =
     (case parse_uuid tenantIDStr of
        None \<Rightarrow> Inl (400, ErrorBody ''invalid tenant context'')
      | Some t \<Rightarrow> Inr t)"

definition resolveErrorResponse :: "gov_error \<Rightarrow> http_response" where
  "resolveErrorResponse err =
     (if errors_Is err ErrApprovalNotFound then (404, ErrorBody ''approval request not found'')
      else if errors_Is err ErrApprovalSelfReview
      then (403, ErrorBody ''approval requester cannot review their own approval'')
      else if errors_Is err ErrApprovalNotPending then (409, ErrorBody ''approval request is not pending'')
      else (500, ErrorBody ''resolution failed''))"

text \<open>\<open>pool\<close> says whether the handler has a database.\<close>

definition HandleList ::
  "(string \<Rightarrow> uuid option) \<Rightarrow> bool \<Rightarrow> string \<Rightarrow> string \<Rightarrow> string \<Rightarrow> db \<Rightarrow> http_response \<times> db" where
  "HandleList parse_uuid pool tenantIDStr rawLimit statusValue s =
     (case parseTenant parse_uuid tenantIDStr of
        Inl r \<Rightarrow> (r, s)
      | Inr tenantID \<Rightarrow>
          (let limit = (if rawLimit = [] then Some 50
                        else case Atoi rawLimit of
                            None \<Rightarrow> None
                          | Some n \<Rightarrow> if n \<le> 0 \<or> n > 200 then None else Some n) in
           case limit of
             None \<Rightarrow> ((400, ErrorBody ''limit must be between 1 and 200''), s)
           | Some n \<Rightarrow>
               if \<not> pool then ((200, ApprovalsBody [] 0), s)
               else
                 (let status = (if statusValue = [] then None else Some statusValue) in
                  case WithTenantConnection tenantID (rq_List tenantID status n) s of
                    (Inl _, s1) \<Rightarrow> ((500, ErrorBody ''query failed''), s1)
                  | (Inr requests, s1) \<Rightarrow> ((200, ApprovalsBody requests (length requests)), s1))))"

definition handler_resolve ::
  "(string \<Rightarrow> uuid option) \<Rightarrow> bool \<Rightarrow> resolver option \<Rightarrow> string \<Rightarrow> string \<Rightarrow> string option \<Rightarrow>
   ApprovalStatus \<Rightarrow> db \<Rightarrow> http_response \<times> db" where
  "handler_resolve parse_uuid pool resolver tenantIDStr pathID identity resolution s =
     (case parseTenant parse_uuid tenantIDStr of
        Inl r \<Rightarrow> (r, s)
      | Inr tenantID \<Rightarrow>
          (case parse_uuid pathID of
             None \<Rightarrow> ((400, ErrorBody ''approval id must be a valid UUID''), s)
           | Some approvalID \<Rightarrow>
               (case identity of
                  None \<Rightarrow> ((401, ErrorBody ''unauthorized''), s)
                | Some userID \<Rightarrow>
                    (case parse_uuid userID of
                       None \<Rightarrow> ((400, ErrorBody ''invalid user identity''), s)
                     | Some reviewerID \<Rightarrow>
                         if \<not> pool then ((503, ErrorBody ''approval store unavailable''), s)
                         else
                           (case WithTenantConnection tenantID
                                   (if resolution = StatusApproved then Approve approvalID reviewerID tenantID
                                    else Deny approvalID reviewerID tenantID) s of
                              (Inl e, s1) \<Rightarrow> (resolveErrorResponse e, s1)
                            | (Inr request, s1) \<Rightarrow>
                                (case resolver of
                                   None \<Rightarrow> ((200, ApprovalBody request), s1)
                                 | Some f \<Rightarrow>
                                     (case f tenantID request (resolution = StatusApproved) s1 of
                                        (Inl _, s2) \<Rightarrow>
                                          ((500, ErrorBody ''failed to resolve governed connector action''), s2)
                                      | (Inr _, s2) \<Rightarrow> ((200, ApprovalBody request), s2))))))))"

definition HandleApprove ::
  "(string \<Rightarrow> uuid option) \<Rightarrow> bool \<Rightarrow> resolver option \<Rightarrow> string \<Rightarrow> string \<Rightarrow> string option \<Rightarrow>
   db \<Rightarrow> http_response \<times> db" where
  "HandleApprove parse_uuid pool resolver tenantIDStr pathID identity =
     handler_resolve parse_uuid pool resolver tenantIDStr pathID identity StatusApproved"

definition HandleDeny ::
  "(string \<Rightarrow> uuid option) \<Rightarrow> bool \<Rightarrow> resolver option \<Rightarrow> string \<Rightarrow> string \<Rightarrow> string option \<Rightarrow>
   db \<Rightarrow> http_response \<times> db" where
  "HandleDeny parse_uuid pool resolver tenantIDStr pathID identity =
     handler_resolve parse_uuid pool resolver tenantIDStr pathID identity StatusDenied"

end
