(* ===== verification/Channel_Errors.thy ===== *)
theory Channel_Errors
  imports Database
begin

text \<open>
  The sentinel errors and the message statuses of package \<open>channels\<close>
  (\<open>internal/channels/channels.go\<close>, \<open>verifier.go\<close>).
\<close>

datatype chan_sentinel =
    ErrLinkNotFound
  | ErrLinkUnverified
  | ErrMessageNotFound
  | ErrOutboxNotFound
  | ErrOutboxStatus
  | ErrPlatformEmpty
  | ErrIdentityEmpty
  | ErrUserIDRequired
  | ErrUserNotFound
  | ErrLinkState
  | ErrLinkIDRequired
  | ErrLinkIDInvalid
  | ErrIdempotencyKey
  | ErrCorrelationID
  | ErrFingerprint
  | ErrExpiryRequired
  | ErrStatusRequired
  | ErrPayloadRequired
  | ErrProviderUnsupported
  | ErrProviderCredentialNotFound
  | ErrProviderAccessTokenRequired
  | ErrProviderPhoneNumberIDRequired
  | ErrProviderSigningSecretRequired
  | ErrProviderSecretTokenRequired
  | ErrProviderCredentialCipherRequired
  | ErrProviderCredentialKeyInvalid
  | ErrProviderCredentialEncryptFailed
  | ErrProviderCredentialDecryptFailed
  | ErrMissingSignature
  | ErrInvalidSignature
  | ErrInvalidTimestamp
  | ErrTimestampExpired

type_synonym chan_error = "chan_sentinel go_error"
type_synonym 'a chan_op = "db \<Rightarrow> (chan_error + 'a) \<times> db"

definition MessageStatusAccepted :: string where
  "MessageStatusAccepted = ''accepted''"

definition MessageStatusExecuted :: string where
  "MessageStatusExecuted = ''executed''"

definition MessageStatusDeniedRBAC :: string where
  "MessageStatusDeniedRBAC = ''denied_rbac''"

definition MessageStatusDeniedNoAgent :: string where
  "MessageStatusDeniedNoAgent = ''denied_no_agent''"

definition MessageStatusDeniedSentinel :: string where
  "MessageStatusDeniedSentinel = ''denied_sentinel''"

definition MessageStatusDispatchFailed :: string where
  "MessageStatusDispatchFailed = ''dispatch_failed''"

definition ConversationHistoryMaxTurns :: int where
  "ConversationHistoryMaxTurns = 12"

end
