(* ===== verification/Outbox_Store.thy ===== *)
theory Outbox_Store
  imports Channel_Errors
begin

text \<open>
  The outbox half of \<open>internal/channels/store.go\<close>: enqueueing, claiming, the four ways a
  claimed job leaves the \<open>sending\<close> state, stale-lock recovery, requeueing and listing.
  Every operation is one statement on \<open>channel_outbox\<close>.
\<close>

section \<open>Operations\<close>

record EnqueueOutboundParams =
  eq_ChannelMessageID :: string
  eq_Provider :: string
  eq_RecipientID :: string
  eq_Payload :: raw_json
  eq_MaxAttempts :: int

text \<open>
  \<open>uuid.Parse\<close> belongs to a third-party package and is the parameter \<open>parse_uuid\<close>.
\<close>

definition insert_outbox ::
  "uuid \<Rightarrow> string \<Rightarrow> string \<Rightarrow> raw_json \<Rightarrow> int \<Rightarrow> db \<Rightarrow> ChannelOutbox option \<times> db" where
  "insert_outbox messageID provider recipientID payload maxAttempts s =
     (case db_tenant s of
        None \<Rightarrow> (None, s)
      | Some t \<Rightarrow>
          if \<exists>m \<in> set (db_messages s). cm_ID m = messageID \<and> cm_TenantID m = t then
            (let row = \<lparr>ob_ID = db_next s, ob_TenantID = t, ob_ChannelMessageID = messageID,
                        ob_Provider = provider, ob_RecipientID = recipientID,
                        ob_Payload = payload, ob_Status = OutboxStatusPending,
                        ob_AttemptCount = 0, ob_MaxAttempts = maxAttempts,
                        ob_NextAttemptAt = db_now s, ob_LastError = None,
                        ob_LockedAt = None, ob_SentAt = None,
                        ob_CreatedAt = db_now s, ob_UpdatedAt = db_now s\<rparr>
             in (Some row, s\<lparr>db_outbox := db_outbox s @ [row], db_next := Suc (db_next s)\<rparr>))
          else (None, s))"

definition EnqueueOutbound ::
  "(string \<Rightarrow> uuid option) \<Rightarrow> EnqueueOutboundParams \<Rightarrow> ChannelOutbox chan_op" where
  "EnqueueOutbound parse_uuid params s =
     (let messageIDValue = TrimSpace (eq_ChannelMessageID params) in
      if messageIDValue = [] then (Inl (Sentinel ErrMessageNotFound), s)
      else case parse_uuid messageIDValue of
        None \<Rightarrow> (Inl (Wrap ''parsing channel message id'' (NewError ''invalid UUID'')), s)
      | Some messageID \<Rightarrow>
          (let provider = ToLower (TrimSpace (eq_Provider params));
               recipientID = TrimSpace (eq_RecipientID params);
               payload = eq_Payload params in
           if provider = [] then (Inl (Sentinel ErrPlatformEmpty), s)
           else if recipientID = [] then (Inl (Sentinel ErrIdentityEmpty), s)
           else if payload = RawEmpty then (Inl (Sentinel ErrPayloadRequired), s)
           else if \<not> json_Valid payload then (Inl (NewError ''payload must be valid JSON''), s)
           else
             (let maxAttempts = (if eq_MaxAttempts params \<le> 0 then 5 else eq_MaxAttempts params)
              in query_row ''enqueuing outbound job'' ErrMessageNotFound
                   (sql (insert_outbox messageID provider recipientID payload maxAttempts) s))))"

text \<open>
  \<open>ClaimPendingOutbox\<close>: the common table expression picks the due rows of the tenant that no
  other session has locked, oldest attempt first; the update claims exactly these.
\<close>

definition due_row :: "db \<Rightarrow> gotime \<Rightarrow> ChannelOutbox \<Rightarrow> bool" where
  "due_row s now r \<longleftrightarrow>
     own s (ob_TenantID r) \<and> ob_Status r = OutboxStatusPending \<and> ob_NextAttemptAt r \<le> now \<and>
     ob_ID r \<notin> set (db_locked s)"

definition due_ids :: "db \<Rightarrow> gotime \<Rightarrow> int \<Rightarrow> uuid list" where
  "due_ids s now limit =
     map ob_ID (select_order_limit (due_row s now)
       (\<lambda>r. (ob_NextAttemptAt r, ob_CreatedAt r)) limit (db_outbox s))"

definition claim_row :: "gotime \<Rightarrow> ChannelOutbox \<Rightarrow> ChannelOutbox" where
  "claim_row t r =
     r\<lparr>ob_Status := OutboxStatusSending, ob_LockedAt := Some t, ob_UpdatedAt := t\<rparr>"

definition claim_stmt :: "gotime \<Rightarrow> int \<Rightarrow> db \<Rightarrow> ChannelOutbox list \<times> db" where
  "claim_stmt now limit s =
     (let ids = due_ids s now limit; p = (\<lambda>r. ob_ID r \<in> set ids) in
      (map (claim_row (db_now s)) (filter p (db_outbox s)),
       s\<lparr>db_outbox := upd_where p (claim_row (db_now s)) (db_outbox s)\<rparr>))"

text \<open>\<open>wall\<close> is \<open>time.Now().UTC()\<close>, used when the caller passes the zero time.\<close>

definition ClaimPendingOutbox :: "gotime \<Rightarrow> gotime \<Rightarrow> int \<Rightarrow> ChannelOutbox list chan_op" where
  "ClaimPendingOutbox wall now limit s =
     wrap_err ''claiming pending outbox jobs''
       (sql (claim_stmt (if now = 0 then wall else now) (if limit \<le> 0 then 1 else limit)) s)"

text \<open>
  The four \<open>UPDATE ... WHERE tenant_id = current AND id = $1 AND status = $n\<close> statements.
\<close>

definition update_job ::
  "OutboxStatus \<Rightarrow> (db \<Rightarrow> ChannelOutbox \<Rightarrow> ChannelOutbox) \<Rightarrow> uuid \<Rightarrow> db \<Rightarrow> nat \<times> db" where
  "update_job from f outboxID s =
     (let p = (\<lambda>r. own s (ob_TenantID r) \<and> ob_ID r = outboxID \<and> ob_Status r = from) in
      (count_where p (db_outbox s), s\<lparr>db_outbox := upd_where p (f s) (db_outbox s)\<rparr>))"

definition sent_row :: "db \<Rightarrow> ChannelOutbox \<Rightarrow> ChannelOutbox" where
  "sent_row s r =
     r\<lparr>ob_Status := OutboxStatusSent, ob_SentAt := Some (db_now s), ob_LastError := None,
       ob_LockedAt := None, ob_UpdatedAt := db_now s\<rparr>"

definition retry_row :: "gotime \<Rightarrow> string \<Rightarrow> db \<Rightarrow> ChannelOutbox \<Rightarrow> ChannelOutbox" where
  "retry_row nextAttempt lastError s r =
     r\<lparr>ob_Status := OutboxStatusPending, ob_AttemptCount := ob_AttemptCount r + 1,
       ob_NextAttemptAt := nextAttempt, ob_LastError := Some (TrimSpace lastError),
       ob_SentAt := None, ob_LockedAt := None, ob_UpdatedAt := db_now s\<rparr>"

definition dead_row :: "string \<Rightarrow> db \<Rightarrow> ChannelOutbox \<Rightarrow> ChannelOutbox" where
  "dead_row lastError s r =
     r\<lparr>ob_Status := OutboxStatusDead, ob_AttemptCount := ob_AttemptCount r + 1,
       ob_LastError := Some (TrimSpace lastError), ob_LockedAt := None,
       ob_UpdatedAt := db_now s\<rparr>"

definition pending_approval_row :: "string \<Rightarrow> db \<Rightarrow> ChannelOutbox \<Rightarrow> ChannelOutbox" where
  "pending_approval_row lastError s r =
     r\<lparr>ob_Status := OutboxStatusPendingApproval, ob_LastError := Some (TrimSpace lastError),
       ob_LockedAt := None, ob_UpdatedAt := db_now s\<rparr>"

definition requeue_row :: "db \<Rightarrow> ChannelOutbox \<Rightarrow> ChannelOutbox" where
  "requeue_row s r =
     r\<lparr>ob_Status := OutboxStatusPending, ob_NextAttemptAt := db_now s, ob_LastError := None,
       ob_LockedAt := None, ob_SentAt := None, ob_UpdatedAt := db_now s\<rparr>"

definition MarkOutboxSent :: "uuid \<Rightarrow> unit chan_op" where
  "MarkOutboxSent outboxID s =
     exec_rows ''marking outbox job sent'' ErrOutboxNotFound
       (sql (update_job OutboxStatusSending sent_row outboxID) s)"

definition MarkOutboxRetry :: "uuid \<Rightarrow> gotime \<Rightarrow> string \<Rightarrow> unit chan_op" where
  "MarkOutboxRetry outboxID nextAttempt lastError s =
     (if nextAttempt = 0 then (Inl (NewError ''next attempt timestamp is required''), s)
      else exec_rows ''marking outbox job retry'' ErrOutboxNotFound
        (sql (update_job OutboxStatusSending (retry_row nextAttempt lastError) outboxID) s))"

definition MarkOutboxDead :: "uuid \<Rightarrow> string \<Rightarrow> unit chan_op" where
  "MarkOutboxDead outboxID lastError s =
     exec_rows ''marking outbox job dead'' ErrOutboxNotFound
       (sql (update_job OutboxStatusSending (dead_row lastError) outboxID) s)"

definition MarkOutboxPendingApproval :: "uuid \<Rightarrow> string \<Rightarrow> unit chan_op" where
  "MarkOutboxPendingApproval outboxID lastError s =
     exec_rows ''marking outbox job pending approval'' ErrOutboxNotFound
       (sql (update_job OutboxStatusSending (pending_approval_row lastError) outboxID) s)"

definition RequeueOutboxDead :: "uuid \<Rightarrow> unit chan_op" where
  "RequeueOutboxDead outboxID s =
     exec_rows ''requeueing dead outbox job'' ErrOutboxNotFound
       (sql (update_job OutboxStatusDead requeue_row outboxID) s)"

definition stale_row :: "db \<Rightarrow> gotime \<Rightarrow> ChannelOutbox \<Rightarrow> bool" where
  "stale_row s staleBefore r \<longleftrightarrow>
     own s (ob_TenantID r) \<and> ob_Status r = OutboxStatusSending \<and>
     (case ob_LockedAt r of None \<Rightarrow> False | Some l \<Rightarrow> l < staleBefore) \<and> ob_ID r \<notin> set (db_locked s)"

definition recover_row :: "gotime \<Rightarrow> ChannelOutbox \<Rightarrow> ChannelOutbox" where
  "recover_row t r =
     r\<lparr>ob_Status := OutboxStatusPending, ob_LockedAt := None, ob_UpdatedAt := t\<rparr>"

definition recover_stmt :: "gotime \<Rightarrow> int \<Rightarrow> db \<Rightarrow> ChannelOutbox list \<times> db" where
  "recover_stmt staleBefore limit s =
     (let ids = map ob_ID (select_order_limit (stale_row s staleBefore)
                  (\<lambda>r. the (ob_LockedAt r)) limit (db_outbox s));
          p = (\<lambda>r. ob_ID r \<in> set ids) in
      (map (recover_row (db_now s)) (filter p (db_outbox s)),
       s\<lparr>db_outbox := upd_where p (recover_row (db_now s)) (db_outbox s)\<rparr>))"

definition RecoverStaleSending :: "gotime \<Rightarrow> gotime \<Rightarrow> int \<Rightarrow> ChannelOutbox list chan_op" where
  "RecoverStaleSending wall staleBefore limit s =
     wrap_err ''recovering stale outbox jobs''
       (sql (recover_stmt (if staleBefore = 0 then wall else staleBefore)
              (if limit \<le> 0 then 1 else limit)) s)"

text \<open>\<open>ListOutbox\<close> accepts four of the five statuses as a filter.\<close>

definition parse_status_filter :: "string \<Rightarrow> OutboxStatus option" where
  "parse_status_filter v =
     (if v = ''pending'' then Some OutboxStatusPending
      else if v = ''sending'' then Some OutboxStatusSending
      else if v = ''sent'' then Some OutboxStatusSent
      else if v = ''dead'' then Some OutboxStatusDead
      else None)"

definition list_outbox_stmt ::
  "OutboxStatus option \<Rightarrow> int \<Rightarrow> db \<Rightarrow> ChannelOutbox list \<times> db" where
  "list_outbox_stmt flt limit s =
     (select_order_limit
        (\<lambda>r. own s (ob_TenantID r) \<and> (case flt of None \<Rightarrow> True | Some st \<Rightarrow> ob_Status r = st))
        (\<lambda>r. (- ob_CreatedAt r, - int (ob_ID r))) limit (db_outbox s), s)"

definition ListOutbox :: "string \<Rightarrow> int \<Rightarrow> ChannelOutbox list chan_op" where
  "ListOutbox status limit s =
     (let limit = (if limit \<le> 0 then 100 else limit);
          statusFilter = TrimSpace (ToLower status) in
      if statusFilter = [] then
        wrap_err ''listing outbox jobs'' (sql (list_outbox_stmt None limit) s)
      else case parse_status_filter statusFilter of
          None \<Rightarrow> (Inl (Sentinel ErrOutboxStatus), s)
        | Some st \<Rightarrow>
            wrap_err ''listing outbox jobs'' (sql (list_outbox_stmt (Some st) limit) s))"

end
