(* ===== verification/Outbox_Lifecycle.thy ===== *)
theory Outbox_Lifecycle
  imports Outbox_Store
begin

text \<open>
  What the outbox operations do to a job over its life: the well-formedness of the table,
  the legal status transitions, tenant isolation and exclusive claims, for arbitrary
  sequences of calls from arbitrary sessions.
\<close>

section \<open>The status machine\<close>

inductive legal :: "OutboxStatus \<Rightarrow> OutboxStatus \<Rightarrow> bool" where
  claim: "legal OutboxStatusPending OutboxStatusSending"
| sent: "legal OutboxStatusSending OutboxStatusSent"
| retry: "legal OutboxStatusSending OutboxStatusPending"
| dead: "legal OutboxStatusSending OutboxStatusDead"
| review: "legal OutboxStatusSending OutboxStatusPendingApproval"
| requeue: "legal OutboxStatusDead OutboxStatusPending"

inductive_cases legal_from_sent: "legal OutboxStatusSent st"
inductive_simps legal_simps: "legal a b"

text \<open>The columns no operation may change.\<close>

definition same_job :: "ChannelOutbox \<Rightarrow> ChannelOutbox \<Rightarrow> bool" where
  "same_job r r' \<longleftrightarrow>
     ob_ID r' = ob_ID r \<and> ob_TenantID r' = ob_TenantID r \<and>
     ob_ChannelMessageID r' = ob_ChannelMessageID r \<and> ob_Provider r' = ob_Provider r \<and>
     ob_RecipientID r' = ob_RecipientID r \<and> ob_Payload r' = ob_Payload r \<and>
     ob_MaxAttempts r' = ob_MaxAttempts r \<and> ob_CreatedAt r' = ob_CreatedAt r"

text \<open>
  The lock timestamp marks exactly the claimed jobs, the delivery timestamp exactly the
  delivered ones.
\<close>

definition job_ok :: "ChannelOutbox \<Rightarrow> bool" where
  "job_ok r \<longleftrightarrow>
     (ob_Status r = OutboxStatusSending \<longleftrightarrow> ob_LockedAt r \<noteq> None) \<and>
     (ob_Status r = OutboxStatusSent \<longleftrightarrow> ob_SentAt r \<noteq> None) \<and>
     0 \<le> ob_AttemptCount r \<and> 1 \<le> ob_MaxAttempts r \<and> json_Valid (ob_Payload r)"

definition outbox_inv :: "db \<Rightarrow> bool" where
  "outbox_inv s \<longleftrightarrow>
     distinct (map ob_ID (db_outbox s)) \<and>
     (\<forall>r \<in> set (db_outbox s). job_ok r \<and> ob_ID r < db_next s)"

text \<open>What one operation of a session may do to one row.\<close>

definition row_step :: "uuid option \<Rightarrow> ChannelOutbox \<Rightarrow> ChannelOutbox \<Rightarrow> bool" where
  "row_step t r r' \<longleftrightarrow>
     r' = r \<or>
     (t = Some (ob_TenantID r) \<and> same_job r r' \<and> legal (ob_Status r) (ob_Status r') \<and>
      ob_AttemptCount r \<le> ob_AttemptCount r' \<and> (job_ok r \<longrightarrow> job_ok r'))"

text \<open>What one operation may do to the table: rows step in place, new jobs are appended.\<close>

definition outbox_step :: "db \<Rightarrow> db \<Rightarrow> bool" where
  "outbox_step s s' \<longleftrightarrow>
     db_tenant s' = db_tenant s \<and>
     (\<exists>ys zs. db_outbox s' = ys @ zs \<and>
        list_all2 (row_step (db_tenant s)) (db_outbox s) ys \<and>
        ((zs = [] \<and> db_next s' = db_next s) \<or>
         (\<exists>z. zs = [z] \<and> db_tenant s = Some (ob_TenantID z) \<and>
            ob_Status z = OutboxStatusPending \<and> job_ok z \<and>
            ob_ID z = db_next s \<and> db_next s' = Suc (db_next s))))"

section \<open>Calls and sessions\<close>

text \<open>
  The outbox API as a sequence of calls. \<open>Session\<close> is the environment: another session
  takes over with its tenant, its clock, its view of row locks and its driver faults.
\<close>

datatype outbox_call =
    Session "uuid option" gotime "uuid list" "string option list"
  | Enqueue EnqueueOutboundParams
  | Claim gotime gotime int
  | Sent uuid
  | Retry uuid gotime string
  | Dead uuid string
  | Review uuid string
  | Requeue uuid
  | Recover gotime gotime int
  | ListJobs string int

fun exec_call :: "(string \<Rightarrow> uuid option) \<Rightarrow> outbox_call \<Rightarrow> db \<Rightarrow> db" where
  "exec_call _ (Session t now locks faults) s =
     s\<lparr>db_tenant := t, db_now := now, db_locked := locks, db_faults := faults\<rparr>"
| "exec_call pu (Enqueue params) s = snd (EnqueueOutbound pu params s)"
| "exec_call _ (Claim wall now limit) s = snd (ClaimPendingOutbox wall now limit s)"
| "exec_call _ (Sent i) s = snd (MarkOutboxSent i s)"
| "exec_call _ (Retry i next err) s = snd (MarkOutboxRetry i next err s)"
| "exec_call _ (Dead i err) s = snd (MarkOutboxDead i err s)"
| "exec_call _ (Review i err) s = snd (MarkOutboxPendingApproval i err s)"
| "exec_call _ (Requeue i) s = snd (RequeueOutboxDead i s)"
| "exec_call _ (Recover wall before limit) s = snd (RecoverStaleSending wall before limit s)"
| "exec_call _ (ListJobs status limit) s = snd (ListOutbox status limit s)"

fun exec_calls :: "(string \<Rightarrow> uuid option) \<Rightarrow> outbox_call list \<Rightarrow> db \<Rightarrow> db" where
  "exec_calls _ [] s = s"
| "exec_calls pu (c # cs) s = exec_calls pu cs (exec_call pu c s)"

text \<open>The calls that can bring a claimed job back to \<open>pending\<close>.\<close>

fun reopens :: "outbox_call \<Rightarrow> bool" where
  "reopens (Retry _ _ _) = True"
| "reopens (Requeue _) = True"
| "reopens (Recover _ _ _) = True"
| "reopens _ = False"

section \<open>Every call is a step\<close>

lemmas row_defs = sent_row_def retry_row_def dead_row_def pending_approval_row_def
  requeue_row_def claim_row_def recover_row_def

lemma row_step_refl [simp]: "row_step t r r"
  by (simp add: row_step_def)

lemma outbox_step_refl [simp]: "outbox_step s s"
  by (simp add: outbox_step_def list_all2_refl)

lemma outbox_step_faults:
  "outbox_step (s\<lparr>db_faults := fs\<rparr>) t = outbox_step s t"
  "outbox_step s (t\<lparr>db_faults := fs\<rparr>) = outbox_step s t"
  by (simp_all add: outbox_step_def)

lemma sql_outbox_step:
  assumes "\<And>fs. outbox_step (s\<lparr>db_faults := fs\<rparr>) (snd (stmt (s\<lparr>db_faults := fs\<rparr>)))"
  shows "outbox_step s (snd (sql stmt s :: ('e go_error + 'a) \<times> db))"
proof -
  obtain r :: "'e go_error + 'a" and s' where rs: "sql stmt s = (r, s')" by fastforce
  then show ?thesis
  proof (cases rule: sql_cases)
    case (fault m)
    with rs show ?thesis by (simp add: outbox_step_faults)
  next
    case (ok fs a)
    then show ?thesis using assms [of fs] rs by (simp add: outbox_step_faults)
  qed
qed

lemma upd_where_step:
  assumes "\<And>r. r \<in> set (db_outbox s) \<Longrightarrow> p r \<Longrightarrow> row_step (db_tenant s) r (f r)"
  shows "outbox_step s (s\<lparr>db_outbox := upd_where p f (db_outbox s)\<rparr>)"
proof -
  have "list_all2 (row_step (db_tenant s)) (db_outbox s) (upd_where p f (db_outbox s))"
    using assms by (auto simp: upd_where_def list_all2_map2 intro!: list.rel_refl_strong)
  then show ?thesis by (simp add: outbox_step_def)
qed

lemma update_job_step:
  assumes "\<And>s r. ob_Status r = from \<Longrightarrow> row_step (Some (ob_TenantID r)) r (f s r)"
  shows "outbox_step s (snd (update_job from f i s))"
  unfolding update_job_def Let_def snd_conv
  by (rule upd_where_step) (use assms in \<open>auto simp: own_def\<close>)

text \<open>A row picked by its identifier is the row with that identifier.\<close>

lemma picked_row:
  assumes "distinct (map f rs)" "r \<in> set rs"
    and "f r \<in> set (map f (select_order_limit p k n rs))"
  shows "p r"
proof -
  from assms(3) obtain r' where "r' \<in> set (select_order_limit p k n rs)" "f r' = f r"
    by auto
  then have "r' \<in> set rs" "p r'" "f r' = f r"
    using set_select_order_limit_subset by fastforce+
  with assms(1,2) show ?thesis by (metis distinct_map inj_on_def)
qed

lemma due_ids_due:
  "distinct (map ob_ID (db_outbox s)) \<Longrightarrow> r \<in> set (db_outbox s) \<Longrightarrow>
   ob_ID r \<in> set (due_ids s now limit) \<Longrightarrow> due_row s now r"
  unfolding due_ids_def by (rule picked_row [where f = ob_ID])

lemma claim_row_step:
  "due_row s now r \<Longrightarrow> row_step (db_tenant s) r (claim_row t r)"
  by (auto simp: due_row_def own_def row_step_def claim_row_def same_job_def job_ok_def
      intro: legal.intros)

lemma recover_row_step:
  "stale_row s before r \<Longrightarrow> row_step (db_tenant s) r (recover_row t r)"
  by (auto simp: stale_row_def own_def row_step_def recover_row_def same_job_def job_ok_def
      intro: legal.intros split: option.splits)

lemma claim_stmt_step:
  assumes "distinct (map ob_ID (db_outbox s))"
  shows "outbox_step s (snd (claim_stmt now limit s))"
  unfolding claim_stmt_def due_ids_def Let_def snd_conv
  by (rule upd_where_step, rule claim_row_step, erule (1) picked_row [OF assms])

lemma recover_stmt_step:
  assumes "distinct (map ob_ID (db_outbox s))"
  shows "outbox_step s (snd (recover_stmt before limit s))"
  unfolding recover_stmt_def Let_def snd_conv
  by (rule upd_where_step, rule recover_row_step, erule (1) picked_row [OF assms])

lemma append_step:
  assumes "db_tenant s = Some (ob_TenantID z)" "ob_Status z = OutboxStatusPending" "job_ok z"
    and "ob_ID z = db_next s"
  shows "outbox_step s (s\<lparr>db_outbox := db_outbox s @ [z], db_next := Suc (db_next s)\<rparr>)"
  unfolding outbox_step_def using assms
  by (intro conjI exI [where x = "db_outbox s"] exI [where x = "[z]"])
    (auto simp: list_all2_refl)

lemma insert_outbox_step:
  assumes "json_Valid payload" "1 \<le> maxAttempts"
  shows "outbox_step s (snd (insert_outbox m prov rcp payload maxAttempts s))"
  using assms
  by (auto simp: insert_outbox_def job_ok_def Let_def intro!: append_step split: option.splits)

lemma enqueue_step: "outbox_step s (snd (EnqueueOutbound pu params s))"
  by (auto simp: EnqueueOutbound_def Let_def split: option.splits
      intro!: sql_outbox_step insert_outbox_step)

lemma list_step: "outbox_step s (snd (ListOutbox status limit s))"
proof -
  have "outbox_step s (snd (list_outbox_stmt flt n s))" for flt n s
    by (simp add: list_outbox_stmt_def)
  then show ?thesis
    by (auto simp: ListOutbox_def Let_def intro!: sql_outbox_step split: option.splits)
qed

lemma mark_row_steps:
  "ob_Status r = OutboxStatusSending \<Longrightarrow> row_step (Some (ob_TenantID r)) r (sent_row s r)"
  "ob_Status r = OutboxStatusSending \<Longrightarrow> row_step (Some (ob_TenantID r)) r (retry_row t e s r)"
  "ob_Status r = OutboxStatusSending \<Longrightarrow> row_step (Some (ob_TenantID r)) r (dead_row e s r)"
  "ob_Status r = OutboxStatusSending \<Longrightarrow>
     row_step (Some (ob_TenantID r)) r (pending_approval_row e s r)"
  "ob_Status r = OutboxStatusDead \<Longrightarrow> row_step (Some (ob_TenantID r)) r (requeue_row s r)"
  by (auto simp: row_step_def same_job_def job_ok_def row_defs intro: legal.intros)

lemmas call_defs = ClaimPendingOutbox_def RecoverStaleSending_def MarkOutboxSent_def
  MarkOutboxRetry_def MarkOutboxDead_def MarkOutboxPendingApproval_def RequeueOutboxDead_def

lemma exec_call_step:
  assumes "distinct (map ob_ID (db_outbox s))" "\<And>t n l f. c \<noteq> Session t n l f"
  shows "outbox_step s (exec_call pu c s)"
proof (cases c)
  case (Session t n l f)
  with assms(2) show ?thesis by blast
qed (use assms(1) in \<open>auto simp: enqueue_step list_step call_defs
    intro!: sql_outbox_step claim_stmt_step recover_stmt_step update_job_step mark_row_steps\<close>)

section \<open>The invariant\<close>

lemma row_step_ID: "row_step t r r' \<Longrightarrow> ob_ID r' = ob_ID r"
  by (auto simp: row_step_def same_job_def)

lemma row_steps_ID: "list_all2 (row_step t) xs ys \<Longrightarrow> map ob_ID ys = map ob_ID xs"
  by (induction rule: list_all2_induct) (auto simp: row_step_ID)

lemma row_steps_ok:
  "list_all2 (row_step t) xs ys \<Longrightarrow> \<forall>r \<in> set xs. job_ok r \<and> ob_ID r < n \<Longrightarrow>
   \<forall>r \<in> set ys. job_ok r \<and> ob_ID r < n"
  by (induction rule: list_all2_induct) (auto simp: row_step_def same_job_def)

lemma outbox_step_inv:
  assumes "outbox_step s s'" "outbox_inv s"
  shows "outbox_inv s'"
proof -
  from assms(1) obtain ys zs where d: "db_outbox s' = ys @ zs"
    and l: "list_all2 (row_step (db_tenant s)) (db_outbox s) ys"
    and z: "(zs = [] \<and> db_next s' = db_next s) \<or>
      (\<exists>z. zs = [z] \<and> job_ok z \<and> ob_ID z = db_next s \<and> db_next s' = Suc (db_next s))"
    by (fastforce simp: outbox_step_def)
  from assms(2) have "distinct (map ob_ID ys)" "\<forall>r \<in> set ys. job_ok r \<and> ob_ID r < db_next s"
    using row_steps_ID [OF l] row_steps_ok [OF l] by (auto simp: outbox_inv_def)
  with z d show ?thesis by (fastforce simp: outbox_inv_def)
qed

lemma exec_call_inv:
  assumes "outbox_inv s"
  shows "outbox_inv (exec_call pu c s)"
proof (cases "\<exists>t n l f. c = Session t n l f")
  case True
  with assms show ?thesis by (auto simp: outbox_inv_def)
next
  case False
  with assms have "outbox_step s (exec_call pu c s)"
    by (intro exec_call_step) (auto simp: outbox_inv_def)
  then show ?thesis using assms by (rule outbox_step_inv)
qed

lemma exec_calls_inv: "outbox_inv s \<Longrightarrow> outbox_inv (exec_calls pu cs s)"
  by (induction cs arbitrary: s) (auto intro: exec_call_inv)

section \<open>Rows over a sequence of calls\<close>

lemma outbox_step_row:
  assumes "outbox_step s s'" "r \<in> set (db_outbox s)"
  shows "\<exists>r' \<in> set (db_outbox s'). row_step (db_tenant s) r r'"
proof -
  from assms(1) obtain ys zs where "db_outbox s' = ys @ zs"
    and "list_all2 (row_step (db_tenant s)) (db_outbox s) ys"
    by (auto simp: outbox_step_def)
  with assms(2) show ?thesis
    by (metis Un_iff in_set_conv_nth list_all2_conv_all_nth set_append)
qed

lemma exec_call_sent:
  assumes "outbox_inv s" "r \<in> set (db_outbox s)" "ob_Status r = OutboxStatusSent"
  shows "r \<in> set (db_outbox (exec_call pu c s))"
proof (cases "\<exists>t n l f. c = Session t n l f")
  case True
  with assms(2) show ?thesis by auto
next
  case False
  with assms(1) have "outbox_step s (exec_call pu c s)"
    by (intro exec_call_step) (auto simp: outbox_inv_def)
  from outbox_step_row [OF this assms(2)] assms(3) show ?thesis
    by (auto simp: row_step_def elim: legal_from_sent)
qed

text \<open>The rows of a tenant, as a table of their own.\<close>

definition rows_of :: "uuid \<Rightarrow> db \<Rightarrow> ChannelOutbox list" where
  "rows_of t s = filter (\<lambda>r. ob_TenantID r = t) (db_outbox s)"

lemma row_steps_foreign:
  "list_all2 (row_step u) xs ys \<Longrightarrow> u \<noteq> Some t \<Longrightarrow>
   filter (\<lambda>r. ob_TenantID r = t) ys = filter (\<lambda>r. ob_TenantID r = t) xs"
  by (induction rule: list_all2_induct) (auto simp: row_step_def same_job_def)

lemma outbox_step_foreign:
  assumes "outbox_step s s'" "db_tenant s \<noteq> Some t"
  shows "rows_of t s' = rows_of t s"
proof -
  from assms(1) obtain ys zs where d: "db_outbox s' = ys @ zs"
    and l: "list_all2 (row_step (db_tenant s)) (db_outbox s) ys"
    and z: "zs = [] \<or> (\<exists>z. zs = [z] \<and> db_tenant s = Some (ob_TenantID z))"
    using assms(1) unfolding outbox_step_def by blast
  have "filter (\<lambda>r. ob_TenantID r = t) zs = []"
    using z assms(2) by auto
  with d row_steps_foreign [OF l assms(2)] show ?thesis by (simp add: rows_of_def)
qed

fun acts_for :: "uuid \<Rightarrow> outbox_call \<Rightarrow> bool" where
  "acts_for t (Session u _ _ _) = (u = Some t)"
| "acts_for t _ = False"

lemma exec_call_foreign:
  assumes "outbox_inv s" "db_tenant s \<noteq> Some t" "\<not> acts_for t c"
  shows "rows_of t (exec_call pu c s) = rows_of t s \<and> db_tenant (exec_call pu c s) \<noteq> Some t"
proof (cases "\<exists>t n l f. c = Session t n l f")
  case True
  with assms(3) show ?thesis by (auto simp: rows_of_def)
next
  case False
  with assms(1) have st: "outbox_step s (exec_call pu c s)"
    by (intro exec_call_step) (auto simp: outbox_inv_def)
  then have "db_tenant (exec_call pu c s) = db_tenant s" by (simp add: outbox_step_def)
  with outbox_step_foreign [OF st assms(2)] assms(2) show ?thesis by simp
qed

section \<open>Claims\<close>

definition not_pending :: "db \<Rightarrow> uuid set" where
  "not_pending s = {ob_ID r | r. r \<in> set (db_outbox s) \<and> ob_Status r \<noteq> OutboxStatusPending}"

lemma not_pending_cong [simp]:
  "not_pending (s\<lparr>db_faults := fs\<rparr>) = not_pending s" "not_pending (s\<lparr>db_tenant := t\<rparr>) = not_pending s"
  "not_pending (s\<lparr>db_locked := l\<rparr>) = not_pending s" "not_pending (s\<lparr>db_now := n\<rparr>) = not_pending s"
  by (simp_all add: not_pending_def)

lemma closed_upd_where:
  assumes "\<And>r. p r \<Longrightarrow> ob_ID (f r) = ob_ID r \<and> ob_Status (f r) \<noteq> OutboxStatusPending"
  shows "not_pending s \<subseteq> not_pending (s\<lparr>db_outbox := upd_where p f (db_outbox s)\<rparr>)"
proof
  fix i assume "i \<in> not_pending s"
  then obtain r where r: "r \<in> set (db_outbox s)" "ob_Status r \<noteq> OutboxStatusPending" "i = ob_ID r"
    by (auto simp: not_pending_def)
  let ?r = "if p r then f r else r"
  have "?r \<in> set (upd_where p f (db_outbox s))" using r(1) by (auto simp: upd_where_def)
  moreover have "ob_ID ?r = i" "ob_Status ?r \<noteq> OutboxStatusPending" using r assms by auto
  ultimately show "i \<in> not_pending (s\<lparr>db_outbox := upd_where p f (db_outbox s)\<rparr>)"
    by (fastforce simp: not_pending_def)
qed

lemma sql_closed:
  assumes "\<And>s. not_pending s \<subseteq> not_pending (snd (stmt s))"
  shows "not_pending s \<subseteq> not_pending (snd (sql stmt s :: ('e go_error + 'a) \<times> db))"
proof -
  obtain r :: "'e go_error + 'a" and s' where rs: "sql stmt s = (r, s')" by fastforce
  then have "not_pending s \<subseteq> not_pending s'"
  proof (cases rule: sql_cases)
    case (ok fs a)
    then show ?thesis using assms [of "s\<lparr>db_faults := fs\<rparr>"] by simp
  qed simp
  with rs show ?thesis by simp
qed

lemma update_job_closed:
  assumes "\<And>s r. ob_ID (f s r) = ob_ID r \<and> ob_Status (f s r) \<noteq> OutboxStatusPending"
  shows "not_pending s \<subseteq> not_pending (snd (update_job from f i s))"
  unfolding update_job_def Let_def snd_conv
  by (rule closed_upd_where) (use assms in auto)

lemma claim_stmt_closed: "not_pending s \<subseteq> not_pending (snd (claim_stmt now limit s))"
  unfolding claim_stmt_def Let_def snd_conv
  by (rule closed_upd_where) (auto simp: claim_row_def)

lemma insert_outbox_closed: "not_pending s \<subseteq> not_pending (snd (insert_outbox m prov rcp pl n s))"
  by (auto simp: insert_outbox_def not_pending_def Let_def split: option.splits)

lemma sql_insert_closed:
  "not_pending s \<subseteq>
   not_pending (snd (sql (insert_outbox m prov rcp pl n) s :: ('e go_error + _) \<times> db))"
  by (rule sql_closed, rule insert_outbox_closed)

lemma exec_call_closed: "\<not> reopens c \<Longrightarrow> not_pending s \<subseteq> not_pending (exec_call pu c s)"
proof (cases c)
  case (ListJobs st l)
  then show ?thesis
    by (auto simp: ListOutbox_def Let_def list_outbox_stmt_def split: option.splits
        intro!: sql_closed [THEN subsetD])
next
  case (Enqueue ps)
  then show ?thesis
    by (auto simp: EnqueueOutbound_def Let_def split: option.splits
        intro: sql_insert_closed [THEN subsetD])
next
  case (Claim w n l)
  then show ?thesis
    by (simp only: exec_call.simps ClaimPendingOutbox_def snd_wrap_err)
      (rule sql_closed, rule claim_stmt_closed)
qed (auto simp: call_defs row_defs intro!: sql_closed [THEN subsetD] update_job_closed)

lemma claim_result:
  assumes "ClaimPendingOutbox wall now limit s = (Inr js, s')"
  obtains fs n l where "n = (if now = 0 then wall else now)" "l = (if limit \<le> 0 then 1 else limit)"
    "claim_stmt n l (s\<lparr>db_faults := fs\<rparr>) = (js, s')"
  using assms by (auto simp: ClaimPendingOutbox_def elim!: sql_cases)

lemma claim_closes:
  assumes "ClaimPendingOutbox wall now limit s = (Inr js, s')"
  shows "ob_ID ` set js \<subseteq> not_pending s'"
proof -
  from assms obtain fs n l where c: "claim_stmt n l (s\<lparr>db_faults := fs\<rparr>) = (js, s')"
    by (rule claim_result)
  show ?thesis
  proof
    fix i assume "i \<in> ob_ID ` set js"
    then obtain r where r: "r \<in> set (db_outbox s)" "ob_ID r \<in> set (due_ids (s\<lparr>db_faults := fs\<rparr>) n l)"
      and i: "i = ob_ID (claim_row (db_now s) r)"
      using c by (auto simp: claim_stmt_def Let_def)
    have "claim_row (db_now s) r \<in> set (db_outbox s')"
      using c r by (force simp: claim_stmt_def Let_def upd_where_def)
    moreover have "ob_Status (claim_row (db_now s) r) \<noteq> OutboxStatusPending"
      by (simp add: claim_row_def)
    ultimately show "i \<in> not_pending s'" using i by (auto simp: not_pending_def)
  qed
qed

lemma claim_open:
  assumes "ClaimPendingOutbox wall now limit s = (Inr js, s')" "outbox_inv s"
  shows "ob_ID ` set js \<inter> not_pending s = {}"
proof -
  from assms(1) obtain fs n l where c: "claim_stmt n l (s\<lparr>db_faults := fs\<rparr>) = (js, s')"
    by (rule claim_result)
  have "ob_Status r = OutboxStatusPending"
    if "r \<in> set (db_outbox s)" "ob_ID r \<in> set (due_ids (s\<lparr>db_faults := fs\<rparr>) n l)" for r
    using due_ids_due [of "s\<lparr>db_faults := fs\<rparr>" r n l] that assms(2)
    by (simp add: due_row_def outbox_inv_def)
  then show ?thesis
    using c by (fastforce simp: claim_stmt_def Let_def not_pending_def claim_row_def)
qed

lemma distinct_select:
  assumes "distinct (map f rs)"
  shows "distinct (map f (select_order_limit p k n rs))"
proof -
  have "set (select_order_limit p k n rs) \<subseteq> set rs"
    using set_select_order_limit_subset by fastforce
  moreover have "distinct (select_order_limit p k n rs)"
    using assms by (simp add: select_order_limit_def distinct_map)
  ultimately show ?thesis
    using assms by (auto simp: distinct_map intro: inj_on_subset)
qed

lemma length_picked:
  assumes "distinct (map f rs)"
  shows "length (filter (\<lambda>r. f r \<in> set (map f (select_order_limit p k n rs))) rs) =
         min (nat n) (count_where p rs)"
proof -
  let ?sel = "select_order_limit p k n rs"
  let ?fil = "filter (\<lambda>r. f r \<in> set (map f ?sel)) rs"
  have "set (map f ?fil) = set (map f ?sel)"
    using set_select_order_limit_subset [of p k n rs] by auto
  moreover have "distinct (map f ?fil)" using assms by (simp add: distinct_map_filter)
  moreover have "distinct (map f ?sel)" using assms by (rule distinct_select)
  ultimately have "length (map f ?fil) = length (map f ?sel)"
    by (metis distinct_card)
  then show ?thesis by (simp add: length_select_order_limit)
qed

lemma picked_selected:
  assumes "distinct (map f rs)" "r \<in> set rs"
    and "f r \<in> set (map f (select_order_limit p k n rs))"
  shows "r \<in> set (select_order_limit p k n rs)"
proof -
  from assms(3) obtain r' where r': "r' \<in> set (select_order_limit p k n rs)" "f r' = f r"
    by auto
  then have "r' \<in> set rs" using set_select_order_limit_subset by fastforce
  with assms(1,2) r' have "r' = r" by (metis distinct_map inj_on_def)
  with r' show ?thesis by simp
qed

lemma claim_picks:
  assumes "outbox_inv s" "now \<noteq> 0" "ClaimPendingOutbox w now limit s = (Inr js, s')"
  obtains picked where "js = map (claim_row (db_now s)) picked"
    "length picked = min (nat (max limit 1)) (count_where (due_row s now) (db_outbox s))"
    "\<And>r. r \<in> set picked \<Longrightarrow> r \<in> set (db_outbox s) \<and> due_row s now r"
    "\<And>r r'. r \<in> set picked \<Longrightarrow> r' \<in> set (db_outbox s) \<Longrightarrow> due_row s now r' \<Longrightarrow>
       r' \<notin> set picked \<Longrightarrow> ob_NextAttemptAt r \<le> ob_NextAttemptAt r'"
proof -
  from assms(2,3) obtain fs where
    c: "claim_stmt now (if limit \<le> 0 then 1 else limit) (s\<lparr>db_faults := fs\<rparr>) = (js, s')"
    by (elim claim_result) simp
  let ?l = "if limit \<le> 0 then 1 else limit"
  let ?key = "\<lambda>r. (ob_NextAttemptAt r, ob_CreatedAt r)"
  let ?sel = "select_order_limit (due_row s now) ?key ?l (db_outbox s)"
  let ?picked = "filter (\<lambda>r. ob_ID r \<in> set (map ob_ID ?sel)) (db_outbox s)"
  have d: "distinct (map ob_ID (db_outbox s))" using assms(1) by (simp add: outbox_inv_def)
  have "due_row (s\<lparr>db_faults := fs\<rparr>) now = due_row s now"
    by (simp add: due_row_def own_def fun_eq_iff)
  then have js: "js = map (claim_row (db_now s)) ?picked"
    using c by (simp add: claim_stmt_def due_ids_def Let_def)
  have sel: "r \<in> set ?sel" if "r \<in> set ?picked" for r
    by (rule picked_selected [OF d]) (use that in simp_all)
  have first: "ob_NextAttemptAt r \<le> ob_NextAttemptAt r'"
    if "r \<in> set ?picked" "r' \<in> set (db_outbox s)" "due_row s now r'" "r' \<notin> set ?picked" for r r'
    using select_order_limit_first [OF sel [OF that(1)] that(2,3)] that(2,4) by fastforce
  have due: "r \<in> set (db_outbox s) \<and> due_row s now r" if "r \<in> set ?picked" for r
    using sel [OF that] set_select_order_limit_subset by fastforce
  have "nat ?l = nat (max limit 1)" by simp
  with length_picked [OF d, of "due_row s now" ?key ?l]
  have "length ?picked = min (nat (max limit 1)) (count_where (due_row s now) (db_outbox s))"
    by (simp only:)
  from js this due first show thesis by (rule that)
qed

section \<open>Properties\<close>

text \<open>A small table for the concrete instances: two tenants, a due job each, one delivered job.\<close>

definition sample_job :: "uuid \<Rightarrow> uuid \<Rightarrow> OutboxStatus \<Rightarrow> gotime \<Rightarrow> ChannelOutbox" where
  "sample_job i t st due =
     \<lparr>ob_ID = i, ob_TenantID = t, ob_ChannelMessageID = 90, ob_Provider = ''slack'',
      ob_RecipientID = ''C1'', ob_Payload = RawJSON (JObj [(''content'', JStr ''hi'')]),
      ob_Status = st, ob_AttemptCount = 0, ob_MaxAttempts = 5, ob_NextAttemptAt = due,
      ob_LastError = None,
      ob_LockedAt = (if st = OutboxStatusSending then Some 3 else None),
      ob_SentAt = (if st = OutboxStatusSent then Some 3 else None),
      ob_CreatedAt = 2, ob_UpdatedAt = 2\<rparr>"

definition sample_db :: db where
  "sample_db = empty_db\<lparr>db_tenant := Some 7, db_now := 10, db_next := 5,
     db_outbox := [sample_job 1 7 OutboxStatusPending 4, sample_job 2 7 OutboxStatusPending 3,
                   sample_job 3 8 OutboxStatusPending 3, sample_job 4 7 OutboxStatusSent 3]\<rparr>"

lemmas sample_defs = sample_db_def sample_job_def empty_db_def

lemma sample_inv: "outbox_inv sample_db"
  by (simp add: outbox_inv_def job_ok_def json_Valid_def sample_defs)

text \<open>
  C1: Whatever sequence of outbox operations runs, from whatever sessions and with whatever
  driver faults, the table stays well formed: identifiers are unique, exactly the claimed
  jobs carry a lock timestamp, exactly the delivered jobs carry a delivery timestamp,
  payloads are valid JSON and attempt counters are sensible.
\<close>

theorem outbox_well_formed:
  assumes "outbox_inv s"
  shows "outbox_inv (exec_calls pu cs s)"
  using assms by (rule exec_calls_inv)

theorem outbox_well_formed_witness:
  "outbox_inv sample_db \<and>
   outbox_inv (exec_calls (\<lambda>_. None)
     [Claim 1 20 5, Session (Some 8) 30 [] [Some ''down''], Claim 1 40 5, Sent 1] sample_db)"
  using outbox_well_formed [OF sample_inv] sample_inv by blast

text \<open>
  C2: One outbox operation moves a job only along the edges of the status machine
  (pending to sending; sending to sent, pending, dead or pending approval; dead to pending),
  only for a job of the session's own tenant, never loses a failed attempt, and never changes
  what is delivered, to whom, or the attempt budget.
\<close>

theorem outbox_lifecycle:
  assumes "outbox_inv s" "\<And>t n l f. c \<noteq> Session t n l f" "r \<in> set (db_outbox s)"
  shows "\<exists>r' \<in> set (db_outbox (exec_call pu c s)).
     r' = r \<or>
     (db_tenant s = Some (ob_TenantID r) \<and> same_job r r' \<and>
      legal (ob_Status r) (ob_Status r') \<and> ob_AttemptCount r \<le> ob_AttemptCount r')"
proof -
  have "outbox_step s (exec_call pu c s)"
    using assms(1,2) by (intro exec_call_step) (auto simp: outbox_inv_def)
  from outbox_step_row [OF this assms(3)] show ?thesis by (auto simp: row_step_def)
qed

theorem outbox_lifecycle_witness:
  "\<exists>r' \<in> set (db_outbox (exec_call (\<lambda>_. None) (Claim 1 20 5) sample_db)).
     r' = sample_job 1 7 OutboxStatusPending 4 \<or>
     (db_tenant sample_db = Some 7 \<and> same_job (sample_job 1 7 OutboxStatusPending 4) r' \<and>
      legal OutboxStatusPending (ob_Status r') \<and> 0 \<le> ob_AttemptCount r')"
proof -
  have "sample_job 1 7 OutboxStatusPending 4 \<in> set (db_outbox sample_db)"
    by (simp add: sample_db_def)
  from outbox_lifecycle [OF sample_inv _ this, of "Claim 1 20 5" "\<lambda>_. None"] show ?thesis
    by (simp add: sample_job_def)
qed

text \<open>A delivered job is final. No sequence of outbox operations changes or removes it, so
  a message that reached the provider is never sent again.
\<close>

theorem sent_is_final:
  assumes "outbox_inv s" "r \<in> set (db_outbox s)" "ob_Status r = OutboxStatusSent"
  shows "r \<in> set (db_outbox (exec_calls pu cs s))"
  using assms
proof (induction cs arbitrary: s)
  case Nil
  then show ?case by simp
next
  case (Cons c cs)
  from Cons.prems have "r \<in> set (db_outbox (exec_call pu c s))" by (intro exec_call_sent)
  with Cons.prems show ?case by (simp add: Cons.IH exec_call_inv)
qed

theorem sent_is_final_witness:
  "sample_job 4 7 OutboxStatusSent 3 \<in> set (db_outbox (exec_calls (\<lambda>_. None)
     [Recover 1 99 5, Claim 1 50 5, Requeue 4, Dead 4 ''x''] sample_db))"
proof -
  have "sample_job 4 7 OutboxStatusSent 3 \<in> set (db_outbox sample_db)"
    by (simp add: sample_db_def)
  then show ?thesis by (rule sent_is_final [OF sample_inv]) (simp add: sample_job_def)
qed

text \<open>Tenant isolation. However many operations other tenants' sessions run, the jobs of a
  tenant that no session acts for stay exactly as they were, in the same order.
\<close>

theorem outbox_tenant_isolation:
  assumes "outbox_inv s" "db_tenant s \<noteq> Some t" "\<And>c. c \<in> set cs \<Longrightarrow> \<not> acts_for t c"
  shows "rows_of t (exec_calls pu cs s) = rows_of t s"
  using assms
proof (induction cs arbitrary: s)
  case Nil
  then show ?case by simp
next
  case (Cons c cs)
  from Cons.prems have f: "rows_of t (exec_call pu c s) = rows_of t s"
    "db_tenant (exec_call pu c s) \<noteq> Some t"
    using exec_call_foreign [of s t c pu] by auto
  have "rows_of t (exec_calls pu cs (exec_call pu c s)) = rows_of t (exec_call pu c s)"
    using Cons.prems f(2) by (intro Cons.IH exec_call_inv) auto
  with f(1) show ?case by simp
qed

theorem outbox_tenant_isolation_witness:
  "rows_of 8 (exec_calls (\<lambda>_. None)
     [Claim 1 20 5, Dead 3 ''x'', Session (Some 9) 30 [] [], Claim 1 99 9] sample_db) =
   [sample_job 3 8 OutboxStatusPending 3]"
proof -
  have "rows_of 8 (exec_calls (\<lambda>_. None)
     [Claim 1 20 5, Dead 3 ''x'', Session (Some 9) 30 [] [], Claim 1 99 9] sample_db) =
     rows_of 8 sample_db"
    by (rule outbox_tenant_isolation [OF sample_inv]) (auto simp: sample_defs)
  also have "\<dots> = [sample_job 3 8 OutboxStatusPending 3]"
    by (simp add: rows_of_def sample_defs)
  finally show ?thesis .
qed

text \<open>
  C3: Exclusive claims. Between two successful claims, with any operations and sessions in
  between that do not explicitly put a job back (retry, requeue, stale-lock recovery), no job
  is handed out twice: concurrent workers never send the same job.
\<close>

theorem claims_are_exclusive:
  assumes "outbox_inv s" "ClaimPendingOutbox w n l s = (Inr js, s1)"
    and "\<And>c. c \<in> set cs \<Longrightarrow> \<not> reopens c"
    and "ClaimPendingOutbox w' n' l' (exec_calls pu cs s1) = (Inr js', s2)"
  shows "ob_ID ` set js \<inter> ob_ID ` set js' = {}"
proof -
  have "outbox_inv s1"
    using exec_call_inv [OF assms(1), of "\<lambda>_. None" "Claim w n l"] assms(2) by simp
  then have "outbox_inv (exec_calls pu cs s1)" by (rule exec_calls_inv)
  then have "ob_ID ` set js' \<inter> not_pending (exec_calls pu cs s1) = {}"
    by (rule claim_open [OF assms(4)])
  moreover have "not_pending s1 \<subseteq> not_pending (exec_calls pu cs s1)"
    using assms(3)
  proof (induction cs arbitrary: s1)
    case (Cons c cs)
    then show ?case using exec_call_closed [of c s1 pu] by fastforce
  qed simp
  ultimately show ?thesis using claim_closes [OF assms(2)] by blast
qed

theorem claims_are_exclusive_witness:
  "\<exists>js s1 js' s2. ClaimPendingOutbox 1 20 1 sample_db = (Inr js, s1) \<and> map ob_ID js = [2] \<and>
     ClaimPendingOutbox 1 20 5 (exec_calls (\<lambda>_. None) [Sent 9] s1) = (Inr js', s2) \<and>
     map ob_ID js' = [1] \<and> ob_ID ` set js \<inter> ob_ID ` set js' = {}"
proof -
  let ?c = "\<lambda>l s. ClaimPendingOutbox 1 20 l s"
  let ?s1 = "snd (?c 1 sample_db)"
  let ?s = "exec_calls (\<lambda>_. None) [Sent 9] ?s1"
  have a: "?c 1 sample_db = (Inr [claim_row 10 (sample_job 2 7 OutboxStatusPending 3)], ?s1)"
    by (rule prod_eqI) (code_simp, simp)
  have b: "?c 5 ?s = (Inr [claim_row 10 (sample_job 1 7 OutboxStatusPending 4)], snd (?c 5 ?s))"
    by (rule prod_eqI) (code_simp, simp)
  from claims_are_exclusive [OF sample_inv a _ b] a b show ?thesis
    by (fastforce simp: claim_row_def sample_job_def)
qed

text \<open>What a successful claim returns: as many jobs as are due, at most the requested limit
  (one when none is given); only jobs of the tenant that were pending, due and not locked;
  and no due job is passed over for one with a later attempt time.
\<close>

theorem claim_takes_earliest_due:
  assumes "outbox_inv s" "now \<noteq> 0" "ClaimPendingOutbox w now limit s = (Inr js, s')"
  shows "length js = min (nat (max limit 1)) (count_where (due_row s now) (db_outbox s)) \<and>
     (\<forall>j \<in> set js. \<exists>r \<in> set (db_outbox s). due_row s now r \<and> j = claim_row (db_now s) r \<and>
        (\<forall>r' \<in> set (db_outbox s). due_row s now r' \<and> ob_ID r' \<notin> ob_ID ` set js \<longrightarrow>
           ob_NextAttemptAt r \<le> ob_NextAttemptAt r'))"
proof -
  from assms obtain picked where p: "js = map (claim_row (db_now s)) picked"
    "length picked = min (nat (max limit 1)) (count_where (due_row s now) (db_outbox s))"
    "\<And>r. r \<in> set picked \<Longrightarrow> r \<in> set (db_outbox s) \<and> due_row s now r"
    "\<And>r r'. r \<in> set picked \<Longrightarrow> r' \<in> set (db_outbox s) \<Longrightarrow> due_row s now r' \<Longrightarrow>
       r' \<notin> set picked \<Longrightarrow> ob_NextAttemptAt r \<le> ob_NextAttemptAt r'"
    by (rule claim_picks) blast
  have "ob_ID ` set js = ob_ID ` set picked" by (simp add: p(1) claim_row_def image_image)
  with p(3,4) show ?thesis unfolding p(1) by (simp add: p(2)) blast
qed

theorem claim_takes_earliest_due_witness:
  "\<exists>js s'. ClaimPendingOutbox 1 20 1 sample_db = (Inr js, s') \<and> length js = 1 \<and>
     (\<forall>j \<in> set js. ob_NextAttemptAt j \<le> 4)"
proof -
  let ?c = "ClaimPendingOutbox 1 20 1 sample_db"
  have a: "?c = (Inr [claim_row 10 (sample_job 2 7 OutboxStatusPending 3)], snd ?c)"
    by (rule prod_eqI) (code_simp, simp)
  have "count_where (due_row sample_db 20) (db_outbox sample_db) = 2" by code_simp
  with claim_takes_earliest_due [OF sample_inv _ a]
  have "length [claim_row 10 (sample_job 2 7 OutboxStatusPending 3)] = min (nat (max 1 1)) 2"
    by simp
  with a show ?thesis
    by (intro exI conjI) (assumption, simp, simp add: claim_row_def sample_job_def)
qed

end
