(* ===== verification/Approval_Laws.thy ===== *)
theory Approval_Laws
  imports Approvals Outbox_Lifecycle
begin

text \<open>
  What the approval flow guarantees: resolutions are final, nobody reviews their own request,
  resolving moves the linked outbox job along exactly one edge, and an approval and its
  governed action are created together.
\<close>

section \<open>Invariants\<close>

definition request_ok :: "Request \<Rightarrow> bool" where
  "request_ok r \<longleftrightarrow>
     (rq_Status r = StatusPending \<longleftrightarrow> rq_ReviewedBy r = None) \<and>
     rq_Status r \<in> {StatusPending, StatusApproved, StatusDenied} \<and>
     (rq_ReviewedBy r \<noteq> None \<longrightarrow> rq_ReviewedBy r \<noteq> rq_RequestedBy r)"

definition approvals_inv :: "db \<Rightarrow> bool" where
  "approvals_inv s \<longleftrightarrow>
     distinct (map rq_ID (db_approvals s)) \<and>
     (\<forall>r \<in> set (db_approvals s). request_ok r \<and> rq_ID r < db_next s)"

definition flow_inv :: "db \<Rightarrow> bool" where
  "flow_inv s \<longleftrightarrow> approvals_inv s \<and> outbox_inv s"

text \<open>A resolved request, as a fact of the database.\<close>

definition resolved_in :: "Request \<Rightarrow> db \<Rightarrow> bool" where
  "resolved_in r s \<longleftrightarrow> flow_inv s \<and> r \<in> set (db_approvals s) \<and> rq_Status r \<noteq> StatusPending"

lemma flow_inv_blind [simp]: "session_blind flow_inv"
  by (simp add: session_blind_def flow_inv_def approvals_inv_def outbox_inv_def)

lemma resolved_in_blind [simp]: "session_blind (resolved_in r)"
  using flow_inv_blind by (simp add: session_blind_def resolved_in_def)

lemmas blind [simp] = flow_inv_blind [THEN session_blind_faults] resolved_in_blind [THEN session_blind_faults]

section \<open>Statements\<close>

lemma append_request_inv:
  assumes "flow_inv s" "request_ok row" "rq_ID row = db_next s"
  shows "flow_inv (s\<lparr>db_approvals := db_approvals s @ [row], db_next := Suc (db_next s)\<rparr>)"
proof -
  have "approvals_inv s" using assms(1) by (simp add: flow_inv_def)
  then have "db_next s \<notin> rq_ID ` set (db_approvals s)" by (auto simp: approvals_inv_def)
  with assms show ?thesis
    by (auto simp: flow_inv_def approvals_inv_def outbox_inv_def less_SucI)
qed

lemma insert_request_inv: "keeps flow_inv (insert_request p)"
  by (rule keepsI) (auto simp: insert_request_def request_ok_def Let_def intro!: append_request_inv)

lemma resolve_stmt_inv:
  assumes "st \<in> {StatusApproved, StatusDenied}"
  shows "keeps flow_inv (resolve_stmt a st rv t)"
proof (rule keepsI)
  fix s assume inv: "flow_inv s"
  let ?p = "\<lambda>r. visible s (rq_TenantID r) \<and> rq_ID r = a \<and> rq_Status r = StatusPending \<and>
     rq_TenantID r = t \<and> (case rq_RequestedBy r of None \<Rightarrow> True | Some u \<Rightarrow> u \<noteq> rv)"
  let ?f = "resolved_request st rv (db_now s)"
  have "map rq_ID (upd_where ?p ?f (db_approvals s)) = map rq_ID (db_approvals s)"
    by (rule map_upd_where_id) (simp add: resolved_request_def)
  moreover have "request_ok (?f r)" if "?p r" "request_ok r" for r
    using that assms by (auto simp: request_ok_def resolved_request_def split: option.splits)
  ultimately have "approvals_inv (snd (resolve_stmt a st rv t s))"
    using inv by (auto simp: flow_inv_def approvals_inv_def resolve_stmt_def Let_def in_upd_where)
      (auto simp: resolved_request_def)
  then show "flow_inv (snd (resolve_stmt a st rv t s))"
    using inv by (simp add: flow_inv_def outbox_inv_def resolve_stmt_def Let_def)
qed

lemma outbox_link_inv:
  assumes "f \<in> {released_job, refused_job}"
  shows "keeps flow_inv (outbox_link_stmt f i)"
proof (rule keepsI)
  fix s assume inv: "flow_inv s"
  let ?p = "\<lambda>r. visible s (ob_TenantID r) \<and> ob_ID r = i \<and> ob_Status r = OutboxStatusPendingApproval"
  have "map ob_ID (upd_where ?p (f (db_now s)) (db_outbox s)) = map ob_ID (db_outbox s)"
    by (rule map_upd_where_id) (use assms in \<open>auto simp: released_job_def refused_job_def\<close>)
  moreover have "job_ok (f (db_now s) r)" if "?p r" "job_ok r" for r
    using that assms by (auto simp: job_ok_def released_job_def refused_job_def)
  moreover have "ob_ID (f (db_now s) r) = ob_ID r" for r
    using assms by (auto simp: released_job_def refused_job_def)
  ultimately show "flow_inv (snd (outbox_link_stmt f i s))"
    using inv by (auto simp: flow_inv_def approvals_inv_def outbox_inv_def outbox_link_stmt_def
        in_upd_where)
qed

text \<open>Resolved rows stay.\<close>

lemma resolved_stays:
  "keeps flow_inv f \<Longrightarrow> (\<And>s. set (db_approvals s) \<subseteq> set (db_approvals (snd (f s)))) \<Longrightarrow>
   keeps (resolved_in r) f"
  unfolding keeps_def resolved_in_def by blast

lemma insert_request_stays: "keeps (resolved_in r) (insert_request p)"
  by (rule resolved_stays [OF insert_request_inv]) (auto simp: insert_request_def Let_def)

lemma outbox_link_stays: "f \<in> {released_job, refused_job} \<Longrightarrow> keeps (resolved_in r) (outbox_link_stmt f i)"
  by (rule resolved_stays [OF outbox_link_inv]) (auto simp: outbox_link_stmt_def)

lemma resolve_stmt_stays:
  assumes "st \<in> {StatusApproved, StatusDenied}"
  shows "keeps (resolved_in r) (resolve_stmt a st rv t)"
proof (rule keepsI)
  fix s assume "resolved_in r s"
  moreover have "r \<in> set (db_approvals (snd (resolve_stmt a st rv t s)))"
    if "r \<in> set (db_approvals s)" "rq_Status r \<noteq> StatusPending"
    using that by (auto simp: resolve_stmt_def Let_def in_upd_where)
  ultimately show "resolved_in r (snd (resolve_stmt a st rv t s))"
    using resolve_stmt_inv [OF assms, of a rv t] by (auto simp: resolved_in_def keeps_def)
qed

section \<open>Operations\<close>

text \<open>Resolution keeps what its three statements keep.\<close>

lemma resolve_keeps:
  assumes "fault_blind P" "keeps P (resolve_stmt a st rv t)"
    and "\<And>i. keeps P (outbox_link_stmt (if st = StatusApproved then released_job else refused_job) i)"
  shows "keeps P (resolve a rv t st)"
proof -
  have link: "keeps P (\<lambda>s. case rq_ChannelOutboxID rq of
        None \<Rightarrow> (Inr rq, s)
      | Some i \<Rightarrow> (case sql (outbox_link_stmt
                     (if st = StatusApproved then released_job else refused_job) i) s of
            (Inl e, s3) \<Rightarrow> (Inl (Wrap ''updating linked outbox status'' e), s3)
          | (Inr _, s3) \<Rightarrow> (Inr rq, s3)))" for rq :: Request
  proof (cases "rq_ChannelOutboxID rq")
    case None
    then show ?thesis by (simp add: keeps_return)
  next
    case (Some i)
    then show ?thesis
      by (simp only: option.case) (rule keeps_bind [OF keeps_sql [OF assms(1,3)] keeps_return])
  qed
  have "keeps P (\<lambda>s. query_row ''resolving approval request'' ErrApprovalNotPending
      (sql (resolve_stmt a st rv t) s))"
    by (rule keeps_query_row [OF keeps_sql [OF assms(1,2)]])
  from keeps_bind [OF this link, of Inl]
  have upd: "keeps P (\<lambda>s. case query_row ''resolving approval request'' ErrApprovalNotPending
      (sql (resolve_stmt a st rv t) s) of
        (Inl e, s2) \<Rightarrow> (Inl e, s2)
      | (Inr rq, s2) \<Rightarrow> (case rq_ChannelOutboxID rq of
            None \<Rightarrow> (Inr rq, s2)
          | Some i \<Rightarrow> (case sql (outbox_link_stmt
                         (if st = StatusApproved then released_job else refused_job) i) s2 of
                (Inl e, s3) \<Rightarrow> (Inl (Wrap ''updating linked outbox status'' e), s3)
              | (Inr _, s3) \<Rightarrow> (Inr rq, s3))))" .
  have get: "keeps P (getForResolve a t)"
    unfolding getForResolve_def by (rule keeps_query_row [OF keeps_sql [OF assms(1) keeps_query]])
  show ?thesis
    unfolding resolve_def
    by (rule keeps_bind [OF get]) (intro keeps_if keeps_return upd)
qed

lemma resolve_inv:
  "keeps flow_inv (resolve a rv t StatusApproved)" "keeps flow_inv (resolve a rv t StatusDenied)"
  by (rule resolve_keeps; simp add: resolve_stmt_inv outbox_link_inv)+

lemma resolve_stays:
  "keeps (resolved_in r) (resolve a rv t StatusApproved)"
  "keeps (resolved_in r) (resolve a rv t StatusDenied)"
  by (rule resolve_keeps; simp add: resolve_stmt_stays outbox_link_stays)+

text \<open>The store of actions touches neither requests nor jobs.\<close>

lemma action_stmt_inv:
  "keeps flow_inv (insert_action p args st)" "keeps flow_inv (update_action i a st allowed)"
  by (rule keepsI; auto simp: insert_action_def update_action_def flow_inv_def approvals_inv_def
      outbox_inv_def Let_def less_SucI split: option.splits)+

lemma action_stmt_stays:
  "keeps (resolved_in r) (insert_action p args st)" "keeps (resolved_in r) (update_action i a st allowed)"
  by (rule resolved_stays [OF action_stmt_inv(1)]; auto simp: insert_action_def Let_def)
    (rule resolved_stays [OF action_stmt_inv(2)]; auto simp: update_action_def Let_def split: option.splits)

lemma action_ops_keep:
  assumes "fault_blind P" "\<And>p args st. keeps P (insert_action p args st)"
    and "\<And>i a st allowed. keeps P (update_action i a st allowed)"
  shows "keeps P (ga_Create p)" "keeps P (MarkAwaitingApproval i a)"
proof -
  show "keeps P (ga_Create p)"
    unfolding ga_Create_def Let_def
    by (rule keeps_wrap_err [OF keeps_checked [OF keeps_sql [OF assms(1,2)]]])
  show "keeps P (MarkAwaitingApproval i a)"
  proof (rule keepsI)
    fix s assume "P s"
    let ?u = "\<lambda>s. sql (update_action i (if a \<noteq> 0 then Some a else None)
      GovernedActionStatusAwaitingApproval [GovernedActionStatusPending]) s :: (gov_error + _) \<times> db"
    obtain fs where "snd (MarkAwaitingApproval i a s) = (snd (?u s))\<lparr>db_faults := fs\<rparr>"
      unfolding MarkAwaitingApproval_def using updateStatus_state by blast
    moreover have "keeps P ?u" by (rule keeps_sql [OF assms(1,3)])
    then have "P (snd (?u s))" using \<open>P s\<close> unfolding keeps_def by blast
    ultimately show "P (snd (MarkAwaitingApproval i a s))" using assms(1) by (simp add: fault_blind_def)
  qed
qed

text \<open>The store of actions, as the interface the approval store is given.\<close>

definition ga_writer :: GovernedActionWriter where
  "ga_writer = \<lparr>aw_Create = ga_Create, aw_MarkAwaitingApproval = MarkAwaitingApproval\<rparr>"

lemma connector_keeps:
  assumes "\<And>p. keeps P (aw_Create w p)" "\<And>i a. keeps P (aw_MarkAwaitingApproval w i a)"
    and "\<And>p. keeps P (rq_Create p)"
  shows "keeps P (CreateForConnectorAction sh by (Some w) params)"
  unfolding CreateForConnectorAction_def option.case
  by (intro keeps_bind assms keeps_return)

lemma rq_Create_keeps:
  assumes "fault_blind P" "\<And>p. keeps P (insert_request p)"
  shows "keeps P (rq_Create p)"
  unfolding rq_Create_def by (rule keeps_wrap_err [OF keeps_checked [OF keeps_sql [OF assms]]])

section \<open>Calls\<close>

datatype approval_call =
    ApSession "uuid option" gotime "string option list"
  | ApCreate CreateParams
  | ApConnector ConnectorActionParams
  | ApApprove uuid uuid uuid
  | ApDeny uuid uuid uuid
  | ApList uuid "string option" int

fun exec_approval ::
  "(uuid \<Rightarrow> string) \<Rightarrow> (raw_json \<Rightarrow> string) \<Rightarrow> approval_call \<Rightarrow> db \<Rightarrow> db" where
  "exec_approval sh by (ApSession t now fs) s = s\<lparr>db_tenant := t, db_now := now, db_faults := fs\<rparr>"
| "exec_approval sh by (ApCreate p) s = snd (rq_Create p s)"
| "exec_approval sh by (ApConnector p) s = snd (CreateForConnectorAction sh by (Some ga_writer) p s)"
| "exec_approval sh by (ApApprove a rv t) s = snd (Approve a rv t s)"
| "exec_approval sh by (ApDeny a rv t) s = snd (Deny a rv t s)"
| "exec_approval sh by (ApList t st n) s = snd (rq_List t st n s)"

fun exec_approvals ::
  "(uuid \<Rightarrow> string) \<Rightarrow> (raw_json \<Rightarrow> string) \<Rightarrow> approval_call list \<Rightarrow> db \<Rightarrow> db" where
  "exec_approvals sh by [] s = s"
| "exec_approvals sh by (c # cs) s = exec_approvals sh by cs (exec_approval sh by c s)"

lemma exec_approval_keeps:
  assumes "fault_blind P" "\<And>s t n f. P (s\<lparr>db_tenant := t, db_now := n, db_faults := f\<rparr>) = P s"
    and "\<And>p. keeps P (insert_request p)"
    and "\<And>p args st. keeps P (insert_action p args st)"
    and "\<And>i a st allowed. keeps P (update_action i a st allowed)"
    and "\<And>a rv t. keeps P (resolve a rv t StatusApproved)" "\<And>a rv t. keeps P (resolve a rv t StatusDenied)"
    and "P s"
  shows "P (exec_approval sh by c s)"
proof (cases c)
  case (ApConnector p)
  have "keeps P (CreateForConnectorAction sh by (Some ga_writer) p)"
    by (rule connector_keeps) (simp_all add: ga_writer_def rq_Create_keeps action_ops_keep assms)
  with ApConnector assms(8) show ?thesis by (simp add: keeps_def)
next
  case (ApList t st n)
  have "keeps P (rq_List t st n)"
    unfolding rq_List_def list_requests_stmt_def
    by (rule keeps_wrap_err [OF keeps_sql [OF assms(1) keeps_query]])
  with ApList assms(8) show ?thesis by (simp add: keeps_def)
next
  case (ApCreate p)
  then show ?thesis using rq_Create_keeps [OF assms(1,3)] assms(8) by (simp add: keeps_def)
qed (use assms(2,6-8) in \<open>simp_all add: Approve_def Deny_def keeps_def\<close>)

lemma flow_inv_session: "flow_inv (s\<lparr>db_tenant := t, db_now := n, db_faults := f\<rparr>) = flow_inv s"
  by (simp add: flow_inv_def approvals_inv_def outbox_inv_def)

lemma exec_approvals_inv: "flow_inv s \<Longrightarrow> flow_inv (exec_approvals sh by cs s)"
proof (induction cs arbitrary: s)
  case (Cons c cs)
  have "flow_inv (exec_approval sh by c s)"
    by (rule exec_approval_keeps [where P = flow_inv])
      (simp_all add: flow_inv_session insert_request_inv action_stmt_inv resolve_inv Cons.prems)
  then show ?case by (simp add: Cons.IH)
qed simp

lemma exec_approval_stays: "resolved_in r s \<Longrightarrow> resolved_in r (exec_approval sh by c s)"
  by (rule exec_approval_keeps [where P = "resolved_in r"])
    (simp_all add: insert_request_stays action_stmt_stays resolve_stays, simp add: resolved_in_def flow_inv_session)

section \<open>What a resolution does\<close>

definition open_request :: "uuid \<Rightarrow> uuid \<Rightarrow> uuid \<Rightarrow> db \<Rightarrow> Request \<Rightarrow> bool" where
  "open_request a rv t s r \<longleftrightarrow>
     visible s (rq_TenantID r) \<and> rq_ID r = a \<and> rq_Status r = StatusPending \<and> rq_TenantID r = t \<and>
     rq_RequestedBy r \<noteq> Some rv"

lemma resolve_stmt_open:
  "resolve_stmt a st rv t s =
     (map_option (resolved_request st rv (db_now s)) (find (open_request a rv t s) (db_approvals s)),
      s\<lparr>db_approvals := upd_where (open_request a rv t s) (resolved_request st rv (db_now s))
          (db_approvals s)\<rparr>)"
proof -
  have "open_request a rv t s = (\<lambda>r. visible s (rq_TenantID r) \<and> rq_ID r = a \<and>
     rq_Status r = StatusPending \<and> rq_TenantID r = t \<and>
     (case rq_RequestedBy r of None \<Rightarrow> True | Some u \<Rightarrow> u \<noteq> rv))"
    by (auto simp: open_request_def fun_eq_iff split: option.splits)
  then show ?thesis by (simp add: resolve_stmt_def Let_def)
qed

lemma open_request_faults [simp]: "open_request a rv t (s\<lparr>db_faults := fs\<rparr>) = open_request a rv t s"
  by (simp add: open_request_def visible_def own_def fun_eq_iff)

lemma getForResolve_state: "getForResolve a t s = (r, s') \<Longrightarrow> s' = s\<lparr>db_faults := tl (db_faults s)\<rparr>"
proof -
  have "snd (getForResolve a t s) = s\<lparr>db_faults := tl (db_faults s)\<rparr>"
    by (simp add: getForResolve_def sql_def split: list.splits option.splits)
  then show "getForResolve a t s = (r, s') \<Longrightarrow> ?thesis" by simp
qed

text \<open>The linked jobs a resolution moves.\<close>

definition linked_job :: "db \<Rightarrow> Request \<Rightarrow> ChannelOutbox \<Rightarrow> bool" where
  "linked_job s rq j \<longleftrightarrow>
     rq_ChannelOutboxID rq = Some (ob_ID j) \<and> visible s (ob_TenantID j) \<and>
     ob_Status j = OutboxStatusPendingApproval"

lemma resolve_Inr:
  assumes "resolve a rv t st s = (Inr rq, s')"
  shows "\<exists>r \<in> set (db_approvals s). open_request a rv t s r \<and>
    rq = resolved_request st rv (db_now s) r \<and>
    db_approvals s' = upd_where (open_request a rv t s) (resolved_request st rv (db_now s)) (db_approvals s) \<and>
    db_outbox s' = upd_where (linked_job s rq)
      ((if st = StatusApproved then released_job else refused_job) (db_now s)) (db_outbox s)"
proof -
  let ?f = "if st = StatusApproved then released_job else refused_job"
  let ?upd = "upd_where (open_request a rv t s) (resolved_request st rv (db_now s)) (db_approvals s)"
  obtain g s1 where g: "getForResolve a t s = (g, s1)" by fastforce
  with assms obtain ex where "g = Inr ex" by (cases g) (auto simp: resolve_def)
  note s1 = getForResolve_state [OF g]
  obtain u s2 where u: "query_row ''resolving approval request'' ErrApprovalNotPending
      (sql (resolve_stmt a st rv t) s1) = (u, s2)" by fastforce
  with assms g \<open>g = Inr ex\<close> have "u = Inr rq"
    by (cases u) (auto simp: resolve_def split: if_splits option.splits prod.splits sum.splits)
  with u have "sql (resolve_stmt a st rv t) s1 = (Inr (Some rq) :: gov_error + _, s2)" by simp
  then obtain fs where "resolve_stmt a st rv t (s1\<lparr>db_faults := fs\<rparr>) = (Some rq, s2)"
    by (auto dest: sql_Inr)
  then obtain r where r: "find (open_request a rv t s) (db_approvals s) = Some r"
    and rq: "rq = resolved_request st rv (db_now s) r"
    and s2: "s2 = s\<lparr>db_faults := fs, db_approvals := ?upd\<rparr>"
    by (auto simp: resolve_stmt_open s1)
  have mem: "r \<in> set (db_approvals s)" "open_request a rv t s r"
    using r by (auto simp: find_Some_iff)
  have out: "db_approvals s' = ?upd \<and> db_outbox s' = upd_where (linked_job s rq) (?f (db_now s)) (db_outbox s)"
  proof (cases "rq_ChannelOutboxID rq")
    case None
    with assms g \<open>g = Inr ex\<close> u \<open>u = Inr rq\<close> have "s' = s2"
      by (auto simp: resolve_def query_row_def split: if_splits)
    moreover have "linked_job s rq = (\<lambda>_. False)" using None by (simp add: linked_job_def fun_eq_iff)
    ultimately show ?thesis by (simp add: s2 upd_where_def)
  next
    case (Some i)
    with assms g \<open>g = Inr ex\<close> u \<open>u = Inr rq\<close>
    have "sql (outbox_link_stmt ?f i) s2 = (Inr () :: gov_error + unit, s')"
      by (auto simp: resolve_def query_row_def split: if_splits prod.splits sum.splits)
    from sql_Inr [OF this] obtain fs' where
      "outbox_link_stmt ?f i (s2\<lparr>db_faults := fs'\<rparr>) = ((), s')" by blast
    moreover have "linked_job s rq = (\<lambda>j. visible s (ob_TenantID j) \<and> ob_ID j = i \<and>
        ob_Status j = OutboxStatusPendingApproval)"
      using Some by (auto simp: linked_job_def fun_eq_iff)
    ultimately show ?thesis
      by (auto simp: outbox_link_stmt_def s2 visible_def own_def)
  qed
  show ?thesis by (rule bexI [OF _ mem(1)]) (intro conjI mem rq out [THEN conjunct1] out [THEN conjunct2])
qed

section \<open>Properties\<close>

definition sample_request :: "uuid option \<Rightarrow> Request" where
  "sample_request by =
     \<lparr>rq_ID = 6, rq_TenantID = 7, rq_AgentID = None, rq_RequestedBy = by, rq_ReviewedBy = None,
      rq_ChannelOutboxID = Some 1, rq_RiskClass = ''channel_sends'', rq_Status = StatusPending,
      rq_TargetType = ''channel_delivery'', rq_TargetLabel = ''slack:C1'',
      rq_ActionSummary = ''Review'', rq_Metadata = [], rq_CreatedAt = 2, rq_ReviewedAt = None,
      rq_ExpiresAt = None\<rparr>"

definition sample_flow :: db where
  "sample_flow = empty_db\<lparr>db_tenant := Some 7, db_now := 10, db_next := 9,
     db_outbox := [sample_job 1 7 OutboxStatusPendingApproval 3],
     db_approvals := [sample_request (Some 20)]\<rparr>"

lemma sample_flow_inv: "flow_inv sample_flow"
  by (simp add: flow_inv_def approvals_inv_def request_ok_def outbox_inv_def job_ok_def json_Valid_def
      sample_flow_def sample_request_def sample_job_def empty_db_def)

text \<open>A successful resolution had the right to happen and does exactly its job: the request
  was pending, of that tenant, and not the reviewer's own; it is now resolved with the
  reviewer and the time recorded, every other request is untouched, and of the outbox only
  the linked job that waits for approval moves, to the queue when approved and to dead when
  denied.
\<close>

theorem resolve_effect:
  assumes "approvals_inv s" "resolve a rv t st s = (Inr rq, s')"
  shows "\<exists>r \<in> set (db_approvals s).
    rq_ID r = a \<and> rq_TenantID r = t \<and> rq_Status r = StatusPending \<and> rq_RequestedBy r \<noteq> Some rv \<and>
    rq = resolved_request st rv (db_now s) r \<and>
    db_approvals s' = map (\<lambda>x. if rq_ID x = a then rq else x) (db_approvals s) \<and>
    db_outbox s' = upd_where (linked_job s rq)
      ((if st = StatusApproved then released_job else refused_job) (db_now s)) (db_outbox s)"
proof -
  from resolve_Inr [OF assms(2)] obtain r where r: "r \<in> set (db_approvals s)" "open_request a rv t s r"
    "rq = resolved_request st rv (db_now s) r"
    and a: "db_approvals s' = upd_where (open_request a rv t s) (resolved_request st rv (db_now s))
      (db_approvals s)"
    and o: "db_outbox s' = upd_where (linked_job s rq)
      ((if st = StatusApproved then released_job else refused_job) (db_now s)) (db_outbox s)"
    by blast
  have d: "distinct (map rq_ID (db_approvals s))" using assms(1) by (simp add: approvals_inv_def)
  have "x = r" if "x \<in> set (db_approvals s)" "rq_ID x = a" for x
    using d that r(1,2) by (metis distinct_map inj_onD open_request_def)
  moreover have "rq_ID x = a" if "open_request a rv t s x" for x
    using that by (simp add: open_request_def)
  ultimately have "db_approvals s' = map (\<lambda>x. if rq_ID x = a then rq else x) (db_approvals s)"
    unfolding a upd_where_def using r(2,3) by (intro map_cong) auto
  with r o show ?thesis by (intro bexI [OF _ r(1)]) (simp add: open_request_def)
qed

theorem resolve_effect_witness:
  "\<exists>rq s'. resolve 6 21 7 StatusApproved sample_flow = (Inr rq, s') \<and>
     map ob_Status (db_outbox s') = [OutboxStatusPending] \<and> rq_Status rq = StatusApproved"
proof -
  let ?r = "resolve 6 21 7 StatusApproved sample_flow"
  let ?rq = "resolved_request StatusApproved 21 10 (sample_request (Some 20))"
  have e: "?r = (Inr ?rq, snd ?r)" by (rule prod_eqI) (code_simp, simp)
  have "approvals_inv sample_flow" using sample_flow_inv by (simp add: flow_inv_def)
  from resolve_effect [OF this e]
  have "db_outbox (snd ?r) = upd_where (linked_job sample_flow ?rq)
      (released_job (db_now sample_flow)) (db_outbox sample_flow)" by auto
  also have "map ob_Status \<dots> = [OutboxStatusPending]" by code_simp
  finally show ?thesis using e by (intro exI conjI) (assumption, simp_all add: resolved_request_def)
qed

text \<open>
  C28: A resolution is final and done by somebody else. Whatever sequence of approval
  operations runs afterwards, with whatever sessions and faults, a resolved request stays
  exactly as it is; and no request is ever recorded as reviewed by its own requester.
\<close>

theorem resolution_final:
  assumes "flow_inv s" "r \<in> set (db_approvals s)" "rq_Status r \<noteq> StatusPending"
  shows "r \<in> set (db_approvals (exec_approvals sh by cs s)) \<and>
    (\<forall>x \<in> set (db_approvals (exec_approvals sh by cs s)).
       rq_ReviewedBy x = None \<or> rq_ReviewedBy x \<noteq> rq_RequestedBy x)"
proof -
  have "resolved_in r s" using assms by (simp add: resolved_in_def)
  then have "resolved_in r (exec_approvals sh by cs s)"
    by (induction cs arbitrary: s) (simp_all add: exec_approval_stays)
  then show ?thesis
    by (auto simp: resolved_in_def flow_inv_def approvals_inv_def request_ok_def)
qed

theorem resolution_final_witness:
  "let s = snd (resolve 6 21 7 StatusDenied sample_flow);
       r = resolved_request StatusDenied 21 10 (sample_request (Some 20)) in
   r \<in> set (db_approvals (exec_approvals (\<lambda>_. []) (\<lambda>_. []) [ApApprove 6 22 7, ApDeny 6 20 7] s))"
proof -
  let ?s = "snd (resolve 6 21 7 StatusDenied sample_flow)"
  let ?r = "resolved_request StatusDenied 21 10 (sample_request (Some 20))"
  have "flow_inv ?s" using resolve_inv(2) sample_flow_inv by (simp add: keeps_def)
  moreover have "db_approvals ?s = [?r]" by code_simp
  ultimately show ?thesis
    using resolution_final [of ?s ?r "\<lambda>_. []" "\<lambda>_. []" "[ApApprove 6 22 7, ApDeny 6 20 7]"]
    by (simp add: resolved_request_def del: exec_approvals.simps)
qed

end
