(* ===== verification/Connector_Approval.thy ===== *)
theory Connector_Approval
  imports Approval_Laws
begin

text \<open>
  The interface \<open>GovernedActionWriter\<close> between the approval store and the store of governed
  actions, its laws as a locale, and the creation of an approval together with its action on
  top of it.
\<close>

section \<open>The contract of an action writer\<close>

text \<open>Identifiers handed out so far, none of them the nil UUID.\<close>

definition fresh_ids :: "db \<Rightarrow> bool" where
  "fresh_ids s \<longleftrightarrow> 0 < db_next s \<and> (\<forall>r \<in> set (db_actions s). ga_ID r < db_next s)"

definition created_from :: "CreateGovernedActionParams \<Rightarrow> GovernedAction \<Rightarrow> bool" where
  "created_from p a \<longleftrightarrow>
     ga_TenantID a = gp_TenantID p \<and> ga_AgentID a = gp_AgentID p \<and>
     ga_ConnectorID a = gp_ConnectorID p \<and> ga_ToolName a = gp_ToolName p \<and>
     ga_RiskClass a = gp_RiskClass p \<and>
     ga_Arguments a = (if gp_Arguments p = RawEmpty then RawJSON (JObj []) else gp_Arguments p)"

locale action_writer =
  fixes w :: GovernedActionWriter
  assumes create:
      "\<lbrakk>fresh_ids s; aw_Create w p s = (Inr a, s')\<rbrakk> \<Longrightarrow>
       fresh_ids s' \<and> created_from p a \<and> db_tenant s' = db_tenant s \<and> own s (gp_TenantID p) \<and>
       db_actions s' = db_actions s @ [a] \<and> ga_ID a \<notin> ga_ID ` set (db_actions s) \<and>
       db_approvals s' = db_approvals s"
    and await:
      "\<lbrakk>fresh_ids s; ap \<noteq> 0; aw_MarkAwaitingApproval w i ap s = (Inr a', s')\<rbrakk> \<Longrightarrow>
       db_approvals s' = db_approvals s \<and> a' \<in> set (db_actions s') \<and>
       ga_Status a' = GovernedActionStatusAwaitingApproval \<and> ga_ApprovalRequestID a' = Some ap \<and>
       (\<exists>a \<in> set (db_actions s). ga_ID a = i \<and> same_action a a')"
begin

lemma connector_linked:
  assumes "fresh_ids s" "CreateForConnectorAction sh by (Some w) params s = (Inr res, s')"
  shows "cr_Action res \<in> set (db_actions s') \<and> cr_Approval res \<in> set (db_approvals s') \<and>
    ga_Status (cr_Action res) = GovernedActionStatusAwaitingApproval \<and>
    ga_ApprovalRequestID (cr_Action res) = Some (rq_ID (cr_Approval res)) \<and>
    created_from (action_params params) (cr_Action res) \<and>
    rq_Status (cr_Approval res) = StatusPending \<and>
    rq_RequestedBy (cr_Approval res) = ca_RequestedBy params \<and>
    rq_TenantID (cr_Approval res) = ca_TenantID params \<and>
    map_of (rq_Metadata (cr_Approval res)) ''governed_action_id'' = Some (JStr (sh (ga_ID (cr_Action res))))"
proof -
  obtain a s1 where 1: "aw_Create w (action_params params) s = (Inr a, s1)"
    using assms(2) by (fastforce simp: CreateForConnectorAction_def split: prod.splits sum.splits)
  note c = create [OF assms(1) 1]
  let ?cp = "\<lparr>cp_TenantID = ca_TenantID params, cp_AgentID = ca_AgentID params,
      cp_RequestedBy = ca_RequestedBy params, cp_ChannelOutboxID = None,
      cp_RiskClass = ca_RiskClass params, cp_TargetType = ga_TargetType a,
      cp_TargetLabel = ga_TargetLabel a, cp_ActionSummary = ga_ActionSummary a,
      cp_Metadata = approval_metadata sh by params a, cp_ExpiresAt = ca_ExpiresAt params\<rparr>"
  obtain ap s2 where 2: "rq_Create ?cp s1 = (Inr ap, s2)"
    using assms(2) 1 by (fastforce simp: CreateForConnectorAction_def split: prod.splits sum.splits)
  then have "sql (insert_request ?cp) s1 = (Inr (Inr ap) :: gov_error + _, s2)" by (simp add: rq_Create_def)
  from sql_Inr [OF this] obtain fs where "insert_request ?cp (s1\<lparr>db_faults := fs\<rparr>) = (Inr ap, s2)"
    by blast
  then have ap: "rq_ID ap = db_next s1" "rq_Status ap = StatusPending"
    "rq_RequestedBy ap = ca_RequestedBy params" "rq_TenantID ap = ca_TenantID params"
    "rq_Metadata ap = approval_metadata sh by params a" "ap \<in> set (db_approvals s2)"
    "db_actions s2 = db_actions s1" "db_next s2 = Suc (db_next s1)"
    by (auto simp: insert_request_def Let_def split: if_splits)
  with c have f2: "fresh_ids s2" "rq_ID ap \<noteq> 0" by (auto simp: fresh_ids_def less_SucI)
  obtain a' where 3: "aw_MarkAwaitingApproval w (ga_ID a) (rq_ID ap) s2 = (Inr a', s')"
    and res: "res = \<lparr>cr_Approval = ap, cr_Action = a'\<rparr>"
    using assms(2) 1 2 by (fastforce simp: CreateForConnectorAction_def split: prod.splits sum.splits)
  note m = await [OF f2 3]
  from m obtain b where b: "b \<in> set (db_actions s2)" "ga_ID b = ga_ID a" "same_action b a'" by blast
  have "b = a"
  proof (rule ccontr)
    assume "b \<noteq> a"
    then have "b \<in> set (db_actions s)" using b(1) c ap(7) by auto
    then have "ga_ID b \<in> ga_ID ` set (db_actions s)" by (rule imageI)
    with b(2) c show False by simp
  qed
  with b c have "created_from (action_params params) a'" "ga_ID a' = ga_ID a"
    by (auto simp: created_from_def same_action_def)
  with m ap show ?thesis by (simp add: res approval_metadata_def Let_def)
qed

end

section \<open>The store of actions is an action writer\<close>

lemma ga_Create_Inr:
  assumes "fresh_ids s" "ga_Create p s = (Inr a, s')"
  shows "fresh_ids s' \<and> created_from p a \<and> db_tenant s' = db_tenant s \<and> own s (gp_TenantID p) \<and>
    db_actions s' = db_actions s @ [a] \<and> ga_ID a \<notin> ga_ID ` set (db_actions s) \<and>
    db_approvals s' = db_approvals s"
proof -
  let ?args = "if gp_Arguments p = RawEmpty then RawJSON (JObj []) else gp_Arguments p"
  let ?st = "case gp_Status p of None \<Rightarrow> GovernedActionStatusPending | Some st \<Rightarrow> st"
  from assms(2) have "sql (insert_action p ?args ?st) s = (Inr (Inr a) :: gov_error + _, s')"
    by (simp add: ga_Create_def Let_def)
  from sql_Inr [OF this] obtain fs where "insert_action p ?args ?st (s\<lparr>db_faults := fs\<rparr>) = (Inr a, s')"
    by blast
  with assms(1) show ?thesis
    by (auto simp: insert_action_def fresh_ids_def created_from_def own_def Let_def less_SucI
        split: if_splits)
qed

lemma MarkAwaitingApproval_Inr:
  assumes "ap \<noteq> 0" "MarkAwaitingApproval i ap s = (Inr a', s')"
  shows "db_approvals s' = db_approvals s \<and> a' \<in> set (db_actions s') \<and>
    ga_Status a' = GovernedActionStatusAwaitingApproval \<and> ga_ApprovalRequestID a' = Some ap \<and>
    (\<exists>a \<in> set (db_actions s). ga_ID a = i \<and> same_action a a')"
proof -
  let ?stmt = "update_action i (Some ap) GovernedActionStatusAwaitingApproval [GovernedActionStatusPending]"
  from assms have "sql ?stmt s = (Inr (Inr (Some a')) :: gov_error + _, s')"
    by (auto simp: MarkAwaitingApproval_def updateStatus_def Let_def checked_def
        split: prod.splits sum.splits option.splits)
  from sql_Inr [OF this] obtain fs where u: "?stmt (s\<lparr>db_faults := fs\<rparr>) = (Inr (Some a'), s')" by blast
  let ?p = "\<lambda>r. ga_ID r = i \<and> own s (ga_TenantID r) \<and> ga_Status r = GovernedActionStatusPending"
  from u obtain a where f: "find ?p (db_actions s) = Some a"
    and a': "a' = move_action (Some ap) GovernedActionStatusAwaitingApproval (db_now s) a"
    and s': "db_approvals s' = db_approvals s" "db_actions s' = upd_where ?p
      (move_action (Some ap) GovernedActionStatusAwaitingApproval (db_now s)) (db_actions s)"
    by (force simp: update_action_def own_def Let_def split: option.splits if_splits)
  note a = find_SomeD [OF f]
  then have "a' \<in> set (db_actions s')" unfolding s'(2) a' in_upd_where by blast
  with a a' s'(1) show ?thesis by (auto simp: move_action_def same_action_def)
qed

interpretation gaw: action_writer ga_writer
  by unfold_locales (use ga_Create_Inr MarkAwaitingApproval_Inr in \<open>auto simp: ga_writer_def\<close>)

section \<open>Properties\<close>

definition sample_params :: ConnectorActionParams where
  "sample_params =
     \<lparr>ca_TenantID = 7, ca_AgentID = Some 3, ca_RequestedBy = Some 20, ca_ConnectorID = 4,
      ca_ConnectorName = ''bank'', ca_SessionID = ''s'', ca_CorrelationID = ''c'',
      ca_ToolName = ''pay'', ca_RiskClass = ''external_writes'', ca_TargetType = [],
      ca_TargetLabel = [], ca_ActionSummary = [], ca_Arguments = RawEmpty, ca_Metadata = [],
      ca_ExpiresAt = None\<rparr>"

text \<open>An approval for a connector action is created together with its action, each knowing
  the other: on success the action is stored waiting for approval with a reference to the
  stored pending request, its tool, connector, agent and arguments are the ones asked for,
  and the request carries the action's identifier in its metadata; the resolver finds it
  there.
\<close>

theorem connector_approval_linked:
  assumes "fresh_ids s"
    and "CreateForConnectorAction sh by (Some ga_writer) params s = (Inr res, s')"
  shows "cr_Action res \<in> set (db_actions s') \<and> cr_Approval res \<in> set (db_approvals s') \<and>
    ga_Status (cr_Action res) = GovernedActionStatusAwaitingApproval \<and>
    ga_ApprovalRequestID (cr_Action res) = Some (rq_ID (cr_Approval res)) \<and>
    created_from (action_params params) (cr_Action res) \<and>
    rq_Status (cr_Approval res) = StatusPending \<and>
    rq_RequestedBy (cr_Approval res) = ca_RequestedBy params \<and>
    rq_TenantID (cr_Approval res) = ca_TenantID params \<and>
    map_of (rq_Metadata (cr_Approval res)) ''governed_action_id'' = Some (JStr (sh (ga_ID (cr_Action res))))"
  using assms by (rule gaw.connector_linked)

theorem connector_approval_linked_witness:
  "\<exists>res s'. CreateForConnectorAction (\<lambda>_. ''id'') (\<lambda>_. []) (Some ga_writer) sample_params
       (empty_db\<lparr>db_tenant := Some 7\<rparr>) = (Inr res, s') \<and>
     ga_ApprovalRequestID (cr_Action res) = Some (rq_ID (cr_Approval res)) \<and>
     cr_Action res \<in> set (db_actions s')"
proof -
  let ?s = "empty_db\<lparr>db_tenant := Some 7\<rparr>"
  let ?r = "CreateForConnectorAction (\<lambda>_. ''id'') (\<lambda>_. []) (Some ga_writer) sample_params ?s"
  have "\<not> isl (fst ?r)" by code_simp
  then obtain res where e: "?r = (Inr res, snd ?r)"
    by (cases ?r; cases "fst ?r") auto
  have "fresh_ids ?s" by (simp add: fresh_ids_def empty_db_def)
  from connector_approval_linked [OF this e] e show ?thesis by blast
qed

end
