(* ===== verification/Outbox_Errors.thy ===== *)
theory Outbox_Errors
  imports Heimdall_Prelude
begin

text \<open>
  The classification of provider send failures (\<open>internal/channels/outbox_errors.go\<close>).
  A send error is a plain error, an \<open>OutboxSendError\<close>, or the result of wrapping one with
  \<open>fmt.Errorf("prefix: %w", err)\<close>.
\<close>

datatype send_error =
    PlainError string
  | OutboxSendError "send_error option" bool duration
  | WrapError string send_error

text \<open>\<open>err.Error()\<close>\<close>

fun Error :: "send_error \<Rightarrow> string" where
  "Error (PlainError m) = m"
| "Error (OutboxSendError None _ _) = []"
| "Error (OutboxSendError (Some e) _ _) = Error e"
| "Error (WrapError m e) = m @ '': '' @ Error e"

definition NewOutboxPermanentError :: "send_error option \<Rightarrow> send_error option" where
  "NewOutboxPermanentError err =
     (case err of None \<Rightarrow> None | Some e \<Rightarrow> Some (OutboxSendError (Some e) True 0))"

definition NewOutboxTransientErrorWithRetryAfter ::
  "send_error option \<Rightarrow> duration \<Rightarrow> send_error option" where
  "NewOutboxTransientErrorWithRetryAfter err retryAfter =
     (case err of None \<Rightarrow> None | Some e \<Rightarrow> Some (OutboxSendError (Some e) False retryAfter))"

text \<open>
  \<open>errors.As(err, &sendErr)\<close>: the outermost \<open>OutboxSendError\<close> of the chain, as its
  \<open>permanent\<close> and \<open>retryAfter\<close> fields.
\<close>

fun errors_As :: "send_error \<Rightarrow> (bool \<times> duration) option" where
  "errors_As (PlainError _) = None"
| "errors_As (OutboxSendError _ permanent retryAfter) = Some (permanent, retryAfter)"
| "errors_As (WrapError _ e) = errors_As e"

definition IsOutboxPermanentError :: "send_error option \<Rightarrow> bool" where
  "IsOutboxPermanentError err =
     (case err of None \<Rightarrow> False
      | Some e \<Rightarrow> (case errors_As e of None \<Rightarrow> False | Some (permanent, _) \<Rightarrow> permanent))"

definition OutboxRetryAfter :: "send_error option \<Rightarrow> duration option" where
  "OutboxRetryAfter err =
     (case err of None \<Rightarrow> None
      | Some e \<Rightarrow>
          (case errors_As e of None \<Rightarrow> None
           | Some (_, retryAfter) \<Rightarrow> if retryAfter \<le> 0 then None else Some retryAfter))"

fun wrap_all :: "string list \<Rightarrow> send_error \<Rightarrow> send_error" where
  "wrap_all [] e = e"
| "wrap_all (m # ms) e = WrapError m (wrap_all ms e)"

lemma errors_As_wrap_all [simp]: "errors_As (wrap_all ms e) = errors_As e"
  by (induction ms) auto

text \<open>The classification survives any number of context-adding wraps: an error made permanent
  stays permanent and gives no retry hint, an error made transient stays transient and gives
  its hint exactly when it is positive, and an unclassified error is transient with no hint.
\<close>

theorem send_error_classification:
  "IsOutboxPermanentError (map_option (wrap_all ms) (NewOutboxPermanentError (Some e))) \<and>
   OutboxRetryAfter (map_option (wrap_all ms) (NewOutboxPermanentError (Some e))) = None \<and>
   \<not> IsOutboxPermanentError
       (map_option (wrap_all ms) (NewOutboxTransientErrorWithRetryAfter (Some e) d)) \<and>
   OutboxRetryAfter (map_option (wrap_all ms) (NewOutboxTransientErrorWithRetryAfter (Some e) d)) =
     (if 0 < d then Some d else None) \<and>
   \<not> IsOutboxPermanentError (Some (wrap_all ms (PlainError m))) \<and>
   OutboxRetryAfter (Some (wrap_all ms (PlainError m))) = None"
  by (simp add: IsOutboxPermanentError_def OutboxRetryAfter_def NewOutboxPermanentError_def
      NewOutboxTransientErrorWithRetryAfter_def)

end
