(* ===== verification/Go_Regexp.thy ===== *)
theory Go_Regexp
  imports Heimdall_Prelude
begin

text \<open>
  The part of Go's \<open>regexp\<close> package the outbound scanner uses: byte classes,
  sequencing, ordered alternatives, greedy repetition and the ASCII word boundary, with the
  leftmost-first match of \<open>FindString\<close>. Patterns are read on the UTF-8 bytes of the text;
  a case-insensitive letter class has the two non-ASCII code points that fold to \<open>k\<close> and
  \<open>s\<close> (U+212A and U+017F) as extra alternatives.
\<close>

section \<open>Patterns and matching\<close>

datatype regex =
    Cls "char \<Rightarrow> bool"
  | Eps
  | Seq regex regex
  | Alt regex regex
  | Star regex
  | WordB

text \<open>A position is the byte just read, if any, and the text that is left.\<close>

type_synonym pos = "char option \<times> string"

definition is_word :: "char option \<Rightarrow> bool" where
  "is_word c \<longleftrightarrow>
     (case c of None \<Rightarrow> False
      | Some c \<Rightarrow> (let n = (of_char c :: nat) in
          (48 \<le> n \<and> n \<le> 57) \<or> (65 \<le> n \<and> n \<le> 90) \<or> (97 \<le> n \<and> n \<le> 122) \<or> n = 95))"

definition head :: "string \<Rightarrow> char option" where
  "head s = (case s of [] \<Rightarrow> None | c # _ \<Rightarrow> Some c)"

text \<open>
  All the ways a greedy repetition can go on from a position, preferred first; the bound
  counts iterations, each of which has to consume a byte.
\<close>

fun star_iter :: "nat \<Rightarrow> (pos \<Rightarrow> pos list) \<Rightarrow> pos \<Rightarrow> pos list" where
  "star_iter 0 m p = [p]"
| "star_iter (Suc n) m p =
     concat (map (star_iter n m) (filter (\<lambda>q. length (snd q) < length (snd p)) (m p))) @ [p]"

text \<open>The end positions of the matches from a position, in order of preference.\<close>

primrec re_match :: "regex \<Rightarrow> pos \<Rightarrow> pos list" where
  "re_match (Cls f) = (\<lambda>(b, s). case s of [] \<Rightarrow> [] | c # cs \<Rightarrow> if f c then [(Some c, cs)] else [])"
| "re_match Eps = (\<lambda>p. [p])"
| "re_match (Seq r q) = (\<lambda>p. concat (map (re_match q) (re_match r p)))"
| "re_match (Alt r q) = (\<lambda>p. re_match r p @ re_match q p)"
| "re_match (Star r) = (\<lambda>p. star_iter (length (snd p)) (re_match r) p)"
| "re_match WordB = (\<lambda>(b, s). if is_word b = is_word (head s) then [] else [(b, s)])"

text \<open>\<open>FindString\<close>: the leftmost match, empty when there is none.\<close>

fun find_from :: "regex \<Rightarrow> char option \<Rightarrow> string \<Rightarrow> string" where
  "find_from r b s =
     (case re_match r (b, s) of
        (_, rest) # _ \<Rightarrow> take (length s - length rest) s
      | [] \<Rightarrow> (case s of [] \<Rightarrow> [] | c # cs \<Rightarrow> find_from r (Some c) cs))"

declare find_from.simps [simp del]

definition FindString :: "regex \<Rightarrow> string \<Rightarrow> string" where
  "FindString r s = find_from r None s"

section \<open>Notation for patterns\<close>

definition lit :: "string \<Rightarrow> regex" where
  "lit w = foldr (\<lambda>c r. Seq (Cls (\<lambda>x. x = c)) r) w Eps"

definition in_range :: "char \<Rightarrow> char \<Rightarrow> char \<Rightarrow> bool" where
  "in_range a b c \<longleftrightarrow> (of_char a :: nat) \<le> of_char c \<and> (of_char c :: nat) \<le> of_char b"

definition one_of :: "string \<Rightarrow> char \<Rightarrow> bool" where
  "one_of cs c \<longleftrightarrow> c \<in> set cs"

definition plus :: "regex \<Rightarrow> regex" where
  "plus r = Seq r (Star r)"

definition opt :: "regex \<Rightarrow> regex" where
  "opt r = Alt r Eps"

primrec rep :: "nat \<Rightarrow> regex \<Rightarrow> regex" where
  "rep 0 r = Eps"
| "rep (Suc n) r = Seq r (rep n r)"

definition kelvin :: string where
  "kelvin = [CHR 0xE2, CHR 0x84, CHR 0xAA]"

definition long_s :: string where
  "long_s = [CHR 0xC5, CHR 0xBF]"

text \<open>A byte under the flag \<open>(?i)\<close>.\<close>

definition ci :: "char \<Rightarrow> regex" where
  "ci c = (let r = Cls (\<lambda>x. lower_char x = lower_char c) in
     if lower_char c = CHR ''k'' then Alt r (lit kelvin)
     else if lower_char c = CHR ''s'' then Alt r (lit long_s) else r)"

definition ci_lit :: "string \<Rightarrow> regex" where
  "ci_lit w = foldr (\<lambda>c r. Seq (ci c) r) w Eps"

text \<open>A class under \<open>(?i)\<close> that contains all letters.\<close>

definition ci_letters :: "(char \<Rightarrow> bool) \<Rightarrow> regex" where
  "ci_letters f =
     Alt (Cls (\<lambda>c. in_range CHR ''a'' CHR ''z'' (lower_char c) \<or> f c))
       (Alt (lit kelvin) (lit long_s))"

definition digit :: "char \<Rightarrow> bool" where
  "digit = in_range CHR ''0'' CHR ''9''"

text \<open>The class \<open>\s\<close>.\<close>

definition space :: "char \<Rightarrow> bool" where
  "space = one_of [CHR 0x09, CHR 0x0A, CHR 0x0C, CHR 0x0D, CHR 0x20]"

text \<open>A pattern none of whose matches is empty.\<close>

primrec consumes :: "regex \<Rightarrow> bool" where
  "consumes (Cls f) = True"
| "consumes Eps = False"
| "consumes (Seq r q) = (consumes r \<or> consumes q)"
| "consumes (Alt r q) = (consumes r \<and> consumes q)"
| "consumes (Star r) = False"
| "consumes WordB = False"

section \<open>Facts about matching\<close>

lemma star_iter_shrinks:
  "q \<in> set (star_iter n m p) \<Longrightarrow> length (snd q) \<le> length (snd p)"
proof (induction n arbitrary: p)
  case (Suc n)
  then consider "q = p"
    | x where "length (snd x) < length (snd p)" "q \<in> set (star_iter n m x)" by auto
  then show ?case using Suc.IH by cases (auto dest: order_trans [OF _ less_imp_le])
qed simp

lemma re_match_shrinks: "q \<in> set (re_match r p) \<Longrightarrow> length (snd q) \<le> length (snd p)"
proof (induction r arbitrary: p q)
  case (Seq r1 r2)
  from Seq.prems obtain x where "x \<in> set (re_match r1 p)" "q \<in> set (re_match r2 x)" by auto
  then show ?case using Seq.IH by (meson order_trans)
next
  case (Star r)
  then show ?case by (auto intro: star_iter_shrinks)
qed (auto split: list.splits if_splits)

lemma re_match_consumes:
  "consumes r \<Longrightarrow> q \<in> set (re_match r p) \<Longrightarrow> length (snd q) < length (snd p)"
proof (induction r arbitrary: p q)
  case (Seq r1 r2)
  then obtain x where x: "x \<in> set (re_match r1 p)" "q \<in> set (re_match r2 x)" by auto
  then have "length (snd x) \<le> length (snd p)" "length (snd q) \<le> length (snd x)"
    by (auto intro: re_match_shrinks)
  moreover have "length (snd x) < length (snd p) \<or> length (snd q) < length (snd x)"
    using Seq.prems(1) Seq.IH x by (simp only: consumes.simps) blast
  ultimately show ?case by linarith
qed (auto split: list.splits)

text \<open>The search finds a match wherever in the text it starts.\<close>

lemma find_from_found:
  assumes "consumes r"
  shows "re_match r (if pre = [] then b else Some (last pre), suf) \<noteq> [] \<Longrightarrow>
    find_from r b (pre @ suf) \<noteq> []"
proof (induction pre arbitrary: b)
  case Nil
  then obtain q qs where q: "re_match r (b, suf) = q # qs" by (auto simp: neq_Nil_conv)
  with re_match_consumes [OF assms, of q "(b, suf)"] have "length (snd q) < length suf" by simp
  with q show ?case by (cases q) (auto simp: find_from.simps [of r b suf])
next
  case (Cons c pre)
  show ?case
  proof (cases "re_match r (b, (c # pre) @ suf)")
    case Nil
    from Cons.prems have "re_match r (if pre = [] then Some c else Some (last pre), suf) \<noteq> []"
      by (cases pre) auto
    from Cons.IH [OF this] Nil show ?thesis by (simp add: find_from.simps [of r b])
  next
    case (Cons q qs)
    with re_match_consumes [OF assms, of q "(b, c # pre @ suf)"]
    have "length (snd q) < Suc (length pre + length suf)" by simp
    with Cons show ?thesis by (cases q) (auto simp: find_from.simps [of r b])
  qed
qed

text \<open>A literal matches at its first byte, whatever follows.\<close>

lemma re_match_lit:
  "re_match (lit w) (b, w @ s) = [(if w = [] then b else Some (last w), s)]"
  by (induction w arbitrary: b) (auto simp: lit_def)

lemma re_match_ci_lit:
  "(if w = [] then b else Some (last w), s) \<in> set (re_match (ci_lit w) (b, w @ s))"
proof (induction w arbitrary: b)
  case (Cons c w)
  have "(Some c, w @ s) \<in> set (re_match (ci c) (b, (c # w) @ s))"
    by (auto simp: ci_def Let_def)
  moreover have "(if c # w = [] then b else Some (last (c # w)), s) =
      (if w = [] then Some c else Some (last w), s)" by simp
  moreover have "ci_lit (c # w) = Seq (ci c) (ci_lit w)" by (simp add: ci_lit_def)
  ultimately show ?case using Cons.IH [of "Some c"] by (auto simp del: append_Cons)
qed (simp add: ci_lit_def)

end
