(* ===== verification/Outbound_Scan.thy ===== *)
theory Outbound_Scan
  imports Channel_Errors Go_Regexp "HOL-Library.Multiset"
begin

text \<open>
  The outbound payload scanner (\<open>internal/channels/outbound_scan.go\<close>) with its four
  patterns. The fields of a decoded JSON object are scanned in the order of the list; Go
  visits them in an unspecified order, so what depends on the decision is shown for every
  order.
\<close>

section \<open>Findings and rules\<close>

definition OutboundActionBlock :: string where
  "OutboundActionBlock = ''block''"

definition OutboundActionReview :: string where
  "OutboundActionReview = ''review''"

record OutboundScanFinding =
  fd_Category :: string
  fd_Path :: string
  fd_Preview :: string
  fd_Action :: string

type_synonym OutboundScanReport = "OutboundScanFinding list"

fun FirstByAction :: "OutboundScanReport \<Rightarrow> string \<Rightarrow> OutboundScanFinding option" where
  "FirstByAction [] action = None"
| "FirstByAction (f # fs) action = (if fd_Action f = action then Some f else FirstByAction fs action)"

record scanRule =
  sr_category :: string
  sr_pattern :: regex
  sr_action :: string

record StructuredOutboundScanner =
  sc_blockRules :: "scanRule list"
  sc_reviewRules :: "scanRule list"

definition alnum_ci :: regex where
  "alnum_ci = ci_letters digit"

definition secret_pattern :: regex where
  "secret_pattern =
     Alt (Seq (ci_lit ''sk_live_'') (plus alnum_ci))
    (Alt (Seq (ci_lit ''ghp_'') (plus alnum_ci))
    (Alt (Seq (ci_lit ''xox'') (Seq (Alt (Cls (\<lambda>c. one_of ''baprs'' (lower_char c))) (lit long_s))
            (Seq (ci_lit ''-'') (plus (ci_letters (\<lambda>c. digit c \<or> c = CHR ''-''))))))
         (Seq (ci_lit ''AKIA'') (rep 16 alnum_ci))))"

definition shell_ci :: regex where
  "shell_ci = Alt (ci_lit ''sh'') (ci_lit ''bash'')"

definition malicious_pattern :: regex where
  "malicious_pattern =
     Alt (ci_lit ''/dev/tcp/'')
    (Alt (Seq (ci_lit ''base64'') (Seq (plus (Cls space)) (Seq (ci_lit ''-d'') (Seq (Star (Cls space))
            (Seq (lit ''|'') (Seq (Star (Cls space)) shell_ci))))))
         (Seq (ci_lit ''curl'') (Seq (plus (Cls space)) (Seq (plus (Cls (\<lambda>c. c \<noteq> CHR ''|'')))
            (Seq (lit ''|'') (Seq (Star (Cls space)) shell_ci))))))"

definition phone_sep :: regex where
  "phone_sep = Cls (\<lambda>c. one_of ''-.'' c \<or> space c)"

definition phone_pattern :: regex where
  "phone_pattern =
     Seq WordB
    (Seq (opt (Seq (opt (lit ''+'')) (Seq (lit ''1'') (opt phone_sep))))
    (Seq (Alt (Seq (lit ''('') (Seq (rep 3 (Cls digit)) (lit '')''))) (rep 3 (Cls digit)))
    (Seq phone_sep (Seq (rep 3 (Cls digit)) (Seq phone_sep (Seq (rep 4 (Cls digit)) WordB))))))"

definition email_pattern :: regex where
  "email_pattern =
     Seq WordB
    (Seq (plus (ci_letters (\<lambda>c. digit c \<or> one_of ''._%+-'' c)))
    (Seq (lit ''@'')
    (Seq (plus (ci_letters (\<lambda>c. digit c \<or> one_of ''.-'' c)))
    (Seq (lit ''.'')
    (Seq (rep 2 (ci_letters (\<lambda>_. False)))
    (Seq (Star (ci_letters (\<lambda>_. False))) WordB))))))"

definition NewStructuredOutboundScanner :: StructuredOutboundScanner where
  "NewStructuredOutboundScanner =
     \<lparr>sc_blockRules =
        [\<lparr>sr_category = ''secret_leak'', sr_pattern = secret_pattern, sr_action = OutboundActionBlock\<rparr>,
         \<lparr>sr_category = ''malicious_payload'', sr_pattern = malicious_pattern,
          sr_action = OutboundActionBlock\<rparr>],
      sc_reviewRules =
        [\<lparr>sr_category = ''pii'', sr_pattern = phone_pattern, sr_action = OutboundActionReview\<rparr>,
         \<lparr>sr_category = ''pii'', sr_pattern = email_pattern, sr_action = OutboundActionReview\<rparr>]\<rparr>"

definition truncateFindingPreview :: "string \<Rightarrow> string" where
  "truncateFindingPreview value =
     (let value = TrimSpace value in
      if length value \<le> 32 then value else take 29 value @ ''...'')"

section \<open>Scanning\<close>

definition apply_rule :: "string \<Rightarrow> string \<Rightarrow> scanRule \<Rightarrow> OutboundScanFinding list" where
  "apply_rule path text rule =
     (let m = FindString (sr_pattern rule) text in
      if m = [] then []
      else [\<lparr>fd_Category = sr_category rule, fd_Path = path,
             fd_Preview = truncateFindingPreview m, fd_Action = sr_action rule\<rparr>])"

definition scan_text :: "StructuredOutboundScanner \<Rightarrow> string \<Rightarrow> string \<Rightarrow> OutboundScanFinding list" where
  "scan_text sc path typed =
     (let text = TrimSpace typed in
      if text = [] then []
      else concat (map (apply_rule path text) (sc_blockRules sc)) @
           concat (map (apply_rule path text) (sc_reviewRules sc)))"

fun scanValue :: "StructuredOutboundScanner \<Rightarrow> string \<Rightarrow> json \<Rightarrow> OutboundScanFinding list" where
  "scanValue sc path (JObj kvs) =
     concat (map (\<lambda>(key, nested).
       scanValue sc (if path \<noteq> [] then path @ ''.'' @ key else key) nested) kvs)"
| "scanValue sc path (JArr vs) = concat (map (scanValue sc path) vs)"
| "scanValue sc path (JStr typed) = scan_text sc path typed"
| "scanValue sc path _ = []"

text \<open>
  The receiver is nil in the first case; the error of the last one is the decoder's.
\<close>

definition Scan ::
  "StructuredOutboundScanner option \<Rightarrow> ChannelOutbox \<Rightarrow> chan_error + OutboundScanReport" where
  "Scan s job =
     (case s of
        None \<Rightarrow> Inr []
      | Some sc \<Rightarrow>
          (case ob_Payload job of
             RawEmpty \<Rightarrow> Inr []
           | RawInvalid \<Rightarrow> Inl (NewError ''invalid character'')
           | RawJSON payload \<Rightarrow> Inr (scanValue sc ''payload'' payload)))"

section \<open>What a scan sees\<close>

text \<open>The strings of a document with the paths the scanner reports for them.\<close>

fun leaves :: "string \<Rightarrow> json \<Rightarrow> (string \<times> string) list" where
  "leaves path (JObj kvs) =
     concat (map (\<lambda>(key, nested).
       leaves (if path \<noteq> [] then path @ ''.'' @ key else key) nested) kvs)"
| "leaves path (JArr vs) = concat (map (leaves path) vs)"
| "leaves path (JStr typed) = [(path, typed)]"
| "leaves path _ = []"

text \<open>Two documents that differ only in the order of object fields.\<close>

inductive reordered :: "json \<Rightarrow> json \<Rightarrow> bool" where
  same: "reordered v v"
| arr: "list_all2 reordered vs ws \<Longrightarrow> reordered (JArr vs) (JArr ws)"
| obj: "list_all2 (\<lambda>x y. fst x = fst y \<and> reordered (snd x) (snd y)) kvs kws \<Longrightarrow>
        mset kws = mset kws' \<Longrightarrow> reordered (JObj kvs) (JObj kws')"

lemma scanValue_leaves:
  "scanValue sc path v = concat (map (\<lambda>(p, t). scan_text sc p t) (leaves path v))"
proof (induction path v rule: leaves.induct)
  case (1 path kvs)
  have "map (\<lambda>(key, nested). scanValue sc (if path \<noteq> [] then path @ ''.'' @ key else key) nested) kvs =
    map (\<lambda>(key, nested). concat (map (\<lambda>(p, t). scan_text sc p t)
      (leaves (if path \<noteq> [] then path @ ''.'' @ key else key) nested))) kvs"
    by (rule map_cong) (use 1 in auto)
  then show ?case by (auto simp: concat_map_concat split_def comp_def intro!: arg_cong [where f = concat])
next
  case (2 path vs)
  then have "map (scanValue sc path) vs =
    map (\<lambda>v. concat (map (\<lambda>(p, t). scan_text sc p t) (leaves path v))) vs"
    by (intro map_cong) auto
  then show ?case by (auto simp: concat_map_concat comp_def intro!: arg_cong [where f = concat])
qed auto

lemma mset_concat_map_perm:
  "mset xs = mset ys \<Longrightarrow> mset (concat (map f xs)) = mset (concat (map f ys))"
proof -
  have "mset (concat (map f zs)) = (\<Sum>z\<in>#mset zs. mset (f z))" for zs
    by (induction zs) auto
  then show "mset xs = mset ys \<Longrightarrow> ?thesis" by simp
qed

lemma mset_concat_map_rel:
  "list_all2 (\<lambda>x y. mset (f x) = mset (g y)) xs ys \<Longrightarrow>
   mset (concat (map f xs)) = mset (concat (map g ys))"
  by (induction rule: list_all2_induct) auto

lemma scanValue_reordered:
  "reordered v w \<Longrightarrow> mset (scanValue sc path v) = mset (scanValue sc path w)"
proof (induction arbitrary: path rule: reordered.induct)
  case (arr vs ws)
  then have "list_all2 (\<lambda>v w. mset (scanValue sc path v) = mset (scanValue sc path w)) vs ws"
    by (auto elim: list_all2_mono)
  then show ?case by (simp add: mset_concat_map_rel)
next
  case (obj kvs kws kws')
  let ?f = "\<lambda>(key, nested). scanValue sc (if path \<noteq> [] then path @ ''.'' @ key else key) nested"
  from obj(1) have "list_all2 (\<lambda>x y. mset (?f x) = mset (?f y)) kvs kws"
    by (rule list_all2_mono) auto
  then have "mset (concat (map ?f kvs)) = mset (concat (map ?f kws))"
    by (rule mset_concat_map_rel)
  also from obj(2) have "\<dots> = mset (concat (map ?f kws'))" by (rule mset_concat_map_perm)
  finally show ?case by simp
qed simp

lemma FirstByAction_None: "FirstByAction fs action = None \<longleftrightarrow> (\<forall>f \<in> set fs. fd_Action f \<noteq> action)"
  by (induction fs) auto

lemma FirstByAction_Some:
  "FirstByAction fs action = Some f \<Longrightarrow> f \<in> set fs \<and> fd_Action f = action"
  by (induction fs) (auto split: if_splits)

text \<open>Trimming keeps everything from the first to the last byte that belongs to no space.\<close>

lemma strip_keeps:
  assumes "\<forall>w \<in> set ws. c \<notin> set w"
  shows "\<exists>p'. strip ws (p @ c # q) = p' @ c # q"
proof (induction "length p" arbitrary: p rule: less_induct)
  case less
  show ?case
  proof (cases "find (\<lambda>w. w \<noteq> [] \<and> starts_with w (p @ c # q)) ws")
    case None
    then show ?thesis by (auto simp: strip.simps [of ws "p @ c # q"])
  next
    case (Some w)
    then have w: "w \<in> set ws" "w \<noteq> []" "take (length w) (p @ c # q) = w"
      by (auto simp: find_Some_iff starts_with_def)
    have "length w \<le> length p"
    proof (rule ccontr)
      assume "\<not> length w \<le> length p"
      then have "c \<in> set (take (length w) (p @ c # q))"
        by (simp add: take_Cons' )
      with w assms show False by metis
    qed
    then have d: "drop (length w) (p @ c # q) = drop (length w) p @ c # q" by simp
    have "length (drop (length w) p) < length p" using w(2) \<open>length w \<le> length p\<close>
      by (cases w) auto
    from less [OF this] Some d show ?thesis by (simp add: strip.simps [of ws "p @ c # q"])
  qed
qed

lemma TrimSpace_keeps:
  assumes "\<forall>w \<in> set space_encodings. a \<notin> set w \<and> b \<notin> set w"
  shows "\<exists>p' q'. TrimSpace (p @ a # m @ b # q) = p' @ a # m @ b # q'"
proof -
  obtain p' where 1: "strip space_encodings (p @ a # m @ b # q) = p' @ a # m @ b # q"
    using strip_keeps [of space_encodings a] assms by blast
  have "rev (p' @ a # m @ b # q) = rev q @ b # rev (p' @ a # m)" by simp
  moreover obtain q' where
    "strip (map rev space_encodings) (rev q @ b # rev (p' @ a # m)) = q' @ b # rev (p' @ a # m)"
    using strip_keeps [of "map rev space_encodings" b "rev q"] assms by auto
  ultimately have "TrimSpace (p @ a # m @ b # q) = p' @ a # m @ b # rev q'"
    by (simp add: TrimSpace_def 1)
  then show ?thesis by blast
qed

text \<open>A live secret key: the prefix and one more letter or digit.\<close>

definition key_char :: "char \<Rightarrow> bool" where
  "key_char c \<longleftrightarrow> in_range CHR ''a'' CHR ''z'' (lower_char c) \<or> digit c"

lemma consumes_lit: "consumes (ci_lit (c # w))"
proof -
  have "consumes (lit kelvin)" "consumes (lit long_s)" by (simp_all add: lit_def kelvin_def long_s_def)
  then have "consumes (ci c)" by (simp add: ci_def Let_def)
  then show ?thesis by (simp add: ci_lit_def)
qed

lemma secret_pattern_consumes: "consumes secret_pattern"
  by (simp add: secret_pattern_def consumes_lit)

lemma re_match_Seq_ne: "x \<in> set (re_match r p) \<Longrightarrow> re_match q x \<noteq> [] \<Longrightarrow> re_match (Seq r q) p \<noteq> []"
  by auto

lemma secret_pattern_live:
  assumes "key_char c"
  shows "re_match secret_pattern (b, ''sk_live_'' @ c # q) \<noteq> []"
proof -
  have "(Some CHR ''_'', c # q) \<in> set (re_match (ci_lit ''sk_live_'') (b, ''sk_live_'' @ c # q))"
    using re_match_ci_lit [of "''sk_live_''" b "c # q"] by simp
  moreover have "(Some c, q) \<in> set (re_match alnum_ci (Some CHR ''_'', c # q))"
    using assms by (simp add: alnum_ci_def ci_letters_def key_char_def)
  moreover have "re_match (Star alnum_ci) (Some c, q) \<noteq> []" by (cases q) auto
  ultimately have "re_match (Seq (ci_lit ''sk_live_'') (Seq alnum_ci (Star alnum_ci)))
      (b, ''sk_live_'' @ c # q) \<noteq> []"
    by (meson re_match_Seq_ne)
  then show ?thesis by (simp only: secret_pattern_def plus_def re_match.simps(4) append_is_Nil_conv) simp
qed

lemma key_char_not_space: "key_char c \<Longrightarrow> w \<in> set space_encodings \<Longrightarrow> c \<notin> set w"
  by (auto simp: key_char_def space_encodings_def in_range_def lower_char_def digit_def)

lemma scan_text_secret:
  assumes "FindString secret_pattern (TrimSpace s) \<noteq> []" "TrimSpace s \<noteq> []"
  shows "\<exists>f \<in> set (scan_text NewStructuredOutboundScanner path s).
    fd_Action f = OutboundActionBlock \<and> fd_Path f = path \<and> fd_Category f = ''secret_leak''"
  using assms by (auto simp: scan_text_def NewStructuredOutboundScanner_def apply_rule_def Let_def)

lemma scan_text_live:
  assumes "key_char c"
  shows "\<exists>f \<in> set (scan_text NewStructuredOutboundScanner path (p @ ''sk_live_'' @ c # q)).
    fd_Action f = OutboundActionBlock \<and> fd_Path f = path \<and> fd_Category f = ''secret_leak''"
proof -
  have "\<forall>w \<in> set space_encodings. CHR ''s'' \<notin> set w \<and> c \<notin> set w"
    using key_char_not_space assms by (auto simp: space_encodings_def)
  from TrimSpace_keeps [OF this, of p "''k_live_''" q] obtain p' q' where
    t: "TrimSpace (p @ ''sk_live_'' @ c # q) = p' @ ''sk_live_'' @ c # q'" by auto
  have "FindString secret_pattern (p' @ ''sk_live_'' @ c # q') \<noteq> []"
    unfolding FindString_def
    by (rule find_from_found [OF secret_pattern_consumes secret_pattern_live [OF assms]])
  then show ?thesis by (intro scan_text_secret) (simp_all only: t, simp_all)
qed

lemma leaf_live_key:
  assumes "(path, p @ ''sk_live_'' @ c # q) \<in> set (leaves ''payload'' v)" "key_char c"
  shows "\<exists>f \<in> set (scanValue NewStructuredOutboundScanner ''payload'' v).
    fd_Action f = OutboundActionBlock \<and> fd_Path f = path"
proof -
  obtain f where f: "f \<in> set (scan_text NewStructuredOutboundScanner path (p @ ''sk_live_'' @ c # q))"
    "fd_Action f = OutboundActionBlock" "fd_Path f = path"
    using scan_text_live [OF assms(2)] by blast
  have "f \<in> set (scanValue NewStructuredOutboundScanner ''payload'' v)"
    unfolding scanValue_leaves set_concat set_map
    by (rule UN_I [OF imageI [OF assms(1)]]) (use f(1) in simp)
  with f show ?thesis by blast
qed

section \<open>Properties\<close>

text \<open>
  C30: The order in which Go visits the fields of a JSON object does not matter: two payloads
  that differ only in field order give the same findings, as a multiset, and hence the same
  block and review decisions.
\<close>

theorem scan_order_irrelevant:
  assumes "reordered v w" "Scan sc (job\<lparr>ob_Payload := RawJSON v\<rparr>) = Inr fs"
    "Scan sc (job\<lparr>ob_Payload := RawJSON w\<rparr>) = Inr gs"
  shows "mset fs = mset gs \<and> (FirstByAction fs action = None) = (FirstByAction gs action = None)"
proof -
  from assms have m: "mset fs = mset gs"
    by (auto simp: Scan_def scanValue_reordered split: option.splits)
  then have "set fs = set gs" by (metis set_mset_mset)
  with m show ?thesis by (simp add: FirstByAction_None)
qed

theorem scan_order_irrelevant_witness:
  "\<exists>fs gs. Scan (Some NewStructuredOutboundScanner)
      (undefined\<lparr>ob_Payload := RawJSON (JObj [(''a'', JStr ''x''), (''b'', JNull)])\<rparr>) = Inr fs \<and>
    Scan (Some NewStructuredOutboundScanner)
      (undefined\<lparr>ob_Payload := RawJSON (JObj [(''b'', JNull), (''a'', JStr ''x'')])\<rparr>) = Inr gs \<and>
    mset fs = mset gs"
proof -
  let ?v = "JObj [(''a'', JStr ''x''), (''b'', JNull)]" and ?w = "JObj [(''b'', JNull), (''a'', JStr ''x'')]"
  have "reordered ?v ?w"
    by (rule reordered.obj [of _ "[(''a'', JStr ''x''), (''b'', JNull)]"])
      (auto simp: list_all2_refl reordered.same)
  from scan_order_irrelevant [OF this, of "Some NewStructuredOutboundScanner" undefined]
  show ?thesis by (auto simp: Scan_def)
qed

text \<open>A live secret key is found wherever it hides: whatever surrounds it in the text, and
  however deep in nested objects and arrays the text is, the scan reports a blocking finding
  with the path of that text.
\<close>

theorem scan_finds_live_key:
  assumes "(path, p @ ''sk_live_'' @ c # q) \<in> set (leaves ''payload'' v)" "key_char c"
    and "Scan (Some NewStructuredOutboundScanner) (job\<lparr>ob_Payload := RawJSON v\<rparr>) = Inr fs"
  shows "\<exists>f \<in> set fs. fd_Action f = OutboundActionBlock \<and> fd_Path f = path"
  using leaf_live_key [OF assms(1,2)] assms(3) by (auto simp: Scan_def)

theorem scan_finds_live_key_witness:
  "\<exists>fs. Scan (Some NewStructuredOutboundScanner) (undefined\<lparr>ob_Payload :=
      RawJSON (JObj [(''m'', JArr [JStr ''key: sk_live_9 end''])])\<rparr>) = Inr fs \<and>
    (\<exists>f \<in> set fs. fd_Action f = OutboundActionBlock \<and> fd_Path f = ''payload.m'')"
proof -
  let ?v = "JObj [(''m'', JArr [JStr ''key: sk_live_9 end''])]"
  have "(''payload.m'', ''key: '' @ ''sk_live_'' @ CHR ''9'' # '' end'') \<in> set (leaves ''payload'' ?v)"
    by simp
  moreover have "key_char CHR ''9''" by (simp add: key_char_def digit_def in_range_def)
  ultimately show ?thesis
    using scan_finds_live_key [of "''payload.m''" "''key: ''" "CHR ''9''" "'' end''" ?v undefined]
    by (auto simp: Scan_def simp del: scanValue.simps)
qed

end
