(* ===== verification/Go_Float.thy ===== *)
theory Go_Float
  imports Heimdall_Prelude "HOL-Library.Log_Nat"
begin

text \<open>
  The \<open>float64\<close> arithmetic of the retry delay: binary64 values as the rationals they stand
  for, every operation the exact result rounded to nearest, ties to even, and conversions
  from and to \<open>int64\<close>. The result of converting a float that no \<open>int64\<close> holds is left open by
  the Go specification; it is the parameter \<open>ovf\<close>.
\<close>

datatype float64 = Fin rat | PInf | NInf

text \<open>The largest \<open>e\<close> with \<open>2 ^ e \<le> x\<close>, for a positive \<open>x\<close>.\<close>

definition two_pow :: "int \<Rightarrow> rat" where
  "two_pow e = (if 0 \<le> e then 2 ^ nat e else 1 / 2 ^ nat (- e))"

definition exponent :: "rat \<Rightarrow> int" where
  "exponent x =
     (case quotient_of x of (a, b) \<Rightarrow>
        let d = int (floorlog 2 (nat a)) - int (floorlog 2 (nat b)) in
        if two_pow d \<le> x then d else d - 1)"

text \<open>Rounding to an integer, ties to even.\<close>

definition round_even :: "rat \<Rightarrow> int" where
  "round_even x =
     (let f = \<lfloor>x\<rfloor>; r = x - of_int f in
      if r < 1 / 2 then f else if 1 / 2 < r then f + 1 else if even f then f else f + 1)"

text \<open>The unit in the last place of a positive number, as its exponent.\<close>

definition ulp_exp :: "rat \<Rightarrow> int" where
  "ulp_exp x = max (exponent x - 52) (- 1074)"

definition round_pos :: "rat \<Rightarrow> rat" where
  "round_pos x = two_pow (ulp_exp x) * of_int (round_even (x / two_pow (ulp_exp x)))"

definition round64 :: "rat \<Rightarrow> float64" where
  "round64 x =
     (if x = 0 then Fin 0
      else let y = round_pos \<bar>x\<bar> in
        if 2 ^ 1024 \<le> y then (if 0 < x then PInf else NInf)
        else Fin (if 0 < x then y else - y))"

definition float_of_int :: "int \<Rightarrow> float64" where
  "float_of_int n = round64 (of_int n)"

text \<open>
  Multiplication and addition, on the operands the retry delay has: the multiplier is a
  positive power of two or \<open>+Inf\<close>, and no sum of opposite infinities or product of zero and
  infinity arises.
\<close>

definition float_mul :: "float64 \<Rightarrow> float64 \<Rightarrow> float64" where
  "float_mul a b =
     (case (a, b) of
        (Fin x, Fin y) \<Rightarrow> round64 (x * y)
      | (Fin x, PInf) \<Rightarrow> if 0 \<le> x then PInf else NInf
      | (Fin x, NInf) \<Rightarrow> if 0 \<le> x then NInf else PInf
      | (PInf, Fin y) \<Rightarrow> if 0 \<le> y then PInf else NInf
      | (NInf, Fin y) \<Rightarrow> if 0 \<le> y then NInf else PInf
      | (PInf, PInf) \<Rightarrow> PInf
      | (NInf, NInf) \<Rightarrow> PInf
      | _ \<Rightarrow> NInf)"

text \<open>\<open>math.Pow(2, float64(n))\<close> for a natural exponent.\<close>

definition pow2 :: "nat \<Rightarrow> float64" where
  "pow2 n = (if n \<le> 1023 then Fin (2 ^ n) else PInf)"

text \<open>\<open>int64(x)\<close>: truncation towards zero when the result is representable.\<close>

definition trunc_rat :: "rat \<Rightarrow> int" where
  "trunc_rat x = (if 0 \<le> x then \<lfloor>x\<rfloor> else \<lceil>x\<rceil>)"

definition int64_of_float :: "(float64 \<Rightarrow> int) \<Rightarrow> float64 \<Rightarrow> int" where
  "int64_of_float ovf a =
     (case a of
        Fin x \<Rightarrow>
          if - (2 ^ 63) \<le> trunc_rat x \<and> trunc_rat x < 2 ^ 63 then trunc_rat x else ovf a
      | _ \<Rightarrow> ovf a)"

section \<open>Facts about rounding\<close>

lemma two_pow_pos [simp]: "0 < two_pow e"
  by (simp add: two_pow_def)

lemma two_pow_nonneg [simp]: "0 \<le> two_pow e" "two_pow e \<noteq> 0"
  using two_pow_pos [of e] by (simp_all add: less_imp_le less_imp_neq [THEN not_sym])

lemma two_pow_powi: "two_pow e = 2 powi e"
  by (simp add: two_pow_def power_int_def power_one_over)

lemma two_pow_add: "two_pow (a + b) = two_pow a * two_pow b"
  by (simp add: two_pow_powi power_int_add)

lemma two_pow_nat: "two_pow (int n) = 2 ^ n"
  by (simp add: two_pow_def)

lemma two_pow_less: "two_pow a < two_pow b \<longleftrightarrow> a < b"
  unfolding two_pow_powi
  by (metis less_asym' linorder_neqE_linordered_idom one_less_numeral_iff
      power_int_strict_increasing semiring_norm(76))

lemma round_even_ge:
  assumes "of_int n \<le> x"
  shows "n \<le> round_even x"
proof -
  from assms have "n \<le> \<lfloor>x\<rfloor>" by (simp add: le_floor_iff)
  then show ?thesis by (simp add: round_even_def Let_def)
qed

lemma round_even_of_int [simp]: "round_even (of_int n) = n"
  by (simp add: round_even_def)

lemma exponent_le:
  assumes "0 < x"
  shows "two_pow (exponent x) \<le> x"
proof -
  obtain a b where q: "quotient_of x = (a, b)" by fastforce
  have b: "0 < b" and x: "x = of_int a / of_int b"
    using quotient_of_denom_pos [OF q] quotient_of_div [OF q] by auto
  then have a: "0 < a" using assms by (simp add: zero_less_divide_iff)
  let ?la = "floorlog 2 (nat a)" and ?lb = "floorlog 2 (nat b)"
  have "2 ^ (?la - 1) \<le> nat a" "nat b < 2 ^ ?lb" "0 < ?la"
    using floorlog_bounds [of "nat a" 2] floorlog_bounds [of "nat b" 2] a b
    by (auto simp: floorlog_def)
  then have "(2::int) ^ (?la - 1) \<le> a" "b < 2 ^ ?lb"
    using a b by (simp_all add: nat_less_iff le_nat_iff)
  then have "two_pow (int (?la - 1)) \<le> of_int a" "of_int b \<le> two_pow (int ?lb)"
    unfolding two_pow_nat by (metis of_int_le_iff of_int_numeral of_int_power less_imp_le)+
  then have "two_pow (int (?la - 1)) / two_pow (int ?lb) \<le> x"
    unfolding x using a b by (intro frac_le) simp_all
  moreover have "two_pow (int (?la - 1)) = two_pow (int ?la - int ?lb - 1) * two_pow (int ?lb)"
    using \<open>0 < ?la\<close> by (simp flip: two_pow_add)
  ultimately have "two_pow (int ?la - int ?lb - 1) \<le> x" by simp
  then show ?thesis by (simp add: exponent_def q Let_def)
qed

text \<open>Rounding never drops a value below an integer of at most 53 bits.\<close>

lemma round_pos_ge:
  assumes "0 < x" "of_int n \<le> x" "n \<le> 2 ^ 53"
  shows "of_int n \<le> round_pos x"
proof (cases "ulp_exp x \<le> 0")
  case True
  define k where "k = nat (- ulp_exp x)"
  have u: "two_pow (ulp_exp x) = 1 / 2 ^ k" using True by (auto simp: two_pow_def k_def)
  have "of_int (n * 2 ^ k) \<le> x * 2 ^ k" using assms(2) by simp
  then have "n * 2 ^ k \<le> round_even (x * 2 ^ k)" by (rule round_even_ge)
  then have "of_int (n * 2 ^ k) \<le> (of_int (round_even (x * 2 ^ k)) :: rat)"
    by (simp only: of_int_le_iff)
  then have "of_int n * 2 ^ k \<le> (of_int (round_even (x * 2 ^ k)) :: rat)" by simp
  then show ?thesis by (simp add: round_pos_def u pos_le_divide_eq)
next
  case False
  then have e: "exponent x = ulp_exp x + 52" by (simp add: ulp_exp_def max_def split: if_splits)
  have "two_pow 52 * two_pow (ulp_exp x) \<le> x"
    using exponent_le [OF assms(1)] by (simp add: e two_pow_add mult.commute)
  then have "two_pow 52 \<le> x / two_pow (ulp_exp x)" by (simp add: pos_le_divide_eq)
  then have "of_int (2 ^ 52) \<le> x / two_pow (ulp_exp x)" by (simp add: two_pow_def)
  then have "2 ^ 52 \<le> round_even (x / two_pow (ulp_exp x))" by (rule round_even_ge)
  then have r: "(2 ^ 52 :: rat) \<le> of_int (round_even (x / two_pow (ulp_exp x)))" by simp
  have "two_pow 1 \<le> two_pow (ulp_exp x)"
    using False two_pow_less [of "ulp_exp x" 1] by linarith
  then have "(2 :: rat) \<le> two_pow (ulp_exp x)" by (simp add: two_pow_def)
  from mult_mono [OF this r] have "(2 ^ 53 :: rat) \<le> round_pos x" by (simp add: round_pos_def)
  moreover have "of_int n \<le> (2 ^ 53 :: rat)" using assms(3) by simp
  ultimately show ?thesis by linarith
qed

text \<open>A number of at most 53 significant bits is exact.\<close>

lemma round_pos_exact:
  assumes "0 < m" "m < 2 ^ 53"
  shows "round_pos (of_int m * 2 ^ k) = of_int m * 2 ^ k"
proof -
  let ?y = "of_int m * 2 ^ k :: rat" and ?u = "ulp_exp (of_int m * 2 ^ k)"
  have "of_int m < (2 ^ 53 :: rat)" using assms(2) by simp
  then have "?y < 2 ^ 53 * 2 ^ k" by simp
  then have "?y < two_pow (int (53 + k))" unfolding two_pow_nat by (simp only: power_add)
  moreover have "two_pow (exponent ?y) \<le> ?y" using assms(1) by (intro exponent_le) simp
  ultimately have "exponent ?y < int (53 + k)" using two_pow_less by (metis le_less_trans)
  then have u: "?u \<le> int k" by (simp add: ulp_exp_def)
  have "two_pow (int k - ?u) * two_pow ?u = two_pow (int k)" by (simp flip: two_pow_add)
  then have "2 ^ k / two_pow ?u = two_pow (int k - ?u)" by (simp add: two_pow_nat field_simps)
  also have "\<dots> = 2 ^ nat (int k - ?u)" using u by (simp add: two_pow_def)
  finally have "?y / two_pow ?u = of_int (m * 2 ^ nat (int k - ?u))"
    by (simp flip: times_divide_eq_right)
  then have "round_even (?y / two_pow ?u) = m * 2 ^ nat (int k - ?u)"
    by (simp only: round_even_of_int)
  then have "round_pos ?y = two_pow ?u * of_int (m * 2 ^ nat (int k - ?u))"
    by (simp add: round_pos_def)
  then show ?thesis
    using \<open>?y / two_pow ?u = of_int (m * 2 ^ nat (int k - ?u))\<close> by (metis nonzero_mult_div_cancel_left
      times_divide_eq_right two_pow_nonneg(2))
qed

end
