(* ===== verification/Outbox_Dispatcher.thy ===== *)
theory Outbox_Dispatcher
  imports Outbox_Errors Outbound_Scan Go_Float
begin

text \<open>
  The outbox dispatcher (\<open>internal/channels/outbox_dispatcher.go\<close>): one \<open>DispatchOnce\<close> call
  recovers stale locks and then claims, scans and sends due jobs until a claim is empty.

  The Go interfaces the dispatcher is built from are records and function arguments over an
  arbitrary state \<open>'s\<close> behind the querier. Calls with effects outside the database are
  numbered: \<open>sender\<close>, \<open>now\<close> and \<open>jitter\<close> take the number of earlier calls, so that they may
  answer differently every time.
\<close>

section \<open>Interfaces, configuration, activity events\<close>

record 's outboxStore =
  st_ClaimPendingOutbox :: "gotime \<Rightarrow> int \<Rightarrow> 's \<Rightarrow> (chan_error + ChannelOutbox list) \<times> 's"
  st_MarkOutboxSent :: "uuid \<Rightarrow> 's \<Rightarrow> (chan_error + unit) \<times> 's"
  st_MarkOutboxRetry :: "uuid \<Rightarrow> gotime \<Rightarrow> string \<Rightarrow> 's \<Rightarrow> (chan_error + unit) \<times> 's"
  st_MarkOutboxDead :: "uuid \<Rightarrow> string \<Rightarrow> 's \<Rightarrow> (chan_error + unit) \<times> 's"
  st_MarkOutboxPendingApproval :: "uuid \<Rightarrow> string \<Rightarrow> 's \<Rightarrow> (chan_error + unit) \<times> 's"
  st_RecoverStaleSending :: "gotime \<Rightarrow> int \<Rightarrow> 's \<Rightarrow> (chan_error + ChannelOutbox list) \<times> 's"

record OutboxDispatcherConfig =
  cf_ClaimBatchSize :: int
  cf_RecoveryBatchSize :: int
  cf_LockTimeout :: duration
  cf_MaxAttempts :: int
  cf_BaseRetryDelay :: duration
  cf_MaxRetryDelay :: duration
  cf_JitterFraction :: rat

record OutboundReviewRequest =
  or_TenantID :: uuid
  or_OutboxID :: uuid
  or_Provider :: string
  or_Recipient :: string
  or_Report :: OutboundScanReport

text \<open>The metadata values and the event fields the dispatcher fills in.\<close>

datatype event_value =
    EVString string
  | EVTime gotime
  | EVFindings "OutboundScanFinding list"

record Event =
  ev_TenantID :: uuid
  ev_ChannelMessageID :: uuid
  ev_Kind :: string
  ev_Status :: string
  ev_RiskClass :: string
  ev_Source :: string
  ev_Provenance :: string
  ev_InternalEventType :: string
  ev_Binding :: string
  ev_DeliveryTarget :: string
  ev_RuntimeSource :: string
  ev_CorrelationID :: string
  ev_Title :: string
  ev_Summary :: string
  ev_OccurredAt :: gotime
  ev_Metadata :: "(string \<times> event_value) list"

record 's OutboxDispatcher =
  di_store :: "'s outboxStore"
  di_sender :: "nat \<Rightarrow> ChannelOutbox \<Rightarrow> send_error option"
  di_cfg :: OutboxDispatcherConfig
  di_now :: "nat \<Rightarrow> gotime"
  di_jitter :: "nat \<Rightarrow> rat"
  di_scanner :: "(ChannelOutbox \<Rightarrow> chan_error + OutboundScanReport) option"
  di_reviewSink :: "(OutboundReviewRequest \<Rightarrow> 's \<Rightarrow> (chan_error + unit) \<times> 's) option"
  di_activity :: bool

text \<open>The database, the calls made so far, and what was sent and logged.\<close>

record 's world =
  wd_q :: 's
  wd_sends :: "ChannelOutbox list"
  wd_events :: "Event list"
  wd_clock :: nat
  wd_rand :: nat

section \<open>Construction\<close>

definition second :: duration where
  "second = 1000000000"

definition normalize_config :: "OutboxDispatcherConfig \<Rightarrow> OutboxDispatcherConfig" where
  "normalize_config cfg =
     (let cfg = (if cf_ClaimBatchSize cfg \<le> 0 then cfg\<lparr>cf_ClaimBatchSize := 10\<rparr> else cfg);
          cfg = (if cf_RecoveryBatchSize cfg \<le> 0
                 then cfg\<lparr>cf_RecoveryBatchSize := cf_ClaimBatchSize cfg\<rparr> else cfg);
          cfg = (if cf_LockTimeout cfg \<le> 0 then cfg\<lparr>cf_LockTimeout := 30 * second\<rparr> else cfg);
          cfg = (if cf_MaxAttempts cfg \<le> 0 then cfg\<lparr>cf_MaxAttempts := 5\<rparr> else cfg);
          cfg = (if cf_BaseRetryDelay cfg \<le> 0 then cfg\<lparr>cf_BaseRetryDelay := 5 * second\<rparr> else cfg);
          cfg = (if cf_MaxRetryDelay cfg \<le> 0 then cfg\<lparr>cf_MaxRetryDelay := 120 * second\<rparr> else cfg);
          cfg = (if cf_JitterFraction cfg < 0 then cfg\<lparr>cf_JitterFraction := 0\<rparr> else cfg)
      in if 1 < cf_JitterFraction cfg then cfg\<lparr>cf_JitterFraction := 1\<rparr> else cfg)"

text \<open>\<open>now\<close> and \<open>jitter\<close> stand for \<open>time.Now\<close> and \<open>cryptoRandomUnitFloat64\<close>.\<close>

definition NewOutboxDispatcher ::
  "'s outboxStore \<Rightarrow> (nat \<Rightarrow> ChannelOutbox \<Rightarrow> send_error option) \<Rightarrow> OutboxDispatcherConfig \<Rightarrow>
   (nat \<Rightarrow> gotime) \<Rightarrow> (nat \<Rightarrow> rat) \<Rightarrow> 's OutboxDispatcher" where
  "NewOutboxDispatcher store sender cfg now jitter =
     \<lparr>di_store = store, di_sender = sender, di_cfg = normalize_config cfg, di_now = now,
      di_jitter = jitter, di_scanner = None, di_reviewSink = None, di_activity = False\<rparr>"

definition WithScanner ::
  "'s OutboxDispatcher \<Rightarrow> (ChannelOutbox \<Rightarrow> chan_error + OutboundScanReport) \<Rightarrow> 's OutboxDispatcher" where
  "WithScanner d scanner = d\<lparr>di_scanner := Some scanner\<rparr>"

definition WithReviewSink ::
  "'s OutboxDispatcher \<Rightarrow> (OutboundReviewRequest \<Rightarrow> 's \<Rightarrow> (chan_error + unit) \<times> 's) \<Rightarrow>
   's OutboxDispatcher" where
  "WithReviewSink d sink = d\<lparr>di_reviewSink := Some sink\<rparr>"

definition WithActivityLogger :: "'s OutboxDispatcher \<Rightarrow> 's OutboxDispatcher" where
  "WithActivityLogger d = d\<lparr>di_activity := True\<rparr>"

text \<open>
  The 64 random bits of \<open>cryptoRandomUnitFloat64\<close>, read big endian; \<open>None\<close> is a failing
  source.
\<close>

definition cryptoRandomUnitFloat64 :: "nat option \<Rightarrow> rat" where
  "cryptoRandomUnitFloat64 bits =
     (case bits of None \<Rightarrow> 0 | Some n \<Rightarrow> of_nat (n div 2 ^ 11) / 2 ^ 53)"

section \<open>The retry delay\<close>

definition float_add :: "rat \<Rightarrow> float64 \<Rightarrow> float64" where
  "float_add x b = (case b of Fin y \<Rightarrow> round64 (x + y) | _ \<Rightarrow> b)"

definition retryDelay ::
  "(float64 \<Rightarrow> int) \<Rightarrow> OutboxDispatcherConfig \<Rightarrow> rat \<Rightarrow> int \<Rightarrow> duration" where
  "retryDelay ovf cfg jitter attemptsAfterFailure =
     (let attempts = (if attemptsAfterFailure \<le> 0 then 1 else attemptsAfterFailure);
          multiplier = pow2 (nat (attempts - 1));
          base = float_mul (float_of_int (cf_BaseRetryDelay cfg)) multiplier;
          delay = int64_of_float ovf base;
          delay = (if delay > cf_MaxRetryDelay cfg then cf_MaxRetryDelay cfg else delay)
      in if cf_JitterFraction cfg \<le> 0 then delay
         else
           (let jitter = (if jitter < 0 then 0 else jitter);
                jitter = (if jitter > 1 then 1 else jitter);
                factor = float_add 1 (round64 (cf_JitterFraction cfg * jitter));
                jittered = int64_of_float ovf (float_mul (float_of_int delay) factor)
            in if jittered > cf_MaxRetryDelay cfg then cf_MaxRetryDelay cfg else jittered))"

section \<open>Activity events\<close>

definition correlationIDFromPayload :: "raw_json \<Rightarrow> string" where
  "correlationIDFromPayload payload =
     (case payload of
        RawJSON (JObj kvs) \<Rightarrow>
          (case map_of kvs ''correlation_id'' of
             Some (JStr v) \<Rightarrow> (let v = TrimSpace v in if length v > 128 then take 128 v else v)
           | _ \<Rightarrow> [])
      | _ \<Rightarrow> [])"

definition redactedFindings :: "OutboundScanFinding list \<Rightarrow> OutboundScanFinding list" where
  "redactedFindings fs = map (\<lambda>f. f\<lparr>fd_Preview := []\<rparr>) fs"

definition logEvent ::
  "'s OutboxDispatcher \<Rightarrow> ChannelOutbox \<Rightarrow> string \<Rightarrow> string \<Rightarrow> string \<Rightarrow> string \<Rightarrow>
   (string \<times> event_value) list \<Rightarrow> 's world \<Rightarrow> 's world" where
  "logEvent d job kind status title summary metadata w =
     (if \<not> di_activity d then w
      else
        (let event =
           \<lparr>ev_TenantID = ob_TenantID job, ev_ChannelMessageID = ob_ChannelMessageID job,
            ev_Kind = kind, ev_Status = status,
            ev_RiskClass = (if kind = ''security.flagged'' then ''channel_sends'' else []),
            ev_Source = ''channels'', ev_Provenance = ''control_plane_outbox'',
            ev_InternalEventType = ''channel_outbox'',
            ev_Binding = ToLower (TrimSpace (ob_Provider job)),
            ev_DeliveryTarget = TrimSpace (ob_RecipientID job),
            ev_RuntimeSource = ''channel_outbox'',
            ev_CorrelationID = correlationIDFromPayload (ob_Payload job),
            ev_Title = title, ev_Summary = summary, ev_OccurredAt = di_now d (wd_clock w),
            ev_Metadata = metadata\<rparr>
         in w\<lparr>wd_events := wd_events w @ [event], wd_clock := Suc (wd_clock w)\<rparr>))"

section \<open>One job\<close>

text \<open>A call on the store: its state is the querier of the world.\<close>

definition on_q :: "('s \<Rightarrow> (chan_error + 'a) \<times> 's) \<Rightarrow> 's world \<Rightarrow> (chan_error + 'a) \<times> 's world" where
  "on_q f w = (case f (wd_q w) of (r, q) \<Rightarrow> (r, w\<lparr>wd_q := q\<rparr>))"

text \<open>The boolean is \<open>handled\<close>; the report is not used by the caller.\<close>

definition applyOutboundScan ::
  "'s OutboxDispatcher \<Rightarrow> ChannelOutbox \<Rightarrow> 's world \<Rightarrow> (chan_error + bool) \<times> 's world" where
  "applyOutboundScan d job w =
     (case di_scanner d of
        None \<Rightarrow> (Inr False, w)
      | Some scan \<Rightarrow>
          (case scan job of
             Inl e \<Rightarrow> (Inl (Wrap ''scanning outbound payload'' e), w)
           | Inr report \<Rightarrow>
               (case FirstByAction report OutboundActionBlock of
                  Some finding \<Rightarrow>
                    (let lastError = ''blocked by outbound scan: '' @ fd_Category finding @ '' ('' @
                                     fd_Path finding @ '')'' in
                     case on_q (st_MarkOutboxDead (di_store d) (ob_ID job) lastError) w of
                       (Inl e, w1) \<Rightarrow> (Inl (Wrap ''marking outbox blocked'' e), w1)
                     | (Inr _, w1) \<Rightarrow>
                         (Inr True, logEvent d job ''security.flagged'' ''blocked''
                            ''Outbound delivery blocked'' lastError
                            [(''findings'', EVFindings (redactedFindings report))] w1))
                | None \<Rightarrow>
                    (case FirstByAction report OutboundActionReview of
                       Some finding \<Rightarrow>
                         (let lastError = ''review required by outbound scan: '' @ fd_Category finding @
                                          '' ('' @ fd_Path finding @ '')'' in
                          case di_reviewSink d of
                            None \<Rightarrow> (Inl (NewError
                              ''review required by outbound scan but no review sink is configured''), w)
                          | Some createReview \<Rightarrow>
                              (case on_q (createReview
                                      \<lparr>or_TenantID = ob_TenantID job, or_OutboxID = ob_ID job,
                                       or_Provider = ob_Provider job, or_Recipient = ob_RecipientID job,
                                       or_Report = report\<rparr>) w of
                                 (Inl e, w1) \<Rightarrow> (Inl (Wrap ''creating outbound review'' e), w1)
                               | (Inr _, w1) \<Rightarrow>
                                   (case on_q (st_MarkOutboxPendingApproval (di_store d) (ob_ID job) lastError) w1 of
                                      (Inl e, w2) \<Rightarrow> (Inl (Wrap ''marking outbox pending approval'' e), w2)
                                    | (Inr _, w2) \<Rightarrow>
                                        (Inr True, logEvent d job ''security.flagged'' ''approval_required''
                                           ''Outbound delivery queued for review'' lastError
                                           [(''findings'', EVFindings (redactedFindings report))] w2))))
                     | None \<Rightarrow> (Inr False, w)))))"

definition retry_time ::
  "(float64 \<Rightarrow> int) \<Rightarrow> 's OutboxDispatcher \<Rightarrow> gotime \<Rightarrow> rat \<Rightarrow> int \<Rightarrow> send_error \<Rightarrow> gotime" where
  "retry_time ovf d now jitter attemptsAfter err =
     (let delay = retryDelay ovf (di_cfg d) jitter attemptsAfter;
          delay = (case OutboxRetryAfter (Some err) of
                     Some retryAfter \<Rightarrow> if retryAfter > delay then retryAfter else delay
                   | None \<Rightarrow> delay);
          delay = (if delay > cf_MaxRetryDelay (di_cfg d) then cf_MaxRetryDelay (di_cfg d) else delay)
      in now + delay)"

text \<open>What follows a failed \<open>Send\<close>.\<close>

definition send_failed ::
  "(float64 \<Rightarrow> int) \<Rightarrow> 's OutboxDispatcher \<Rightarrow> gotime \<Rightarrow> ChannelOutbox \<Rightarrow> send_error \<Rightarrow> 's world \<Rightarrow>
   chan_error option \<times> 's world" where
  "send_failed ovf d now job err w =
     (let errText = TrimSpace (Error err);
          errText = (if errText = [] then ''provider send failed'' else errText) in
      if IsOutboxPermanentError (Some err) then
        (case on_q (st_MarkOutboxDead (di_store d) (ob_ID job) errText) w of
           (Inl e, w1) \<Rightarrow> (Some (Wrap ''marking outbox dead'' e), w1)
         | (Inr _, w1) \<Rightarrow>
             (None, logEvent d job ''channel.failed'' ''failed'' ''Outbound delivery failed'' errText
                [(''phase'', EVString ''delivery'')] w1))
      else
        (let attemptsAfter = ob_AttemptCount job + 1;
             maxAttempts = (if ob_MaxAttempts job \<le> 0 then cf_MaxAttempts (di_cfg d)
                            else ob_MaxAttempts job) in
         if attemptsAfter \<ge> maxAttempts then
           (case on_q (st_MarkOutboxDead (di_store d) (ob_ID job) errText) w of
              (Inl e, w1) \<Rightarrow> (Some (Wrap ''marking outbox dead'' e), w1)
            | (Inr _, w1) \<Rightarrow> (None, w1))
         else
           (let nextAttempt = retry_time ovf d now (di_jitter d (wd_rand w)) attemptsAfter err;
                w = (if cf_JitterFraction (di_cfg d) \<le> 0 then w else w\<lparr>wd_rand := Suc (wd_rand w)\<rparr>) in
            case on_q (st_MarkOutboxRetry (di_store d) (ob_ID job) nextAttempt errText) w of
              (Inl e, w1) \<Rightarrow> (Some (Wrap ''marking outbox retry'' e), w1)
            | (Inr _, w1) \<Rightarrow>
                (None, logEvent d job ''channel.retry'' ''flagged''
                   ''Outbound delivery scheduled for retry'' errText
                   [(''next_attempt_at'', EVTime nextAttempt)] w1))))"

text \<open>The body of the loop over the claimed jobs.\<close>

definition dispatch_job ::
  "(float64 \<Rightarrow> int) \<Rightarrow> 's OutboxDispatcher \<Rightarrow> gotime \<Rightarrow> ChannelOutbox \<Rightarrow> 's world \<Rightarrow>
   chan_error option \<times> 's world" where
  "dispatch_job ovf d now job w =
     (case applyOutboundScan d job w of
        (Inl e, w1) \<Rightarrow> (Some e, w1)
      | (Inr True, w1) \<Rightarrow> (None, w1)
      | (Inr False, w1) \<Rightarrow>
          (let r = di_sender d (length (wd_sends w1)) job;
               w2 = w1\<lparr>wd_sends := wd_sends w1 @ [job]\<rparr> in
           case r of
             Some err \<Rightarrow> send_failed ovf d now job err w2
           | None \<Rightarrow>
               (case on_q (st_MarkOutboxSent (di_store d) (ob_ID job)) w2 of
                  (Inl e, w3) \<Rightarrow> (Some (Wrap ''marking outbox sent'' e), w3)
                | (Inr _, w3) \<Rightarrow>
                    (None, logEvent d job ''channel.sent'' ''sent'' ''Outbound delivery sent''
                       ''Delivery reached the provider queue.'' [] w3))))"

section \<open>One call\<close>

fun dispatch_jobs ::
  "(float64 \<Rightarrow> int) \<Rightarrow> 's OutboxDispatcher \<Rightarrow> gotime \<Rightarrow> ChannelOutbox list \<Rightarrow> nat \<Rightarrow> 's world \<Rightarrow>
   (nat \<times> chan_error option) \<times> 's world" where
  "dispatch_jobs ovf d now [] processed w = ((processed, None), w)"
| "dispatch_jobs ovf d now (job # jobs) processed w =
     (case dispatch_job ovf d now job w of
        (Some e, w1) \<Rightarrow> ((processed, Some e), w1)
      | (None, w1) \<Rightarrow> dispatch_jobs ovf d now jobs (Suc processed) w1)"

text \<open>
  The claim loop, with a bound on the number of claims; \<open>None\<close> is running past it.
\<close>

fun dispatch_loop ::
  "nat \<Rightarrow> (float64 \<Rightarrow> int) \<Rightarrow> 's OutboxDispatcher \<Rightarrow> gotime \<Rightarrow> nat \<Rightarrow> 's world \<Rightarrow>
   ((nat \<times> chan_error option) \<times> 's world) option" where
  "dispatch_loop 0 ovf d now processed w = None"
| "dispatch_loop (Suc fuel) ovf d now processed w =
     (case on_q (st_ClaimPendingOutbox (di_store d) now (cf_ClaimBatchSize (di_cfg d))) w of
        (Inl e, w1) \<Rightarrow> Some ((processed, Some (Wrap ''claiming pending outbox jobs'' e)), w1)
      | (Inr [], w1) \<Rightarrow> Some ((processed, None), w1)
      | (Inr (job # jobs), w1) \<Rightarrow>
          (case dispatch_jobs ovf d now (job # jobs) processed w1 of
             ((n, Some e), w2) \<Rightarrow> Some ((n, Some e), w2)
           | ((n, None), w2) \<Rightarrow> dispatch_loop fuel ovf d now n w2))"

definition DispatchOnce ::
  "nat \<Rightarrow> (float64 \<Rightarrow> int) \<Rightarrow> 's OutboxDispatcher \<Rightarrow> 's world \<Rightarrow>
   ((nat \<times> chan_error option) \<times> 's world) option" where
  "DispatchOnce fuel ovf d w =
     (let now = di_now d (wd_clock w); w = w\<lparr>wd_clock := Suc (wd_clock w)\<rparr> in
      case on_q (st_RecoverStaleSending (di_store d) (now - cf_LockTimeout (di_cfg d))
                   (cf_RecoveryBatchSize (di_cfg d))) w of
        (Inl e, w1) \<Rightarrow> Some ((0, Some (Wrap ''recovering stale outbox jobs'' e)), w1)
      | (Inr _, w1) \<Rightarrow> dispatch_loop fuel ovf d now 0 w1)"

end
