(* ===== verification/Dispatcher_Contract.thy ===== *)
theory Dispatcher_Contract
  imports Outbox_Dispatcher
begin

text \<open>
  What the dispatcher relies on and what it guarantees: the interface \<open>outboxStore\<close> as a
  locale whose laws describe every operation by its effect on an abstract table of jobs, and
  the dispatcher's correctness proved once from these laws.
\<close>

section \<open>The abstract table\<close>

text \<open>What the dispatcher needs to know of a job: status, attempts made, budget, due time.\<close>

datatype job_view =
  View (vw_status: OutboxStatus) (vw_attempts: int) (vw_max: int) (vw_next: gotime)

definition view :: "ChannelOutbox \<Rightarrow> job_view" where
  "view r = View (ob_Status r) (ob_AttemptCount r) (ob_MaxAttempts r) (ob_NextAttemptAt r)"

text \<open>The number of sends a job can still cause.\<close>

definition wt :: "job_view \<Rightarrow> nat" where
  "wt v = (if vw_status v \<in> {OutboxStatusPending, OutboxStatusSending}
           then nat (max 1 (vw_max v - vw_attempts v)) else 0)"

definition pot :: "(uuid \<rightharpoonup> job_view) \<Rightarrow> nat" where
  "pot m = (\<Sum>i \<in> dom m. wt (the (m i)))"

lemma pot_upd:
  assumes "finite (dom m)" "m i = Some v"
  shows "pot (m(i \<mapsto> v')) + wt v = pot m + wt v'"
proof -
  have i: "i \<in> dom m" using assms(2) by auto
  then have d: "dom (m(i \<mapsto> v')) = dom m" by auto
  have "pot (m(i \<mapsto> v')) = wt v' + (\<Sum>j \<in> dom m - {i}. wt (the (m j)))"
    unfolding pot_def d using assms(1) i by (simp add: sum.remove [of _ i])
  moreover have "pot m = wt v + (\<Sum>j \<in> dom m - {i}. wt (the (m j)))"
    unfolding pot_def using assms i by (simp add: sum.remove [of _ i])
  ultimately show ?thesis by simp
qed

text \<open>Tables that differ in statuses of the same weight have the same potential.\<close>

lemma pot_cong:
  assumes "\<And>i. rel_option (\<lambda>v v'. wt v = wt v') (m i) (m' i)"
  shows "pot m = pot m'"
proof -
  have "m i = None \<longleftrightarrow> m' i = None" for i
    using assms [of i] by (cases "m i"; cases "m' i") auto
  then have "dom m = dom m'" by (simp add: dom_def)
  moreover have "wt (the (m i)) = wt (the (m' i))" if "i \<in> dom m" for i
    using assms [of i] that by (auto elim: option.rel_cases)
  ultimately show ?thesis by (simp add: pot_def)
qed

section \<open>What happens to a claimed job\<close>

datatype verdict = Blocked | Held | Deliver

definition verdict_of :: "OutboundScanReport \<Rightarrow> verdict" where
  "verdict_of report =
     (if FirstByAction report OutboundActionBlock \<noteq> None then Blocked
      else if FirstByAction report OutboundActionReview \<noteq> None then Held else Deliver)"

definition scan_verdict :: "'s OutboxDispatcher \<Rightarrow> ChannelOutbox \<Rightarrow> verdict" where
  "scan_verdict d job =
     (case di_scanner d of
        None \<Rightarrow> Deliver
      | Some scan \<Rightarrow> (case scan job of Inl _ \<Rightarrow> Deliver | Inr report \<Rightarrow> verdict_of report))"

text \<open>The abstract specification of one job, from the verdict and the provider's answer.\<close>

definition outcome ::
  "(float64 \<Rightarrow> int) \<Rightarrow> 's OutboxDispatcher \<Rightarrow> gotime \<Rightarrow> ChannelOutbox \<Rightarrow> 's world \<Rightarrow> job_view" where
  "outcome ovf d now job w =
     (let a = ob_AttemptCount job; m = ob_MaxAttempts job; t = ob_NextAttemptAt job in
      case scan_verdict d job of
        Blocked \<Rightarrow> View OutboxStatusDead (a + 1) m t
      | Held \<Rightarrow> View OutboxStatusPendingApproval a m t
      | Deliver \<Rightarrow>
          (case di_sender d (length (wd_sends w)) job of
             None \<Rightarrow> View OutboxStatusSent a m t
           | Some err \<Rightarrow>
               if IsOutboxPermanentError (Some err) \<or> m \<le> a + 1
               then View OutboxStatusDead (a + 1) m t
               else View OutboxStatusPending (a + 1) m
                      (retry_time ovf d now (di_jitter d (wd_rand w)) (a + 1) err)))"

section \<open>The contract\<close>

locale outbox_contract =
  fixes store :: "'s outboxStore"
    and review :: "OutboundReviewRequest \<Rightarrow> 's \<Rightarrow> (chan_error + unit) \<times> 's"
    and inv :: "'s \<Rightarrow> bool"
    and jobs :: "'s \<Rightarrow> uuid \<rightharpoonup> job_view"
    and drained :: "gotime \<Rightarrow> 's \<Rightarrow> bool"
  assumes finite_jobs: "inv s \<Longrightarrow> finite (dom (jobs s))"
    and claim_ok:
      "\<lbrakk>inv s; now \<noteq> 0; st_ClaimPendingOutbox store now limit s = (Inr js, s')\<rbrakk> \<Longrightarrow>
       inv s' \<and> distinct (map ob_ID js) \<and>
       (\<forall>j \<in> set js. 1 \<le> ob_MaxAttempts j \<and> 0 \<le> ob_AttemptCount j \<and>
          ob_Status j = OutboxStatusSending \<and>
          ob_NextAttemptAt j \<le> now \<and> jobs s' (ob_ID j) = Some (view j) \<and>
          jobs s (ob_ID j) = Some (View OutboxStatusPending (ob_AttemptCount j) (ob_MaxAttempts j)
                                     (ob_NextAttemptAt j))) \<and>
       (\<forall>i. i \<notin> ob_ID ` set js \<longrightarrow> jobs s' i = jobs s i)"
    and claim_empty:
      "\<lbrakk>inv s; now \<noteq> 0; st_ClaimPendingOutbox store now limit s = (Inr [], s')\<rbrakk> \<Longrightarrow> drained now s'"
    and claim_err:
      "\<lbrakk>inv s; st_ClaimPendingOutbox store now limit s = (Inl e, s')\<rbrakk> \<Longrightarrow> inv s'"
    and sent:
      "\<lbrakk>inv s; st_MarkOutboxSent store i s = (r, s')\<rbrakk> \<Longrightarrow> inv s' \<and>
       (case r of Inl e \<Rightarrow> jobs s' = jobs s | Inr _ \<Rightarrow>
         (\<exists>a m t. jobs s i = Some (View OutboxStatusSending a m t) \<and>
            jobs s' = (jobs s)(i \<mapsto> View OutboxStatusSent a m t)))"
    and retry:
      "\<lbrakk>inv s; st_MarkOutboxRetry store i t' err s = (r, s')\<rbrakk> \<Longrightarrow> inv s' \<and>
       (case r of Inl e \<Rightarrow> jobs s' = jobs s | Inr _ \<Rightarrow>
         (\<exists>a m t. jobs s i = Some (View OutboxStatusSending a m t) \<and>
            jobs s' = (jobs s)(i \<mapsto> View OutboxStatusPending (a + 1) m t')))"
    and dead:
      "\<lbrakk>inv s; st_MarkOutboxDead store i err s = (r, s')\<rbrakk> \<Longrightarrow> inv s' \<and>
       (case r of Inl e \<Rightarrow> jobs s' = jobs s | Inr _ \<Rightarrow>
         (\<exists>a m t. jobs s i = Some (View OutboxStatusSending a m t) \<and>
            jobs s' = (jobs s)(i \<mapsto> View OutboxStatusDead (a + 1) m t)))"
    and pending_approval:
      "\<lbrakk>inv s; st_MarkOutboxPendingApproval store i err s = (r, s')\<rbrakk> \<Longrightarrow> inv s' \<and>
       (case r of Inl e \<Rightarrow> jobs s' = jobs s | Inr _ \<Rightarrow>
         (\<exists>a m t. jobs s i = Some (View OutboxStatusSending a m t) \<and>
            jobs s' = (jobs s)(i \<mapsto> View OutboxStatusPendingApproval a m t)))"
    and recover:
      "\<lbrakk>inv s; st_RecoverStaleSending store before limit s = (rs, s')\<rbrakk> \<Longrightarrow> inv s' \<and>
       (\<forall>i. jobs s' i = jobs s i \<or>
         (\<exists>a m t. jobs s i = Some (View OutboxStatusSending a m t) \<and>
            jobs s' i = Some (View OutboxStatusPending a m t)))"
    and review_keeps:
      "\<lbrakk>inv s; review rq s = (r, s')\<rbrakk> \<Longrightarrow> inv s' \<and> jobs s' = jobs s"
begin

text \<open>A dispatcher built from the store and the review sink of the contract.\<close>

definition wired :: "'s OutboxDispatcher \<Rightarrow> bool" where
  "wired d \<longleftrightarrow> di_store d = store \<and> di_reviewSink d \<in> {None, Some review}"

definition held :: "'s \<Rightarrow> ChannelOutbox \<Rightarrow> bool" where
  "held s j \<longleftrightarrow> ob_Status j = OutboxStatusSending \<and> 1 \<le> ob_MaxAttempts j \<and>
     0 \<le> ob_AttemptCount j \<and>
     jobs s (ob_ID j) = Some (view j)"

lemma wd_q_logEvent [simp]: "wd_q (logEvent d job k st t sm md w) = wd_q w"
  by (simp add: logEvent_def Let_def)

lemma wd_sends_logEvent [simp]: "wd_sends (logEvent d job k st t sm md w) = wd_sends w"
  by (simp add: logEvent_def Let_def)

lemma on_q_cases:
  assumes "on_q f w = (r, w')"
  obtains q' where "f (wd_q w) = (r, q')" "w' = w\<lparr>wd_q := q'\<rparr>"
  using assms by (auto simp: on_q_def split: prod.splits)

text \<open>The scan of a claimed job.\<close>

lemma block_step:
  assumes "inv (wd_q w)" "wired d" "held (wd_q w) job"
    and "on_q (st_MarkOutboxDead (di_store d) (ob_ID job) err) w = (r, w1)"
  shows "inv (wd_q w1) \<and> wd_sends w1 = wd_sends w \<and> wd_rand w1 = wd_rand w \<and>
    (case r of Inl _ \<Rightarrow> jobs (wd_q w1) = jobs (wd_q w)
     | Inr _ \<Rightarrow> jobs (wd_q w1) = (jobs (wd_q w))(ob_ID job \<mapsto>
         View OutboxStatusDead (ob_AttemptCount job + 1) (ob_MaxAttempts job) (ob_NextAttemptAt job)))"
proof -
  from assms(4) obtain q' where "st_MarkOutboxDead store (ob_ID job) err (wd_q w) = (r, q')"
    and w1: "w1 = w\<lparr>wd_q := q'\<rparr>"
    using assms(2) by (auto simp: wired_def elim: on_q_cases)
  from dead [OF assms(1) this(1)] show ?thesis
    using assms(3) by (auto simp: w1 held_def view_def split: sum.splits)
qed

lemma review_step:
  assumes "inv (wd_q w)" "wired d" "held (wd_q w) job" "di_reviewSink d = Some create"
    and "on_q (create rq) w = (r1, w1)"
  shows "inv (wd_q w1) \<and> wd_sends w1 = wd_sends w \<and> jobs (wd_q w1) = jobs (wd_q w) \<and>
    (on_q (st_MarkOutboxPendingApproval (di_store d) (ob_ID job) err) w1 = (r2, w2) \<longrightarrow>
      inv (wd_q w2) \<and> wd_sends w2 = wd_sends w \<and>
      (case r2 of Inl _ \<Rightarrow> jobs (wd_q w2) = jobs (wd_q w)
       | Inr _ \<Rightarrow> jobs (wd_q w2) = (jobs (wd_q w))(ob_ID job \<mapsto>
           View OutboxStatusPendingApproval (ob_AttemptCount job) (ob_MaxAttempts job)
             (ob_NextAttemptAt job))))"
proof -
  have c: "create = review" using assms(2,4) by (simp add: wired_def)
  from assms(5) obtain q1 where q1: "review rq (wd_q w) = (r1, q1)" and w1: "w1 = w\<lparr>wd_q := q1\<rparr>"
    unfolding c by (rule on_q_cases)
  note 1 = review_keeps [OF assms(1) q1]
  have "inv (wd_q w2) \<and> wd_sends w2 = wd_sends w \<and>
      (case r2 of Inl _ \<Rightarrow> jobs (wd_q w2) = jobs (wd_q w)
       | Inr _ \<Rightarrow> jobs (wd_q w2) = (jobs (wd_q w))(ob_ID job \<mapsto>
           View OutboxStatusPendingApproval (ob_AttemptCount job) (ob_MaxAttempts job)
             (ob_NextAttemptAt job)))"
    if "on_q (st_MarkOutboxPendingApproval (di_store d) (ob_ID job) err) w1 = (r2, w2)"
  proof -
    from that obtain q2 where "st_MarkOutboxPendingApproval store (ob_ID job) err q1 = (r2, q2)"
      and w2: "w2 = w1\<lparr>wd_q := q2\<rparr>"
      using assms(2) by (auto simp: wired_def w1 elim: on_q_cases)
    from pending_approval [OF _ this(1)] 1 show ?thesis
      using assms(3) by (auto simp: w1 w2 held_def view_def split: sum.splits)
  qed
  with 1 show ?thesis by (simp add: w1)
qed

lemma scan_step:
  assumes "inv (wd_q w)" "wired d" "held (wd_q w) job" "applyOutboundScan d job w = (r, w')"
  shows "inv (wd_q w') \<and> wd_sends w' = wd_sends w \<and>
    (case r of
       Inl _ \<Rightarrow> jobs (wd_q w') = jobs (wd_q w)
     | Inr False \<Rightarrow> w' = w \<and> scan_verdict d job = Deliver
     | Inr True \<Rightarrow> scan_verdict d job \<noteq> Deliver \<and>
         jobs (wd_q w') = (jobs (wd_q w))(ob_ID job \<mapsto> outcome ovf d now job w))"
proof (cases "di_scanner d")
  case None
  with assms show ?thesis by (auto simp: applyOutboundScan_def scan_verdict_def)
next
  case (Some scan)
  show ?thesis
  proof (cases "scan job")
    case (Inl e)
    with assms Some show ?thesis by (auto simp: applyOutboundScan_def)
  next
    case (Inr report)
    note sv = scan_verdict_def Some Inr verdict_of_def
    show ?thesis
    proof (cases "FirstByAction report OutboundActionBlock")
      case (Some f)
      note blk = Some
      show ?thesis
        using assms(4) block_step [OF assms(1-3)] blk
        by (fastforce simp: applyOutboundScan_def \<open>di_scanner d = Some scan\<close> Inr sv outcome_def Let_def
            split: prod.splits sum.splits)
    next
      case None
      show ?thesis
        using assms(4) review_step [OF assms(1-3)] None assms(1)
        by (fastforce simp: applyOutboundScan_def \<open>di_scanner d = Some scan\<close> Inr sv outcome_def Let_def
            split: prod.splits sum.splits option.splits)
    qed
  qed
qed

text \<open>What the three answers of the provider lead to.\<close>

lemma retry_step:
  assumes "inv (wd_q w)" "wired d" "held (wd_q w) job"
    and "on_q (st_MarkOutboxRetry (di_store d) (ob_ID job) t' err) w = (r, w1)"
  shows "inv (wd_q w1) \<and> wd_sends w1 = wd_sends w \<and>
    (case r of Inl _ \<Rightarrow> jobs (wd_q w1) = jobs (wd_q w)
     | Inr _ \<Rightarrow> jobs (wd_q w1) = (jobs (wd_q w))(ob_ID job \<mapsto>
         View OutboxStatusPending (ob_AttemptCount job + 1) (ob_MaxAttempts job) t'))"
proof -
  from assms(4) obtain q' where "st_MarkOutboxRetry store (ob_ID job) t' err (wd_q w) = (r, q')"
    and w1: "w1 = w\<lparr>wd_q := q'\<rparr>"
    using assms(2) by (auto simp: wired_def elim: on_q_cases)
  from retry [OF assms(1) this(1)] show ?thesis
    using assms(3) by (auto simp: w1 held_def view_def split: sum.splits)
qed

lemma sent_step:
  assumes "inv (wd_q w)" "wired d" "held (wd_q w) job"
    and "on_q (st_MarkOutboxSent (di_store d) (ob_ID job)) w = (r, w1)"
  shows "inv (wd_q w1) \<and> wd_sends w1 = wd_sends w \<and>
    (case r of Inl _ \<Rightarrow> jobs (wd_q w1) = jobs (wd_q w)
     | Inr _ \<Rightarrow> jobs (wd_q w1) = (jobs (wd_q w))(ob_ID job \<mapsto>
         View OutboxStatusSent (ob_AttemptCount job) (ob_MaxAttempts job) (ob_NextAttemptAt job)))"
proof -
  from assms(4) obtain q' where "st_MarkOutboxSent store (ob_ID job) (wd_q w) = (r, q')"
    and w1: "w1 = w\<lparr>wd_q := q'\<rparr>"
    using assms(2) by (auto simp: wired_def elim: on_q_cases)
  from sent [OF assms(1) this(1)] show ?thesis
    using assms(3) by (auto simp: w1 held_def view_def split: sum.splits)
qed

lemma failed_step:
  assumes "inv (wd_q w)" "wired d" "held (wd_q w) job" "send_failed ovf d now job err w = (r, w')"
  shows "inv (wd_q w') \<and> wd_sends w' = wd_sends w \<and>
    (case r of Some _ \<Rightarrow> jobs (wd_q w') = jobs (wd_q w)
     | None \<Rightarrow> jobs (wd_q w') = (jobs (wd_q w))(ob_ID job \<mapsto>
         (if IsOutboxPermanentError (Some err) \<or> ob_MaxAttempts job \<le> ob_AttemptCount job + 1
          then View OutboxStatusDead (ob_AttemptCount job + 1) (ob_MaxAttempts job)
                 (ob_NextAttemptAt job)
          else View OutboxStatusPending (ob_AttemptCount job + 1) (ob_MaxAttempts job)
                 (retry_time ovf d now (di_jitter d (wd_rand w)) (ob_AttemptCount job + 1) err))))"
proof -
  have m: "\<not> ob_MaxAttempts job \<le> 0" using assms(3) by (simp add: held_def)
  consider (dead) "IsOutboxPermanentError (Some err) \<or> ob_MaxAttempts job \<le> ob_AttemptCount job + 1"
    | (retry) "\<not> IsOutboxPermanentError (Some err)" "\<not> ob_MaxAttempts job \<le> ob_AttemptCount job + 1"
    by blast
  then show ?thesis
  proof cases
    case dead
    with assms(4) m block_step [OF assms(1-3)] show ?thesis
      by (fastforce simp: send_failed_def Let_def split: prod.splits sum.splits if_splits)
  next
    case retry
    let ?w = "if cf_JitterFraction (di_cfg d) \<le> 0 then w else w\<lparr>wd_rand := Suc (wd_rand w)\<rparr>"
    have w: "inv (wd_q ?w)" "held (wd_q ?w) job" "jobs (wd_q ?w) = jobs (wd_q w)"
      "wd_sends ?w = wd_sends w"
      using assms(1,3) by auto
    from assms(4) m retry w(3,4) retry_step [OF w(1) assms(2) w(2)] show ?thesis
      by (fastforce simp: send_failed_def Let_def split: prod.splits sum.splits)
  qed
qed

lemma job_step:
  assumes "inv (wd_q w)" "wired d" "held (wd_q w) job" "dispatch_job ovf d now job w = (r, w')"
  shows "inv (wd_q w') \<and>
    (wd_sends w' = wd_sends w \<or>
     wd_sends w' = wd_sends w @ [job] \<and> scan_verdict d job = Deliver) \<and>
    jobs (wd_q w') = (if r = None then (jobs (wd_q w))(ob_ID job \<mapsto> outcome ovf d now job w)
                      else jobs (wd_q w))"
proof -
  obtain rs w1 where s: "applyOutboundScan d job w = (rs, w1)" by fastforce
  note 1 = scan_step [OF assms(1-3) s, of ovf now]
  consider (err) e where "rs = Inl e" | (hd) "rs = Inr True" | (ok) "rs = Inr False"
    by (cases rs) auto
  then show ?thesis
  proof cases
    case ok
    let ?w = "w\<lparr>wd_sends := wd_sends w @ [job]\<rparr>"
    have w: "inv (wd_q ?w)" "held (wd_q ?w) job" using assms(1,3) by auto
    from 1 ok have v: "w1 = w" "scan_verdict d job = Deliver" by auto
    show ?thesis
    proof (cases "di_sender d (length (wd_sends w)) job")
      case None
      with assms(4) s ok v sent_step [OF w(1) assms(2) w(2)] show ?thesis
        by (fastforce simp: dispatch_job_def outcome_def Let_def split: prod.splits sum.splits)
    next
      case (Some e)
      with assms(4) s ok v have "send_failed ovf d now job e ?w = (r, w')"
        by (simp add: dispatch_job_def)
      from failed_step [OF w(1) assms(2) w(2) this] Some v show ?thesis
        by (cases r) (auto simp: outcome_def Let_def)
    qed
  qed (use assms(4) s 1 in \<open>auto simp: dispatch_job_def\<close>)
qed

section \<open>A batch\<close>

lemma vw_max_outcome [simp]: "vw_max (outcome ovf d now job w) = ob_MaxAttempts job"
  by (auto simp: outcome_def Let_def split: verdict.splits option.splits)

lemma wt_outcome: "held s job \<Longrightarrow> wt (outcome ovf d now job w) < wt (view job)"
  by (auto simp: outcome_def wt_def view_def held_def Let_def split: verdict.splits option.splits)

lemma held_other: "held (wd_q w) j \<Longrightarrow> ob_ID j \<noteq> i \<Longrightarrow> jobs (wd_q w') = (jobs (wd_q w))(i \<mapsto> v) \<Longrightarrow>
    held (wd_q w') j"
  by (simp add: held_def)

lemma batch_step:
  assumes "inv (wd_q w)" "wired d" "\<forall>j \<in> set js. held (wd_q w) j" "distinct (map ob_ID js)"
    and "dispatch_jobs ovf d now js n w = ((n', e), w')"
  shows "inv (wd_q w') \<and>
    (\<exists>ss. wd_sends w' = wd_sends w @ ss \<and> distinct (map ob_ID ss) \<and>
       (\<forall>j \<in> set ss. j \<in> set js \<and> scan_verdict d j = Deliver)) \<and>
    (\<forall>i. i \<notin> ob_ID ` set js \<longrightarrow> jobs (wd_q w') i = jobs (wd_q w) i) \<and>
    (e = None \<longrightarrow> pot (jobs (wd_q w')) + length js \<le> pot (jobs (wd_q w)) \<and>
       (\<forall>j \<in> set js. \<exists>u. jobs (wd_q w') (ob_ID j) = Some (outcome ovf d now j u)))"
  using assms
proof (induction js arbitrary: n w)
  case Nil
  then show ?case by auto
next
  case (Cons j js)
  obtain r w1 where r: "dispatch_job ovf d now j w = (r, w1)" by fastforce
  have hj: "held (wd_q w) j" using Cons.prems(3) by simp
  note 1 = job_step [OF Cons.prems(1,2) hj r]
  show ?case
  proof (cases r)
    case (Some x)
    with Cons.prems(5) r have "w1 = w'" "e = Some x" by auto
    with 1 Some show ?thesis by auto
  next
    case None
    with 1 have q1: "inv (wd_q w1)"
      and j1: "jobs (wd_q w1) = (jobs (wd_q w))(ob_ID j \<mapsto> outcome ovf d now j w)" by auto
    have dj: "distinct (map ob_ID js)" using Cons.prems(4) by simp
    have "\<forall>j' \<in> set js. held (wd_q w1) j'"
    proof
      fix j' assume j': "j' \<in> set js"
      then have "ob_ID j' \<noteq> ob_ID j" using Cons.prems(4) by (metis distinct.simps(2) image_eqI
          list.simps(9) set_map)
      with j' Cons.prems(3) show "held (wd_q w1) j'" by (intro held_other [OF _ _ j1]) auto
    qed
    moreover have "dispatch_jobs ovf d now js (Suc n) w1 = ((n', e), w')"
      using Cons.prems(5) r None by simp
    ultimately have IH: "inv (wd_q w') \<and>
      (\<exists>ss. wd_sends w' = wd_sends w1 @ ss \<and> distinct (map ob_ID ss) \<and>
         (\<forall>j \<in> set ss. j \<in> set js \<and> scan_verdict d j = Deliver)) \<and>
      (\<forall>i. i \<notin> ob_ID ` set js \<longrightarrow> jobs (wd_q w') i = jobs (wd_q w1) i) \<and>
      (e = None \<longrightarrow> pot (jobs (wd_q w')) + length js \<le> pot (jobs (wd_q w1)) \<and>
         (\<forall>j \<in> set js. \<exists>u. jobs (wd_q w') (ob_ID j) = Some (outcome ovf d now j u)))"
      by (rule Cons.IH [OF q1 Cons.prems(2) _ dj])
    have jn: "ob_ID j \<notin> ob_ID ` set js" using Cons.prems(4) by simp
    from IH obtain ss where ss: "wd_sends w' = wd_sends w1 @ ss" "distinct (map ob_ID ss)"
      "\<forall>j \<in> set ss. j \<in> set js \<and> scan_verdict d j = Deliver" by blast
    have "\<exists>ss. wd_sends w' = wd_sends w @ ss \<and> distinct (map ob_ID ss) \<and>
       (\<forall>k \<in> set ss. k \<in> set (j # js) \<and> scan_verdict d k = Deliver)"
    proof (cases "wd_sends w1 = wd_sends w")
      case True
      with ss show ?thesis by auto
    next
      case False
      with 1 have "wd_sends w1 = wd_sends w @ [j]" "scan_verdict d j = Deliver" by auto
      with ss jn show ?thesis by (intro exI [of _ "j # ss"]) auto
    qed
    moreover have "pot (jobs (wd_q w1)) + wt (view j) = pot (jobs (wd_q w)) + wt (outcome ovf d now j w)"
      using hj finite_jobs [OF Cons.prems(1)] unfolding j1 by (intro pot_upd) (simp_all add: held_def)
    with wt_outcome [OF hj, of ovf d now w] have "pot (jobs (wd_q w1)) < pot (jobs (wd_q w))" by simp
    moreover have "jobs (wd_q w') (ob_ID j) = Some (outcome ovf d now j w)"
      using IH jn by (simp add: j1)
    ultimately show ?thesis using IH by (auto simp: j1)
  qed
qed

section \<open>The claim loop\<close>

lemma claim_step:
  assumes "inv (wd_q w)" "wired d" "now \<noteq> 0"
    and "on_q (st_ClaimPendingOutbox (di_store d) now limit) w = (Inr js, w1)"
  shows "inv (wd_q w1)" "\<forall>j \<in> set js. held (wd_q w1) j" "distinct (map ob_ID js)"
    "pot (jobs (wd_q w1)) = pot (jobs (wd_q w))" "wd_sends w1 = wd_sends w"
    "\<forall>i. i \<notin> ob_ID ` set js \<longrightarrow> jobs (wd_q w1) i = jobs (wd_q w) i"
    "\<forall>j \<in> set js. ob_NextAttemptAt j \<le> now \<and> jobs (wd_q w) (ob_ID j) =
       Some (View OutboxStatusPending (ob_AttemptCount j) (ob_MaxAttempts j) (ob_NextAttemptAt j))"
    "js = [] \<longrightarrow> drained now (wd_q w1)"
proof -
  from assms(4) obtain q' where c: "st_ClaimPendingOutbox store now limit (wd_q w) = (Inr js, q')"
    and w1: "w1 = w\<lparr>wd_q := q'\<rparr>"
    using assms(2) by (auto simp: wired_def elim: on_q_cases)
  note 1 = claim_ok [OF assms(1,3) c]
  show "inv (wd_q w1)" "distinct (map ob_ID js)" "wd_sends w1 = wd_sends w"
    "\<forall>i. i \<notin> ob_ID ` set js \<longrightarrow> jobs (wd_q w1) i = jobs (wd_q w) i"
    using 1 by (auto simp: w1)
  show "\<forall>j \<in> set js. held (wd_q w1) j" using 1 by (auto simp: w1 held_def)
  show "\<forall>j \<in> set js. ob_NextAttemptAt j \<le> now \<and> jobs (wd_q w) (ob_ID j) =
       Some (View OutboxStatusPending (ob_AttemptCount j) (ob_MaxAttempts j) (ob_NextAttemptAt j))"
    using 1 by auto
  show "js = [] \<longrightarrow> drained now (wd_q w1)" using claim_empty [OF assms(1,3)] c by (auto simp: w1)
  have "rel_option (\<lambda>v v'. wt v = wt v') (jobs q' i) (jobs (wd_q w) i)" for i
  proof (cases "i \<in> ob_ID ` set js")
    case True
    with 1 show ?thesis by (auto simp: view_def wt_def)
  next
    case False
    with 1 show ?thesis by (simp add: option.rel_refl)
  qed
  then show "pot (jobs (wd_q w1)) = pot (jobs (wd_q w))" by (simp add: w1 pot_cong)
qed

lemma loop_terminates:
  assumes "inv (wd_q w)" "wired d" "now \<noteq> 0" "pot (jobs (wd_q w)) < fuel"
  shows "\<exists>r. dispatch_loop fuel ovf d now n w = Some r"
  using assms
proof (induction fuel arbitrary: n w)
  case (Suc fuel)
  obtain rc w1 where c:
    "on_q (st_ClaimPendingOutbox (di_store d) now (cf_ClaimBatchSize (di_cfg d))) w = (rc, w1)" by fastforce
  show ?case
  proof (cases rc)
    case (Inr js)
    note cs = claim_step [OF Suc.prems(1-3) c [unfolded Inr]]
    show ?thesis
    proof (cases js)
      case (Cons j js')
      obtain n' e w2 where b: "dispatch_jobs ovf d now js n w1 = ((n', e), w2)"
        by (metis prod.exhaust)
      note bs = batch_step [OF cs(1) Suc.prems(2) cs(2,3) b]
      have "\<exists>r. dispatch_loop fuel ovf d now n' w2 = Some r" if "e = None"
        using bs that cs(4) Suc.prems Cons by (intro Suc.IH) auto
      with b c Inr Cons show ?thesis by (cases e) auto
    qed (use c Inr in simp)
  qed (use c in simp)
qed simp

text \<open>One round of the loop: an empty claim, a failed one, or a batch.\<close>

lemma loop_cases:
  assumes "dispatch_loop fuel ovf d now n w = Some ((n', e), w')"
  obtains (claim_failed) x where
      "on_q (st_ClaimPendingOutbox (di_store d) now (cf_ClaimBatchSize (di_cfg d))) w = (Inl x, w')"
      "e \<noteq> None"
  | (finished)
      "on_q (st_ClaimPendingOutbox (di_store d) now (cf_ClaimBatchSize (di_cfg d))) w = (Inr [], w')"
      "e = None"
  | (stopped) js w1 where
      "on_q (st_ClaimPendingOutbox (di_store d) now (cf_ClaimBatchSize (di_cfg d))) w = (Inr js, w1)"
      "dispatch_jobs ovf d now js n w1 = ((n', e), w')" "e \<noteq> None"
  | (batch) fuel' js w1 k w2 where "fuel = Suc fuel'"
      "on_q (st_ClaimPendingOutbox (di_store d) now (cf_ClaimBatchSize (di_cfg d))) w = (Inr js, w1)"
      "dispatch_jobs ovf d now js n w1 = ((k, None), w2)"
      "dispatch_loop fuel' ovf d now k w2 = Some ((n', e), w')"
proof (cases fuel)
  case (Suc fuel')
  obtain rc w1 where c:
    "on_q (st_ClaimPendingOutbox (di_store d) now (cf_ClaimBatchSize (di_cfg d))) w = (rc, w1)" by fastforce
  consider x where "rc = Inl x" | "rc = Inr []" | j js where "rc = Inr (j # js)"
    by (metis list.exhaust sum.exhaust_sel)
  then show thesis
  proof cases
    case (3 j js)
    obtain k e2 w2 where b: "dispatch_jobs ovf d now (j # js) n w1 = ((k, e2), w2)"
      by (metis prod.exhaust)
    with assms c 3 Suc stopped [of "j # js" w1] batch [of fuel' "j # js" w1 k w2] show thesis
      by (cases e2) auto
  qed (use assms c Suc claim_failed finished in auto)
qed (use assms in simp)

lemma claim_error_inv:
  assumes "inv (wd_q w)" "wired d"
    and "on_q (st_ClaimPendingOutbox (di_store d) now limit) w = (Inl x, w')"
  shows "inv (wd_q w') \<and> wd_sends w' = wd_sends w"
  using assms(3) claim_err [OF assms(1)] assms(2) by (auto simp: wired_def elim!: on_q_cases)

lemma loop_result:
  assumes "inv (wd_q w)" "wired d" "now \<noteq> 0"
    and "dispatch_loop fuel ovf d now n w = Some ((n', e), w')"
  shows "inv (wd_q w') \<and>
    (\<exists>ss. wd_sends w' = wd_sends w @ ss \<and> (\<forall>j \<in> set ss. scan_verdict d j = Deliver)) \<and>
    (e = None \<longrightarrow> drained now (wd_q w'))"
  using assms
proof (induction fuel arbitrary: n w)
  case (Suc fuel)
  from Suc.prems(4) show ?case
  proof (cases rule: loop_cases)
    case (claim_failed x)
    then show ?thesis using claim_error_inv [OF Suc.prems(1,2)] by auto
  next
    case finished
    then show ?thesis using claim_step [OF Suc.prems(1-3) finished(1)] by auto
  next
    case (stopped js w1)
    note cs = claim_step [OF Suc.prems(1-3) stopped(1)]
    show ?thesis using batch_step [OF cs(1) Suc.prems(2) cs(2,3) stopped(2)] cs(5) stopped(3) by auto
  next
    case (batch fuel' js w1 k w2)
    note cs = claim_step [OF Suc.prems(1-3) batch(2)]
    from batch_step [OF cs(1) Suc.prems(2) cs(2,3) batch(3)] cs(5) obtain ss where
      1: "inv (wd_q w2)" "wd_sends w2 = wd_sends w @ ss" "\<forall>j \<in> set ss. scan_verdict d j = Deliver"
      by auto
    from batch(1,4) have "dispatch_loop fuel ovf d now k w2 = Some ((n', e), w')" by simp
    from Suc.IH [OF 1(1) Suc.prems(2,3) this] 1 show ?thesis by auto
  qed
qed simp

text \<open>With positive retry delays no job is sent twice by one call.\<close>

definition due_at :: "gotime \<Rightarrow> 's \<Rightarrow> uuid \<Rightarrow> bool" where
  "due_at now s i \<longleftrightarrow> (\<exists>a m t. jobs s i = Some (View OutboxStatusPending a m t) \<and> t \<le> now)"

lemma outcome_not_due:
  assumes "0 \<le> ob_AttemptCount j" "ob_MaxAttempts j \<le> M"
    and "\<And>k n err. 1 \<le> n \<Longrightarrow> n < M \<Longrightarrow> now < retry_time ovf d now (di_jitter d k) n err"
    and "outcome ovf d now j u = View OutboxStatusPending a m t"
  shows "now < t"
  using assms(4) assms(1,2) assms(3) [of "ob_AttemptCount j + 1"]
  by (auto simp: outcome_def Let_def split: verdict.splits option.splits if_splits)

lemma loop_sends_once:
  assumes "inv (wd_q w)" "wired d" "now \<noteq> 0"
    and "\<And>k n err. 1 \<le> n \<Longrightarrow> n < M \<Longrightarrow> now < retry_time ovf d now (di_jitter d k) n err"
    and "\<And>i v. jobs (wd_q w) i = Some v \<Longrightarrow> vw_max v \<le> M"
    and "\<forall>j \<in> set (wd_sends w). \<not> due_at now (wd_q w) (ob_ID j)"
    and "distinct (map ob_ID (wd_sends w))"
    and "dispatch_loop fuel ovf d now n w = Some ((n', e), w')"
  shows "distinct (map ob_ID (wd_sends w'))"
  using assms
proof (induction fuel arbitrary: n w)
  case (Suc fuel)
  have fresh: "ob_ID ` set js \<inter> ob_ID ` set (wd_sends w) = {}"
    if "on_q (st_ClaimPendingOutbox (di_store d) now l) w = (Inr js, w1)" for l js w1
    using claim_step(7) [OF Suc.prems(1-3) that] Suc.prems(6) by (force simp: due_at_def)
  from Suc.prems(8) show ?case
  proof (cases rule: loop_cases)
    case (claim_failed x)
    then show ?thesis using claim_error_inv [OF Suc.prems(1,2)] Suc.prems(7) by auto
  next
    case finished
    then show ?thesis using claim_step(5) [OF Suc.prems(1-3) finished(1)] Suc.prems(7) by auto
  next
    case (stopped js w1)
    note cs = claim_step [OF Suc.prems(1-3) stopped(1)]
    from batch_step [OF cs(1) Suc.prems(2) cs(2,3) stopped(2)] cs(5) fresh [OF stopped(1)] Suc.prems(7)
    show ?thesis by fastforce
  next
    case (batch fuel' js w1 k w2)
    note cs = claim_step [OF Suc.prems(1-3) batch(2)]
    note bs = batch_step [OF cs(1) Suc.prems(2) cs(2,3) batch(3)]
    from bs cs(5) obtain ss where ss: "wd_sends w2 = wd_sends w @ ss" "distinct (map ob_ID ss)"
      "set ss \<subseteq> set js" by auto
    have out: "\<exists>u. jobs (wd_q w2) (ob_ID j) = Some (outcome ovf d now j u)" if "j \<in> set js" for j
      using bs that by blast
    have same: "jobs (wd_q w2) i = jobs (wd_q w) i" if "i \<notin> ob_ID ` set js" for i
      using bs cs(6) that by simp
    have jm: "ob_MaxAttempts j \<le> M \<and> 0 \<le> ob_AttemptCount j" if "j \<in> set js" for j
      using Suc.prems(5) cs(2,7) that by (fastforce simp: held_def)
    have 1: "vw_max v \<le> M" if "jobs (wd_q w2) i = Some v" for i v
    proof (cases "i \<in> ob_ID ` set js")
      case True
      with out jm that show ?thesis by fastforce
    next
      case False
      with same Suc.prems(5) that show ?thesis by simp
    qed
    have 2: "\<forall>j \<in> set (wd_sends w2). \<not> due_at now (wd_q w2) (ob_ID j)"
    proof
      fix j assume "j \<in> set (wd_sends w2)"
      then consider "j \<in> set js" | "j \<in> set (wd_sends w)" using ss(1,3) by auto
      then show "\<not> due_at now (wd_q w2) (ob_ID j)"
      proof cases
        case 1
        with out jm show ?thesis using outcome_not_due [OF _ _ Suc.prems(4)]
          by (fastforce simp: due_at_def)
      next
        case 2
        then have "ob_ID j \<notin> ob_ID ` set js" using fresh [OF batch(2)] by auto
        with same 2 Suc.prems(6) show ?thesis by (simp add: due_at_def)
      qed
    qed
    have 3: "distinct (map ob_ID (wd_sends w2))"
      using ss fresh [OF batch(2)] Suc.prems(7) by fastforce
    from batch(1,4) have "dispatch_loop fuel ovf d now k w2 = Some ((n', e), w')" by simp
    from Suc.IH [OF _ Suc.prems(2,3,4) 1 2 3 this] bs show ?thesis by simp
  qed
qed simp

section \<open>The call\<close>

lemma recover_step:
  assumes "inv (wd_q w)" "wired d"
    and "on_q (st_RecoverStaleSending (di_store d) before limit) w = (r, w1)"
  shows "inv (wd_q w1)" "pot (jobs (wd_q w1)) = pot (jobs (wd_q w))" "wd_sends w1 = wd_sends w"
    "jobs (wd_q w1) i = Some v \<Longrightarrow> \<exists>u. jobs (wd_q w) i = Some u \<and> vw_max u = vw_max v"
proof -
  from assms(3) obtain q' where c: "st_RecoverStaleSending store before limit (wd_q w) = (r, q')"
    and w1: "w1 = w\<lparr>wd_q := q'\<rparr>"
    using assms(2) by (auto simp: wired_def elim: on_q_cases)
  note 1 = recover [OF assms(1) c]
  show "inv (wd_q w1)" "wd_sends w1 = wd_sends w" using 1 by (simp_all add: w1)
  have "rel_option (\<lambda>v v'. wt v = wt v') (jobs q' i) (jobs (wd_q w) i)" for i
    using 1 [THEN conjunct2, rule_format, of i] by (auto simp: wt_def option.rel_refl)
  then show "pot (jobs (wd_q w1)) = pot (jobs (wd_q w))" by (simp add: w1 pot_cong)
  show "\<exists>u. jobs (wd_q w) i = Some u \<and> vw_max u = vw_max v" if "jobs (wd_q w1) i = Some v"
    using 1 [THEN conjunct2, rule_format, of i] that by (auto simp: w1 intro: exI [of _ v])
qed

lemma DispatchOnce_terminates:
  assumes "inv (wd_q w)" "wired d" "di_now d (wd_clock w) \<noteq> 0" "pot (jobs (wd_q w)) < fuel"
  shows "\<exists>r. DispatchOnce fuel ovf d w = Some r"
proof -
  let ?w = "w\<lparr>wd_clock := Suc (wd_clock w)\<rparr>"
  obtain r w1 where c: "on_q (st_RecoverStaleSending (di_store d)
      (di_now d (wd_clock w) - cf_LockTimeout (di_cfg d)) (cf_RecoveryBatchSize (di_cfg d))) ?w = (r, w1)"
    by fastforce
  have "inv (wd_q ?w)" using assms(1) by simp
  note rs = recover_step [OF this assms(2) c]
  have "\<exists>r. dispatch_loop fuel ovf d (di_now d (wd_clock w)) 0 w1 = Some r"
    using rs assms by (intro loop_terminates) auto
  with c show ?thesis by (cases r) (auto simp: DispatchOnce_def Let_def)
qed

lemma DispatchOnce_result:
  assumes "inv (wd_q w)" "wired d" "di_now d (wd_clock w) \<noteq> 0"
    and "DispatchOnce fuel ovf d w = Some ((n, e), w')"
  shows "inv (wd_q w') \<and>
    (\<exists>ss. wd_sends w' = wd_sends w @ ss \<and> (\<forall>j \<in> set ss. scan_verdict d j = Deliver)) \<and>
    (e = None \<longrightarrow> drained (di_now d (wd_clock w)) (wd_q w'))"
proof -
  let ?w = "w\<lparr>wd_clock := Suc (wd_clock w)\<rparr>"
  obtain r w1 where c: "on_q (st_RecoverStaleSending (di_store d)
      (di_now d (wd_clock w) - cf_LockTimeout (di_cfg d)) (cf_RecoveryBatchSize (di_cfg d))) ?w = (r, w1)"
    by fastforce
  have "inv (wd_q ?w)" using assms(1) by simp
  note rs = recover_step [OF this assms(2) c]
  show ?thesis
  proof (cases r)
    case (Inl x)
    with c assms(4) rs show ?thesis by (auto simp: DispatchOnce_def Let_def)
  next
    case (Inr js)
    with c assms(4) have "dispatch_loop fuel ovf d (di_now d (wd_clock w)) 0 w1 = Some ((n, e), w')"
      by (simp add: DispatchOnce_def Let_def)
    from loop_result [OF rs(1) assms(2,3) this] rs(3) show ?thesis by simp
  qed
qed

lemma DispatchOnce_sends_once:
  assumes "inv (wd_q w)" "wired d" "di_now d (wd_clock w) \<noteq> 0" "wd_sends w = []"
    and "\<And>k n err. 1 \<le> n \<Longrightarrow> n < M \<Longrightarrow>
      di_now d (wd_clock w) < retry_time ovf d (di_now d (wd_clock w)) (di_jitter d k) n err"
    and "\<And>i v. jobs (wd_q w) i = Some v \<Longrightarrow> vw_max v \<le> M"
    and "DispatchOnce fuel ovf d w = Some ((n, e), w')"
  shows "distinct (map ob_ID (wd_sends w'))"
proof -
  let ?w = "w\<lparr>wd_clock := Suc (wd_clock w)\<rparr>"
  obtain r w1 where c: "on_q (st_RecoverStaleSending (di_store d)
      (di_now d (wd_clock w) - cf_LockTimeout (di_cfg d)) (cf_RecoveryBatchSize (di_cfg d))) ?w = (r, w1)"
    by fastforce
  have "inv (wd_q ?w)" using assms(1) by simp
  note rs = recover_step [OF this assms(2) c]
  have m: "vw_max v \<le> M" if "jobs (wd_q w1) i = Some v" for i v
    using rs(4) [OF that] assms(6) by fastforce
  show ?thesis
  proof (cases r)
    case (Inl x)
    with c assms(4,7) rs show ?thesis by (auto simp: DispatchOnce_def Let_def)
  next
    case (Inr js)
    with c assms(7) have "dispatch_loop fuel ovf d (di_now d (wd_clock w)) 0 w1 = Some ((n, e), w')"
      by (simp add: DispatchOnce_def Let_def)
    from loop_sends_once [OF rs(1) assms(2,3,5) m _ _ this] rs(3) assms(4) show ?thesis by simp
  qed
qed

end

end
