(* ===== verification/Retry_Delay.thy ===== *)
theory Retry_Delay
  imports Outbox_Dispatcher
begin

text \<open>
  The arithmetic of \<open>retryDelay\<close>: exact exponential backoff below the cap, never below the
  backoff once jitter is added, never above the cap, as long as the product of the base delay
  and the power of two fits an \<open>int64\<close>; and what happens beyond that.
\<close>

section \<open>Bounds on rounded values\<close>

lemma round_even_le: "0 \<le> x \<Longrightarrow> of_int (round_even x) \<le> 2 * x"
proof -
  assume x: "0 \<le> x"
  let ?f = "of_int \<lfloor>x\<rfloor> :: rat"
  have f: "?f \<le> x" "0 \<le> ?f" using x by (simp_all add: floor_correct)
  show ?thesis
  proof (cases "x - ?f < 1 / 2")
    case True
    then have "round_even x = \<lfloor>x\<rfloor>" by (simp add: round_even_def Let_def)
    with f show ?thesis by linarith
  next
    case False
    then have "of_int (round_even x) \<le> ?f + 1" by (simp add: round_even_def Let_def)
    with False f show ?thesis by linarith
  qed
qed

lemma round_pos_le: "0 < x \<Longrightarrow> round_pos x \<le> 2 * x"
proof -
  assume "0 < x"
  then have "of_int (round_even (x / two_pow (ulp_exp x))) \<le> 2 * (x / two_pow (ulp_exp x))"
    by (intro round_even_le) simp
  then have "two_pow (ulp_exp x) * of_int (round_even (x / two_pow (ulp_exp x))) \<le>
      two_pow (ulp_exp x) * (2 * (x / two_pow (ulp_exp x)))"
    by (intro mult_left_mono) simp_all
  then show ?thesis by (simp add: round_pos_def)
qed

text \<open>Rounding a nonnegative number keeps an integer lower bound of 53 bits and at most doubles.\<close>

lemma round64_bounds:
  assumes "of_int n \<le> x" "0 \<le> n" "n \<le> 2 ^ 53" "x \<le> 2 ^ 60"
  obtains y where "round64 x = Fin y" "of_int n \<le> y" "y \<le> 2 * x"
proof (cases "x = 0")
  case True
  then show thesis using that [of 0] assms by (simp add: round64_def)
next
  case False
  have "0 \<le> x" using assms(1,2) by (metis of_int_0_le_iff order_trans)
  with False have x: "0 < x" by simp
  have ge: "of_int n \<le> round_pos x" using x assms(1,3) by (rule round_pos_ge)
  have le: "round_pos x \<le> 2 * x" using x by (rule round_pos_le)
  also have "\<dots> \<le> 2 * 2 ^ 60" using assms(4) by simp
  also have "\<dots> < (2 ^ 1024 :: rat)"
    using power_strict_increasing [of 61 1024 "2::rat"] by (simp flip: power_Suc)
  finally have "round_pos x < 2 ^ 1024" .
  then have "round64 x = Fin (round_pos x)" using x by (simp add: round64_def Let_def)
  from this ge le show thesis by (rule that)
qed

lemma round64_exact:
  assumes "0 < m" "m < 2 ^ 53" "k \<le> 900"
  shows "round64 (of_int m * 2 ^ k) = Fin (of_int m * 2 ^ k)"
proof -
  have "of_int m < (2 ^ 53 :: rat)" using assms(2) by simp
  then have "of_int m * 2 ^ k < (2 ^ 53 * 2 ^ k :: rat)" by simp
  also have "\<dots> = 2 ^ (53 + k)" by (simp only: power_add)
  also have "\<dots> \<le> 2 ^ 1024" using assms(3) by (intro power_increasing) simp_all
  finally have "of_int m * 2 ^ k < (2 ^ 1024 :: rat)" .
  then show ?thesis
    using round_pos_exact [OF assms(1,2), of k] assms(1) by (simp add: round64_def Let_def)
qed

lemma trunc_rat_ge: "of_int n \<le> y \<Longrightarrow> 0 \<le> n \<Longrightarrow> n \<le> trunc_rat y"
proof -
  assume n: "of_int n \<le> y" "0 \<le> n"
  then have "0 \<le> y" by (metis of_int_0_le_iff order_trans)
  with n show ?thesis by (simp add: trunc_rat_def le_floor_iff)
qed

lemma trunc_rat_of_int: "trunc_rat (of_int n) = n"
  by (simp add: trunc_rat_def)

lemma int64_of_float_ge:
  assumes "of_int n \<le> y" "0 \<le> n" "y < 2 ^ 63"
  shows "n \<le> int64_of_float ovf (Fin y)"
proof -
  have n: "n \<le> trunc_rat y" using assms(1,2) by (rule trunc_rat_ge)
  have "0 \<le> y" using assms(1,2) by (metis of_int_0_le_iff order_trans)
  then have "trunc_rat y < 2 ^ 63" using assms(3) by (simp add: trunc_rat_def floor_less_iff)
  with n assms(2) show ?thesis by (simp add: int64_of_float_def)
qed

section \<open>The backoff\<close>

definition backoff :: "OutboxDispatcherConfig \<Rightarrow> nat \<Rightarrow> int" where
  "backoff cfg n = min (cf_BaseRetryDelay cfg * 2 ^ (n - 1)) (cf_MaxRetryDelay cfg)"

text \<open>The settings for which the delay is computed without overflow or loss.\<close>

definition sane :: "OutboxDispatcherConfig \<Rightarrow> bool" where
  "sane cfg \<longleftrightarrow>
     0 < cf_BaseRetryDelay cfg \<and> cf_BaseRetryDelay cfg < 2 ^ 53 \<and>
     0 < cf_MaxRetryDelay cfg \<and> cf_MaxRetryDelay cfg \<le> 2 ^ 53 \<and> cf_JitterFraction cfg \<le> 1"

lemma base_delay:
  assumes "sane cfg" "0 < n" "cf_BaseRetryDelay cfg * 2 ^ (n - 1) < 2 ^ 63"
  shows "int64_of_float ovf (float_mul (float_of_int (cf_BaseRetryDelay cfg)) (pow2 (n - 1))) =
    cf_BaseRetryDelay cfg * 2 ^ (n - 1)"
proof -
  let ?b = "cf_BaseRetryDelay cfg"
  have b: "0 < ?b" "?b < 2 ^ 53" using assms(1) by (auto simp: sane_def)
  have "(2::int) ^ (n - 1) \<le> ?b * 2 ^ (n - 1)" using b(1) by simp
  with assms(3) have "(2::int) ^ (n - 1) < 2 ^ 63" by linarith
  then have k: "n - 1 < 63" by (rule power_less_imp_less_exp [rotated]) simp
  have f: "float_of_int ?b = Fin (of_int ?b)"
    using round64_exact [OF b, of 0] by (simp add: float_of_int_def)
  have r: "round64 (of_int ?b * 2 ^ (n - 1)) = Fin (of_int (?b * 2 ^ (n - 1)))"
    using round64_exact [OF b, of "n - 1"] k by simp
  have t: "trunc_rat (of_int (?b * 2 ^ (n - 1))) = ?b * 2 ^ (n - 1)" by (rule trunc_rat_of_int)
  have "0 < ?b * 2 ^ (n - 1)" using b(1) by simp
  then have "0 \<le> ?b * 2 ^ (n - 1)" by (rule less_imp_le)
  moreover have "- (2 ^ 63) \<le> (0 :: int)" by simp
  ultimately have "- (2 ^ 63) \<le> ?b * 2 ^ (n - 1)" by (rule order_trans [rotated])
  with f r t show ?thesis
    using k assms(3) by (simp add: float_mul_def pow2_def int64_of_float_def)
qed

text \<open>The jittered delay lies between the delay and the largest \<open>int64\<close>.\<close>

lemma jittered_ge:
  assumes "0 < delay" "delay \<le> 2 ^ 53" "0 \<le> jf" "jf \<le> 1" "0 \<le> j" "j \<le> 1"
  shows "delay \<le> int64_of_float ovf (float_mul (float_of_int delay) (float_add 1 (round64 (jf * j))))"
proof -
  have "0 \<le> jf * j" using assms(3,5) by simp
  moreover have jj: "jf * j \<le> 1" using assms(3-6) by (intro mult_le_one) simp_all
  ultimately obtain p where p: "round64 (jf * j) = Fin p" "0 \<le> p" "p \<le> 2 * (jf * j)"
    by (auto intro: round64_bounds [of 0 "jf * j"])
  then have "1 \<le> 1 + p" "1 + p \<le> 3" using jj by simp_all
  then obtain q where q: "round64 (1 + p) = Fin q" "1 \<le> q" "q \<le> 2 * (1 + p)"
    by (auto intro: round64_bounds [of 1 "1 + p"])
  have d53: "of_int delay \<le> (2 ^ 53 :: rat)" using assms(2) by simp
  obtain d where d: "round64 (of_int delay) = Fin d" "of_int delay \<le> d" "d \<le> 2 * of_int delay"
    using round64_bounds [of delay "of_int delay"] assms(1,2) d53 by (auto simp: less_imp_le)
  have d0: "0 < d" using d(2) assms(1) by (metis of_int_0_less_iff less_le_trans)
  have q6: "q \<le> 6" using q(3) \<open>1 + p \<le> 3\<close> by simp
  have "of_int delay * 1 \<le> d * q" using d(2) q(2) d0 by (intro mult_mono) simp_all
  moreover have "d * q \<le> (2 * 2 ^ 53) * 6"
    using d(3) d53 q6 d0 q(2) by (intro mult_mono) simp_all
  ultimately obtain r where r: "round64 (d * q) = Fin r" "of_int delay \<le> r" "r \<le> 2 * (d * q)"
    using assms(1,2) by (auto intro: round64_bounds [of delay "d * q"])
  have "r < 2 ^ 63" using r(3) \<open>d * q \<le> (2 * 2 ^ 53) * 6\<close> by simp
  then have "delay \<le> int64_of_float ovf (Fin r)"
    using r(2) assms(1) by (intro int64_of_float_ge) simp_all
  then show ?thesis by (simp add: float_of_int_def float_add_def float_mul_def p(1) q(1) d(1) r(1))
qed

lemma retryDelay_between:
  assumes "sane cfg" "1 \<le> n" "cf_BaseRetryDelay cfg * 2 ^ (nat n - 1) < 2 ^ 63"
  shows "backoff cfg (nat n) \<le> retryDelay ovf cfg jitter n \<and>
    retryDelay ovf cfg jitter n \<le> cf_MaxRetryDelay cfg"
proof -
  let ?d = "backoff cfg (nat n)"
  have e: "nat (n - 1) = nat n - 1" using assms(2) by simp
  have 1: "int64_of_float ovf (float_mul (float_of_int (cf_BaseRetryDelay cfg)) (pow2 (nat n - 1))) =
      cf_BaseRetryDelay cfg * 2 ^ (nat n - 1)"
    by (rule base_delay [OF assms(1) _ assms(3)]) (use assms(2) in simp)
  have d: "(if cf_BaseRetryDelay cfg * 2 ^ (nat n - 1) > cf_MaxRetryDelay cfg
       then cf_MaxRetryDelay cfg else cf_BaseRetryDelay cfg * 2 ^ (nat n - 1)) = ?d"
    by (simp add: backoff_def min_def)
  have b: "0 < ?d" "?d \<le> cf_MaxRetryDelay cfg" "?d \<le> 2 ^ 53"
    using assms(1) by (auto simp: backoff_def sane_def)
  have not: "\<not> n \<le> 0" using assms(2) by simp
  show ?thesis
  proof (cases "cf_JitterFraction cfg \<le> 0")
    case True
    with b show ?thesis unfolding retryDelay_def Let_def e 1 d if_not_P [OF not] by simp
  next
    case False
    let ?j = "if (if jitter < 0 then 0 else jitter) > 1 then 1 else if jitter < 0 then 0 else jitter"
    have "?d \<le> int64_of_float ovf (float_mul (float_of_int ?d)
        (float_add 1 (round64 (cf_JitterFraction cfg * ?j))))"
      using False assms(1) b by (intro jittered_ge) (auto simp: sane_def)
    with False b show ?thesis unfolding retryDelay_def Let_def e 1 d if_not_P [OF not] by simp
  qed
qed

lemma backoff_pos: "sane cfg \<Longrightarrow> 0 < backoff cfg n"
  by (simp add: backoff_def sane_def)

lemma retry_time_later:
  assumes "sane (di_cfg d)" "1 \<le> n" "cf_BaseRetryDelay (di_cfg d) * 2 ^ (nat n - 1) < 2 ^ 63"
  shows "now < retry_time ovf d now jitter n err"
proof -
  have "0 < retryDelay ovf (di_cfg d) jitter n"
    using retryDelay_between [OF assms] backoff_pos [OF assms(1)] by (meson less_le_trans)
  moreover have "0 < cf_MaxRetryDelay (di_cfg d)" using assms(1) by (simp add: sane_def)
  ultimately show ?thesis by (auto simp: retry_time_def Let_def split: option.splits)
qed

section \<open>Properties\<close>

text \<open>
  C29: The retry delay never exceeds the configured cap, and as long as base delay times power
  of two fits an \<open>int64\<close> it is never below the exact exponential backoff
  \<open>min (base * 2^(n-1)) cap\<close>: floating-point rounding, truncation and jitter only ever
  lengthen it. In particular it is positive.
\<close>

theorem retryDelay_bounds:
  assumes "sane cfg" "1 \<le> n" "cf_BaseRetryDelay cfg * 2 ^ (nat n - 1) < 2 ^ 63"
  shows "backoff cfg (nat n) \<le> retryDelay ovf cfg jitter n \<and>
    retryDelay ovf cfg jitter n \<le> cf_MaxRetryDelay cfg"
  using assms by (rule retryDelay_between)

definition sample_config :: OutboxDispatcherConfig where
  "sample_config = \<lparr>cf_ClaimBatchSize = 10, cf_RecoveryBatchSize = 10, cf_LockTimeout = 30 * second,
     cf_MaxAttempts = 5, cf_BaseRetryDelay = 5 * second, cf_MaxRetryDelay = 120 * second,
     cf_JitterFraction = 1 / 5\<rparr>"

theorem retryDelay_bounds_witness:
  "20 * second \<le> retryDelay (\<lambda>_. 0) sample_config (1 / 2) 3 \<and>
   retryDelay (\<lambda>_. 0) sample_config (1 / 2) 3 \<le> 120 * second"
proof -
  have "backoff sample_config (nat 3) = 20 * second" by (simp add: backoff_def sample_config_def second_def)
  then show ?thesis
    using retryDelay_bounds [of sample_config 3 "\<lambda>_. 0" "1 / 2"]
    by (simp add: sane_def sample_config_def second_def)
qed

text \<open>Beyond that range the delay is whatever the platform makes of an out-of-range float
  conversion. On amd64, where the result is the smallest \<open>int64\<close>, the default base delay of
  five seconds gives a delay of about minus 292 years at attempt 32, which passes the cap.
\<close>

theorem retryDelay_overflow:
  "retryDelay (\<lambda>_. - (2 ^ 63)) (sample_config\<lparr>cf_JitterFraction := 0\<rparr>) jitter 32 = - (2 ^ 63)"
proof -
  have "float_mul (float_of_int (5 * second)) (pow2 31) = Fin (of_int (5 * second) * 2 ^ 31)"
    using round64_exact [of "5 * second" 0] round64_exact [of "5 * second" 31]
    by (simp add: float_mul_def float_of_int_def pow2_def second_def)
  then show ?thesis
    by (simp add: retryDelay_def sample_config_def Let_def int64_of_float_def trunc_rat_def second_def)
qed

end
