(* ===== verification/Dispatcher_Database.thy ===== *)
theory Dispatcher_Database
  imports Dispatcher_Contract Retry_Delay Approval_Laws
begin

text \<open>
  The dispatcher on the database: the outbox store of \<open>internal/channels/store.go\<close> and the
  review sink of \<open>cmd/heimdall/channels_outbox_review_sink.go\<close> meet the dispatcher's
  contract, so that its guarantees hold for the running system.
\<close>

section \<open>The two providers\<close>

definition db_store :: "gotime \<Rightarrow> db outboxStore" where
  "db_store wall =
     \<lparr>st_ClaimPendingOutbox = ClaimPendingOutbox wall, st_MarkOutboxSent = MarkOutboxSent,
      st_MarkOutboxRetry = MarkOutboxRetry, st_MarkOutboxDead = MarkOutboxDead,
      st_MarkOutboxPendingApproval = MarkOutboxPendingApproval,
      st_RecoverStaleSending = RecoverStaleSending wall\<rparr>"

text \<open>An error of another package, of which only the text is used.\<close>

primrec foreign :: "('e \<Rightarrow> string) \<Rightarrow> 'e go_error \<Rightarrow> 'f go_error" where
  "foreign text (Sentinel e) = NewError (text e)"
| "foreign text (NewError m) = NewError m"
| "foreign text (DBError m) = DBError m"
| "foreign text (Wrap m e) = Wrap m (foreign text e)"

definition gov_text :: "gov_sentinel \<Rightarrow> string" where
  "gov_text e =
     (case e of
        ErrApprovalNotFound \<Rightarrow> ''approval request not found''
      | ErrApprovalNotPending \<Rightarrow> ''approval request is not pending''
      | ErrApprovalSelfReview \<Rightarrow> ''approval requester cannot review their own approval''
      | ErrGovernedActionNotFound \<Rightarrow> ''governed connector action not found''
      | ErrGovernedActionInvalidTransition \<Rightarrow> ''invalid governed connector action transition'')"

definition redactFindings :: "OutboundScanFinding list \<Rightarrow> OutboundScanFinding list" where
  "redactFindings fs = map (\<lambda>f. f\<lparr>fd_Preview := []\<rparr>) fs"

text \<open>The JSON of a finding; an empty preview is omitted, and no findings at all are \<open>null\<close>.\<close>

definition finding_json :: "OutboundScanFinding \<Rightarrow> json" where
  "finding_json f =
     JObj ([(''category'', JStr (fd_Category f)), (''path'', JStr (fd_Path f))] @
           (if fd_Preview f = [] then [] else [(''preview'', JStr (fd_Preview f))]) @
           [(''action'', JStr (fd_Action f))])"

definition review_params :: "OutboundReviewRequest \<Rightarrow> CreateParams" where
  "review_params request =
     (let provider = ToLower (TrimSpace (or_Provider request));
          recipient = TrimSpace (or_Recipient request);
          findings = redactFindings (or_Report request) in
      \<lparr>cp_TenantID = or_TenantID request, cp_AgentID = None, cp_RequestedBy = None,
       cp_ChannelOutboxID = Some (or_OutboxID request), cp_RiskClass = ''channel_sends'',
       cp_TargetType = ''channel_delivery'', cp_TargetLabel = provider @ '':'' @ recipient,
       cp_ActionSummary = ''Review outbound delivery before it reaches the external channel.'',
       cp_Metadata =
         [(''provider'', JStr provider), (''recipient'', JStr recipient),
          (''findings'', if findings = [] then JNull else JArr (map finding_json findings))],
       cp_ExpiresAt = None\<rparr>)"

definition CreateReview :: "bool \<Rightarrow> OutboundReviewRequest \<Rightarrow> db \<Rightarrow> (chan_error + unit) \<times> db" where
  "CreateReview configured request s =
     (if \<not> configured then (Inl (NewError ''approval store is not configured''), s)
      else case rq_Create (review_params request) s of
          (Inl e, s1) \<Rightarrow> (Inl (Wrap ''creating approval request'' (foreign gov_text e)), s1)
        | (Inr _, s1) \<Rightarrow> (Inr (), s1))"

section \<open>The abstraction\<close>

definition jobs_of :: "db \<Rightarrow> uuid \<rightharpoonup> job_view" where
  "jobs_of s i =
     map_option view (find (\<lambda>r. ob_ID r = i \<and> own s (ob_TenantID r)) (db_outbox s))"

definition drained_db :: "gotime \<Rightarrow> db \<Rightarrow> bool" where
  "drained_db now s \<longleftrightarrow> (\<forall>r \<in> set (db_outbox s). \<not> due_row s now r)"

lemma jobs_of_Some:
  assumes "outbox_inv s"
  shows "jobs_of s i = Some v \<longleftrightarrow>
    (\<exists>r \<in> set (db_outbox s). ob_ID r = i \<and> own s (ob_TenantID r) \<and> view r = v)"
proof
  assume "jobs_of s i = Some v"
  then show "\<exists>r \<in> set (db_outbox s). ob_ID r = i \<and> own s (ob_TenantID r) \<and> view r = v"
    by (auto simp: jobs_of_def dest!: find_SomeD)
next
  assume "\<exists>r \<in> set (db_outbox s). ob_ID r = i \<and> own s (ob_TenantID r) \<and> view r = v"
  then obtain r where r: "r \<in> set (db_outbox s)" "ob_ID r = i" "own s (ob_TenantID r)" "view r = v"
    by blast
  obtain r' where f: "find (\<lambda>r. ob_ID r = i \<and> own s (ob_TenantID r)) (db_outbox s) = Some r'"
    using r by (cases "find (\<lambda>r. ob_ID r = i \<and> own s (ob_TenantID r)) (db_outbox s)")
      (auto simp: find_None_iff)
  from find_SomeD [OF f] have "r' \<in> set (db_outbox s)" "ob_ID r' = i" by auto
  with assms r have "r' = r" by (metis distinct_map inj_onD outbox_inv_def)
  with f r show "jobs_of s i = Some v" by (simp add: jobs_of_def)
qed

lemma jobs_of_eqI:
  assumes "\<And>i v. jobs_of s i = Some v \<longleftrightarrow> m i = Some v"
  shows "jobs_of s = m"
proof
  fix i show "jobs_of s i = m i" using assms [of i] by (cases "m i"; cases "jobs_of s i") auto
qed

lemma jobs_of_faults [simp]: "jobs_of (s\<lparr>db_faults := fs\<rparr>) = jobs_of s"
  by (simp add: jobs_of_def own_def fun_eq_iff)

lemma outbox_inv_faults [simp]: "outbox_inv (s\<lparr>db_faults := fs\<rparr>) = outbox_inv s"
  by (simp add: outbox_inv_def)

lemma finite_jobs_of: "finite (dom (jobs_of s))"
proof -
  have "dom (jobs_of s) \<subseteq> ob_ID ` set (db_outbox s)"
    by (auto simp: jobs_of_def dest!: find_SomeD)
  then show ?thesis by (rule finite_subset) simp
qed

section \<open>The operations, abstractly\<close>

lemma row_keys:
  "ob_ID (claim_row t r) = ob_ID r" "ob_TenantID (claim_row t r) = ob_TenantID r"
  "ob_ID (recover_row t r) = ob_ID r" "ob_TenantID (recover_row t r) = ob_TenantID r"
  by (simp_all add: claim_row_def recover_row_def)

lemma jobs_after_update:
  assumes "db_tenant s' = db_tenant s" "db_outbox s' = upd_where p f (db_outbox s)"
    and "\<And>r. ob_ID (f r) = ob_ID r \<and> ob_TenantID (f r) = ob_TenantID r"
  shows "jobs_of s' i =
    map_option (\<lambda>r. view (if p r then f r else r))
      (find (\<lambda>r. ob_ID r = i \<and> own s (ob_TenantID r)) (db_outbox s))"
proof -
  let ?q = "\<lambda>r. ob_ID r = i \<and> own s (ob_TenantID r)"
  have "find ?q (upd_where p f (db_outbox s)) =
      map_option (\<lambda>r. if p r then f r else r) (find ?q (db_outbox s))"
    by (rule find_upd_where) (simp add: assms(3))
  moreover have "own s' = own s" using assms(1) by (simp add: own_def fun_eq_iff)
  ultimately show ?thesis by (simp add: jobs_of_def assms(2) option.map_comp comp_def)
qed

lemma mark_jobs:
  assumes "outbox_inv s" "fst (update_job from f i s) \<noteq> 0"
    and "\<And>s r. ob_ID (f s r) = ob_ID r \<and> ob_TenantID (f s r) = ob_TenantID r"
  shows "\<exists>r. jobs_of s i = Some (view r) \<and> ob_Status r = from \<and>
    jobs_of (snd (update_job from f i s)) = (jobs_of s)(i \<mapsto> view (f s r))"
proof -
  let ?p = "\<lambda>r. own s (ob_TenantID r) \<and> ob_ID r = i \<and> ob_Status r = from"
  let ?q = "\<lambda>j r. ob_ID r = j \<and> own s (ob_TenantID r)"
  let ?s = "snd (update_job from f i s)"
  from assms(2) obtain r where r: "r \<in> set (db_outbox s)" "?p r"
    by (auto simp: update_job_def Let_def count_where_0)
  have f: "find (?q i) (db_outbox s) = Some r"
  proof (cases "find (?q i) (db_outbox s)")
    case None
    with r show ?thesis by (auto simp: find_None_iff)
  next
    case (Some x)
    from find_SomeD [OF Some] have "x \<in> set (db_outbox s)" "ob_ID x = i" by auto
    with assms(1) r have "x = r" by (metis distinct_map inj_onD outbox_inv_def)
    with Some show ?thesis by simp
  qed
  have j: "jobs_of ?s j = map_option (\<lambda>r. view (if ?p r then f s r else r)) (find (?q j) (db_outbox s))"
    for j
    by (rule jobs_after_update) (simp_all add: update_job_def Let_def assms(3))
  have "jobs_of ?s = (jobs_of s)(i \<mapsto> view (f s r))"
  proof
    fix k show "jobs_of ?s k = ((jobs_of s)(i \<mapsto> view (f s r))) k"
    proof (cases "k = i")
      case True
      with f r(2) show ?thesis by (simp add: j)
    next
      case False
      then have "jobs_of ?s k = jobs_of s k"
        unfolding j by (auto simp: jobs_of_def intro!: option.map_cong dest!: find_SomeD)
      with False show ?thesis by simp
    qed
  qed
  moreover have "jobs_of s i = Some (view r)" by (simp add: jobs_of_def f)
  ultimately show ?thesis using r(2) by blast
qed

lemma mark_law:
  assumes "outbox_inv s" "exec_rows msg none (sql (update_job from f i) s) = (r, s')"
    and "\<And>s r. ob_Status r = from \<Longrightarrow> row_step (Some (ob_TenantID r)) r (f s r)"
    and "\<And>s r. ob_ID (f s r) = ob_ID r \<and> ob_TenantID (f s r) = ob_TenantID r"
  shows "outbox_inv s' \<and>
    (case r of Inl e \<Rightarrow> jobs_of s' = jobs_of s
     | Inr _ \<Rightarrow> \<exists>x s0. jobs_of s i = Some (view x) \<and> ob_Status x = from \<and>
         jobs_of s' = (jobs_of s)(i \<mapsto> view (f s0 x)))"
proof -
  obtain u s2 where u: "sql (update_job from f i) s = (u :: 'a go_error + nat, s2)" by fastforce
  then have s2: "s2 = s'" using assms(2) by (metis snd_conv snd_exec_rows)
  from u show ?thesis
  proof (cases rule: sql_cases)
    case (fault m)
    with u assms(1,2) s2 show ?thesis by (auto simp: exec_rows_def)
  next
    case (ok fs n)
    let ?s = "s\<lparr>db_faults := fs\<rparr>"
    have inv: "outbox_inv (snd (update_job from f i ?s))"
      by (rule outbox_step_inv [OF update_job_step [OF assms(3)]]) (simp_all add: assms(1))
    show ?thesis
    proof (cases "n = 0")
      case True
      with ok(1) have "\<forall>r \<in> set (db_outbox s). \<not> (own s (ob_TenantID r) \<and> ob_ID r = i \<and> ob_Status r = from)"
        by (auto simp: update_job_def Let_def own_def count_where_0)
      then have "upd_where (\<lambda>r. own ?s (ob_TenantID r) \<and> ob_ID r = i \<and> ob_Status r = from) (f ?s) (db_outbox s) =
          db_outbox s"
        by (intro upd_where_none) (auto simp: own_def)
      with ok(1) have "s' = ?s" by (auto simp: update_job_def Let_def s2)
      moreover have "\<exists>e. r = Inl e" using assms(2) u ok(2) True by (auto simp: exec_rows_def)
      ultimately show ?thesis using assms(1) by auto
    next
      case False
      then have "fst (update_job from f i ?s) \<noteq> 0" using ok(1) by simp
      from mark_jobs [OF _ this assms(4)] assms(1) obtain x where
        "jobs_of s i = Some (view x)" "ob_Status x = from" "jobs_of s' = (jobs_of s)(i \<mapsto> view (f ?s x))"
        using ok(1) s2 by auto
      moreover have "r = Inr ()" using assms(2) u ok(2) False by (auto simp: exec_rows_def)
      ultimately show ?thesis using inv ok(1) s2 by auto
    qed
  qed
qed

lemma claim_law:
  assumes "outbox_inv s" "now \<noteq> 0" "ClaimPendingOutbox w now limit s = (Inr js, s')"
  shows "outbox_inv s' \<and> distinct (map ob_ID js) \<and>
    (\<forall>j \<in> set js. 1 \<le> ob_MaxAttempts j \<and> 0 \<le> ob_AttemptCount j \<and>
       ob_Status j = OutboxStatusSending \<and> ob_NextAttemptAt j \<le> now \<and>
       jobs_of s' (ob_ID j) = Some (view j) \<and>
       jobs_of s (ob_ID j) = Some (View OutboxStatusPending (ob_AttemptCount j) (ob_MaxAttempts j)
                                     (ob_NextAttemptAt j))) \<and>
    (\<forall>i. i \<notin> ob_ID ` set js \<longrightarrow> jobs_of s' i = jobs_of s i)"
proof -
  from assms(2,3) obtain fs where
    c: "claim_stmt now (if limit \<le> 0 then 1 else limit) (s\<lparr>db_faults := fs\<rparr>) = (js, s')"
    by (elim claim_result) simp
  let ?s = "s\<lparr>db_faults := fs\<rparr>"
  let ?ids = "due_ids ?s now (if limit \<le> 0 then 1 else limit)"
  let ?f = "claim_row (db_now s)" and ?p = "\<lambda>r. ob_ID r \<in> set ?ids"
  have js: "js = map ?f (filter ?p (db_outbox s))"
    and s': "s' = ?s\<lparr>db_outbox := upd_where ?p ?f (db_outbox s)\<rparr>"
    using c by (auto simp: claim_stmt_def Let_def)
  have inv': "outbox_inv s'"
    using exec_call_inv [OF assms(1), of "\<lambda>_. None" "Claim w now limit"] assms(3) by simp
  have d: "distinct (map ob_ID (db_outbox s))" using assms(1) by (simp add: outbox_inv_def)
  have due: "due_row s now r" if "r \<in> set (db_outbox s)" "?p r" for r
    using due_ids_due [of ?s r now] d that by (simp add: due_row_def own_def)
  have ids: "ob_ID ` set js = ob_ID ` {r \<in> set (db_outbox s). ?p r}"
    by (simp add: js image_image claim_row_def)
  have jobs: "jobs_of s' i = map_option (\<lambda>r. view (if ?p r then ?f r else r))
      (find (\<lambda>r. ob_ID r = i \<and> own s (ob_TenantID r)) (db_outbox s))" for i
    by (rule jobs_after_update) (simp_all add: s' row_keys)
  have other: "jobs_of s' i = jobs_of s i" if "i \<notin> ob_ID ` set js" for i
    unfolding jobs using that
    by (auto simp: jobs_of_def ids intro!: option.map_cong dest!: find_SomeD)
  have one: "1 \<le> ob_MaxAttempts j \<and> 0 \<le> ob_AttemptCount j \<and>
       ob_Status j = OutboxStatusSending \<and> ob_NextAttemptAt j \<le> now \<and>
       jobs_of s' (ob_ID j) = Some (view j) \<and>
       jobs_of s (ob_ID j) = Some (View OutboxStatusPending (ob_AttemptCount j) (ob_MaxAttempts j)
                                     (ob_NextAttemptAt j))" if "j \<in> set js" for j
  proof -
    from that obtain r where r: "r \<in> set (db_outbox s)" "?p r" "j = ?f r" by (auto simp: js)
    note dr = due [OF r(1,2)]
    have "job_ok r" using assms(1) r(1) by (simp add: outbox_inv_def)
    moreover have "j \<in> set (db_outbox s')" using r by (auto simp: s' in_upd_where)
    moreover have "own s' (ob_TenantID j)" using dr r(3) by (simp add: s' due_row_def own_def row_keys)
    ultimately have "jobs_of s' (ob_ID j) = Some (view j)"
      unfolding jobs_of_Some [OF inv'] by blast
    moreover have "jobs_of s (ob_ID j) = Some (view r)"
      unfolding jobs_of_Some [OF assms(1)] using dr r by (auto simp: due_row_def row_keys)
    ultimately show ?thesis
      using dr r(3) \<open>job_ok r\<close> by (simp add: job_ok_def due_row_def claim_row_def view_def)
  qed
  have "distinct (map ob_ID js)"
    using d by (simp add: js comp_def claim_row_def distinct_map_filter)
  with inv' one other show ?thesis by blast
qed

lemma claim_empty_law:
  assumes "outbox_inv s" "now \<noteq> 0" "ClaimPendingOutbox w now limit s = (Inr [], s')"
  shows "drained_db now s'"
proof -
  from assms obtain picked where p: "[] = map (claim_row (db_now s)) picked"
    "length picked = min (nat (max limit 1)) (count_where (due_row s now) (db_outbox s))"
    by (rule claim_picks)
  then have n: "count_where (due_row s now) (db_outbox s) = 0" by auto
  from assms(2,3) obtain fs where
    c: "claim_stmt now (if limit \<le> 0 then 1 else limit) (s\<lparr>db_faults := fs\<rparr>) = ([], s')"
    by (elim claim_result) simp
  then have "db_outbox s' = db_outbox s" "db_tenant s' = db_tenant s" "db_locked s' = db_locked s"
    by (auto simp: claim_stmt_def Let_def filter_empty_conv intro!: upd_where_none)
  with n show ?thesis by (simp add: drained_db_def count_where_0 due_row_def own_def)
qed

lemma recover_law:
  assumes "outbox_inv s" "RecoverStaleSending w before limit s = (rs, s')"
  shows "outbox_inv s' \<and>
    (\<forall>i. jobs_of s' i = jobs_of s i \<or>
      (\<exists>a m t. jobs_of s i = Some (View OutboxStatusSending a m t) \<and>
         jobs_of s' i = Some (View OutboxStatusPending a m t)))"
proof -
  have inv': "outbox_inv s'"
    using exec_call_inv [OF assms(1), of "\<lambda>_. None" "Recover w before limit"] assms(2) by simp
  let ?b = "if before = 0 then w else before" and ?l = "if limit \<le> 0 then 1 else limit"
  obtain u s2 where u: "sql (recover_stmt ?b ?l) s = (u :: chan_error + _, s2)" by fastforce
  then have s2: "s2 = s'" using assms(2) by (metis RecoverStaleSending_def snd_conv snd_wrap_err)
  from u show ?thesis
  proof (cases rule: sql_cases)
    case (fault m)
    then have "jobs_of s' = jobs_of s" using s2 by auto
    with inv' show ?thesis by simp
  next
    case (ok fs js)
    let ?s = "s\<lparr>db_faults := fs\<rparr>"
    let ?ids = "map ob_ID (select_order_limit (stale_row ?s ?b) (\<lambda>r. the (ob_LockedAt r)) ?l (db_outbox s))"
    let ?p = "\<lambda>r. ob_ID r \<in> set ?ids"
    have s': "s' = ?s\<lparr>db_outbox := upd_where ?p (recover_row (db_now s)) (db_outbox s)\<rparr>"
      using ok(1) s2 by (auto simp: recover_stmt_def Let_def)
    have jobs: "jobs_of s' i = map_option (\<lambda>r. view (if ?p r then recover_row (db_now s) r else r))
        (find (\<lambda>r. ob_ID r = i \<and> own s (ob_TenantID r)) (db_outbox s))" for i
      by (rule jobs_after_update) (simp_all add: s' row_keys)
    have d: "distinct (map ob_ID (db_outbox s))" using assms(1) by (simp add: outbox_inv_def)
    have st: "ob_Status r = OutboxStatusSending" if "r \<in> set (db_outbox s)" "?p r" for r
      using picked_row [OF d that(1)] that(2) by (fastforce simp: stale_row_def)
    have "jobs_of s' i = jobs_of s i \<or>
      (\<exists>a m t. jobs_of s i = Some (View OutboxStatusSending a m t) \<and>
         jobs_of s' i = Some (View OutboxStatusPending a m t))" for i
    proof (cases "find (\<lambda>r. ob_ID r = i \<and> own s (ob_TenantID r)) (db_outbox s)")
      case (Some r)
      with st [of r] find_SomeD [OF Some] show ?thesis
        unfolding jobs by (auto simp: jobs_of_def view_def recover_row_def)
    qed (simp add: jobs, simp add: jobs_of_def)
    with inv' show ?thesis by blast
  qed
qed

lemma sending_law:
  assumes "outbox_inv s" "exec_rows msg none (sql (update_job OutboxStatusSending f i) s) = (r, s')"
    and "\<And>s r. ob_Status r = OutboxStatusSending \<Longrightarrow> row_step (Some (ob_TenantID r)) r (f s r)"
    and "\<And>s r. ob_ID (f s r) = ob_ID r \<and> ob_TenantID (f s r) = ob_TenantID r"
    and "\<And>s x. view (f s x) = V (ob_AttemptCount x) (ob_MaxAttempts x) (ob_NextAttemptAt x)"
  shows "outbox_inv s' \<and> (case r of Inl e \<Rightarrow> jobs_of s' = jobs_of s | Inr _ \<Rightarrow>
    (\<exists>a m t. jobs_of s i = Some (View OutboxStatusSending a m t) \<and>
       jobs_of s' = (jobs_of s)(i \<mapsto> V a m t)))"
proof (cases r)
  case (Inr u)
  with mark_law [OF assms(1-4)] obtain x where "outbox_inv s'" "jobs_of s i = Some (view x)"
    "ob_Status x = OutboxStatusSending"
    "jobs_of s' = (jobs_of s)(i \<mapsto> V (ob_AttemptCount x) (ob_MaxAttempts x) (ob_NextAttemptAt x))"
    by (auto simp: assms(5))
  with Inr show ?thesis by (auto simp: view_def)
qed (use mark_law [OF assms(1-4)] in auto)

lemma view_rows:
  "view (sent_row s x) = View OutboxStatusSent (ob_AttemptCount x) (ob_MaxAttempts x) (ob_NextAttemptAt x)"
  "view (retry_row t e s x) = View OutboxStatusPending (ob_AttemptCount x + 1) (ob_MaxAttempts x) t"
  "view (dead_row e s x) = View OutboxStatusDead (ob_AttemptCount x + 1) (ob_MaxAttempts x) (ob_NextAttemptAt x)"
  "view (pending_approval_row e s x) =
     View OutboxStatusPendingApproval (ob_AttemptCount x) (ob_MaxAttempts x) (ob_NextAttemptAt x)"
  by (simp_all add: view_def row_defs)

lemma row_keys_mark:
  "ob_ID (sent_row s r) = ob_ID r \<and> ob_TenantID (sent_row s r) = ob_TenantID r"
  "ob_ID (retry_row t e s r) = ob_ID r \<and> ob_TenantID (retry_row t e s r) = ob_TenantID r"
  "ob_ID (dead_row e s r) = ob_ID r \<and> ob_TenantID (dead_row e s r) = ob_TenantID r"
  "ob_ID (pending_approval_row e s r) = ob_ID r \<and> ob_TenantID (pending_approval_row e s r) = ob_TenantID r"
  by (simp_all add: row_defs)

lemmas mark_facts = sending_law [OF _ _ mark_row_steps(1) row_keys_mark(1) view_rows(1)]
  sending_law [OF _ _ mark_row_steps(2) row_keys_mark(2) view_rows(2)]
  sending_law [OF _ _ mark_row_steps(3) row_keys_mark(3) view_rows(3)]
  sending_law [OF _ _ mark_row_steps(4) row_keys_mark(4) view_rows(4)]

lemma retry_law:
  assumes "outbox_inv s" "MarkOutboxRetry i t' err s = (r, s')"
  shows "outbox_inv s' \<and> (case r of Inl e \<Rightarrow> jobs_of s' = jobs_of s | Inr _ \<Rightarrow>
    (\<exists>a m t. jobs_of s i = Some (View OutboxStatusSending a m t) \<and>
       jobs_of s' = (jobs_of s)(i \<mapsto> View OutboxStatusPending (a + 1) m t')))"
proof (cases "t' = 0")
  case True
  with assms show ?thesis by (auto simp: MarkOutboxRetry_def)
next
  case False
  with assms show ?thesis unfolding MarkOutboxRetry_def by (simp only: if_False) (rule mark_facts(2))
qed

lemma insert_request_frame:
  "db_outbox (snd (insert_request p s)) = db_outbox s" "db_tenant (snd (insert_request p s)) = db_tenant s"
  "db_next s \<le> db_next (snd (insert_request p s))"
  by (simp_all add: insert_request_def Let_def)

lemma outbox_frame:
  assumes "db_outbox s' = db_outbox s" "db_tenant s' = db_tenant s" "db_next s \<le> db_next s'"
  shows "outbox_inv s \<Longrightarrow> outbox_inv s'" "jobs_of s' = jobs_of s"
  using assms by (auto simp: outbox_inv_def jobs_of_def own_def fun_eq_iff)

lemma review_law:
  assumes "outbox_inv s" "CreateReview c rq s = (r, s')"
  shows "outbox_inv s' \<and> jobs_of s' = jobs_of s"
proof -
  let ?P = "\<lambda>s'. outbox_inv s' \<and> jobs_of s' = jobs_of s"
  have "keeps ?P (insert_request p)" for p
    by (rule keepsI) (use outbox_frame [OF insert_request_frame] in auto)
  moreover have "fault_blind ?P" by (simp add: fault_blind_def)
  ultimately have k: "keeps ?P (rq_Create p)" for p by (rule rq_Create_keeps [rotated])
  obtain u s1 where u: "rq_Create (review_params rq) s = (u, s1)" by fastforce
  from keepsD [OF k _ u] assms(1) have "?P s1" by simp
  then show ?thesis using assms by (auto simp: CreateReview_def u split: if_splits sum.splits)
qed

interpretation dbd: outbox_contract "db_store wall" "CreateReview c" outbox_inv jobs_of drained_db
  for wall c
proof unfold_locales
  fix s :: db
  show "finite (dom (jobs_of s))" by (rule finite_jobs_of)
next
  fix s now limit js s'
  assume "outbox_inv s" "now \<noteq> 0" "st_ClaimPendingOutbox (db_store wall) now limit s = (Inr js, s')"
  then show "outbox_inv s' \<and> distinct (map ob_ID js) \<and>
    (\<forall>j \<in> set js. 1 \<le> ob_MaxAttempts j \<and> 0 \<le> ob_AttemptCount j \<and>
       ob_Status j = OutboxStatusSending \<and> ob_NextAttemptAt j \<le> now \<and>
       jobs_of s' (ob_ID j) = Some (view j) \<and>
       jobs_of s (ob_ID j) = Some (View OutboxStatusPending (ob_AttemptCount j) (ob_MaxAttempts j)
                                     (ob_NextAttemptAt j))) \<and>
    (\<forall>i. i \<notin> ob_ID ` set js \<longrightarrow> jobs_of s' i = jobs_of s i)"
    unfolding db_store_def outboxStore.select_convs by (rule claim_law)
next
  fix s now limit s'
  assume "outbox_inv s" "now \<noteq> 0" "st_ClaimPendingOutbox (db_store wall) now limit s = (Inr [], s')"
  then show "drained_db now s'"
    unfolding db_store_def outboxStore.select_convs by (rule claim_empty_law)
next
  fix s now limit e s'
  assume "outbox_inv s" "st_ClaimPendingOutbox (db_store wall) now limit s = (Inl e, s')"
  then show "outbox_inv s'"
    using exec_call_inv [of s "\<lambda>_. None" "Claim wall now limit"] by (simp add: db_store_def)
next
  fix s before limit rs s'
  assume "outbox_inv s" "st_RecoverStaleSending (db_store wall) before limit s = (rs, s')"
  then show "outbox_inv s' \<and>
    (\<forall>i. jobs_of s' i = jobs_of s i \<or>
      (\<exists>a m t. jobs_of s i = Some (View OutboxStatusSending a m t) \<and>
         jobs_of s' i = Some (View OutboxStatusPending a m t)))"
    unfolding db_store_def outboxStore.select_convs by (rule recover_law)
next
  fix s i  and r :: "chan_error + unit" and s'
  assume "outbox_inv s" "st_MarkOutboxSent (db_store wall) i  s = (r, s')"
  then show "outbox_inv s' \<and> (case r of Inl e \<Rightarrow> jobs_of s' = jobs_of s | Inr _ \<Rightarrow>
    (\<exists>a m t. jobs_of s i = Some (View OutboxStatusSending a m t) \<and>
       jobs_of s' = (jobs_of s)(i \<mapsto> View OutboxStatusSent a m t)))"
    unfolding db_store_def outboxStore.select_convs MarkOutboxSent_def by (rule mark_facts(1))
next
  fix s i t' err and r :: "chan_error + unit" and s'
  assume "outbox_inv s" "st_MarkOutboxRetry (db_store wall) i t' err s = (r, s')"
  then show "outbox_inv s' \<and> (case r of Inl e \<Rightarrow> jobs_of s' = jobs_of s | Inr _ \<Rightarrow>
    (\<exists>a m t. jobs_of s i = Some (View OutboxStatusSending a m t) \<and>
       jobs_of s' = (jobs_of s)(i \<mapsto> View OutboxStatusPending (a + 1) m t')))"
    unfolding db_store_def outboxStore.select_convs by (rule retry_law)
next
  fix s i err and r :: "chan_error + unit" and s'
  assume "outbox_inv s" "st_MarkOutboxDead (db_store wall) i err s = (r, s')"
  then show "outbox_inv s' \<and> (case r of Inl e \<Rightarrow> jobs_of s' = jobs_of s | Inr _ \<Rightarrow>
    (\<exists>a m t. jobs_of s i = Some (View OutboxStatusSending a m t) \<and>
       jobs_of s' = (jobs_of s)(i \<mapsto> View OutboxStatusDead (a + 1) m t)))"
    unfolding db_store_def outboxStore.select_convs MarkOutboxDead_def by (rule mark_facts(3))
next
  fix s i err and r :: "chan_error + unit" and s'
  assume "outbox_inv s" "st_MarkOutboxPendingApproval (db_store wall) i err s = (r, s')"
  then show "outbox_inv s' \<and> (case r of Inl e \<Rightarrow> jobs_of s' = jobs_of s | Inr _ \<Rightarrow>
    (\<exists>a m t. jobs_of s i = Some (View OutboxStatusSending a m t) \<and>
       jobs_of s' = (jobs_of s)(i \<mapsto> View OutboxStatusPendingApproval a m t)))"
    unfolding db_store_def outboxStore.select_convs MarkOutboxPendingApproval_def by (rule mark_facts(4))
next
  fix s rq and r :: "chan_error + unit" and s'
  assume "outbox_inv s" "CreateReview c rq s = (r, s')"
  then show "outbox_inv s' \<and> jobs_of s' = jobs_of s" by (rule review_law)
qed

section \<open>The dispatcher of the system\<close>

text \<open>The dispatcher as \<open>cmd/heimdall/main.go\<close> puts it together.\<close>

definition system_dispatcher ::
  "gotime \<Rightarrow> (nat \<Rightarrow> ChannelOutbox \<Rightarrow> send_error option) \<Rightarrow> OutboxDispatcherConfig \<Rightarrow>
   (nat \<Rightarrow> gotime) \<Rightarrow> (nat \<Rightarrow> rat) \<Rightarrow> db OutboxDispatcher" where
  "system_dispatcher wall sender cfg now jitter =
     WithActivityLogger
       (WithReviewSink
         (WithScanner (NewOutboxDispatcher (db_store wall) sender cfg now jitter)
           (Scan (Some NewStructuredOutboundScanner)))
         (CreateReview True))"

lemma system_wired: "dbd.wired wall True (system_dispatcher wall sender cfg now jitter)"
  by (simp add: dbd.wired_def system_dispatcher_def WithActivityLogger_def WithReviewSink_def
      WithScanner_def NewOutboxDispatcher_def)

lemma system_fields [simp]:
  "di_now (system_dispatcher wall sender cfg now jitter) = now"
  "di_jitter (system_dispatcher wall sender cfg now jitter) = jitter"
  "di_cfg (system_dispatcher wall sender cfg now jitter) = normalize_config cfg"
  "di_sender (system_dispatcher wall sender cfg now jitter) = sender"
  "di_scanner (system_dispatcher wall sender cfg now jitter) = Some (Scan (Some NewStructuredOutboundScanner))"
  by (simp_all add: system_dispatcher_def WithActivityLogger_def WithReviewSink_def WithScanner_def
      NewOutboxDispatcher_def)

definition sample_world :: "db \<Rightarrow> db world" where
  "sample_world s = \<lparr>wd_q = s, wd_sends = [], wd_events = [], wd_clock = 0, wd_rand = 0\<rparr>"

definition sample_system :: "db OutboxDispatcher" where
  "sample_system = system_dispatcher 1 (\<lambda>_ _. None) sample_config (\<lambda>_. 20) (\<lambda>_. 0)"

lemma sample_pot: "pot (jobs_of sample_db) = 10"
proof -
  have "dom (jobs_of sample_db) = {1, 2, 4}"
    by (auto simp: jobs_of_def sample_defs own_def dom_def split: if_splits)
  then show ?thesis by (simp add: pot_def wt_def jobs_of_def sample_defs own_def view_def)
qed

lemma sample_run: "\<exists>n e w'. DispatchOnce 11 ovf sample_system (sample_world sample_db) = Some ((n, e), w')"
proof -
  have "\<exists>r. DispatchOnce 11 ovf sample_system (sample_world sample_db) = Some r"
    unfolding sample_system_def
    by (rule dbd.DispatchOnce_terminates [OF _ system_wired])
      (simp_all add: sample_world_def sample_inv sample_pot)
  then show ?thesis by auto
qed

section \<open>Properties\<close>

text \<open>
  C20: One call of the dispatcher always comes to an end, whatever the providers answer, whatever
  the platform makes of overflowing delays and whatever driver faults occur: the number of
  claims is bounded by the number of sends the open jobs of the tenant still have a budget for.
\<close>

theorem dispatch_terminates:
  assumes "outbox_inv (wd_q w)" "now (wd_clock w) \<noteq> 0" "pot (jobs_of (wd_q w)) < fuel"
  shows "\<exists>r. DispatchOnce fuel ovf (system_dispatcher wall sender cfg now jitter) w = Some r"
  using dbd.DispatchOnce_terminates [OF assms(1) system_wired] assms(2,3) by simp

theorem dispatch_terminates_witness:
  "\<exists>r. DispatchOnce 11 (\<lambda>_. 0) (system_dispatcher 1 (\<lambda>_ _. Some (PlainError ''x'')) sample_config
     (\<lambda>_. 20) (\<lambda>_. 0)) (sample_world sample_db) = Some r"
  by (rule dispatch_terminates) (simp_all add: sample_world_def sample_inv sample_pot)

text \<open>
  C27: What a finished call guarantees: the outbox is still well formed; every message handed to
  a provider had passed the scan with neither a blocking nor a review finding; and if no error
  was reported, no due job of the tenant that other sessions leave unlocked remains.
\<close>

theorem dispatch_screens_and_drains:
  assumes "outbox_inv (wd_q w)" "now (wd_clock w) \<noteq> 0"
    and "DispatchOnce fuel ovf (system_dispatcher wall sender cfg now jitter) w = Some ((n, e), w')"
  shows "outbox_inv (wd_q w') \<and>
    (\<exists>ss. wd_sends w' = wd_sends w @ ss \<and>
       (\<forall>j \<in> set ss. scan_verdict (system_dispatcher wall sender cfg now jitter) j = Deliver)) \<and>
    (e = None \<longrightarrow> drained_db (now (wd_clock w)) (wd_q w'))"
  using dbd.DispatchOnce_result [OF assms(1) system_wired _ assms(3)] assms(2) by simp

theorem dispatch_screens_and_drains_witness:
  "\<exists>n e w'. DispatchOnce 11 (\<lambda>_. 0) sample_system (sample_world sample_db) = Some ((n, e), w') \<and>
     outbox_inv (wd_q w') \<and> (e = None \<longrightarrow> drained_db 20 (wd_q w'))"
proof -
  obtain n e w' where r: "DispatchOnce 11 (\<lambda>_. 0) sample_system (sample_world sample_db) = Some ((n, e), w')"
    using sample_run by blast
  have "outbox_inv (wd_q (sample_world sample_db))" by (simp add: sample_world_def sample_inv)
  from dispatch_screens_and_drains [OF this _ r [unfolded sample_system_def]] r show ?thesis by auto
qed

text \<open>A job with a live secret key anywhere in its payload is never handed to a provider by the
  dispatcher, and neither is a job whose payload has a finding to review, not even after a
  reviewer has approved it and the job is pending again: it is scanned again and held again.
\<close>

theorem flagged_never_sent:
  assumes "outbox_inv (wd_q w)" "now (wd_clock w) \<noteq> 0" "wd_sends w = []"
    and "DispatchOnce fuel ovf (system_dispatcher wall sender cfg now jitter) w = Some (r, w')"
    and "ob_Payload job = RawJSON v"
    and "(\<exists>path p c q. (path, p @ ''sk_live_'' @ c # q) \<in> set (leaves ''payload'' v) \<and> key_char c) \<or>
      (\<exists>f \<in> set (scanValue NewStructuredOutboundScanner ''payload'' v). fd_Action f = OutboundActionReview)"
  shows "job \<notin> set (wd_sends w')"
proof
  assume j: "job \<in> set (wd_sends w')"
  obtain n e where "r = (n, e)" by fastforce
  with assms(4) have run:
    "DispatchOnce fuel ovf (system_dispatcher wall sender cfg now jitter) w = Some ((n, e), w')" by simp
  from dbd.DispatchOnce_result [OF assms(1) system_wired _ run] assms(2,3) j
  have "scan_verdict (system_dispatcher wall sender cfg now jitter) job = Deliver" by auto
  then have "verdict_of (scanValue NewStructuredOutboundScanner ''payload'' v) = Deliver"
    using assms(5) by (simp add: scan_verdict_def Scan_def)
  then have no: "\<forall>f \<in> set (scanValue NewStructuredOutboundScanner ''payload'' v).
      fd_Action f \<noteq> OutboundActionBlock \<and> fd_Action f \<noteq> OutboundActionReview"
    by (auto simp: verdict_of_def FirstByAction_None split: if_splits)
  with assms(6) obtain path p c q where
    "(path, p @ ''sk_live_'' @ c # q) \<in> set (leaves ''payload'' v)" "key_char c" by blast
  from leaf_live_key [OF this] no show False by blast
qed

theorem flagged_never_sent_witness:
  "\<exists>r w'. DispatchOnce 11 (\<lambda>_. 0) sample_system (sample_world sample_db) = Some (r, w') \<and>
     (sample_job 1 7 OutboxStatusSending 4)\<lparr>ob_Payload := RawJSON (JStr ''sk_live_9'')\<rparr> \<notin> set (wd_sends w')"
proof -
  obtain r w' where r: "DispatchOnce 11 (\<lambda>_. 0) sample_system (sample_world sample_db) = Some (r, w')"
    using sample_run by blast
  have "(''payload'', [] @ ''sk_live_'' @ CHR ''9'' # []) \<in> set (leaves ''payload'' (JStr ''sk_live_9''))"
    "key_char CHR ''9''"
    by (simp_all add: key_char_def digit_def in_range_def)
  then have "\<exists>path p c q. (path, p @ ''sk_live_'' @ c # q) \<in> set (leaves ''payload'' (JStr ''sk_live_9'')) \<and>
      key_char c" by blast
  with flagged_never_sent [OF _ _ _ r [unfolded sample_system_def],
      of "(sample_job 1 7 OutboxStatusSending 4)\<lparr>ob_Payload := RawJSON (JStr ''sk_live_9'')\<rparr>" "JStr ''sk_live_9''"] r
  show ?thesis by (simp add: sample_world_def sample_inv)
qed

text \<open>
  C21: What happens to a claimed job is exactly what its abstract specification says: a blocked
  job dies, a job to be reviewed waits for approval, a delivered job is sent, a permanent or
  exhausted failure kills the job with one more attempt counted, and any other failure makes it
  pending again with one more attempt and the computed time. When the store reports an error
  instead, the call stops and no job has moved.
\<close>

theorem dispatch_job_refines:
  assumes "outbox_inv (wd_q w)" "jobs_of (wd_q w) (ob_ID job) = Some (view job)"
    and "ob_Status job = OutboxStatusSending" "1 \<le> ob_MaxAttempts job" "0 \<le> ob_AttemptCount job"
    and "dispatch_job ovf (system_dispatcher wall sender cfg clock jitter) now job w = (r, w')"
  shows "outbox_inv (wd_q w') \<and>
    jobs_of (wd_q w') =
      (if r = None
       then (jobs_of (wd_q w))(ob_ID job \<mapsto>
              outcome ovf (system_dispatcher wall sender cfg clock jitter) now job w)
       else jobs_of (wd_q w))"
proof -
  have "dbd.held (wd_q w) job" using assms(2-5) by (simp add: dbd.held_def)
  from dbd.job_step [OF assms(1) system_wired this assms(6)] show ?thesis by blast
qed

theorem dispatch_job_refines_witness:
  "let s = sample_db\<lparr>db_outbox := [sample_job 1 7 OutboxStatusSending 4]\<rparr>;
       job = sample_job 1 7 OutboxStatusSending 4 in
   \<exists>r w'. dispatch_job (\<lambda>_. 0) sample_system 20 job (sample_world s) = (r, w') \<and> outbox_inv (wd_q w')"
proof -
  let ?s = "sample_db\<lparr>db_outbox := [sample_job 1 7 OutboxStatusSending 4]\<rparr>"
  let ?job = "sample_job 1 7 OutboxStatusSending 4"
  obtain r w' where r: "dispatch_job (\<lambda>_. 0) sample_system 20 ?job (sample_world ?s) = (r, w')" by fastforce
  have "outbox_inv ?s" by (simp add: outbox_inv_def job_ok_def json_Valid_def sample_defs)
  moreover have "jobs_of ?s (ob_ID ?job) = Some (view ?job)"
    by (simp add: jobs_of_def sample_defs own_def)
  ultimately have "outbox_inv (wd_q w')"
    using dispatch_job_refines [OF _ _ _ _ _ r [unfolded sample_system_def]]
    by (simp add: sample_world_def sample_job_def)
  with r show ?thesis by (auto simp: Let_def)
qed

text \<open>With retry settings for which the backoff is computed without overflow (every attempt
  budget \<open>m\<close> has \<open>base * 2^(m-2)\<close> within an \<open>int64\<close>), one call of the dispatcher hands each
  job to the provider at most once.
\<close>

theorem dispatch_sends_once:
  assumes "outbox_inv (wd_q w)" "now (wd_clock w) \<noteq> 0" "wd_sends w = []"
    and "sane (normalize_config cfg)"
    and "cf_BaseRetryDelay (normalize_config cfg) * 2 ^ (nat M - 2) < 2 ^ 63"
    and "\<And>r. r \<in> set (db_outbox (wd_q w)) \<Longrightarrow> ob_MaxAttempts r \<le> M"
    and "DispatchOnce fuel ovf (system_dispatcher wall sender cfg now jitter) w = Some ((n, e), w')"
  shows "distinct (map ob_ID (wd_sends w'))"
proof (rule dbd.DispatchOnce_sends_once [OF assms(1) system_wired _ assms(3) _ _ assms(7)])
  let ?d = "system_dispatcher wall sender cfg now jitter"
  let ?b = "cf_BaseRetryDelay (normalize_config cfg)"
  show "di_now ?d (wd_clock w) \<noteq> 0" using assms(2) by simp
  fix k n err assume n: "1 \<le> n" "n < M"
  have "0 \<le> ?b" using assms(4) by (simp add: sane_def)
  then have "?b * 2 ^ (nat n - 1) \<le> ?b * 2 ^ (nat M - 2)"
    using n by (intro mult_left_mono power_increasing) auto
  with assms(5) have "?b * 2 ^ (nat n - 1) < 2 ^ 63" by (rule le_less_trans [rotated])
  with assms(4) n(1) show "di_now ?d (wd_clock w) < retry_time ovf ?d (di_now ?d (wd_clock w)) (di_jitter ?d k) n err"
    by (intro retry_time_later) simp_all
next
  fix i v assume "jobs_of (wd_q w) i = Some v"
  then show "vw_max v \<le> M" using assms(6) by (auto simp: jobs_of_def view_def dest!: find_SomeD)
qed

theorem dispatch_sends_once_witness:
  "\<exists>n e w'. DispatchOnce 11 (\<lambda>_. 0) sample_system (sample_world sample_db) = Some ((n, e), w') \<and>
     distinct (map ob_ID (wd_sends w'))"
proof -
  obtain n e w' where r: "DispatchOnce 11 (\<lambda>_. 0) sample_system (sample_world sample_db) = Some ((n, e), w')"
    using sample_run by blast
  have c: "normalize_config sample_config = sample_config"
    by (simp add: normalize_config_def sample_config_def second_def)
  have sane: "sane sample_config" by (simp add: sane_def sample_config_def second_def)
  have "distinct (map ob_ID (wd_sends w'))"
    by (rule dispatch_sends_once [where M = 5, OF _ _ _ _ _ _ r [unfolded sample_system_def]])
      (auto simp: sample_world_def sample_inv c sane,
       auto simp: sample_defs sample_config_def second_def)
  with r show ?thesis by blast
qed

end
