(* ===== verification/Go_Crypto.thy ===== *)
theory Go_Crypto
  imports Heimdall_Prelude "HOL-Library.Word"
begin

text \<open>
  The parts of the Go standard library behind \<open>CredentialCrypto\<close>: the standard and the raw
  (unpadded) base64 alphabet, the AES block cipher with a 256-bit key, and Galois/Counter
  mode with its default nonce and tag sizes. Bytes are characters. Shown are the two laws
  the credential store relies on: decoding undoes encoding, and opening undoes sealing.
\<close>

unbundle bit_operations_syntax

section \<open>Base64\<close>

definition base64_alphabet :: string where
  "base64_alphabet = ''ABCDEFGHIJKLMNOPQRSTUVWXYZabcdefghijklmnopqrstuvwxyz0123456789+/''"

definition sextet_char :: "nat \<Rightarrow> char" where
  "sextet_char n = base64_alphabet ! (n mod 64)"

definition char_sextet :: "char \<Rightarrow> nat option" where
  "char_sextet c = map_option fst (find (\<lambda>(_, d). d = c) (enumerate 0 base64_alphabet))"

abbreviation byte_val :: "char \<Rightarrow> nat" where
  "byte_val c \<equiv> of_char c"

fun EncodeToString :: "string \<Rightarrow> string" where
  "EncodeToString [] = []"
| "EncodeToString [a] =
     (let v = byte_val a * 65536 in
      [sextet_char (v div 262144), sextet_char (v div 4096 mod 64), CHR ''='', CHR ''=''])"
| "EncodeToString [a, b] =
     (let v = byte_val a * 65536 + byte_val b * 256 in
      [sextet_char (v div 262144), sextet_char (v div 4096 mod 64), sextet_char (v div 64 mod 64),
       CHR ''=''])"
| "EncodeToString (a # b # c # rest) =
     (let v = byte_val a * 65536 + byte_val b * 256 + byte_val c in
      sextet_char (v div 262144) # sextet_char (v div 4096 mod 64) #
      sextet_char (v div 64 mod 64) # sextet_char (v mod 64) # EncodeToString rest)"

definition sextets :: "string \<Rightarrow> nat list option" where
  "sextets cs =
     (if \<forall>c \<in> set cs. char_sextet c \<noteq> None then Some (map (\<lambda>c. the (char_sextet c)) cs) else None)"

text \<open>The bytes of one quantum: three, or fewer for the final one; leftover bits are ignored.\<close>

fun quantum :: "nat list \<Rightarrow> string" where
  "quantum [p, q] = [char_of ((p * 64 + q) div 16)]"
| "quantum [p, q, r] =
     (let v = p * 4096 + q * 64 + r in [char_of (v div 1024), char_of (v div 4 mod 256)])"
| "quantum [p, q, r, t] =
     (let v = p * 262144 + q * 4096 + r * 64 + t in
      [char_of (v div 65536), char_of (v div 256 mod 256), char_of (v mod 256)])"
| "quantum _ = []"

definition last_quantum :: "bool \<Rightarrow> string \<Rightarrow> string option" where
  "last_quantum padded cs =
     (if padded then
        (if length cs = 4 \<and> drop 2 cs = ''=='' then map_option quantum (sextets (take 2 cs))
         else if length cs = 4 \<and> drop 3 cs = ''='' then map_option quantum (sextets (take 3 cs))
         else None)
      else if length cs = 2 \<or> length cs = 3 then map_option quantum (sextets cs)
      else None)"

fun decode_quanta :: "bool \<Rightarrow> string \<Rightarrow> string option" where
  "decode_quanta padded [] = Some []"
| "decode_quanta padded (p # q # r # t # rest) =
     (case sextets [p, q, r, t] of
        Some ns \<Rightarrow> map_option ((@) (quantum ns)) (decode_quanta padded rest)
      | None \<Rightarrow> last_quantum padded (p # q # r # t # rest))"
| "decode_quanta padded cs = last_quantum padded cs"

text \<open>
  \<open>DecodeString\<close> of \<open>StdEncoding\<close> (padded) and of \<open>RawStdEncoding\<close>; line breaks are skipped
  wherever they stand.
\<close>

definition DecodeString :: "bool \<Rightarrow> string \<Rightarrow> string option" where
  "DecodeString padded s =
     decode_quanta padded (filter (\<lambda>c. c \<noteq> CHR 0x0A \<and> c \<noteq> CHR 0x0D) s)"

section \<open>AES with a 256-bit key\<close>

definition xtime :: "8 word \<Rightarrow> 8 word" where
  "xtime b = (push_bit 1 b) XOR (if bit b 7 then 0x1b else 0)"

fun gf_times :: "nat \<Rightarrow> 8 word \<Rightarrow> 8 word \<Rightarrow> 8 word" where
  "gf_times 0 a b = 0"
| "gf_times (Suc n) a b =
     (if bit b 0 then a else 0) XOR gf_times n (xtime a) (drop_bit 1 b)"

definition gf_inverse :: "8 word \<Rightarrow> 8 word" where
  "gf_inverse b = ((\<lambda>x. gf_times 8 b x) ^^ 254) 1"

definition sub_byte :: "8 word \<Rightarrow> 8 word" where
  "sub_byte b =
     (let x = gf_inverse b in
      x XOR word_rotl 1 x XOR word_rotl 2 x XOR word_rotl 3 x XOR word_rotl 4 x XOR 0x63)"

definition xor_bytes :: "8 word list \<Rightarrow> 8 word list \<Rightarrow> 8 word list" where
  "xor_bytes xs ys = map2 (XOR) xs ys"

text \<open>One more word of the key schedule; the words stand newest first.\<close>

definition next_key_word :: "8 word list list \<Rightarrow> 8 word list" where
  "next_key_word ws =
     (let i = length ws; prev = hd ws;
          temp = (if i mod 8 = 0 then
                    xor_bytes (map sub_byte (rotate1 prev))
                      [(xtime ^^ (i div 8 - 1)) 1, 0, 0, 0]
                  else if i mod 8 = 4 then map sub_byte prev
                  else prev)
      in xor_bytes (ws ! 7) temp)"

definition round_keys :: "8 word list \<Rightarrow> 8 word list list" where
  "round_keys key =
     (let ws = rev (map (\<lambda>i. take 4 (drop (4 * i) key)) [0..<8]);
          all = concat (rev (((\<lambda>ws. next_key_word ws # ws) ^^ 52) ws))
      in map (\<lambda>r. take 16 (drop (16 * r) all)) [0..<15])"

definition shift_rows :: "8 word list \<Rightarrow> 8 word list" where
  "shift_rows st = map (\<lambda>i. st ! ((i + 4 * (i mod 4)) mod 16)) [0..<16]"

definition mix_columns :: "8 word list \<Rightarrow> 8 word list" where
  "mix_columns st =
     map (\<lambda>i. let c = 4 * (i div 4); r = i mod 4; cell = (\<lambda>k. st ! (c + (r + k) mod 4)) in
            xtime (cell 0) XOR (xtime (cell 1) XOR cell 1) XOR cell 2 XOR cell 3) [0..<16]"

definition aes_bytes :: "8 word list \<Rightarrow> 8 word list \<Rightarrow> 8 word list" where
  "aes_bytes key input =
     (let ks = round_keys key;
          middle = fold (\<lambda>k st. xor_bytes (mix_columns (shift_rows (map sub_byte st))) k)
                     (take 13 (tl ks)) (xor_bytes input (hd ks))
      in xor_bytes (shift_rows (map sub_byte middle)) (last ks))"

section \<open>Galois/Counter mode\<close>

definition block_bytes :: "128 word \<Rightarrow> string" where
  "block_bytes w = map (\<lambda>i. char_of (unat (drop_bit (120 - 8 * i) w) mod 256)) [0..<16]"

definition bytes_block :: "string \<Rightarrow> 128 word" where
  "bytes_block cs = fold (\<lambda>c w. push_bit 8 w OR of_nat (byte_val c)) cs 0"

definition aes_block :: "string \<Rightarrow> 128 word \<Rightarrow> 128 word" where
  "aes_block key w =
     bytes_block (map (\<lambda>b. char_of (unat b))
       (aes_bytes (map (\<lambda>c. of_nat (byte_val c)) key)
          (map (\<lambda>c. of_nat (byte_val c)) (block_bytes w))))"

fun ghash_times :: "nat \<Rightarrow> 128 word \<Rightarrow> 128 word \<Rightarrow> 128 word" where
  "ghash_times 0 x v = 0"
| "ghash_times (Suc n) x v =
     (if bit x n then v else 0) XOR
     ghash_times n x (if bit v 0 then drop_bit 1 v XOR push_bit 120 0xe1 else drop_bit 1 v)"

fun pad_blocks :: "nat \<Rightarrow> string \<Rightarrow> 128 word list" where
  "pad_blocks 0 cs = []"
| "pad_blocks (Suc n) cs =
     bytes_block (take 16 (cs @ replicate 16 (CHR 0x00))) # pad_blocks n (drop 16 cs)"

text \<open>The hash of a ciphertext without additional data.\<close>

definition ghash :: "128 word \<Rightarrow> string \<Rightarrow> 128 word" where
  "ghash h cs =
     fold (\<lambda>b y. ghash_times 128 (y XOR b) h)
       (pad_blocks ((length cs + 15) div 16) cs @ [of_nat (8 * length cs)]) 0"

definition counter_block :: "string \<Rightarrow> nat \<Rightarrow> 128 word" where
  "counter_block nonce k = push_bit 32 (bytes_block nonce) OR of_nat (k mod 2 ^ 32)"

definition xor_char :: "char \<Rightarrow> char \<Rightarrow> char" where
  "xor_char a b = char_of (byte_val a XOR byte_val b)"

definition key_byte :: "(128 word \<Rightarrow> 128 word) \<Rightarrow> string \<Rightarrow> nat \<Rightarrow> char" where
  "key_byte E nonce i = block_bytes (E (counter_block nonce (i div 16 + 2))) ! (i mod 16)"

definition ctr :: "(128 word \<Rightarrow> 128 word) \<Rightarrow> string \<Rightarrow> string \<Rightarrow> string" where
  "ctr E nonce cs = map (\<lambda>i. xor_char (cs ! i) (key_byte E nonce i)) [0..<length cs]"

definition gcm_tag :: "(128 word \<Rightarrow> 128 word) \<Rightarrow> string \<Rightarrow> string \<Rightarrow> string" where
  "gcm_tag E nonce cs =
     block_bytes (ghash (E 0) cs XOR E (counter_block nonce 1))"

text \<open>The operations of \<open>cipher.AEAD\<close>.\<close>

record AEAD =
  NonceSize :: nat
  Seal :: "string \<Rightarrow> string \<Rightarrow> string"
  Open :: "string \<Rightarrow> string \<Rightarrow> string option"

definition NewGCM :: "(128 word \<Rightarrow> 128 word) \<Rightarrow> AEAD" where
  "NewGCM E =
     \<lparr>NonceSize = 12,
      Seal = (\<lambda>nonce plaintext. let c = ctr E nonce plaintext in c @ gcm_tag E nonce c),
      Open = (\<lambda>nonce sealed.
        if length sealed < 16 then None
        else (let c = take (length sealed - 16) sealed in
              if drop (length sealed - 16) sealed = gcm_tag E nonce c
              then Some (ctr E nonce c) else None))\<rparr>"

section \<open>Round trips\<close>

lemma char_sextet_all:
  "list_all (\<lambda>m. char_sextet (base64_alphabet ! m) = Some m) [0..<64]"
  by code_simp

lemma char_sextet_sextet_char [simp]: "char_sextet (sextet_char n) = Some (n mod 64)"
proof -
  have "n mod 64 \<in> set [0..<64]" by simp
  with char_sextet_all show ?thesis unfolding list_all_iff sextet_char_def by blast
qed

lemma char_sextet_pad: "char_sextet (CHR ''='') = None"
  by code_simp

lemma sextets_sextet_chars [simp]:
  "sextets (map sextet_char ns) = Some (map (\<lambda>n. n mod 64) ns)"
  by (simp add: sextets_def)

lemma sextets_pad: "CHR ''='' \<in> set cs \<Longrightarrow> sextets cs = None"
  using char_sextet_pad by (auto simp: sextets_def)

text \<open>A group of digits carries the bits of the bytes it encodes.\<close>

lemma digit_step: "m div 64 * 64 + m mod 64 = m" for m :: nat
  by simp

lemma two_digits:
  fixes m :: nat
  assumes "m < 4096"
  shows "m div 64 mod 64 * 64 + m mod 64 = m"
proof -
  have "m div 64 < 64" using assms by linarith
  then show ?thesis using digit_step [of m] by simp
qed

lemma three_digits:
  fixes m :: nat
  assumes "m < 262144"
  shows "m div 4096 mod 64 * 4096 + m div 64 mod 64 * 64 + m mod 64 = m"
proof -
  have "m div 64 < 4096" using assms by linarith
  then have "m div 64 div 64 mod 64 * 64 + m div 64 mod 64 = m div 64" by (rule two_digits)
  moreover have "m div 64 div 64 = m div 4096" by (simp flip: div_mult2_eq)
  moreover have "x * 4096 + y * 64 + z = (x * 64 + y) * 64 + z" for x y z :: nat by simp
  ultimately show ?thesis using digit_step [of m] by (simp only:)
qed

lemma four_digits:
  fixes m :: nat
  assumes "m < 16777216"
  shows "m div 262144 mod 64 * 262144 + m div 4096 mod 64 * 4096 + m div 64 mod 64 * 64 + m mod 64 = m"
proof -
  have "m div 64 < 262144" using assms by linarith
  then have "m div 64 div 4096 mod 64 * 4096 + m div 64 div 64 mod 64 * 64 + m div 64 mod 64 = m div 64"
    by (rule three_digits)
  moreover have "m div 64 div 64 = m div 4096" "m div 64 div 4096 = m div 262144"
    by (simp_all flip: div_mult2_eq)
  moreover have "w * 262144 + x * 4096 + y * 64 + z = (w * 4096 + x * 64 + y) * 64 + z"
    for w x y z :: nat by simp
  ultimately show ?thesis using digit_step [of m] by (simp only:)
qed

lemma byte_val_less [simp]: "byte_val c < 256"
  using of_char_mod_256 [of c] by (metis mod_less_divisor zero_less_numeral)

lemma char_of_low_byte: "n mod 256 = byte_val c \<Longrightarrow> char_of n = c"
  by (metis char_of_char char_of_mod_256)

lemma quantum_four:
  "quantum [v div 262144 mod 64, v div 4096 mod 64, v div 64 mod 64, v mod 64] = [a, b, c]"
  if "v = byte_val a * 65536 + byte_val b * 256 + byte_val c"
proof -
  have l: "byte_val a < 256" "byte_val b < 256" "byte_val c < 256" by simp_all
  then have "v < 16777216" using that by linarith
  then have e: "v div 262144 mod 64 * 262144 + v div 4096 mod 64 * 4096 + v div 64 mod 64 * 64 + v mod 64 = v"
    by (rule four_digits)
  have "v = byte_val c + 256 * (byte_val a * 256 + byte_val b)" using that by simp
  then have "v mod 256 = byte_val c" "v div 256 = byte_val a * 256 + byte_val b"
    using l by (simp_all only: mod_mult_self2 div_mult_self2) simp_all
  moreover have "v div 65536 = byte_val a" using l that by linarith
  ultimately show ?thesis using l by (simp add: e char_of_low_byte)
qed

lemma quantum_three:
  "quantum [v div 262144 mod 64, v div 4096 mod 64, v div 64 mod 64] = [a, b]"
  if "v = byte_val a * 65536 + byte_val b * 256"
proof -
  have l: "byte_val a < 256" "byte_val b < 256" by simp_all
  define m where "m = byte_val a * 1024 + byte_val b * 4"
  have v: "v = m * 64" using that by (simp add: m_def)
  then have "v div 262144 = m div 4096" "v div 4096 = m div 64" "v div 64 = m"
    by (simp_all add: div_mult2_eq [of _ 64 4096, simplified] div_mult2_eq [of _ 64 64, simplified])
  moreover have "m < 262144" using l unfolding m_def by linarith
  ultimately have e: "v div 262144 mod 64 * 4096 + v div 4096 mod 64 * 64 + v div 64 mod 64 = m"
    using three_digits [of m] by simp
  have "m div 1024 = byte_val a" "m div 4 = byte_val a * 256 + byte_val b"
    using l unfolding m_def by linarith+
  then show ?thesis using l by (simp add: e char_of_low_byte)
qed

lemma quantum_two:
  "quantum [v div 262144 mod 64, v div 4096 mod 64] = [a]" if "v = byte_val a * 65536"
proof -
  have l: "byte_val a < 256" by simp
  define m where "m = byte_val a * 16"
  have v: "v = m * 4096" using that by (simp add: m_def)
  then have "v div 262144 = m div 64" "v div 4096 = m"
    by (simp_all add: div_mult2_eq [of _ 4096 64, simplified])
  moreover have "m < 4096" using l by (simp add: m_def)
  ultimately have e: "v div 262144 mod 64 * 64 + v div 4096 mod 64 = m"
    using two_digits [of m] by simp
  have "m div 16 = byte_val a" unfolding m_def by simp
  then show ?thesis by (simp add: e)
qed

lemma decode_quanta_Encode: "decode_quanta True (EncodeToString bs) = Some bs"
proof (induction bs rule: EncodeToString.induct)
  case 1
  show ?case by simp
next
  case (2 a)
  let ?v = "byte_val a * 65536"
  have "sextets [sextet_char (?v div 262144), sextet_char (?v div 4096 mod 64)] =
      Some [?v div 262144 mod 64, ?v div 4096 mod 64]"
    using sextets_sextet_chars [of "[?v div 262144, ?v div 4096 mod 64]"] by simp
  moreover have "sextets [x, y, CHR ''='', CHR ''=''] = None" for x y by (rule sextets_pad) simp
  ultimately show ?case
    using quantum_two [of _ a] by (simp add: Let_def last_quantum_def del: quantum.simps)
next
  case (3 a b)
  let ?v = "byte_val a * 65536 + byte_val b * 256"
  have "sextets [sextet_char (?v div 262144), sextet_char (?v div 4096 mod 64), sextet_char (?v div 64 mod 64)] =
      Some [?v div 262144 mod 64, ?v div 4096 mod 64, ?v div 64 mod 64]"
    using sextets_sextet_chars [of "[?v div 262144, ?v div 4096 mod 64, ?v div 64 mod 64]"] by simp
  moreover have "sextets [x, y, z, CHR ''=''] = None" for x y z by (rule sextets_pad) simp
  moreover have "sextet_char n \<noteq> CHR ''=''" for n
    using char_sextet_sextet_char [of n] char_sextet_pad by (metis option.distinct(1))
  ultimately show ?case
    using quantum_three [of _ a b] by (simp add: Let_def last_quantum_def del: quantum.simps)
next
  case (4 a b c rest)
  let ?v = "byte_val a * 65536 + byte_val b * 256 + byte_val c"
  have "sextets [sextet_char (?v div 262144), sextet_char (?v div 4096 mod 64),
        sextet_char (?v div 64 mod 64), sextet_char (?v mod 64)] =
      Some [?v div 262144 mod 64, ?v div 4096 mod 64, ?v div 64 mod 64, ?v mod 64]"
    using sextets_sextet_chars [of "[?v div 262144, ?v div 4096 mod 64, ?v div 64 mod 64, ?v mod 64]"]
    by simp
  then show ?case using 4 quantum_four [of _ a b c] by (simp add: Let_def del: quantum.simps)
qed

lemma set_EncodeToString: "set (EncodeToString bs) \<subseteq> set base64_alphabet \<union> {CHR ''=''}"
proof -
  have "sextet_char n \<in> set base64_alphabet" for n
  proof -
    have "length base64_alphabet = 64" by code_simp
    then show ?thesis unfolding sextet_char_def by (intro nth_mem) simp
  qed
  then show ?thesis by (induction bs rule: EncodeToString.induct) (auto simp: Let_def)
qed

lemma DecodeString_EncodeToString: "DecodeString True (EncodeToString bs) = Some bs"
proof -
  have "CHR 0x0A \<notin> set base64_alphabet \<union> {CHR ''=''}" "CHR 0x0D \<notin> set base64_alphabet \<union> {CHR ''=''}"
    by code_simp+
  then have "filter (\<lambda>c. c \<noteq> CHR 0x0A \<and> c \<noteq> CHR 0x0D) (EncodeToString bs) = EncodeToString bs"
    using set_EncodeToString [of bs] by (intro filter_True) blast
  then show ?thesis by (simp add: DecodeString_def decode_quanta_Encode)
qed

lemma xor_char_involutive: "xor_char (xor_char a k) k = a"
proof -
  let ?x = "byte_val a XOR byte_val k"
  have t: "take_bit 8 (byte_val c) = byte_val c" for c
    by (simp add: take_bit_eq_mod)
  have "take_bit 8 ?x = ?x" by (simp only: take_bit_xor t)
  then have "?x mod 256 = ?x" by (simp add: take_bit_eq_mod)
  then show ?thesis by (simp add: xor_char_def xor.assoc)
qed

lemma length_ctr [simp]: "length (ctr E nonce cs) = length cs"
  by (simp add: ctr_def)

lemma ctr_involutive: "ctr E nonce (ctr E nonce cs) = cs"
  by (rule nth_equalityI) (simp_all add: ctr_def xor_char_involutive)

lemma length_block_bytes [simp]: "length (block_bytes w) = 16"
  by (simp add: block_bytes_def)

lemma NewGCM_Open_Seal: "Open (NewGCM E) nonce (Seal (NewGCM E) nonce p) = Some p"
  by (simp add: NewGCM_def Let_def gcm_tag_def ctr_involutive)

end
