(* ===== verification/Credential_Crypto.thy ===== *)
theory Credential_Crypto
  imports Channel_Errors Go_Crypto
begin

text \<open>
  Encryption of provider credentials (\<open>internal/channels/credential_crypto.go\<close>) and the
  helpers of \<open>internal/channels/store.go\<close> that apply it to the secret columns. The random
  source is an argument: what one read of it yields, or \<open>None\<close> when the read fails.
\<close>

section \<open>The cipher\<close>

definition credentialCiphertextPrefix :: string where
  "credentialCiphertextPrefix = ''enc:v1:''"

record CredentialCrypto =
  cc_aead :: "AEAD option"

text \<open>\<open>fmt.Errorf("%w: ...", sentinel, ...)\<close>: the sentinel is what is wrapped.\<close>

definition annotate :: "chan_sentinel \<Rightarrow> string \<Rightarrow> chan_error" where
  "annotate e msg = Wrap msg (Sentinel e)"

definition decodeCredentialKey :: "string \<Rightarrow> chan_error + string" where
  "decodeCredentialKey base64Key =
     (case DecodeString True base64Key of
        Some decoded \<Rightarrow> Inr decoded
      | None \<Rightarrow>
          (case DecodeString False base64Key of
             Some decoded \<Rightarrow> Inr decoded
           | None \<Rightarrow> Inl (annotate ErrProviderCredentialKeyInvalid ''invalid base64 key'')))"

text \<open>
  \<open>aes.NewCipher\<close> refuses only keys of other lengths and \<open>cipher.NewGCM\<close> only ciphers of
  another block size, so neither error branch can be taken here.
\<close>

definition NewCredentialCrypto :: "string \<Rightarrow> chan_error + CredentialCrypto" where
  "NewCredentialCrypto base64Key =
     (let trimmed = TrimSpace base64Key in
      if trimmed = [] then Inl (Sentinel ErrProviderCredentialCipherRequired)
      else case decodeCredentialKey trimmed of
          Inl err \<Rightarrow> Inl err
        | Inr key \<Rightarrow>
            if length key \<noteq> 32 then Inl (Sentinel ErrProviderCredentialKeyInvalid)
            else Inr \<lparr>cc_aead = Some (NewGCM (aes_block key))\<rparr>)"

definition IsEncryptedCredentialValue :: "string \<Rightarrow> bool" where
  "IsEncryptedCredentialValue value =
     starts_with credentialCiphertextPrefix (TrimSpace value)"

text \<open>\<open>io.ReadFull\<close> fills the whole buffer or fails.\<close>

definition ReadFull :: "nat \<Rightarrow> string option \<Rightarrow> string option" where
  "ReadFull n rnd =
     (case rnd of
        None \<Rightarrow> None
      | Some bs \<Rightarrow> if length bs < n then None else Some (take n bs))"

definition Encrypt ::
  "CredentialCrypto option \<Rightarrow> string option \<Rightarrow> string \<Rightarrow> chan_error + string" where
  "Encrypt c rnd plaintext =
     (case Option.bind c cc_aead of
        None \<Rightarrow> Inl (Sentinel ErrProviderCredentialCipherRequired)
      | Some aead \<Rightarrow>
          (case ReadFull (NonceSize aead) rnd of
             None \<Rightarrow> Inl (annotate ErrProviderCredentialEncryptFailed ''generating nonce'')
           | Some nonce \<Rightarrow>
               (let payload = nonce @ Seal aead nonce plaintext in
                Inr (credentialCiphertextPrefix @ EncodeToString payload))))"

definition Decrypt :: "CredentialCrypto option \<Rightarrow> string \<Rightarrow> chan_error + string" where
  "Decrypt c value =
     (case Option.bind c cc_aead of
        None \<Rightarrow> Inl (Sentinel ErrProviderCredentialCipherRequired)
      | Some aead \<Rightarrow>
          if \<not> IsEncryptedCredentialValue value then
            Inl (annotate ErrProviderCredentialDecryptFailed ''value is not encrypted'')
          else case DecodeString True (drop (length credentialCiphertextPrefix) (TrimSpace value)) of
              None \<Rightarrow> Inl (annotate ErrProviderCredentialDecryptFailed ''decoding payload'')
            | Some raw \<Rightarrow>
                if length raw < NonceSize aead then
                  Inl (annotate ErrProviderCredentialDecryptFailed ''payload too short'')
                else case Open aead (take (NonceSize aead) raw) (drop (NonceSize aead) raw) of
                    None \<Rightarrow> Inl (annotate ErrProviderCredentialDecryptFailed ''opening ciphertext'')
                  | Some plaintext \<Rightarrow> Inr plaintext)"

section \<open>Credential columns\<close>

definition encryptCredentialValue ::
  "CredentialCrypto option \<Rightarrow> string option \<Rightarrow> string \<Rightarrow> chan_error + string" where
  "encryptCredentialValue c rnd value =
     (let trimmed = TrimSpace value in
      if trimmed = [] then Inr []
      else if c = None then Inl (Sentinel ErrProviderCredentialCipherRequired)
      else case Encrypt c rnd trimmed of
          Inl err \<Rightarrow> Inl (annotate ErrProviderCredentialEncryptFailed ''encrypting value'')
        | Inr encrypted \<Rightarrow> Inr encrypted)"

definition decryptCredentialValue ::
  "CredentialCrypto option \<Rightarrow> string \<Rightarrow> chan_error + string" where
  "decryptCredentialValue c value =
     (let trimmed = TrimSpace value in
      if trimmed = [] then Inr []
      else if \<not> IsEncryptedCredentialValue trimmed then Inr trimmed
      else if c = None then Inl (Sentinel ErrProviderCredentialCipherRequired)
      else case Decrypt c trimmed of
          Inl err \<Rightarrow> Inl (annotate ErrProviderCredentialDecryptFailed ''decrypting value'')
        | Inr decrypted \<Rightarrow> Inr decrypted)"

definition decryptCredentialFields ::
  "CredentialCrypto option \<Rightarrow> ProviderCredential \<Rightarrow> chan_error + ProviderCredential" where
  "decryptCredentialFields c credential =
     (case decryptCredentialValue c (pc_AccessToken credential) of
        Inl e \<Rightarrow> Inl (Wrap ''decrypting access token'' e)
      | Inr accessToken \<Rightarrow>
          (case decryptCredentialValue c (pc_SigningSecret credential) of
             Inl e \<Rightarrow> Inl (Wrap ''decrypting signing secret'' e)
           | Inr signingSecret \<Rightarrow>
               (case decryptCredentialValue c (pc_SecretToken credential) of
                  Inl e \<Rightarrow> Inl (Wrap ''decrypting secret token'' e)
                | Inr secretToken \<Rightarrow>
                    Inr (credential\<lparr>pc_AccessToken := accessToken,
                           pc_SigningSecret := signingSecret, pc_SecretToken := secretToken\<rparr>))))"

section \<open>What a caller may rely on\<close>

lemma Encrypt_encrypted:
  assumes "Encrypt c rnd p = Inr v"
  shows "IsEncryptedCredentialValue v \<and> TrimSpace v = v"
proof -
  from assms obtain bs where v: "v = credentialCiphertextPrefix @ EncodeToString bs"
    by (auto simp: Encrypt_def Let_def split: option.splits)
  have "(set credentialCiphertextPrefix \<union> set base64_alphabet \<union> {CHR ''=''}) \<inter> set space_bytes = {}"
    by code_simp
  then have "set v \<inter> set space_bytes = {}"
    unfolding v using set_EncodeToString [of bs] by auto
  then have "TrimSpace v = v" by (rule TrimSpace_no_space)
  then show ?thesis by (simp add: IsEncryptedCredentialValue_def starts_with_def v)
qed

text \<open>The contract of \<open>cipher.AEAD\<close>: opening what was sealed under a nonce gives it back.\<close>

locale aead_contract =
  fixes aead :: AEAD
  assumes Open_Seal: "length nonce = NonceSize aead \<Longrightarrow> Open aead nonce (Seal aead nonce p) = Some p"
begin

lemma Decrypt_Encrypt:
  assumes "Encrypt (Some \<lparr>cc_aead = Some aead\<rparr>) rnd p = Inr v"
  shows "Decrypt (Some \<lparr>cc_aead = Some aead\<rparr>) v = Inr p \<and>
         IsEncryptedCredentialValue v \<and> TrimSpace v = v"
proof -
  from assms obtain nonce where n: "ReadFull (NonceSize aead) rnd = Some nonce"
    and v: "v = credentialCiphertextPrefix @ EncodeToString (nonce @ Seal aead nonce p)"
    by (auto simp: Encrypt_def Let_def split: option.splits)
  from n have len: "length nonce = NonceSize aead"
    by (auto simp: ReadFull_def split: option.splits if_splits)
  have t: "TrimSpace v = v" and e: "IsEncryptedCredentialValue v"
    using Encrypt_encrypted [OF assms] by simp_all
  with len show ?thesis
    by (simp add: Decrypt_def v DecodeString_EncodeToString Open_Seal)
qed

lemma column_round_trip:
  assumes "encryptCredentialValue (Some \<lparr>cc_aead = Some aead\<rparr>) rnd x = Inr v"
  shows "decryptCredentialValue (Some \<lparr>cc_aead = Some aead\<rparr>) v = Inr (TrimSpace x) \<and>
         (v = [] \<or> IsEncryptedCredentialValue v)"
proof (cases "TrimSpace x = []")
  case True
  with assms show ?thesis by (simp add: encryptCredentialValue_def decryptCredentialValue_def)
next
  case False
  with assms have "Encrypt (Some \<lparr>cc_aead = Some aead\<rparr>) rnd (TrimSpace x) = Inr v"
    by (simp add: encryptCredentialValue_def Let_def split: sum.splits)
  note d = Decrypt_Encrypt [OF this]
  then have "v \<noteq> []" by (auto simp: IsEncryptedCredentialValue_def starts_with_def
      credentialCiphertextPrefix_def)
  with d show ?thesis by (simp add: decryptCredentialValue_def)
qed

end

interpretation gcm: aead_contract "NewGCM E" for E
  by unfold_locales (rule NewGCM_Open_Seal)

lemma NewCredentialCrypto_Inr:
  "NewCredentialCrypto k = Inr c \<Longrightarrow> \<exists>key. length key = 32 \<and> c = \<lparr>cc_aead = Some (NewGCM (aes_block key))\<rparr>"
  by (auto simp: NewCredentialCrypto_def Let_def split: if_splits sum.splits)

end
