(* ===== verification/Channel_Store.thy ===== *)
theory Channel_Store
  imports Outbox_Store Credential_Crypto
begin

text \<open>
  The rest of \<open>internal/channels/store.go\<close>: identity links, provider credentials, the
  idempotency ledger of inbound messages, conversation history, expiry, and the recovery of
  messages whose reply was never enqueued.
\<close>

section \<open>Parameters and results\<close>

record UpsertLinkParams =
  ul_UserID :: string
  ul_Platform :: string
  ul_PlatformUserID :: string
  ul_State :: string
  ul_VerificationMethod :: string
  ul_VerificationMetadata :: raw_json

record UpsertProviderCredentialParams =
  uc_Provider :: string
  uc_AccessToken :: string
  uc_SigningSecret :: string
  uc_SecretToken :: string
  uc_APIBaseURL :: string
  uc_APIVersion :: string
  uc_PhoneNumberID :: string

record ChannelMessageRecord =
  mr_ID :: uuid
  mr_Platform :: string
  mr_PlatformUserID :: string
  mr_PlatformMessageID :: string
  mr_IdempotencyKey :: string
  mr_CorrelationID :: string
  mr_Status :: string
  mr_Metadata :: json

record ChannelConversationTurn =
  ct_RequestContent :: string
  ct_ResponseContent :: string

definition IsVerified :: "ChannelLink \<Rightarrow> bool" where
  "IsVerified l \<longleftrightarrow> ln_State l = LinkStateVerified"

text \<open>The text of a \<open>LinkState\<close>; a caller may pass any other string.\<close>

definition parse_link_state :: "string \<Rightarrow> LinkState option" where
  "parse_link_state st =
     (if st = ''pending_verification'' then Some LinkStatePendingVerification
      else if st = ''verified'' then Some LinkStateVerified
      else if st = ''revoked'' then Some LinkStateRevoked
      else None)"

text \<open>\<open>Store\<close> with its functional options, applied in order.\<close>

record Store =
  st_credentialCrypto :: "CredentialCrypto option"

definition WithCredentialCrypto :: "CredentialCrypto option \<Rightarrow> Store \<Rightarrow> Store" where
  "WithCredentialCrypto crypto store = store\<lparr>st_credentialCrypto := crypto\<rparr>"

definition NewStore :: "(Store \<Rightarrow> Store) option list \<Rightarrow> Store" where
  "NewStore options =
     fold (\<lambda>option store. case option of None \<Rightarrow> store | Some f \<Rightarrow> f store) options
       \<lparr>st_credentialCrypto = None\<rparr>"

section \<open>Links\<close>

definition ListLinks :: "ChannelLink list chan_op" where
  "ListLinks s =
     wrap_err ''listing channel links''
       (sql (\<lambda>s. (sort_key (\<lambda>l. (- ln_CreatedAt l, - int (ln_ID l)))
                    (filter (\<lambda>l. own s (ln_TenantID l)) (db_links s)), s)) s)"

definition link_key :: "db \<Rightarrow> string \<Rightarrow> string \<Rightarrow> ChannelLink \<Rightarrow> bool" where
  "link_key s platform platformUserID l \<longleftrightarrow>
     own s (ln_TenantID l) \<and> ln_Platform l = platform \<and> ln_PlatformUserID l = platformUserID"

definition GetLinkByIdentity :: "string \<Rightarrow> string \<Rightarrow> ChannelLink chan_op" where
  "GetLinkByIdentity platform platformUserID s =
     (if platform = [] then (Inl (Sentinel ErrPlatformEmpty), s)
      else if platformUserID = [] then (Inl (Sentinel ErrIdentityEmpty), s)
      else query_row ''getting channel link by identity'' ErrLinkNotFound
        (sql (\<lambda>s. (find (link_key s platform platformUserID) (db_links s), s)) s))"

text \<open>
  The \<open>INSERT ... ON CONFLICT (tenant_id, platform, platform_user_id) DO UPDATE\<close>: a row with
  the key is overwritten except for its id and creation time.
\<close>

definition set_link :: "ChannelLink \<Rightarrow> ChannelLink \<Rightarrow> ChannelLink" where
  "set_link new l =
     l\<lparr>ln_UserID := ln_UserID new, ln_State := ln_State new, ln_Verified := ln_Verified new,
       ln_VerifiedAt := ln_VerifiedAt new, ln_RevokedAt := ln_RevokedAt new,
       ln_VerificationMethod := ln_VerificationMethod new,
       ln_VerificationMetadata := ln_VerificationMetadata new\<rparr>"

definition upsert_link_stmt ::
  "uuid \<Rightarrow> string \<Rightarrow> string \<Rightarrow> LinkState \<Rightarrow> bool \<Rightarrow> gotime option \<Rightarrow> gotime option \<Rightarrow> string \<Rightarrow>
   raw_json \<Rightarrow> db \<Rightarrow> (string + ChannelLink) \<times> db" where
  "upsert_link_stmt userID platform platformUserID st verified verifiedAt revokedAt meth meta s =
     (case db_tenant s of
        None \<Rightarrow> (Inl ''null value in column tenant_id'', s)
      | Some t \<Rightarrow>
          (let p = link_key s platform platformUserID;
               new = \<lparr>ln_ID = db_next s, ln_TenantID = t, ln_UserID = userID, ln_Platform = platform,
                      ln_PlatformUserID = platformUserID, ln_State = st, ln_Verified = verified,
                      ln_CreatedAt = db_now s, ln_VerifiedAt = verifiedAt, ln_RevokedAt = revokedAt,
                      ln_VerificationMethod = meth, ln_VerificationMetadata = meta\<rparr> in
           case find p (db_links s) of
             Some l \<Rightarrow> (Inr (set_link new l), s\<lparr>db_links := upd_where p (set_link new) (db_links s)\<rparr>)
           | None \<Rightarrow> (Inr new, s\<lparr>db_links := db_links s @ [new], db_next := Suc (db_next s)\<rparr>)))"

definition user_exists :: "uuid \<Rightarrow> db \<Rightarrow> bool" where
  "user_exists userID s \<longleftrightarrow> list_ex (\<lambda>u. us_ID u = userID \<and> own s (us_TenantID u)) (db_users s)"

text \<open>\<open>parse_uuid\<close> is \<open>uuid.Parse\<close>, \<open>wall\<close> is \<open>time.Now().UTC()\<close>.\<close>

definition UpsertLink ::
  "(string \<Rightarrow> uuid option) \<Rightarrow> gotime \<Rightarrow> UpsertLinkParams \<Rightarrow> ChannelLink chan_op" where
  "UpsertLink parse_uuid wall params s =
     (if TrimSpace (ul_UserID params) = [] then (Inl (Sentinel ErrUserIDRequired), s)
      else case parse_uuid (TrimSpace (ul_UserID params)) of
        None \<Rightarrow> (Inl (Wrap ''parsing user id'' (NewError ''invalid UUID'')), s)
      | Some userID \<Rightarrow>
          (let platform = ToLower (TrimSpace (ul_Platform params));
               platformUserID = TrimSpace (ul_PlatformUserID params) in
           if platform = [] then (Inl (Sentinel ErrPlatformEmpty), s)
           else if platformUserID = [] then (Inl (Sentinel ErrIdentityEmpty), s)
           else case parse_link_state (if ul_State params = [] then ''pending_verification''
                                       else ul_State params) of
             None \<Rightarrow> (Inl (Sentinel ErrLinkState), s)
           | Some st \<Rightarrow>
               (let meta = (if ul_VerificationMetadata params = RawEmpty then RawJSON (JObj [])
                            else ul_VerificationMetadata params) in
                if \<not> json_Valid meta then
                  (Inl (NewError ''verification metadata must be valid JSON''), s)
                else
                  (case query_row ''resolving channel link user'' ErrUserNotFound
                          (sql (\<lambda>s. (if user_exists userID s then Some True else None, s)) s) of
                     (Inl e, s1) \<Rightarrow> (Inl e, s1)
                   | (Inr _, s1) \<Rightarrow>
                       (let verified = (st = LinkStateVerified);
                            verifiedAt = (if st = LinkStateVerified then Some wall else None);
                            revokedAt = (if st = LinkStateRevoked then Some wall else None) in
                        wrap_err ''upserting channel link''
                          (checked (sql (upsert_link_stmt userID platform platformUserID st verified
                             verifiedAt revokedAt (TrimSpace (ul_VerificationMethod params)) meta) s1))))))) "

definition delete_where ::
  "(db \<Rightarrow> 'r list) \<Rightarrow> ('r list \<Rightarrow> db \<Rightarrow> db) \<Rightarrow> (db \<Rightarrow> 'r \<Rightarrow> bool) \<Rightarrow> db \<Rightarrow> nat \<times> db" where
  "delete_where tab put p s =
     (count_where (p s) (tab s), put (filter (\<lambda>r. \<not> p s r) (tab s)) s)"

definition DeleteLink :: "(string \<Rightarrow> uuid option) \<Rightarrow> string \<Rightarrow> unit chan_op" where
  "DeleteLink parse_uuid raw_id s =
     (let linkID = TrimSpace raw_id in
      if linkID = [] then (Inl (Sentinel ErrLinkIDRequired), s)
      else case parse_uuid linkID of
        None \<Rightarrow> (Inl (Sentinel ErrLinkIDInvalid), s)
      | Some parsedID \<Rightarrow>
          exec_rows ''deleting channel link'' ErrLinkNotFound
            (sql (delete_where db_links (\<lambda>ls s. s\<lparr>db_links := ls\<rparr>)
                    (\<lambda>s l. own s (ln_TenantID l) \<and> ln_ID l = parsedID)) s))"

section \<open>Provider credentials\<close>

definition normalizeCredentialProvider :: "string \<Rightarrow> chan_error + string" where
  "normalizeCredentialProvider provider =
     (let normalizedProvider = ToLower (TrimSpace provider) in
      if normalizedProvider = [] then Inl (Sentinel ErrPlatformEmpty)
      else if normalizedProvider \<in> {''slack'', ''whatsapp'', ''telegram''} then Inr normalizedProvider
      else Inl (Sentinel ErrProviderUnsupported))"

definition credential_key :: "db \<Rightarrow> string \<Rightarrow> ProviderCredential \<Rightarrow> bool" where
  "credential_key s provider c \<longleftrightarrow> own s (pc_TenantID c) \<and> pc_Provider c = provider"

definition decrypt_result ::
  "string \<Rightarrow> Store \<Rightarrow> ProviderCredential \<times> db \<Rightarrow> (chan_error + ProviderCredential) \<times> db" where
  "decrypt_result msg st r =
     (case r of (credential, s) \<Rightarrow>
        (case decryptCredentialFields (st_credentialCrypto st) credential of
           Inl e \<Rightarrow> (Inl (Wrap msg e), s)
         | Inr plain \<Rightarrow> (Inr plain, s)))"

definition GetProviderCredential :: "Store \<Rightarrow> string \<Rightarrow> ProviderCredential chan_op" where
  "GetProviderCredential st provider s =
     (case normalizeCredentialProvider provider of
        Inl e \<Rightarrow> (Inl e, s)
      | Inr normalizedProvider \<Rightarrow>
          (case query_row ''getting provider credential'' ErrProviderCredentialNotFound
                  (sql (\<lambda>s. (find (credential_key s normalizedProvider) (db_credentials s), s)) s) of
             (Inl e, s1) \<Rightarrow> (Inl e, s1)
           | (Inr credential, s1) \<Rightarrow>
               decrypt_result ''getting provider credential'' st (credential, s1)))"

definition set_credential ::
  "ProviderCredential \<Rightarrow> ProviderCredential \<Rightarrow> ProviderCredential" where
  "set_credential new c =
     c\<lparr>pc_AccessToken := pc_AccessToken new, pc_SigningSecret := pc_SigningSecret new,
       pc_SecretToken := pc_SecretToken new, pc_APIBaseURL := pc_APIBaseURL new,
       pc_APIVersion := pc_APIVersion new, pc_PhoneNumberID := pc_PhoneNumberID new,
       pc_UpdatedAt := pc_UpdatedAt new\<rparr>"

definition upsert_credential_stmt ::
  "string \<Rightarrow> string \<Rightarrow> string \<Rightarrow> string \<Rightarrow> string \<Rightarrow> string \<Rightarrow> string \<Rightarrow> db \<Rightarrow>
   (string + ProviderCredential) \<times> db" where
  "upsert_credential_stmt provider accessToken signingSecret secretToken baseURL version phone s =
     (case db_tenant s of
        None \<Rightarrow> (Inl ''null value in column tenant_id'', s)
      | Some t \<Rightarrow>
          (let p = credential_key s provider;
               new = \<lparr>pc_ID = db_next s, pc_TenantID = t, pc_Provider = provider,
                      pc_AccessToken = accessToken, pc_SigningSecret = signingSecret,
                      pc_SecretToken = secretToken, pc_APIBaseURL = baseURL, pc_APIVersion = version,
                      pc_PhoneNumberID = phone, pc_CreatedAt = db_now s, pc_UpdatedAt = db_now s\<rparr> in
           case find p (db_credentials s) of
             Some c \<Rightarrow> (Inr (set_credential new c),
                        s\<lparr>db_credentials := upd_where p (set_credential new) (db_credentials s)\<rparr>)
           | None \<Rightarrow> (Inr new, s\<lparr>db_credentials := db_credentials s @ [new],
                                   db_next := Suc (db_next s)\<rparr>)))"

text \<open>\<open>rnd i\<close> is what the \<open>i\<close>-th encryption reads from the random source.\<close>

definition UpsertProviderCredential ::
  "Store \<Rightarrow> (nat \<Rightarrow> string option) \<Rightarrow> UpsertProviderCredentialParams \<Rightarrow> ProviderCredential chan_op" where
  "UpsertProviderCredential st rnd params s =
     (case normalizeCredentialProvider (uc_Provider params) of
        Inl e \<Rightarrow> (Inl e, s)
      | Inr provider \<Rightarrow>
          (let accessToken = TrimSpace (uc_AccessToken params);
               signingSecret = TrimSpace (uc_SigningSecret params);
               secretToken = TrimSpace (uc_SecretToken params);
               phoneNumberID = TrimSpace (uc_PhoneNumberID params);
               failed = (\<lambda>e. (Inl (Wrap ''upserting provider credential'' e), s)) in
           if accessToken = [] then (Inl (Sentinel ErrProviderAccessTokenRequired), s)
           else if provider = ''whatsapp'' \<and> phoneNumberID = [] then
             (Inl (Sentinel ErrProviderPhoneNumberIDRequired), s)
           else if (provider = ''slack'' \<or> provider = ''whatsapp'') \<and> signingSecret = [] then
             (Inl (Sentinel ErrProviderSigningSecretRequired), s)
           else if provider = ''telegram'' \<and> secretToken = [] then
             (Inl (Sentinel ErrProviderSecretTokenRequired), s)
           else case encryptCredentialValue (st_credentialCrypto st) (rnd 0) accessToken of
             Inl e \<Rightarrow> failed e
           | Inr encryptedAccessToken \<Rightarrow>
             (case encryptCredentialValue (st_credentialCrypto st) (rnd 1) signingSecret of
                Inl e \<Rightarrow> failed e
              | Inr encryptedSigningSecret \<Rightarrow>
                (case encryptCredentialValue (st_credentialCrypto st) (rnd 2) secretToken of
                   Inl e \<Rightarrow> failed e
                 | Inr encryptedSecretToken \<Rightarrow>
                   (case wrap_err ''upserting provider credential''
                       (checked (sql (upsert_credential_stmt provider encryptedAccessToken
                          encryptedSigningSecret encryptedSecretToken
                          (TrimSpace (uc_APIBaseURL params)) (TrimSpace (uc_APIVersion params))
                          phoneNumberID) s)) of
                      (Inl e, s1) \<Rightarrow> (Inl e, s1)
                    | (Inr credential, s1) \<Rightarrow>
                        decrypt_result ''upserting provider credential'' st (credential, s1))))))"

definition DeleteProviderCredential :: "string \<Rightarrow> unit chan_op" where
  "DeleteProviderCredential provider s =
     (case normalizeCredentialProvider provider of
        Inl e \<Rightarrow> (Inl e, s)
      | Inr normalizedProvider \<Rightarrow>
          exec_rows ''deleting provider credential'' ErrProviderCredentialNotFound
            (sql (delete_where db_credentials (\<lambda>cs s. s\<lparr>db_credentials := cs\<rparr>)
                    (\<lambda>s. credential_key s normalizedProvider)) s))"

section \<open>JSON columns\<close>

text \<open>
  The operators of \<open>jsonb\<close> the statements use. A later entry of an object overrides an earlier
  one with the same key. \<open>render\<close> is the database's text form of a value that is not a string.
\<close>

definition json_field :: "string \<Rightarrow> json \<Rightarrow> json option" where
  "json_field k j = (case j of JObj m \<Rightarrow> map_of (rev m) k | _ \<Rightarrow> None)"

definition json_text :: "(json \<Rightarrow> string) \<Rightarrow> string \<Rightarrow> json \<Rightarrow> string option" where
  "json_text render k j =
     (case json_field k j of
        None \<Rightarrow> None
      | Some JNull \<Rightarrow> None
      | Some (JStr t) \<Rightarrow> Some t
      | Some v \<Rightarrow> Some (render v))"

fun json_concat :: "json \<Rightarrow> json \<Rightarrow> json" where
  "json_concat (JObj m) (JObj m') = JObj (m @ m')"
| "json_concat (JArr xs) (JArr ys) = JArr (xs @ ys)"
| "json_concat (JArr xs) y = JArr (xs @ [y])"
| "json_concat x (JArr ys) = JArr (x # ys)"
| "json_concat x y = JArr [x, y]"

text \<open>\<open>NULLIF(BTRIM(x), '')\<close>; \<open>BTRIM\<close> removes blanks only.\<close>

definition btrim :: "string \<Rightarrow> string" where
  "btrim t = rev (dropWhile (\<lambda>c. c = CHR '' '') (rev (dropWhile (\<lambda>c. c = CHR '' '') t)))"

definition nonblank :: "string option \<Rightarrow> string option" where
  "nonblank x = Option.bind x (\<lambda>t. if btrim t = [] then None else Some (btrim t))"

section \<open>The idempotency ledger\<close>

definition message_key :: "db \<Rightarrow> string \<Rightarrow> string \<Rightarrow> ChannelMessage \<Rightarrow> bool" where
  "message_key s platform key m \<longleftrightarrow>
     own s (cm_TenantID m) \<and> cm_Platform m = platform \<and> cm_IdempotencyKey m = key"

definition insert_message ::
  "string \<Rightarrow> string \<Rightarrow> string \<Rightarrow> string \<Rightarrow> string \<Rightarrow> string \<Rightarrow> gotime \<Rightarrow> db \<Rightarrow>
   (string + uuid option) \<times> db" where
  "insert_message platform platformUserID platformMessageID key fingerprint correlationID expiresAt s =
     (case db_tenant s of
        None \<Rightarrow> (Inl ''null value in column tenant_id'', s)
      | Some t \<Rightarrow>
          if \<exists>m \<in> set (db_messages s). message_key s platform key m then (Inr None, s)
          else
            (let row = \<lparr>cm_ID = db_next s, cm_TenantID = t, cm_Platform = platform,
                        cm_PlatformUserID = platformUserID, cm_PlatformMessageID = platformMessageID,
                        cm_IdempotencyKey = key, cm_PayloadFingerprint = fingerprint,
                        cm_CorrelationID = correlationID, cm_Status = MessageStatusAccepted,
                        cm_Metadata = JObj [], cm_FirstSeenAt = db_now s,
                        cm_ExpiresAt = expiresAt, cm_CreatedAt = db_now s\<rparr>
             in (Inr (Some (db_next s)),
                 s\<lparr>db_messages := db_messages s @ [row], db_next := Suc (db_next s)\<rparr>)))"

definition InsertIdempotency ::
  "string \<Rightarrow> string \<Rightarrow> string \<Rightarrow> string \<Rightarrow> string \<Rightarrow> string \<Rightarrow> gotime \<Rightarrow> bool chan_op" where
  "InsertIdempotency platform platformUserID platformMessageID key fingerprint correlationID expiresAt s =
     (if platform = [] then (Inl (Sentinel ErrPlatformEmpty), s)
      else if platformUserID = [] then (Inl (Sentinel ErrIdentityEmpty), s)
      else if key = [] then (Inl (Sentinel ErrIdempotencyKey), s)
      else if fingerprint = [] then (Inl (Sentinel ErrFingerprint), s)
      else if correlationID = [] then (Inl (Sentinel ErrCorrelationID), s)
      else if expiresAt = 0 then (Inl (Sentinel ErrExpiryRequired), s)
      else case checked (sql (insert_message platform platformUserID platformMessageID key
                                fingerprint correlationID expiresAt) s) of
          (Inl e, s1) \<Rightarrow> (Inl (Wrap ''inserting channel idempotency key'' e), s1)
        | (Inr None, s1) \<Rightarrow> (Inr False, s1)
        | (Inr (Some _), s1) \<Rightarrow> (Inr True, s1))"

definition status_row :: "string \<Rightarrow> json \<Rightarrow> ChannelMessage \<Rightarrow> ChannelMessage" where
  "status_row status meta m =
     m\<lparr>cm_Status := status, cm_Metadata := json_concat (cm_Metadata m) meta\<rparr>"

definition update_status_stmt ::
  "string \<Rightarrow> string \<Rightarrow> string \<Rightarrow> json \<Rightarrow> db \<Rightarrow> nat \<times> db" where
  "update_status_stmt platform key status meta s =
     (let p = message_key s platform key in
      (count_where p (db_messages s),
       s\<lparr>db_messages := upd_where p (status_row status meta) (db_messages s)\<rparr>))"

definition UpdateMessageStatus :: "string \<Rightarrow> string \<Rightarrow> string \<Rightarrow> raw_json \<Rightarrow> unit chan_op" where
  "UpdateMessageStatus platform key status metadata s =
     (if platform = [] then (Inl (Sentinel ErrPlatformEmpty), s)
      else if key = [] then (Inl (Sentinel ErrIdempotencyKey), s)
      else if TrimSpace status = [] then (Inl (Sentinel ErrStatusRequired), s)
      else case (if metadata = RawEmpty then RawJSON (JObj []) else metadata) of
          RawJSON meta \<Rightarrow>
            exec_rows ''updating channel message status'' ErrMessageNotFound
              (sql (update_status_stmt platform key (TrimSpace status) meta) s)
        | _ \<Rightarrow> (Inl (NewError ''status metadata must be valid JSON''), s))"

text \<open>
  Deleting a message deletes its outbox jobs (\<open>ON DELETE CASCADE\<close>), and an approval request
  that points to one of these jobs loses the reference (\<open>ON DELETE SET NULL\<close>).
\<close>

definition delete_messages :: "uuid list \<Rightarrow> db \<Rightarrow> db" where
  "delete_messages ids s =
     (let gone = map ob_ID (filter (\<lambda>r. ob_ChannelMessageID r \<in> set ids) (db_outbox s)) in
      s\<lparr>db_messages := filter (\<lambda>m. cm_ID m \<notin> set ids) (db_messages s),
        db_outbox := filter (\<lambda>r. ob_ChannelMessageID r \<notin> set ids) (db_outbox s),
        db_approvals := map (\<lambda>a. if rq_ChannelOutboxID a \<in> Some ` set gone
                                 then a\<lparr>rq_ChannelOutboxID := None\<rparr> else a) (db_approvals s)\<rparr>)"

definition expired_row :: "db \<Rightarrow> gotime \<Rightarrow> ChannelMessage \<Rightarrow> bool" where
  "expired_row s before m \<longleftrightarrow>
     own s (cm_TenantID m) \<and> cm_ExpiresAt m \<le> before \<and> cm_ID m \<notin> set (db_locked s)"

definition delete_expired_stmt :: "gotime \<Rightarrow> int \<Rightarrow> db \<Rightarrow> nat \<times> db" where
  "delete_expired_stmt before limit s =
     (let ids = map cm_ID (select_order_limit (expired_row s before) cm_ExpiresAt limit (db_messages s))
      in (count_where (\<lambda>m. cm_ID m \<in> set ids) (db_messages s), delete_messages ids s))"

definition DeleteExpiredMessages :: "gotime \<Rightarrow> int \<Rightarrow> nat chan_op" where
  "DeleteExpiredMessages before limit s =
     (if before = 0 then (Inl (Sentinel ErrExpiryRequired), s)
      else if limit \<le> 0 then (Inl (NewError ''cleanup limit must be greater than zero''), s)
      else wrap_err ''deleting expired channel messages'' (sql (delete_expired_stmt before limit) s))"

definition GetMessageIDByIdempotencyKey :: "string \<Rightarrow> string \<Rightarrow> uuid chan_op" where
  "GetMessageIDByIdempotencyKey platform key s =
     (if platform = [] then (Inl (Sentinel ErrPlatformEmpty), s)
      else if key = [] then (Inl (Sentinel ErrIdempotencyKey), s)
      else query_row ''resolving message id by idempotency key'' ErrMessageNotFound
        (sql (\<lambda>s. (map_option cm_ID (find (message_key s platform key) (db_messages s)), s)) s))"

definition message_record :: "ChannelMessage \<Rightarrow> ChannelMessageRecord" where
  "message_record m =
     \<lparr>mr_ID = cm_ID m, mr_Platform = cm_Platform m, mr_PlatformUserID = cm_PlatformUserID m,
      mr_PlatformMessageID = cm_PlatformMessageID m, mr_IdempotencyKey = cm_IdempotencyKey m,
      mr_CorrelationID = cm_CorrelationID m, mr_Status = cm_Status m, mr_Metadata = cm_Metadata m\<rparr>"

definition GetMessageByIdempotencyKey :: "string \<Rightarrow> string \<Rightarrow> ChannelMessageRecord chan_op" where
  "GetMessageByIdempotencyKey platform key s =
     (if platform = [] then (Inl (Sentinel ErrPlatformEmpty), s)
      else if key = [] then (Inl (Sentinel ErrIdempotencyKey), s)
      else query_row ''resolving message by idempotency key'' ErrMessageNotFound
        (sql (\<lambda>s. (map_option message_record (find (message_key s platform key) (db_messages s)), s)) s))"

section \<open>Conversation history\<close>

definition history_row ::
  "(json \<Rightarrow> string) \<Rightarrow> db \<Rightarrow> string \<Rightarrow> ChannelMessage \<Rightarrow> bool" where
  "history_row render s userID m \<longleftrightarrow>
     own s (cm_TenantID m) \<and> nonblank (json_text render ''user_id'' (cm_Metadata m)) = Some userID \<and>
     cm_Status m \<in> {MessageStatusExecuted, MessageStatusDeniedRBAC, MessageStatusDeniedNoAgent,
                     MessageStatusDeniedSentinel, MessageStatusDispatchFailed} \<and>
     nonblank (json_text render ''request_content'' (cm_Metadata m)) \<noteq> None"

definition turn_of :: "(json \<Rightarrow> string) \<Rightarrow> ChannelMessage \<Rightarrow> ChannelConversationTurn" where
  "turn_of render m =
     \<lparr>ct_RequestContent = the (nonblank (json_text render ''request_content'' (cm_Metadata m))),
      ct_ResponseContent =
        (case nonblank (json_text render ''response_content'' (cm_Metadata m)) of
           None \<Rightarrow> [] | Some t \<Rightarrow> t)\<rparr>"

definition ListRecentConversationByUser ::
  "(json \<Rightarrow> string) \<Rightarrow> string \<Rightarrow> int \<Rightarrow> ChannelConversationTurn list chan_op" where
  "ListRecentConversationByUser render userID limit s =
     (let userID = TrimSpace userID;
          limit = (if limit \<le> 0 \<or> ConversationHistoryMaxTurns < limit
                   then ConversationHistoryMaxTurns else limit) in
      if userID = [] then (Inl (Sentinel ErrUserIDRequired), s)
      else case sql (\<lambda>s. (map (turn_of render) (select_order_limit (history_row render s userID)
                 (\<lambda>m. (- cm_FirstSeenAt m, - cm_CreatedAt m, - int (cm_ID m))) limit (db_messages s)),
                 s)) s of
          (Inl e, s1) \<Rightarrow> (Inl (Wrap ''listing recent conversation history'' e), s1)
        | (Inr turns, s1) \<Rightarrow> (Inr (rev turns), s1))"

section \<open>Recovering replies that were never enqueued\<close>

definition recoverable :: "(json \<Rightarrow> string) \<Rightarrow> db \<Rightarrow> ChannelMessage \<Rightarrow> bool" where
  "recoverable render s m \<longleftrightarrow>
     own s (cm_TenantID m) \<and>
     cm_Status m \<in> {MessageStatusDispatchFailed, MessageStatusDeniedRBAC,
                     MessageStatusDeniedNoAgent, MessageStatusDeniedSentinel} \<and>
     json_field ''outbox_enqueue_failed'' (cm_Metadata m) = Some (JBool True) \<and>
     nonblank (json_text render ''response_content'' (cm_Metadata m)) \<noteq> None \<and>
     nonblank (Some (cm_CorrelationID m)) \<noteq> None \<and> cm_ID m \<notin> set (db_locked s)"

definition recovery_recipient :: "(json \<Rightarrow> string) \<Rightarrow> ChannelMessage \<Rightarrow> string option" where
  "recovery_recipient render m =
     (case nonblank (json_text render ''outbox_recipient_id'' (cm_Metadata m)) of
        Some r \<Rightarrow> Some r
      | None \<Rightarrow> if cm_Platform m = ''slack'' then None else nonblank (Some (cm_PlatformUserID m)))"

definition recovery_payload :: "(json \<Rightarrow> string) \<Rightarrow> ChannelMessage \<Rightarrow> json" where
  "recovery_payload render m =
     JObj ([(''content'', JStr (the (nonblank (json_text render ''response_content'' (cm_Metadata m))))),
            (''correlation_id'', JStr (cm_CorrelationID m))] @
           (case nonblank (json_text render ''outbox_thread_ts'' (cm_Metadata m)) of
              None \<Rightarrow> [] | Some t \<Rightarrow> [(''thread_ts'', JStr t)]))"

definition recovery_job ::
  "(json \<Rightarrow> string) \<Rightarrow> db \<Rightarrow> int \<Rightarrow> nat \<Rightarrow> ChannelMessage \<Rightarrow> ChannelOutbox" where
  "recovery_job render s maxAttempts i m =
     \<lparr>ob_ID = db_next s + i, ob_TenantID = cm_TenantID m, ob_ChannelMessageID = cm_ID m,
      ob_Provider = cm_Platform m, ob_RecipientID = the (recovery_recipient render m),
      ob_Payload = RawJSON (recovery_payload render m), ob_Status = OutboxStatusPending,
      ob_AttemptCount = 0, ob_MaxAttempts = maxAttempts, ob_NextAttemptAt = db_now s,
      ob_LastError = None, ob_LockedAt = None, ob_SentAt = None,
      ob_CreatedAt = db_now s, ob_UpdatedAt = db_now s\<rparr>"

definition recovered_status :: "ChannelMessage \<Rightarrow> string" where
  "recovered_status m =
     (if cm_Status m = MessageStatusDispatchFailed then MessageStatusExecuted else cm_Status m)"

definition recovered_row :: "(json \<Rightarrow> string) \<Rightarrow> ChannelMessage \<Rightarrow> ChannelMessage" where
  "recovered_row render m =
     status_row (recovered_status m)
       (JObj [(''decision'',
                JStr (if cm_Status m = MessageStatusDispatchFailed then MessageStatusExecuted
                      else case nonblank (json_text render ''decision'' (cm_Metadata m)) of
                          Some d \<Rightarrow> d | None \<Rightarrow> cm_Status m)),
              (''outbox_enqueue_failed'', JBool False), (''outbox_recovered'', JBool True)]) m"

definition recover_failures_stmt ::
  "(json \<Rightarrow> string) \<Rightarrow> int \<Rightarrow> int \<Rightarrow> db \<Rightarrow> nat \<times> db" where
  "recover_failures_stmt render limit maxAttempts s =
     (let candidates = select_order_limit (recoverable render s)
            (\<lambda>m. (cm_FirstSeenAt m, cm_ID m)) limit (db_messages s);
          eligible = filter (\<lambda>m. recovery_recipient render m \<noteq> None) candidates;
          jobs = map2 (recovery_job render s maxAttempts) [0..<length eligible] eligible;
          p = (\<lambda>m. cm_ID m \<in> set (map cm_ID eligible)) in
      (count_where p (db_messages s),
       s\<lparr>db_outbox := db_outbox s @ jobs, db_next := db_next s + length eligible,
         db_messages := upd_where p (recovered_row render) (db_messages s)\<rparr>))"

definition RecoverDispatchFailuresToOutbox ::
  "(json \<Rightarrow> string) \<Rightarrow> int \<Rightarrow> int \<Rightarrow> nat chan_op" where
  "RecoverDispatchFailuresToOutbox render limit maxAttempts s =
     wrap_err ''recovering dispatch failures to outbox''
       (sql (recover_failures_stmt render (if limit \<le> 0 then 1 else limit)
               (if maxAttempts \<le> 0 then 5 else maxAttempts)) s)"

end
