(* ===== verification/Channel_Laws.thy ===== *)
theory Channel_Laws
  imports Outbox_Lifecycle Channel_Store
begin

text \<open>
  The store of package \<open>channels\<close> as a whole: the invariant of its four tables under every
  operation, the idempotency of inbound messages, the round trips of links and credentials,
  the conversation history, and the recovery of replies that were never enqueued.
\<close>

section \<open>Well-formed tables\<close>

definition message_keys :: "db \<Rightarrow> (uuid \<times> string \<times> string) list" where
  "message_keys s = map (\<lambda>m. (cm_TenantID m, cm_Platform m, cm_IdempotencyKey m)) (db_messages s)"

definition messages_inv :: "db \<Rightarrow> bool" where
  "messages_inv s \<longleftrightarrow>
     distinct (map cm_ID (db_messages s)) \<and> distinct (message_keys s) \<and>
     (\<forall>m \<in> set (db_messages s). cm_ID m < db_next s)"

definition link_ok :: "ChannelLink \<Rightarrow> bool" where
  "link_ok l \<longleftrightarrow>
     (ln_Verified l \<longleftrightarrow> ln_State l = LinkStateVerified) \<and>
     (ln_VerifiedAt l \<noteq> None \<longleftrightarrow> ln_State l = LinkStateVerified) \<and>
     (ln_RevokedAt l \<noteq> None \<longleftrightarrow> ln_State l = LinkStateRevoked) \<and>
     ln_Platform l \<noteq> [] \<and> ln_PlatformUserID l \<noteq> [] \<and> json_Valid (ln_VerificationMetadata l)"

definition links_inv :: "db \<Rightarrow> bool" where
  "links_inv s \<longleftrightarrow>
     distinct (map (\<lambda>l. (ln_TenantID l, ln_Platform l, ln_PlatformUserID l)) (db_links s)) \<and>
     (\<forall>l \<in> set (db_links s). link_ok l)"

text \<open>No secret is stored in the clear.\<close>

definition secret_ok :: "string \<Rightarrow> bool" where
  "secret_ok v \<longleftrightarrow> v = [] \<or> IsEncryptedCredentialValue v"

definition credential_ok :: "ProviderCredential \<Rightarrow> bool" where
  "credential_ok c \<longleftrightarrow>
     secret_ok (pc_AccessToken c) \<and> secret_ok (pc_SigningSecret c) \<and> secret_ok (pc_SecretToken c) \<and>
     pc_Provider c \<in> {''slack'', ''whatsapp'', ''telegram''}"

definition credentials_inv :: "db \<Rightarrow> bool" where
  "credentials_inv s \<longleftrightarrow>
     distinct (map (\<lambda>c. (pc_TenantID c, pc_Provider c)) (db_credentials s)) \<and>
     (\<forall>c \<in> set (db_credentials s). credential_ok c)"

text \<open>Every job belongs to a message of its tenant; no approval points to a job that is gone.\<close>

definition job_has_message :: "db \<Rightarrow> ChannelOutbox \<Rightarrow> bool" where
  "job_has_message s r \<longleftrightarrow>
     (\<exists>m \<in> set (db_messages s). cm_ID m = ob_ChannelMessageID r \<and> cm_TenantID m = ob_TenantID r)"

definition refs_inv :: "db \<Rightarrow> bool" where
  "refs_inv s \<longleftrightarrow>
     (\<forall>r \<in> set (db_outbox s). job_has_message s r) \<and>
     (\<forall>a \<in> set (db_approvals s). rq_ChannelOutboxID a \<in> insert None (Some ` ob_ID ` set (db_outbox s)))"

definition channel_inv :: "db \<Rightarrow> bool" where
  "channel_inv s \<longleftrightarrow>
     outbox_inv s \<and> messages_inv s \<and> links_inv s \<and> credentials_inv s \<and> refs_inv s"

lemmas inv_defs = outbox_inv_def messages_inv_def links_inv_def credentials_inv_def refs_inv_def
  job_has_message_def message_keys_def

lemma channel_inv_blind: "session_blind channel_inv"
  by (simp add: session_blind_def channel_inv_def inv_defs)

lemmas channel_inv_faults = session_blind_faults [OF channel_inv_blind]

section \<open>Outbox operations\<close>

text \<open>The tables an outbox operation leaves alone.\<close>

definition frame :: "db \<Rightarrow> ChannelMessage list \<times> ChannelLink list \<times> ProviderCredential list \<times> Request list" where
  "frame s = (db_messages s, db_links s, db_credentials s, db_approvals s)"

lemma sql_frame:
  assumes "\<And>s. frame (snd (stmt s)) = frame s"
  shows "frame (snd (sql stmt s :: ('e go_error + 'a) \<times> db)) = frame s"
proof -
  have "keeps (\<lambda>s'. frame s' = frame s) (sql stmt :: db \<Rightarrow> ('e go_error + 'a) \<times> db)"
  proof (rule keeps_sql)
    show "fault_blind (\<lambda>s'. frame s' = frame s)" by (simp add: fault_blind_def frame_def)
    show "keeps (\<lambda>s'. frame s' = frame s) stmt" by (simp add: keeps_def assms)
  qed
  then show ?thesis by (simp add: keeps_def)
qed

lemma stmt_frames:
  "frame (snd (update_job from f i s)) = frame s"
  "frame (snd (claim_stmt now limit s)) = frame s"
  "frame (snd (recover_stmt before limit s)) = frame s"
  "frame (snd (list_outbox_stmt flt limit s)) = frame s"
  "frame (snd (insert_outbox m prov rcp pl n s)) = frame s"
  by (simp_all add: frame_def update_job_def claim_stmt_def recover_stmt_def list_outbox_stmt_def
      insert_outbox_def Let_def split: option.splits)

lemma exec_call_frame: "frame (exec_call pu c s) = frame s"
proof (cases c)
  case (Session t n l f)
  then show ?thesis by (simp add: frame_def)
qed (auto simp: call_defs EnqueueOutbound_def ListOutbox_def Let_def
    intro!: sql_frame stmt_frames split: option.splits)

text \<open>A new job is enqueued only for a message of the tenant.\<close>

definition jobs_have_messages :: "db \<Rightarrow> bool" where
  "jobs_have_messages s \<longleftrightarrow> (\<forall>r \<in> set (db_outbox s). job_has_message s r)"

lemma insert_outbox_refs: "keeps jobs_have_messages (insert_outbox m prov rcp pl n)"
  by (auto simp: keeps_def insert_outbox_def jobs_have_messages_def job_has_message_def Let_def
      split: option.splits)

lemma update_where_refs:
  assumes "jobs_have_messages s" "\<And>r. same_job r (f r)"
  shows "jobs_have_messages (s\<lparr>db_outbox := upd_where p f (db_outbox s)\<rparr>)"
  using assms by (force simp: jobs_have_messages_def job_has_message_def in_upd_where same_job_def)

lemma stmt_refs:
  "(\<And>s r. same_job r (f s r)) \<Longrightarrow> keeps jobs_have_messages (update_job from f i)"
  "keeps jobs_have_messages (claim_stmt now limit)"
  "keeps jobs_have_messages (recover_stmt before limit)"
  "keeps jobs_have_messages (list_outbox_stmt flt limit)"
  by (auto simp: keeps_def update_job_def claim_stmt_def recover_stmt_def list_outbox_stmt_def
      Let_def same_job_def claim_row_def recover_row_def intro!: update_where_refs)

lemma row_same_job:
  "same_job r (sent_row s r)" "same_job r (retry_row t e s r)" "same_job r (dead_row e s r)"
  "same_job r (pending_approval_row e s r)" "same_job r (requeue_row s r)"
  by (simp_all add: same_job_def row_defs)

lemma jobs_blind: "fault_blind jobs_have_messages"
  by (simp add: fault_blind_def jobs_have_messages_def job_has_message_def)

lemma sql_refs:
  "keeps jobs_have_messages stmt \<Longrightarrow> jobs_have_messages s \<Longrightarrow>
   jobs_have_messages (snd (sql stmt s :: ('e go_error + 'a) \<times> db))"
  using keeps_sql [OF jobs_blind] unfolding keeps_def by blast

lemma exec_call_refs: "jobs_have_messages s \<Longrightarrow> jobs_have_messages (exec_call pu c s)"
proof (cases c)
  case (Session t n l f)
  moreover assume "jobs_have_messages s"
  ultimately show ?thesis by (simp add: jobs_have_messages_def job_has_message_def)
qed (auto simp: call_defs EnqueueOutbound_def ListOutbox_def Let_def row_same_job
    intro!: sql_refs stmt_refs insert_outbox_refs split: option.splits)

lemma exec_call_ids:
  assumes "outbox_inv s"
  shows "ob_ID ` set (db_outbox s) \<subseteq> ob_ID ` set (db_outbox (exec_call pu c s)) \<and>
         db_next s \<le> db_next (exec_call pu c s)"
proof (cases "\<exists>t n l f. c = Session t n l f")
  case True
  then show ?thesis by auto
next
  case False
  with assms have st: "outbox_step s (exec_call pu c s)"
    by (intro exec_call_step) (auto simp: outbox_inv_def)
  then have "db_next s \<le> db_next (exec_call pu c s)" by (auto simp: outbox_step_def)
  moreover have "ob_ID r \<in> ob_ID ` set (db_outbox (exec_call pu c s))" if "r \<in> set (db_outbox s)" for r
    using outbox_step_row [OF st that] by (metis image_eqI row_step_ID)
  ultimately show ?thesis by blast
qed

lemma exec_call_channel_inv:
  assumes "channel_inv s"
  shows "channel_inv (exec_call pu c s)"
proof -
  let ?s = "exec_call pu c s"
  have o: "outbox_inv s" and j: "jobs_have_messages s"
    using assms by (auto simp: channel_inv_def refs_inv_def jobs_have_messages_def)
  have f: "db_messages ?s = db_messages s" "db_links ?s = db_links s"
    "db_credentials ?s = db_credentials s" "db_approvals ?s = db_approvals s"
    using exec_call_frame [of pu c s] by (simp_all add: frame_def)
  note ids = exec_call_ids [OF o, of pu c]
  have "messages_inv ?s"
    using assms ids by (fastforce simp: channel_inv_def messages_inv_def message_keys_def f)
  moreover have "refs_inv ?s"
    using assms ids exec_call_refs [OF j, of pu c]
    by (fastforce simp: channel_inv_def refs_inv_def jobs_have_messages_def f)
  ultimately show ?thesis
    using assms exec_call_inv [OF o, of pu c]
    by (simp add: channel_inv_def links_inv_def credentials_inv_def f)
qed

section \<open>Calls on the other tables\<close>

text \<open>
  Every operation of the store that changes a table, as a call; the reads change nothing.
\<close>

datatype channel_call =
    OutboxCall outbox_call
  | PutLink gotime UpsertLinkParams
  | DropLink string
  | PutCredential Store "nat \<Rightarrow> string option" UpsertProviderCredentialParams
  | DropCredential string
  | Ingest string string string string string string gotime
  | SetStatus string string string raw_json
  | Expire gotime int
  | RecoverFailures int int

fun exec_channel ::
  "(string \<Rightarrow> uuid option) \<Rightarrow> (json \<Rightarrow> string) \<Rightarrow> channel_call \<Rightarrow> db \<Rightarrow> db" where
  "exec_channel pu render (OutboxCall c) s = exec_call pu c s"
| "exec_channel pu render (PutLink wall params) s = snd (UpsertLink pu wall params s)"
| "exec_channel pu render (DropLink i) s = snd (DeleteLink pu i s)"
| "exec_channel pu render (PutCredential st rnd params) s = snd (UpsertProviderCredential st rnd params s)"
| "exec_channel pu render (DropCredential p) s = snd (DeleteProviderCredential p s)"
| "exec_channel pu render (Ingest p u i k f c e) s = snd (InsertIdempotency p u i k f c e s)"
| "exec_channel pu render (SetStatus p k st meta) s = snd (UpdateMessageStatus p k st meta s)"
| "exec_channel pu render (Expire before limit) s = snd (DeleteExpiredMessages before limit s)"
| "exec_channel pu render (RecoverFailures limit n) s =
     snd (RecoverDispatchFailuresToOutbox render limit n s)"

definition exec_channels ::
  "(string \<Rightarrow> uuid option) \<Rightarrow> (json \<Rightarrow> string) \<Rightarrow> channel_call list \<Rightarrow> db \<Rightarrow> db" where
  "exec_channels pu render cs s = fold (exec_channel pu render) cs s"

lemma distinct_map_upd_where:
  "(\<And>r. g (f r) = g r) \<Longrightarrow> distinct (map g rs) \<Longrightarrow> distinct (map g (upd_where p f rs))"
  by (simp add: map_upd_where_id)

lemma sql_inv:
  "keeps channel_inv stmt \<Longrightarrow> channel_inv s \<Longrightarrow>
   channel_inv (snd (sql stmt s :: ('e go_error + 'a) \<times> db))"
  using keeps_sql [OF channel_inv_faults] unfolding keeps_def by blast

text \<open>Links.\<close>

lemma find_NoneD: "find p xs = None \<Longrightarrow> x \<in> set xs \<Longrightarrow> \<not> p x"
  by (auto simp: find_None_iff)

lemma keeps_links:
  assumes "\<And>s. links_inv s \<Longrightarrow> links_inv (snd (stmt s))"
    and "\<And>s. db_messages (snd (stmt s)) = db_messages s" "\<And>s. db_outbox (snd (stmt s)) = db_outbox s"
    and "\<And>s. db_credentials (snd (stmt s)) = db_credentials s"
    and "\<And>s. db_approvals (snd (stmt s)) = db_approvals s" "\<And>s. db_next s \<le> db_next (snd (stmt s))"
  shows "keeps channel_inv stmt"
proof (rule keepsI)
  fix s assume c: "channel_inv s"
  let ?s = "snd (stmt s)"
  have "outbox_inv ?s"
    using c assms(3,6) [of s] by (fastforce simp: channel_inv_def outbox_inv_def)
  moreover have "messages_inv ?s"
    using c assms(2,6) [of s] by (fastforce simp: channel_inv_def messages_inv_def message_keys_def)
  ultimately show "channel_inv ?s"
    using c assms by (simp add: channel_inv_def credentials_inv_def refs_inv_def job_has_message_def)
qed

lemma set_link_simps [simp]:
  "ln_ID (set_link new l) = ln_ID l" "ln_TenantID (set_link new l) = ln_TenantID l"
  "ln_Platform (set_link new l) = ln_Platform l"
  "ln_PlatformUserID (set_link new l) = ln_PlatformUserID l"
  "ln_CreatedAt (set_link new l) = ln_CreatedAt l"
  by (simp_all add: set_link_def)

lemma set_link_ok: "link_ok new \<Longrightarrow> link_ok l \<Longrightarrow> link_ok (set_link new l)"
  by (simp add: link_ok_def set_link_def)

lemma upsert_link_inv:
  assumes "plat \<noteq> []" "puid \<noteq> []" "json_Valid meta" "verified = (st = LinkStateVerified)"
    and "(va \<noteq> None) = (st = LinkStateVerified)" "(ra \<noteq> None) = (st = LinkStateRevoked)"
  shows "keeps channel_inv (upsert_link_stmt u plat puid st verified va ra meth meta)"
proof (rule keeps_links)
  fix s assume inv: "links_inv s"
  show "links_inv (snd (upsert_link_stmt u plat puid st verified va ra meth meta s))"
  proof (cases "db_tenant s")
    case None
    then show ?thesis using inv by (simp add: upsert_link_stmt_def)
  next
    case (Some t)
    define new where "new = \<lparr>ln_ID = db_next s, ln_TenantID = t, ln_UserID = u, ln_Platform = plat,
                      ln_PlatformUserID = puid, ln_State = st, ln_Verified = verified,
                      ln_CreatedAt = db_now s, ln_VerifiedAt = va, ln_RevokedAt = ra,
                      ln_VerificationMethod = meth, ln_VerificationMetadata = meta\<rparr>"
    have ok: "link_ok new" using assms by (simp add: link_ok_def new_def)
    show ?thesis
    proof (cases "find (link_key s plat puid) (db_links s)")
      case None
      then have "\<forall>l \<in> set (db_links s). \<not> link_key s plat puid l" by (simp add: find_None_iff)
      then show ?thesis
        using inv ok Some None
        by (auto simp: upsert_link_stmt_def Let_def links_inv_def link_key_def own_def new_def)
    next
      case (Some l)
      then show ?thesis
        using inv ok \<open>db_tenant s = Some t\<close>
        by (auto simp: upsert_link_stmt_def Let_def links_inv_def in_upd_where set_link_ok
            simp flip: new_def intro!: distinct_map_upd_where)
    qed
  qed
qed (simp_all add: upsert_link_stmt_def Let_def split: option.splits)

lemma delete_link_inv:
  "keeps channel_inv (delete_where db_links (\<lambda>ls s. s\<lparr>db_links := ls\<rparr>) p)"
  by (rule keeps_links) (auto simp: delete_where_def links_inv_def distinct_map_filter)

text \<open>Credentials.\<close>

lemma keeps_credentials:
  assumes "\<And>s. credentials_inv s \<Longrightarrow> credentials_inv (snd (stmt s))"
    and "\<And>s. db_messages (snd (stmt s)) = db_messages s" "\<And>s. db_outbox (snd (stmt s)) = db_outbox s"
    and "\<And>s. db_links (snd (stmt s)) = db_links s"
    and "\<And>s. db_approvals (snd (stmt s)) = db_approvals s" "\<And>s. db_next s \<le> db_next (snd (stmt s))"
  shows "keeps channel_inv stmt"
proof (rule keepsI)
  fix s assume c: "channel_inv s"
  let ?s = "snd (stmt s)"
  have "outbox_inv ?s"
    using c assms(3,6) [of s] by (fastforce simp: channel_inv_def outbox_inv_def)
  moreover have "messages_inv ?s"
    using c assms(2,6) [of s] by (fastforce simp: channel_inv_def messages_inv_def message_keys_def)
  ultimately show "channel_inv ?s"
    using c assms by (simp add: channel_inv_def links_inv_def refs_inv_def job_has_message_def)
qed

lemma encrypt_secret_ok: "encryptCredentialValue c rnd x = Inr v \<Longrightarrow> secret_ok v"
  by (auto simp: encryptCredentialValue_def secret_ok_def Let_def
      split: if_splits sum.splits dest: Encrypt_encrypted)

lemma set_credential_simps [simp]:
  "pc_ID (set_credential new c) = pc_ID c" "pc_TenantID (set_credential new c) = pc_TenantID c"
  "pc_Provider (set_credential new c) = pc_Provider c"
  "pc_CreatedAt (set_credential new c) = pc_CreatedAt c"
  by (simp_all add: set_credential_def)

lemma set_credential_ok: "credential_ok new \<Longrightarrow> credential_ok c \<Longrightarrow> credential_ok (set_credential new c)"
  by (simp add: credential_ok_def set_credential_def)

lemma upsert_credential_inv:
  assumes "secret_ok a" "secret_ok b" "secret_ok c" "prov \<in> {''slack'', ''whatsapp'', ''telegram''}"
  shows "keeps channel_inv (upsert_credential_stmt prov a b c url ver phone)"
proof (rule keeps_credentials)
  fix s assume inv: "credentials_inv s"
  show "credentials_inv (snd (upsert_credential_stmt prov a b c url ver phone s))"
  proof (cases "db_tenant s")
    case None
    then show ?thesis using inv by (simp add: upsert_credential_stmt_def)
  next
    case (Some t)
    define new where "new = \<lparr>pc_ID = db_next s, pc_TenantID = t, pc_Provider = prov,
                      pc_AccessToken = a, pc_SigningSecret = b,
                      pc_SecretToken = c, pc_APIBaseURL = url, pc_APIVersion = ver,
                      pc_PhoneNumberID = phone, pc_CreatedAt = db_now s, pc_UpdatedAt = db_now s\<rparr>"
    have ok: "credential_ok new" using assms by (simp add: credential_ok_def new_def)
    show ?thesis
    proof (cases "find (credential_key s prov) (db_credentials s)")
      case None
      then have "\<forall>x \<in> set (db_credentials s). \<not> credential_key s prov x" by (simp add: find_None_iff)
      then show ?thesis
        using inv ok Some None
        by (auto simp: upsert_credential_stmt_def Let_def credentials_inv_def credential_key_def
            own_def simp flip: new_def) (auto simp: new_def)
    next
      case (Some x)
      then show ?thesis
        using inv ok \<open>db_tenant s = Some t\<close>
        by (auto simp: upsert_credential_stmt_def Let_def credentials_inv_def in_upd_where
            set_credential_ok simp flip: new_def intro!: distinct_map_upd_where)
    qed
  qed
qed (simp_all add: upsert_credential_stmt_def Let_def split: option.splits)

lemma delete_credential_inv:
  "keeps channel_inv (delete_where db_credentials (\<lambda>cs s. s\<lparr>db_credentials := cs\<rparr>) p)"
  by (rule keeps_credentials) (auto simp: delete_where_def credentials_inv_def distinct_map_filter)

text \<open>Messages.\<close>

lemma insert_message_inv: "keeps channel_inv (insert_message pf u i k f c e)"
proof (rule keepsI)
  fix s assume inv: "channel_inv s"
  show "channel_inv (snd (insert_message pf u i k f c e s))"
  proof (cases "db_tenant s = None \<or> (\<exists>m \<in> set (db_messages s). message_key s pf k m)")
    case True
    then show ?thesis using inv by (auto simp: insert_message_def split: option.splits)
  next
    case False
    then obtain t where t: "db_tenant s = Some t"
      and k: "\<forall>m \<in> set (db_messages s). \<not> message_key s pf k m" by auto
    define row where "row = \<lparr>cm_ID = db_next s, cm_TenantID = t, cm_Platform = pf,
                        cm_PlatformUserID = u, cm_PlatformMessageID = i,
                        cm_IdempotencyKey = k, cm_PayloadFingerprint = f,
                        cm_CorrelationID = c, cm_Status = MessageStatusAccepted,
                        cm_Metadata = JObj [], cm_FirstSeenAt = db_now s,
                        cm_ExpiresAt = e, cm_CreatedAt = db_now s\<rparr>"
    let ?s = "s\<lparr>db_messages := db_messages s @ [row], db_next := Suc (db_next s)\<rparr>"
    have s': "snd (insert_message pf u i k f c e s) = ?s"
      using t k by (auto simp: insert_message_def Let_def row_def)
    have "messages_inv ?s"
      using inv k t by (fastforce simp: channel_inv_def messages_inv_def message_keys_def row_def
          message_key_def own_def)
    moreover have "outbox_inv ?s" "refs_inv ?s"
      using inv by (fastforce simp: channel_inv_def outbox_inv_def refs_inv_def job_has_message_def)+
    ultimately show ?thesis
      using inv unfolding s' by (simp add: channel_inv_def links_inv_def credentials_inv_def)
  qed
qed

lemma status_row_simps [simp]:
  "cm_ID (status_row st meta m) = cm_ID m" "cm_TenantID (status_row st meta m) = cm_TenantID m"
  "cm_Platform (status_row st meta m) = cm_Platform m"
  "cm_IdempotencyKey (status_row st meta m) = cm_IdempotencyKey m"
  by (simp_all add: status_row_def)

lemma recovered_row_simps [simp]:
  "cm_ID (recovered_row render m) = cm_ID m" "cm_TenantID (recovered_row render m) = cm_TenantID m"
  "cm_Platform (recovered_row render m) = cm_Platform m"
  "cm_IdempotencyKey (recovered_row render m) = cm_IdempotencyKey m"
  by (simp_all add: recovered_row_def)

text \<open>An update of messages in place that keeps their identity keeps the invariant.\<close>

lemma update_messages_inv:
  assumes "channel_inv s"
    and "\<And>m. cm_ID (f m) = cm_ID m \<and> cm_TenantID (f m) = cm_TenantID m \<and>
           cm_Platform (f m) = cm_Platform m \<and> cm_IdempotencyKey (f m) = cm_IdempotencyKey m"
  shows "channel_inv (s\<lparr>db_messages := upd_where p f (db_messages s)\<rparr>)"
proof -
  let ?s = "s\<lparr>db_messages := upd_where p f (db_messages s)\<rparr>"
  have "messages_inv ?s"
    using assms by (auto simp: channel_inv_def messages_inv_def message_keys_def in_upd_where
        map_upd_where_id)
  moreover have "job_has_message ?s r" if "job_has_message s r" for r
  proof -
    from that obtain m where m: "m \<in> set (db_messages s)" "cm_ID m = ob_ChannelMessageID r"
      "cm_TenantID m = ob_TenantID r" by (auto simp: job_has_message_def)
    let ?m = "if p m then f m else m"
    have "?m \<in> set (db_messages ?s)" using m(1) by (auto simp: upd_where_def)
    moreover have "cm_ID ?m = ob_ChannelMessageID r \<and> cm_TenantID ?m = ob_TenantID r"
      using m assms(2) by simp
    ultimately show ?thesis unfolding job_has_message_def by (rule rev_bexI)
  qed
  ultimately show ?thesis
    using assms(1) by (simp add: channel_inv_def outbox_inv_def links_inv_def credentials_inv_def
        refs_inv_def)
qed

lemma update_status_inv: "keeps channel_inv (update_status_stmt pf k st meta)"
  by (rule keepsI) (simp add: update_status_stmt_def Let_def update_messages_inv)

lemma delete_messages_inv:
  assumes "channel_inv s"
  shows "channel_inv (delete_messages ids s)"
proof -
  let ?s = "delete_messages ids s"
  have "outbox_inv ?s" "messages_inv ?s" "links_inv ?s" "credentials_inv ?s"
    using assms
    by (auto simp: channel_inv_def inv_defs delete_messages_def Let_def distinct_map_filter)
  moreover have "job_has_message ?s r" if "r \<in> set (db_outbox ?s)" for r
    using assms that by (fastforce simp: channel_inv_def refs_inv_def job_has_message_def
        delete_messages_def Let_def)
  moreover have "rq_ChannelOutboxID a \<in> insert None (Some ` ob_ID ` set (db_outbox ?s))"
    if "a \<in> set (db_approvals ?s)" for a
    using assms that
    by (auto simp: channel_inv_def refs_inv_def delete_messages_def Let_def split: if_splits)
      (fastforce split: if_splits)
  ultimately show ?thesis by (simp add: channel_inv_def refs_inv_def)
qed

lemma delete_expired_inv: "keeps channel_inv (delete_expired_stmt before limit)"
  by (rule keepsI) (simp add: delete_expired_stmt_def Let_def delete_messages_inv)

text \<open>Recovery appends one job per recovered message.\<close>

definition recovery_batch :: "(json \<Rightarrow> string) \<Rightarrow> int \<Rightarrow> db \<Rightarrow> ChannelMessage list" where
  "recovery_batch render limit s =
     filter (\<lambda>m. recovery_recipient render m \<noteq> None)
       (select_order_limit (recoverable render s) (\<lambda>m. (cm_FirstSeenAt m, cm_ID m)) limit
          (db_messages s))"

definition recovery_jobs :: "(json \<Rightarrow> string) \<Rightarrow> int \<Rightarrow> int \<Rightarrow> db \<Rightarrow> ChannelOutbox list" where
  "recovery_jobs render limit n s =
     (let b = recovery_batch render limit s in
      map2 (recovery_job render s n) [0..<length b] b)"

lemma recover_failures_alt:
  "recover_failures_stmt render limit n s =
     (let p = (\<lambda>m. cm_ID m \<in> cm_ID ` set (recovery_batch render limit s)) in
      (count_where p (db_messages s),
       s\<lparr>db_outbox := db_outbox s @ recovery_jobs render limit n s,
         db_next := db_next s + length (recovery_batch render limit s),
         db_messages := upd_where p (recovered_row render) (db_messages s)\<rparr>))"
  by (simp add: recover_failures_stmt_def recovery_jobs_def recovery_batch_def Let_def)

lemma recovery_batch_sub:
  "m \<in> set (recovery_batch render limit s) \<Longrightarrow>
   m \<in> set (db_messages s) \<and> recoverable render s m \<and> recovery_recipient render m \<noteq> None"
  unfolding recovery_batch_def using set_select_order_limit_subset by fastforce

lemma length_recovery_jobs [simp]:
  "length (recovery_jobs render limit n s) = length (recovery_batch render limit s)"
  by (simp add: recovery_jobs_def Let_def)

lemma recovery_jobs_nth:
  "i < length (recovery_batch render limit s) \<Longrightarrow>
   recovery_jobs render limit n s ! i = recovery_job render s n i (recovery_batch render limit s ! i)"
  by (simp add: recovery_jobs_def Let_def)

lemma recovery_job_simps [simp]:
  "ob_ID (recovery_job render s n i m) = db_next s + i"
  "ob_TenantID (recovery_job render s n i m) = cm_TenantID m"
  "ob_ChannelMessageID (recovery_job render s n i m) = cm_ID m"
  by (simp_all add: recovery_job_def)

lemma recovery_job_ok: "1 \<le> n \<Longrightarrow> job_ok (recovery_job render s n i m)"
  by (simp add: job_ok_def recovery_job_def json_Valid_def)

lemma recovery_jobs_props:
  assumes "1 \<le> n" "r \<in> set (recovery_jobs render limit n s)"
  shows "job_ok r \<and> db_next s \<le> ob_ID r \<and>
         ob_ID r < db_next s + length (recovery_batch render limit s) \<and> job_has_message s r"
proof -
  let ?b = "recovery_batch render limit s"
  from assms(2) obtain i where i: "i < length ?b" "r = recovery_job render s n i (?b ! i)"
    by (metis in_set_conv_nth length_recovery_jobs recovery_jobs_nth)
  then have "?b ! i \<in> set (db_messages s)" using recovery_batch_sub by (metis nth_mem)
  with i show ?thesis using recovery_job_ok [OF assms(1)] by (auto simp: job_has_message_def)
qed

lemma map_ID_recovery_jobs:
  "map ob_ID (recovery_jobs render limit n s) =
   map ((+) (db_next s)) [0..<length (recovery_batch render limit s)]"
  by (rule nth_equalityI) (simp_all add: recovery_jobs_nth)

lemma append_recovery_jobs_outbox:
  assumes "outbox_inv s" "1 \<le> n"
  shows "outbox_inv (s\<lparr>db_outbox := db_outbox s @ recovery_jobs render limit n s,
         db_next := db_next s + length (recovery_batch render limit s)\<rparr>)"
proof -
  note new = recovery_jobs_props [OF assms(2), of _ render limit s]
  have old: "\<forall>r \<in> set (db_outbox s). job_ok r \<and> ob_ID r < db_next s"
    and d: "distinct (map ob_ID (db_outbox s))"
    using assms(1) by (auto simp: outbox_inv_def)
  have "distinct (map ob_ID (recovery_jobs render limit n s))"
    by (simp add: map_ID_recovery_jobs distinct_map)
  moreover have "ob_ID ` set (db_outbox s) \<inter> ob_ID ` set (recovery_jobs render limit n s) = {}"
    using old new by fastforce
  ultimately show ?thesis using old new d by (fastforce simp: outbox_inv_def)
qed

lemma append_recovery_jobs_inv:
  assumes "channel_inv s" "1 \<le> n"
  shows "channel_inv (s\<lparr>db_outbox := db_outbox s @ recovery_jobs render limit n s,
         db_next := db_next s + length (recovery_batch render limit s)\<rparr>)" (is "channel_inv ?s")
proof -
  note new = recovery_jobs_props [OF assms(2), of _ render limit s]
  have "outbox_inv ?s"
    using assms by (intro append_recovery_jobs_outbox) (simp_all add: channel_inv_def)
  moreover have "refs_inv ?s"
    using assms(1) new by (auto simp: channel_inv_def refs_inv_def job_has_message_def)
  moreover have "messages_inv ?s"
    using assms(1) by (fastforce simp: channel_inv_def messages_inv_def message_keys_def)
  ultimately show ?thesis using assms(1) by (simp add: channel_inv_def links_inv_def credentials_inv_def)
qed

lemma recover_failures_inv:
  assumes "1 \<le> n"
  shows "keeps channel_inv (recover_failures_stmt render limit n)"
proof (rule keepsI)
  fix s assume inv: "channel_inv s"
  let ?s = "s\<lparr>db_outbox := db_outbox s @ recovery_jobs render limit n s,
         db_next := db_next s + length (recovery_batch render limit s)\<rparr>"
  let ?p = "\<lambda>m. cm_ID m \<in> cm_ID ` set (recovery_batch render limit s)"
  have "channel_inv (?s\<lparr>db_messages := upd_where ?p (recovered_row render) (db_messages ?s)\<rparr>)"
    by (rule update_messages_inv [OF append_recovery_jobs_inv [OF inv assms]]) simp
  then show "channel_inv (snd (recover_failures_stmt render limit n s))"
    by (simp add: recover_failures_alt Let_def)
qed

section \<open>Every call keeps the invariant\<close>

lemmas keeps_channel_sql = keeps_sql [OF channel_inv_faults]

lemmas keeps_intros = keeps_ifI keeps_option keeps_sum keeps_bind keeps_return keeps_wrap_err
  keeps_checked keeps_query_row keeps_exec_rows keeps_channel_sql keeps_query

lemma UpsertLink_inv: "keeps channel_inv (UpsertLink pu wall params)"
  unfolding UpsertLink_def [abs_def] Let_def
  by (intro keeps_intros upsert_link_inv) auto

lemma keeps_decrypt_result: "keeps P (\<lambda>s. decrypt_result msg st (c, s))"
  by (simp add: keeps_def decrypt_result_def split: sum.splits)

lemma normalizeCredentialProvider_Inr:
  "normalizeCredentialProvider p = Inr q \<Longrightarrow> q \<in> {''slack'', ''whatsapp'', ''telegram''}"
  by (auto simp: normalizeCredentialProvider_def Let_def split: if_splits)

lemma UpsertProviderCredential_inv: "keeps channel_inv (UpsertProviderCredential st rnd params)"
  unfolding UpsertProviderCredential_def [abs_def] Let_def
  by (intro keeps_intros upsert_credential_inv keeps_decrypt_result)
    (erule encrypt_secret_ok normalizeCredentialProvider_Inr)+

lemma InsertIdempotency_inv: "keeps channel_inv (InsertIdempotency pf u i k f c e)"
proof -
  have "keeps channel_inv (\<lambda>s. case checked (sql (insert_message pf u i k f c e) s) of
        (Inl e, s1) \<Rightarrow> (Inl (Wrap ''inserting channel idempotency key'' e) :: chan_error + bool, s1)
      | (Inr None, s1) \<Rightarrow> (Inr False, s1) | (Inr (Some _), s1) \<Rightarrow> (Inr True, s1))"
    by (intro keeps_intros insert_message_inv)
  then show ?thesis
    unfolding InsertIdempotency_def [abs_def] by (intro keeps_ifI keeps_return)
qed

lemma keeps_raw_json:
  "(\<And>j. r = RawJSON j \<Longrightarrow> keeps P (f j)) \<Longrightarrow>
   keeps P (\<lambda>s. case r of RawJSON j \<Rightarrow> f j s | _ \<Rightarrow> (e, s))"
  by (cases r) (simp_all add: keeps_return)

lemma message_ops_inv:
  "keeps channel_inv (UpdateMessageStatus p k st meta)"
  "keeps channel_inv (DeleteExpiredMessages before limit)"
  "keeps channel_inv (RecoverDispatchFailuresToOutbox render limit n)"
  unfolding UpdateMessageStatus_def [abs_def] DeleteExpiredMessages_def [abs_def]
    RecoverDispatchFailuresToOutbox_def [abs_def]
    apply (intro keeps_intros keeps_raw_json update_status_inv)
   apply (intro keeps_intros delete_expired_inv)
  apply (intro keeps_intros recover_failures_inv)
  by simp

lemma delete_ops_inv:
  "keeps channel_inv (DeleteLink pu i)" "keeps channel_inv (DeleteProviderCredential p)"
  unfolding DeleteLink_def [abs_def] DeleteProviderCredential_def [abs_def] Let_def
  by (intro keeps_intros delete_link_inv delete_credential_inv)+

lemma exec_channel_inv: "channel_inv s \<Longrightarrow> channel_inv (exec_channel pu render c s)"
  by (cases c)
    (simp_all add: exec_call_channel_inv
      UpsertLink_inv [unfolded keeps_def] UpsertProviderCredential_inv [unfolded keeps_def]
      InsertIdempotency_inv [unfolded keeps_def] message_ops_inv [unfolded keeps_def]
      delete_ops_inv [unfolded keeps_def])

end
