(* ===== verification/Channel_Properties.thy ===== *)
theory Channel_Properties
  imports Channel_Laws
begin

text \<open>
  The promises of the channel store to its callers: inbound messages are accepted once,
  links and credentials read back as they were written, history is bounded and in order,
  and what the recovery of unsent replies does and does not reach.
\<close>

section \<open>Keys stay taken\<close>

fun expires :: "channel_call \<Rightarrow> bool" where
  "expires (Expire _ _) = True"
| "expires _ = False"

definition key_taken :: "uuid \<Rightarrow> string \<Rightarrow> string \<Rightarrow> db \<Rightarrow> bool" where
  "key_taken t pf k s \<longleftrightarrow> (t, pf, k) \<in> set (message_keys s)"

lemma key_taken_blind: "fault_blind (key_taken t pf k)"
  by (simp add: fault_blind_def key_taken_def message_keys_def)

lemma key_taken_messages:
  "db_messages s' = db_messages s \<Longrightarrow> key_taken t pf k s' = key_taken t pf k s"
  by (simp add: key_taken_def message_keys_def)

lemma keeps_key_same:
  "(\<And>s. db_messages (snd (stmt s)) = db_messages s) \<Longrightarrow> keeps (key_taken t pf k) stmt"
  by (simp add: keeps_def key_taken_def message_keys_def)

lemma keeps_key_upd:
  assumes "\<And>m. (cm_TenantID (f m), cm_Platform (f m), cm_IdempotencyKey (f m)) =
      (cm_TenantID m, cm_Platform m, cm_IdempotencyKey m)"
    and "\<And>s. db_messages (snd (stmt s)) = upd_where (p s) f (db_messages s)"
  shows "keeps (key_taken t pf k) stmt"
  using assms by (simp add: keeps_def key_taken_def message_keys_def map_upd_where_id)

lemma insert_message_key: "keeps (key_taken t pf k) (insert_message a b c d e f g)"
  by (auto simp: keeps_def key_taken_def message_keys_def insert_message_def Let_def split: option.splits)

lemmas keeps_key_sql = keeps_sql [OF key_taken_blind]

lemmas keeps_key_intros = keeps_ifI keeps_option keeps_sum keeps_bind keeps_return keeps_wrap_err
  keeps_checked keeps_query_row keeps_exec_rows keeps_key_sql keeps_query keeps_raw_json

lemma link_credential_messages:
  "db_messages (snd (upsert_link_stmt a b c d e f g h i s)) = db_messages s"
  "db_messages (snd (upsert_credential_stmt b1 b2 b3 b4 b5 b6 b7 s)) = db_messages s"
  "db_messages (snd (delete_where db_links (\<lambda>ls s. s\<lparr>db_links := ls\<rparr>) p s)) = db_messages s"
  "db_messages (snd (delete_where db_credentials (\<lambda>ls s. s\<lparr>db_credentials := ls\<rparr>) q s)) = db_messages s"
  by (simp_all add: upsert_link_stmt_def upsert_credential_stmt_def delete_where_def Let_def
      split: option.splits)

lemma status_update_messages:
  "db_messages (snd (update_status_stmt pf k st meta s)) =
     upd_where (message_key s pf k) (status_row st meta) (db_messages s)"
  "db_messages (snd (recover_failures_stmt render limit n s)) =
     upd_where (\<lambda>m. cm_ID m \<in> cm_ID ` set (recovery_batch render limit s)) (recovered_row render)
       (db_messages s)"
  by (simp_all add: update_status_stmt_def recover_failures_alt Let_def)

lemma link_ops_key:
  "keeps (key_taken t pf k) (UpsertLink pu wall params)"
  "keeps (key_taken t pf k) (DeleteLink pu i)"
  unfolding UpsertLink_def [abs_def] DeleteLink_def [abs_def] Let_def
  by (intro keeps_key_intros keeps_key_same link_credential_messages)+

lemma credential_ops_key:
  "keeps (key_taken t pf k) (UpsertProviderCredential st rnd cparams)"
  "keeps (key_taken t pf k) (DeleteProviderCredential p)"
  unfolding UpsertProviderCredential_def [abs_def] DeleteProviderCredential_def [abs_def] Let_def
  by (intro keeps_key_intros keeps_key_same link_credential_messages keeps_decrypt_result)+

lemma message_ops_key:
  "keeps (key_taken t pf k) (UpdateMessageStatus p k' st meta)"
  "keeps (key_taken t pf k) (RecoverDispatchFailuresToOutbox render limit n)"
  "keeps (key_taken t pf k) (InsertIdempotency a b c d e f g)"
proof -
  have "keeps (key_taken t pf k) (update_status_stmt p k' st meta)" for p k' st meta
    by (rule keeps_key_upd [where f = "status_row st meta", OF _ status_update_messages(1)]) simp
  then show "keeps (key_taken t pf k) (UpdateMessageStatus p k' st meta)"
    unfolding UpdateMessageStatus_def [abs_def] by (intro keeps_key_intros)
  have "keeps (key_taken t pf k) (recover_failures_stmt render limit n)" for limit n
    by (rule keeps_key_upd [where f = "recovered_row render", OF _ status_update_messages(2)]) simp
  then show "keeps (key_taken t pf k) (RecoverDispatchFailuresToOutbox render limit n)"
    unfolding RecoverDispatchFailuresToOutbox_def [abs_def] by (intro keeps_key_intros)
  show "keeps (key_taken t pf k) (InsertIdempotency a b c d e f g)"
    unfolding InsertIdempotency_def [abs_def]
    by (intro keeps_key_intros insert_message_key)
qed

lemma exec_channel_key:
  assumes "\<not> expires c" "key_taken t pf k s"
  shows "key_taken t pf k (exec_channel pu render c s)"
proof (cases c)
  case (OutboxCall oc)
  have "db_messages (exec_call pu oc s) = db_messages s"
    using exec_call_frame [of pu oc s] by (simp add: frame_def)
  from key_taken_messages [OF this] OutboxCall assms(2) show ?thesis by simp
qed (use assms in \<open>simp_all add: link_ops_key [unfolded keeps_def] credential_ops_key [unfolded keeps_def]
    message_ops_key [unfolded keeps_def]\<close>)

lemma exec_channels_key:
  "\<forall>c \<in> set cs. \<not> expires c \<Longrightarrow> key_taken t pf k s \<Longrightarrow> key_taken t pf k (exec_channels pu render cs s)"
  unfolding exec_channels_def by (induction cs arbitrary: s) (simp_all add: exec_channel_key)

lemma InsertIdempotency_True:
  assumes "InsertIdempotency pf u i k f c e s = (Inr True, s1)"
  shows "\<exists>t. db_tenant s = Some t \<and> \<not> key_taken t pf k s \<and> key_taken t pf k s1"
proof -
  from assms obtain x fs where
    "insert_message pf u i k f c e (s\<lparr>db_faults := fs\<rparr>) = (Inr (Some x), s1)"
    by (auto simp: InsertIdempotency_def split: if_splits prod.splits sum.splits option.splits
        dest!: sql_Inr)
  then show ?thesis
    by (auto simp: insert_message_def Let_def key_taken_def message_keys_def message_key_def own_def
        split: option.splits if_splits)
qed

lemma InsertIdempotency_taken:
  assumes "InsertIdempotency pf u i k f c e s = (r, s1)" "db_tenant s = Some t" "key_taken t pf k s"
  shows "r \<noteq> Inr True \<and> db_messages s1 = db_messages s"
proof -
  have stmt: "insert_message pf u i k f c e (s\<lparr>db_faults := fs\<rparr>) = (Inr None, s\<lparr>db_faults := fs\<rparr>)" for fs
    using assms(2,3)
    by (auto simp: insert_message_def key_taken_def message_keys_def message_key_def own_def)
  obtain r0 :: "chan_error + (string + uuid option)" and s0
    where q: "sql (insert_message pf u i k f c e) s = (r0, s0)" by fastforce
  then have "(\<exists>m. r0 = Inl (DBError m)) \<or> r0 = Inr (Inr None)" "db_messages s0 = db_messages s"
    by (cases rule: sql_cases; auto simp: stmt)+
  with assms(1) q show ?thesis
    by (auto simp: InsertIdempotency_def checked_def split: if_splits)
qed

section \<open>Reading back\<close>

lemma upsert_link_read:
  assumes "upsert_link_stmt u pf puid st v va ra meth meta s = (Inr l, s')"
  shows "find (link_key s' pf puid) (db_links s') = Some l \<and> ln_State l = st \<and>
     db_tenant s' = db_tenant s \<and>
     (\<forall>old. find (link_key s pf puid) (db_links s) = Some old \<longrightarrow>
        ln_ID l = ln_ID old \<and> ln_CreatedAt l = ln_CreatedAt old)"
proof -
  obtain t where t: "db_tenant s = Some t"
    using assms by (auto simp: upsert_link_stmt_def split: option.splits)
  show ?thesis
  proof (cases "find (link_key s pf puid) (db_links s)")
    case None
    then obtain nx where s': "s' = s\<lparr>db_links := db_links s @ [l], db_next := nx\<rparr>"
      and l: "link_key s pf puid l" "ln_State l = st"
      using assms t by (auto simp: upsert_link_stmt_def Let_def link_key_def own_def)
    have "link_key s' pf puid = link_key s pf puid"
      by (simp add: s' link_key_def own_def fun_eq_iff)
    then show ?thesis using None l by (simp add: s' find_append)
  next
    case (Some old)
    have "link_key s' pf puid = link_key s pf puid" "db_tenant s' = db_tenant s"
      using assms t Some by (auto simp: upsert_link_stmt_def Let_def link_key_def own_def fun_eq_iff)
    moreover have "link_key s pf puid (set_link n x) = link_key s pf puid x" for n x
      by (simp add: link_key_def)
    ultimately show ?thesis using assms t Some find_SomeD [OF Some]
      by (auto simp: upsert_link_stmt_def Let_def find_upd_where) (simp_all add: set_link_def)
  qed
qed

lemma upsert_credential_read:
  assumes "upsert_credential_stmt prov a b c url ver phone s = (Inr r, s')"
  shows "find (credential_key s' prov) (db_credentials s') = Some r \<and>
     pc_AccessToken r = a \<and> pc_SigningSecret r = b \<and> pc_SecretToken r = c"
proof -
  obtain t where t: "db_tenant s = Some t"
    using assms by (auto simp: upsert_credential_stmt_def split: option.splits)
  show ?thesis
  proof (cases "find (credential_key s prov) (db_credentials s)")
    case None
    then obtain nx where s': "s' = s\<lparr>db_credentials := db_credentials s @ [r], db_next := nx\<rparr>"
      and r: "credential_key s prov r" "pc_AccessToken r = a \<and> pc_SigningSecret r = b \<and> pc_SecretToken r = c"
      using assms t by (auto simp: upsert_credential_stmt_def Let_def credential_key_def own_def)
    have "credential_key s' prov = credential_key s prov"
      by (simp add: s' credential_key_def own_def fun_eq_iff)
    then show ?thesis using None r by (simp add: s' find_append)
  next
    case (Some old)
    have "credential_key s' prov = credential_key s prov"
      using assms t Some
      by (auto simp: upsert_credential_stmt_def Let_def credential_key_def own_def fun_eq_iff)
    moreover have "credential_key s prov (set_credential n x) = credential_key s prov x" for n x
      by (simp add: credential_key_def)
    ultimately show ?thesis using assms t Some find_SomeD [OF Some]
      by (auto simp: upsert_credential_stmt_def Let_def find_upd_where) (simp_all add: set_credential_def)
  qed
qed

lemma decryptCredentialFields_encrypted:
  assumes "decryptCredentialValue c (pc_AccessToken r) = Inr x"
    and "decryptCredentialValue c (pc_SigningSecret r) = Inr y"
    and "decryptCredentialValue c (pc_SecretToken r) = Inr z"
  shows "decryptCredentialFields c r =
    Inr (r\<lparr>pc_AccessToken := x, pc_SigningSecret := y, pc_SecretToken := z\<rparr>)"
  using assms by (simp add: decryptCredentialFields_def)

text \<open>The call succeeds when the cipher is configured and the random source delivers.\<close>

lemma Encrypt_succeeds:
  assumes "rnd = Some bs" "12 \<le> length bs"
  shows "\<exists>v. Encrypt (Some \<lparr>cc_aead = Some (NewGCM E)\<rparr>) rnd p = Inr v"
  using assms by (simp add: Encrypt_def ReadFull_def NewGCM_def)

lemma UpsertProviderCredential_Inr:
  assumes "UpsertProviderCredential st rnd params s = (Inr cred, s')"
  obtains prov a b c r fs where "normalizeCredentialProvider (uc_Provider params) = Inr prov"
    "encryptCredentialValue (st_credentialCrypto st) (rnd 0) (TrimSpace (uc_AccessToken params)) = Inr a"
    "encryptCredentialValue (st_credentialCrypto st) (rnd 1) (TrimSpace (uc_SigningSecret params)) = Inr b"
    "encryptCredentialValue (st_credentialCrypto st) (rnd 2) (TrimSpace (uc_SecretToken params)) = Inr c"
    "upsert_credential_stmt prov a b c (TrimSpace (uc_APIBaseURL params))
       (TrimSpace (uc_APIVersion params)) (TrimSpace (uc_PhoneNumberID params))
       (s\<lparr>db_faults := fs\<rparr>) = (Inr r, s')"
    "decryptCredentialFields (st_credentialCrypto st) r = Inr cred"
  using assms
  by (auto simp: UpsertProviderCredential_def Let_def decrypt_result_def
      split: sum.splits if_splits prod.splits dest!: sql_Inr)

lemma UpsertLink_Inr:
  assumes "UpsertLink pu wall params s = (Inr l, s')"
  obtains u st meta s1 fs where
    "parse_link_state (if ul_State params = [] then ''pending_verification'' else ul_State params) = Some st"
    "upsert_link_stmt u (ToLower (TrimSpace (ul_Platform params))) (TrimSpace (ul_PlatformUserID params))
       st (st = LinkStateVerified) (if st = LinkStateVerified then Some wall else None)
       (if st = LinkStateRevoked then Some wall else None) (TrimSpace (ul_VerificationMethod params))
       meta (s1\<lparr>db_faults := fs\<rparr>) = (Inr l, s')"
    "db_links s1 = db_links s" "db_tenant s1 = db_tenant s"
    "ToLower (TrimSpace (ul_Platform params)) \<noteq> []" "TrimSpace (ul_PlatformUserID params) \<noteq> []"
  using assms
  by (auto simp: UpsertLink_def Let_def split: option.splits if_splits prod.splits sum.splits
      dest!: sql_Inr)

section \<open>Properties\<close>

text \<open>A tenant with one user, one message and one job, for the concrete instances.\<close>

definition sample_message :: "uuid \<Rightarrow> string \<Rightarrow> string \<Rightarrow> json \<Rightarrow> ChannelMessage" where
  "sample_message i k st meta =
     \<lparr>cm_ID = i, cm_TenantID = 7, cm_Platform = ''slack'', cm_PlatformUserID = ''U1'',
      cm_PlatformMessageID = ''M'', cm_IdempotencyKey = k, cm_PayloadFingerprint = ''f'',
      cm_CorrelationID = ''c1'', cm_Status = st, cm_Metadata = meta, cm_FirstSeenAt = int i,
      cm_ExpiresAt = 50, cm_CreatedAt = int i\<rparr>"

definition sample_user :: "uuid \<Rightarrow> uuid \<Rightarrow> User" where
  "sample_user u t =
     \<lparr>us_ID = u, us_TenantID = t, us_Email = ''u@t'', us_DisplayName = None, us_OIDCSubject = None,
      us_OIDCIssuer = None, us_Status = ''active'', us_CreatedAt = 0, us_IsPlatformAdmin = False\<rparr>"

definition channel_sample :: db where
  "channel_sample = empty_db\<lparr>db_tenant := Some 7, db_now := 10, db_next := 5, db_users := [sample_user 3 7],
     db_messages := [sample_message 1 ''k1'' ''accepted'' (JObj [])],
     db_outbox := [(sample_job 2 7 OutboxStatusPending 4)\<lparr>ob_ChannelMessageID := 1\<rparr>]\<rparr>"

lemmas channel_sample_defs = channel_sample_def sample_user_def sample_message_def sample_job_def empty_db_def

lemma channel_sample_inv: "channel_inv channel_sample"
  by (simp add: channel_inv_def inv_defs job_ok_def json_Valid_def channel_sample_defs)

text \<open>Every sequence of store operations, from any sessions and with any driver faults, keeps
  the four channel tables well formed: one message per tenant, platform and idempotency key;
  one link per identity, whose verification columns agree with its state; one credential per
  tenant and provider, with no secret stored in the clear; every outbox job belongs to a
  message of its tenant, and no approval points to a job that is gone.
\<close>

theorem channel_store_well_formed:
  assumes "channel_inv s"
  shows "channel_inv (exec_channels pu render cs s)"
  using assms unfolding exec_channels_def
  by (induction cs arbitrary: s) (simp_all add: exec_channel_inv)

theorem channel_store_well_formed_witness:
  "channel_inv channel_sample \<and>
   channel_inv (exec_channels (\<lambda>_. Some 3) (\<lambda>_. [])
     [Ingest ''slack'' ''U1'' ''M2'' ''k2'' ''f'' ''c'' 90, Expire 60 10, OutboxCall (Claim 1 20 5)]
     channel_sample)"
  using channel_store_well_formed [OF channel_sample_inv] channel_sample_inv by blast

text \<open>Inbound messages are accepted at most once. After a call recorded a key, whatever other
  operations run (short of deleting expired rows), a later call of the tenant with the same
  platform and key never reports the key as new and adds no message.
\<close>

theorem ingest_at_most_once:
  assumes "InsertIdempotency pf u i k f c e s = (Inr True, s1)"
    and "\<forall>c \<in> set cs. \<not> expires c"
    and "db_tenant (exec_channels pu render cs s1) = db_tenant s"
    and "InsertIdempotency pf u' i' k f' c' e' (exec_channels pu render cs s1) = (r, s2)"
  shows "r \<noteq> Inr True \<and> db_messages s2 = db_messages (exec_channels pu render cs s1)"
proof -
  from InsertIdempotency_True [OF assms(1)] obtain t where
    t: "db_tenant s = Some t" "key_taken t pf k s1" by blast
  show ?thesis
    by (rule InsertIdempotency_taken [OF assms(4)])
      (use assms(3) t exec_channels_key [OF assms(2) t(2)] in auto)
qed

theorem ingest_at_most_once_witness:
  "\<exists>s1 r s2. InsertIdempotency ''slack'' ''U1'' ''M2'' ''k2'' ''f'' ''c'' 90 channel_sample = (Inr True, s1) \<and>
     InsertIdempotency ''slack'' ''U1'' ''M3'' ''k2'' ''g'' ''d'' 95
       (exec_channels (\<lambda>_. None) (\<lambda>_. []) [OutboxCall (Sent 2)] s1) = (r, s2) \<and> r \<noteq> Inr True"
proof -
  let ?a = "InsertIdempotency ''slack'' ''U1'' ''M2'' ''k2'' ''f'' ''c'' 90 channel_sample"
  let ?s = "exec_channels (\<lambda>_. None) (\<lambda>_. []) [OutboxCall (Sent 2)] (snd ?a)"
  have a: "?a = (Inr True, snd ?a)" by (rule prod_eqI) (code_simp, simp)
  have t: "db_tenant ?s = db_tenant channel_sample" by code_simp
  obtain r s2 where b: "InsertIdempotency ''slack'' ''U1'' ''M3'' ''k2'' ''g'' ''d'' 95 ?s = (r, s2)"
    by fastforce
  have "r \<noteq> Inr True" using ingest_at_most_once [OF a _ t b] by simp
  with a b show ?thesis by blast
qed

text \<open>
  C31: Credentials round-trip through encryption. With a cipher made from any valid key, a
  credential that was written is returned with the trimmed secrets the caller passed, the row
  behind it holds only ciphertext, and reading the provider again gives the same credential.
\<close>

theorem credential_round_trip:
  assumes "NewCredentialCrypto key = Inr crypto"
    and "st = NewStore [Some (WithCredentialCrypto (Some crypto))]"
    and "UpsertProviderCredential st rnd params s = (Inr cred, s')"
  shows "pc_AccessToken cred = TrimSpace (uc_AccessToken params) \<and>
     pc_SigningSecret cred = TrimSpace (uc_SigningSecret params) \<and>
     pc_SecretToken cred = TrimSpace (uc_SecretToken params) \<and>
     (\<exists>row \<in> set (db_credentials s'). pc_ID row = pc_ID cred \<and> secret_ok (pc_AccessToken row) \<and>
        secret_ok (pc_SigningSecret row) \<and> secret_ok (pc_SecretToken row)) \<and>
     GetProviderCredential st (uc_Provider params) (s'\<lparr>db_faults := []\<rparr>) =
       (Inr cred, s'\<lparr>db_faults := []\<rparr>)"
proof -
  from NewCredentialCrypto_Inr [OF assms(1)] obtain k where
    st: "st_credentialCrypto st = Some \<lparr>cc_aead = Some (NewGCM (aes_block k))\<rparr>"
    by (auto simp: assms(2) NewStore_def WithCredentialCrypto_def)
  from assms(3) obtain prov a b c r fs where
    prov: "normalizeCredentialProvider (uc_Provider params) = Inr prov"
    and enc: "encryptCredentialValue (st_credentialCrypto st) (rnd 0) (TrimSpace (uc_AccessToken params)) = Inr a"
      "encryptCredentialValue (st_credentialCrypto st) (rnd 1) (TrimSpace (uc_SigningSecret params)) = Inr b"
      "encryptCredentialValue (st_credentialCrypto st) (rnd 2) (TrimSpace (uc_SecretToken params)) = Inr c"
    and up: "upsert_credential_stmt prov a b c (TrimSpace (uc_APIBaseURL params))
       (TrimSpace (uc_APIVersion params)) (TrimSpace (uc_PhoneNumberID params))
       (s\<lparr>db_faults := fs\<rparr>) = (Inr r, s')"
    and dec: "decryptCredentialFields (st_credentialCrypto st) r = Inr cred"
    by (rule UpsertProviderCredential_Inr)
  have rd: "find (credential_key s' prov) (db_credentials s') = Some r"
    "pc_AccessToken r = a" "pc_SigningSecret r = b" "pc_SecretToken r = c"
    using upsert_credential_read [OF up] by simp_all
  note rt = gcm.column_round_trip [OF enc(1) [unfolded st]] gcm.column_round_trip [OF enc(2) [unfolded st]]
    gcm.column_round_trip [OF enc(3) [unfolded st]]
  have cred: "cred = r\<lparr>pc_AccessToken := TrimSpace (uc_AccessToken params),
     pc_SigningSecret := TrimSpace (uc_SigningSecret params), pc_SecretToken := TrimSpace (uc_SecretToken params)\<rparr>"
    using dec decryptCredentialFields_encrypted [of "st_credentialCrypto st" r] rt rd by (simp add: st)
  have "find (credential_key (s'\<lparr>db_faults := []\<rparr>) prov) (db_credentials s') = Some r"
    using rd(1) by (simp add: credential_key_def [abs_def] own_def)
  then have "GetProviderCredential st (uc_Provider params) (s'\<lparr>db_faults := []\<rparr>) = (Inr cred, s'\<lparr>db_faults := []\<rparr>)"
    by (simp add: GetProviderCredential_def prov query_row_def decrypt_result_def dec)
  moreover have "r \<in> set (db_credentials s')" using find_SomeD [OF rd(1)] by simp
  ultimately show ?thesis
    using cred rd enc [THEN encrypt_secret_ok] by fastforce
qed

definition sample_key :: string where
  "sample_key = EncodeToString (replicate 32 (CHR ''k''))"

definition sample_credential_params :: UpsertProviderCredentialParams where
  "sample_credential_params =
     \<lparr>uc_Provider = ''Slack'', uc_AccessToken = '' xoxb '', uc_SigningSecret = ''s3'',
      uc_SecretToken = [], uc_APIBaseURL = [], uc_APIVersion = [], uc_PhoneNumberID = []\<rparr>"

lemma sample_key_crypto:
  "NewCredentialCrypto sample_key = Inr \<lparr>cc_aead = Some (NewGCM (aes_block (replicate 32 (CHR ''k''))))\<rparr>"
proof -
  have "(set base64_alphabet \<union> {CHR ''=''}) \<inter> set space_bytes = {}" by code_simp
  then have "TrimSpace sample_key = sample_key"
    using set_EncodeToString [of "replicate 32 (CHR ''k'')"] unfolding sample_key_def
    by (intro TrimSpace_no_space) blast
  moreover have "EncodeToString bs \<noteq> []" if "bs \<noteq> []" for bs
    using that by (cases bs rule: EncodeToString.cases) (simp_all add: Let_def)
  then have "sample_key \<noteq> []" unfolding sample_key_def by (metis replicate_empty zero_neq_numeral)
  moreover have "DecodeString True sample_key = Some (replicate 32 (CHR ''k''))"
    by (simp only: sample_key_def DecodeString_EncodeToString)
  ultimately show ?thesis
    by (simp only: NewCredentialCrypto_def decodeCredentialKey_def Let_def option.case sum.case
        length_replicate if_False simp_thms)
qed

lemma sample_credential_written:
  assumes "st_credentialCrypto st = Some \<lparr>cc_aead = Some (NewGCM E)\<rparr>"
  shows "\<exists>cred s'. UpsertProviderCredential st (\<lambda>_. Some (replicate 12 (CHR ''n''))) sample_credential_params
     channel_sample = (Inr cred, s')"
proof -
  let ?c = "Some \<lparr>cc_aead = Some (NewGCM E)\<rparr>" and ?rnd = "Some (replicate 12 (CHR ''n''))"
  have enc: "\<exists>v. encryptCredentialValue ?c ?rnd x = Inr v" for x
    using Encrypt_succeeds [of ?rnd "replicate 12 (CHR ''n'')" E "TrimSpace x"]
    by (auto simp: encryptCredentialValue_def Let_def)
  obtain a b c where e: "encryptCredentialValue ?c ?rnd ''xoxb'' = Inr a"
    "encryptCredentialValue ?c ?rnd ''s3'' = Inr b" "encryptCredentialValue ?c ?rnd [] = Inr c"
    using enc by metis
  note d = gcm.column_round_trip [OF e(1)] gcm.column_round_trip [OF e(2)] gcm.column_round_trip [OF e(3)]
  have prov: "normalizeCredentialProvider ''Slack'' = Inr ''slack''" "TrimSpace '' xoxb '' = ''xoxb''"
    "TrimSpace ''s3'' = ''s3''" by code_simp+
  obtain r s' where up: "upsert_credential_stmt ''slack'' a b c [] [] [] channel_sample = (Inr r, s')"
    by (simp add: upsert_credential_stmt_def Let_def channel_sample_defs split: option.splits)
  then have "decryptCredentialFields ?c r = Inr (r\<lparr>pc_AccessToken := TrimSpace ''xoxb'',
      pc_SigningSecret := TrimSpace ''s3'', pc_SecretToken := TrimSpace []\<rparr>)"
    using upsert_credential_read [OF up] d by (intro decryptCredentialFields_encrypted) simp_all
  moreover have "sql (upsert_credential_stmt ''slack'' a b c [] [] []) channel_sample =
      (Inr (Inr r) :: chan_error + _, s')"
    using up by (simp add: channel_sample_defs)
  ultimately show ?thesis
    by (simp add: UpsertProviderCredential_def sample_credential_params_def prov assms e
        decrypt_result_def wrap_err_def checked_def)
qed

theorem credential_round_trip_witness:
  "\<exists>crypto cred s'. NewCredentialCrypto sample_key = Inr crypto \<and>
     UpsertProviderCredential (NewStore [Some (WithCredentialCrypto (Some crypto))])
       (\<lambda>_. Some (replicate 12 (CHR ''n''))) sample_credential_params channel_sample = (Inr cred, s') \<and>
     pc_AccessToken cred = ''xoxb'' \<and>
     GetProviderCredential (NewStore [Some (WithCredentialCrypto (Some crypto))]) ''Slack''
       (s'\<lparr>db_faults := []\<rparr>) = (Inr cred, s'\<lparr>db_faults := []\<rparr>)"
proof -
  let ?c = "\<lparr>cc_aead = Some (NewGCM (aes_block (replicate 32 (CHR ''k''))))\<rparr>"
  let ?st = "NewStore [Some (WithCredentialCrypto (Some ?c))]"
  have "st_credentialCrypto ?st = Some ?c" by (simp add: NewStore_def WithCredentialCrypto_def)
  from sample_credential_written [OF this] obtain cred s' where
    u: "UpsertProviderCredential ?st (\<lambda>_. Some (replicate 12 (CHR ''n''))) sample_credential_params
     channel_sample = (Inr cred, s')" by blast
  have "TrimSpace '' xoxb '' = ''xoxb''" by code_simp
  with credential_round_trip [OF sample_key_crypto refl u] sample_key_crypto u show ?thesis
    by (auto simp: sample_credential_params_def)
qed

text \<open>
  Links round-trip. A link that was written is what a lookup of its normalised identity
  returns; it counts as verified exactly when the caller asked for the verified state; and
  overwriting an existing link keeps its identifier and creation time.
\<close>

theorem link_round_trip:
  assumes "UpsertLink pu wall params s = (Inr l, s')"
  shows "GetLinkByIdentity (ToLower (TrimSpace (ul_Platform params)))
       (TrimSpace (ul_PlatformUserID params)) (s'\<lparr>db_faults := []\<rparr>) = (Inr l, s'\<lparr>db_faults := []\<rparr>) \<and>
     (IsVerified l \<longleftrightarrow> ul_State params = ''verified'') \<and>
     (\<forall>old. find (link_key s (ToLower (TrimSpace (ul_Platform params)))
         (TrimSpace (ul_PlatformUserID params))) (db_links s) = Some old \<longrightarrow>
       ln_ID l = ln_ID old \<and> ln_CreatedAt l = ln_CreatedAt old)"
proof -
  let ?pf = "ToLower (TrimSpace (ul_Platform params))" and ?pu = "TrimSpace (ul_PlatformUserID params)"
  from assms obtain u st meta s1 fs where
    st: "parse_link_state (if ul_State params = [] then ''pending_verification'' else ul_State params) = Some st"
    and up: "upsert_link_stmt u ?pf ?pu st (st = LinkStateVerified)
       (if st = LinkStateVerified then Some wall else None)
       (if st = LinkStateRevoked then Some wall else None) (TrimSpace (ul_VerificationMethod params))
       meta (s1\<lparr>db_faults := fs\<rparr>) = (Inr l, s')"
    and s1: "db_links s1 = db_links s" "db_tenant s1 = db_tenant s"
    and ne: "?pf \<noteq> []" "?pu \<noteq> []"
    by (rule UpsertLink_Inr)
  have k: "link_key (s1\<lparr>db_faults := fs\<rparr>) ?pf ?pu = link_key s ?pf ?pu"
    "link_key (s'\<lparr>db_faults := []\<rparr>) ?pf ?pu = link_key s' ?pf ?pu"
    by (simp_all add: link_key_def own_def fun_eq_iff s1)
  note r = upsert_link_read [OF up, unfolded k]
  have "GetLinkByIdentity ?pf ?pu (s'\<lparr>db_faults := []\<rparr>) = (Inr l, s'\<lparr>db_faults := []\<rparr>)"
    using r ne by (simp add: GetLinkByIdentity_def query_row_def k)
  moreover have "IsVerified l \<longleftrightarrow> ul_State params = ''verified''"
    using st r by (auto simp: IsVerified_def parse_link_state_def split: if_splits)
  ultimately show ?thesis using r s1 by simp
qed

theorem link_round_trip_witness:
  "\<exists>l s'. UpsertLink (\<lambda>_. Some 3) 20 \<lparr>ul_UserID = ''u'', ul_Platform = '' Slack'', ul_PlatformUserID = ''U1'',
       ul_State = ''verified'', ul_VerificationMethod = [], ul_VerificationMetadata = RawEmpty\<rparr>
       channel_sample = (Inr l, s') \<and> IsVerified l \<and>
     GetLinkByIdentity ''slack'' ''U1'' (s'\<lparr>db_faults := []\<rparr>) = (Inr l, s'\<lparr>db_faults := []\<rparr>)"
proof -
  let ?p = "\<lparr>ul_UserID = ''u'', ul_Platform = '' Slack'', ul_PlatformUserID = ''U1'',
       ul_State = ''verified'', ul_VerificationMethod = [], ul_VerificationMetadata = RawEmpty\<rparr>"
  let ?u = "UpsertLink (\<lambda>_. Some 3) 20 ?p channel_sample"
  have "isl (fst ?u) = False" by code_simp
  then obtain l where u: "?u = (Inr l, snd ?u)"
    by (cases ?u; cases "fst ?u") auto
  have "ToLower (TrimSpace '' Slack'') = ''slack''" "TrimSpace ''U1'' = ''U1''" by code_simp+
  with link_round_trip [OF u] u show ?thesis by auto
qed

section \<open>History and recovery\<close>

text \<open>When a message is older than another, in the order of the history.\<close>

definition not_newer :: "ChannelMessage \<Rightarrow> ChannelMessage \<Rightarrow> bool" where
  "not_newer m m' \<longleftrightarrow>
     (cm_FirstSeenAt m, cm_CreatedAt m, cm_ID m) \<le> (cm_FirstSeenAt m', cm_CreatedAt m', cm_ID m')"

text \<open>Conversation history is bounded and in order. A successful call returns at most twelve
  turns (at most the requested number when that is smaller), oldest first; they are the
  turns of the user's own finished messages in the tenant, and no message left out is newer
  than one returned.
\<close>

theorem history_bounded_and_ordered:
  assumes "ListRecentConversationByUser render userID limit s = (Inr turns, s')"
  shows "length turns \<le> 12 \<and> (0 < limit \<longrightarrow> length turns \<le> nat limit) \<and>
     (\<exists>ms. turns = map (turn_of render) ms \<and> sorted_wrt not_newer ms \<and>
        (\<forall>m \<in> set ms. m \<in> set (db_messages s) \<and> history_row render s (TrimSpace userID) m) \<and>
        (\<forall>m \<in> set (db_messages s). history_row render s (TrimSpace userID) m \<and> m \<notin> set ms \<longrightarrow>
           (\<forall>m' \<in> set ms. not_newer m m')))"
proof -
  let ?u = "TrimSpace userID" and ?k = "\<lambda>m. (- cm_FirstSeenAt m, - cm_CreatedAt m, - int (cm_ID m))"
  define n where "n = (if limit \<le> 0 \<or> 12 < limit then 12 else limit)"
  define sel where "sel = select_order_limit (history_row render s ?u) ?k n (db_messages s)"
  from assms have u: "?u \<noteq> []"
    by (auto simp: ListRecentConversationByUser_def Let_def split: if_splits)
  have "history_row render (s\<lparr>db_faults := fs\<rparr>) = history_row render s" for fs
    by (simp add: history_row_def own_def fun_eq_iff)
  then have t: "turns = rev (map (turn_of render) sel)"
    using assms u unfolding ListRecentConversationByUser_def Let_def sel_def n_def
    by (auto simp: ConversationHistoryMaxTurns_def split: prod.splits sum.splits dest!: sql_Inr)
  have "length sel \<le> nat n" unfolding sel_def by (simp add: length_select_order_limit)
  then have len: "length turns \<le> 12" "0 < limit \<Longrightarrow> length turns \<le> nat limit"
    using t by (auto simp: n_def split: if_splits)
  have "sorted (map ?k sel)" unfolding sel_def select_order_limit_def
    by (simp flip: take_map add: sorted_wrt_take)
  then have srt: "sorted_wrt not_newer (rev sel)"
    by (simp add: sorted_wrt_rev sorted_map not_newer_def less_eq_prod_def)
  have mem: "m \<in> set (db_messages s) \<and> history_row render s ?u m" if "m \<in> set sel" for m
    using that set_select_order_limit_subset unfolding sel_def by fastforce
  have "not_newer m m'"
    if "m \<in> set (db_messages s)" "history_row render s ?u m" "m \<notin> set sel" "m' \<in> set sel" for m m'
    using select_order_limit_first [of m' "history_row render s ?u" ?k n "db_messages s" m] that
    by (simp add: sel_def not_newer_def less_eq_prod_def)
  with len srt mem t show ?thesis
    by (intro conjI exI [where x = "rev sel"]) (auto simp: rev_map)
qed

definition talk :: "uuid \<Rightarrow> string \<Rightarrow> ChannelMessage" where
  "talk i k = sample_message i k ''executed''
     (JObj [(''user_id'', JStr ''u3''), (''request_content'', JStr ''hello''), (''response_content'', JStr ''hi'')])"

theorem history_bounded_and_ordered_witness:
  "\<exists>turns s'. ListRecentConversationByUser (\<lambda>_. []) ''u3'' 1
       (channel_sample\<lparr>db_messages := [talk 1 ''a'', talk 2 ''b'']\<rparr>) = (Inr turns, s') \<and>
     turns = [\<lparr>ct_RequestContent = ''hello'', ct_ResponseContent = ''hi''\<rparr>] \<and> length turns \<le> 12"
proof -
  let ?c = "ListRecentConversationByUser (\<lambda>_. []) ''u3'' 1
       (channel_sample\<lparr>db_messages := [talk 1 ''a'', talk 2 ''b'']\<rparr>)"
  have a: "?c = (Inr [\<lparr>ct_RequestContent = ''hello'', ct_ResponseContent = ''hi''\<rparr>], snd ?c)"
    by (rule prod_eqI) (code_simp, simp)
  from history_bounded_and_ordered [OF a] a show ?thesis by blast
qed

text \<open>A recovered message does not qualify again.\<close>

lemma json_field_concat:
  "json_field k (json_concat j (JObj m)) = Some v \<Longrightarrow> map_of (rev m) k = Some w \<Longrightarrow> v = w"
  by (cases j) (auto simp: json_field_def map_add_Some_iff)

lemma recovered_not_recoverable: "\<not> recoverable render s (recovered_row render m)"
proof
  assume "recoverable render s (recovered_row render m)"
  then have "json_field ''outbox_enqueue_failed'' (cm_Metadata (recovered_row render m)) = Some (JBool True)"
    by (simp add: recoverable_def)
  then show False
    unfolding recovered_row_def status_row_def by (auto dest: json_field_concat)
qed

lemma batch_row:
  assumes "messages_inv s" "m \<in> set (db_messages s)" "cm_ID m \<in> cm_ID ` set (recovery_batch render limit s)"
  shows "m \<in> set (recovery_batch render limit s)"
proof -
  from assms(3) obtain m' where "m' \<in> set (recovery_batch render limit s)" "cm_ID m = cm_ID m'" by auto
  with recovery_batch_sub [of m' render limit s] assms(1,2) show ?thesis
    by (metis distinct_map inj_on_def messages_inv_def)
qed

lemma distinct_recovery_batch:
  assumes "messages_inv s"
  shows "distinct (map cm_ID (recovery_batch render limit s))"
  unfolding recovery_batch_def
  by (rule distinct_map_filter, rule distinct_select) (use assms in \<open>simp add: messages_inv_def\<close>)

lemma count_recovery_batch:
  assumes "messages_inv s"
  shows "count_where (\<lambda>m. cm_ID m \<in> cm_ID ` set (recovery_batch render limit s)) (db_messages s) =
         length (recovery_batch render limit s)"
proof -
  let ?b = "recovery_batch render limit s"
  let ?f = "filter (\<lambda>m. cm_ID m \<in> cm_ID ` set ?b) (db_messages s)"
  have "set ?f = set ?b"
    using batch_row [OF assms] recovery_batch_sub [of _ render limit s] by fastforce
  moreover have "distinct ?f" "distinct ?b"
    using assms distinct_recovery_batch [OF assms, of render limit]
    by (auto simp: messages_inv_def distinct_map)
  ultimately show ?thesis unfolding count_where_def by (metis distinct_card)
qed

lemma RecoverDispatch_Inr:
  assumes "RecoverDispatchFailuresToOutbox render limit n s = (Inr k, s')"
  obtains fs l a where "l = (if limit \<le> 0 then 1 else limit)" "a = (if n \<le> 0 then 5 else n)"
    "recover_failures_stmt render l a (s\<lparr>db_faults := fs\<rparr>) = (k, s')"
  using assms by (auto simp: RecoverDispatchFailuresToOutbox_def dest!: sql_Inr)

lemma recovery_batch_faults [simp]:
  "recovery_batch render l (s\<lparr>db_faults := fs\<rparr>) = recovery_batch render l s"
  by (simp add: recovery_batch_def recoverable_def [abs_def] own_def)

lemma recovery_jobs_faults [simp]:
  "recovery_jobs render l a (s\<lparr>db_faults := fs\<rparr>) = recovery_jobs render l a s"
proof -
  have "recovery_job render (s\<lparr>db_faults := fs\<rparr>) a = recovery_job render s a"
    by (simp add: recovery_job_def fun_eq_iff)
  then show ?thesis by (simp add: recovery_jobs_def)
qed

text \<open>Recovering unsent replies. A successful call reports exactly the number of jobs it
  appends, at most the limit; each belongs to a distinct message of the tenant that was marked
  as not enqueued, carries a recipient, and is ready to send; afterwards these messages no
  longer qualify, so no reply is enqueued twice.
\<close>

theorem recovery_enqueues_once:
  assumes "channel_inv s" "RecoverDispatchFailuresToOutbox render limit n s = (Inr k, s')"
  shows "\<exists>jobs. db_outbox s' = db_outbox s @ jobs \<and> length jobs = k \<and> k \<le> nat (max limit 1) \<and>
     distinct (map ob_ChannelMessageID jobs) \<and>
     (\<forall>j \<in> set jobs. ob_Status j = OutboxStatusPending \<and>
        (\<exists>m \<in> set (db_messages s). cm_ID m = ob_ChannelMessageID j \<and> recoverable render s m \<and>
           recovery_recipient render m = Some (ob_RecipientID j)) \<and>
        (\<forall>m \<in> set (db_messages s'). cm_ID m = ob_ChannelMessageID j \<longrightarrow> \<not> recoverable render s' m))"
proof -
  from assms(2) obtain fs l a where l: "l = (if limit \<le> 0 then 1 else limit)"
    and st: "recover_failures_stmt render l a (s\<lparr>db_faults := fs\<rparr>) = (k, s')"
    by (rule RecoverDispatch_Inr)
  have mi: "messages_inv s" using assms(1) by (simp add: channel_inv_def)
  let ?b = "recovery_batch render l s" and ?j = "recovery_jobs render l a s"
  let ?p = "\<lambda>m. cm_ID m \<in> cm_ID ` set ?b"
  have k: "k = length ?b"
    using st count_recovery_batch [OF mi, of render l] by (simp add: recover_failures_alt Let_def)
  have s': "db_outbox s' = db_outbox s @ ?j" "db_messages s' = upd_where ?p (recovered_row render) (db_messages s)"
    using st by (auto simp: recover_failures_alt Let_def)
  have "length ?b \<le> length (select_order_limit (recoverable render s) (\<lambda>m. (cm_FirstSeenAt m, cm_ID m)) l (db_messages s))"
    unfolding recovery_batch_def by (rule length_filter_le)
  then have "length ?b \<le> nat (max limit 1)" by (simp add: length_select_order_limit l split: if_splits)
  moreover have ids: "map ob_ChannelMessageID ?j = map cm_ID ?b"
    by (rule nth_equalityI) (simp_all add: recovery_jobs_nth)
  moreover have "ob_Status j = OutboxStatusPending \<and>
      (\<exists>m \<in> set (db_messages s). cm_ID m = ob_ChannelMessageID j \<and> recoverable render s m \<and>
         recovery_recipient render m = Some (ob_RecipientID j))" if "j \<in> set ?j" for j
  proof -
    from that obtain i where i: "i < length ?b" "j = recovery_job render s a i (?b ! i)"
      by (metis in_set_conv_nth length_recovery_jobs recovery_jobs_nth)
    then have "?b ! i \<in> set ?b" by simp
    from recovery_batch_sub [OF this] i show ?thesis by (auto simp: recovery_job_def)
  qed
  moreover have "\<not> recoverable render s' m"
    if "j \<in> set ?j" "m \<in> set (db_messages s')" "cm_ID m = ob_ChannelMessageID j" for j m
  proof -
    have "cm_ID m \<in> cm_ID ` set ?b" using that(1,3) ids by (metis image_eqI list.set_map)
    with that(2) obtain m0 where "m = recovered_row render m0" unfolding s' by (auto simp: in_upd_where)
    then show ?thesis using recovered_not_recoverable by simp
  qed
  ultimately show ?thesis
    using s'(1) k distinct_recovery_batch [OF mi, of render l] by (intro exI [where x = ?j]) auto
qed

definition unsent :: "uuid \<Rightarrow> string \<Rightarrow> (string \<times> json) list \<Rightarrow> ChannelMessage" where
  "unsent i k meta = sample_message i k ''dispatch_failed''
     (JObj ([(''outbox_enqueue_failed'', JBool True), (''response_content'', JStr ''hi'')] @ meta))"

definition recovery_sample :: db where
  "recovery_sample = channel_sample\<lparr>db_messages :=
     [sample_message 1 ''k1'' ''accepted'' (JObj []), unsent 3 ''k3'' [],
      unsent 4 ''k4'' [(''outbox_recipient_id'', JStr ''C9'')]]\<rparr>"

lemma recovery_sample_inv: "channel_inv recovery_sample"
  by (simp add: channel_inv_def inv_defs job_ok_def json_Valid_def recovery_sample_def unsent_def
      channel_sample_defs)

theorem recovery_enqueues_once_witness:
  "\<exists>k s' jobs. RecoverDispatchFailuresToOutbox (\<lambda>_. []) 2 5 recovery_sample = (Inr k, s') \<and> k = 1 \<and>
     db_outbox s' = db_outbox recovery_sample @ jobs \<and> length jobs = 1"
proof -
  let ?c = "RecoverDispatchFailuresToOutbox (\<lambda>_. []) 2 5 recovery_sample"
  have a: "?c = (Inr 1, snd ?c)" by (rule prod_eqI) (code_simp, simp)
  from recovery_enqueues_once [OF recovery_sample_inv a] a show ?thesis by blast
qed

text \<open>
  The limit of the recovery is applied before the check for a recipient. When the oldest
  candidates up to the limit all lack a recipient, the call recovers nothing and changes no
  table, so a later message that could be recovered is never reached, however often the call
  is repeated.
\<close>

theorem recovery_starved:
  assumes "0 < limit"
    and "\<forall>m \<in> set (select_order_limit (recoverable render s) (\<lambda>m. (cm_FirstSeenAt m, cm_ID m))
           limit (db_messages s)). recovery_recipient render m = None"
    and "RecoverDispatchFailuresToOutbox render limit n s = (Inr k, s')"
  shows "k = 0 \<and> same_tables s s'"
proof -
  have b: "recovery_batch render limit s = []"
    unfolding recovery_batch_def using assms(2) by (simp add: filter_empty_conv)
  from assms(1,3) obtain fs a where
    "recover_failures_stmt render limit a (s\<lparr>db_faults := fs\<rparr>) = (k, s')"
    by (auto elim: RecoverDispatch_Inr)
  with b show ?thesis
    by (auto simp: recover_failures_alt Let_def recovery_jobs_def count_where_def upd_where_none
        same_tables_def)
qed

theorem recovery_starved_witness:
  "\<exists>s'. RecoverDispatchFailuresToOutbox (\<lambda>_. []) 1 5 recovery_sample = (Inr 0, s') \<and>
     same_tables recovery_sample s' \<and>
     (\<exists>m \<in> set (db_messages s'). recoverable (\<lambda>_. []) s' m \<and> recovery_recipient (\<lambda>_. []) m \<noteq> None)"
proof -
  let ?c = "RecoverDispatchFailuresToOutbox (\<lambda>_. []) 1 5 recovery_sample"
  have a: "?c = (Inr 0, snd ?c)" by (rule prod_eqI) (code_simp, simp)
  have n: "\<forall>m \<in> set (select_order_limit (recoverable (\<lambda>_. []) recovery_sample)
      (\<lambda>m. (cm_FirstSeenAt m, cm_ID m)) 1 (db_messages recovery_sample)).
        recovery_recipient (\<lambda>_. []) m = None" by code_simp
  have "\<exists>m \<in> set (db_messages (snd ?c)). recoverable (\<lambda>_. []) (snd ?c) m \<and>
      recovery_recipient (\<lambda>_. []) m \<noteq> None" by code_simp
  with a recovery_starved [OF _ n a] show ?thesis by auto
qed

end
