(* ===== verification/Go_JSON.thy ===== *)
theory Go_JSON
  imports Heimdall_Prelude
begin

text \<open>
  Decoding a JSON value into a Go struct, as \<open>json.Unmarshal\<close> does it: keys match field names
  without regard to case, a later key overrides an earlier one, \<open>null\<close> leaves a field as it
  is, and a value of another type is an error. Also the decimal form of an integer.
\<close>

text \<open>The case folding of keys: ASCII letters, the long s and the Kelvin sign.\<close>

fun fold_key :: "string \<Rightarrow> string" where
  "fold_key [] = []"
| "fold_key (c # cs) =
     (if c = CHR 0xC5 \<and> take 1 cs = [CHR 0xBF] then CHR ''s'' # fold_key (drop 1 cs)
      else if c = CHR 0xE2 \<and> take 2 cs = [CHR 0x84, CHR 0xAA] then CHR ''k'' # fold_key (drop 2 cs)
      else lower_char c # fold_key cs)"

definition object_entries :: "raw_json \<Rightarrow> (string \<times> json) list option" where
  "object_entries r =
     (case r of
        RawJSON (JObj kvs) \<Rightarrow> Some kvs
      | RawJSON JNull \<Rightarrow> Some []
      | _ \<Rightarrow> None)"

definition json_entries :: "json \<Rightarrow> (string \<times> json) list option" where
  "json_entries j = object_entries (RawJSON j)"

text \<open>The values given for a field, in order.\<close>

definition field_values :: "string \<Rightarrow> (string \<times> json) list \<Rightarrow> json list" where
  "field_values name kvs = map snd (filter (\<lambda>(k, _). fold_key k = name) kvs)"

fun string_values :: "string \<Rightarrow> json list \<Rightarrow> string option" where
  "string_values v [] = Some v"
| "string_values v (JStr t # js) = string_values t js"
| "string_values v (JNull # js) = string_values v js"
| "string_values v (_ # js) = None"

fun bool_values :: "bool \<Rightarrow> json list \<Rightarrow> bool option" where
  "bool_values v [] = Some v"
| "bool_values v (JBool b # js) = bool_values b js"
| "bool_values v (JNull # js) = bool_values v js"
| "bool_values v (_ # js) = None"

definition string_field :: "string \<Rightarrow> (string \<times> json) list \<Rightarrow> string option" where
  "string_field name kvs = string_values [] (field_values name kvs)"

definition bool_field :: "string \<Rightarrow> (string \<times> json) list \<Rightarrow> bool option" where
  "bool_field name kvs = bool_values False (field_values name kvs)"

text \<open>The elements of an array decoded one by one; one failure fails the whole.\<close>

fun decode_all :: "(json \<Rightarrow> 'a option) \<Rightarrow> json list \<Rightarrow> 'a list option" where
  "decode_all f [] = Some []"
| "decode_all f (j # js) =
     (case f j of
        None \<Rightarrow> None
      | Some x \<Rightarrow> map_option ((#) x) (decode_all f js))"

text \<open>Decoding into a slice: an array or \<open>null\<close>.\<close>

definition decode_slice :: "(json \<Rightarrow> 'a option) \<Rightarrow> json \<Rightarrow> 'a list option" where
  "decode_slice f j = (case j of JNull \<Rightarrow> Some [] | JArr js \<Rightarrow> decode_all f js | _ \<Rightarrow> None)"

definition decode_string :: "json \<Rightarrow> string option" where
  "decode_string j = (case j of JStr t \<Rightarrow> Some t | JNull \<Rightarrow> Some [] | _ \<Rightarrow> None)"

text \<open>A field of type \<open>json.RawMessage\<close> keeps the last value given for it.\<close>

definition raw_field :: "string \<Rightarrow> (string \<times> json) list \<Rightarrow> raw_json" where
  "raw_field name kvs = (case rev (field_values name kvs) of [] \<Rightarrow> RawEmpty | j # _ \<Rightarrow> RawJSON j)"

text \<open>The last value of a field.\<close>

definition last_value :: "string \<Rightarrow> (string \<times> json) list \<Rightarrow> json" where
  "last_value name kvs = (case rev (field_values name kvs) of [] \<Rightarrow> JNull | j # _ \<Rightarrow> j)"

definition decode_int :: "json \<Rightarrow> int option" where
  "decode_int j =
     (case j of
        JNull \<Rightarrow> Some 0
      | JNum r \<Rightarrow>
          if of_int \<lfloor>r\<rfloor> = r \<and> - (2 ^ 63) \<le> r \<and> r < 2 ^ 63 then Some \<lfloor>r\<rfloor> else None
      | _ \<Rightarrow> None)"

text \<open>A struct inside a struct: a repeated key adds to it.\<close>

definition struct_field :: "string \<Rightarrow> (string \<times> json) list \<Rightarrow> (string \<times> json) list option" where
  "struct_field name kvs =
     map_option concat (decode_all json_entries (field_values name kvs))"

text \<open>A field of type \<open>int64\<close>, and one that is a slice; a later key overrides an earlier one.\<close>

fun int_values :: "int \<Rightarrow> json list \<Rightarrow> int option" where
  "int_values v [] = Some v"
| "int_values v (JNull # js) = int_values v js"
| "int_values v (j # js) = (case decode_int j of None \<Rightarrow> None | Some i \<Rightarrow> int_values i js)"

definition int_field :: "string \<Rightarrow> (string \<times> json) list \<Rightarrow> int option" where
  "int_field name kvs = int_values 0 (field_values name kvs)"

definition slice_field :: "(json \<Rightarrow> 'a option) \<Rightarrow> string \<Rightarrow> (string \<times> json) list \<Rightarrow> 'a list option" where
  "slice_field f name kvs =
     map_option (\<lambda>xss. if xss = [] then [] else last xss) (decode_all (decode_slice f) (field_values name kvs))"

text \<open>\<open>strconv.Itoa\<close>\<close>

fun nat_text :: "nat \<Rightarrow> string" where
  "nat_text n = (if n < 10 then [char_of (48 + n)] else nat_text (n div 10) @ [char_of (48 + n mod 10)])"

declare nat_text.simps [simp del]

definition Itoa :: "int \<Rightarrow> string" where
  "Itoa i = (if i < 0 then CHR ''-'' # nat_text (nat (- i)) else nat_text (nat i))"

text \<open>Arithmetic on \<open>int64\<close> wraps around.\<close>

definition wrap64 :: "int \<Rightarrow> int" where
  "wrap64 i = (i + 2 ^ 63) mod 2 ^ 64 - 2 ^ 63"

lemma wrap64_id: "- (2 ^ 63) \<le> i \<Longrightarrow> i < 2 ^ 63 \<Longrightarrow> wrap64 i = i"
  by (simp add: wrap64_def)

end
