(* ===== verification/Channel_Config.thy ===== *)
theory Channel_Config
  imports Channel_Store Go_JSON
begin

text \<open>
  The channel section of the configuration (\<open>internal/platform/config/config.go\<close>) and the
  store \<open>cmd/heimdall/main.go\<close> builds from it.
\<close>

record ChannelsIngressConfig =
  ig_Enabled :: bool
  ig_ReplayWindowSeconds :: int
  ig_TenantScanPageSize :: int
  ig_RetentionCleanupEnabled :: bool
  ig_RetentionCleanupIntervalSeconds :: int
  ig_RetentionCleanupBatchSize :: int

record ChannelProviderConfig =
  pv_Enabled :: bool
  pv_SigningSecret :: string
  pv_SecretToken :: string
  pv_APIBaseURL :: string
  pv_APIVersion :: string
  pv_AccessToken :: string
  pv_PhoneNumberID :: string

record ChannelsProvidersConfig =
  ps_Slack :: ChannelProviderConfig
  ps_WhatsApp :: ChannelProviderConfig
  ps_Telegram :: ChannelProviderConfig

record ChannelsOutboxConfig =
  oc_Enabled :: bool
  oc_PollIntervalSeconds :: int
  oc_TenantScanPageSize :: int
  oc_ClaimBatchSize :: int
  oc_RecoveryBatchSize :: int
  oc_LockTimeoutSeconds :: int
  oc_MaxAttempts :: int
  oc_BaseRetrySeconds :: int
  oc_MaxRetrySeconds :: int
  oc_JitterFraction :: rat

record ChannelsConfig =
  ch_Ingress :: ChannelsIngressConfig
  ch_CredentialsKey :: string
  ch_Providers :: ChannelsProvidersConfig
  ch_Outbox :: ChannelsOutboxConfig

definition buildChannelStore :: "ChannelsConfig \<Rightarrow> chan_error + Store" where
  "buildChannelStore cfg =
     (let credentialKey = TrimSpace (ch_CredentialsKey cfg) in
      if credentialKey = [] then Inr (NewStore [])
      else case NewCredentialCrypto credentialKey of
          Inl e \<Rightarrow> Inl (Wrap ''provider credential encryption key is invalid'' e)
        | Inr crypto \<Rightarrow> Inr (NewStore [Some (WithCredentialCrypto (Some crypto))]))"

end
