(* ===== verification/Channel_Workers.thy ===== *)
theory Channel_Workers
  imports Dispatcher_Database Channel_Properties Channel_Config
begin

text \<open>
  The two background workers of \<open>cmd/heimdall\<close>: \<open>channels_outbox_worker.go\<close>, which recovers
  unsent replies and dispatches the outbox of every tenant, and
  \<open>channels_retention_worker.go\<close>, which deletes expired messages. Both walk the tenants page
  by page. Their logging is not modelled.
\<close>

section \<open>Listing tenants\<close>

definition defaultTenantScanPageSize :: int where
  "defaultTenantScanPageSize = 500"

definition after :: "uuid option \<Rightarrow> uuid \<Rightarrow> bool" where
  "after cursor i \<longleftrightarrow> (case cursor of None \<Rightarrow> True | Some c \<Rightarrow> c < i)"

text \<open>
  \<open>SELECT id FROM tenants WHERE id > cursor ORDER BY id LIMIT n\<close>. The workers run as the owner
  of the tables: \<open>tenants\<close> has row-level security and no policy, so another role sees no row.
\<close>

definition tenant_page :: "uuid option \<Rightarrow> nat \<Rightarrow> db \<Rightarrow> uuid list \<times> db" where
  "tenant_page cursor n s = (take n (sort (filter (after cursor) (db_tenants s))), s)"

lemma sql_tenant_page:
  assumes "sql (tenant_page cursor n) s = (r, s')"
  shows "db_tenants s' = db_tenants s \<and>
    (\<forall>ids. r = Inr ids \<longrightarrow> ids = take n (sort (filter (after cursor) (db_tenants s))))"
  using assms by (cases rule: sql_cases) (auto simp: tenant_page_def)

lemma last_take_sort:
  assumes "n \<noteq> 0" "n \<le> length xs"
  shows "last (take n (sort xs)) \<in> set xs"
proof -
  have "take n (sort xs) \<noteq> []" using assms by (cases xs) auto
  then have "last (take n (sort xs)) \<in> set (take n (sort xs))" by (rule last_in_set)
  then show ?thesis by (metis in_set_takeD set_sort)
qed

text \<open>
  The loop of \<open>listTenantIDs\<close> over the pages. A UUID read from the database always parses, so
  the parse error of the source cannot occur.
\<close>

function tenant_pages :: "nat \<Rightarrow> uuid option \<Rightarrow> db \<Rightarrow> (chan_error + uuid list) \<times> db" where
  "tenant_pages n cursor s =
     (case sql (tenant_page cursor n) s of
        (Inl e, s1) \<Rightarrow> (Inl e, s1)
      | (Inr ids, s1) \<Rightarrow>
          if length ids < n \<or> n = 0 then (Inr ids, s1)
          else case tenant_pages n (Some (last ids)) s1 of
              (Inl e, s2) \<Rightarrow> (Inl e, s2)
            | (Inr later, s2) \<Rightarrow> (Inr (ids @ later), s2))"
  by pat_completeness auto
termination
proof (relation "measure (\<lambda>(n, cursor, s). length (filter (after cursor) (db_tenants s)))", goal_cases)
  case (2 n cursor s r s1 ids)
  let ?xs = "filter (after cursor) (db_tenants s)"
  have "sql (tenant_page cursor n) s = (Inr ids :: chan_error + _, s1)" using 2 by simp
  from sql_tenant_page [OF this] have ids: "ids = take n (sort ?xs)" and t: "db_tenants s1 = db_tenants s"
    by auto
  have "n \<noteq> 0" "n \<le> length ?xs" using 2 ids by auto
  then have l: "last ids \<in> set ?xs" unfolding ids by (rule last_take_sort)
  have "filter (after (Some (last ids))) (db_tenants s) = filter (\<lambda>i. last ids < i) ?xs"
    using l by (auto simp: after_def split: option.splits intro!: filter_cong)
  moreover have "length (filter (\<lambda>i. last ids < i) ?xs) < length ?xs"
    using l by (intro length_filter_less) auto
  ultimately show ?case using t by simp
qed simp

declare tenant_pages.simps [simp del]

definition listTenantIDs :: "int \<Rightarrow> db \<Rightarrow> (chan_error + uuid list) \<times> db" where
  "listTenantIDs pageSize s =
     (if pageSize \<le> 0 then (Inl (NewError ''tenant scan page size must be positive''), s)
      else tenant_pages (nat pageSize) None s)"

section \<open>The retention worker\<close>

record channelRetentionWorker =
  rw_interval :: duration
  rw_batchSize :: int
  rw_tenantScanPageSize :: int

definition buildChannelRetentionWorker :: "ChannelsConfig \<Rightarrow> channelRetentionWorker option" where
  "buildChannelRetentionWorker cfg =
     (let ig = ch_Ingress cfg in
      if \<not> ig_Enabled ig \<or> \<not> ig_RetentionCleanupEnabled ig then None
      else
        (let interval = wrap64 (ig_RetentionCleanupIntervalSeconds ig * second);
             interval = (if interval \<le> 0 then 3600 * second else interval);
             batchSize = (if ig_RetentionCleanupBatchSize ig \<le> 0 then 500
                          else ig_RetentionCleanupBatchSize ig);
             pageSize = (if ig_TenantScanPageSize ig \<le> 0 then defaultTenantScanPageSize
                         else ig_TenantScanPageSize ig) in
         Some \<lparr>rw_interval = interval, rw_batchSize = batchSize, rw_tenantScanPageSize = pageSize\<rparr>))"

definition expired_ids :: "gotime \<Rightarrow> int \<Rightarrow> db \<Rightarrow> uuid list" where
  "expired_ids now batch s =
     map cm_ID (select_order_limit (expired_row s now) cm_ExpiresAt batch (db_messages s))"

lemma expired_row_faults [simp]: "expired_row (s\<lparr>db_faults := fs\<rparr>) now = expired_row s now"
  by (simp add: expired_row_def own_def fun_eq_iff)

lemma DeleteExpiredMessages_Inr:
  assumes "DeleteExpiredMessages now batch s = (Inr n, s')"
  obtains fs where "0 < batch" "now \<noteq> 0"
    "n = count_where (\<lambda>m. cm_ID m \<in> set (expired_ids now batch s)) (db_messages s)"
    "s' = delete_messages (expired_ids now batch s) (s\<lparr>db_faults := fs\<rparr>)"
proof -
  from assms have "0 < batch" "now \<noteq> 0"
    and "sql (delete_expired_stmt now batch) s = (Inr n :: chan_error + _, s')"
    by (auto simp: DeleteExpiredMessages_def split: if_splits)
  moreover obtain fs where "delete_expired_stmt now batch (s\<lparr>db_faults := fs\<rparr>) = (n, s')"
    using sql_Inr [OF calculation(3)] by blast
  ultimately show thesis using that [of fs] by (simp add: delete_expired_stmt_def Let_def expired_ids_def)
qed

lemma delete_messages_simps [simp]:
  "db_messages (delete_messages ids s) = filter (\<lambda>m. cm_ID m \<notin> set ids) (db_messages s)"
  "db_outbox (delete_messages ids s) = filter (\<lambda>r. ob_ChannelMessageID r \<notin> set ids) (db_outbox s)"
  "db_faults (delete_messages ids s) = db_faults s" "db_tenant (delete_messages ids s) = db_tenant s"
  "db_locked (delete_messages ids s) = db_locked s" "db_tenants (delete_messages ids s) = db_tenants s"
  by (simp_all add: delete_messages_def Let_def)

lemma delete_expired_shrinks:
  assumes "DeleteExpiredMessages now batch s = (Inr n, s')" "n \<noteq> 0"
  shows "length (db_messages s') < length (db_messages s)"
proof -
  from assms(1) obtain fs where
    n: "n = count_where (\<lambda>m. cm_ID m \<in> set (expired_ids now batch s)) (db_messages s)"
    and s': "s' = delete_messages (expired_ids now batch s) (s\<lparr>db_faults := fs\<rparr>)"
    by (rule DeleteExpiredMessages_Inr)
  from n assms(2) obtain m where "m \<in> set (db_messages s)" "cm_ID m \<in> set (expired_ids now batch s)"
    by (auto simp: count_where_0)
  then have "length (filter (\<lambda>m. cm_ID m \<notin> set (expired_ids now batch s)) (db_messages s)) < length (db_messages s)"
    by (intro length_filter_less) auto
  then show ?thesis unfolding s' by simp
qed

text \<open>The loop of one tenant: batches are deleted until one is not full.\<close>

function cleanup_loop :: "gotime \<Rightarrow> int \<Rightarrow> db \<Rightarrow> (chan_error + nat) \<times> db" where
  "cleanup_loop now batch s =
     (case DeleteExpiredMessages now batch s of
        (Inl e, s1) \<Rightarrow> (Inl e, s1)
      | (Inr deleted, s1) \<Rightarrow>
          if int deleted < batch then (Inr deleted, s1)
          else case cleanup_loop now batch s1 of
              (Inl e, s2) \<Rightarrow> (Inl e, s2)
            | (Inr later, s2) \<Rightarrow> (Inr (deleted + later), s2))"
  by pat_completeness auto
termination
proof (relation "measure (\<lambda>(now, batch, s). length (db_messages s))", goal_cases)
  case (2 now batch s r s1 deleted)
  then have d: "DeleteExpiredMessages now batch s = (Inr deleted, s1)" by simp
  then have "0 < batch" by (auto simp: DeleteExpiredMessages_def split: if_splits)
  with 2 have "deleted \<noteq> 0" by auto
  from delete_expired_shrinks [OF d this] show ?case by simp
qed simp

declare cleanup_loop.simps [simp del]

text \<open>
  One sweep. \<open>done i\<close> says whether the context is cancelled before the \<open>i\<close>-th tenant; an error
  of one tenant does not stop the others.
\<close>

fun retention_tenants :: "(nat \<Rightarrow> bool) \<Rightarrow> gotime \<Rightarrow> int \<Rightarrow> nat \<Rightarrow> uuid list \<Rightarrow> db \<Rightarrow> db" where
  "retention_tenants cancelled now batch i [] s = s"
| "retention_tenants cancelled now batch i (t # ts) s =
     (if cancelled i then s
      else retention_tenants cancelled now batch (Suc i) ts
             (snd (WithTenantConnection t (cleanup_loop now batch) s)))"

definition retention_sweep :: "channelRetentionWorker \<Rightarrow> (nat \<Rightarrow> bool) \<Rightarrow> gotime \<Rightarrow> db \<Rightarrow> db" where
  "retention_sweep w cancelled now s =
     (case listTenantIDs (rw_tenantScanPageSize w) s of
        (Inl _, s1) \<Rightarrow> s1
      | (Inr tenantIDs, s1) \<Rightarrow> retention_tenants cancelled now (rw_batchSize w) 0 tenantIDs s1)"

text \<open>\<open>Run\<close>: a sweep at once and one per tick, here for a list of tick times.\<close>

definition retention_Run ::
  "channelRetentionWorker \<Rightarrow> (nat \<Rightarrow> bool) \<Rightarrow> gotime list \<Rightarrow> db \<Rightarrow> db" where
  "retention_Run w cancelled ticks s = fold (retention_sweep w cancelled) ticks s"

section \<open>The outbox worker\<close>

record channelOutboxWorker =
  ow_pollInterval :: duration
  ow_tenantScanPageSize :: int
  ow_recoveryBatchSize :: int
  ow_recoveryMaxAttempts :: int
  ow_dispatcherConfig :: OutboxDispatcherConfig

definition dispatcher_config :: "ChannelsOutboxConfig \<Rightarrow> OutboxDispatcherConfig" where
  "dispatcher_config oc =
     \<lparr>cf_ClaimBatchSize = oc_ClaimBatchSize oc, cf_RecoveryBatchSize = oc_RecoveryBatchSize oc,
      cf_LockTimeout = wrap64 (oc_LockTimeoutSeconds oc * second), cf_MaxAttempts = oc_MaxAttempts oc,
      cf_BaseRetryDelay = wrap64 (oc_BaseRetrySeconds oc * second),
      cf_MaxRetryDelay = wrap64 (oc_MaxRetrySeconds oc * second),
      cf_JitterFraction = oc_JitterFraction oc\<rparr>"

text \<open>
  The resolver is never nil, so building the sender cannot fail; the store's only failure is
  an invalid credential key.
\<close>

definition buildChannelOutboxWorker ::
  "ChannelsConfig \<Rightarrow> chan_error + (Store \<times> channelOutboxWorker) option" where
  "buildChannelOutboxWorker cfg =
     (let oc = ch_Outbox cfg in
      if \<not> ig_Enabled (ch_Ingress cfg) \<or> \<not> oc_Enabled oc then Inr None
      else
        (let pollInterval = wrap64 (oc_PollIntervalSeconds oc * second);
             pollInterval = (if pollInterval \<le> 0 then 2 * second else pollInterval);
             pageSize = (if oc_TenantScanPageSize oc \<le> 0 then defaultTenantScanPageSize
                         else oc_TenantScanPageSize oc) in
         case buildChannelStore cfg of
           Inl e \<Rightarrow> Inl (Wrap ''building channel store'' e)
         | Inr store \<Rightarrow>
             (let recoveryBatchSize = (if oc_RecoveryBatchSize oc \<le> 0 then oc_ClaimBatchSize oc
                                       else oc_RecoveryBatchSize oc);
                  recoveryBatchSize = (if recoveryBatchSize \<le> 0 then 10 else recoveryBatchSize);
                  recoveryMaxAttempts = (if oc_MaxAttempts oc \<le> 0 then 5 else oc_MaxAttempts oc) in
              Inr (Some (store, \<lparr>ow_pollInterval = pollInterval, ow_tenantScanPageSize = pageSize,
                                 ow_recoveryBatchSize = recoveryBatchSize,
                                 ow_recoveryMaxAttempts = recoveryMaxAttempts,
                                 ow_dispatcherConfig = dispatcher_config oc\<rparr>)))))"

lemma count_where_filter: "count_where p rs = length (filter p rs)"
  by (simp add: count_where_def)

lemma recover_shrinks:
  assumes "RecoverDispatchFailuresToOutbox render batch n s = (Inr k, s')" "k \<noteq> 0"
  shows "count_where (recoverable render s') (db_messages s') < count_where (recoverable render s) (db_messages s)"
proof -
  from assms(1) obtain fs l a where
    st: "recover_failures_stmt render l a (s\<lparr>db_faults := fs\<rparr>) = (k, s')" by (rule RecoverDispatch_Inr)
  let ?b = "recovery_batch render l s"
  let ?p = "\<lambda>m. cm_ID m \<in> cm_ID ` set ?b"
  have s': "db_messages s' = upd_where ?p (recovered_row render) (db_messages s)"
    and k: "k = count_where ?p (db_messages s)" and r: "recoverable render s' = recoverable render s"
    using st by (auto simp: recover_failures_alt Let_def recoverable_def own_def fun_eq_iff)
  from assms(2) k obtain m0 where "m0 \<in> set ?b" by (auto simp: count_where_0)
  with recovery_batch_sub [OF this] have m0: "m0 \<in> set (db_messages s)" "recoverable render s m0" "?p m0"
    by auto
  have f: "filter (recoverable render s) (upd_where ?p (recovered_row render) ms) =
      filter (\<lambda>m. recoverable render s m \<and> \<not> ?p m) ms" for ms
    using recovered_not_recoverable by (induction ms) auto
  have "length (filter (\<lambda>m. recoverable render s m \<and> \<not> ?p m) (db_messages s)) =
      length (filter (\<lambda>m. \<not> ?p m) (filter (recoverable render s) (db_messages s)))"
    by (simp add: conj_commute)
  also have "\<dots> < length (filter (recoverable render s) (db_messages s))"
    using m0 by (intro length_filter_less) auto
  finally show ?thesis unfolding count_where_filter s' r f .
qed

text \<open>The loop of \<open>sweep\<close>; its batch size is at least one.\<close>

function recover_loop :: "(json \<Rightarrow> string) \<Rightarrow> int \<Rightarrow> int \<Rightarrow> db \<Rightarrow> (chan_error + nat) \<times> db" where
  "recover_loop render batch maxAttempts s =
     (case RecoverDispatchFailuresToOutbox render batch maxAttempts s of
        (Inl e, s1) \<Rightarrow> (Inl e, s1)
      | (Inr recovered, s1) \<Rightarrow>
          if int recovered < max batch 1 then (Inr recovered, s1)
          else case recover_loop render batch maxAttempts s1 of
              (Inl e, s2) \<Rightarrow> (Inl e, s2)
            | (Inr later, s2) \<Rightarrow> (Inr (recovered + later), s2))"
  by pat_completeness auto
termination
proof (relation "measure (\<lambda>(render, batch, n, s). count_where (recoverable render s) (db_messages s))", goal_cases)
  case (2 render batch n s r s1 recovered)
  then have d: "RecoverDispatchFailuresToOutbox render batch n s = (Inr recovered, s1)" by simp
  have "recovered \<noteq> 0" using 2 by auto
  from recover_shrinks [OF d this] show ?case by simp
qed simp

declare recover_loop.simps [simp del]

text \<open>
  Enough claims for one dispatcher call: one more than the sends the open jobs still have a
  budget for.
\<close>

definition claim_budget :: "db \<Rightarrow> nat" where
  "claim_budget s = Suc (sum_list (map (\<lambda>r. wt (view r)) (db_outbox s)))"

text \<open>
  One tenant of \<open>sweep\<close>: recovery, then one dispatcher call, on one connection. \<open>None\<close> would be
  a dispatcher call that exceeds its bound.
\<close>

definition outbox_tenant ::
  "(float64 \<Rightarrow> int) \<Rightarrow> (json \<Rightarrow> string) \<Rightarrow> channelOutboxWorker \<Rightarrow> db OutboxDispatcher \<Rightarrow> uuid \<Rightarrow>
   db world \<Rightarrow> db world option" where
  "outbox_tenant ovf render w d t wd =
     (case (acquire t (wd_q wd) :: (chan_error + unit) \<times> db) of
        (Inl _, s1) \<Rightarrow> Some (wd\<lparr>wd_q := s1\<rparr>)
      | (Inr _, s1) \<Rightarrow>
          (case recover_loop render (ow_recoveryBatchSize w) (ow_recoveryMaxAttempts w) s1 of
             (Inl _, s2) \<Rightarrow> Some (wd\<lparr>wd_q := reset_tenant s2\<rparr>)
           | (Inr _, s2) \<Rightarrow>
               map_option (\<lambda>(_, wd'). wd'\<lparr>wd_q := reset_tenant (wd_q wd')\<rparr>)
                 (DispatchOnce (claim_budget s2) ovf d (wd\<lparr>wd_q := s2\<rparr>))))"

fun outbox_tenants ::
  "(float64 \<Rightarrow> int) \<Rightarrow> (json \<Rightarrow> string) \<Rightarrow> channelOutboxWorker \<Rightarrow> db OutboxDispatcher \<Rightarrow> (nat \<Rightarrow> bool) \<Rightarrow>
   nat \<Rightarrow> uuid list \<Rightarrow> db world \<Rightarrow> db world option" where
  "outbox_tenants ovf render w d cancelled i [] wd = Some wd"
| "outbox_tenants ovf render w d cancelled i (t # ts) wd =
     (if cancelled i then Some wd
      else case outbox_tenant ovf render w d t wd of
          None \<Rightarrow> None
        | Some wd' \<Rightarrow> outbox_tenants ovf render w d cancelled (Suc i) ts wd')"

definition outbox_sweep ::
  "(float64 \<Rightarrow> int) \<Rightarrow> (json \<Rightarrow> string) \<Rightarrow> channelOutboxWorker \<Rightarrow> db OutboxDispatcher \<Rightarrow> (nat \<Rightarrow> bool) \<Rightarrow>
   db world \<Rightarrow> db world option" where
  "outbox_sweep ovf render w d cancelled wd =
     (case listTenantIDs (ow_tenantScanPageSize w) (wd_q wd) of
        (Inl _, s1) \<Rightarrow> Some (wd\<lparr>wd_q := s1\<rparr>)
      | (Inr tenantIDs, s1) \<Rightarrow>
          outbox_tenants ovf render w d cancelled 0 tenantIDs (wd\<lparr>wd_q := s1\<rparr>))"

text \<open>\<open>Run\<close>: a sweep at once and one for each of \<open>n\<close> ticks.\<close>

fun outbox_Run ::
  "(float64 \<Rightarrow> int) \<Rightarrow> (json \<Rightarrow> string) \<Rightarrow> channelOutboxWorker \<Rightarrow> db OutboxDispatcher \<Rightarrow>
   (nat \<Rightarrow> nat \<Rightarrow> bool) \<Rightarrow> nat \<Rightarrow> db world \<Rightarrow> db world option" where
  "outbox_Run ovf render w d cancelled 0 wd = outbox_sweep ovf render w d (cancelled 0) wd"
| "outbox_Run ovf render w d cancelled (Suc n) wd =
     Option.bind (outbox_Run ovf render w d cancelled n wd)
       (outbox_sweep ovf render w d (cancelled (Suc n)))"

section \<open>Facts about the tenant walk\<close>

lemma sort_split:
  fixes xs :: "'a::linorder list"
  assumes "distinct xs" "0 < n" "n \<le> length xs"
  shows "sort xs = take n (sort xs) @ sort (filter (\<lambda>x. last (take n (sort xs)) < x) xs)"
proof -
  let ?t = "take n (sort xs)" and ?d = "drop n (sort xs)"
  have ne: "?t \<noteq> []" using assms by (cases xs) auto
  have s: "sorted (?t @ ?d)" and di: "distinct (?t @ ?d)" using assms(1) by simp_all
  have last: "last ?t \<in> set ?t" using ne by simp
  have le: "\<forall>x \<in> set ?t. \<forall>y \<in> set ?d. x \<le> y" and st: "sorted ?t" and sd: "sorted ?d"
    using s unfolding sorted_append by blast+
  have ds: "set ?t \<inter> set ?d = {}" and dd: "distinct ?d" using di unfolding distinct_append by blast+
  have "set ?d = {x \<in> set xs. last ?t < x}"
  proof (rule set_eqI, rule iffI)
    fix x assume x: "x \<in> set ?d"
    then have "last ?t \<le> x" "last ?t \<noteq> x" using le ds last by blast+
    then show "x \<in> {x \<in> set xs. last ?t < x}" using x by (auto dest: in_set_dropD)
  next
    fix x assume x: "x \<in> {x \<in> set xs. last ?t < x}"
    then have "x \<in> set ?t \<union> set ?d" by (metis append_take_drop_id mem_Collect_eq set_append set_sort)
    moreover have "x \<notin> set ?t"
    proof
      assume "x \<in> set ?t"
      then obtain i where i: "i < length ?t" "?t ! i = x" by (auto simp: in_set_conv_nth)
      have "?t ! i \<le> ?t ! (length ?t - 1)"
        using i ne by (intro sorted_nth_mono [OF st]) auto
      then have "x \<le> last ?t" using i ne by (metis last_conv_nth)
      then show False using x by (metis leD mem_Collect_eq)
    qed
    ultimately show "x \<in> set ?d" by auto
  qed
  with sd dd have "?d = sort (filter (\<lambda>x. last ?t < x) xs)"
    using assms(1) by (intro sorted_distinct_set_unique) auto
  then show ?thesis by (metis append_take_drop_id)
qed

lemma tenant_pages_all:
  assumes "distinct (db_tenants s)" "n \<noteq> 0" "tenant_pages n cursor s = (Inr ids, s')"
  shows "ids = sort (filter (after cursor) (db_tenants s))"
  using assms
proof (induction n cursor s arbitrary: ids s' rule: tenant_pages.induct)
  case (1 n cursor s)
  let ?xs = "filter (after cursor) (db_tenants s)"
  obtain r :: "chan_error + uuid list" and s1 where q: "sql (tenant_page cursor n) s = (r, s1)" by fastforce
  with "1.prems"(3) obtain page where r: "r = Inr page"
    by (cases r) (auto simp: tenant_pages.simps [of n cursor s])
  from sql_tenant_page [OF q] r have page: "page = take n (sort ?xs)" and t: "db_tenants s1 = db_tenants s"
    by auto
  show ?case
  proof (cases "length page < n")
    case True
    then have "length ?xs < n" by (auto simp: page)
    with "1.prems"(3) q r True show ?thesis by (simp add: tenant_pages.simps [of n cursor s] page)
  next
    case False
    with "1.prems" q r obtain later s2 where
      l: "tenant_pages n (Some (last page)) s1 = (Inr later, s2)" and ids: "ids = page @ later"
      by (auto simp: tenant_pages.simps [of n cursor s] split: prod.splits sum.splits)
    have later: "later = sort (filter (after (Some (last page))) (db_tenants s))"
      using "1.IH" [OF q [symmetric] r _ _ _ l] False "1.prems" t by simp
    have len: "n \<le> length ?xs" using False by (simp add: page)
    then have "last page \<in> set ?xs" unfolding page using "1.prems"(2) by (intro last_take_sort) auto
    then have "filter (after (Some (last page))) (db_tenants s) = filter (\<lambda>x. last page < x) ?xs"
      by (auto simp: after_def split: option.splits intro!: filter_cong)
    with later ids sort_split [of ?xs n] "1.prems" len show ?thesis by (simp add: page)
  qed
qed

lemma tenant_pages_ok:
  "db_faults s = [] \<Longrightarrow> \<exists>ids. tenant_pages n cursor s = (Inr ids, s)"
proof (induction n cursor s rule: tenant_pages.induct)
  case (1 n cursor s)
  let ?page = "take n (sort (filter (after cursor) (db_tenants s)))"
  have q: "sql (tenant_page cursor n) s = (Inr ?page :: chan_error + _, s)"
    using "1.prems" by (simp add: tenant_page_def)
  show ?case
  proof (cases "length ?page < n \<or> n = 0")
    case True
    with q show ?thesis by (simp add: tenant_pages.simps [of n cursor s] del: length_take)
  next
    case False
    with "1.IH" [OF q [symmetric] refl False "1.prems"] q show ?thesis
      by (auto simp: tenant_pages.simps [of n cursor s] simp del: length_take)
  qed
qed

section \<open>Facts about the cleanup\<close>

lemma count_picked:
  assumes "distinct (map cm_ID (db_messages s))"
  shows "count_where (\<lambda>m. cm_ID m \<in> set (expired_ids now batch s)) (db_messages s) =
    min (nat batch) (count_where (expired_row s now) (db_messages s))"
  using length_picked [OF assms] unfolding count_where_def expired_ids_def by simp

lemma expired_ids_all:
  assumes "count_where (expired_row s now) (db_messages s) \<le> nat batch"
  shows "set (expired_ids now batch s) = cm_ID ` {m \<in> set (db_messages s). expired_row s now m}"
  using assms by (simp add: expired_ids_def select_order_limit_def count_where_def)

text \<open>What a finished cleanup of one tenant leaves behind.\<close>

definition expired_set :: "db \<Rightarrow> gotime \<Rightarrow> uuid set" where
  "expired_set s now = cm_ID ` {m \<in> set (db_messages s). expired_row s now m}"

definition cleaned :: "uuid set \<Rightarrow> db \<Rightarrow> db \<Rightarrow> bool" where
  "cleaned ids s s' \<longleftrightarrow>
     db_messages s' = filter (\<lambda>m. cm_ID m \<notin> ids) (db_messages s) \<and>
     db_outbox s' = filter (\<lambda>r. ob_ChannelMessageID r \<notin> ids) (db_outbox s) \<and>
     db_faults s' = [] \<and> db_locked s' = db_locked s \<and> db_tenants s' = db_tenants s"

lemma cleaned_trans: "cleaned i s s' \<Longrightarrow> cleaned j s' s'' \<Longrightarrow> cleaned (i \<union> j) s s''"
  by (auto simp: cleaned_def intro!: filter_cong)

lemma expired_ids_sub: "set (expired_ids now batch s) \<subseteq> expired_set s now"
  using set_select_order_limit_subset unfolding expired_ids_def expired_set_def by fastforce

lemma cleanup_loop_exact:
  assumes "distinct (map cm_ID (db_messages s))" "db_faults s = []" "0 < batch" "now \<noteq> 0"
  shows "\<exists>n s'. cleanup_loop now batch s = (Inr n, s') \<and> cleaned (expired_set s now) s s'"
  using assms
proof (induction now batch s rule: cleanup_loop.induct)
  case (1 now batch s)
  let ?ids = "expired_ids now batch s" and ?p = "\<lambda>m. cm_ID m \<in> set (expired_ids now batch s)"
  let ?n = "count_where ?p (db_messages s)" and ?s1 = "delete_messages ?ids s"
  have d: "DeleteExpiredMessages now batch s = (Inr ?n, ?s1)"
    using "1.prems" by (simp add: DeleteExpiredMessages_def delete_expired_stmt_def Let_def expired_ids_def wrap_err_def)
  note n = count_picked [OF "1.prems"(1), of now batch]
  have c1: "cleaned (set ?ids) s ?s1" using "1.prems"(2) by (simp add: cleaned_def)
  show ?case
  proof (cases "int ?n < batch")
    case True
    then have "count_where (expired_row s now) (db_messages s) \<le> nat batch" unfolding n by auto
    from expired_ids_all [OF this] have "set ?ids = expired_set s now" by (simp add: expired_set_def)
    with c1 d True show ?thesis by (simp add: cleanup_loop.simps [of now batch s])
  next
    case False
    have "distinct (map cm_ID (db_messages ?s1))" using "1.prems"(1) by (simp add: distinct_map_filter)
    then obtain k s' where l: "cleanup_loop now batch ?s1 = (Inr k, s')"
      and c2: "cleaned (expired_set ?s1 now) ?s1 s'"
      using "1.IH" [OF d [symmetric] refl False] "1.prems" by auto
    have e: "expired_row ?s1 now = expired_row s now" by (simp add: expired_row_def own_def fun_eq_iff)
    have "expired_set ?s1 now = cm_ID ` {m \<in> set (db_messages s). cm_ID m \<notin> set ?ids \<and> expired_row s now m}"
      by (simp add: expired_set_def e conj_assoc)
    then have "set ?ids \<union> expired_set ?s1 now = expired_set s now"
      using expired_ids_sub [of now batch s] by (auto simp: expired_set_def)
    with cleaned_trans [OF c1 c2] have "cleaned (expired_set s now) s s'" by simp
    with d l False show ?thesis by (simp add: cleanup_loop.simps [of now batch s])
  qed
qed

text \<open>The messages a cleanup of several tenants is meant to delete.\<close>

definition expired_of :: "uuid set \<Rightarrow> gotime \<Rightarrow> db \<Rightarrow> uuid set" where
  "expired_of T now s =
     cm_ID ` {m \<in> set (db_messages s). cm_TenantID m \<in> T \<and> cm_ExpiresAt m \<le> now \<and> cm_ID m \<notin> set (db_locked s)}"

lemma cleanup_connection:
  assumes "distinct (map cm_ID (db_messages s))" "db_faults s = []" "0 < batch" "now \<noteq> 0"
  shows "cleaned (expired_of {t} now s) s (snd (WithTenantConnection t (cleanup_loop now batch) s))"
proof -
  let ?s = "s\<lparr>db_tenant := Some t\<rparr>"
  from assms obtain n s' where l: "cleanup_loop now batch ?s = (Inr n, s')"
    and c: "cleaned (expired_set ?s now) ?s s'"
    using cleanup_loop_exact [of ?s batch now] by auto
  have "expired_set ?s now = expired_of {t} now s"
    by (auto simp: expired_set_def expired_of_def expired_row_def own_def)
  moreover have "snd (WithTenantConnection t (cleanup_loop now batch) s) = s'\<lparr>db_tenant := None\<rparr>"
    using connection_no_faults [where fn = "cleanup_loop now batch", OF assms(2) l] c
    by (simp add: cleaned_def)
  ultimately show ?thesis using c by (simp add: cleaned_def)
qed

lemma retention_tenants_exact:
  assumes "distinct (map cm_ID (db_messages s))" "db_faults s = []" "0 < batch" "now \<noteq> 0"
    and "\<And>i. \<not> cancelled i"
  shows "cleaned (expired_of (set ts) now s) s (retention_tenants cancelled now batch i ts s)"
  using assms(1,2)
proof (induction ts arbitrary: i s)
  case Nil
  then show ?case by (simp add: cleaned_def expired_of_def)
next
  case (Cons t ts)
  let ?s1 = "snd (WithTenantConnection t (cleanup_loop now batch) s)"
  have c1: "cleaned (expired_of {t} now s) s ?s1"
    by (rule cleanup_connection) (use Cons.prems assms in auto)
  then have s1: "db_messages ?s1 = filter (\<lambda>m. cm_ID m \<notin> expired_of {t} now s) (db_messages s)"
    "db_faults ?s1 = []" "db_locked ?s1 = db_locked s" by (simp_all add: cleaned_def)
  have c2: "cleaned (expired_of (set ts) now ?s1) ?s1 (retention_tenants cancelled now batch (Suc i) ts ?s1)"
    by (rule Cons.IH) (use Cons.prems s1 in \<open>simp_all add: distinct_map_filter\<close>)
  have "expired_of {t} now s \<union> expired_of (set ts) now ?s1 = expired_of (set (t # ts)) now s"
    unfolding expired_of_def [of "set ts" now ?s1] s1
    by (auto simp: expired_of_def)
  moreover have "retention_tenants cancelled now batch i (t # ts) s =
      retention_tenants cancelled now batch (Suc i) ts ?s1"
    using assms(5) [of i] by (simp only: retention_tenants.simps if_False)
  ultimately show ?case using cleaned_trans [OF c1 c2] by simp
qed

section \<open>Facts about the outbox sweep\<close>

lemma recover_stmt_outbox_inv: "1 \<le> n \<Longrightarrow> keeps outbox_inv (recover_failures_stmt render limit n)"
  using append_recovery_jobs_outbox [of _ n render limit]
  by (simp add: keeps_def recover_failures_alt Let_def outbox_inv_def)

lemma outbox_inv_blind: "session_blind outbox_inv"
  by (simp add: session_blind_def outbox_inv_def)

lemma Recover_outbox_inv: "keeps outbox_inv (RecoverDispatchFailuresToOutbox render limit n)"
  unfolding RecoverDispatchFailuresToOutbox_def [abs_def]
  by (intro keeps_wrap_err keeps_sql [OF session_blind_faults [OF outbox_inv_blind]] recover_stmt_outbox_inv) simp

lemma recover_loop_inv: "outbox_inv s \<Longrightarrow> outbox_inv (snd (recover_loop render batch n s))"
proof (induction render batch n s rule: recover_loop.induct)
  case (1 render batch n s)
  obtain r s1 where q: "RecoverDispatchFailuresToOutbox render batch n s = (r, s1)" by fastforce
  then have i: "outbox_inv s1" using keepsD [OF Recover_outbox_inv "1.prems"] by blast
  show ?case
  proof (cases r)
    case (Inr k)
    show ?thesis
    proof (cases "int k < max batch 1")
      case False
      with "1.IH" [OF q [symmetric] Inr False i] q Inr show ?thesis
        by (auto simp: recover_loop.simps [of render batch n s] split: prod.splits sum.splits)
    qed (use q i Inr in \<open>simp add: recover_loop.simps [of render batch n s]\<close>)
  qed (use q i in \<open>simp add: recover_loop.simps [of render batch n s]\<close>)
qed

lemma pot_le_budget:
  assumes "outbox_inv s"
  shows "pot (jobs_of s) < claim_budget s"
proof -
  let ?f = "\<lambda>r. wt (view r)"
  have sub: "dom (jobs_of s) \<subseteq> ob_ID ` set (db_outbox s)"
    by (auto simp: jobs_of_def dest!: find_SomeD)
  have inj: "inj_on ob_ID (set (db_outbox s))" and d: "distinct (db_outbox s)"
    using assms by (auto simp: outbox_inv_def distinct_map)
  let ?R = "{r \<in> set (db_outbox s). ob_ID r \<in> dom (jobs_of s)}"
  have im: "ob_ID ` ?R = dom (jobs_of s)" using sub by blast
  have v: "the (jobs_of s (ob_ID r)) = view r" if r: "r \<in> ?R" for r
  proof -
    from r obtain v where "jobs_of s (ob_ID r) = Some v" by auto
    then obtain r' where r': "find (\<lambda>x. ob_ID x = ob_ID r \<and> own s (ob_TenantID x)) (db_outbox s) = Some r'"
      "v = view r'" by (auto simp: jobs_of_def)
    with find_SomeD [OF r'(1)] have "r' \<in> set (db_outbox s)" "ob_ID r' = ob_ID r"
      "jobs_of s (ob_ID r) = Some (view r')" by (auto simp: jobs_of_def)
    with inj r show ?thesis by (auto dest: inj_onD)
  qed
  have "pot (jobs_of s) = (\<Sum>i \<in> ob_ID ` ?R. wt (the (jobs_of s i)))" by (simp only: im pot_def)
  also have "\<dots> = (\<Sum>r \<in> ?R. wt (the (jobs_of s (ob_ID r))))"
    by (rule sum.reindex_cong [OF inj_on_subset [OF inj]]) auto
  also have "\<dots> = sum ?f ?R" using v by (intro sum.cong) auto
  also have "\<dots> \<le> sum ?f (set (db_outbox s))" by (rule sum_mono2) auto
  also have "\<dots> = sum_list (map ?f (db_outbox s))" using d by (simp add: sum_list_distinct_conv_sum_set)
  finally show ?thesis by (simp add: claim_budget_def)
qed

definition screened :: "db OutboxDispatcher \<Rightarrow> db world \<Rightarrow> db world \<Rightarrow> bool" where
  "screened d w w' \<longleftrightarrow>
     outbox_inv (wd_q w') \<and>
     (\<exists>ss. wd_sends w' = wd_sends w @ ss \<and> (\<forall>j \<in> set ss. scan_verdict d j = Deliver))"

lemma screened_trans: "screened d w w' \<Longrightarrow> screened d w' w'' \<Longrightarrow> screened d w w''"
  by (auto simp: screened_def)

lemma screened_same: "outbox_inv s \<Longrightarrow> screened d w (w\<lparr>wd_q := s\<rparr>)"
  by (simp add: screened_def)

lemma outbox_tenant_screened:
  assumes "outbox_inv (wd_q wd)" "\<And>k. now k \<noteq> 0"
  shows "\<exists>wd'. outbox_tenant ovf render w (system_dispatcher wall sender cfg now jitter) t wd = Some wd' \<and>
    screened (system_dispatcher wall sender cfg now jitter) wd wd'"
proof -
  let ?d = "system_dispatcher wall sender cfg now jitter"
  obtain r1 :: "chan_error + unit" and s1 where a: "acquire t (wd_q wd) = (r1, s1)" by fastforce
  have i1: "outbox_inv s1"
    by (rule keepsD [OF acquire_keeps [OF outbox_inv_blind] assms(1) a])
  obtain r2 s2 where l: "recover_loop render (ow_recoveryBatchSize w) (ow_recoveryMaxAttempts w) s1 = (r2, s2)"
    by fastforce
  have i2: "outbox_inv s2" using recover_loop_inv [OF i1] l by (metis snd_conv)
  then have q2: "outbox_inv (wd_q (wd\<lparr>wd_q := s2\<rparr>))" by simp
  have "\<exists>r. DispatchOnce (claim_budget s2) ovf ?d (wd\<lparr>wd_q := s2\<rparr>) = Some r"
    by (rule dbd.DispatchOnce_terminates [OF q2 system_wired])
      (use pot_le_budget [OF i2] assms(2) in simp_all)
  then obtain n e wd' where d: "DispatchOnce (claim_budget s2) ovf ?d (wd\<lparr>wd_q := s2\<rparr>) = Some ((n, e), wd')"
    by (metis surj_pair)
  have "outbox_inv (wd_q wd') \<and> (\<exists>ss. wd_sends wd' = wd_sends wd @ ss \<and> (\<forall>j \<in> set ss. scan_verdict ?d j = Deliver))"
    using dbd.DispatchOnce_result [OF q2 system_wired _ d] assms(2) by simp
  then have sc: "screened ?d wd (wd'\<lparr>wd_q := reset_tenant (wd_q wd')\<rparr>)"
    using reset_tenant_keeps [OF outbox_inv_blind] by (auto simp: screened_def)
  show ?thesis
  proof (cases r1)
    case (Inl x)
    with a i1 show ?thesis by (simp add: outbox_tenant_def screened_same)
  next
    case (Inr u)
    show ?thesis
    proof (cases r2)
      case (Inl x)
      with a l i2 \<open>r1 = Inr u\<close> show ?thesis
        by (simp add: outbox_tenant_def screened_same reset_tenant_keeps [OF outbox_inv_blind])
    next
      case (Inr k)
      with a l d sc \<open>r1 = Inr u\<close> show ?thesis by (simp add: outbox_tenant_def)
    qed
  qed
qed

lemma outbox_tenants_screened:
  assumes "outbox_inv (wd_q wd)" "\<And>k. now k \<noteq> 0"
  shows "\<exists>wd'. outbox_tenants ovf render w (system_dispatcher wall sender cfg now jitter) cancelled i ts wd = Some wd' \<and>
    screened (system_dispatcher wall sender cfg now jitter) wd wd'"
  using assms(1)
proof (induction ts arbitrary: i wd)
  case Nil
  then show ?case by (simp add: screened_def)
next
  case (Cons t ts)
  let ?d = "system_dispatcher wall sender cfg now jitter"
  from outbox_tenant_screened [where now = now, OF Cons.prems assms(2)] obtain w1 where
    1: "outbox_tenant ovf render w ?d t wd = Some w1" "screened ?d wd w1" by blast
  then have "outbox_inv (wd_q w1)" by (simp add: screened_def)
  from Cons.IH [OF this, of "Suc i"] obtain w2 where
    2: "outbox_tenants ovf render w ?d cancelled (Suc i) ts w1 = Some w2" "screened ?d w1 w2" by blast
  have "screened ?d wd wd" using Cons.prems by (simp add: screened_def)
  with 1 2 screened_trans [OF 1(2) 2(2)] show ?case by simp
qed

lemma tenant_pages_inv: "outbox_inv s \<Longrightarrow> outbox_inv (snd (tenant_pages n cursor s))"
proof (induction n cursor s rule: tenant_pages.induct)
  case (1 n cursor s)
  obtain r :: "chan_error + uuid list" and s1 where q: "sql (tenant_page cursor n) s = (r, s1)" by fastforce
  have "keeps outbox_inv (tenant_page cursor n)" by (simp add: keeps_def tenant_page_def)
  then have i: "outbox_inv s1"
    using keepsD [OF keeps_sql [OF session_blind_faults [OF outbox_inv_blind]] "1.prems" q] by blast
  show ?case
  proof (cases r)
    case (Inr ids)
    show ?thesis
    proof (cases "length ids < n \<or> n = 0")
      case False
      with "1.IH" [OF q [symmetric] Inr False i] q Inr show ?thesis
        by (auto simp: tenant_pages.simps [of n cursor s] split: prod.splits sum.splits)
    qed (use q i Inr in \<open>simp add: tenant_pages.simps [of n cursor s]\<close>)
  qed (use q i in \<open>simp add: tenant_pages.simps [of n cursor s]\<close>)
qed

section \<open>Properties\<close>

text \<open>
  The paged walk over the tenants is equivalent to one ordered query: for every positive
  page size it ends, and without driver faults it returns every tenant exactly once, in order,
  and leaves the database alone.
\<close>

theorem tenant_walk_complete:
  assumes "distinct (db_tenants s)" "db_faults s = []" "0 < pageSize"
  shows "listTenantIDs pageSize s = (Inr (sort (db_tenants s)), s)"
proof -
  from tenant_pages_ok [OF assms(2)] obtain ids where
    p: "tenant_pages (nat pageSize) None s = (Inr ids, s)" by blast
  have "ids = sort (filter (after None) (db_tenants s))"
    by (rule tenant_pages_all [OF assms(1) _ p]) (use assms(3) in simp)
  with p assms(3) show ?thesis by (simp add: listTenantIDs_def after_def [abs_def])
qed

definition worker_sample :: db where
  "worker_sample = channel_sample\<lparr>db_tenant := None, db_tenants := [9, 7, 8]\<rparr>"

theorem tenant_walk_complete_witness:
  "listTenantIDs 2 worker_sample = (Inr [7, 8, 9], worker_sample)"
proof -
  have "listTenantIDs 2 worker_sample = (Inr (sort (db_tenants worker_sample)), worker_sample)"
    by (rule tenant_walk_complete) (simp_all add: worker_sample_def channel_sample_defs)
  moreover have "sort (db_tenants worker_sample) = [7, 8, 9]" by code_simp
  ultimately show ?thesis by simp
qed

text \<open>A retention sweep reaches its goal. Without driver faults and cancellation it deletes
  exactly the messages of the known tenants that expired by the time of the sweep and that no
  other session holds, and with them every outbox job of such a message, whatever its state:
  a reply that is still waiting to be delivered is dropped as well.
\<close>

theorem retention_sweep_exact:
  assumes "messages_inv s" "db_faults s = []" "distinct (db_tenants s)"
    and "buildChannelRetentionWorker cfg = Some w" "now \<noteq> 0" "\<And>i. \<not> cancelled i"
  shows "let gone = (\<lambda>m. cm_TenantID m \<in> set (db_tenants s) \<and> cm_ExpiresAt m \<le> now \<and>
               cm_ID m \<notin> set (db_locked s));
             s' = retention_sweep w cancelled now s in
         db_messages s' = filter (\<lambda>m. \<not> gone m) (db_messages s) \<and>
         db_outbox s' = filter (\<lambda>r. \<forall>m \<in> set (db_messages s). gone m \<longrightarrow> ob_ChannelMessageID r \<noteq> cm_ID m)
           (db_outbox s)"
proof -
  let ?gone = "\<lambda>m. cm_TenantID m \<in> set (db_tenants s) \<and> cm_ExpiresAt m \<le> now \<and> cm_ID m \<notin> set (db_locked s)"
  have w: "0 < rw_tenantScanPageSize w" "0 < rw_batchSize w"
    using assms(4) by (auto simp: buildChannelRetentionWorker_def Let_def defaultTenantScanPageSize_def
        split: if_splits)
  have d: "distinct (map cm_ID (db_messages s))" using assms(1) by (simp add: messages_inv_def)
  from tenant_pages_ok [OF assms(2)] obtain ids where
    p: "tenant_pages (nat (rw_tenantScanPageSize w)) None s = (Inr ids, s)" by blast
  have ids: "set ids = set (db_tenants s)"
    using tenant_pages_all [OF assms(3) _ p] w by (simp add: after_def [abs_def])
  have "cleaned (expired_of (set ids) now s) s (retention_tenants cancelled now (rw_batchSize w) 0 ids s)"
    by (rule retention_tenants_exact [OF d assms(2) w(2) assms(5,6)])
  moreover have "retention_sweep w cancelled now s = retention_tenants cancelled now (rw_batchSize w) 0 ids s"
    using p w by (simp add: retention_sweep_def listTenantIDs_def)
  ultimately have c: "cleaned (cm_ID ` {m \<in> set (db_messages s). ?gone m}) s (retention_sweep w cancelled now s)"
    by (simp add: expired_of_def ids)
  have "filter (\<lambda>m. cm_ID m \<notin> cm_ID ` {m \<in> set (db_messages s). ?gone m}) (db_messages s) =
      filter (\<lambda>m. \<not> ?gone m) (db_messages s)"
    using d by (intro filter_cong) (auto simp: distinct_map dest: inj_onD)
  moreover have "filter (\<lambda>r. ob_ChannelMessageID r \<notin> cm_ID ` {m \<in> set (db_messages s). ?gone m}) (db_outbox s) =
      filter (\<lambda>r. \<forall>m \<in> set (db_messages s). ?gone m \<longrightarrow> ob_ChannelMessageID r \<noteq> cm_ID m) (db_outbox s)"
    by (intro filter_cong) auto
  ultimately show ?thesis using c unfolding cleaned_def Let_def by (simp only:)
qed

definition worker_config :: ChannelsConfig where
  "worker_config =
     (let p = \<lparr>pv_Enabled = True, pv_SigningSecret = [], pv_SecretToken = [], pv_APIBaseURL = [],
               pv_APIVersion = [], pv_AccessToken = [], pv_PhoneNumberID = []\<rparr> in
      \<lparr>ch_Ingress = \<lparr>ig_Enabled = True, ig_ReplayWindowSeconds = 0, ig_TenantScanPageSize = 0,
         ig_RetentionCleanupEnabled = True, ig_RetentionCleanupIntervalSeconds = 0,
         ig_RetentionCleanupBatchSize = 1\<rparr>,
       ch_CredentialsKey = [], ch_Providers = \<lparr>ps_Slack = p, ps_WhatsApp = p, ps_Telegram = p\<rparr>,
       ch_Outbox = \<lparr>oc_Enabled = True, oc_PollIntervalSeconds = 2, oc_TenantScanPageSize = 2,
         oc_ClaimBatchSize = 5, oc_RecoveryBatchSize = 5, oc_LockTimeoutSeconds = 30, oc_MaxAttempts = 5,
         oc_BaseRetrySeconds = 5, oc_MaxRetrySeconds = 60, oc_JitterFraction = 0\<rparr>\<rparr>)"

theorem retention_sweep_exact_witness:
  "\<exists>w. buildChannelRetentionWorker worker_config = Some w \<and>
     db_messages (retention_sweep w (\<lambda>_. False) 60 worker_sample) = [] \<and>
     db_outbox (retention_sweep w (\<lambda>_. False) 60 worker_sample) = []"
proof -
  obtain w where w: "buildChannelRetentionWorker worker_config = Some w"
    by (simp add: buildChannelRetentionWorker_def worker_config_def Let_def)
  have "messages_inv worker_sample" "db_faults worker_sample = []" "distinct (db_tenants worker_sample)"
    by (simp_all add: worker_sample_def channel_sample_defs messages_inv_def message_keys_def)
  note exact = retention_sweep_exact [OF this w, of 60 "\<lambda>_. False"]
  have t: "db_messages worker_sample = [sample_message 1 ''k1'' ''accepted'' (JObj [])]"
    "db_outbox worker_sample = [(sample_job 2 7 OutboxStatusPending 4)\<lparr>ob_ChannelMessageID := 1\<rparr>]"
    "db_tenants worker_sample = [9, 7, 8]" "db_locked worker_sample = []"
    by (simp_all add: worker_sample_def channel_sample_def empty_db_def)
  have "db_messages (retention_sweep w (\<lambda>_. False) 60 worker_sample) = [] \<and>
      db_outbox (retention_sweep w (\<lambda>_. False) 60 worker_sample) = []"
    using exact by (simp add: t sample_message_def sample_job_def Let_def)
  with w show ?thesis by blast
qed

text \<open>A sweep of the outbox worker always ends, whatever the providers answer and whatever
  driver faults occur; it leaves the outbox well formed, and everything it handed to a provider,
  for whatever tenant, had passed the outbound scan.
\<close>

theorem outbox_sweep_ends_screened:
  assumes "outbox_inv (wd_q wd)" "\<And>k. now k \<noteq> 0"
  shows "\<exists>wd'. outbox_sweep ovf render w (system_dispatcher wall sender cfg now jitter) cancelled wd = Some wd' \<and>
    screened (system_dispatcher wall sender cfg now jitter) wd wd'"
proof -
  let ?d = "system_dispatcher wall sender cfg now jitter"
  obtain r s1 where l: "listTenantIDs (ow_tenantScanPageSize w) (wd_q wd) = (r, s1)" by fastforce
  have i: "outbox_inv s1"
    using l assms(1) tenant_pages_inv [OF assms(1), of "nat (ow_tenantScanPageSize w)" None]
    by (auto simp: listTenantIDs_def split: if_splits)
  show ?thesis
  proof (cases r)
    case (Inl e)
    with l i show ?thesis by (simp add: outbox_sweep_def screened_same)
  next
    case (Inr ts)
    have "outbox_inv (wd_q (wd\<lparr>wd_q := s1\<rparr>))" using i by simp
    from outbox_tenants_screened [where now = now, OF this assms(2)] obtain wd' where
      "outbox_tenants ovf render w ?d cancelled 0 ts (wd\<lparr>wd_q := s1\<rparr>) = Some wd'"
      "screened ?d (wd\<lparr>wd_q := s1\<rparr>) wd'" by blast
    with l Inr show ?thesis by (simp add: outbox_sweep_def screened_def)
  qed
qed

theorem outbox_sweep_ends_screened_witness:
  "\<exists>st w wd'. buildChannelOutboxWorker worker_config = Inr (Some (st, w)) \<and>
     outbox_sweep (\<lambda>_. 0) (\<lambda>_. []) w sample_system (\<lambda>_. False) (sample_world sample_db) = Some wd' \<and>
     outbox_inv (wd_q wd')"
proof -
  obtain st w where b: "buildChannelOutboxWorker worker_config = Inr (Some (st, w))"
    by (simp add: buildChannelOutboxWorker_def buildChannelStore_def worker_config_def Let_def)
  have "outbox_inv (wd_q (sample_world sample_db))" by (simp add: sample_world_def sample_inv)
  from outbox_sweep_ends_screened [OF this, of "\<lambda>_. 20" "\<lambda>_. 0" "\<lambda>_. []" w 1 "\<lambda>_ _. None" sample_config "\<lambda>_. 0" "\<lambda>_. False"]
  obtain wd' where "outbox_sweep (\<lambda>_. 0) (\<lambda>_. []) w sample_system (\<lambda>_. False) (sample_world sample_db) = Some wd'"
    "outbox_inv (wd_q wd')" unfolding sample_system_def screened_def by auto
  with b show ?thesis by blast
qed

end
