(* ===== verification/Outbox_Senders.thy ===== *)
theory Outbox_Senders
  imports Channel_Config Outbox_Errors
begin

text \<open>
  Delivery to the providers: \<open>cmd/heimdall/channels_outbox_sender_http.go\<close>,
  \<open>..._slack.go\<close>, \<open>..._telegram.go\<close> and \<open>..._whatsapp.go\<close> with the routing sender and the
  credential resolver. The network is the argument \<open>client\<close>: what \<open>http.Client.Do\<close> answers to
  a request. Of a response the code reads the status, the first four kilobytes of the body
  (as text, and as the JSON value in it) and the \<open>Retry-After\<close> header.
\<close>

section \<open>HTTP\<close>

record http_request =
  hr_URL :: string
  hr_Headers :: "(string \<times> string) list"
  hr_Body :: json

record http_response =
  hs_StatusCode :: int
  hs_Body :: string
  hs_JSON :: raw_json
  hs_RetryAfter :: string

text \<open>
  \<open>valid_url\<close> says which endpoints \<open>http.NewRequest\<close> accepts; \<open>parse_time\<close> is
  \<open>http.ParseTime\<close>; \<open>now\<close> is \<open>time.Now().UTC()\<close>.
\<close>

record http_env =
  he_valid_url :: "string \<Rightarrow> bool"
  he_do :: "http_request \<Rightarrow> string + http_response"
  he_parse_time :: "string \<Rightarrow> gotime option"
  he_now :: gotime

definition status_texts :: "(int \<times> string) list" where
  "status_texts =
     [(100, ''Continue''), (101, ''Switching Protocols''), (102, ''Processing''), (103, ''Early Hints''),
      (200, ''OK''), (201, ''Created''), (202, ''Accepted''), (203, ''Non-Authoritative Information''),
      (204, ''No Content''), (205, ''Reset Content''), (206, ''Partial Content''), (207, ''Multi-Status''),
      (208, ''Already Reported''), (226, ''IM Used''),
      (300, ''Multiple Choices''), (301, ''Moved Permanently''), (302, ''Found''), (303, ''See Other''),
      (304, ''Not Modified''), (305, ''Use Proxy''), (307, ''Temporary Redirect''), (308, ''Permanent Redirect''),
      (400, ''Bad Request''), (401, ''Unauthorized''), (402, ''Payment Required''), (403, ''Forbidden''),
      (404, ''Not Found''), (405, ''Method Not Allowed''), (406, ''Not Acceptable''),
      (407, ''Proxy Authentication Required''), (408, ''Request Timeout''), (409, ''Conflict''), (410, ''Gone''),
      (411, ''Length Required''), (412, ''Precondition Failed''), (413, ''Request Entity Too Large''),
      (414, ''Request URI Too Long''), (415, ''Unsupported Media Type''),
      (416, ''Requested Range Not Satisfiable''), (417, ''Expectation Failed''), (418, ''I'' @ [CHR 0x27] @ ''m a teapot''),
      (421, ''Misdirected Request''), (422, ''Unprocessable Entity''), (423, ''Locked''),
      (424, ''Failed Dependency''), (425, ''Too Early''), (426, ''Upgrade Required''),
      (428, ''Precondition Required''), (429, ''Too Many Requests''), (431, ''Request Header Fields Too Large''),
      (451, ''Unavailable For Legal Reasons''), (500, ''Internal Server Error''), (501, ''Not Implemented''),
      (502, ''Bad Gateway''), (503, ''Service Unavailable''), (504, ''Gateway Timeout''),
      (505, ''HTTP Version Not Supported''), (506, ''Variant Also Negotiates''), (507, ''Insufficient Storage''),
      (508, ''Loop Detected''), (510, ''Not Extended''), (511, ''Network Authentication Required'')]"

definition StatusText :: "int \<Rightarrow> string" where
  "StatusText code = (case map_of status_texts code of None \<Rightarrow> [] | Some t \<Rightarrow> t)"

section \<open>Classifying responses\<close>

definition isPermanentOutboxHTTPStatus :: "int \<Rightarrow> bool" where
  "isPermanentOutboxHTTPStatus status =
     (if status = 408 \<or> status = 429 then False else 400 \<le> status \<and> status < 500)"

definition second_ns :: duration where
  "second_ns = 1000000000"

definition parseRetryAfterDuration :: "http_env \<Rightarrow> string \<Rightarrow> duration option" where
  "parseRetryAfterDuration env headerValue =
     (let value = TrimSpace headerValue in
      if value = [] then None
      else case Atoi value of
          Some seconds \<Rightarrow> if seconds > 0 then Some (wrap64 (seconds * second_ns)) else None
        | None \<Rightarrow>
            (case he_parse_time env value of
               None \<Rightarrow> None
             | Some retryAt \<Rightarrow>
                 (let delay = max (- (2 ^ 63)) (min (2 ^ 63 - 1) (retryAt - he_now env)) in
                  if delay \<le> 0 then None else Some delay)))"

definition classifyOutboxHTTPStatus ::
  "http_env \<Rightarrow> string \<Rightarrow> int \<Rightarrow> string \<Rightarrow> string \<Rightarrow> send_error option" where
  "classifyOutboxHTTPStatus env provider status message retryAfterHeader =
     (let msg = TrimSpace message;
          msg = (if msg = [] then StatusText status else msg);
          err = Some (PlainError (provider @ '' send failed: status '' @ Itoa status @ '': '' @ msg)) in
      if isPermanentOutboxHTTPStatus status then NewOutboxPermanentError err
      else case parseRetryAfterDuration env retryAfterHeader of
          Some retryAfter \<Rightarrow> NewOutboxTransientErrorWithRetryAfter err retryAfter
        | None \<Rightarrow> err)"

text \<open>
  The steps the three senders share: sending the request, and the check of the status. A
  response that passed the check is returned.
\<close>

definition post ::
  "http_env \<Rightarrow> string \<Rightarrow> http_request \<Rightarrow> send_error + http_response" where
  "post env provider req =
     (if \<not> he_valid_url env (hr_URL req) then
        Inl (PlainError (''building '' @ provider @ '' request''))
      else case he_do env req of
          Inl e \<Rightarrow> Inl (WrapError (''sending '' @ provider @ '' request'') (PlainError e))
        | Inr resp \<Rightarrow>
            if hs_StatusCode resp < 200 \<or> hs_StatusCode resp \<ge> 300 then
              (let msg = TrimSpace (hs_Body resp);
                   msg = (if msg = [] then StatusText (hs_StatusCode resp) else msg) in
               case classifyOutboxHTTPStatus env provider (hs_StatusCode resp) msg (hs_RetryAfter resp) of
                 Some e \<Rightarrow> Inl e
               | None \<Rightarrow> Inr resp)
            else Inr resp)"

text \<open>The trimmed content and recipient of a job, or why there is nothing to send.\<close>

definition required ::
  "string option \<Rightarrow> ChannelOutbox \<Rightarrow> send_error + (string \<times> string)" where
  "required content job =
     (case content of
        None \<Rightarrow> Inl (PlainError ''decoding outbox payload'')
      | Some c \<Rightarrow>
          if TrimSpace c = [] then Inl (PlainError ''outbox payload content is required'')
          else if TrimSpace (ob_RecipientID job) = [] then
            Inl (PlainError ''outbox recipient id is required'')
          else Inr (TrimSpace c, TrimSpace (ob_RecipientID job)))"

text \<open>
  The payload struct: a field of another type makes the whole decoding fail, also a field the
  sender does not use.
\<close>

definition decode_payload :: "string list \<Rightarrow> raw_json \<Rightarrow> (string \<times> json) list option" where
  "decode_payload names payload =
     (case object_entries payload of
        None \<Rightarrow> None
      | Some kvs \<Rightarrow> if \<forall>n \<in> set names. string_field n kvs \<noteq> None then Some kvs else None)"

definition payload_string :: "string \<Rightarrow> (string \<times> json) list \<Rightarrow> string" where
  "payload_string name kvs = (case string_field name kvs of None \<Rightarrow> [] | Some v \<Rightarrow> v)"

definition TrimRight_slash :: "string \<Rightarrow> string" where
  "TrimRight_slash s = rev (dropWhile (\<lambda>c. c = CHR ''/'') (rev s))"

definition Trim_slash :: "string \<Rightarrow> string" where
  "Trim_slash s = TrimRight_slash (dropWhile (\<lambda>c. c = CHR ''/'') s)"

section \<open>Slack\<close>

record slackOutboxSender =
  sl_apiBaseURL :: string
  sl_accessToken :: string

definition newSlackOutboxSender :: "ChannelProviderConfig \<Rightarrow> slackOutboxSender" where
  "newSlackOutboxSender cfg =
     (let apiBaseURL = TrimSpace (pv_APIBaseURL cfg);
          apiBaseURL = (if apiBaseURL = [] then ''https://slack.com'' else apiBaseURL) in
      \<lparr>sl_apiBaseURL = TrimRight_slash apiBaseURL, sl_accessToken = TrimSpace (pv_AccessToken cfg)\<rparr>)"

definition slack_request ::
  "slackOutboxSender \<Rightarrow> string \<Rightarrow> string \<Rightarrow> string \<Rightarrow> http_request" where
  "slack_request s content recipientID threadTS =
     \<lparr>hr_URL = sl_apiBaseURL s @ ''/api/chat.postMessage'',
      hr_Headers = [(''Authorization'', ''Bearer '' @ sl_accessToken s), (''Content-Type'', ''application/json'')],
      hr_Body = JObj ([(''channel'', JStr recipientID), (''text'', JStr content),
                       (''unfurl_links'', JBool False)] @
                      (if threadTS = [] then [] else [(''thread_ts'', JStr threadTS)]))\<rparr>"

text \<open>The \<open>ok\<close> flag of a response body and the text that explains a refusal.\<close>

definition semantic_check ::
  "string \<Rightarrow> string \<Rightarrow> http_response \<Rightarrow> send_error option" where
  "semantic_check provider textField resp =
     (case object_entries (hs_JSON resp) of
        None \<Rightarrow> Some (PlainError (''decoding '' @ provider @ '' response''))
      | Some kvs \<Rightarrow>
          (case (bool_field ''ok'' kvs, string_field textField kvs) of
             (Some ok, Some text) \<Rightarrow>
               if ok then None
               else (let errMsg = TrimSpace text;
                         errMsg = (if errMsg = [] then ''unknown error'' else errMsg) in
                     NewOutboxPermanentError (Some (PlainError (provider @ '' send failed: '' @ errMsg))))
           | _ \<Rightarrow> Some (PlainError (''decoding '' @ provider @ '' response''))))"

definition slack_Send :: "http_env \<Rightarrow> slackOutboxSender \<Rightarrow> ChannelOutbox \<Rightarrow> send_error option" where
  "slack_Send env s job =
     (let kvs = decode_payload [''content'', ''correlation_id'', ''thread_ts''] (ob_Payload job) in
      case required (map_option (payload_string ''content'') kvs) job of
        Inl e \<Rightarrow> Some e
      | Inr (content, recipientID) \<Rightarrow>
          (case post env ''slack''
                  (slack_request s content recipientID (TrimSpace (payload_string ''thread_ts'' (the kvs)))) of
             Inl e \<Rightarrow> Some e
           | Inr resp \<Rightarrow> semantic_check ''slack'' ''error'' resp))"

section \<open>Telegram\<close>

record telegramOutboxSender =
  tg_apiBaseURL :: string
  tg_accessToken :: string

definition newTelegramOutboxSender :: "ChannelProviderConfig \<Rightarrow> telegramOutboxSender" where
  "newTelegramOutboxSender cfg =
     (let apiBaseURL = TrimSpace (pv_APIBaseURL cfg);
          apiBaseURL = (if apiBaseURL = [] then ''https://api.telegram.org'' else apiBaseURL) in
      \<lparr>tg_apiBaseURL = TrimRight_slash apiBaseURL, tg_accessToken = TrimSpace (pv_AccessToken cfg)\<rparr>)"

definition telegram_request :: "telegramOutboxSender \<Rightarrow> string \<Rightarrow> string \<Rightarrow> http_request" where
  "telegram_request s content recipientID =
     \<lparr>hr_URL = tg_apiBaseURL s @ ''/bot'' @ tg_accessToken s @ ''/sendMessage'',
      hr_Headers = [(''Content-Type'', ''application/json'')],
      hr_Body = JObj [(''chat_id'', JStr recipientID), (''text'', JStr content),
                      (''disable_web_page_preview'', JBool True)]\<rparr>"

definition telegram_Send :: "http_env \<Rightarrow> telegramOutboxSender \<Rightarrow> ChannelOutbox \<Rightarrow> send_error option" where
  "telegram_Send env s job =
     (case required (map_option (payload_string ''content'')
             (decode_payload [''content'', ''correlation_id''] (ob_Payload job))) job of
        Inl e \<Rightarrow> Some e
      | Inr (content, recipientID) \<Rightarrow>
          (case post env ''telegram'' (telegram_request s content recipientID) of
             Inl e \<Rightarrow> Some e
           | Inr resp \<Rightarrow> semantic_check ''telegram'' ''description'' resp))"

section \<open>WhatsApp\<close>

record whatsAppOutboxSender =
  wa_apiBaseURL :: string
  wa_apiVersion :: string
  wa_accessToken :: string
  wa_phoneNumberID :: string

definition newWhatsAppOutboxSender :: "ChannelProviderConfig \<Rightarrow> whatsAppOutboxSender" where
  "newWhatsAppOutboxSender cfg =
     (let apiBaseURL = TrimSpace (pv_APIBaseURL cfg);
          apiBaseURL = (if apiBaseURL = [] then ''https://graph.facebook.com'' else apiBaseURL);
          apiVersion = Trim_slash (TrimSpace (pv_APIVersion cfg));
          apiVersion = (if apiVersion = [] then ''v22.0'' else apiVersion) in
      \<lparr>wa_apiBaseURL = TrimRight_slash apiBaseURL, wa_apiVersion = apiVersion,
       wa_accessToken = TrimSpace (pv_AccessToken cfg),
       wa_phoneNumberID = TrimSpace (pv_PhoneNumberID cfg)\<rparr>)"

text \<open>\<open>url.PathEscape\<close>\<close>

definition hex_digit :: "nat \<Rightarrow> char" where
  "hex_digit n = ''0123456789ABCDEF'' ! (n mod 16)"

definition path_safe :: "char \<Rightarrow> bool" where
  "path_safe c \<longleftrightarrow>
     (let n = (of_char c :: nat) in
      (48 \<le> n \<and> n \<le> 57) \<or> (65 \<le> n \<and> n \<le> 90) \<or> (97 \<le> n \<and> n \<le> 122) \<or>
      c \<in> set ''-_.~$&+=:@'')"

definition PathEscape :: "string \<Rightarrow> string" where
  "PathEscape s =
     concat (map (\<lambda>c. if path_safe c then [c]
                      else [CHR ''%'', hex_digit (of_char c div 16), hex_digit (of_char c)]) s)"

definition whatsapp_request :: "whatsAppOutboxSender \<Rightarrow> string \<Rightarrow> string \<Rightarrow> http_request" where
  "whatsapp_request s content recipientID =
     \<lparr>hr_URL = wa_apiBaseURL s @ ''/'' @ wa_apiVersion s @ ''/'' @ PathEscape (wa_phoneNumberID s) @ ''/messages'',
      hr_Headers = [(''Authorization'', ''Bearer '' @ wa_accessToken s), (''Content-Type'', ''application/json'')],
      hr_Body = JObj [(''messaging_product'', JStr ''whatsapp''), (''to'', JStr recipientID),
                      (''type'', JStr ''text''),
                      (''text'', JObj [(''body'', JStr content), (''preview_url'', JBool False)])]\<rparr>"

definition whatsapp_Send :: "http_env \<Rightarrow> whatsAppOutboxSender \<Rightarrow> ChannelOutbox \<Rightarrow> send_error option" where
  "whatsapp_Send env s job =
     (case required (map_option (payload_string ''content'')
             (decode_payload [''content'', ''correlation_id''] (ob_Payload job))) job of
        Inl e \<Rightarrow> Some e
      | Inr (content, recipientID) \<Rightarrow>
          (case post env ''whatsapp'' (whatsapp_request s content recipientID) of
             Inl e \<Rightarrow> Some e
           | Inr resp \<Rightarrow> None))"

section \<open>Credentials and routing\<close>

definition baseProviderConfig ::
  "ChannelsProvidersConfig \<Rightarrow> string \<Rightarrow> chan_error + ChannelProviderConfig" where
  "baseProviderConfig providers provider =
     (if provider = ''slack'' then Inr (ps_Slack providers)
      else if provider = ''telegram'' then Inr (ps_Telegram providers)
      else if provider = ''whatsapp'' then Inr (ps_WhatsApp providers)
      else Inl (Sentinel ErrProviderUnsupported))"

text \<open>The tenant of a job is a UUID, whose text is never blank.\<close>

definition Resolve ::
  "Store \<Rightarrow> ChannelsProvidersConfig \<Rightarrow> uuid \<Rightarrow> string \<Rightarrow> ChannelProviderConfig chan_op" where
  "Resolve st providers tenantID provider s =
     (let normalizedProvider = ToLower (TrimSpace provider) in
      case baseProviderConfig providers normalizedProvider of
        Inl e \<Rightarrow> (Inl e, s)
      | Inr baseCfg \<Rightarrow>
          if \<not> pv_Enabled baseCfg then (Inl (Sentinel ErrProviderUnsupported), s)
          else case WithTenantConnection tenantID (GetProviderCredential st normalizedProvider) s of
              (Inl e, s1) \<Rightarrow> (Inl e, s1)
            | (Inr credential, s1) \<Rightarrow>
                (let override = (\<lambda>v old. if TrimSpace v = [] then old else TrimSpace v);
                     cfg = baseCfg\<lparr>pv_AccessToken := TrimSpace (pc_AccessToken credential),
                             pv_APIBaseURL := override (pc_APIBaseURL credential) (pv_APIBaseURL baseCfg),
                             pv_APIVersion := override (pc_APIVersion credential) (pv_APIVersion baseCfg),
                             pv_PhoneNumberID := override (pc_PhoneNumberID credential) (pv_PhoneNumberID baseCfg)\<rparr> in
                 if TrimSpace (pv_AccessToken cfg) = [] then
                   (Inl (Sentinel ErrProviderAccessTokenRequired), s1)
                 else if normalizedProvider = ''whatsapp'' \<and> TrimSpace (pv_PhoneNumberID cfg) = [] then
                   (Inl (Sentinel ErrProviderPhoneNumberIDRequired), s1)
                 else (Inr cfg, s1)))"

definition isOutboxCredentialResolutionPermanent :: "chan_error \<Rightarrow> bool" where
  "isOutboxCredentialResolutionPermanent err =
     (if errors_Is err ErrProviderCredentialNotFound then True
      else if errors_Is err ErrProviderUnsupported then True
      else if errors_Is err ErrProviderAccessTokenRequired then True
      else if errors_Is err ErrProviderPhoneNumberIDRequired then True
      else if errors_Is err ErrProviderCredentialCipherRequired then True
      else if errors_Is err ErrProviderCredentialDecryptFailed then True
      else if errors_Is err ErrPlatformEmpty then True
      else False)"

text \<open>\<open>buildChannelOutboxSender\<close>: the providers that are enabled, each with its constructor.\<close>

definition buildChannelOutboxSender ::
  "http_env \<Rightarrow> ChannelsConfig \<Rightarrow> string \<Rightarrow>
   (ChannelProviderConfig \<Rightarrow> ChannelOutbox \<Rightarrow> send_error option) option" where
  "buildChannelOutboxSender env cfg provider =
     (if provider = ''slack'' \<and> pv_Enabled (ps_Slack (ch_Providers cfg)) then
        Some (\<lambda>c. slack_Send env (newSlackOutboxSender c))
      else if provider = ''telegram'' \<and> pv_Enabled (ps_Telegram (ch_Providers cfg)) then
        Some (\<lambda>c. telegram_Send env (newTelegramOutboxSender c))
      else if provider = ''whatsapp'' \<and> pv_Enabled (ps_WhatsApp (ch_Providers cfg)) then
        Some (\<lambda>c. whatsapp_Send env (newWhatsAppOutboxSender c))
      else None)"

text \<open>The text of a store error inside a send error.\<close>

primrec error_text :: "('e \<Rightarrow> string) \<Rightarrow> 'e go_error \<Rightarrow> send_error" where
  "error_text txt (Sentinel e) = PlainError (txt e)"
| "error_text txt (NewError m) = PlainError m"
| "error_text txt (DBError m) = PlainError m"
| "error_text txt (Wrap m e) = WrapError m (error_text txt e)"

definition routing_Send ::
  "http_env \<Rightarrow> (chan_sentinel \<Rightarrow> string) \<Rightarrow> Store \<Rightarrow> ChannelsConfig \<Rightarrow> ChannelOutbox \<Rightarrow> db \<Rightarrow>
   send_error option \<times> db" where
  "routing_Send env txt st cfg job s =
     (let provider = ToLower (TrimSpace (ob_Provider job)) in
      case buildChannelOutboxSender env cfg provider of
        None \<Rightarrow> (Some (PlainError (''unsupported outbox provider: '' @ provider)), s)
      | Some buildSender \<Rightarrow>
          (case Resolve st (ch_Providers cfg) (ob_TenantID job) provider s of
             (Inl e, s1) \<Rightarrow>
               (let err = WrapError ''resolving provider credential'' (error_text txt e) in
                if isOutboxCredentialResolutionPermanent e
                then (NewOutboxPermanentError (Some err), s1) else (Some err, s1))
           | (Inr credentialCfg, s1) \<Rightarrow> (buildSender credentialCfg job, s1)))"

section \<open>What a send amounts to\<close>

text \<open>
  The abstract outcome of a send, as the dispatcher sees it, and what it should be for a
  response: a refusal the provider will repeat is permanent, anything else is worth a retry,
  after the delay the provider asks for.
\<close>

datatype send_verdict = Delivered | Permanent | RetryAfter "duration option"

definition verdict_of_send :: "send_error option \<Rightarrow> send_verdict" where
  "verdict_of_send r =
     (if r = None then Delivered
      else if IsOutboxPermanentError r then Permanent
      else RetryAfter (OutboxRetryAfter r))"

definition positive :: "duration option \<Rightarrow> duration option" where
  "positive d = (case d of None \<Rightarrow> None | Some x \<Rightarrow> if x \<le> 0 then None else Some x)"

definition body_verdict :: "string \<Rightarrow> raw_json \<Rightarrow> send_verdict" where
  "body_verdict textField body =
     (case object_entries body of
        None \<Rightarrow> RetryAfter None
      | Some kvs \<Rightarrow>
          if string_field textField kvs = None then RetryAfter None
          else case bool_field ''ok'' kvs of
              None \<Rightarrow> RetryAfter None
            | Some ok \<Rightarrow> if ok then Delivered else Permanent)"

definition response_verdict :: "http_env \<Rightarrow> (raw_json \<Rightarrow> send_verdict) \<Rightarrow> http_response \<Rightarrow> send_verdict" where
  "response_verdict env body resp =
     (let st = hs_StatusCode resp in
      if 200 \<le> st \<and> st < 300 then body (hs_JSON resp)
      else if 400 \<le> st \<and> st < 500 \<and> st \<noteq> 408 \<and> st \<noteq> 429 then Permanent
      else RetryAfter (positive (parseRetryAfterDuration env (hs_RetryAfter resp))))"

definition request_verdict ::
  "http_env \<Rightarrow> (raw_json \<Rightarrow> send_verdict) \<Rightarrow> http_request option \<Rightarrow> send_verdict" where
  "request_verdict env body req =
     (case req of
        None \<Rightarrow> RetryAfter None
      | Some q \<Rightarrow>
          if \<not> he_valid_url env (hr_URL q) then RetryAfter None
          else case he_do env q of Inl _ \<Rightarrow> RetryAfter None | Inr resp \<Rightarrow> response_verdict env body resp)"

text \<open>What a job asks to be sent: content, recipient and thread.\<close>

definition job_message :: "string list \<Rightarrow> ChannelOutbox \<Rightarrow> (string \<times> string \<times> string) option" where
  "job_message names job =
     (case decode_payload names (ob_Payload job) of
        None \<Rightarrow> None
      | Some kvs \<Rightarrow>
          (let content = TrimSpace (payload_string ''content'' kvs);
               recipient = TrimSpace (ob_RecipientID job);
               thread = TrimSpace (payload_string ''thread_ts'' kvs) in
           if content = [] \<or> recipient = [] then None else Some (content, recipient, thread)))"

lemma verdict_simps [simp]:
  "verdict_of_send None = Delivered"
  "verdict_of_send (Some (PlainError m)) = RetryAfter None"
  "verdict_of_send (Some (WrapError m (PlainError x))) = RetryAfter None"
  "verdict_of_send (NewOutboxPermanentError (Some e)) = Permanent"
  "verdict_of_send (NewOutboxTransientErrorWithRetryAfter (Some e) d) = RetryAfter (positive (Some d))"
  by (auto simp: verdict_of_send_def IsOutboxPermanentError_def OutboxRetryAfter_def positive_def
      NewOutboxPermanentError_def NewOutboxTransientErrorWithRetryAfter_def)

lemma classify_verdict:
  "verdict_of_send (classifyOutboxHTTPStatus env provider status msg hdr) =
     (if 400 \<le> status \<and> status < 500 \<and> status \<noteq> 408 \<and> status \<noteq> 429 then Permanent
      else RetryAfter (positive (parseRetryAfterDuration env hdr)))"
  by (auto simp: classifyOutboxHTTPStatus_def isPermanentOutboxHTTPStatus_def Let_def positive_def
      split: option.splits)

lemma classify_Some: "classifyOutboxHTTPStatus env provider status msg hdr \<noteq> None"
  by (simp add: classifyOutboxHTTPStatus_def Let_def NewOutboxPermanentError_def
      NewOutboxTransientErrorWithRetryAfter_def split: option.splits)

lemma semantic_verdict:
  "verdict_of_send (semantic_check provider f resp) = body_verdict f (hs_JSON resp)"
  by (simp add: semantic_check_def body_verdict_def Let_def split: option.splits)

text \<open>Posting a request and checking the answer, for any check of the body.\<close>

lemma post_verdict:
  assumes "\<And>resp. verdict_of_send (check resp) = body (hs_JSON resp)"
  shows "verdict_of_send (case post env provider q of Inl e \<Rightarrow> Some e | Inr resp \<Rightarrow> check resp) =
    request_verdict env body (Some q)"
proof (cases "he_valid_url env (hr_URL q)")
  case False
  then show ?thesis by (simp add: post_def request_verdict_def)
next
  case url: True
  show ?thesis
  proof (cases "he_do env q")
    case (Inl e)
    with url show ?thesis by (simp add: post_def request_verdict_def)
  next
    case (Inr resp)
    show ?thesis
    proof (cases "200 \<le> hs_StatusCode resp \<and> hs_StatusCode resp < 300")
      case True
      with url Inr assms show ?thesis by (simp add: post_def request_verdict_def response_verdict_def)
    next
      case False
      let ?m = "if TrimSpace (hs_Body resp) = [] then StatusText (hs_StatusCode resp) else TrimSpace (hs_Body resp)"
      obtain e where e: "classifyOutboxHTTPStatus env provider (hs_StatusCode resp) ?m (hs_RetryAfter resp) = Some e"
        using classify_Some by fastforce
      then have "verdict_of_send (Some e) =
        (if 400 \<le> hs_StatusCode resp \<and> hs_StatusCode resp < 500 \<and> hs_StatusCode resp \<noteq> 408 \<and>
            hs_StatusCode resp \<noteq> 429 then Permanent
         else RetryAfter (positive (parseRetryAfterDuration env (hs_RetryAfter resp))))"
        by (metis classify_verdict)
      with url Inr False e show ?thesis
        by (auto simp: post_def request_verdict_def response_verdict_def Let_def)
    qed
  qed
qed

lemma required_message:
  "case job_message names job of
     Some (content, recipient, _) \<Rightarrow>
       required (map_option (payload_string ''content'') (decode_payload names (ob_Payload job))) job =
         Inr (content, recipient)
   | None \<Rightarrow> \<exists>m. required (map_option (payload_string ''content'')
         (decode_payload names (ob_Payload job))) job = Inl (PlainError m)"
  by (auto simp: required_def job_message_def Let_def split: option.splits)

text \<open>The shape of all three senders.\<close>

lemma sender_verdict:
  assumes "\<And>resp. verdict_of_send (check resp) = body (hs_JSON resp)"
  shows "verdict_of_send
     (case required (map_option (payload_string ''content'') (decode_payload names (ob_Payload job))) job of
        Inl e \<Rightarrow> Some e
      | Inr (c, r) \<Rightarrow> (case post env provider (mk c r) of Inl e \<Rightarrow> Some e | Inr resp \<Rightarrow> check resp)) =
    request_verdict env body (map_option (\<lambda>(c, r, _). mk c r) (job_message names job))"
  using required_message [of names job]
  by (auto simp: request_verdict_def post_verdict [where check = check and body = body, OF assms]
      split: option.splits)

lemma job_message_thread:
  "job_message names job = Some (c, r, t) \<Longrightarrow>
   t = TrimSpace (payload_string ''thread_ts'' (the (decode_payload names (ob_Payload job))))"
  by (auto simp: job_message_def Let_def split: option.splits if_splits)

text \<open>The three senders implement the abstract outcome of a send. For every job, every
  configuration and every behaviour of the network, the error they return is classified
  exactly as the specification of the outcome says: a job with nothing to send, a failed
  request and an unreadable answer are retried; a 4xx answer other than 408 and 429, or a
  refusal in the body of a Slack or Telegram answer, is permanent; every other answer outside
  2xx is retried after the delay the provider asked for.
\<close>

theorem senders_refine_verdict:
  "verdict_of_send (slack_Send env sl job) =
     request_verdict env (body_verdict ''error'')
       (map_option (\<lambda>(c, r, t). slack_request sl c r t)
          (job_message [''content'', ''correlation_id'', ''thread_ts''] job)) \<and>
   verdict_of_send (telegram_Send env tg job) =
     request_verdict env (body_verdict ''description'')
       (map_option (\<lambda>(c, r, _). telegram_request tg c r) (job_message [''content'', ''correlation_id''] job)) \<and>
   verdict_of_send (whatsapp_Send env wa job) =
     request_verdict env (\<lambda>_. Delivered)
       (map_option (\<lambda>(c, r, _). whatsapp_request wa c r) (job_message [''content'', ''correlation_id''] job))"
proof (intro conjI)
  let ?n = "[''content'', ''correlation_id'', ''thread_ts'']"
  have "map_option (\<lambda>(c, r, t). slack_request sl c r t) (job_message ?n job) =
      map_option (\<lambda>(c, r, _). slack_request sl c r (TrimSpace (payload_string ''thread_ts''
        (the (decode_payload ?n (ob_Payload job)))))) (job_message ?n job)"
    by (cases "job_message ?n job") (auto dest: job_message_thread)
  then show "verdict_of_send (slack_Send env sl job) =
     request_verdict env (body_verdict ''error'')
       (map_option (\<lambda>(c, r, t). slack_request sl c r t) (job_message ?n job))"
    unfolding slack_Send_def Let_def by (simp only: sender_verdict [where check = "semantic_check p f" and body = "body_verdict f" for p f, OF semantic_verdict])
qed (simp_all only: telegram_Send_def whatsapp_Send_def sender_verdict [where check = "semantic_check p f" and body = "body_verdict f" for p f, OF semantic_verdict]
    sender_verdict [where check = "\<lambda>_. None" and body = "\<lambda>_. Delivered", OF verdict_simps(1)])

lemma decryptCredentialFields_Inr:
  "decryptCredentialFields c r = Inr x \<Longrightarrow>
   decryptCredentialValue c (pc_AccessToken r) = Inr (pc_AccessToken x) \<and> pc_APIBaseURL x = pc_APIBaseURL r"
  by (auto simp: decryptCredentialFields_def split: sum.splits)

lemma GetProviderCredential_Inr:
  assumes "GetProviderCredential st provider s = (Inr cred, s')"
  shows "\<exists>row prov. normalizeCredentialProvider provider = Inr prov \<and> row \<in> set (db_credentials s) \<and>
     credential_key s prov row \<and> decryptCredentialFields (st_credentialCrypto st) row = Inr cred"
proof -
  from assms obtain prov row s1 where n: "normalizeCredentialProvider provider = Inr prov"
    and q: "sql (\<lambda>s. (find (credential_key s prov) (db_credentials s), s)) s = (Inr (Some row) :: chan_error + _, s1)"
    and d: "decryptCredentialFields (st_credentialCrypto st) row = Inr cred"
    by (auto simp: GetProviderCredential_def decrypt_result_def split: sum.splits prod.splits)
  from sql_Inr [OF q] obtain fs where
    "find (credential_key (s\<lparr>db_faults := fs\<rparr>) prov) (db_credentials s) = Some row" by auto
  then have "row \<in> set (db_credentials s) \<and> credential_key (s\<lparr>db_faults := fs\<rparr>) prov row"
    by (simp add: find_SomeD)
  then show ?thesis using n d by (auto simp: credential_key_def own_def)
qed

text \<open>A message is sent with the credential of its own tenant. When the resolver returns a
  configuration for a tenant and a provider, its access token is the decrypted token of a
  credential row of that tenant and that provider, the provider is enabled, and the token is
  not blank.
\<close>

theorem send_uses_own_credential:
  assumes "Resolve st providers t provider s = (Inr cfg, s')"
  shows "\<exists>row token. row \<in> set (db_credentials s) \<and> pc_TenantID row = t \<and>
     pc_Provider row = ToLower (TrimSpace provider) \<and>
     decryptCredentialValue (st_credentialCrypto st) (pc_AccessToken row) = Inr token \<and>
     pv_AccessToken cfg = TrimSpace token \<and> TrimSpace token \<noteq> [] \<and> pv_Enabled cfg"
proof -
  let ?p = "ToLower (TrimSpace provider)"
  from assms obtain base cred s1 where
    w: "WithTenantConnection t (GetProviderCredential st ?p) s = (Inr cred, s1)"
    and cfg: "pv_AccessToken cfg = TrimSpace (pc_AccessToken cred)" "TrimSpace (pc_AccessToken cred) \<noteq> []"
      "pv_Enabled cfg"
    by (auto simp: Resolve_def Let_def split: sum.splits prod.splits if_splits)
  from w obtain s2 s3 where s2: "db_tenant s2 = Some t" "same_tables s s2"
    and g: "GetProviderCredential st ?p s2 = (Inr cred, s3)" by (rule WithTenantConnection_Inr)
  from GetProviderCredential_Inr [OF g] obtain row prov where
    n: "normalizeCredentialProvider ?p = Inr prov" and row: "row \<in> set (db_credentials s2)"
    "credential_key s2 prov row" "decryptCredentialFields (st_credentialCrypto st) row = Inr cred" by blast
  have "prov = ToLower (TrimSpace ?p)"
    using n by (auto simp: normalizeCredentialProvider_def Let_def split: if_splits)
  moreover have "?p \<in> {''slack'', ''telegram'', ''whatsapp''}"
    using assms by (auto simp: Resolve_def Let_def baseProviderConfig_def split: if_splits)
  moreover have "ToLower (TrimSpace ''slack'') = ''slack''" "ToLower (TrimSpace ''telegram'') = ''telegram''"
    "ToLower (TrimSpace ''whatsapp'') = ''whatsapp''" by code_simp+
  ultimately have "prov = ?p" by auto
  with row s2 cfg decryptCredentialFields_Inr [OF row(3)] show ?thesis
    by (auto simp: credential_key_def own_def same_tables_def)
qed

definition sample_provider :: ChannelProviderConfig where
  "sample_provider = \<lparr>pv_Enabled = True, pv_SigningSecret = [], pv_SecretToken = [], pv_APIBaseURL = [],
     pv_APIVersion = [], pv_AccessToken = [], pv_PhoneNumberID = []\<rparr>"

definition sample_providers :: ChannelsProvidersConfig where
  "sample_providers = \<lparr>ps_Slack = sample_provider, ps_WhatsApp = sample_provider, ps_Telegram = sample_provider\<rparr>"

definition sender_sample :: db where
  "sender_sample = empty_db\<lparr>db_credentials :=
     [\<lparr>pc_ID = 1, pc_TenantID = 7, pc_Provider = ''slack'', pc_AccessToken = ''tok7'', pc_SigningSecret = [],
       pc_SecretToken = [], pc_APIBaseURL = [], pc_APIVersion = [], pc_PhoneNumberID = [], pc_CreatedAt = 1,
       pc_UpdatedAt = 1\<rparr>,
      \<lparr>pc_ID = 2, pc_TenantID = 8, pc_Provider = ''slack'', pc_AccessToken = ''tok8'', pc_SigningSecret = [],
       pc_SecretToken = [], pc_APIBaseURL = [], pc_APIVersion = [], pc_PhoneNumberID = [], pc_CreatedAt = 1,
       pc_UpdatedAt = 1\<rparr>]\<rparr>"

theorem send_uses_own_credential_witness:
  "\<exists>cfg s'. Resolve (NewStore []) sample_providers 8 ''Slack'' sender_sample = (Inr cfg, s') \<and>
     pv_AccessToken cfg = ''tok8'' \<and>
     (\<exists>row \<in> set (db_credentials sender_sample). pc_TenantID row = 8 \<and> pc_Provider row = ''slack'')"
proof -
  let ?r = "Resolve (NewStore []) sample_providers 8 ''Slack'' sender_sample"
  have a: "?r = (Inr (sample_provider\<lparr>pv_AccessToken := ''tok8''\<rparr>), snd ?r)"
    by (rule prod_eqI) (code_simp, simp)
  have "ToLower (TrimSpace ''Slack'') = ''slack''" by code_simp
  with send_uses_own_credential [OF a] a show ?thesis by auto
qed

end
