(* ===== verification/Access_Control.thy ===== *)
theory Access_Control
  imports Heimdall_Prelude
begin

text \<open>
  Role-based access control (\<open>internal/rbac\<close>): the in-memory evaluator, which is filled role by
  role or reloaded from a loader, its decision on a request, and the HTTP middleware in front
  of every route. The role loader and the store of resource policies are interfaces; they are
  arguments of the evaluator. A loader may answer differently at every call, so it takes the
  number of earlier calls.
\<close>

section \<open>The evaluator\<close>

record Identity =
  au_UserID :: string
  au_TenantID :: string
  au_Email :: string
  au_DisplayName :: string
  au_Roles :: "string list"
  au_Departments :: "string list"
  au_TokenType :: string
  au_FamilyID :: string
  au_Generation :: int
  au_IsPlatformAdmin :: bool
  au_ImpersonatorID :: string

record ResourcePolicy =
  rp_Effect :: string
  rp_Action :: string
  rp_ResourceType :: string
  rp_ResourceID :: string

record RoleDef =
  rd_TenantID :: string
  rd_Name :: string
  rd_Permissions :: "string list"

record Decision =
  dc_Allowed :: bool
  dc_Reason :: string

type_synonym rbac_error = "unit go_error"

text \<open>Subject type, subject, action, resource type, resource.\<close>

type_synonym policy_store =
  "string \<Rightarrow> string \<Rightarrow> string \<Rightarrow> string \<Rightarrow> string \<Rightarrow> rbac_error + ResourcePolicy list"

type_synonym role_map = "string \<rightharpoonup> (string \<rightharpoonup> string list)"

record Evaluator =
  ev_store :: "policy_store option"
  ev_loader :: "(nat \<Rightarrow> rbac_error + RoleDef list) option"
  ev_roles :: role_map
  ev_loads :: nat

text \<open>The options of the constructor set the loader.\<close>

definition NewEvaluator ::
  "policy_store option \<Rightarrow> (nat \<Rightarrow> rbac_error + RoleDef list) option \<Rightarrow> Evaluator" where
  "NewEvaluator store loader =
     \<lparr>ev_store = store, ev_loader = loader, ev_roles = Map.empty, ev_loads = 0\<rparr>"

definition put_role :: "RoleDef \<Rightarrow> role_map \<Rightarrow> role_map" where
  "put_role d roles =
     (let tenant = (case roles (rd_TenantID d) of None \<Rightarrow> Map.empty | Some m \<Rightarrow> m) in
      roles(rd_TenantID d \<mapsto> tenant(rd_Name d \<mapsto> rd_Permissions d)))"

definition ReloadRoles :: "Evaluator \<Rightarrow> rbac_error option \<times> Evaluator" where
  "ReloadRoles e =
     (case ev_loader e of
        None \<Rightarrow> (Some (NewError ''no role loader configured''), e)
      | Some load \<Rightarrow>
          (case load (ev_loads e) of
             Inl err \<Rightarrow> (Some (Wrap ''loading roles'' err), e\<lparr>ev_loads := Suc (ev_loads e)\<rparr>)
           | Inr defs \<Rightarrow>
               (None, e\<lparr>ev_roles := fold put_role defs Map.empty,
                        ev_loads := Suc (ev_loads e)\<rparr>)))"

definition RegisterRole :: "string \<Rightarrow> string \<Rightarrow> string list \<Rightarrow> Evaluator \<Rightarrow> Evaluator" where
  "RegisterRole tenantID name permissions e =
     e\<lparr>ev_roles := put_role \<lparr>rd_TenantID = tenantID, rd_Name = name, rd_Permissions = permissions\<rparr>
        (ev_roles e)\<rparr>"

definition checkRolePermissions :: "Evaluator \<Rightarrow> string \<Rightarrow> string list \<Rightarrow> string \<Rightarrow> bool" where
  "checkRolePermissions e tenantID roles action =
     (case ev_roles e tenantID of
        None \<Rightarrow> False
      | Some tenantRoles \<Rightarrow>
          list_ex (\<lambda>role. case tenantRoles role of
                     None \<Rightarrow> False
                   | Some perms \<Rightarrow> list_ex (\<lambda>perm. perm = ''*'' \<or> perm = action) perms) roles)"

definition checkResourceDeny ::
  "policy_store \<Rightarrow> Identity \<Rightarrow> string \<Rightarrow> string \<Rightarrow> string \<Rightarrow> rbac_error + bool" where
  "checkResourceDeny store identity action resourceType resourceID =
     (case store ''user'' (au_UserID identity) action resourceType resourceID of
        Inl err \<Rightarrow> Inl err
      | Inr policies \<Rightarrow> Inr (list_ex (\<lambda>p. rp_Effect p = ''deny'') policies))"

definition checkResourceAllow ::
  "policy_store \<Rightarrow> Identity \<Rightarrow> string \<Rightarrow> string \<Rightarrow> string \<Rightarrow> rbac_error + bool" where
  "checkResourceAllow store identity action resourceType resourceID =
     (case store ''user'' (au_UserID identity) action resourceType resourceID of
        Inl err \<Rightarrow> Inl err
      | Inr policies \<Rightarrow> Inr (list_ex (\<lambda>p. rp_Effect p = ''allow'') policies))"

definition Authorize ::
  "Evaluator \<Rightarrow> Identity option \<Rightarrow> string \<Rightarrow> string \<Rightarrow> string \<Rightarrow> rbac_error + Decision" where
  "Authorize e ident action resourceType resourceID =
     (case ident of
        None \<Rightarrow> Inr \<lparr>dc_Allowed = False, dc_Reason = ''no identity''\<rparr>
      | Some identity \<Rightarrow>
          (let resource = (if resourceType \<noteq> [] \<and> resourceID \<noteq> [] then ev_store e else None);
               none = \<lparr>dc_Allowed = False, dc_Reason = ''no permission for '' @ action\<rparr> in
           if checkRolePermissions e (au_TenantID identity) (au_Roles identity) action then
             (case resource of
                None \<Rightarrow> Inr \<lparr>dc_Allowed = True, dc_Reason = []\<rparr>
              | Some store \<Rightarrow>
                  (case checkResourceDeny store identity action resourceType resourceID of
                     Inl err \<Rightarrow> Inl (Wrap ''checking resource policies'' err)
                   | Inr True \<Rightarrow>
                       Inr \<lparr>dc_Allowed = False,
                            dc_Reason = ''resource policy denies '' @ action @ '' on '' @
                                        resourceType @ ''/'' @ resourceID\<rparr>
                   | Inr False \<Rightarrow> Inr \<lparr>dc_Allowed = True, dc_Reason = []\<rparr>))
           else
             (case resource of
                None \<Rightarrow> Inr none
              | Some store \<Rightarrow>
                  (case checkResourceAllow store identity action resourceType resourceID of
                     Inl err \<Rightarrow> Inl (Wrap ''checking resource policies'' err)
                   | Inr True \<Rightarrow> Inr \<lparr>dc_Allowed = True, dc_Reason = []\<rparr>
                   | Inr False \<Rightarrow> Inr none))))"

section \<open>The middleware\<close>

record AuditEvent =
  ae_TenantID :: uuid
  ae_UserID :: "uuid option"
  ae_Action :: string
  ae_Metadata :: "(string \<times> string) list"
  ae_Source :: string

datatype http_reply =
    Handled \<comment> \<open>\<open>next.ServeHTTP\<close>\<close>
  | Refused nat "(string \<times> string) list" \<comment> \<open>status code and body\<close>

text \<open>
  The reply and the audit events. \<open>audited\<close> tells whether an audit logger is configured;
  \<open>parse_uuid\<close> is \<open>uuid.Parse\<close>.
\<close>

definition RequirePermission ::
  "(string \<Rightarrow> uuid option) \<Rightarrow> bool \<Rightarrow> Evaluator \<Rightarrow> string \<Rightarrow> Identity option \<Rightarrow>
   http_reply \<times> AuditEvent list" where
  "RequirePermission parse_uuid audited engine permission ident =
     (case ident of
        None \<Rightarrow> (Refused 401 [(''error'', ''authentication required'')], [])
      | Some identity \<Rightarrow>
          (case Authorize engine (Some identity) permission [] [] of
             Inl err \<Rightarrow> (Refused 500 [(''error'', ''authorization check failed'')], [])
           | Inr decision \<Rightarrow>
               if \<not> dc_Allowed decision then
                 (Refused 403 [(''error'', ''forbidden''), (''reason'', dc_Reason decision)],
                  if audited then
                    [\<lparr>ae_TenantID = (case parse_uuid (au_TenantID identity) of
                                       Some tid \<Rightarrow> tid | None \<Rightarrow> uuid_Nil),
                      ae_UserID = parse_uuid (au_UserID identity),
                      ae_Action = ''access.denied'',
                      ae_Metadata = [(''permission'', permission), (''reason'', dc_Reason decision)],
                      ae_Source = ''api''\<rparr>]
                  else [])
               else (Handled, [])))"

section \<open>Histories of role changes\<close>

datatype role_call = Register string string "string list" | Reload

fun exec_role :: "role_call \<Rightarrow> Evaluator \<Rightarrow> Evaluator" where
  "exec_role (Register t n ps) e = RegisterRole t n ps e"
| "exec_role Reload e = snd (ReloadRoles e)"

fun exec_roles :: "role_call list \<Rightarrow> Evaluator \<Rightarrow> Evaluator" where
  "exec_roles [] e = e"
| "exec_roles (c # cs) e = exec_roles cs (exec_role c e)"

text \<open>
  The specification has one table from tenant and role name to permissions: a registration
  sets one entry, a successful load replaces the table (the last definition of a role wins),
  a failed load changes nothing.
\<close>

type_synonym role_table = "string \<times> string \<rightharpoonup> string list"

definition table_of :: "RoleDef list \<Rightarrow> role_table" where
  "table_of defs = map_of (rev (map (\<lambda>d. ((rd_TenantID d, rd_Name d), rd_Permissions d)) defs))"

fun spec_roles ::
  "(nat \<Rightarrow> rbac_error + RoleDef list) option \<Rightarrow> nat \<Rightarrow> role_table \<Rightarrow> role_call list \<Rightarrow> role_table" where
  "spec_roles loader n m [] = m"
| "spec_roles loader n m (Register t r ps # cs) = spec_roles loader n (m((t, r) \<mapsto> ps)) cs"
| "spec_roles loader n m (Reload # cs) =
     (case loader of
        None \<Rightarrow> spec_roles loader n m cs
      | Some load \<Rightarrow>
          (case load n of
             Inl _ \<Rightarrow> spec_roles loader (Suc n) m cs
           | Inr defs \<Rightarrow> spec_roles loader (Suc n) (table_of defs) cs))"

definition role_grants :: "role_table \<Rightarrow> Identity \<Rightarrow> string \<Rightarrow> bool" where
  "role_grants m i action \<longleftrightarrow>
     (\<exists>r \<in> set (au_Roles i). \<exists>ps. m (au_TenantID i, r) = Some ps \<and> (''*'' \<in> set ps \<or> action \<in> set ps))"

definition permitted ::
  "policy_store option \<Rightarrow> role_table \<Rightarrow> Identity \<Rightarrow> string \<Rightarrow> string \<Rightarrow> string \<Rightarrow> rbac_error + bool" where
  "permitted store m i action resourceType resourceID =
     (case store of
        Some policies \<Rightarrow>
          if resourceType = [] \<or> resourceID = [] then Inr (role_grants m i action)
          else (case policies ''user'' (au_UserID i) action resourceType resourceID of
                  Inl err \<Rightarrow> Inl (Wrap ''checking resource policies'' err)
                | Inr ps \<Rightarrow>
                    Inr (if role_grants m i action then \<forall>p \<in> set ps. rp_Effect p \<noteq> ''deny''
                         else \<exists>p \<in> set ps. rp_Effect p = ''allow''))
      | None \<Rightarrow> Inr (role_grants m i action))"

section \<open>The evaluator implements the table\<close>

definition flat :: "role_map \<Rightarrow> role_table" where
  "flat roles = (\<lambda>(t, n). case roles t of None \<Rightarrow> None | Some m \<Rightarrow> m n)"

lemma flat_empty: "flat Map.empty = Map.empty"
  by (auto simp: flat_def)

lemma flat_put_role:
  "flat (put_role d roles) = (flat roles)((rd_TenantID d, rd_Name d) \<mapsto> rd_Permissions d)"
  by (auto simp: flat_def put_role_def Let_def fun_eq_iff split: option.splits)

lemma flat_fold_put:
  "flat (fold put_role defs roles) = flat roles ++ table_of defs"
proof (induction defs arbitrary: roles)
  case Nil
  then show ?case by (simp add: table_of_def)
next
  case (Cons d defs)
  let ?k = "(rd_TenantID d, rd_Name d)"
  have t: "table_of (d # defs) = [?k \<mapsto> rd_Permissions d] ++ table_of defs"
    by (simp add: table_of_def)
  have "flat (fold put_role (d # defs) roles) = flat (put_role d roles) ++ table_of defs"
    by (simp add: Cons)
  also have "\<dots> = (flat roles)(?k \<mapsto> rd_Permissions d) ++ table_of defs"
    by (simp only: flat_put_role)
  also have "\<dots> = flat roles ++ table_of (d # defs)"
    by (simp only: t map_add_assoc map_add_upd map_add_empty)
  finally show ?case .
qed

lemma exec_roles_static:
  "ev_store (exec_roles cs e) = ev_store e" "ev_loader (exec_roles cs e) = ev_loader e"
proof -
  have "ev_store (exec_role c e) = ev_store e \<and> ev_loader (exec_role c e) = ev_loader e" for c e
    by (cases c) (auto simp: RegisterRole_def ReloadRoles_def split: option.splits sum.splits)
  then show "ev_store (exec_roles cs e) = ev_store e" "ev_loader (exec_roles cs e) = ev_loader e"
    by (induction cs arbitrary: e) auto
qed

lemma exec_roles_flat:
  "flat (ev_roles (exec_roles cs e)) =
     spec_roles (ev_loader e) (ev_loads e) (flat (ev_roles e)) cs"
proof (induction cs arbitrary: e)
  case Nil
  then show ?case by simp
next
  case (Cons c cs)
  show ?case
  proof (cases c)
    case (Register t n ps)
    then show ?thesis by (simp add: Cons RegisterRole_def flat_put_role fun_upd_def)
  next
    case Reload
    then show ?thesis
      by (auto simp: Cons ReloadRoles_def flat_fold_put flat_empty split: option.splits sum.splits)
  qed
qed

lemma checkRolePermissions_flat:
  "checkRolePermissions e (au_TenantID i) (au_Roles i) action = role_grants (flat (ev_roles e)) i action"
  by (fastforce simp: checkRolePermissions_def role_grants_def flat_def list_ex_iff split: option.splits)

lemma Authorize_permitted:
  "map_sum id dc_Allowed (Authorize e (Some i) action resourceType resourceID) =
     permitted (ev_store e) (flat (ev_roles e)) i action resourceType resourceID"
  by (auto simp: Authorize_def permitted_def checkRolePermissions_flat checkResourceDeny_def
      checkResourceAllow_def Let_def list_ex_iff split: option.splits sum.splits bool.splits)

lemma Authorize_plain:
  "Authorize e (Some i) action [] [] =
     Inr (if role_grants (flat (ev_roles e)) i action then \<lparr>dc_Allowed = True, dc_Reason = []\<rparr>
          else \<lparr>dc_Allowed = False, dc_Reason = ''no permission for '' @ action\<rparr>)"
  by (simp add: Authorize_def checkRolePermissions_flat)

text \<open>
  C32: After any sequence of role registrations and reloads, \<open>Authorize\<close> decides as the table
  of effective role definitions of the caller's own tenant and the resource policies say, and
  the middleware runs the guarded handler exactly for an authenticated caller one of whose
  roles carries the permission or the wildcard; every other request is answered with 401 or
  403, and a 403 leaves one audit event when a logger is configured.
\<close>

theorem access_control_refines:
  "let e = exec_roles cs (NewEvaluator store loader); m = spec_roles loader 0 Map.empty cs in
   map_sum id dc_Allowed (Authorize e (Some i) action resourceType resourceID) =
     permitted store m i action resourceType resourceID \<and>
   fst (RequirePermission parse_uuid audited e permission ident) =
     (case ident of
        None \<Rightarrow> Refused 401 [(''error'', ''authentication required'')]
      | Some i \<Rightarrow>
          if role_grants m i permission then Handled
          else Refused 403 [(''error'', ''forbidden''),
                            (''reason'', ''no permission for '' @ permission)]) \<and>
   length (snd (RequirePermission parse_uuid audited e permission ident)) =
     (if audited \<and> (\<exists>i. ident = Some i \<and> \<not> role_grants m i permission) then 1 else 0)"
proof -
  let ?e = "exec_roles cs (NewEvaluator store loader)"
  have m: "flat (ev_roles ?e) = spec_roles loader 0 Map.empty cs"
    by (simp add: exec_roles_flat NewEvaluator_def flat_empty)
  have s: "ev_store ?e = store"
    by (simp add: exec_roles_static NewEvaluator_def)
  have "map_sum id dc_Allowed (Authorize ?e (Some i) action resourceType resourceID) =
      permitted store (spec_roles loader 0 Map.empty cs) i action resourceType resourceID"
    by (simp add: Authorize_permitted m s)
  then show ?thesis
    by (auto simp: Let_def RequirePermission_def Authorize_plain m split: option.splits)
qed

end
