(* ===== verification/Agent_Conn.thy ===== *)
theory Agent_Conn
  imports Heimdall_Prelude
begin

text \<open>
  The connection to an agent (\<open>internal/proxy/conn.go\<close>): requests are multiplexed over one
  socket, a single goroutine reads frames and hands each to the stream registered for its
  identifier. Every critical section and every channel operation is one step; the goroutines
  of the callers, the read loop and \<open>Close\<close> interleave freely.

  A channel is the list of its buffered values and whether it is closed. Sending on a closed
  channel and closing a closed channel panic, and a panic ends the process. Streams are
  numbered in the order of their creation, so that a number stands for the pointer.
\<close>

section \<open>State\<close>

record Frame =
  fr_Type :: string
  fr_ID :: string
  fr_Payload :: raw_json

text \<open>\<open>rs_leaving\<close>: \<open>Close\<close> has closed the channel \<open>closed\<close> and still has to unregister.\<close>

record RequestStream =
  rs_id :: string
  rs_frames :: "Frame list"
  rs_frames_closed :: bool
  rs_closed :: bool
  rs_leaving :: bool

text \<open>
  The read loop: not started, reading, in the \<open>select\<close> of \<open>dispatchRequestFrame\<close>, about to
  unregister a closed stream, ended.
\<close>

datatype loop_state =
    LoopOff
  | LoopReading
  | LoopHolding Frame nat
  | LoopDropping string nat
  | LoopDone

text \<open>\<open>cn_closing\<close>: the streams \<open>failAllRequests\<close> has taken out and not closed yet.\<close>

record AgentConn =
  cn_pending :: "string \<rightharpoonup> nat"
  cn_streams :: "RequestStream list"
  cn_requestModeOn :: bool
  cn_requestLoopErr :: "string option"
  cn_loop :: loop_state
  cn_closing :: "nat list"
  cn_panicked :: bool

definition NewAgentConn :: AgentConn where
  "NewAgentConn =
     \<lparr>cn_pending = Map.empty, cn_streams = [], cn_requestModeOn = False, cn_requestLoopErr = None,
      cn_loop = LoopOff, cn_closing = [], cn_panicked = False\<rparr>"

section \<open>Critical sections\<close>

definition frame_buffer :: nat where
  "frame_buffer = 16"

definition startRequestLoop :: "AgentConn \<Rightarrow> AgentConn" where
  "startRequestLoop c =
     (if cn_loop c = LoopOff \<and> \<not> cn_requestModeOn c
      then c\<lparr>cn_requestModeOn := True, cn_loop := LoopReading\<rparr> else c)"

definition isRequestModeEnabled :: "AgentConn \<Rightarrow> bool" where
  "isRequestModeEnabled c = cn_requestModeOn c"

definition registerRequest :: "string \<Rightarrow> AgentConn \<Rightarrow> (string + nat) \<times> AgentConn" where
  "registerRequest frameID c =
     (case cn_requestLoopErr c of
        Some e \<Rightarrow> (Inl e, c)
      | None \<Rightarrow>
          (case cn_pending c frameID of
             Some _ \<Rightarrow> (Inl (''request '' @ frameID @ '' is already in flight''), c)
           | None \<Rightarrow>
               (let k = length (cn_streams c) in
                (Inr k, c\<lparr>cn_streams := cn_streams c @
                            [\<lparr>rs_id = frameID, rs_frames = [], rs_frames_closed = False,
                              rs_closed = False, rs_leaving = False\<rparr>],
                          cn_pending := (cn_pending c)(frameID \<mapsto> k)\<rparr>))))"

definition unregisterRequest :: "string \<Rightarrow> nat option \<Rightarrow> AgentConn \<Rightarrow> AgentConn" where
  "unregisterRequest frameID request c =
     (case cn_pending c frameID of
        None \<Rightarrow> c
      | Some current \<Rightarrow>
          if request \<noteq> None \<and> request \<noteq> Some current then c
          else c\<lparr>cn_pending := (cn_pending c)(frameID := None)\<rparr>)"

text \<open>The locked part of \<open>failAllRequests\<close>; the streams are closed one by one afterwards.\<close>

definition pending_streams :: "AgentConn \<Rightarrow> nat list" where
  "pending_streams c =
     filter (\<lambda>k. cn_pending c (rs_id (cn_streams c ! k)) = Some k) [0..<length (cn_streams c)]"

definition failAllRequests :: "string option \<Rightarrow> AgentConn \<Rightarrow> AgentConn" where
  "failAllRequests err c =
     c\<lparr>cn_requestLoopErr :=
         (case cn_requestLoopErr c of
            Some e \<Rightarrow> Some e
          | None \<Rightarrow> Some (case err of Some e \<Rightarrow> e | None \<Rightarrow> ''request recv loop stopped'')),
       cn_closing := cn_closing c @ pending_streams c, cn_pending := Map.empty\<rparr>"

definition on_stream :: "nat \<Rightarrow> (RequestStream \<Rightarrow> RequestStream) \<Rightarrow> AgentConn \<Rightarrow> AgentConn" where
  "on_stream k f c = c\<lparr>cn_streams := (cn_streams c)[k := f (cn_streams c ! k)]\<rparr>"

definition close_frames :: "nat \<Rightarrow> AgentConn \<Rightarrow> AgentConn" where
  "close_frames k c =
     (let c = c\<lparr>cn_closing := remove1 k (cn_closing c)\<rparr> in
      if rs_frames_closed (cn_streams c ! k) then c\<lparr>cn_panicked := True\<rparr>
      else on_stream k (\<lambda>r. r\<lparr>rs_frames_closed := True\<rparr>) c)"

definition getRequestLoopErr :: "AgentConn \<Rightarrow> string" where
  "getRequestLoopErr c =
     (case cn_requestLoopErr c of Some e \<Rightarrow> e | None \<Rightarrow> ''request recv loop stopped'')"

text \<open>The two halves of \<open>RequestStream.Close\<close>; \<open>sync.Once\<close> lets only the first call in.\<close>

definition stream_Close :: "nat \<Rightarrow> AgentConn \<Rightarrow> AgentConn" where
  "stream_Close k c =
     (if rs_closed (cn_streams c ! k) then c
      else on_stream k (\<lambda>r. r\<lparr>rs_closed := True, rs_leaving := True\<rparr>) c)"

definition stream_leave :: "nat \<Rightarrow> AgentConn \<Rightarrow> AgentConn" where
  "stream_leave k c =
     unregisterRequest (rs_id (cn_streams c ! k)) (Some k)
       (on_stream k (\<lambda>r. r\<lparr>rs_leaving := False\<rparr>) c)"

text \<open>\<open>SendRequest\<close> with nothing in between; \<open>written\<close> tells whether the frame was sent.\<close>

definition SendRequest :: "string option \<Rightarrow> Frame \<Rightarrow> AgentConn \<Rightarrow> (string + nat) \<times> AgentConn" where
  "SendRequest write_err frame c =
     (let frameID = TrimSpace (fr_ID frame) in
      if frameID = [] then (Inl ''frame id is required'', c)
      else case registerRequest frameID (startRequestLoop c) of
          (Inl e, c1) \<Rightarrow> (Inl e, c1)
        | (Inr k, c1) \<Rightarrow>
            (case write_err of
               Some e \<Rightarrow> (Inl e, stream_leave k (stream_Close k c1))
             | None \<Rightarrow> (Inr k, c1)))"

section \<open>Steps\<close>

datatype event =
    Started
  | Registered nat string
  | Arrived Frame
  | Delivered nat Frame
  | Dropped nat Frame
  | Unregistered nat
  | Received nat Frame
  | Ended nat
  | StreamClosed nat
  | ReadFailed
  | ConnClosed
  | FramesClosed nat
  | Panicked

inductive conn_step :: "AgentConn \<Rightarrow> event \<Rightarrow> AgentConn \<Rightarrow> bool" where
  start: "\<not> cn_panicked c \<Longrightarrow> conn_step c Started (startRequestLoop c)"
| register: "\<not> cn_panicked c \<Longrightarrow> cn_requestModeOn c \<Longrightarrow> registerRequest fid c = (Inr k, c') \<Longrightarrow>
    conn_step c (Registered k fid) c'"
| arrive: "\<not> cn_panicked c \<Longrightarrow> cn_loop c = LoopReading \<Longrightarrow>
    conn_step c (Arrived f)
      (case cn_pending c (fr_ID f) of None \<Rightarrow> c | Some k \<Rightarrow> c\<lparr>cn_loop := LoopHolding f k\<rparr>)"
| deliver: "\<not> cn_panicked c \<Longrightarrow> cn_loop c = LoopHolding f k \<Longrightarrow>
    \<not> rs_frames_closed (cn_streams c ! k) \<Longrightarrow> length (rs_frames (cn_streams c ! k)) < frame_buffer \<Longrightarrow>
    conn_step c (Delivered k f)
      ((on_stream k (\<lambda>r. r\<lparr>rs_frames := rs_frames r @ [f]\<rparr>) c)\<lparr>cn_loop := LoopReading\<rparr>)"
| deliver_closed: "\<not> cn_panicked c \<Longrightarrow> cn_loop c = LoopHolding f k \<Longrightarrow>
    rs_frames_closed (cn_streams c ! k) \<Longrightarrow> conn_step c Panicked (c\<lparr>cn_panicked := True\<rparr>)"
| give_up: "\<not> cn_panicked c \<Longrightarrow> cn_loop c = LoopHolding f k \<Longrightarrow> rs_closed (cn_streams c ! k) \<Longrightarrow>
    conn_step c (Dropped k f) (c\<lparr>cn_loop := LoopDropping (fr_ID f) k\<rparr>)"
| drop_stream: "\<not> cn_panicked c \<Longrightarrow> cn_loop c = LoopDropping fid k \<Longrightarrow>
    conn_step c (Unregistered k) ((unregisterRequest fid (Some k) c)\<lparr>cn_loop := LoopReading\<rparr>)"
| read_error: "\<not> cn_panicked c \<Longrightarrow> cn_loop c = LoopReading \<Longrightarrow>
    conn_step c ReadFailed ((failAllRequests (Some err) c)\<lparr>cn_loop := LoopDone\<rparr>)"
| conn_close: "\<not> cn_panicked c \<Longrightarrow>
    conn_step c ConnClosed (failAllRequests (Some ''connection closed'') c)"
| close_stream_frames: "\<not> cn_panicked c \<Longrightarrow> k \<in> set (cn_closing c) \<Longrightarrow>
    conn_step c (FramesClosed k) (close_frames k c)"
| recv: "\<not> cn_panicked c \<Longrightarrow> k < length (cn_streams c) \<Longrightarrow> rs_frames (cn_streams c ! k) = f # fs \<Longrightarrow>
    conn_step c (Received k f) (on_stream k (\<lambda>r. r\<lparr>rs_frames := fs\<rparr>) c)"
| recv_end: "\<not> cn_panicked c \<Longrightarrow> k < length (cn_streams c) \<Longrightarrow>
    rs_closed (cn_streams c ! k) \<or> rs_frames (cn_streams c ! k) = [] \<and> rs_frames_closed (cn_streams c ! k) \<Longrightarrow>
    conn_step c (Ended k) c"
| close_stream: "\<not> cn_panicked c \<Longrightarrow> k < length (cn_streams c) \<Longrightarrow>
    conn_step c (StreamClosed k) (stream_Close k c)"
| leave: "\<not> cn_panicked c \<Longrightarrow> k < length (cn_streams c) \<Longrightarrow> rs_leaving (cn_streams c ! k) \<Longrightarrow>
    conn_step c (Unregistered k) (stream_leave k c)"

inductive conn_run :: "event list \<Rightarrow> AgentConn \<Rightarrow> bool" where
  init: "conn_run [] NewAgentConn"
| more: "conn_run tr c \<Longrightarrow> conn_step c e c' \<Longrightarrow> conn_run (tr @ [e]) c'"

text \<open>What a stream was handed, and what the agent sent for it since it was registered.\<close>

definition received :: "nat \<Rightarrow> event list \<Rightarrow> Frame list" where
  "received k tr = List.map_filter (\<lambda>e. case e of Received j f \<Rightarrow> if j = k then Some f else None | _ \<Rightarrow> None) tr"

definition arrivals :: "string \<Rightarrow> event list \<Rightarrow> Frame list" where
  "arrivals fid tr = List.map_filter (\<lambda>e. case e of Arrived f \<Rightarrow> if fr_ID f = fid then Some f else None | _ \<Rightarrow> None) tr"

fun addressed :: "nat \<Rightarrow> event list \<Rightarrow> Frame list" where
  "addressed k [] = []"
| "addressed k (Registered j fid # tr) = (if j = k then arrivals fid tr else addressed k tr)"
| "addressed k (_ # tr) = addressed k tr"

end
