(* ===== verification/Agent_Conn_Laws.thy ===== *)
theory Agent_Conn_Laws
  imports Agent_Conn "HOL-Library.Sublist"
begin

text \<open>
  Why the request multiplexer keeps the replies of every request apart and in order, and when
  it can panic: invariants of the step relation, by induction over its runs.
\<close>

section \<open>Structure\<close>

lemma on_stream_simps [simp]:
  "cn_pending (on_stream k f c) = cn_pending c" "cn_requestModeOn (on_stream k f c) = cn_requestModeOn c"
  "cn_requestLoopErr (on_stream k f c) = cn_requestLoopErr c" "cn_loop (on_stream k f c) = cn_loop c"
  "cn_closing (on_stream k f c) = cn_closing c" "cn_panicked (on_stream k f c) = cn_panicked c"
  "length (cn_streams (on_stream k f c)) = length (cn_streams c)"
  by (simp_all add: on_stream_def)

lemma nth_on_stream:
  "j < length (cn_streams c) \<Longrightarrow>
   cn_streams (on_stream k f c) ! j = (if j = k then f (cn_streams c ! k) else cn_streams c ! j)"
  by (simp add: on_stream_def nth_list_update)

lemma unregister_simps [simp]:
  "cn_streams (unregisterRequest fid r c) = cn_streams c" "cn_loop (unregisterRequest fid r c) = cn_loop c"
  "cn_closing (unregisterRequest fid r c) = cn_closing c" "cn_panicked (unregisterRequest fid r c) = cn_panicked c"
  "cn_requestModeOn (unregisterRequest fid r c) = cn_requestModeOn c"
  by (simp_all add: unregisterRequest_def split: option.splits)

lemma unregister_pending:
  "cn_pending (unregisterRequest fid (Some k) c) =
     (if cn_pending c fid = Some k then (cn_pending c)(fid := None) else cn_pending c)"
  by (auto simp: unregisterRequest_def split: option.splits)

lemma registerRequest_Inr:
  assumes "registerRequest fid c = (Inr k, c')"
  shows "k = length (cn_streams c)" "cn_pending c fid = None" "cn_pending c' = (cn_pending c)(fid \<mapsto> k)"
    "cn_streams c' = cn_streams c @ [\<lparr>rs_id = fid, rs_frames = [], rs_frames_closed = False,
       rs_closed = False, rs_leaving = False\<rparr>]"
    "cn_loop c' = cn_loop c" "cn_closing c' = cn_closing c" "cn_panicked c' = cn_panicked c"
  using assms by (auto simp: registerRequest_def Let_def split: option.splits)

definition streams_ok :: "AgentConn \<Rightarrow> bool" where
  "streams_ok c \<longleftrightarrow>
     (\<forall>fid k. cn_pending c fid = Some k \<longrightarrow>
        k < length (cn_streams c) \<and> rs_id (cn_streams c ! k) = fid \<and>
        \<not> rs_frames_closed (cn_streams c ! k) \<and> k \<notin> set (cn_closing c)) \<and>
     distinct (cn_closing c) \<and>
     (\<forall>k \<in> set (cn_closing c). k < length (cn_streams c) \<and> \<not> rs_frames_closed (cn_streams c ! k)) \<and>
     (\<forall>f k. cn_loop c = LoopHolding f k \<longrightarrow> k < length (cn_streams c) \<and> fr_ID f = rs_id (cn_streams c ! k)) \<and>
     (\<forall>fid k. cn_loop c = LoopDropping fid k \<longrightarrow> k < length (cn_streams c) \<and> fid = rs_id (cn_streams c ! k)) \<and>
     (\<forall>k < length (cn_streams c). length (rs_frames (cn_streams c ! k)) \<le> frame_buffer)"

lemma streams_ok_on_stream:
  assumes "streams_ok c" "k < length (cn_streams c)"
    and "\<And>r. rs_id (f r) = rs_id r" "\<And>r. rs_frames_closed (f r) = rs_frames_closed r"
    and "length (rs_frames (f (cn_streams c ! k))) \<le> frame_buffer"
  shows "streams_ok (on_stream k f c)"
  using assms unfolding streams_ok_def by (auto simp: nth_on_stream)

lemma pending_streams_ok:
  assumes "streams_ok c"
  shows "set (pending_streams c) = ran (cn_pending c)" "distinct (pending_streams c)"
  using assms by (auto simp: streams_ok_def pending_streams_def ran_def)

lemma failAll_ok:
  assumes "streams_ok c"
  shows "streams_ok (failAllRequests e c)"
proof -
  have "set (pending_streams c) \<inter> set (cn_closing c) = {}"
    using assms pending_streams_ok(1) [OF assms] by (fastforce simp: streams_ok_def ran_def)
  then show ?thesis using assms pending_streams_ok [OF assms]
    by (auto simp: streams_ok_def failAllRequests_def ran_def)
qed

lemma streams_ok_loop:
  "streams_ok c \<Longrightarrow> l \<in> {LoopReading, LoopDone} \<Longrightarrow> streams_ok (c\<lparr>cn_loop := l\<rparr>)"
  by (auto simp: streams_ok_def)

lemma unregister_ok: "streams_ok c \<Longrightarrow> streams_ok (unregisterRequest fid (Some k) c)"
  by (auto simp: streams_ok_def unregister_pending split: if_splits)

lemma conn_step_ok:
  assumes "conn_step c e c'" "streams_ok c"
  shows "streams_ok c'"
  using assms
proof (induction rule: conn_step.induct)
  case (register c fid k c')
  then show ?case using registerRequest_Inr [OF register(3)]
    by (auto simp: streams_ok_def nth_append less_Suc_eq split: if_splits)
next
  case (arrive c f)
  then show ?case by (auto simp: streams_ok_def split: option.splits)
next
  case (deliver c f k)
  then have "streams_ok (on_stream k (\<lambda>r. r\<lparr>rs_frames := rs_frames r @ [f]\<rparr>) c)"
    by (intro streams_ok_on_stream) (auto simp: streams_ok_def)
  then show ?case by (rule streams_ok_loop) simp
next
  case (close_stream_frames c k)
  then have "rs_frames_closed (cn_streams c ! k) = False" "k < length (cn_streams c)"
    by (auto simp: streams_ok_def)
  then show ?case using close_stream_frames
    by (auto simp: streams_ok_def close_frames_def Let_def nth_on_stream)
next
  case (leave c k)
  then have "streams_ok (on_stream k (\<lambda>r. r\<lparr>rs_leaving := False\<rparr>) c)"
    by (intro streams_ok_on_stream) (auto simp: streams_ok_def)
  then show ?case by (simp add: stream_leave_def unregister_ok)
next
  case (recv c k f fs)
  then have "length fs < length (rs_frames (cn_streams c ! k))" by simp
  then have "length fs \<le> frame_buffer" using recv by (fastforce simp: streams_ok_def)
  then show ?case using recv by (intro streams_ok_on_stream) auto
next
  case (close_stream c k)
  then have "streams_ok (on_stream k (\<lambda>r. r\<lparr>rs_closed := True, rs_leaving := True\<rparr>) c)"
    by (intro streams_ok_on_stream) (auto simp: streams_ok_def)
  with close_stream show ?case by (simp add: stream_Close_def)
next
  case (drop_stream c fid k)
  then show ?case by (intro streams_ok_loop unregister_ok) auto
next
  case (read_error c err)
  then show ?case by (intro streams_ok_loop failAll_ok) auto
next
  case (give_up c f k)
  then show ?case by (auto simp: streams_ok_def)
next
  case (start c)
  then show ?case by (auto simp: streams_ok_def startRequestLoop_def)
next
  case (deliver_closed c f k)
  then show ?case by (simp add: streams_ok_def)
next
  case (conn_close c)
  then show ?case by (simp add: failAll_ok)
qed

section \<open>Frames reach their stream in order\<close>

lemma received_snoc:
  "received k (tr @ [e]) =
     received k tr @ (case e of Received j f \<Rightarrow> if j = k then [f] else [] | _ \<Rightarrow> [])"
  by (simp add: received_def List.map_filter_def split: event.splits)

lemma arrivals_snoc:
  "arrivals fid (tr @ [e]) =
     arrivals fid tr @ (case e of Arrived f \<Rightarrow> if fr_ID f = fid then [f] else [] | _ \<Rightarrow> [])"
  by (simp add: arrivals_def List.map_filter_def split: event.splits)

fun first_id :: "nat \<Rightarrow> event list \<Rightarrow> string option" where
  "first_id k [] = None"
| "first_id k (Registered j fid # tr) = (if j = k then Some fid else first_id k tr)"
| "first_id k (_ # tr) = first_id k tr"

lemma first_id_snoc:
  "first_id k (tr @ [e]) =
     (case first_id k tr of
        Some fid \<Rightarrow> Some fid
      | None \<Rightarrow> (case e of Registered j fid \<Rightarrow> if j = k then Some fid else None | _ \<Rightarrow> None))"
  by (induction k tr rule: first_id.induct) (simp_all split: event.splits)

lemma addressed_snoc:
  "addressed k (tr @ [e]) =
     (case first_id k tr of
        Some fid \<Rightarrow> addressed k tr @ (case e of Arrived f \<Rightarrow> if fr_ID f = fid then [f] else [] | _ \<Rightarrow> [])
      | None \<Rightarrow> [])"
proof (induction k tr rule: addressed.induct)
  case (1 k)
  then show ?case by (cases e) (simp_all add: arrivals_def List.map_filter_simps)
qed (simp_all add: arrivals_snoc split: option.splits)

definition held :: "nat \<Rightarrow> AgentConn \<Rightarrow> Frame list" where
  "held k c = (case cn_loop c of LoopHolding f j \<Rightarrow> if j = k then [f] else [] | _ \<Rightarrow> [])"

definition dropping :: "nat \<Rightarrow> AgentConn \<Rightarrow> bool" where
  "dropping k c \<longleftrightarrow> (\<exists>fid. cn_loop c = LoopDropping fid k)"

definition flowed :: "nat \<Rightarrow> event list \<Rightarrow> AgentConn \<Rightarrow> Frame list" where
  "flowed k tr c = received k tr @ rs_frames (cn_streams c ! k) @ held k c"

definition registered :: "nat \<Rightarrow> AgentConn \<Rightarrow> bool" where
  "registered k c \<longleftrightarrow> cn_pending c (rs_id (cn_streams c ! k)) = Some k"

definition flow_ok :: "nat \<Rightarrow> event list \<Rightarrow> AgentConn \<Rightarrow> bool" where
  "flow_ok k tr c \<longleftrightarrow>
     prefix (flowed k tr c) (addressed k tr) \<and>
     (registered k c \<and> \<not> dropping k c \<longrightarrow> flowed k tr c = addressed k tr)"

lemma flow_okI:
  assumes "flow_ok k tr c" "addressed k (tr @ [e]) = addressed k tr"
    and "flowed k (tr @ [e]) c' = flowed k tr c"
    and "registered k c' \<and> \<not> dropping k c' \<longrightarrow> registered k c \<and> \<not> dropping k c"
  shows "flow_ok k (tr @ [e]) c'"
  using assms by (simp add: flow_ok_def)

definition trace_ok :: "event list \<Rightarrow> AgentConn \<Rightarrow> bool" where
  "trace_ok tr c \<longleftrightarrow>
     streams_ok c \<and>
     (\<forall>k. first_id k tr = (if k < length (cn_streams c) then Some (rs_id (cn_streams c ! k)) else None)) \<and>
     (\<forall>k. length (cn_streams c) \<le> k \<longrightarrow> received k tr = []) \<and>
     (\<forall>k < length (cn_streams c). flow_ok k tr c)"

lemma trace_okD:
  assumes "trace_ok tr c" "k < length (cn_streams c)"
  shows "first_id k tr = Some (rs_id (cn_streams c ! k))" "flow_ok k tr c"
  using assms by (simp_all add: trace_ok_def)

lemma addressed_same:
  assumes "trace_ok tr c" "k < length (cn_streams c)" "\<And>f. e \<noteq> Arrived f"
  shows "addressed k (tr @ [e]) = addressed k tr"
  using trace_okD(1) [OF assms(1,2)] assms(3) by (cases e) (auto simp: addressed_snoc)

text \<open>Steps that add no stream: it is enough to look at the flow of each stream.\<close>

lemma trace_ok_step:
  assumes "trace_ok tr c" "conn_step c e c'" "length (cn_streams c') = length (cn_streams c)"
    and "\<And>k. k < length (cn_streams c) \<Longrightarrow> rs_id (cn_streams c' ! k) = rs_id (cn_streams c ! k)"
    and "\<And>k fid. e \<noteq> Registered k fid" "\<And>k f. e = Received k f \<Longrightarrow> k < length (cn_streams c)"
    and "\<And>k. k < length (cn_streams c) \<Longrightarrow> flow_ok k (tr @ [e]) c'"
  shows "trace_ok (tr @ [e]) c'"
proof -
  have "streams_ok c'" using conn_step_ok [OF assms(2)] assms(1) by (simp add: trace_ok_def)
  moreover have "first_id k (tr @ [e]) = first_id k tr" for k
    using assms(5) by (cases e) (auto simp: first_id_snoc split: option.splits)
  moreover have "received k (tr @ [e]) = []" if "length (cn_streams c) \<le> k" for k
    using that assms(1,6) by (cases e) (auto simp: received_snoc trace_ok_def)
  ultimately show ?thesis using assms(1,3,4,7) by (simp add: trace_ok_def)
qed

lemma register_trace:
  assumes "trace_ok tr c" "conn_step c (Registered k fid) c'" "registerRequest fid c = (Inr k, c')"
  shows "trace_ok (tr @ [Registered k fid]) c'"
proof -
  note reg = registerRequest_Inr [OF assms(3)]
  have ok: "streams_ok c" "streams_ok c'"
    using conn_step_ok [OF assms(2)] assms(1) by (simp_all add: trace_ok_def)
  have "flow_ok j (tr @ [Registered k fid]) c'" if "j < length (cn_streams c)" for j
  proof (rule flow_okI [OF trace_okD(2) [OF assms(1) that]])
    show "addressed j (tr @ [Registered k fid]) = addressed j tr"
      by (rule addressed_same [OF assms(1) that]) simp
    show "flowed j (tr @ [Registered k fid]) c' = flowed j tr c"
      using that reg by (simp add: flowed_def received_snoc nth_append held_def)
    show "registered j c' \<and> \<not> dropping j c' \<longrightarrow> registered j c \<and> \<not> dropping j c"
      using that reg by (auto simp: registered_def dropping_def nth_append split: if_splits)
  qed
  moreover have "flow_ok k (tr @ [Registered k fid]) c'"
  proof -
    have "first_id k tr = None" "received k tr = []" using assms(1) reg(1) by (simp_all add: trace_ok_def)
    moreover have "held k c' = []"
      using ok(1) reg(1,5) by (auto simp: held_def streams_ok_def split: loop_state.splits)
    ultimately show ?thesis using reg
      by (simp add: flow_ok_def flowed_def addressed_snoc received_snoc)
  qed
  ultimately show ?thesis using assms(1) ok(2) reg
    by (auto simp: trace_ok_def first_id_snoc received_snoc nth_append less_Suc_eq)
qed

lemma arrive_trace:
  assumes "trace_ok tr c" "conn_step c (Arrived f) c'" "cn_loop c = LoopReading"
    and c': "c' = (case cn_pending c (fr_ID f) of None \<Rightarrow> c | Some k \<Rightarrow> c\<lparr>cn_loop := LoopHolding f k\<rparr>)"
  shows "trace_ok (tr @ [Arrived f]) c'"
proof (rule trace_ok_step [OF assms(1,2)])
  fix k assume k: "k < length (cn_streams c)"
  have ok: "streams_ok c" using assms(1) by (simp add: trace_ok_def)
  note flow = trace_okD [OF assms(1) k]
  show "flow_ok k (tr @ [Arrived f]) c'"
  proof (cases "cn_pending c (fr_ID f) = Some k")
    case True
    then have "fr_ID f = rs_id (cn_streams c ! k)" using ok by (auto simp: streams_ok_def)
    with True flow assms(3) c' show ?thesis
      by (auto simp: flow_ok_def flowed_def addressed_snoc received_snoc held_def registered_def dropping_def)
  next
    case False
    then have "registered k c' \<longrightarrow> rs_id (cn_streams c ! k) \<noteq> fr_ID f \<and> registered k c"
      using c' by (auto simp: registered_def split: option.splits)
    moreover have "flowed k (tr @ [Arrived f]) c' = flowed k tr c"
      using False c' assms(3) by (auto simp: flowed_def received_snoc held_def split: option.splits)
    ultimately show ?thesis using flow assms(3) c'
      by (auto simp: flow_ok_def addressed_snoc dropping_def split: option.splits)
  qed
qed (use c' in \<open>auto split: option.splits\<close>)

text \<open>The remaining steps move frames within one stream, drop one, or only unregister.\<close>

lemma quiet_trace:
  assumes "trace_ok tr c" "conn_step c e c'" "length (cn_streams c') = length (cn_streams c)"
    and "\<And>k. k < length (cn_streams c) \<Longrightarrow> rs_id (cn_streams c' ! k) = rs_id (cn_streams c ! k)"
    and "\<And>k fid. e \<noteq> Registered k fid" "\<And>f. e \<noteq> Arrived f"
    and "\<And>k f. e = Received k f \<Longrightarrow> k < length (cn_streams c)"
    and "\<And>k. k < length (cn_streams c) \<Longrightarrow> flowed k (tr @ [e]) c' = flowed k tr c"
    and "\<And>k. k < length (cn_streams c) \<Longrightarrow> registered k c' \<Longrightarrow> \<not> dropping k c' \<Longrightarrow>
           registered k c \<and> \<not> dropping k c"
  shows "trace_ok (tr @ [e]) c'"
proof (rule trace_ok_step [OF assms(1-5) assms(7)])
  fix k assume k: "k < length (cn_streams c)"
  show "flow_ok k (tr @ [e]) c'"
    by (rule flow_okI [OF trace_okD(2) [OF assms(1) k] addressed_same [OF assms(1) k assms(6)]])
      (use assms(8,9) k in auto)
qed

lemma give_up_trace:
  assumes "trace_ok tr c" "conn_step c (Dropped k f) c'" "cn_loop c = LoopHolding f k"
    and c': "c' = c\<lparr>cn_loop := LoopDropping (fr_ID f) k\<rparr>"
  shows "trace_ok (tr @ [Dropped k f]) c'"
proof (rule trace_ok_step [OF assms(1,2)])
  fix j assume j: "j < length (cn_streams c)"
  note flow = trace_okD(2) [OF assms(1) j]
  have "addressed j (tr @ [Dropped k f]) = addressed j tr" by (rule addressed_same [OF assms(1) j]) simp
  moreover have "flowed j tr c = flowed j (tr @ [Dropped k f]) c' @ (if j = k then [f] else [])"
    using assms(3) c' by (simp add: flowed_def received_snoc held_def)
  ultimately show "flow_ok j (tr @ [Dropped k f]) c'"
    using flow assms(3) c'
    by (auto simp: flow_ok_def registered_def dropping_def dest: append_prefixD split: if_splits)
qed (use c' in auto)

lemma conn_step_trace:
  assumes "conn_step c e c'" "trace_ok tr c"
  shows "trace_ok (tr @ [e]) c'"
  using assms(1)
proof (cases rule: conn_step.cases)
  case start
  show ?thesis
    by (rule quiet_trace [OF assms(2,1)])
      (use start in \<open>auto simp: startRequestLoop_def flowed_def received_snoc held_def registered_def
        dropping_def split: if_splits\<close>)
next
  case (register fid k)
  then show ?thesis using register_trace assms by simp
next
  case (arrive f)
  then show ?thesis using arrive_trace [OF assms(2)] assms(1) by simp
next
  case (deliver f k)
  have "k < length (cn_streams c)" using deliver assms(2) by (auto simp: trace_ok_def streams_ok_def)
  then show ?thesis
    by (intro quiet_trace [OF assms(2,1)])
      (use deliver in \<open>auto simp: nth_on_stream flowed_def received_snoc held_def registered_def
        dropping_def split: if_splits\<close>)
next
  case (deliver_closed f k)
  show ?thesis
    by (rule quiet_trace [OF assms(2,1)])
      (use deliver_closed in \<open>auto simp: flowed_def received_snoc held_def registered_def dropping_def\<close>)
next
  case (give_up f k)
  then show ?thesis using give_up_trace [OF assms(2)] assms(1) by simp
next
  case (drop_stream fid k)
  have "fid = rs_id (cn_streams c ! k)" using drop_stream assms(2) by (auto simp: trace_ok_def streams_ok_def)
  then show ?thesis
    by (intro quiet_trace [OF assms(2,1)])
      (use drop_stream in \<open>auto simp: flowed_def received_snoc held_def registered_def dropping_def
        unregister_pending split: if_splits\<close>)
next
  case (read_error err)
  show ?thesis
    by (rule quiet_trace [OF assms(2,1)])
      (use read_error in \<open>auto simp: failAllRequests_def flowed_def received_snoc held_def registered_def\<close>)
next
  case conn_close
  show ?thesis
    by (rule quiet_trace [OF assms(2,1)])
      (use conn_close in \<open>auto simp: failAllRequests_def flowed_def received_snoc held_def registered_def\<close>)
next
  case (close_stream_frames k)
  have "\<not> rs_frames_closed (cn_streams c ! k)"
    using close_stream_frames assms(2) by (auto simp: trace_ok_def streams_ok_def)
  then show ?thesis
    by (intro quiet_trace [OF assms(2,1)])
      (use close_stream_frames in \<open>auto simp: close_frames_def Let_def nth_on_stream flowed_def
        received_snoc held_def registered_def dropping_def split: if_splits\<close>)
next
  case (recv k f fs)
  show ?thesis
    by (rule quiet_trace [OF assms(2,1)])
      (use recv in \<open>auto simp: nth_on_stream flowed_def received_snoc held_def registered_def
        dropping_def split: if_splits\<close>)
next
  case (recv_end k)
  show ?thesis
    by (rule quiet_trace [OF assms(2,1)])
      (use recv_end in \<open>auto simp: flowed_def received_snoc\<close>)
next
  case (close_stream k)
  show ?thesis
    by (rule quiet_trace [OF assms(2,1)])
      (use close_stream in \<open>auto simp: stream_Close_def nth_on_stream flowed_def received_snoc held_def
        registered_def dropping_def split: if_splits\<close>)
next
  case (leave k)
  show ?thesis
    by (rule quiet_trace [OF assms(2,1)])
      (use leave in \<open>auto simp: stream_leave_def nth_on_stream flowed_def received_snoc held_def
        registered_def dropping_def unregister_pending split: if_splits\<close>)
qed

lemma conn_run_trace: "conn_run tr c \<Longrightarrow> trace_ok tr c"
proof (induction rule: conn_run.induct)
  case init
  then show ?case
    by (simp add: trace_ok_def streams_ok_def NewAgentConn_def received_def List.map_filter_simps)
next
  case (more tr c e c')
  then show ?case using conn_step_trace by blast
qed

section \<open>Panics\<close>

text \<open>
  As long as \<open>Close\<close> has not run, only the read loop itself closes channels, and it ends
  before it does.
\<close>

definition calm :: "AgentConn \<Rightarrow> bool" where
  "calm c \<longleftrightarrow>
     \<not> cn_panicked c \<and>
     (cn_closing c \<noteq> [] \<or> (\<exists>r \<in> set (cn_streams c). rs_frames_closed r) \<longrightarrow> cn_loop c = LoopDone)"

lemma calm_on_stream:
  assumes "\<And>r. rs_frames_closed (f r) = rs_frames_closed r"
  shows "calm (on_stream k f c) = calm c"
proof -
  have "rs_frames_closed (cn_streams (on_stream k f c) ! j) = rs_frames_closed (cn_streams c ! j)"
    if "j < length (cn_streams c)" for j
    using that assms by (simp add: nth_on_stream)
  then have "(\<exists>r \<in> set (cn_streams (on_stream k f c)). rs_frames_closed r) =
      (\<exists>r \<in> set (cn_streams c). rs_frames_closed r)"
    by (metis in_set_conv_nth on_stream_simps(7))
  then show ?thesis by (simp add: calm_def)
qed

lemma calm_step:
  assumes "conn_step c e c'" "streams_ok c" "calm c" "e \<noteq> ConnClosed"
  shows "calm c'"
  using assms(1)
proof (cases rule: conn_step.cases)
  case (register fid k)
  then show ?thesis using assms(3) registerRequest_Inr [OF register(4)]
    by (simp add: calm_def)
next
  case (deliver f k)
  then have "calm (on_stream k (\<lambda>r. r\<lparr>rs_frames := rs_frames r @ [f]\<rparr>) c)"
    using assms(3) by (simp add: calm_on_stream)
  with deliver show ?thesis by (auto simp: calm_def)
next
  case (deliver_closed f k)
  then have "k < length (cn_streams c)" using assms(2) by (simp add: streams_ok_def)
  then show ?thesis using deliver_closed assms(3) nth_mem by (fastforce simp: calm_def)
next
  case (close_stream_frames k)
  then have "\<not> rs_frames_closed (cn_streams c ! k)" "cn_loop c = LoopDone"
    using assms(2,3) by (auto simp: calm_def streams_ok_def)
  then show ?thesis using close_stream_frames assms(3) by (simp add: calm_def close_frames_def Let_def)
next
  case (recv k f fs)
  then show ?thesis using assms(3) by (simp add: calm_on_stream)
next
  case (close_stream k)
  then show ?thesis using assms(3) by (simp add: stream_Close_def calm_on_stream)
next
  case (leave k)
  then have "calm (on_stream k (\<lambda>r. r\<lparr>rs_leaving := False\<rparr>) c)"
    using assms(3) by (simp add: calm_on_stream)
  with leave show ?thesis by (simp add: calm_def stream_leave_def)
next
  case start
  then show ?thesis using assms(3)
    by (cases "cn_loop c = LoopOff") (auto simp: calm_def startRequestLoop_def)
next
  case (arrive f)
  then show ?thesis using assms(3) by (simp add: calm_def split: option.splits)
next
  case (read_error err)
  then show ?thesis using assms(3) by (simp add: calm_def failAllRequests_def)
next
  case (drop_stream fid k)
  then show ?thesis using assms(3) by (simp add: calm_def)
next
  case (give_up f k)
  then show ?thesis using assms(3) by (simp add: calm_def)
qed (use assms(3,4) in simp_all)

lemma conn_run_calm: "conn_run tr c \<Longrightarrow> ConnClosed \<notin> set tr \<Longrightarrow> calm c"
proof (induction rule: conn_run.induct)
  case init
  then show ?case by (simp add: calm_def NewAgentConn_def)
next
  case (more tr c e c')
  have "streams_ok c" using conn_run_trace [OF more(1)] by (simp add: trace_ok_def)
  from calm_step [OF more(2) this] more(3,4) show ?case by auto
qed

text \<open>
  Channels are closed at most once in any case: what \<open>failAllRequests\<close> takes out is open.
\<close>

lemma close_frames_quiet:
  "streams_ok c \<Longrightarrow> k \<in> set (cn_closing c) \<Longrightarrow> cn_panicked (close_frames k c) = cn_panicked c"
  by (auto simp: streams_ok_def close_frames_def Let_def)

end
