(* ===== verification/Agent_Conn_Properties.thy ===== *)
theory Agent_Conn_Properties
  imports Agent_Conn_Laws
begin

text \<open>What the request multiplexer promises to its callers, and where it does not.\<close>

section \<open>Properties\<close>

definition pong :: Frame where
  "pong = \<lparr>fr_Type = ''pong'', fr_ID = ''a'', fr_Payload = RawJSON JNull\<rparr>"

text \<open>
  A request, its reply, and \<open>Close\<close> from another goroutine between the lookup of the stream
  and the send on its channel.
\<close>

definition race :: "event list" where
  "race = [Started, Registered 0 ''a'', Arrived pong, ConnClosed, FramesClosed 0, Panicked]"

definition sample_stream :: RequestStream where
  "sample_stream =
     \<lparr>rs_id = ''a'', rs_frames = [], rs_frames_closed = False, rs_closed = False, rs_leaving = False\<rparr>"

definition sample_conn :: AgentConn where
  "sample_conn =
     \<lparr>cn_pending = [''a'' \<mapsto> 0], cn_streams = [sample_stream], cn_requestModeOn = True,
      cn_requestLoopErr = None, cn_loop = LoopHolding pong 0, cn_closing = [], cn_panicked = False\<rparr>"

lemmas sample_defs = NewAgentConn_def sample_conn_def sample_stream_def

lemma extend_run: "conn_run tr c \<Longrightarrow> conn_step c e c' \<Longrightarrow> tr' = tr @ [e] \<Longrightarrow> c' = d \<Longrightarrow> conn_run tr' d"
  using conn_run.more by blast

lemma sample_conn_run: "conn_run [Started, Registered 0 ''a'', Arrived pong] sample_conn"
proof -
  have 1: "conn_run [Started] (NewAgentConn\<lparr>cn_requestModeOn := True, cn_loop := LoopReading\<rparr>)"
    by (rule extend_run [OF conn_run.init conn_step.start])
      (simp_all add: NewAgentConn_def startRequestLoop_def)
  have 2: "conn_run [Started, Registered 0 ''a''] (sample_conn\<lparr>cn_loop := LoopReading\<rparr>)"
    by (rule extend_run [OF 1 conn_step.register [where fid = "''a''" and k = 0]]) (simp_all add: sample_defs registerRequest_def)
  show ?thesis
    by (rule extend_run [OF 2 conn_step.arrive [where f = pong]]) (simp_all add: sample_defs pong_def)
qed

lemma race_panics: "\<exists>c. conn_run race c \<and> cn_panicked c"
proof -
  let ?c4 = "sample_conn\<lparr>cn_requestLoopErr := Some ''connection closed'', cn_closing := [0],
    cn_pending := Map.empty\<rparr>"
  let ?c5 = "?c4\<lparr>cn_closing := [], cn_streams := [sample_stream\<lparr>rs_frames_closed := True\<rparr>]\<rparr>"
  have 4: "conn_run [Started, Registered 0 ''a'', Arrived pong, ConnClosed] ?c4"
    by (rule extend_run [OF sample_conn_run conn_step.conn_close])
      (simp_all add: sample_defs failAllRequests_def pending_streams_def)
  have 5: "conn_run [Started, Registered 0 ''a'', Arrived pong, ConnClosed, FramesClosed 0] ?c5"
    by (rule extend_run [OF 4 conn_step.close_stream_frames [where k = 0]])
      (simp_all add: sample_defs close_frames_def on_stream_def)
  have "conn_run race (?c5\<lparr>cn_panicked := True\<rparr>)"
    by (rule extend_run [OF 5 conn_step.deliver_closed [where f = pong and k = 0]])
      (simp_all add: sample_defs race_def)
  moreover have "cn_panicked (?c5\<lparr>cn_panicked := True\<rparr>)" by (simp add: sample_defs)
  ultimately show ?thesis by blast
qed

text \<open>
  C19: However the callers, the read loop and \<open>Close\<close> interleave, a request's stream hands out
  replies in the order in which the read loop took them up, without loss, duplication or a
  frame of another request: what was received and what is still buffered is a prefix of the
  frames with the request's identifier that arrived after its registration, and all of them
  while it is registered and the loop is between two frames. At most 16 replies are buffered.
\<close>

theorem replies_in_order:
  assumes "conn_run tr c" "k < length (cn_streams c)"
  shows "prefix (received k tr @ rs_frames (cn_streams c ! k)) (addressed k tr) \<and>
    (cn_pending c (rs_id (cn_streams c ! k)) = Some k \<and> cn_loop c \<in> {LoopReading, LoopDone} \<longrightarrow>
       received k tr @ rs_frames (cn_streams c ! k) = addressed k tr) \<and>
    length (rs_frames (cn_streams c ! k)) \<le> 16"
proof -
  note t = conn_run_trace [OF assms(1)]
  have f: "flow_ok k tr c" by (rule trace_okD(2) [OF t assms(2)])
  then have "prefix (received k tr @ rs_frames (cn_streams c ! k)) (addressed k tr)"
    by (metis append_assoc append_prefixD flow_ok_def flowed_def)
  moreover have "length (rs_frames (cn_streams c ! k)) \<le> 16"
    using t assms(2) by (simp add: trace_ok_def streams_ok_def frame_buffer_def)
  ultimately show ?thesis using f
    by (auto simp: flow_ok_def registered_def dropping_def flowed_def held_def)
qed

theorem replies_in_order_witness:
  "prefix (received 0 [Started, Registered 0 ''a'', Arrived pong] @ rs_frames (cn_streams sample_conn ! 0))
     (addressed 0 [Started, Registered 0 ''a'', Arrived pong]) \<and>
   addressed 0 [Started, Registered 0 ''a'', Arrived pong] = [pong] \<and>
   length (rs_frames (cn_streams sample_conn ! 0)) \<le> 16"
  using replies_in_order [OF sample_conn_run, of 0]
  by (simp add: sample_defs pong_def arrivals_def List.map_filter_simps)

text \<open>The multiplexer never panics as long as the connection is not closed by another
  goroutine; \<open>Close\<close> while the read loop is handing over a frame makes it send on a closed
  channel, which ends the process.
\<close>

theorem close_race:
  "(\<nexists>tr c. conn_run tr c \<and> ConnClosed \<notin> set tr \<and> cn_panicked c) \<and>
   (\<exists>c. conn_run race c \<and> cn_panicked c)"
  using conn_run_calm race_panics by (auto simp: calm_def)

end
