(* ===== verification/Agent_Store.thy ===== *)
theory Agent_Store
  imports Database "HOL-Library.List_Lexorder"
begin

text \<open>
  The store of agent instances (\<open>internal/orchestrator/store.go\<close>) and of knowledge base grants
  (\<open>internal/orchestrator/kb_store.go\<close>). The orchestrator works on the pool of the table owner,
  which row-level security does not restrict: warm machines have no tenant yet.

  The schema adds three rules (migrations 000001, 000007 and 000015): a tenant exists, a vsock
  CID is used once, and a user has at most one instance that is being provisioned, running,
  unhealthy or being destroyed.
\<close>

datatype orch_sentinel = ErrNoWarmVMs | ErrVMNotFound | ErrVMNotRunning | ErrDriverFailure

type_synonym orch_error = "orch_sentinel go_error"
type_synonym 'a orch_op = "db \<Rightarrow> (orch_error + 'a) \<times> db"

section \<open>Constraints\<close>

definition active :: "VMStatus \<Rightarrow> bool" where
  "active st \<longleftrightarrow> st \<in> {StatusProvisioning, StatusRunning, StatusUnhealthy, StatusDestroying}"

definition user_key :: "AgentInstance \<Rightarrow> (uuid \<times> string) option" where
  "user_key r =
     (if active (ai_Status r) then
        (case (ai_TenantID r, ai_UserID r) of (Some t, Some u) \<Rightarrow> Some (t, u) | _ \<Rightarrow> None)
      else None)"

definition agents_unique :: "AgentInstance list \<Rightarrow> bool" where
  "agents_unique rs \<longleftrightarrow>
     distinct (List.map_filter ai_VsockCID rs) \<and> distinct (List.map_filter user_key rs)"

text \<open>What the database checks of a row by itself.\<close>

definition agent_refused :: "db \<Rightarrow> AgentInstance \<Rightarrow> string option" where
  "agent_refused s r =
     (if \<not> json_Valid (ai_Config r) \<or> \<not> json_Valid (ai_ToolAllowlist r)
      then Some ''invalid input syntax for type json''
      else if (case ai_TenantID r of None \<Rightarrow> False | Some t \<Rightarrow> t \<notin> set (db_tenants s))
      then Some ''foreign key violation: tenant_id''
      else if (case ai_VsockCID r of None \<Rightarrow> False | Some c \<Rightarrow> 2 ^ 31 \<le> c)
      then Some ''integer out of range''
      else None)"

definition store_agents :: "AgentInstance list \<Rightarrow> 'a \<Rightarrow> db \<Rightarrow> (string + 'a) \<times> db" where
  "store_agents rs a s =
     (if agents_unique rs then (Inr a, s\<lparr>db_agents := rs\<rparr>)
      else (Inl ''duplicate key value violates unique constraint'', s))"

section \<open>Statements\<close>

definition insert_agent :: "AgentInstance \<Rightarrow> db \<Rightarrow> (string + AgentInstance) \<times> db" where
  "insert_agent inst s =
     (let row = inst\<lparr>ai_ID := db_next s, ai_ConsecutiveFailures := 0, ai_CreatedAt := db_now s,
                     ai_LastHealthCheck := None\<rparr> in
      case agent_refused s row of
        Some m \<Rightarrow> (Inl m, s)
      | None \<Rightarrow> store_agents (db_agents s @ [row]) row (s\<lparr>db_next := Suc (db_next s)\<rparr>))"

definition update_agents ::
  "(AgentInstance \<Rightarrow> bool) \<Rightarrow> (AgentInstance \<Rightarrow> AgentInstance) \<Rightarrow> db \<Rightarrow> (string + nat) \<times> db" where
  "update_agents p f s =
     (case List.map_filter (agent_refused s) (map f (filter p (db_agents s))) of
        m # _ \<Rightarrow> (Inl m, s)
      | [] \<Rightarrow> store_agents (upd_where p f (db_agents s)) (count_where p (db_agents s)) s)"

text \<open>The subquery picks the oldest warm machine that no other session has locked.\<close>

definition warm_row :: "db \<Rightarrow> AgentInstance \<Rightarrow> bool" where
  "warm_row s r \<longleftrightarrow>
     ai_Status r = StatusWarm \<and> ai_TenantID r = None \<and> ai_ID r \<notin> set (db_locked s)"

definition claimed_row ::
  "uuid \<Rightarrow> string option \<Rightarrow> uuid option \<Rightarrow> raw_json \<Rightarrow> AgentInstance \<Rightarrow> AgentInstance" where
  "claimed_row tenantID userID deptID config r =
     r\<lparr>ai_TenantID := Some tenantID, ai_UserID := userID, ai_Status := StatusProvisioning,
       ai_DepartmentID := deptID, ai_Config := config\<rparr>"

definition claim_warm_stmt ::
  "uuid \<Rightarrow> string option \<Rightarrow> uuid option \<Rightarrow> raw_json \<Rightarrow> db \<Rightarrow> (string + AgentInstance option) \<times> db" where
  "claim_warm_stmt tenantID userID deptID config s =
     (case select_order_limit (warm_row s) ai_CreatedAt 1 (db_agents s) of
        [] \<Rightarrow> (Inr None, s)
      | r # _ \<Rightarrow>
          (let f = claimed_row tenantID userID deptID config in
           case update_agents (\<lambda>x. ai_ID x = ai_ID r) f s of
             (Inl m, s1) \<Rightarrow> (Inl m, s1)
           | (Inr _, s1) \<Rightarrow> (Inr (Some (f r)), s1)))"

section \<open>Operations\<close>

definition agent_Create :: "AgentInstance \<Rightarrow> AgentInstance orch_op" where
  "agent_Create inst s =
     (let row = (if ai_Config inst = RawEmpty then inst\<lparr>ai_Config := RawJSON (JObj [])\<rparr> else inst) in
      case checked (sql (insert_agent row) s) of
        (Inl e, s1) \<Rightarrow> (Inl e, s1)
      | (Inr r, s1) \<Rightarrow> (Inr (inst\<lparr>ai_ID := ai_ID r, ai_CreatedAt := ai_CreatedAt r\<rparr>), s1))"

definition agent_GetByID :: "uuid \<Rightarrow> AgentInstance orch_op" where
  "agent_GetByID i s =
     query_row ''getting agent instance'' ErrVMNotFound
       (sql (\<lambda>s. (find (\<lambda>r. ai_ID r = i) (db_agents s), s)) s)"

definition UpdateStatus :: "uuid \<Rightarrow> VMStatus \<Rightarrow> unit orch_op" where
  "UpdateStatus i status s =
     exec_rows ''updating status'' ErrVMNotFound
       (checked (sql (update_agents (\<lambda>r. ai_ID r = i) (\<lambda>r. r\<lparr>ai_Status := status\<rparr>)) s))"

definition ListByStatus :: "VMStatus \<Rightarrow> AgentInstance list orch_op" where
  "ListByStatus status s =
     wrap_err ''listing by status''
       (sql (\<lambda>s. (sort_key ai_CreatedAt (filter (\<lambda>r. ai_Status r = status) (db_agents s)), s)) s)"

definition ListByTenant :: "uuid \<Rightarrow> AgentInstance list orch_op" where
  "ListByTenant tenantID s =
     wrap_err ''listing by tenant''
       (sql (\<lambda>s. (sort_key ai_CreatedAt
          (filter (\<lambda>r. ai_TenantID r = Some tenantID \<and> ai_Status r \<noteq> StatusDestroyed) (db_agents s)), s)) s)"

definition ClaimWarm ::
  "uuid \<Rightarrow> string option \<Rightarrow> uuid option \<Rightarrow> raw_json \<Rightarrow> AgentInstance orch_op" where
  "ClaimWarm tenantID userID deptID config s =
     query_row ''claiming warm VM'' ErrNoWarmVMs
       (checked (sql (claim_warm_stmt tenantID userID deptID config) s))"

definition GetRunningByTenantUser :: "uuid \<Rightarrow> string \<Rightarrow> AgentInstance orch_op" where
  "GetRunningByTenantUser tenantID userID s =
     query_row ''getting running agent by tenant/user'' ErrVMNotFound
       (sql (\<lambda>s. (case select_order_limit
                    (\<lambda>r. ai_TenantID r = Some tenantID \<and> ai_UserID r = Some userID \<and>
                         ai_Status r \<in> {StatusRunning, StatusProvisioning})
                    (\<lambda>r. - ai_CreatedAt r) 1 (db_agents s) of
                  [] \<Rightarrow> None | r # _ \<Rightarrow> Some r, s)) s)"

definition RecordHealthCheck :: "uuid \<Rightarrow> bool \<Rightarrow> unit orch_op" where
  "RecordHealthCheck i healthy s =
     exec_rows ''recording health check'' ErrVMNotFound
       (checked (sql (\<lambda>s. update_agents (\<lambda>r. ai_ID r = i)
          (if healthy
           then (\<lambda>r. r\<lparr>ai_LastHealthCheck := Some (db_now s), ai_ConsecutiveFailures := 0\<rparr>)
           else (\<lambda>r. r\<lparr>ai_ConsecutiveFailures := Suc (ai_ConsecutiveFailures r)\<rparr>)) s) s))"

definition next_cid :: "AgentInstance list \<Rightarrow> nat" where
  "next_cid rs = (case List.map_filter ai_VsockCID rs of [] \<Rightarrow> 2 | c # cs \<Rightarrow> fold max cs c) + 1"

definition NextVsockCID :: "nat orch_op" where
  "NextVsockCID s =
     wrap_err ''getting next vsock CID''
       (checked (sql (\<lambda>s. (if next_cid (db_agents s) < 2 ^ 31 then Inr (next_cid (db_agents s))
                           else Inl ''integer out of range'', s)) s))"

definition CountByStatus :: "VMStatus \<Rightarrow> nat orch_op" where
  "CountByStatus status s =
     wrap_err ''counting by status''
       (sql (\<lambda>s. (count_where (\<lambda>r. ai_Status r = status) (db_agents s), s)) s)"

definition agent_UpdateConfig :: "uuid \<Rightarrow> raw_json \<Rightarrow> raw_json \<Rightarrow> unit orch_op" where
  "agent_UpdateConfig i config toolAllowlist s =
     exec_rows ''updating config'' ErrVMNotFound
       (checked (sql (update_agents (\<lambda>r. ai_ID r = i)
          (\<lambda>r. r\<lparr>ai_Config := config, ai_ToolAllowlist := toolAllowlist\<rparr>)) s))"

section \<open>Knowledge bases\<close>

text \<open>
  \<open>$2::UUID\<close> fails on a user id that is not a UUID; \<open>parse_uuid\<close> is the cast. The department is
  \<open>uuid_Nil\<close> when there is none.
\<close>

definition granted_kb :: "db \<Rightarrow> uuid \<Rightarrow> uuid \<Rightarrow> KnowledgeBase \<Rightarrow> bool" where
  "granted_kb s user dept k \<longleftrightarrow>
     (\<exists>(b, kind, target) \<in> set (db_kb_grants s). b = kb_ID k \<and>
        (kind = ''user'' \<and> target = user \<or> kind = ''department'' \<and> target = dept \<or>
         kind = ''role'' \<and> list_ex (\<lambda>r. ur_UserID r = user \<and> ur_RoleID r = target) (db_user_roles s)))"

definition GrantsForUser ::
  "(string \<Rightarrow> uuid option) \<Rightarrow> uuid \<Rightarrow> string \<Rightarrow> uuid \<Rightarrow> (uuid \<times> string) list orch_op" where
  "GrantsForUser parse_uuid tenantID userID departmentID s =
     wrap_err ''querying knowledge base grants''
       (checked (sql (\<lambda>s.
          (case parse_uuid userID of
             None \<Rightarrow> Inl ''invalid input syntax for type uuid''
           | Some user \<Rightarrow>
               Inr (map (\<lambda>k. (kb_ID k, kb_Name k))
                 (sort_key (\<lambda>k. map (of_char :: char \<Rightarrow> nat) (kb_Name k))
                   (filter (\<lambda>k. kb_TenantID k = tenantID \<and> granted_kb s user departmentID k)
                     (db_knowledge_bases s)))), s)) s))"

end
