(* ===== verification/Agent_Manager.thy ===== *)
theory Agent_Manager
  imports Agent_Store Go_JSON
begin

text \<open>
  The agent orchestrator (\<open>internal/orchestrator/manager.go\<close>): provisioning from the warm pool
  or by a cold start, destruction, the reconciliation of the warm pool and the health checks.

  The driver of the virtual machines is an interface; its answers take the number of earlier
  calls, and every call is recorded in a log. \<open>uuid.Parse\<close>, \<open>UUID.String\<close> and the clock are
  further arguments of the manager. The goroutines of one health check run one after the
  other, in an order that is an argument. Logging is left out.
\<close>

section \<open>Driver, configuration, state\<close>

text \<open>The fields of a specification the manager sets; the empty tenant of a warm machine is \<open>None\<close>.\<close>

record VMSpec =
  vs_VMID :: string
  vs_TenantID :: "uuid option"
  vs_UserID :: string
  vs_DepartmentID :: "uuid option"
  vs_KnowledgeBases :: "(uuid \<times> string) list"
  vs_DataDriveQuotaMB :: int
  vs_VsockCID :: nat

record VMHandle =
  vh_ID :: string
  vh_PID :: int
  vh_VsockCID :: nat
  vh_StartedAt :: gotime

record VMDriver =
  dv_Start :: "nat \<Rightarrow> VMSpec \<Rightarrow> string + VMHandle"
  dv_Stop :: "nat \<Rightarrow> string \<Rightarrow> string option"
  dv_IsHealthy :: "nat \<Rightarrow> string \<Rightarrow> string + bool"
  dv_Cleanup :: "nat \<Rightarrow> string \<Rightarrow> string option"

text \<open>A start carries whether it succeeded.\<close>

datatype driver_call = DStart VMSpec bool | DStop string | DIsHealthy string | DCleanup string

record ManagerConfig =
  mc_Driver :: string
  mc_WarmPoolSize :: int
  mc_HealthInterval :: duration
  mc_ReconcileInterval :: duration
  mc_MaxConsecutiveFailures :: int
  mc_WorkspaceDataQuotaMB :: int

record Manager =
  mn_driver :: VMDriver
  mn_cfg :: ManagerConfig
  mn_parse_uuid :: "string \<Rightarrow> uuid option"
  mn_show_uuid :: "uuid \<Rightarrow> string"
  mn_now :: "nat \<Rightarrow> int" \<comment> \<open>\<open>time.Now().UnixMilli()\<close>\<close>

record fleet =
  fl_db :: db
  fl_log :: "driver_call list"
  fl_clock :: nat

record ProvisionOpts =
  po_UserID :: "string option"
  po_DepartmentID :: "uuid option"
  po_Config :: "(string \<times> json) list option"

type_synonym 'a fleet_op = "fleet \<Rightarrow> (orch_error + 'a) \<times> fleet"

definition normalize_manager :: "ManagerConfig \<Rightarrow> ManagerConfig" where
  "normalize_manager cfg =
     (let cfg = (if mc_WarmPoolSize cfg < 0 then cfg\<lparr>mc_WarmPoolSize := 2\<rparr> else cfg);
          cfg = (if mc_HealthInterval cfg \<le> 0 then cfg\<lparr>mc_HealthInterval := 10 * 10 ^ 9\<rparr> else cfg);
          cfg = (if mc_ReconcileInterval cfg \<le> 0 then cfg\<lparr>mc_ReconcileInterval := 30 * 10 ^ 9\<rparr> else cfg);
          cfg = (if mc_MaxConsecutiveFailures cfg \<le> 0 then cfg\<lparr>mc_MaxConsecutiveFailures := 3\<rparr> else cfg);
          cfg = (if mc_WorkspaceDataQuotaMB cfg < 0 then cfg\<lparr>mc_WorkspaceDataQuotaMB := 0\<rparr> else cfg)
      in cfg)"

definition NewManager ::
  "VMDriver \<Rightarrow> (string \<Rightarrow> uuid option) \<Rightarrow> (uuid \<Rightarrow> string) \<Rightarrow> (nat \<Rightarrow> int) \<Rightarrow> ManagerConfig \<Rightarrow> Manager" where
  "NewManager driver parse_uuid show_uuid now cfg =
     \<lparr>mn_driver = driver, mn_cfg = normalize_manager cfg, mn_parse_uuid = parse_uuid,
      mn_show_uuid = show_uuid, mn_now = now\<rparr>"

section \<open>Calls\<close>

definition on_db :: "'a orch_op \<Rightarrow> 'a fleet_op" where
  "on_db f w = (case f (fl_db w) of (r, s) \<Rightarrow> (r, w\<lparr>fl_db := s\<rparr>))"

definition driver_Start :: "Manager \<Rightarrow> VMSpec \<Rightarrow> fleet \<Rightarrow> (string + VMHandle) \<times> fleet" where
  "driver_Start m spec w =
     (let r = dv_Start (mn_driver m) (length (fl_log w)) spec in
      (r, w\<lparr>fl_log := fl_log w @ [DStart spec (case r of Inl _ \<Rightarrow> False | Inr _ \<Rightarrow> True)]\<rparr>))"

text \<open>The errors of a stop and of a cleanup are logged or discarded, never acted on.\<close>

definition driver_Stop :: "string \<Rightarrow> fleet \<Rightarrow> fleet" where
  "driver_Stop vm w = w\<lparr>fl_log := fl_log w @ [DStop vm]\<rparr>"

definition driver_Cleanup :: "string \<Rightarrow> fleet \<Rightarrow> fleet" where
  "driver_Cleanup vm w = w\<lparr>fl_log := fl_log w @ [DCleanup vm]\<rparr>"

definition driver_IsHealthy :: "Manager \<Rightarrow> string \<Rightarrow> fleet \<Rightarrow> (string + bool) \<times> fleet" where
  "driver_IsHealthy m vm w =
     (dv_IsHealthy (mn_driver m) (length (fl_log w)) vm, w\<lparr>fl_log := fl_log w @ [DIsHealthy vm]\<rparr>)"

definition unix_milli :: "Manager \<Rightarrow> fleet \<Rightarrow> int \<times> fleet" where
  "unix_milli m w = (mn_now m (fl_clock w), w\<lparr>fl_clock := Suc (fl_clock w)\<rparr>)"

definition stop_and_clean :: "string option \<Rightarrow> fleet \<Rightarrow> fleet" where
  "stop_and_clean vmid w =
     (case vmid of None \<Rightarrow> w | Some vm \<Rightarrow> driver_Cleanup vm (driver_Stop vm w))"

section \<open>Provisioning\<close>

text \<open>The text of a configuration; the values come from JSON, so encoding them cannot fail.\<close>

definition config_text :: "(string \<times> json) list option \<Rightarrow> raw_json" where
  "config_text c = RawJSON (JObj (case c of None \<Rightarrow> [] | Some kvs \<Rightarrow> kvs))"

definition cold_spec :: "Manager \<Rightarrow> uuid \<Rightarrow> ProvisionOpts \<Rightarrow> nat \<Rightarrow> int \<Rightarrow> VMSpec" where
  "cold_spec m tenantID opts cid ms =
     \<lparr>vs_VMID = ''vm-'' @ take 8 (mn_show_uuid m tenantID) @ ''-'' @ Itoa ms,
      vs_TenantID = Some tenantID,
      vs_UserID = (case po_UserID opts of None \<Rightarrow> [] | Some u \<Rightarrow> u),
      vs_DepartmentID = po_DepartmentID opts, vs_KnowledgeBases = [],
      vs_DataDriveQuotaMB = mc_WorkspaceDataQuotaMB (mn_cfg m), vs_VsockCID = cid\<rparr>"

text \<open>A failed lookup of the grants only leaves the mounts out.\<close>

definition add_mounts :: "Manager \<Rightarrow> uuid \<Rightarrow> VMSpec \<Rightarrow> fleet \<Rightarrow> VMSpec \<times> fleet" where
  "add_mounts m tenantID spec w =
     (if vs_UserID spec = [] then (spec, w)
      else case on_db (GrantsForUser (mn_parse_uuid m) tenantID (vs_UserID spec)
                  (case vs_DepartmentID spec of None \<Rightarrow> uuid_Nil | Some d \<Rightarrow> d)) w of
          (Inl _, w1) \<Rightarrow> (spec, w1)
        | (Inr kbs, w1) \<Rightarrow> (spec\<lparr>vs_KnowledgeBases := kbs\<rparr>, w1))"

definition new_instance ::
  "Manager \<Rightarrow> uuid option \<Rightarrow> ProvisionOpts \<Rightarrow> string \<Rightarrow> VMStatus \<Rightarrow> VMHandle \<Rightarrow> AgentInstance" where
  "new_instance m tenantID opts vmID status handle =
     \<lparr>ai_ID = uuid_Nil, ai_TenantID = tenantID, ai_UserID = po_UserID opts,
      ai_DepartmentID = po_DepartmentID opts, ai_VMID = Some vmID, ai_Status = status,
      ai_Config = config_text (po_Config opts), ai_VsockCID = Some (vh_VsockCID handle),
      ai_VMDriver = mc_Driver (mn_cfg m), ai_ToolAllowlist = RawJSON (JArr []),
      ai_ConsecutiveFailures = 0, ai_CreatedAt = 0, ai_LastHealthCheck = None\<rparr>"

text \<open>Recording a started machine; when that fails the machine is stopped again.\<close>

definition save_instance :: "AgentInstance \<Rightarrow> AgentInstance fleet_op" where
  "save_instance inst w =
     (case on_db (agent_Create inst) w of
        (Inl e, w1) \<Rightarrow> (Inl e, stop_and_clean (ai_VMID inst) w1)
      | (Inr i, w1) \<Rightarrow> (Inr i, w1))"

definition coldStart :: "Manager \<Rightarrow> uuid \<Rightarrow> ProvisionOpts \<Rightarrow> AgentInstance fleet_op" where
  "coldStart m tenantID opts w =
     (case on_db NextVsockCID w of
        (Inl e, w1) \<Rightarrow> (Inl (Wrap ''allocating vsock CID'' e), w1)
      | (Inr cid, w1) \<Rightarrow>
          (case unix_milli m w1 of (ms, w2) \<Rightarrow>
           case add_mounts m tenantID (cold_spec m tenantID opts cid ms) w2 of (spec, w3) \<Rightarrow>
           case driver_Start m spec w3 of
             (Inl e, w4) \<Rightarrow> (Inl (Wrap (''starting VM: '' @ e) (Sentinel ErrDriverFailure)), w4)
           | (Inr handle, w4) \<Rightarrow>
               (case save_instance
                       (new_instance m (Some tenantID) opts (vs_VMID spec) StatusRunning handle) w4 of
                  (Inl e, w5) \<Rightarrow> (Inl (Wrap ''saving agent instance'' e), w5)
                | (Inr inst, w5) \<Rightarrow> (Inr inst, w5))))"

text \<open>Any error of the claim, not only an empty pool, leads to a cold start.\<close>

definition provision_new :: "Manager \<Rightarrow> uuid \<Rightarrow> ProvisionOpts \<Rightarrow> AgentInstance fleet_op" where
  "provision_new m tenantID opts w =
     (case on_db (ClaimWarm tenantID (po_UserID opts) (po_DepartmentID opts)
                    (config_text (po_Config opts))) w of
        (Inr inst, w1) \<Rightarrow>
          (case on_db (UpdateStatus (ai_ID inst) StatusRunning) w1 of
             (Inl e, w2) \<Rightarrow> (Inl (Wrap ''transitioning to running'' e), w2)
           | (Inr _, w2) \<Rightarrow> (Inr (inst\<lparr>ai_Status := StatusRunning\<rparr>), w2))
      | (Inl _, w1) \<Rightarrow> coldStart m tenantID opts w1)"

definition normalize_user :: "string option \<Rightarrow> string option" where
  "normalize_user u =
     (case u of
        None \<Rightarrow> None
      | Some u \<Rightarrow> if TrimSpace u = [] then None else Some (TrimSpace u))"

definition Provision :: "Manager \<Rightarrow> uuid \<Rightarrow> ProvisionOpts \<Rightarrow> AgentInstance fleet_op" where
  "Provision m tenantID opts w =
     (let opts = opts\<lparr>po_UserID := normalize_user (po_UserID opts)\<rparr> in
      case po_UserID opts of
        None \<Rightarrow> provision_new m tenantID opts w
      | Some userID \<Rightarrow>
          (case on_db (GetRunningByTenantUser tenantID userID) w of
             (Inr existing, w1) \<Rightarrow> (Inr existing, w1)
           | (Inl e, w1) \<Rightarrow>
               if errors_Is e ErrVMNotFound then provision_new m tenantID opts w1
               else (Inl (Wrap ''checking existing user-affine agent'' e), w1)))"

section \<open>Destruction\<close>

definition Destroy :: "uuid \<Rightarrow> unit fleet_op" where
  "Destroy i w =
     (case on_db (agent_GetByID i) w of
        (Inl e, w1) \<Rightarrow> (Inl e, w1)
      | (Inr inst, w1) \<Rightarrow>
          (case on_db (UpdateStatus i StatusDestroying) w1 of
             (Inl e, w2) \<Rightarrow> (Inl (Wrap ''marking destroying'' e), w2)
           | (Inr _, w2) \<Rightarrow>
               (case on_db (UpdateStatus i StatusDestroyed) (stop_and_clean (ai_VMID inst) w2) of
                  (Inl e, w3) \<Rightarrow> (Inl (Wrap ''marking destroyed'' e), w3)
                | (Inr _, w3) \<Rightarrow> (Inr (), w3))))"

section \<open>The warm pool\<close>

definition warm_opts :: ProvisionOpts where
  "warm_opts = \<lparr>po_UserID = None, po_DepartmentID = None, po_Config = None\<rparr>"

definition warm_spec :: "Manager \<Rightarrow> nat \<Rightarrow> int \<Rightarrow> VMSpec" where
  "warm_spec m cid ms =
     \<lparr>vs_VMID = ''warm-'' @ Itoa (int cid) @ ''-'' @ Itoa ms, vs_TenantID = None, vs_UserID = [],
      vs_DepartmentID = None, vs_KnowledgeBases = [],
      vs_DataDriveQuotaMB = mc_WorkspaceDataQuotaMB (mn_cfg m), vs_VsockCID = cid\<rparr>"

definition createWarmVM :: "Manager \<Rightarrow> fleet \<Rightarrow> fleet" where
  "createWarmVM m w =
     (case on_db NextVsockCID w of
        (Inl _, w1) \<Rightarrow> w1
      | (Inr cid, w1) \<Rightarrow>
          (case unix_milli m w1 of (ms, w2) \<Rightarrow>
           case driver_Start m (warm_spec m cid ms) w2 of
             (Inl _, w3) \<Rightarrow> w3
           | (Inr handle, w3) \<Rightarrow>
               snd (save_instance
                 (new_instance m None warm_opts (vs_VMID (warm_spec m cid ms)) StatusWarm handle) w3)))"

text \<open>\<open>canceled k\<close> tells whether the context is done when the loop has run \<open>k\<close> times.\<close>

fun replenish :: "Manager \<Rightarrow> (nat \<Rightarrow> bool) \<Rightarrow> nat \<Rightarrow> nat \<Rightarrow> fleet \<Rightarrow> fleet" where
  "replenish m canceled k 0 w = w"
| "replenish m canceled k (Suc n) w =
     (if canceled k then w else replenish m canceled (Suc k) n (createWarmVM m w))"

definition ReconcileOnce :: "Manager \<Rightarrow> (nat \<Rightarrow> bool) \<Rightarrow> fleet \<Rightarrow> fleet" where
  "ReconcileOnce m canceled w =
     (case on_db (CountByStatus StatusWarm) w of
        (Inl _, w1) \<Rightarrow> w1
      | (Inr count, w1) \<Rightarrow>
          (let deficit = mc_WarmPoolSize (mn_cfg m) - int count in
           if deficit \<le> 0 then w1 else replenish m canceled 0 (nat deficit) w1))"

section \<open>Health checks\<close>

text \<open>The configuration carried over to a replacement: an object, or nothing.\<close>

definition previous_config :: "raw_json \<Rightarrow> (string \<times> json) list option" where
  "previous_config c =
     (case c of RawJSON (JObj kvs) \<Rightarrow> if kvs = [] then None else Some kvs | _ \<Rightarrow> None)"

definition replace_provision :: "Manager \<Rightarrow> AgentInstance \<Rightarrow> uuid \<Rightarrow> fleet \<Rightarrow> fleet" where
  "replace_provision m inst tenantID w =
     (case Provision m tenantID
             \<lparr>po_UserID = ai_UserID inst, po_DepartmentID = ai_DepartmentID inst,
              po_Config = previous_config (ai_Config inst)\<rparr> w of
        (Inl _, w1) \<Rightarrow> w1
      | (Inr replacement, w1) \<Rightarrow>
          if ai_ToolAllowlist inst \<noteq> RawEmpty \<and> ai_ToolAllowlist inst \<noteq> RawJSON (JArr []) then
            snd (on_db (agent_UpdateConfig (ai_ID replacement) (ai_Config replacement)
                          (ai_ToolAllowlist inst)) w1)
          else w1)"

definition replace_marked :: "Manager \<Rightarrow> AgentInstance \<Rightarrow> fleet \<Rightarrow> fleet" where
  "replace_marked m inst w =
     (case on_db (UpdateStatus (ai_ID inst) StatusDestroyed) (stop_and_clean (ai_VMID inst) w) of
        (Inl _, w1) \<Rightarrow> w1
      | (Inr _, w1) \<Rightarrow>
          (case ai_TenantID inst of
             None \<Rightarrow> w1
           | Some tenantID \<Rightarrow> replace_provision m inst tenantID w1))"

definition replaceUnhealthy :: "Manager \<Rightarrow> AgentInstance \<Rightarrow> fleet \<Rightarrow> fleet" where
  "replaceUnhealthy m inst w =
     (if ai_Status inst \<noteq> StatusUnhealthy then
        (case on_db (UpdateStatus (ai_ID inst) StatusUnhealthy) w of
           (Inl _, w1) \<Rightarrow> w1
         | (Inr _, w1) \<Rightarrow> replace_marked m inst w1)
      else replace_marked m inst w)"

definition check_running :: "Manager \<Rightarrow> AgentInstance \<Rightarrow> fleet \<Rightarrow> fleet" where
  "check_running m inst w =
     (case ai_VMID inst of
        None \<Rightarrow> w
      | Some vm \<Rightarrow>
          (case driver_IsHealthy m vm w of (answer, w1) \<Rightarrow>
           let healthy = (case answer of Inl _ \<Rightarrow> False | Inr h \<Rightarrow> h) in
           case on_db (RecordHealthCheck (ai_ID inst) healthy) w1 of
             (Inl _, w2) \<Rightarrow> w2
           | (Inr _, w2) \<Rightarrow>
               if healthy then w2
               else case on_db (agent_GetByID (ai_ID inst)) w2 of
                   (Inl _, w3) \<Rightarrow> w3
                 | (Inr updated, w3) \<Rightarrow>
                     if int (ai_ConsecutiveFailures updated) \<ge> mc_MaxConsecutiveFailures (mn_cfg m)
                     then replaceUnhealthy m updated w3 else w3))"

datatype health_task = CheckRunning AgentInstance | RetryUnhealthy AgentInstance

fun run_task :: "Manager \<Rightarrow> health_task \<Rightarrow> fleet \<Rightarrow> fleet" where
  "run_task m (CheckRunning inst) w = check_running m inst w"
| "run_task m (RetryUnhealthy inst) w = replaceUnhealthy m inst w"

text \<open>\<open>sched\<close> orders the goroutines.\<close>

definition HealthCheckOnce ::
  "Manager \<Rightarrow> (health_task list \<Rightarrow> health_task list) \<Rightarrow> fleet \<Rightarrow> fleet" where
  "HealthCheckOnce m sched w =
     (case on_db (ListByStatus StatusRunning) w of
        (Inl _, w1) \<Rightarrow> w1
      | (Inr runningInstances, w1) \<Rightarrow>
          (case on_db (ListByStatus StatusUnhealthy) w1 of (r, w2) \<Rightarrow>
           let unhealthyInstances = (case r of Inl _ \<Rightarrow> [] | Inr us \<Rightarrow> us) in
           fold (run_task m)
             (sched (map CheckRunning runningInstances @ map RetryUnhealthy unhealthyInstances)) w2))"

end
