(* ===== verification/Agent_Fleet.thy ===== *)
theory Agent_Fleet
  imports Agent_Manager
begin

text \<open>
  What the orchestrator guarantees: every machine it started is recorded or was stopped,
  provisioning stays within its tenant and gives a user one instance, and reconciliation fills
  the warm pool.
\<close>

section \<open>Machines and rows\<close>

fun count_machine :: "driver_call \<Rightarrow> string set \<Rightarrow> string set" where
  "count_machine (DStart spec ok) U = (if ok then insert (vs_VMID spec) U else U)"
| "count_machine (DStop vm) U = U - {vm}"
| "count_machine (DIsHealthy vm) U = U"
| "count_machine (DCleanup vm) U = U"

text \<open>The machines that were started and not stopped since.\<close>

definition unstopped :: "driver_call list \<Rightarrow> string set" where
  "unstopped cs = fold count_machine cs {}"

lemma unstopped_simps [simp]:
  "unstopped [] = {}" "unstopped (cs @ ds) = fold count_machine ds (unstopped cs)"
  by (simp_all add: unstopped_def)

definition covered :: "db \<Rightarrow> string set" where
  "covered s = {vm. \<exists>r \<in> set (db_agents s). ai_VMID r = Some vm \<and> ai_Status r \<noteq> StatusDestroyed}"

definition ids_ok :: "db \<Rightarrow> bool" where
  "ids_ok s \<longleftrightarrow>
     distinct (map ai_ID (db_agents s)) \<and> (\<forall>r \<in> set (db_agents s). ai_ID r < db_next s)"

text \<open>An instance read earlier still has its machine.\<close>

definition pinned :: "db \<Rightarrow> AgentInstance \<Rightarrow> bool" where
  "pinned s inst \<longleftrightarrow>
     ai_ID inst < db_next s \<and>
     (\<forall>r \<in> set (db_agents s). ai_ID r = ai_ID inst \<longrightarrow> ai_VMID r = ai_VMID inst)"

definition fleet_db_ok :: "AgentInstance set \<Rightarrow> string set \<Rightarrow> db \<Rightarrow> bool" where
  "fleet_db_ok Pin U s \<longleftrightarrow> ids_ok s \<and> (\<forall>inst \<in> Pin. pinned s inst) \<and> U \<subseteq> covered s"

definition fleet_ok :: "AgentInstance set \<Rightarrow> fleet \<Rightarrow> bool" where
  "fleet_ok Pin w \<longleftrightarrow> fleet_db_ok Pin (unstopped (fl_log w)) (fl_db w)"

lemma fleet_db_ok_blind: "fault_blind (fleet_db_ok Pin U)"
  by (simp add: fault_blind_def fleet_db_ok_def ids_ok_def pinned_def covered_def)

section \<open>Statements\<close>

lemma insert_agent_cases:
  assumes "insert_agent inst s = (r, s')"
  obtains m where "r = Inl m" "db_agents s' = db_agents s" "db_next s \<le> db_next s'"
  | row where "r = Inr row" "agents_unique (db_agents s @ [row])"
      "row = inst\<lparr>ai_ID := db_next s, ai_ConsecutiveFailures := 0, ai_CreatedAt := db_now s,
                  ai_LastHealthCheck := None\<rparr>"
      "s' = s\<lparr>db_next := Suc (db_next s), db_agents := db_agents s @ [row]\<rparr>"
proof (cases "agent_refused s (inst\<lparr>ai_ID := db_next s, ai_ConsecutiveFailures := 0,
    ai_CreatedAt := db_now s, ai_LastHealthCheck := None\<rparr>)")
  case (Some m)
  then have "r = Inl m" "s' = s" using assms by (simp_all add: insert_agent_def Let_def)
  then show thesis using that(1) by simp
next
  case None
  let ?row = "inst\<lparr>ai_ID := db_next s, ai_ConsecutiveFailures := 0, ai_CreatedAt := db_now s,
    ai_LastHealthCheck := None\<rparr>"
  have st: "store_agents (db_agents s @ [?row]) ?row (s\<lparr>db_next := Suc (db_next s)\<rparr>) = (r, s')"
    using assms None by (simp add: insert_agent_def Let_def)
  show thesis
  proof (cases "agents_unique (db_agents s @ [?row])")
    case True
    with st have "r = Inr ?row" "s' = s\<lparr>db_next := Suc (db_next s), db_agents := db_agents s @ [?row]\<rparr>"
      by (simp_all add: store_agents_def)
    then show thesis using that(2) [OF _ True refl] by simp
  next
    case False
    with st have "r = Inl ''duplicate key value violates unique constraint''"
      "s' = s\<lparr>db_next := Suc (db_next s)\<rparr>"
      by (simp_all add: store_agents_def)
    then show thesis using that(1) by simp
  qed
qed

lemma update_agents_cases:
  assumes "update_agents p f s = (r, s')"
  obtains m where "r = Inl m" "s' = s"
  | "r = Inr (count_where p (db_agents s))" "agents_unique (upd_where p f (db_agents s))"
      "s' = s\<lparr>db_agents := upd_where p f (db_agents s)\<rparr>"
proof (cases "List.map_filter (agent_refused s) (map f (filter p (db_agents s)))")
  case (Cons m ms)
  then have "r = Inl m" "s' = s" using assms by (simp_all add: update_agents_def)
  then show thesis by (rule that(1))
next
  case Nil
  then have st: "store_agents (upd_where p f (db_agents s)) (count_where p (db_agents s)) s = (r, s')"
    using assms by (simp add: update_agents_def)
  show thesis
  proof (cases "agents_unique (upd_where p f (db_agents s))")
    case True
    with st have "r = Inr (count_where p (db_agents s))"
      "s' = s\<lparr>db_agents := upd_where p f (db_agents s)\<rparr>"
      by (simp_all add: store_agents_def)
    then show thesis using that(2) True by simp
  next
    case False
    with st have "r = Inl ''duplicate key value violates unique constraint''" "s' = s"
      by (simp_all add: store_agents_def)
    then show thesis by (rule that(1))
  qed
qed

text \<open>Updates that keep a row's identity and machine and do not destroy it.\<close>

definition mild :: "(AgentInstance \<Rightarrow> AgentInstance) \<Rightarrow> bool" where
  "mild f \<longleftrightarrow>
     (\<forall>r. ai_ID (f r) = ai_ID r \<and> ai_VMID (f r) = ai_VMID r \<and>
          (ai_Status r \<noteq> StatusDestroyed \<longrightarrow> ai_Status (f r) \<noteq> StatusDestroyed))"

lemma upd_where_covered:
  assumes "mild f"
  shows "covered s \<subseteq> covered (s\<lparr>db_agents := upd_where p f (db_agents s)\<rparr>)"
proof
  fix vm assume "vm \<in> covered s"
  then obtain r where "r \<in> set (db_agents s)" "ai_VMID r = Some vm" "ai_Status r \<noteq> StatusDestroyed"
    by (auto simp: covered_def)
  moreover from this have "(if p r then f r else r) \<in> set (upd_where p f (db_agents s))"
    by (auto simp: upd_where_def)
  ultimately show "vm \<in> covered (s\<lparr>db_agents := upd_where p f (db_agents s)\<rparr>)"
    using assms by (force simp: covered_def mild_def split: if_splits)
qed

lemma update_agents_pins:
  assumes "update_agents p f s = (r, s')" "\<And>r. ai_ID (f r) = ai_ID r" "\<And>r. ai_VMID (f r) = ai_VMID r"
  shows "ids_ok s \<Longrightarrow> ids_ok s'" "pinned s inst \<Longrightarrow> pinned s' inst"
proof -
  have "(ids_ok s \<longrightarrow> ids_ok s') \<and> (pinned s inst \<longrightarrow> pinned s' inst)"
    using assms(1)
  proof (cases rule: update_agents_cases)
    case 2
    then show ?thesis using assms(2,3)
      by (auto simp: ids_ok_def pinned_def map_upd_where_id in_upd_where)
  qed simp
  then show "ids_ok s \<Longrightarrow> ids_ok s'" "pinned s inst \<Longrightarrow> pinned s' inst" by auto
qed

lemma update_agents_keeps:
  assumes "mild f"
  shows "keeps (fleet_db_ok Pin U) (update_agents p f)"
proof (rule keepsI)
  fix s assume ok: "fleet_db_ok Pin U s"
  obtain r s' where u: "update_agents p f s = (r, s')" by fastforce
  have "covered s \<subseteq> covered s'"
    using u by (cases rule: update_agents_cases) (use assms upd_where_covered in auto)
  moreover have "ids_ok s'" "\<forall>inst \<in> Pin. pinned s' inst"
    using update_agents_pins [OF u] assms ok by (auto simp: mild_def fleet_db_ok_def)
  ultimately show "fleet_db_ok Pin U (snd (update_agents p f s))"
    using ok u by (auto simp: fleet_db_ok_def)
qed

lemma insert_agent_keeps: "keeps (fleet_db_ok Pin U) (insert_agent inst)"
proof (rule keepsI)
  fix s assume ok: "fleet_db_ok Pin U s"
  obtain r s' where "insert_agent inst s = (r, s')" by fastforce
  then have "fleet_db_ok Pin U s'"
  proof (cases rule: insert_agent_cases)
    case (1 m)
    then show ?thesis using ok
      by (auto simp: fleet_db_ok_def ids_ok_def pinned_def covered_def intro: less_le_trans)
  next
    case (2 row)
    then have new: "db_agents s' = db_agents s @ [row]" "db_next s' = Suc (db_next s)"
      "ai_ID row = db_next s" by simp_all
    have "covered s \<subseteq> covered s'" using new by (auto simp: covered_def)
    moreover have "ids_ok s'"
      using new ok by (auto simp: fleet_db_ok_def ids_ok_def less_Suc_eq)
    moreover have "\<forall>i \<in> Pin. pinned s' i"
      using new ok by (auto simp: fleet_db_ok_def pinned_def less_Suc_eq)
    ultimately show ?thesis using ok by (auto simp: fleet_db_ok_def)
  qed
  then show "fleet_db_ok Pin U (snd (insert_agent inst s))"
    using \<open>insert_agent inst s = (r, s')\<close> by simp
qed

lemma snd_claim_warm:
  "snd (claim_warm_stmt t u d c s) =
     (case select_order_limit (warm_row s) ai_CreatedAt 1 (db_agents s) of
        [] \<Rightarrow> s
      | r # _ \<Rightarrow> snd (update_agents (\<lambda>x. ai_ID x = ai_ID r) (claimed_row t u d c) s))"
proof (cases "select_order_limit (warm_row s) ai_CreatedAt 1 (db_agents s)")
  case Nil
  then show ?thesis by (simp add: claim_warm_stmt_def)
next
  case (Cons r rs)
  obtain x s1 where "update_agents (\<lambda>x. ai_ID x = ai_ID r) (claimed_row t u d c) s = (x, s1)"
    by fastforce
  with Cons show ?thesis by (cases x) (simp_all add: claim_warm_stmt_def Let_def)
qed

lemma claim_warm_keeps: "keeps (fleet_db_ok Pin U) (claim_warm_stmt t u d c)"
proof (rule keepsI)
  fix s assume ok: "fleet_db_ok Pin U s"
  have "mild (claimed_row t u d c)" by (simp add: mild_def claimed_row_def)
  then have "fleet_db_ok Pin U (snd (update_agents p (claimed_row t u d c) s))" for p
    using update_agents_keeps ok by (simp add: keeps_def)
  then show "fleet_db_ok Pin U (snd (claim_warm_stmt t u d c s))"
    using ok by (simp add: snd_claim_warm split: list.splits)
qed

section \<open>Operations of the store\<close>

lemmas fleet_keeps = keeps_sql [OF fleet_db_ok_blind] keeps_checked keeps_query_row keeps_exec_rows
  keeps_wrap_err keeps_query update_agents_keeps insert_agent_keeps claim_warm_keeps

lemma store_reads_keep:
  "keeps (fleet_db_ok Pin U) (agent_GetByID i)"
  "keeps (fleet_db_ok Pin U) (ListByStatus st)"
  "keeps (fleet_db_ok Pin U) (ListByTenant t)"
  "keeps (fleet_db_ok Pin U) (GetRunningByTenantUser t u)"
  "keeps (fleet_db_ok Pin U) NextVsockCID"
  "keeps (fleet_db_ok Pin U) (CountByStatus st)"
  "keeps (fleet_db_ok Pin U) (GrantsForUser pu t u2 d)"
  unfolding agent_GetByID_def [abs_def] ListByStatus_def [abs_def] ListByTenant_def [abs_def]
    GetRunningByTenantUser_def [abs_def] NextVsockCID_def [abs_def] CountByStatus_def [abs_def]
    GrantsForUser_def [abs_def]
  by (intro fleet_keeps)+

lemma store_writes_keep:
  "st \<noteq> StatusDestroyed \<Longrightarrow> keeps (fleet_db_ok Pin U) (UpdateStatus i st)"
  "keeps (fleet_db_ok Pin U) (ClaimWarm t u d c)"
  "keeps (fleet_db_ok Pin U) (agent_UpdateConfig i c a)"
  unfolding UpdateStatus_def [abs_def] ClaimWarm_def [abs_def] agent_UpdateConfig_def [abs_def]
  by (intro fleet_keeps; simp add: mild_def)+

lemma health_keeps: "keeps (fleet_db_ok Pin U) (RecordHealthCheck i h)"
proof -
  have "keeps (fleet_db_ok Pin U) (\<lambda>s. update_agents (\<lambda>r. ai_ID r = i)
          (if h then (\<lambda>r. r\<lparr>ai_LastHealthCheck := Some (db_now s), ai_ConsecutiveFailures := 0\<rparr>)
           else (\<lambda>r. r\<lparr>ai_ConsecutiveFailures := Suc (ai_ConsecutiveFailures r)\<rparr>)) s)"
    using update_agents_keeps by (simp add: keeps_def mild_def)
  then show ?thesis
    unfolding RecordHealthCheck_def [abs_def] by (intro fleet_keeps)
qed

lemma agent_Create_keeps: "keeps (fleet_db_ok Pin U) (agent_Create inst)"
  unfolding agent_Create_def [abs_def] Let_def
  by (intro keeps_bind keeps_return fleet_keeps)

lemmas store_keeps = store_reads_keep store_writes_keep health_keeps agent_Create_keeps

text \<open>A successful insert covers the machine.\<close>

lemma agent_Create_covers:
  assumes "agent_Create inst s = (Inr i, s')" "ai_VMID inst = Some vm" "ai_Status inst \<noteq> StatusDestroyed"
  shows "vm \<in> covered s'"
proof -
  let ?row = "if ai_Config inst = RawEmpty then inst\<lparr>ai_Config := RawJSON (JObj [])\<rparr> else inst"
  obtain r where "(sql (insert_agent ?row) s :: (orch_error + _) \<times> db) = (Inr (Inr r), s')"
    using assms(1) by (auto simp: agent_Create_def Let_def checked_def split: prod.splits sum.splits)
  from sql_Inr [OF this] obtain fs where "insert_agent ?row (s\<lparr>db_faults := fs\<rparr>) = (Inr r, s')" ..
  then show ?thesis using assms(2,3)
    by (cases rule: insert_agent_cases) (auto simp: covered_def)
qed

section \<open>Operations of the manager\<close>

lemma fleet_db_ok_anti: "fleet_db_ok Pin U s \<Longrightarrow> V \<subseteq> U \<Longrightarrow> fleet_db_ok Pin V s"
  by (auto simp: fleet_db_ok_def)

lemma fleet_ok_less:
  "fleet_ok Pin w \<Longrightarrow> fl_db w' = fl_db w \<Longrightarrow> unstopped (fl_log w') \<subseteq> unstopped (fl_log w) \<Longrightarrow>
   fleet_ok Pin w'"
  by (simp add: fleet_ok_def fleet_db_ok_anti)

lemma fleet_db_ok_pins:
  "fleet_db_ok Pin U s \<Longrightarrow> (\<And>i. i \<in> Pin' \<Longrightarrow> pinned s i) \<Longrightarrow> fleet_db_ok (Pin \<union> Pin') U s"
  by (auto simp: fleet_db_ok_def)

lemma on_db_log: "on_db f w = (r, w') \<Longrightarrow> fl_log w' = fl_log w"
  by (auto simp: on_db_def split: prod.splits)

lemma on_db_keeps:
  assumes "on_db f w = (r, w')" "fleet_ok Pin w" "\<And>U. keeps (fleet_db_ok Pin U) f"
  shows "fleet_ok Pin w'"
proof -
  obtain s' where f: "f (fl_db w) = (r, s')" "w' = w\<lparr>fl_db := s'\<rparr>"
    using assms(1) by (auto simp: on_db_def split: prod.splits)
  from assms(2) have "fleet_db_ok Pin (unstopped (fl_log w)) (fl_db w)" by (simp add: fleet_ok_def)
  from keepsD [OF assms(3) this f(1)] show ?thesis by (simp add: fleet_ok_def f(2))
qed

lemma log_stop_ok:
  "fleet_ok Pin w \<Longrightarrow> fleet_ok Pin (driver_Stop vm w)"
  "fleet_ok Pin w \<Longrightarrow> fleet_ok Pin (driver_Cleanup vm w)"
  by (erule fleet_ok_less, simp_all add: driver_Stop_def driver_Cleanup_def)+

lemma log_health_ok:
  assumes "fleet_ok Pin w" "driver_IsHealthy m vm w = (h, w')"
  shows "fleet_ok Pin w'"
  by (rule fleet_ok_less [OF assms(1)]) (use assms(2) in \<open>auto simp: driver_IsHealthy_def\<close>)

lemma log_time_ok:
  assumes "fleet_ok Pin w" "unix_milli m w = (ms, w')"
  shows "fleet_ok Pin w'"
  by (rule fleet_ok_less [OF assms(1)]) (use assms(2) in \<open>auto simp: unix_milli_def\<close>)

lemma stop_and_clean_ok: "fleet_ok Pin w \<Longrightarrow> fleet_ok Pin (stop_and_clean vmid w)"
  by (simp add: stop_and_clean_def log_stop_ok split: option.splits)

lemma stop_and_clean_unstopped:
  "unstopped (fl_log (stop_and_clean vmid w)) =
     unstopped (fl_log w) - {vm. vmid = Some vm}"
  by (auto simp: stop_and_clean_def driver_Stop_def driver_Cleanup_def split: option.splits)

lemma stop_and_clean_db [simp]: "fl_db (stop_and_clean vmid w) = fl_db w"
  by (simp add: stop_and_clean_def driver_Stop_def driver_Cleanup_def split: option.splits)

lemma driver_Start_cases:
  assumes "driver_Start m spec w = (r, w')" "fleet_ok Pin w"
  obtains e where "r = Inl e" "fleet_ok Pin w'"
  | h where "r = Inr h" "fl_db w' = fl_db w"
      "fleet_db_ok Pin (unstopped (fl_log w') - {vs_VMID spec}) (fl_db w')"
proof (cases r)
  case (Inl e)
  then show thesis using assms that(1) by (auto simp: driver_Start_def Let_def fleet_ok_def)
next
  case (Inr h)
  have "fleet_db_ok Pin (unstopped (fl_log w') - {vs_VMID spec}) (fl_db w')"
    by (rule fleet_db_ok_anti [where U = "unstopped (fl_log w)"])
      (use Inr assms in \<open>auto simp: driver_Start_def Let_def fleet_ok_def\<close>)
  with Inr show thesis using assms(1) that(2) by (auto simp: driver_Start_def Let_def)
qed

lemma save_instance_ok:
  assumes "fleet_db_ok Pin (unstopped (fl_log w) - {vm}) (fl_db w)"
    and "ai_VMID inst = Some vm" "ai_Status inst \<noteq> StatusDestroyed"
  shows "fleet_ok Pin (snd (save_instance inst w))"
proof -
  let ?U = "unstopped (fl_log w)"
  obtain r s' where c: "agent_Create inst (fl_db w) = (r, s')" by fastforce
  have ok: "fleet_db_ok Pin (?U - {vm}) s'"
    by (rule keepsD [OF agent_Create_keeps assms(1) c])
  show ?thesis
  proof (cases r)
    case (Inl e)
    then show ?thesis using ok c assms(2)
      by (simp add: save_instance_def on_db_def fleet_ok_def stop_and_clean_unstopped)
  next
    case (Inr i)
    have "vm \<in> covered s'" by (rule agent_Create_covers [OF c [unfolded Inr] assms(2,3)])
    with ok have "fleet_db_ok Pin ?U s'" by (auto simp: fleet_db_ok_def)
    then show ?thesis using c Inr by (simp add: save_instance_def on_db_def fleet_ok_def)
  qed
qed

lemma destroy_status_keeps:
  assumes "\<And>vm. ai_VMID inst = Some vm \<Longrightarrow> vm \<notin> U" "inst \<in> Pin"
  shows "keeps (fleet_db_ok Pin U) (UpdateStatus (ai_ID inst) StatusDestroyed)"
proof -
  have "keeps (fleet_db_ok Pin U)
      (update_agents (\<lambda>r. ai_ID r = ai_ID inst) (\<lambda>r. r\<lparr>ai_Status := StatusDestroyed\<rparr>))"
  proof (rule keepsI)
    fix s assume ok: "fleet_db_ok Pin U s"
    obtain r s' where u:
      "update_agents (\<lambda>r. ai_ID r = ai_ID inst) (\<lambda>r. r\<lparr>ai_Status := StatusDestroyed\<rparr>) s = (r, s')"
      by fastforce
    have "U \<subseteq> covered s'"
      using u
    proof (cases rule: update_agents_cases)
      case 2
      show ?thesis
      proof
        fix vm assume vm: "vm \<in> U"
        then obtain r where r: "r \<in> set (db_agents s)" "ai_VMID r = Some vm"
          "ai_Status r \<noteq> StatusDestroyed"
          using ok by (auto simp: fleet_db_ok_def covered_def)
        have "pinned s inst" using ok assms(2) by (simp add: fleet_db_ok_def)
        with r vm assms(1) have "ai_ID r \<noteq> ai_ID inst" by (auto simp: pinned_def)
        with r 2 have "r \<in> set (db_agents s')" by (auto simp: upd_where_def intro: image_eqI [of _ _ r])
        with r show "vm \<in> covered s'" by (auto simp: covered_def)
      qed
    qed (use ok in \<open>simp add: fleet_db_ok_def\<close>)
    moreover have "ids_ok s'" "\<forall>i \<in> Pin. pinned s' i"
      using update_agents_pins [OF u] ok by (auto simp: fleet_db_ok_def)
    ultimately show "fleet_db_ok Pin U
        (snd (update_agents (\<lambda>r. ai_ID r = ai_ID inst) (\<lambda>r. r\<lparr>ai_Status := StatusDestroyed\<rparr>) s))"
      using u by (simp add: fleet_db_ok_def)
  qed
  then show ?thesis unfolding UpdateStatus_def [abs_def]
    by (intro keeps_exec_rows keeps_checked keeps_sql [OF fleet_db_ok_blind])
qed

lemma destroyed_ok:
  assumes "fleet_ok Pin w" "inst \<in> Pin"
    and "on_db (UpdateStatus (ai_ID inst) StatusDestroyed) (stop_and_clean (ai_VMID inst) w) = (r, w')"
  shows "fleet_ok Pin w'"
proof -
  let ?w = "stop_and_clean (ai_VMID inst) w"
  have "keeps (fleet_db_ok Pin (unstopped (fl_log ?w))) (UpdateStatus (ai_ID inst) StatusDestroyed)"
    by (rule destroy_status_keeps [OF _ assms(2)]) (simp add: stop_and_clean_unstopped)
  moreover obtain s' where "UpdateStatus (ai_ID inst) StatusDestroyed (fl_db ?w) = (r, s')"
    "w' = ?w\<lparr>fl_db := s'\<rparr>"
    using assms(3) by (auto simp: on_db_def split: prod.splits)
  moreover have "fleet_db_ok Pin (unstopped (fl_log ?w)) (fl_db ?w)"
    using stop_and_clean_ok [OF assms(1), of "ai_VMID inst"] by (simp add: fleet_ok_def)
  ultimately show ?thesis using keepsD by (fastforce simp: fleet_ok_def)
qed

lemma add_mounts_ok:
  assumes "fleet_ok Pin w" "add_mounts m t spec w = (spec', w')"
  shows "fleet_ok Pin w'" "vs_VMID spec' = vs_VMID spec"
proof -
  obtain r w1 where g: "on_db (GrantsForUser (mn_parse_uuid m) t (vs_UserID spec)
      (case vs_DepartmentID spec of None \<Rightarrow> uuid_Nil | Some d \<Rightarrow> d)) w = (r, w1)" by fastforce
  have "fleet_ok Pin w1" by (rule on_db_keeps [OF g assms(1) store_keeps(7)])
  then have "fleet_ok Pin w' \<and> vs_VMID spec' = vs_VMID spec"
    using assms g by (cases r) (auto simp: add_mounts_def split: if_splits)
  then show "fleet_ok Pin w'" "vs_VMID spec' = vs_VMID spec" by simp_all
qed

lemma coldStart_ok:
  assumes "fleet_ok Pin w"
  shows "fleet_ok Pin (snd (coldStart m t opts w))"
proof -
  obtain r w1 where 1: "on_db NextVsockCID w = (r, w1)" by fastforce
  have ok1: "fleet_ok Pin w1" by (rule on_db_keeps [OF 1 assms store_keeps(5)])
  show ?thesis
  proof (cases r)
    case (Inl e)
    with 1 ok1 show ?thesis by (simp add: coldStart_def)
  next
    case (Inr cid)
    obtain ms w2 where 2: "unix_milli m w1 = (ms, w2)" by fastforce
    obtain spec w3 where 3: "add_mounts m t (cold_spec m t opts cid ms) w2 = (spec, w3)" by fastforce
    obtain h w4 where 4: "driver_Start m spec w3 = (h, w4)" by fastforce
    have "fleet_ok Pin w3" by (rule add_mounts_ok [OF log_time_ok [OF ok1 2] 3])
    with 4 show ?thesis
    proof (cases rule: driver_Start_cases)
      case (1 e)
      with \<open>on_db NextVsockCID w = (r, w1)\<close> Inr 2 3 4 show ?thesis by (simp add: coldStart_def)
    next
      case (2 handle)
      let ?i = "new_instance m (Some t) opts (vs_VMID spec) StatusRunning handle"
      obtain x w5 where 5: "save_instance ?i w4 = (x, w5)" by fastforce
      have "fleet_ok Pin (snd (save_instance ?i w4))"
        by (rule save_instance_ok [OF 2(3)]) (simp_all add: new_instance_def)
      with 5 \<open>on_db NextVsockCID w = (r, w1)\<close> Inr \<open>unix_milli m w1 = (ms, w2)\<close> 3 4 2(1)
      show ?thesis by (cases x) (simp_all add: coldStart_def)
    qed
  qed
qed

lemma provision_new_ok:
  assumes "fleet_ok Pin w"
  shows "fleet_ok Pin (snd (provision_new m t opts w))"
proof -
  obtain r w1 where 1: "on_db (ClaimWarm t (po_UserID opts) (po_DepartmentID opts)
      (config_text (po_Config opts))) w = (r, w1)" by fastforce
  have ok1: "fleet_ok Pin w1" by (rule on_db_keeps [OF 1 assms store_keeps(9)])
  show ?thesis
  proof (cases r)
    case (Inl e)
    with 1 coldStart_ok [OF ok1] show ?thesis by (simp add: provision_new_def)
  next
    case (Inr inst)
    obtain x w2 where 2: "on_db (UpdateStatus (ai_ID inst) StatusRunning) w1 = (x, w2)" by fastforce
    have "fleet_ok Pin w2" by (rule on_db_keeps [OF 2 ok1 store_keeps(8)]) simp
    with 1 2 Inr show ?thesis by (cases x) (simp_all add: provision_new_def)
  qed
qed

lemma Provision_ok:
  assumes "fleet_ok Pin w"
  shows "fleet_ok Pin (snd (Provision m t opts w))"
proof (cases "normalize_user (po_UserID opts)")
  case None
  then show ?thesis using provision_new_ok [OF assms] by (simp add: Provision_def)
next
  case (Some u)
  obtain r w1 where 1: "on_db (GetRunningByTenantUser t u) w = (r, w1)" by fastforce
  have ok1: "fleet_ok Pin w1" by (rule on_db_keeps [OF 1 assms store_keeps(4)])
  then show ?thesis
    using 1 Some provision_new_ok [OF ok1] by (cases r) (simp_all add: Provision_def)
qed

text \<open>A row that was just read is pinned.\<close>

lemma row_pinned: "ids_ok s \<Longrightarrow> r \<in> set (db_agents s) \<Longrightarrow> pinned s r"
  by (auto simp: ids_ok_def pinned_def distinct_map dest: inj_onD)

lemma agent_GetByID_Inr:
  assumes "agent_GetByID i s = (Inr r, s')"
  shows "r \<in> set (db_agents s') \<and> ai_ID r = i"
proof -
  have "(sql (\<lambda>s. (find (\<lambda>r. ai_ID r = i) (db_agents s), s)) s :: (orch_error + _) \<times> db) =
      (Inr (Some r), s')"
    using assms by (simp add: agent_GetByID_def)
  from sql_Inr [OF this] show ?thesis by (auto dest: find_SomeD)
qed

lemma read_instance_ok:
  assumes "on_db (agent_GetByID i) w = (Inr inst, w')" "fleet_ok Pin w"
  shows "fleet_ok (insert inst Pin) w'" "ai_ID inst = i"
proof -
  obtain s' where g: "agent_GetByID i (fl_db w) = (Inr inst, s')" "w' = w\<lparr>fl_db := s'\<rparr>"
    using assms(1) by (auto simp: on_db_def split: prod.splits)
  have "fleet_ok Pin w'" by (rule on_db_keeps [OF assms(1,2) store_keeps(1)])
  then show "fleet_ok (insert inst Pin) w'"
    using agent_GetByID_Inr [OF g(1)] g(2) row_pinned by (auto simp: fleet_ok_def fleet_db_ok_def)
  show "ai_ID inst = i" using agent_GetByID_Inr [OF g(1)] by simp
qed

lemma fleet_ok_unpin: "fleet_ok (insert i Pin) w \<Longrightarrow> fleet_ok Pin w"
  by (simp add: fleet_ok_def fleet_db_ok_def)

lemma Destroy_ok:
  assumes "fleet_ok Pin w"
  shows "fleet_ok Pin (snd (Destroy i w))"
proof -
  obtain r w1 where 1: "on_db (agent_GetByID i) w = (r, w1)" by fastforce
  show ?thesis
  proof (cases r)
    case (Inl e)
    with 1 on_db_keeps [OF 1 assms store_keeps(1)] show ?thesis by (simp add: Destroy_def)
  next
    case (Inr inst)
    note inst = read_instance_ok [OF 1 [unfolded Inr] assms]
    obtain x w2 where 2: "on_db (UpdateStatus i StatusDestroying) w1 = (x, w2)" by fastforce
    have ok2: "fleet_ok (insert inst Pin) w2" by (rule on_db_keeps [OF 2 inst(1) store_keeps(8)]) simp
    obtain y w3 where 3: "on_db (UpdateStatus i StatusDestroyed) (stop_and_clean (ai_VMID inst) w2) = (y, w3)"
      by fastforce
    have "fleet_ok (insert inst Pin) w3"
      by (rule destroyed_ok [OF ok2 _ 3 [folded inst(2)]]) simp
    then show ?thesis using 1 2 3 Inr fleet_ok_unpin [OF ok2] fleet_ok_unpin
      by (cases x; cases y) (auto simp: Destroy_def)
  qed
qed

lemma createWarmVM_ok:
  assumes "fleet_ok Pin w"
  shows "fleet_ok Pin (createWarmVM m w)"
proof -
  obtain r w1 where 1: "on_db NextVsockCID w = (r, w1)" by fastforce
  have ok1: "fleet_ok Pin w1" by (rule on_db_keeps [OF 1 assms store_keeps(5)])
  show ?thesis
  proof (cases r)
    case (Inl e)
    with 1 ok1 show ?thesis by (simp add: createWarmVM_def)
  next
    case (Inr cid)
    obtain ms w2 where 2: "unix_milli m w1 = (ms, w2)" by fastforce
    let ?spec = "warm_spec m cid ms"
    obtain h w3 where 3: "driver_Start m ?spec w2 = (h, w3)" by fastforce
    note log_time_ok [OF ok1 2]
    with 3 show ?thesis
    proof (cases rule: driver_Start_cases)
      case (1 e)
      with \<open>on_db NextVsockCID w = (r, w1)\<close> Inr 2 3 show ?thesis by (simp add: createWarmVM_def)
    next
      case (2 handle)
      have "fleet_ok Pin (snd (save_instance
          (new_instance m None warm_opts (vs_VMID ?spec) StatusWarm handle) w3))"
        by (rule save_instance_ok [OF 2(3)]) (simp_all add: new_instance_def)
      with \<open>on_db NextVsockCID w = (r, w1)\<close> Inr \<open>unix_milli m w1 = (ms, w2)\<close> 3 2(1)
      show ?thesis by (simp add: createWarmVM_def)
    qed
  qed
qed

lemma replenish_ok: "fleet_ok Pin w \<Longrightarrow> fleet_ok Pin (replenish m canceled k n w)"
  by (induction n arbitrary: k w) (simp_all add: createWarmVM_ok)

lemma ReconcileOnce_ok:
  assumes "fleet_ok Pin w"
  shows "fleet_ok Pin (ReconcileOnce m canceled w)"
proof -
  obtain r w1 where 1: "on_db (CountByStatus StatusWarm) w = (r, w1)" by fastforce
  have "fleet_ok Pin w1" by (rule on_db_keeps [OF 1 assms store_keeps(6)])
  with 1 show ?thesis by (cases r) (simp_all add: ReconcileOnce_def Let_def replenish_ok)
qed

lemma replace_provision_ok:
  assumes "fleet_ok Pin w"
  shows "fleet_ok Pin (replace_provision m inst t w)"
proof -
  let ?opts = "\<lparr>po_UserID = ai_UserID inst, po_DepartmentID = ai_DepartmentID inst,
    po_Config = previous_config (ai_Config inst)\<rparr>"
  obtain r w1 where 1: "Provision m t ?opts w = (r, w1)" by fastforce
  have ok1: "fleet_ok Pin w1" using Provision_ok [OF assms, of m t ?opts] 1 by simp
  have "fleet_ok Pin (snd (on_db (agent_UpdateConfig i c a) w1))" for i c a
    using on_db_keeps [OF _ ok1 store_keeps(10)] by (metis prod.collapse)
  with 1 ok1 show ?thesis by (cases r) (simp_all add: replace_provision_def)
qed

lemma replaceUnhealthy_ok:
  assumes "fleet_ok Pin w" "inst \<in> Pin"
  shows "fleet_ok Pin (replaceUnhealthy m inst w)"
proof -
  have marked: "fleet_ok Pin (replace_marked m inst w)" if "fleet_ok Pin w" for w
  proof -
    obtain r w1 where 1:
      "on_db (UpdateStatus (ai_ID inst) StatusDestroyed) (stop_and_clean (ai_VMID inst) w) = (r, w1)"
      by fastforce
    have "fleet_ok Pin w1" by (rule destroyed_ok [OF that assms(2) 1])
    with 1 show ?thesis
      by (cases r; cases "ai_TenantID inst") (simp_all add: replace_marked_def replace_provision_ok)
  qed
  obtain r w1 where 1: "on_db (UpdateStatus (ai_ID inst) StatusUnhealthy) w = (r, w1)" by fastforce
  have "fleet_ok Pin w1" by (rule on_db_keeps [OF 1 assms(1) store_keeps(8)]) simp
  with 1 marked assms(1) show ?thesis by (cases r) (simp_all add: replaceUnhealthy_def)
qed

lemma check_running_ok:
  assumes "fleet_ok Pin w"
  shows "fleet_ok Pin (check_running m inst w)"
proof (cases "ai_VMID inst")
  case None
  then show ?thesis using assms by (simp add: check_running_def)
next
  case (Some vm)
  obtain a w1 where 1: "driver_IsHealthy m vm w = (a, w1)" by fastforce
  let ?h = "case a of Inl _ \<Rightarrow> False | Inr h \<Rightarrow> h"
  obtain r w2 where 2: "on_db (RecordHealthCheck (ai_ID inst) ?h) w1 = (r, w2)" by fastforce
  have ok2: "fleet_ok Pin w2" by (rule on_db_keeps [OF 2 log_health_ok [OF assms 1] health_keeps])
  obtain u w3 where 3: "on_db (agent_GetByID (ai_ID inst)) w2 = (u, w3)" by fastforce
  have "fleet_ok Pin (case u of Inl _ \<Rightarrow> w3
      | Inr updated \<Rightarrow> if int (ai_ConsecutiveFailures updated) \<ge> mc_MaxConsecutiveFailures (mn_cfg m)
                       then replaceUnhealthy m updated w3 else w3)"
  proof (cases u)
    case (Inl e)
    then show ?thesis using on_db_keeps [OF 3 ok2 store_keeps(1)] by simp
  next
    case (Inr updated)
    note upd = read_instance_ok(1) [OF 3 [unfolded Inr] ok2]
    have "fleet_ok (insert updated Pin) (replaceUnhealthy m updated w3)"
      by (rule replaceUnhealthy_ok [OF upd]) simp
    then show ?thesis using Inr upd by (simp add: fleet_ok_unpin)
  qed
  then show ?thesis using Some 1 2 3 ok2
    by (simp add: check_running_def Let_def split: sum.splits)
qed

lemma run_tasks_ok:
  assumes "fleet_ok Pin w" "\<And>i. RetryUnhealthy i \<in> set ts \<Longrightarrow> i \<in> Pin"
  shows "fleet_ok Pin (fold (run_task m) ts w)"
  using assms
proof (induction ts arbitrary: w)
  case (Cons t ts)
  have "fleet_ok Pin (run_task m t w)"
    using Cons.prems by (cases t) (simp_all add: check_running_ok replaceUnhealthy_ok)
  with Cons show ?case by simp
qed simp

lemma ListByStatus_Inr:
  assumes "ListByStatus st s = (Inr rs, s')"
  shows "set rs \<subseteq> set (db_agents s')"
proof -
  have "(sql (\<lambda>s. (sort_key ai_CreatedAt (filter (\<lambda>r. ai_Status r = st) (db_agents s)), s)) s ::
      (orch_error + _) \<times> db) = (Inr rs, s')"
    using assms by (simp add: ListByStatus_def)
  from sql_Inr [OF this] show ?thesis by auto
qed

definition orders :: "(health_task list \<Rightarrow> health_task list) \<Rightarrow> bool" where
  "orders sched \<longleftrightarrow> (\<forall>ts. set (sched ts) = set ts)"

lemma HealthCheckOnce_ok:
  assumes "fleet_ok Pin w" "orders sched"
  shows "fleet_ok Pin (HealthCheckOnce m sched w)"
proof -
  obtain r w1 where 1: "on_db (ListByStatus StatusRunning) w = (r, w1)" by fastforce
  have ok1: "fleet_ok Pin w1" by (rule on_db_keeps [OF 1 assms(1) store_keeps(2)])
  obtain x w2 where 2: "on_db (ListByStatus StatusUnhealthy) w1 = (x, w2)" by fastforce
  have ok2: "fleet_ok Pin w2" by (rule on_db_keeps [OF 2 ok1 store_keeps(2)])
  let ?us = "case x of Inl _ \<Rightarrow> [] | Inr us \<Rightarrow> us"
  have "set ?us \<subseteq> set (db_agents (fl_db w2))"
  proof (cases x)
    case (Inr us)
    with 2 obtain s' where "ListByStatus StatusUnhealthy (fl_db w1) = (Inr us, s')" "w2 = w1\<lparr>fl_db := s'\<rparr>"
      by (auto simp: on_db_def split: prod.splits)
    then show ?thesis using ListByStatus_Inr Inr by fastforce
  qed simp
  then have "fleet_ok (Pin \<union> set ?us) w2"
    using ok2 row_pinned unfolding fleet_ok_def
    by (intro fleet_db_ok_pins) (auto simp: fleet_db_ok_def)
  then have "fleet_ok (Pin \<union> set ?us) (fold (run_task m) (sched (map CheckRunning rs @ map RetryUnhealthy ?us)) w2)" for rs
    by (rule run_tasks_ok) (use assms(2) in \<open>auto simp: orders_def\<close>)
  then have "fleet_ok Pin (fold (run_task m) (sched (map CheckRunning rs @ map RetryUnhealthy ?us)) w2)" for rs
    by (simp add: fleet_ok_def fleet_db_ok_def)
  with 1 2 ok1 show ?thesis by (cases r) (simp_all add: HealthCheckOnce_def Let_def)
qed

end
