(* ===== verification/Agent_Provisioning.thy ===== *)
theory Agent_Provisioning
  imports Agent_Fleet
begin

text \<open>
  Provisioning: whose instance a caller gets, what it leaves alone, and that asking again gives
  the same instance; and the reconciliation of the warm pool.
\<close>

section \<open>Effects of the store on success\<close>

lemma UpdateStatus_Inr:
  assumes "UpdateStatus i st s = (Inr u, s')"
  obtains fs where
    "s' = s\<lparr>db_faults := fs, db_agents := upd_where (\<lambda>r. ai_ID r = i) (\<lambda>r. r\<lparr>ai_Status := st\<rparr>) (db_agents s)\<rparr>"
    "agents_unique (db_agents s')" "\<exists>r \<in> set (db_agents s). ai_ID r = i"
proof -
  let ?p = "\<lambda>r. ai_ID r = i" and ?f = "\<lambda>r. r\<lparr>ai_Status := st\<rparr>"
  obtain n where n: "n \<noteq> 0"
    "(sql (update_agents ?p ?f) s :: (orch_error + _) \<times> db) = (Inr (Inr n), s')"
    using assms by (auto simp: UpdateStatus_def)
  from sql_Inr [OF n(2)] obtain fs where "update_agents ?p ?f (s\<lparr>db_faults := fs\<rparr>) = (Inr n, s')" ..
  then show thesis
  proof (cases rule: update_agents_cases)
    case 2
    then have "count_where ?p (db_agents s) \<noteq> 0" using n(1) by simp
    then have "\<exists>r \<in> set (db_agents s). ai_ID r = i" by (simp add: count_where_0)
    with 2 show thesis using that [of fs] by simp
  qed simp
qed

lemma ClaimWarm_Inr:
  assumes "ClaimWarm t u d c s = (Inr inst, s')"
  obtains fs r where "r \<in> set (db_agents s)" "ai_TenantID r = None" "ai_Status r = StatusWarm"
    "inst = claimed_row t u d c r"
    "s' = s\<lparr>db_faults := fs,
            db_agents := upd_where (\<lambda>x. ai_ID x = ai_ID r) (claimed_row t u d c) (db_agents s)\<rparr>"
    "agents_unique (db_agents s')"
proof -
  have "(sql (claim_warm_stmt t u d c) s :: (orch_error + _) \<times> db) = (Inr (Inr (Some inst)), s')"
    using assms by (auto simp: ClaimWarm_def)
  from sql_Inr [OF this] obtain fs where
    c: "claim_warm_stmt t u d c (s\<lparr>db_faults := fs\<rparr>) = (Inr (Some inst), s')" ..
  let ?s = "s\<lparr>db_faults := fs\<rparr>"
  obtain r rs where r: "select_order_limit (warm_row ?s) ai_CreatedAt 1 (db_agents ?s) = r # rs"
    using c by (auto simp: claim_warm_stmt_def split: list.splits)
  have w: "r \<in> set (db_agents s)" "warm_row ?s r"
    using set_select_order_limit_subset [of "warm_row ?s" ai_CreatedAt 1 "db_agents ?s"] r by auto
  obtain x s1 where u: "update_agents (\<lambda>x. ai_ID x = ai_ID r) (claimed_row t u d c) ?s = (x, s1)"
    by fastforce
  then show thesis
  proof (cases rule: update_agents_cases)
    case (1 m)
    with c r u show thesis by (simp add: claim_warm_stmt_def Let_def)
  next
    case 2
    with c r u have "inst = claimed_row t u d c r" "s' = s1" by (simp_all add: claim_warm_stmt_def Let_def)
    with 2 w show thesis using that [of r fs] by (simp add: warm_row_def)
  qed
qed

lemma agent_Create_Inr:
  assumes "agent_Create inst s = (Inr i, s')"
  obtains fs row where "db_agents s' = db_agents s @ [row]" "agents_unique (db_agents s')"
    "db_next s' = Suc (db_next s)" "db_faults s' = fs"
    "ai_ID row = db_next s" "ai_ID i = ai_ID row" "ai_VMID row = ai_VMID inst" "ai_VMID i = ai_VMID inst"
    "ai_TenantID row = ai_TenantID inst" "ai_UserID row = ai_UserID inst" "ai_Status row = ai_Status inst"
proof -
  let ?row = "if ai_Config inst = RawEmpty then inst\<lparr>ai_Config := RawJSON (JObj [])\<rparr> else inst"
  obtain r where r: "(sql (insert_agent ?row) s :: (orch_error + _) \<times> db) = (Inr (Inr r), s')"
    "i = inst\<lparr>ai_ID := ai_ID r, ai_CreatedAt := ai_CreatedAt r\<rparr>"
    using assms by (auto simp: agent_Create_def Let_def checked_def split: prod.splits sum.splits)
  from sql_Inr [OF r(1)] obtain fs where "insert_agent ?row (s\<lparr>db_faults := fs\<rparr>) = (Inr r, s')" ..
  then show thesis
  proof (cases rule: insert_agent_cases)
    case (2 row)
    then have "row = r" by simp
    with 2 r(2) show thesis using that [of row fs] by simp
  qed simp
qed

section \<open>Rows of other tenants\<close>

definition foreign_rows :: "uuid \<Rightarrow> db \<Rightarrow> AgentInstance list" where
  "foreign_rows t s = filter (\<lambda>r. ai_TenantID r \<noteq> None \<and> ai_TenantID r \<noteq> Some t) (db_agents s)"

lemma filter_upd_where:
  "(\<And>r. r \<in> set rs \<Longrightarrow> p r \<Longrightarrow> \<not> q r \<and> \<not> q (f r)) \<Longrightarrow> filter q (upd_where p f rs) = filter q rs"
  by (induction rs) auto

definition apart :: "uuid \<Rightarrow> AgentInstance list \<Rightarrow> db \<Rightarrow> bool" where
  "apart t X s \<longleftrightarrow> ids_ok s \<and> foreign_rows t s = X"

lemma apart_blind: "fault_blind (apart t X)"
  by (simp add: fault_blind_def apart_def ids_ok_def foreign_rows_def)

lemma same_id: "ids_ok s \<Longrightarrow> r \<in> set (db_agents s) \<Longrightarrow> r' \<in> set (db_agents s) \<Longrightarrow> ai_ID r = ai_ID r' \<Longrightarrow> r = r'"
  by (auto simp: ids_ok_def distinct_map dest: inj_onD)

lemma claim_apart: "keeps (apart t X) (claim_warm_stmt t u d c)"
proof (rule keepsI)
  fix s assume a: "apart t X s"
  show "apart t X (snd (claim_warm_stmt t u d c s))"
  proof (cases "select_order_limit (warm_row s) ai_CreatedAt 1 (db_agents s)")
    case Nil
    then show ?thesis using a by (simp add: snd_claim_warm)
  next
    case (Cons r rs)
    then have r: "r \<in> set (db_agents s)" "ai_TenantID r = None"
      using set_select_order_limit_subset [of "warm_row s" ai_CreatedAt 1 "db_agents s"]
      by (auto simp: warm_row_def)
    obtain x s1 where u: "update_agents (\<lambda>x. ai_ID x = ai_ID r) (claimed_row t u d c) s = (x, s1)"
      by fastforce
    have "ids_ok s1"
      using update_agents_pins(1) [OF u] a by (simp add: claimed_row_def apart_def)
    moreover have "foreign_rows t s1 = foreign_rows t s"
      using u
    proof (cases rule: update_agents_cases)
      case 2
      have "ai_TenantID x = None" if "x \<in> set (db_agents s)" "ai_ID x = ai_ID r" for x
        using same_id [OF _ that(1) r(1) that(2)] r(2) a by (simp add: apart_def)
      then have "filter (\<lambda>r. ai_TenantID r \<noteq> None \<and> ai_TenantID r \<noteq> Some t)
          (upd_where (\<lambda>x. ai_ID x = ai_ID r) (claimed_row t u d c) (db_agents s)) =
        filter (\<lambda>r. ai_TenantID r \<noteq> None \<and> ai_TenantID r \<noteq> Some t) (db_agents s)"
        by (intro filter_upd_where) (simp add: claimed_row_def)
      then show ?thesis using 2(3) by (simp add: foreign_rows_def)
    qed simp
    ultimately show ?thesis using Cons u a by (simp add: snd_claim_warm apart_def)
  qed
qed

lemma insert_apart:
  assumes "ai_TenantID inst = Some t"
  shows "keeps (apart t X) (insert_agent inst)"
proof (rule keepsI)
  fix s assume a: "apart t X s"
  obtain r s' where i: "insert_agent inst s = (r, s')" by fastforce
  then have "foreign_rows t s' = foreign_rows t s"
    by (cases rule: insert_agent_cases) (simp_all add: foreign_rows_def assms)
  moreover have "fleet_db_ok {} {} s" using a by (simp add: apart_def fleet_db_ok_def)
  then have "ids_ok s'"
    using keepsD [OF insert_agent_keeps [where Pin = "{}" and U = "{}"] _ i] by (simp add: fleet_db_ok_def)
  ultimately show "apart t X (snd (insert_agent inst s))" using a i by (simp add: apart_def)
qed

lemma agent_Create_apart:
  "ai_TenantID inst = Some t \<Longrightarrow> keeps (apart t X) (agent_Create inst)"
  unfolding agent_Create_def [abs_def] Let_def
  by (intro keeps_bind keeps_return keeps_checked keeps_sql [OF apart_blind] insert_apart) simp

lemmas apart_keeps = keeps_sql [OF apart_blind] keeps_checked keeps_query_row keeps_wrap_err keeps_query

lemma reads_apart:
  "keeps (apart t X) NextVsockCID"
  "keeps (apart t X) (GrantsForUser pu t' u' d)"
  "keeps (apart t X) (GetRunningByTenantUser t' u')"
  unfolding NextVsockCID_def [abs_def] GrantsForUser_def [abs_def] GetRunningByTenantUser_def [abs_def]
  by (intro apart_keeps)+

lemma ClaimWarm_apart: "keeps (apart t X) (ClaimWarm t u d c)"
  unfolding ClaimWarm_def [abs_def] by (intro apart_keeps claim_apart)

section \<open>Provisioning\<close>

text \<open>The row behind a provisioned instance.\<close>

definition serves :: "uuid \<Rightarrow> string option \<Rightarrow> AgentInstance \<Rightarrow> db \<Rightarrow> bool" where
  "serves t u inst s \<longleftrightarrow>
     (\<exists>r \<in> set (db_agents s). ai_ID r = ai_ID inst \<and> ai_TenantID r = Some t \<and> ai_UserID r = u \<and>
        ai_VMID r = ai_VMID inst \<and> ai_Status r \<in> {StatusRunning, StatusProvisioning})"

definition provided :: "uuid \<Rightarrow> string option \<Rightarrow> db \<Rightarrow> orch_error + AgentInstance \<Rightarrow> fleet \<Rightarrow> bool" where
  "provided t u s r w \<longleftrightarrow>
     ids_ok (fl_db w) \<and> foreign_rows t (fl_db w) = foreign_rows t s \<and>
     (\<forall>inst. r = Inr inst \<longrightarrow>
        serves t u inst (fl_db w) \<and>
        (agents_unique (db_agents s) \<longrightarrow> agents_unique (db_agents (fl_db w))))"

lemma on_db_apart:
  assumes "on_db f w = (r, w')" "apart t X (fl_db w)" "keeps (apart t X) f"
  shows "apart t X (fl_db w')"
  using assms by (auto simp: on_db_def keeps_def split: prod.splits dest: spec [of _ "fl_db w"])

lemma coldStart_provided:
  assumes "coldStart m t opts w = (r, w')" "apart t (foreign_rows t s) (fl_db w)"
  shows "provided t (po_UserID opts) s r w'"
proof -
  let ?A = "\<lambda>w. apart t (foreign_rows t s) (fl_db w)"
  obtain c w1 where 1: "on_db NextVsockCID w = (c, w1)" by fastforce
  have a1: "?A w1" by (rule on_db_apart [OF 1 assms(2) reads_apart(1)])
  show ?thesis
  proof (cases c)
    case (Inl e)
    with 1 a1 assms(1) show ?thesis by (auto simp: coldStart_def provided_def apart_def)
  next
    case (Inr cid)
    obtain ms w2 where 2: "unix_milli m w1 = (ms, w2)" by fastforce
    then have a2: "?A w2" using a1 by (auto simp: unix_milli_def)
    let ?spec = "cold_spec m t opts cid ms"
    obtain spec w3 where 3: "add_mounts m t ?spec w2 = (spec, w3)" by fastforce
    have a3: "?A w3"
    proof -
      obtain g w2' where g: "on_db (GrantsForUser (mn_parse_uuid m) t (vs_UserID ?spec)
          (case vs_DepartmentID ?spec of None \<Rightarrow> uuid_Nil | Some d \<Rightarrow> d)) w2 = (g, w2')" by fastforce
      have "?A w2'" by (rule on_db_apart [OF g a2 reads_apart(2)])
      then show ?thesis using 3 g a2 by (cases g) (auto simp: add_mounts_def split: if_splits)
    qed
    obtain h w4 where 4: "driver_Start m spec w3 = (h, w4)" by fastforce
    then have a4: "?A w4" using a3 by (auto simp: driver_Start_def Let_def)
    show ?thesis
    proof (cases h)
      case (Inl e)
      with 1 2 3 4 Inr a4 assms(1) show ?thesis by (auto simp: coldStart_def provided_def apart_def)
    next
      case handle: (Inr handle)
      let ?i = "new_instance m (Some t) opts (vs_VMID spec) StatusRunning handle"
      obtain x s5 where 5: "agent_Create ?i (fl_db w4) = (x, s5)" by fastforce
      have a5: "apart t (foreign_rows t s) s5"
        by (rule keepsD [OF agent_Create_apart a4 5]) (simp add: new_instance_def)
      show ?thesis
      proof (cases x)
        case (Inl e)
        with 1 2 3 4 5 Inr handle a5 assms(1) show ?thesis
          by (auto simp: coldStart_def save_instance_def on_db_def provided_def apart_def)
      next
        case inst: (Inr inst)
        obtain row where row: "db_agents s5 = db_agents (fl_db w4) @ [row]" "ai_ID row = ai_ID inst"
          "ai_VMID row = ai_VMID inst" "ai_TenantID row = ai_TenantID ?i" "ai_UserID row = ai_UserID ?i"
          "ai_Status row = ai_Status ?i" "agents_unique (db_agents s5)"
          using agent_Create_Inr [OF 5 [unfolded inst]] by metis
        then have "serves t (po_UserID opts) inst s5"
          by (simp add: serves_def new_instance_def)
        moreover have "r = Inr inst" "fl_db w' = s5"
          using 1 2 3 4 5 Inr handle inst assms(1)
          by (auto simp: coldStart_def save_instance_def on_db_def)
        ultimately show ?thesis using a5 row(7) by (simp add: provided_def apart_def)
      qed
    qed
  qed
qed

definition apart_own :: "uuid \<Rightarrow> AgentInstance list \<Rightarrow> uuid \<Rightarrow> db \<Rightarrow> bool" where
  "apart_own t X i s \<longleftrightarrow>
     apart t X s \<and> (\<forall>r \<in> set (db_agents s). ai_ID r = i \<longrightarrow> ai_TenantID r = Some t)"

lemma UpdateStatus_apart: "keeps (apart_own t X i) (UpdateStatus i st)"
proof -
  let ?f = "\<lambda>r. r\<lparr>ai_Status := st\<rparr>" and ?q = "\<lambda>r. ai_TenantID r \<noteq> None \<and> ai_TenantID r \<noteq> Some t"
  have "keeps (apart_own t X i) (update_agents (\<lambda>r. ai_ID r = i) ?f)"
  proof (rule keepsI)
    fix s assume a: "apart_own t X i s"
    obtain x s1 where u: "update_agents (\<lambda>r. ai_ID r = i) ?f s = (x, s1)" by fastforce
    have "ids_ok s1" using update_agents_pins(1) [OF u] a by (simp add: apart_own_def apart_def)
    moreover have "foreign_rows t s1 = X \<and>
        (\<forall>r \<in> set (db_agents s1). ai_ID r = i \<longrightarrow> ai_TenantID r = Some t)"
      using u
    proof (cases rule: update_agents_cases)
      case 2
      have "filter ?q (upd_where (\<lambda>r. ai_ID r = i) ?f (db_agents s)) = filter ?q (db_agents s)"
        by (intro filter_upd_where) (use a in \<open>simp add: apart_own_def\<close>)
      then have "foreign_rows t s1 = X"
        using a 2(3) by (simp add: foreign_rows_def apart_own_def apart_def)
      moreover have "\<forall>r \<in> set (db_agents s). ai_ID r = i \<longrightarrow> ai_TenantID r = Some t"
        using a by (simp add: apart_own_def)
      then have "\<forall>r \<in> set (db_agents s1). ai_ID r = i \<longrightarrow> ai_TenantID r = Some t"
        unfolding 2(3) by (simp add: upd_where_def ball_Un)
      ultimately show ?thesis ..
    qed (use a in \<open>simp add: apart_own_def apart_def\<close>)
    ultimately show "apart_own t X i (snd (update_agents (\<lambda>r. ai_ID r = i) ?f s))"
      using u by (simp add: apart_own_def apart_def)
  qed
  moreover have "fault_blind (apart_own t X i)"
    using apart_blind by (simp add: fault_blind_def apart_own_def)
  ultimately show ?thesis
    unfolding UpdateStatus_def [abs_def] by (intro keeps_exec_rows keeps_checked) (rule keeps_sql)
qed

lemma provision_new_provided:
  assumes "provision_new m t opts w = (r, w')" "apart t (foreign_rows t s) (fl_db w)"
  shows "provided t (po_UserID opts) s r w'"
proof -
  let ?u = "po_UserID opts" and ?d = "po_DepartmentID opts" and ?c = "config_text (po_Config opts)"
  obtain x s1 where 1: "ClaimWarm t ?u ?d ?c (fl_db w) = (x, s1)" by fastforce
  have a1: "apart t (foreign_rows t s) s1" by (rule keepsD [OF ClaimWarm_apart assms(2) 1])
  show ?thesis
  proof (cases x)
    case (Inl e)
    then have "coldStart m t opts (w\<lparr>fl_db := s1\<rparr>) = (r, w')"
      using 1 assms(1) by (simp add: provision_new_def on_db_def)
    then show ?thesis by (rule coldStart_provided) (simp add: a1)
  next
    case (Inr inst)
    obtain fs q where q: "q \<in> set (db_agents (fl_db w))" "inst = claimed_row t ?u ?d ?c q"
      and s1: "s1 = fl_db w\<lparr>db_faults := fs,
        db_agents := upd_where (\<lambda>x. ai_ID x = ai_ID q) (claimed_row t ?u ?d ?c) (db_agents (fl_db w))\<rparr>"
      using ClaimWarm_Inr [OF 1 [unfolded Inr]] by metis
    have inst: "inst \<in> set (db_agents s1)" "ai_TenantID inst = Some t" "ai_UserID inst = ?u"
      using q s1 by (auto simp: upd_where_def claimed_row_def intro: image_eqI [of _ _ q])
    obtain y s2 where 2: "UpdateStatus (ai_ID inst) StatusRunning s1 = (y, s2)" by fastforce
    have "apart_own t (foreign_rows t s) (ai_ID inst) s1"
      using a1 inst same_id by (fastforce simp: apart_own_def apart_def)
    then have a2: "apart t (foreign_rows t s) s2"
      using keepsD [OF UpdateStatus_apart _ 2] by (simp add: apart_own_def)
    show ?thesis
    proof (cases y)
      case (Inl e)
      then show ?thesis using 1 2 Inr a2 assms(1)
        by (auto simp: provision_new_def on_db_def provided_def apart_def)
    next
      case y: (Inr u)
      obtain fs' where s2: "s2 = s1\<lparr>db_faults := fs', db_agents :=
          upd_where (\<lambda>r. ai_ID r = ai_ID inst) (\<lambda>r. r\<lparr>ai_Status := StatusRunning\<rparr>) (db_agents s1)\<rparr>"
        and uniq: "agents_unique (db_agents s2)"
        using UpdateStatus_Inr [OF 2 [unfolded y]] by metis
      have "inst\<lparr>ai_Status := StatusRunning\<rparr> \<in> set (db_agents s2)"
        using inst(1) s2 by (auto simp: upd_where_def intro: image_eqI [of _ _ inst])
      then have "serves t ?u (inst\<lparr>ai_Status := StatusRunning\<rparr>) s2"
        unfolding serves_def using inst(2,3) by (intro bexI [of _ "inst\<lparr>ai_Status := StatusRunning\<rparr>"]) simp_all
      then show ?thesis using 1 2 Inr y a2 uniq assms(1)
        by (auto simp: provision_new_def on_db_def provided_def apart_def)
    qed
  qed
qed

lemma GetRunningByTenantUser_Inr:
  assumes "GetRunningByTenantUser t u s = (Inr r, s')"
  shows "r \<in> set (db_agents s') \<and> ai_TenantID r = Some t \<and> ai_UserID r = Some u \<and>
    ai_Status r \<in> {StatusRunning, StatusProvisioning} \<and> db_agents s' = db_agents s"
proof -
  let ?q = "\<lambda>r. ai_TenantID r = Some t \<and> ai_UserID r = Some u \<and>
    ai_Status r \<in> {StatusRunning, StatusProvisioning}"
  let ?stmt = "\<lambda>s. (case select_order_limit ?q (\<lambda>r. - ai_CreatedAt r) 1 (db_agents s) of
    [] \<Rightarrow> None | r # _ \<Rightarrow> Some r, s)"
  have "(sql ?stmt s :: (orch_error + _) \<times> db) = (Inr (Some r), s')"
    using assms by (simp add: GetRunningByTenantUser_def)
  from sql_Inr [OF this] obtain fs rs where
    "select_order_limit ?q (\<lambda>r. - ai_CreatedAt r) 1 (db_agents s) = r # rs" "s' = s\<lparr>db_faults := fs\<rparr>"
    by (auto split: list.splits)
  moreover have "set (select_order_limit ?q (\<lambda>r. - ai_CreatedAt r) 1 (db_agents s)) \<subseteq>
      {r \<in> set (db_agents s). ?q r}"
    by (rule set_select_order_limit_subset)
  ultimately show ?thesis by simp
qed

lemma Provision_provided:
  assumes "Provision m t opts w = (r, w')" "ids_ok (fl_db w)"
  shows "provided t (normalize_user (po_UserID opts)) (fl_db w) r w'"
proof -
  let ?opts = "opts\<lparr>po_UserID := normalize_user (po_UserID opts)\<rparr>"
  have a: "apart t (foreign_rows t (fl_db w)) (fl_db w)" using assms(2) by (simp add: apart_def)
  show ?thesis
  proof (cases "normalize_user (po_UserID opts)")
    case None
    then have "provision_new m t ?opts w = (r, w')" using assms(1) by (simp add: Provision_def)
    from provision_new_provided [OF this a] show ?thesis by simp
  next
    case (Some u)
    obtain x s1 where 1: "GetRunningByTenantUser t u (fl_db w) = (x, s1)" by fastforce
    have a1: "apart t (foreign_rows t (fl_db w)) s1" by (rule keepsD [OF reads_apart(3) a 1])
    show ?thesis
    proof (cases x)
      case (Inr inst)
      then show ?thesis using 1 Some assms(1) a1 GetRunningByTenantUser_Inr [OF 1 [unfolded Inr]]
        by (auto simp: Provision_def on_db_def provided_def apart_def serves_def)
    next
      case (Inl e)
      show ?thesis
      proof (cases "errors_Is e ErrVMNotFound")
        case True
        then have "provision_new m t ?opts (w\<lparr>fl_db := s1\<rparr>) = (r, w')"
          using 1 Inl Some assms(1) by (simp add: Provision_def on_db_def)
        from provision_new_provided [OF this, of "fl_db w"] show ?thesis using a1 by simp
      next
        case False
        then show ?thesis using 1 Inl Some assms(1) a1
          by (auto simp: Provision_def on_db_def provided_def apart_def)
      qed
    qed
  qed
qed

section \<open>Asking again\<close>

lemma map_filter_append: "List.map_filter f (xs @ ys) = List.map_filter f xs @ List.map_filter f ys"
  by (simp add: List.map_filter_def)

lemma set_map_filter: "y \<in> set (List.map_filter f xs) \<longleftrightarrow> (\<exists>x \<in> set xs. f x = Some y)"
  by (force simp: List.map_filter_def)

lemma distinct_map_filter:
  assumes "distinct (List.map_filter f xs)" "x \<in> set xs" "y \<in> set xs" "f x = Some k" "f y = Some k"
  shows "x = y"
  using assms
proof (induction xs)
  case (Cons z zs)
  show ?case
  proof (cases "f z")
    case None
    with Cons show ?thesis by (auto simp: List.map_filter_simps)
  next
    case (Some j)
    then have "j \<notin> set (List.map_filter f zs)" "distinct (List.map_filter f zs)"
      using Cons.prems(1) by (simp_all add: List.map_filter_simps)
    then have "f q \<noteq> Some j" if "q \<in> set zs" for q
      using that by (auto simp: set_map_filter)
    with Cons Some \<open>distinct (List.map_filter f zs)\<close> show ?thesis by auto
  qed
qed simp

lemma one_active:
  assumes "agents_unique rs" "r \<in> set rs" "r' \<in> set rs"
    and "ai_TenantID r = Some t" "ai_UserID r = Some u" "active (ai_Status r)"
    and "ai_TenantID r' = Some t" "ai_UserID r' = Some u" "active (ai_Status r')"
  shows "r = r'"
  using assms distinct_map_filter [of user_key rs r r' "(t, u)"]
  by (simp add: agents_unique_def user_key_def)

lemma GetRunningByTenantUser_finds:
  assumes "serves t (Some u) inst s" "agents_unique (db_agents s)" "db_faults s = []"
  obtains r where "GetRunningByTenantUser t u s = (Inr r, s)" "ai_ID r = ai_ID inst"
proof -
  let ?q = "\<lambda>r. ai_TenantID r = Some t \<and> ai_UserID r = Some u \<and>
    ai_Status r \<in> {StatusRunning, StatusProvisioning}"
  obtain q where q: "q \<in> set (db_agents s)" "ai_ID q = ai_ID inst" "?q q"
    using assms(1) by (auto simp: serves_def)
  then obtain r rs where r: "select_order_limit ?q (\<lambda>r. - ai_CreatedAt r) 1 (db_agents s) = r # rs"
    using select_order_limit_Nil [of 1 ?q "\<lambda>r. - ai_CreatedAt r" "db_agents s"]
    by (metis (no_types, lifting) list.exhaust zero_less_one)
  have "set (select_order_limit ?q (\<lambda>r. - ai_CreatedAt r) 1 (db_agents s)) \<subseteq>
      {r \<in> set (db_agents s). ?q r}"
    by (rule set_select_order_limit_subset)
  then have "r \<in> set (db_agents s)" "?q r" using r by auto
  with q assms(2) have "r = q" by (intro one_active) (auto simp: active_def)
  moreover have "GetRunningByTenantUser t u s = (Inr r, s)"
    using r assms(3) by (simp add: GetRunningByTenantUser_def)
  ultimately show thesis using that q by simp
qed

section \<open>Filling the warm pool\<close>

lemma fold_max_ge: "(c::nat) \<le> fold max cs c \<and> (\<forall>x \<in> set cs. x \<le> fold max cs c)"
proof (induction cs arbitrary: c)
  case (Cons a cs)
  from Cons.IH [of "max a c"] show ?case by simp
qed simp

lemma next_cid_fresh: "r \<in> set rs \<Longrightarrow> ai_VsockCID r = Some c \<Longrightarrow> c < next_cid rs"
proof -
  assume "r \<in> set rs" "ai_VsockCID r = Some c"
  then have "c \<in> set (List.map_filter ai_VsockCID rs)" by (auto simp: set_map_filter)
  then show ?thesis
    using fold_max_ge by (auto simp: next_cid_def less_Suc_eq_le split: list.splits)
qed

lemma next_cid_append:
  assumes "ai_VsockCID r = Some (next_cid rs)"
  shows "next_cid (rs @ [r]) = Suc (next_cid rs)"
proof (cases "List.map_filter ai_VsockCID rs")
  case Nil
  then show ?thesis using assms
    by (simp add: next_cid_def map_filter_append List.map_filter_simps)
next
  case (Cons c cs)
  then have "next_cid rs = Suc (fold max cs c)" by (simp add: next_cid_def)
  with Cons assms show ?thesis
    by (simp add: next_cid_def map_filter_append List.map_filter_simps)
qed

definition reliable :: "VMDriver \<Rightarrow> bool" where
  "reliable d \<longleftrightarrow> (\<forall>k spec. \<exists>h. dv_Start d k spec = Inr h \<and> vh_VsockCID h = vs_VsockCID spec)"

definition warm_count :: "fleet \<Rightarrow> nat" where
  "warm_count w = count_where (\<lambda>r. ai_Status r = StatusWarm) (db_agents (fl_db w))"

lemma createWarmVM_adds:
  assumes "reliable (mn_driver m)" "db_faults (fl_db w) = []" "agents_unique (db_agents (fl_db w))"
    and "next_cid (db_agents (fl_db w)) < 2 ^ 31"
  defines "w' \<equiv> createWarmVM m w"
  shows "warm_count w' = Suc (warm_count w)" "db_faults (fl_db w') = []"
    "agents_unique (db_agents (fl_db w'))"
    "next_cid (db_agents (fl_db w')) = Suc (next_cid (db_agents (fl_db w)))"
proof -
  let ?s = "fl_db w" and ?c = "next_cid (db_agents (fl_db w))"
  let ?ms = "mn_now m (fl_clock w)"
  let ?spec = "warm_spec m ?c ?ms"
  obtain h where h: "dv_Start (mn_driver m) (length (fl_log w)) ?spec = Inr h" "vh_VsockCID h = ?c"
  proof -
    have "\<exists>h. dv_Start (mn_driver m) (length (fl_log w)) ?spec = Inr h \<and> vh_VsockCID h = vs_VsockCID ?spec"
      using assms(1) by (simp add: reliable_def)
    then show thesis using that by (auto simp: warm_spec_def)
  qed
  let ?i = "new_instance m None warm_opts (vs_VMID ?spec) StatusWarm h"
  let ?row = "?i\<lparr>ai_ID := db_next ?s, ai_ConsecutiveFailures := 0, ai_CreatedAt := db_now ?s,
    ai_LastHealthCheck := None\<rparr>"
  have row: "ai_VsockCID ?row = Some ?c" "ai_Status ?row = StatusWarm" "ai_TenantID ?row = None"
    "json_Valid (ai_Config ?row)" "json_Valid (ai_ToolAllowlist ?row)" "ai_Config ?i \<noteq> RawEmpty"
    by (simp_all add: new_instance_def h(2) config_text_def json_Valid_def)
  have uniq: "agents_unique (db_agents ?s @ [?row])"
    using assms(3) row(1-3) next_cid_fresh [of _ "db_agents ?s"]
    by (auto simp: agents_unique_def map_filter_append List.map_filter_simps set_map_filter
        user_key_def active_def)
  have "insert_agent ?i ?s = (Inr ?row, ?s\<lparr>db_next := Suc (db_next ?s), db_agents := db_agents ?s @ [?row]\<rparr>)"
    using uniq row assms(4) by (simp add: insert_agent_def Let_def agent_refused_def store_agents_def)
  then have "fl_db w' = ?s\<lparr>db_next := Suc (db_next ?s), db_agents := db_agents ?s @ [?row]\<rparr>"
    using assms(2,4) h row(6)
    by (simp add: w'_def createWarmVM_def on_db_def NextVsockCID_def checked_def wrap_err_def
        unix_milli_def driver_Start_def save_instance_def agent_Create_def)
  then show "warm_count w' = Suc (warm_count w)" "db_faults (fl_db w') = []"
    "agents_unique (db_agents (fl_db w'))" "next_cid (db_agents (fl_db w')) = Suc ?c"
    using row(2) assms(2) uniq next_cid_append [OF row(1)]
    by (simp_all add: warm_count_def count_where_def)
qed

lemma replenish_adds:
  assumes "reliable (mn_driver m)" "db_faults (fl_db w) = []" "agents_unique (db_agents (fl_db w))"
    and "next_cid (db_agents (fl_db w)) + n \<le> 2 ^ 31" "\<And>k. \<not> canceled k"
  shows "warm_count (replenish m canceled k n w) = warm_count w + n"
  using assms(2-4)
proof (induction n arbitrary: k w)
  case (Suc n)
  have "next_cid (db_agents (fl_db w)) < 2 ^ 31" using Suc.prems(3) by simp
  note add = createWarmVM_adds [OF assms(1) Suc.prems(1,2) this]
  have "warm_count (replenish m canceled (Suc k) n (createWarmVM m w)) = warm_count (createWarmVM m w) + n"
    by (rule Suc.IH) (use add Suc.prems(3) in simp_all)
  moreover have "replenish m canceled k (Suc n) w = replenish m canceled (Suc k) n (createWarmVM m w)"
    by (simp only: replenish.simps assms(5) if_False)
  ultimately show ?case using add(1) by (simp only: add_Suc add_Suc_right)
qed simp

section \<open>Histories\<close>

text \<open>
  The calls of the manager, and what changes around it: the fault script of the database, the
  rows other sessions have locked, and its clock.
\<close>

datatype fleet_call =
    FProvision uuid ProvisionOpts
  | FDestroy uuid
  | FReconcile "nat \<Rightarrow> bool"
  | FHealth "health_task list \<Rightarrow> health_task list"
  | FUpdateConfig uuid raw_json raw_json
  | FEnvironment "string option list" "uuid list" gotime

fun exec_fleet :: "Manager \<Rightarrow> fleet_call \<Rightarrow> fleet \<Rightarrow> fleet" where
  "exec_fleet m (FProvision t opts) w = snd (Provision m t opts w)"
| "exec_fleet m (FDestroy i) w = snd (Destroy i w)"
| "exec_fleet m (FReconcile canceled) w = ReconcileOnce m canceled w"
| "exec_fleet m (FHealth sched) w = HealthCheckOnce m sched w"
| "exec_fleet m (FUpdateConfig i c a) w = snd (on_db (agent_UpdateConfig i c a) w)"
| "exec_fleet m (FEnvironment fs ls now) w =
     w\<lparr>fl_db := fl_db w\<lparr>db_faults := fs, db_locked := ls, db_now := now\<rparr>\<rparr>"

fun exec_fleets :: "Manager \<Rightarrow> fleet_call list \<Rightarrow> fleet \<Rightarrow> fleet" where
  "exec_fleets m [] w = w"
| "exec_fleets m (c # cs) w = exec_fleets m cs (exec_fleet m c w)"

definition fleet_start :: "db \<Rightarrow> fleet" where
  "fleet_start s = \<lparr>fl_db = s, fl_log = [], fl_clock = 0\<rparr>"

lemma exec_fleet_ok:
  assumes "fleet_ok {} w" "\<And>sched. c = FHealth sched \<Longrightarrow> orders sched"
  shows "fleet_ok {} (exec_fleet m c w)"
proof (cases c)
  case (FUpdateConfig i cf a)
  obtain r w1 where "on_db (agent_UpdateConfig i cf a) w = (r, w1)" by fastforce
  from on_db_keeps [OF this assms(1) store_keeps(10)] this FUpdateConfig show ?thesis by simp
next
  case (FEnvironment fs ls now)
  then show ?thesis using assms(1)
    by (simp add: fleet_ok_def fleet_db_ok_def ids_ok_def covered_def)
qed (use assms in \<open>simp_all add: Provision_ok Destroy_ok ReconcileOnce_ok HealthCheckOnce_ok\<close>)

lemma exec_fleets_ok:
  assumes "fleet_ok {} w" "\<And>sched. FHealth sched \<in> set cs \<Longrightarrow> orders sched"
  shows "fleet_ok {} (exec_fleets m cs w)"
  using assms
proof (induction cs arbitrary: w)
  case (Cons c cs)
  have "fleet_ok {} (exec_fleet m c w)"
    by (rule exec_fleet_ok [OF Cons.prems(1)]) (use Cons.prems(2) in auto)
  then show ?case using Cons by simp
qed simp

section \<open>Properties\<close>

definition sample_driver :: VMDriver where
  "sample_driver =
     \<lparr>dv_Start = (\<lambda>k spec. Inr \<lparr>vh_ID = vs_VMID spec, vh_PID = 1, vh_VsockCID = vs_VsockCID spec,
                                vh_StartedAt = 0\<rparr>),
      dv_Stop = (\<lambda>k vm. None), dv_IsHealthy = (\<lambda>k vm. Inr True), dv_Cleanup = (\<lambda>k vm. None)\<rparr>"

definition sample_manager :: Manager where
  "sample_manager =
     NewManager sample_driver (\<lambda>_. None) (\<lambda>_. ''00000007'') (\<lambda>k. int k)
       \<lparr>mc_Driver = ''mock'', mc_WarmPoolSize = 1, mc_HealthInterval = 0, mc_ReconcileInterval = 0,
        mc_MaxConsecutiveFailures = 0, mc_WorkspaceDataQuotaMB = 0\<rparr>"

definition sample_opts :: ProvisionOpts where
  "sample_opts = \<lparr>po_UserID = Some '' bob '', po_DepartmentID = None, po_Config = None\<rparr>"

definition sample_fleet :: fleet where
  "sample_fleet = fleet_start (empty_db\<lparr>db_tenants := [7]\<rparr>)"

lemma sample_user: "normalize_user (Some '' bob '') = Some ''bob''"
  by code_simp

lemma sample_digits: "Itoa 3 = ''3''" "Itoa 0 = ''0''"
  by code_simp+

lemmas orch_eval = sample_manager_def NewManager_def normalize_manager_def sample_driver_def
  fleet_start_def empty_db_def on_db_def sql_def checked_def wrap_err_def query_row_def exec_rows_def
  unix_milli_def driver_Start_def save_instance_def new_instance_def config_text_def
  agent_Create_def insert_agent_def agent_refused_def store_agents_def agents_unique_def user_key_def
  active_def json_Valid_def NextVsockCID_def next_cid_def List.map_filter_simps
  select_order_limit_def Let_def

lemma sample_provision:
  "\<exists>i w'. Provision sample_manager 7 sample_opts sample_fleet = (Inr i, w') \<and> db_faults (fl_db w') = []"
  by (simp add: orch_eval sample_opts_def sample_fleet_def Provision_def sample_user
      GetRunningByTenantUser_def provision_new_def ClaimWarm_def claim_warm_stmt_def coldStart_def
      add_mounts_def cold_spec_def GrantsForUser_def)

lemma sample_warm:
  "''warm-3-0'' \<in> unstopped (fl_log
     (exec_fleets sample_manager [FReconcile (\<lambda>_. False)] (fleet_start empty_db)))"
  by (simp add: orch_eval ReconcileOnce_def CountByStatus_def count_where_def createWarmVM_def
      warm_spec_def warm_opts_def sample_digits unstopped_def)

lemma sample_ids: "ids_ok empty_db" "ids_ok (fl_db sample_fleet)"
    "agents_unique (db_agents (fl_db sample_fleet))"
  by (simp_all add: ids_ok_def sample_fleet_def fleet_start_def empty_db_def agents_unique_def
      List.map_filter_simps)



text \<open>Provisioning for a tenant leaves the rows of every other tenant as they are, whether it
  succeeds or not; on success the table has a row with the returned identifier and machine
  that belongs to the tenant and the (trimmed) user and is running, or is the instance that is
  already being provisioned.
\<close>

theorem provision_stays_in_tenant:
  assumes "ids_ok (fl_db w)" and "Provision m t opts w = (r, w')"
  shows "foreign_rows t (fl_db w') = foreign_rows t (fl_db w) \<and>
    (\<forall>inst. r = Inr inst \<longrightarrow> serves t (normalize_user (po_UserID opts)) inst (fl_db w'))"
  using Provision_provided [OF assms(2,1)] by (simp add: provided_def)

theorem provision_stays_in_tenant_witness:
  "\<exists>i w'. Provision sample_manager 7 sample_opts sample_fleet = (Inr i, w') \<and>
     foreign_rows 7 (fl_db w') = [] \<and> serves 7 (Some ''bob'') i (fl_db w')"
proof -
  obtain i w' where p: "Provision sample_manager 7 sample_opts sample_fleet = (Inr i, w')"
    using sample_provision by blast
  from provision_stays_in_tenant [OF sample_ids(2) p] p show ?thesis
    by (simp add: sample_opts_def sample_user sample_fleet_def fleet_start_def empty_db_def
        foreign_rows_def)
qed

text \<open>A user has one instance: once provisioning for a user has succeeded, provisioning for
  the same user again returns the same instance and calls neither the driver nor changes the
  database.
\<close>

theorem provision_idempotent:
  assumes "ids_ok (fl_db w)" "agents_unique (db_agents (fl_db w))"
    and "Provision m t opts w = (Inr inst, w')" "db_faults (fl_db w') = []"
    and "normalize_user (po_UserID opts) = Some u" "normalize_user (po_UserID opts') = Some u"
  shows "\<exists>inst'. Provision m t opts' w' = (Inr inst', w') \<and> ai_ID inst' = ai_ID inst"
proof -
  have "serves t (Some u) inst (fl_db w')" "agents_unique (db_agents (fl_db w'))"
    using Provision_provided [OF assms(3,1)] assms(2,5) by (simp_all add: provided_def)
  from GetRunningByTenantUser_finds [OF this assms(4)] obtain r where
    "GetRunningByTenantUser t u (fl_db w') = (Inr r, fl_db w')" "ai_ID r = ai_ID inst" .
  then show ?thesis using assms(6) by (simp add: Provision_def on_db_def)
qed

theorem provision_idempotent_witness:
  "\<exists>i w' i'. Provision sample_manager 7 sample_opts sample_fleet = (Inr i, w') \<and>
     Provision sample_manager 7 sample_opts w' = (Inr i', w') \<and> ai_ID i' = ai_ID i"
proof -
  obtain i w' where p: "Provision sample_manager 7 sample_opts sample_fleet = (Inr i, w')"
    "db_faults (fl_db w') = []"
    using sample_provision by blast
  have u: "normalize_user (po_UserID sample_opts) = Some ''bob''"
    by (simp add: sample_opts_def sample_user)
  from provision_idempotent [OF sample_ids(2,3) p u u] p(1) show ?thesis by blast
qed

text \<open>
  C33: One reconciliation fills the warm pool: with a driver that starts machines under the
  requested CID and a database without faults, the number of warm instances afterwards is the
  configured size, or what it was when it was larger.
\<close>

theorem reconcile_fills_pool:
  assumes "reliable (mn_driver m)" "db_faults (fl_db w) = []" "agents_unique (db_agents (fl_db w))"
    and "int (next_cid (db_agents (fl_db w))) + mc_WarmPoolSize (mn_cfg m) \<le> 2 ^ 31" "\<forall>k. \<not> canceled k"
  shows "int (warm_count (ReconcileOnce m canceled w)) =
    max (int (warm_count w)) (mc_WarmPoolSize (mn_cfg m))"
proof (cases "mc_WarmPoolSize (mn_cfg m) \<le> int (warm_count w)")
  case True
  then show ?thesis using assms(2)
    by (simp add: ReconcileOnce_def on_db_def CountByStatus_def wrap_err_def warm_count_def)
next
  case False
  let ?n = "nat (mc_WarmPoolSize (mn_cfg m) - int (warm_count w))"
  have "ReconcileOnce m canceled w = replenish m canceled 0 ?n w"
    using False assms(2)
    by (simp add: ReconcileOnce_def on_db_def CountByStatus_def wrap_err_def warm_count_def)
  moreover have "warm_count (replenish m canceled 0 ?n w) = warm_count w + ?n"
    by (rule replenish_adds [OF assms(1-3)]) (use assms(4,5) False in simp_all)
  ultimately show ?thesis using False by simp
qed

theorem reconcile_fills_pool_witness:
  "int (warm_count (ReconcileOnce sample_manager (\<lambda>_. False) sample_fleet)) = 1"
proof -
  have "reliable sample_driver" by (simp add: reliable_def sample_driver_def)
  then have "int (warm_count (ReconcileOnce sample_manager (\<lambda>_. False) sample_fleet)) =
      max (int (warm_count sample_fleet)) (mc_WarmPoolSize (mn_cfg sample_manager))"
    by (intro reconcile_fills_pool)
      (simp_all add: sample_ids sample_manager_def NewManager_def normalize_manager_def Let_def
        sample_fleet_def fleet_start_def empty_db_def next_cid_def agents_unique_def
        List.map_filter_simps)
  then show ?thesis
    by (simp add: sample_manager_def NewManager_def normalize_manager_def Let_def warm_count_def
        count_where_def sample_fleet_def fleet_start_def empty_db_def)
qed

end
