(* ===== verification/Policies.thy ===== *)
theory Policies
  imports Agent_Store Go_JSON
begin

text \<open>
  Risk-class policies (\<open>internal/policies\<close>): the built-in decisions, the tenant's defaults in
  the column \<open>settings\<close> of \<open>tenants\<close>, an agent's overrides in the column \<open>config\<close> of
  \<open>agent_instances\<close>, their evaluation, and the HTTP handlers.

  The table \<open>tenants\<close> has row-level security without any policy, so a role under row-level
  security sees none of its rows.
\<close>

section \<open>Policy sets\<close>

text \<open>
  A decision is a string: what is read from the database is not checked again. A policy set is
  a Go map, \<open>None\<close> when it is nil; its list is in the order in which \<open>range\<close> visits it.
\<close>

type_synonym PolicySet = "(string \<times> string) list option"

definition entries :: "PolicySet \<Rightarrow> (string \<times> string) list" where
  "entries ps = (case ps of None \<Rightarrow> [] | Some kvs \<Rightarrow> kvs)"

definition lookup :: "PolicySet \<Rightarrow> string \<Rightarrow> string option" where
  "lookup ps = map_of (entries ps)"

datatype pol_sentinel = ErrInvalidRiskClass | ErrInvalidDecision | ErrNoRows

type_synonym pol_error = "pol_sentinel go_error"
type_synonym 'a pol_op = "db \<Rightarrow> (pol_error + 'a) \<times> db"

definition DecisionAllow :: string where "DecisionAllow = ''allow''"

definition DecisionBlock :: string where "DecisionBlock = ''block''"

definition DecisionRequireApproval :: string where "DecisionRequireApproval = ''require_approval''"

definition DefaultPolicySet :: PolicySet where
  "DefaultPolicySet = Some
     [(''external_writes'', DecisionRequireApproval),
      (''destructive_actions'', DecisionBlock),
      (''sensitive_data_access'', DecisionBlock),
      (''channel_sends'', DecisionAllow),
      (''credentialed_third_party_actions'', DecisionRequireApproval),
      (''cross_scope_memory_access'', DecisionBlock)]"

text \<open>\<open>fmt.Errorf("%w: %s", err, name)\<close> wraps the sentinel with the offending name.\<close>

fun validate_entries :: "(string \<times> string) list \<Rightarrow> pol_error option" where
  "validate_entries [] = None"
| "validate_entries ((riskClass, decision) # kvs) =
     (if lookup DefaultPolicySet riskClass = None then Some (Wrap riskClass (Sentinel ErrInvalidRiskClass))
      else if decision \<notin> {DecisionAllow, DecisionBlock, DecisionRequireApproval}
      then Some (Wrap decision (Sentinel ErrInvalidDecision))
      else validate_entries kvs)"

definition ValidatePolicySet :: "PolicySet \<Rightarrow> pol_error option" where
  "ValidatePolicySet ps = validate_entries (entries ps)"

definition Evaluate :: "PolicySet \<Rightarrow> PolicySet \<Rightarrow> string \<Rightarrow> string" where
  "Evaluate defaults overrides riskClass =
     (case lookup overrides riskClass of
        Some decision \<Rightarrow> decision
      | None \<Rightarrow>
          (case lookup defaults riskClass of
             Some decision \<Rightarrow> decision
           | None \<Rightarrow>
               (case lookup DefaultPolicySet riskClass of
                  Some decision \<Rightarrow> decision
                | None \<Rightarrow> DecisionBlock)))"

section \<open>Policy sets as JSON\<close>

text \<open>
  Decoding into a map adds to the map that is there; \<open>null\<close> makes it nil, and a \<open>null\<close> entry
  is the empty string.
\<close>

fun add_entries :: "(string \<times> string) list \<Rightarrow> (string \<times> json) list \<Rightarrow> (string \<times> string) list option" where
  "add_entries m [] = Some m"
| "add_entries m ((k, JStr v) # kvs) = add_entries (map_put k v m) kvs"
| "add_entries m ((k, JNull) # kvs) = add_entries (map_put k [] m) kvs"
| "add_entries m ((k, _) # kvs) = None"

definition decode_policies :: "PolicySet \<Rightarrow> json \<Rightarrow> PolicySet option" where
  "decode_policies ps j =
     (case j of
        JNull \<Rightarrow> Some None
      | JObj kvs \<Rightarrow> map_option Some (add_entries (entries ps) kvs)
      | _ \<Rightarrow> None)"

text \<open>\<open>json.Marshal\<close> of a policy set.\<close>

definition marshal_policies :: "PolicySet \<Rightarrow> json" where
  "marshal_policies ps =
     (case ps of None \<Rightarrow> JNull | Some kvs \<Rightarrow> JObj (map (\<lambda>(k, v). (k, JStr v)) kvs))"

text \<open>A later entry for a key of the document replaces an earlier one.\<close>

definition extractPolicies :: "raw_json \<Rightarrow> string \<Rightarrow> PolicySet" where
  "extractPolicies raw key =
     (case object_entries raw of
        None \<Rightarrow> Some []
      | Some doc \<Rightarrow>
          (case map_of (rev doc) key of
             None \<Rightarrow> Some []
           | Some v \<Rightarrow> (case decode_policies None v of None \<Rightarrow> Some [] | Some ps \<Rightarrow> ps)))"

section \<open>The store\<close>

text \<open>\<open>jsonb_set(COALESCE(doc, '{}'), '{key}', v, true)\<close>\<close>

definition jsonb_set :: "json option \<Rightarrow> string \<Rightarrow> json \<Rightarrow> string + json" where
  "jsonb_set doc key v =
     (case doc of
        None \<Rightarrow> Inr (JObj [(key, v)])
      | Some (JObj kvs) \<Rightarrow> Inr (JObj (map_put key v kvs))
      | Some (JArr _) \<Rightarrow> Inl ''path element at position 1 is not an integer''
      | Some _ \<Rightarrow> Inl ''cannot set path in scalar'')"

text \<open>The row is found or not; \<open>Scan\<close> of no row is the error \<open>ErrNoRows\<close>.\<close>

definition scan_row :: "string \<Rightarrow> (pol_error + 'a option) \<times> db \<Rightarrow> (pol_error + 'a) \<times> db" where
  "scan_row msg r =
     (case r of
        (Inl e, s) \<Rightarrow> (Inl (Wrap msg e), s)
      | (Inr None, s) \<Rightarrow> (Inl (Wrap msg (Sentinel ErrNoRows)), s)
      | (Inr (Some a), s) \<Rightarrow> (Inr a, s))"

definition tenant_settings :: "uuid \<Rightarrow> db \<Rightarrow> raw_json option" where
  "tenant_settings tenantID s =
     (if db_rls s \<or> tenantID \<notin> set (db_tenants s) then None
      else Some (case db_settings s tenantID of None \<Rightarrow> RawEmpty | Some j \<Rightarrow> RawJSON j))"

definition GetTenantDefaults :: "uuid \<Rightarrow> PolicySet pol_op" where
  "GetTenantDefaults tenantID s =
     (case scan_row ''loading tenant settings'' (sql (\<lambda>s. (tenant_settings tenantID s, s)) s) of
        (Inl e, s1) \<Rightarrow> (Inl e, s1)
      | (Inr raw, s1) \<Rightarrow> (Inr (extractPolicies raw ''risk_class_policies''), s1))"

definition set_tenant_policies :: "uuid \<Rightarrow> json \<Rightarrow> db \<Rightarrow> (string + unit) \<times> db" where
  "set_tenant_policies tenantID payload s =
     (if db_rls s \<or> tenantID \<notin> set (db_tenants s) then (Inr (), s)
      else case jsonb_set (db_settings s tenantID) ''risk_class_policies'' payload of
          Inl m \<Rightarrow> (Inl m, s)
        | Inr j \<Rightarrow> (Inr (), s\<lparr>db_settings := (db_settings s)(tenantID \<mapsto> j)\<rparr>))"

definition PutTenantDefaults :: "uuid \<Rightarrow> PolicySet \<Rightarrow> unit pol_op" where
  "PutTenantDefaults tenantID ps s =
     (case ValidatePolicySet ps of
        Some e \<Rightarrow> (Inl e, s)
      | None \<Rightarrow>
          wrap_err ''updating tenant policy defaults''
            (checked (sql (set_tenant_policies tenantID (marshal_policies ps)) s)))"

definition agent_row :: "uuid \<Rightarrow> uuid \<Rightarrow> db \<Rightarrow> AgentInstance \<Rightarrow> bool" where
  "agent_row tenantID agentID s r \<longleftrightarrow>
     ai_ID r = agentID \<and> ai_TenantID r = Some tenantID \<and> visible s tenantID"

definition GetAgentOverrides :: "uuid \<Rightarrow> uuid \<Rightarrow> PolicySet pol_op" where
  "GetAgentOverrides tenantID agentID s =
     (case scan_row ''loading agent config''
             (sql (\<lambda>s. (map_option ai_Config (find (agent_row tenantID agentID s) (db_agents s)), s)) s) of
        (Inl e, s1) \<Rightarrow> (Inl e, s1)
      | (Inr raw, s1) \<Rightarrow> (Inr (extractPolicies raw ''policy_overrides''), s1))"

text \<open>The columns are \<open>NOT NULL\<close>; a row whose document is not an object makes the update fail.\<close>

definition raw_value :: "raw_json \<Rightarrow> json option" where
  "raw_value r = (case r of RawJSON j \<Rightarrow> Some j | _ \<Rightarrow> None)"

definition put_overrides :: "json \<Rightarrow> AgentInstance \<Rightarrow> string + AgentInstance" where
  "put_overrides payload r =
     (case jsonb_set (raw_value (ai_Config r)) ''policy_overrides'' payload of
        Inl m \<Rightarrow> Inl m
      | Inr j \<Rightarrow> Inr (r\<lparr>ai_Config := RawJSON j\<rparr>))"

definition set_agent_policies :: "uuid \<Rightarrow> uuid \<Rightarrow> json \<Rightarrow> db \<Rightarrow> (string + unit) \<times> db" where
  "set_agent_policies tenantID agentID payload s =
     (let p = agent_row tenantID agentID s in
      case List.map_filter (\<lambda>r. case put_overrides payload r of Inl m \<Rightarrow> Some m | Inr _ \<Rightarrow> None)
             (filter p (db_agents s)) of
        m # _ \<Rightarrow> (Inl m, s)
      | [] \<Rightarrow>
          (Inr (), s\<lparr>db_agents := upd_where p (\<lambda>r. projr (put_overrides payload r)) (db_agents s)\<rparr>))"

definition PutAgentOverrides :: "uuid \<Rightarrow> uuid \<Rightarrow> PolicySet \<Rightarrow> unit pol_op" where
  "PutAgentOverrides tenantID agentID ps s =
     (case ValidatePolicySet ps of
        Some e \<Rightarrow> (Inl e, s)
      | None \<Rightarrow>
          wrap_err ''updating agent policy overrides''
            (checked (sql (set_agent_policies tenantID agentID (marshal_policies ps)) s)))"

section \<open>The handlers\<close>

text \<open>
  The request has the tenant of the context, the identifier of the path and the body: the first
  JSON value of at most 64 KiB, \<open>RawInvalid\<close> if there is none. \<open>pool\<close> says whether the handler
  has a database.
\<close>

datatype policy_body =
    PolicyError string
  | PoliciesBody PolicySet

type_synonym policy_response = "int \<times> policy_body"

fun error_text :: "pol_error \<Rightarrow> string" where
  "error_text (Sentinel ErrInvalidRiskClass) = ''invalid risk class''"
| "error_text (Sentinel ErrInvalidDecision) = ''invalid policy decision''"
| "error_text (Sentinel ErrNoRows) = ''no rows in result set''"
| "error_text (NewError m) = m"
| "error_text (DBError m) = m"
| "error_text (Wrap m e) = error_text e @ '': '' @ m"

fun decode_values :: "PolicySet \<Rightarrow> json list \<Rightarrow> PolicySet option" where
  "decode_values ps [] = Some ps"
| "decode_values ps (j # js) =
     (case decode_policies ps j of None \<Rightarrow> None | Some ps' \<Rightarrow> decode_values ps' js)"

definition decode_body :: "raw_json \<Rightarrow> PolicySet option" where
  "decode_body raw =
     (case object_entries raw of
        None \<Rightarrow> None
      | Some kvs \<Rightarrow> decode_values None (field_values ''policies'' kvs))"

definition pol_parseTenantID :: "(string \<Rightarrow> uuid option) \<Rightarrow> string \<Rightarrow> policy_response + uuid" where
  "pol_parseTenantID parse_uuid tenantIDStr =
     (case parse_uuid tenantIDStr of
        None \<Rightarrow> Inl (400, PolicyError ''invalid tenant context'')
      | Some t \<Rightarrow> Inr t)"

definition parseAgentID :: "(string \<Rightarrow> uuid option) \<Rightarrow> string \<Rightarrow> policy_response + uuid" where
  "parseAgentID parse_uuid pathID =
     (case parse_uuid pathID of
        None \<Rightarrow> Inl (400, PolicyError ''agent id must be a valid UUID'')
      | Some a \<Rightarrow> Inr a)"

definition HandleGetDefaults ::
  "(string \<Rightarrow> uuid option) \<Rightarrow> bool \<Rightarrow> string \<Rightarrow> db \<Rightarrow> policy_response \<times> db" where
  "HandleGetDefaults parse_uuid pool tenantIDStr s =
     (case pol_parseTenantID parse_uuid tenantIDStr of
        Inl r \<Rightarrow> (r, s)
      | Inr tenantID \<Rightarrow>
          if \<not> pool then ((200, PoliciesBody DefaultPolicySet), s)
          else case WithTenantConnection tenantID (GetTenantDefaults tenantID) s of
              (Inl _, s1) \<Rightarrow> ((500, PolicyError ''query failed''), s1)
            | (Inr stored, s1) \<Rightarrow>
                ((200, PoliciesBody (Some (fold (\<lambda>(k, v). map_put k v) (entries stored)
                                             (entries DefaultPolicySet)))), s1))"

definition put_policies ::
  "uuid \<Rightarrow> (PolicySet \<Rightarrow> unit pol_op) \<Rightarrow> bool \<Rightarrow> raw_json \<Rightarrow> db \<Rightarrow> policy_response \<times> db" where
  "put_policies tenantID put pool body s =
     (if \<not> pool then ((503, PolicyError ''policy store unavailable''), s)
      else case decode_body body of
          None \<Rightarrow> ((400, PolicyError ''invalid request body''), s)
        | Some ps \<Rightarrow>
            (case ValidatePolicySet ps of
               Some e \<Rightarrow> ((400, PolicyError (error_text e)), s)
             | None \<Rightarrow>
                 (case WithTenantConnection tenantID (put ps) s of
                    (Inl _, s1) \<Rightarrow> ((500, PolicyError ''update failed''), s1)
                  | (Inr _, s1) \<Rightarrow> ((200, PoliciesBody ps), s1))))"

definition HandlePutDefaults ::
  "(string \<Rightarrow> uuid option) \<Rightarrow> bool \<Rightarrow> string \<Rightarrow> raw_json \<Rightarrow> db \<Rightarrow> policy_response \<times> db" where
  "HandlePutDefaults parse_uuid pool tenantIDStr body s =
     (case pol_parseTenantID parse_uuid tenantIDStr of
        Inl r \<Rightarrow> (r, s)
      | Inr tenantID \<Rightarrow> put_policies tenantID (PutTenantDefaults tenantID) pool body s)"

definition HandleGetAgentOverrides ::
  "(string \<Rightarrow> uuid option) \<Rightarrow> bool \<Rightarrow> string \<Rightarrow> string \<Rightarrow> db \<Rightarrow> policy_response \<times> db" where
  "HandleGetAgentOverrides parse_uuid pool tenantIDStr pathID s =
     (case pol_parseTenantID parse_uuid tenantIDStr of
        Inl r \<Rightarrow> (r, s)
      | Inr tenantID \<Rightarrow>
          (case parseAgentID parse_uuid pathID of
             Inl r \<Rightarrow> (r, s)
           | Inr agentID \<Rightarrow>
               if \<not> pool then ((200, PoliciesBody (Some [])), s)
               else case WithTenantConnection tenantID (GetAgentOverrides tenantID agentID) s of
                   (Inl _, s1) \<Rightarrow> ((500, PolicyError ''query failed''), s1)
                 | (Inr ps, s1) \<Rightarrow> ((200, PoliciesBody ps), s1)))"

definition HandlePutAgentOverrides ::
  "(string \<Rightarrow> uuid option) \<Rightarrow> bool \<Rightarrow> string \<Rightarrow> string \<Rightarrow> raw_json \<Rightarrow> db \<Rightarrow> policy_response \<times> db" where
  "HandlePutAgentOverrides parse_uuid pool tenantIDStr pathID body s =
     (case pol_parseTenantID parse_uuid tenantIDStr of
        Inl r \<Rightarrow> (r, s)
      | Inr tenantID \<Rightarrow>
          (case parseAgentID parse_uuid pathID of
             Inl r \<Rightarrow> (r, s)
           | Inr agentID \<Rightarrow> put_policies tenantID (PutAgentOverrides tenantID agentID) pool body s))"

section \<open>Reading back what was written\<close>

lemma add_entries_strings:
  "\<exists>m'. add_entries m (map (\<lambda>(k, v). (k, JStr v)) kvs) = Some m' \<and>
     map_of m' = map_of m ++ map_of (rev kvs)"
proof (induction kvs arbitrary: m)
  case (Cons kv kvs)
  obtain k v where kv: "kv = (k, v)" by fastforce
  obtain m' where "add_entries (map_put k v m) (map (\<lambda>(k, v). (k, JStr v)) kvs) = Some m'"
    and m': "map_of m' = map_of (map_put k v m) ++ map_of (rev kvs)" using Cons.IH by blast
  moreover have "map_of m' = map_of m ++ map_of (rev (kv # kvs))"
    unfolding m' by (rule ext) (auto simp: kv map_add_def split: option.splits)
  ultimately show ?case by (auto simp: kv)
qed simp

lemma map_of_rev_distinct: "distinct (map fst kvs) \<Longrightarrow> map_of (rev kvs) = map_of kvs"
  by (rule map_of_inject_set [THEN iffD2]) (simp_all add: rev_map [symmetric])

definition go_map :: "PolicySet \<Rightarrow> bool" where
  "go_map ps \<longleftrightarrow> distinct (map fst (entries ps))"

lemma decode_marshal:
  assumes "go_map ps"
  shows "\<exists>ps'. decode_policies None (marshal_policies ps) = Some ps' \<and> lookup ps' = lookup ps"
proof (cases ps)
  case (Some kvs)
  obtain m' where "add_entries [] (map (\<lambda>(k, v). (k, JStr v)) kvs) = Some m'"
    and "map_of m' = map_of [] ++ map_of (rev kvs)" using add_entries_strings by blast
  with Some assms show ?thesis
    by (simp add: decode_policies_def marshal_policies_def entries_def lookup_def go_map_def
        map_of_rev_distinct)
qed (simp add: decode_policies_def marshal_policies_def)

lemma extract_put:
  assumes "jsonb_set doc key (marshal_policies ps) = Inr j" "go_map ps"
    and "\<forall>kvs. doc = Some (JObj kvs) \<longrightarrow> distinct (map fst kvs)"
  shows "lookup (extractPolicies (RawJSON j) key) = lookup ps"
proof -
  obtain kvs where j: "j = JObj kvs" "map_of (rev kvs) key = Some (marshal_policies ps)"
  proof (cases doc)
    case (Some d)
    with assms(1,3) obtain xs where d: "d = JObj xs" "j = JObj (map_put key (marshal_policies ps) xs)"
      and "distinct (map fst xs)"
      by (auto simp: jsonb_set_def split: json.splits)
    then have "distinct (map fst (map_put key (marshal_policies ps) xs))" by (intro distinct_map_put)
    with d that show thesis by (simp add: map_of_rev_distinct)
  qed (use assms(1) that in \<open>auto simp: jsonb_set_def\<close>)
  with decode_marshal [OF assms(2)] show ?thesis
    by (auto simp: extractPolicies_def object_entries_def)
qed

text \<open>A column of type JSONB holds an object without repeated keys, or no object.\<close>

definition jsonb_ok :: "json option \<Rightarrow> bool" where
  "jsonb_ok doc \<longleftrightarrow> (\<forall>kvs. doc = Some (JObj kvs) \<longrightarrow> distinct (map fst kvs))"

lemma PutTenantDefaults_Inr:
  assumes "PutTenantDefaults t d s = (Inr (), s')" "\<not> db_rls s" "t \<in> set (db_tenants s)"
  shows "\<exists>j. jsonb_set (db_settings s t) ''risk_class_policies'' (marshal_policies d) = Inr j \<and>
    db_settings s' = (db_settings s)(t \<mapsto> j) \<and> db_agents s' = db_agents s \<and> db_rls s' = db_rls s \<and>
    db_tenants s' = db_tenants s \<and> db_tenant s' = db_tenant s \<and> ValidatePolicySet d = None"
proof -
  from assms(1) have v: "ValidatePolicySet d = None" by (auto simp: PutTenantDefaults_def split: option.splits)
  with assms(1) have "sql (set_tenant_policies t (marshal_policies d)) s = (Inr (Inr ()) :: pol_error + _, s')"
    by (simp add: PutTenantDefaults_def)
  from sql_Inr [OF this] obtain fs where
    "set_tenant_policies t (marshal_policies d) (s\<lparr>db_faults := fs\<rparr>) = (Inr (), s')" by blast
  with assms(2,3) v show ?thesis by (auto simp: set_tenant_policies_def split: sum.splits)
qed

lemma PutAgentOverrides_Inr:
  assumes "PutAgentOverrides t a ov s = (Inr (), s')" "find (agent_row t a s) (db_agents s) = Some r"
  shows "\<exists>j. jsonb_set (raw_value (ai_Config r)) ''policy_overrides'' (marshal_policies ov) = Inr j \<and>
    find (agent_row t a s') (db_agents s') = Some (r\<lparr>ai_Config := RawJSON j\<rparr>) \<and>
    db_settings s' = db_settings s \<and> db_rls s' = db_rls s \<and> db_tenants s' = db_tenants s \<and>
    ValidatePolicySet ov = None"
proof -
  let ?put = "put_overrides (marshal_policies ov)"
  from assms(1) have v: "ValidatePolicySet ov = None" by (auto simp: PutAgentOverrides_def split: option.splits)
  with assms(1) have "sql (set_agent_policies t a (marshal_policies ov)) s = (Inr (Inr ()) :: pol_error + _, s')"
    by (simp add: PutAgentOverrides_def)
  from sql_Inr [OF this] obtain fs where
    u: "set_agent_policies t a (marshal_policies ov) (s\<lparr>db_faults := fs\<rparr>) = (Inr (), s')" by blast
  have rows: "agent_row t a (s\<lparr>db_faults := fs\<rparr>) = agent_row t a s"
    by (auto simp: agent_row_def visible_def own_def fun_eq_iff)
  with u have none: "List.map_filter (\<lambda>r. case ?put r of Inl m \<Rightarrow> Some m | Inr _ \<Rightarrow> None)
      (filter (agent_row t a s) (db_agents s)) = []"
    and s': "s' = s\<lparr>db_faults := fs, db_agents := upd_where (agent_row t a s) (\<lambda>r. projr (?put r)) (db_agents s)\<rparr>"
    by (auto simp: set_agent_policies_def Let_def split: list.splits)
  from assms(2) have r: "r \<in> set (db_agents s)" "agent_row t a s r" by (auto dest: find_SomeD)
  then have "isl (?put r) \<Longrightarrow> False"
    using none by (auto simp: List.map_filter_def filter_empty_conv isl_def)
  then obtain r' where r': "?put r = Inr r'" by (cases "?put r") auto
  then obtain j where j: "jsonb_set (raw_value (ai_Config r)) ''policy_overrides'' (marshal_policies ov) = Inr j"
    "r' = r\<lparr>ai_Config := RawJSON j\<rparr>" by (auto simp: put_overrides_def split: sum.splits)
  have keep: "agent_row t a s (projr (?put x)) = agent_row t a s x" if "\<not> isl (?put x)" for x
    using that by (auto simp: put_overrides_def agent_row_def split: sum.splits)
  have ok: "\<not> isl (?put x)" if "x \<in> set (db_agents s)" "agent_row t a s x" for x
    using none that by (auto simp: List.map_filter_def filter_empty_conv isl_def)
  have "find (agent_row t a s) (upd_where (agent_row t a s) (\<lambda>r. projr (?put r)) rs) =
      map_option (\<lambda>r. projr (?put r)) (find (agent_row t a s) rs)" if "set rs \<subseteq> set (db_agents s)" for rs
    using that by (induction rs) (auto simp: keep ok)
  from this [OF subset_refl] assms(2) r' j
  have "find (agent_row t a s) (db_agents s') = Some (r\<lparr>ai_Config := RawJSON j\<rparr>)" by (simp add: s')
  moreover have "agent_row t a s' = agent_row t a s"
    unfolding s' by (auto simp: agent_row_def visible_def own_def fun_eq_iff)
  ultimately show ?thesis using j(1) v by (simp add: s')
qed

lemma Evaluate_cong: "lookup d = lookup d' \<Longrightarrow> lookup ov = lookup ov' \<Longrightarrow> Evaluate d ov = Evaluate d' ov'"
  by (rule ext) (auto simp: Evaluate_def split: option.split)

section \<open>Properties\<close>

text \<open>Policies take effect as written. After the defaults of a tenant and the overrides of an agent
  were stored, reading them back gives for every risk class the decision of the two sets that were
  written: the override if there is one, else the default, else the built-in decision, else a block.
  Only risk classes and decisions the system knows can be stored.
\<close>

theorem policies_take_effect:
  assumes "PutTenantDefaults t d s = (Inr (), s1)" "PutAgentOverrides t a ov s1 = (Inr (), s2)"
    and "go_map d" "go_map ov" "\<not> db_rls s" "t \<in> set (db_tenants s)"
    and "find (agent_row t a s1) (db_agents s1) = Some r"
    and "jsonb_ok (db_settings s t)" "jsonb_ok (raw_value (ai_Config r))"
  shows "\<exists>d' ov'. GetTenantDefaults t (s2\<lparr>db_faults := []\<rparr>) = (Inr d', s2\<lparr>db_faults := []\<rparr>) \<and>
    GetAgentOverrides t a (s2\<lparr>db_faults := []\<rparr>) = (Inr ov', s2\<lparr>db_faults := []\<rparr>) \<and>
    Evaluate d' ov' = Evaluate d ov \<and> ValidatePolicySet d = None \<and> ValidatePolicySet ov = None"
proof -
  let ?s = "s2\<lparr>db_faults := []\<rparr>"
  obtain j where j: "jsonb_set (db_settings s t) ''risk_class_policies'' (marshal_policies d) = Inr j"
    and s1: "db_settings s1 = (db_settings s)(t \<mapsto> j)" "db_rls s1 = db_rls s" "db_tenants s1 = db_tenants s"
      "ValidatePolicySet d = None" using PutTenantDefaults_Inr [OF assms(1,5,6)] by blast
  obtain k where k: "jsonb_set (raw_value (ai_Config r)) ''policy_overrides'' (marshal_policies ov) = Inr k"
    and s2: "find (agent_row t a s2) (db_agents s2) = Some (r\<lparr>ai_Config := RawJSON k\<rparr>)"
      "db_settings s2 = db_settings s1" "db_rls s2 = db_rls s1" "db_tenants s2 = db_tenants s1"
      "ValidatePolicySet ov = None" using PutAgentOverrides_Inr [OF assms(2,7)] by blast
  let ?d = "extractPolicies (RawJSON j) ''risk_class_policies''"
  let ?ov = "extractPolicies (RawJSON k) ''policy_overrides''"
  have "lookup ?d = lookup d" "lookup ?ov = lookup ov"
    using extract_put [OF j assms(3)] extract_put [OF k assms(4)] assms(8,9) by (simp_all add: jsonb_ok_def)
  then have "Evaluate ?d ?ov = Evaluate d ov" by (rule Evaluate_cong)
  moreover have "GetTenantDefaults t ?s = (Inr ?d, ?s)"
    using s1 s2 assms(5,6) by (simp add: GetTenantDefaults_def scan_row_def tenant_settings_def)
  moreover have "agent_row t a ?s = agent_row t a s2"
    by (auto simp: agent_row_def visible_def own_def fun_eq_iff)
  then have "GetAgentOverrides t a ?s = (Inr ?ov, ?s)"
    using s2(1) by (simp add: GetAgentOverrides_def scan_row_def)
  ultimately show ?thesis using s1(4) s2(5) by blast
qed

definition policy_agent :: AgentInstance where
  "policy_agent =
     \<lparr>ai_ID = 5, ai_TenantID = Some 1, ai_UserID = None, ai_DepartmentID = None, ai_VMID = None,
      ai_Status = StatusRunning, ai_Config = RawJSON (JObj [(''model'', JStr ''m'')]), ai_VsockCID = None,
      ai_VMDriver = ''mock'', ai_ToolAllowlist = RawJSON (JArr []), ai_ConsecutiveFailures = 0,
      ai_CreatedAt = 1, ai_LastHealthCheck = None\<rparr>"

definition policy_db :: db where
  "policy_db = empty_db\<lparr>db_tenants := [1], db_agents := [policy_agent]\<rparr>"

theorem policies_take_effect_witness:
  "\<exists>s1 s2 d' ov'. PutTenantDefaults 1 (Some [(''channel_sends'', ''block'')]) policy_db = (Inr (), s1) \<and>
     PutAgentOverrides 1 5 (Some [(''channel_sends'', ''allow'')]) s1 = (Inr (), s2) \<and>
     GetTenantDefaults 1 (s2\<lparr>db_faults := []\<rparr>) = (Inr d', s2\<lparr>db_faults := []\<rparr>) \<and>
     GetAgentOverrides 1 5 (s2\<lparr>db_faults := []\<rparr>) = (Inr ov', s2\<lparr>db_faults := []\<rparr>) \<and>
     Evaluate d' ov' ''channel_sends'' = ''allow''"
proof -
  let ?d = "Some [(''channel_sends'', ''block'')]" and ?ov = "Some [(''channel_sends'', ''allow'')]"
  note defs = policy_db_def policy_agent_def empty_db_def ValidatePolicySet_def entries_def lookup_def
    DefaultPolicySet_def DecisionAllow_def DecisionBlock_def DecisionRequireApproval_def checked_def wrap_err_def
    jsonb_set_def marshal_policies_def
  obtain s1 where s1: "PutTenantDefaults 1 ?d policy_db = (Inr (), s1)" and
    s1_def: "s1 = policy_db\<lparr>db_settings := [1 \<mapsto> JObj [(''risk_class_policies'', JObj [(''channel_sends'', JStr ''block'')])]]\<rparr>"
    by (simp add: PutTenantDefaults_def set_tenant_policies_def defs)
  obtain s2 where s2: "PutAgentOverrides 1 5 ?ov s1 = (Inr (), s2)"
    by (simp add: s1_def PutAgentOverrides_def set_agent_policies_def put_overrides_def raw_value_def agent_row_def
        visible_def List.map_filter_simps defs)
  have f: "find (agent_row 1 5 s1) (db_agents s1) = Some policy_agent"
    by (simp add: s1_def policy_db_def policy_agent_def agent_row_def visible_def empty_db_def)
  have h: "go_map ?d" "go_map ?ov" "\<not> db_rls policy_db" "1 \<in> set (db_tenants policy_db)"
    "jsonb_ok (db_settings policy_db 1)" "jsonb_ok (raw_value (ai_Config policy_agent))"
    by (simp_all add: go_map_def jsonb_ok_def raw_value_def defs)
  from policies_take_effect [OF s1 s2 h(1-4) f h(5,6)] obtain d' ov' where
    g: "GetTenantDefaults 1 (s2\<lparr>db_faults := []\<rparr>) = (Inr d', s2\<lparr>db_faults := []\<rparr>)"
      "GetAgentOverrides 1 5 (s2\<lparr>db_faults := []\<rparr>) = (Inr ov', s2\<lparr>db_faults := []\<rparr>)"
    and "Evaluate d' ov' = Evaluate ?d ?ov" by blast
  moreover have "Evaluate ?d ?ov ''channel_sends'' = ''allow''" by (simp add: Evaluate_def lookup_def entries_def)
  ultimately have "Evaluate d' ov' ''channel_sends'' = ''allow''" by simp
  with s1 s2 g show ?thesis by blast
qed

end
