(* ===== verification/Connectors.thy ===== *)
theory Connectors
  imports Policies
begin

text \<open>
  The connector catalogue (\<open>internal/connectors\<close>): the tools a connector declares, the decision on
  a tool call, the store of connectors and its HTTP handlers.

  The table is under row-level security for roles other than its owner, with a unique name per
  tenant (migration 000009). \<open>parse_uuid\<close> is the cast of a text to a UUID.
\<close>

section \<open>Tools\<close>

datatype con_sentinel =
    ErrNotFound
  | ErrNameEmpty
  | ErrNameTaken
  | ErrEndpointEmpty
  | ErrConnectorToolNameEmpty
  | ErrConnectorToolActionType
  | ErrConnectorToolRiskClassNeeded

type_synonym con_error = "con_sentinel go_error"
type_synonym 'a con_op = "db \<Rightarrow> (con_error + 'a) \<times> db"

record ConnectorTool =
  ct_Name :: string
  ct_ActionType :: string
  ct_RiskClass :: string
  ct_TargetType :: string
  ct_TargetLabelTemplate :: string
  ct_ApprovalSummaryTemplate :: string

definition named_tool :: "string \<Rightarrow> ConnectorTool" where
  "named_tool name =
     \<lparr>ct_Name = name, ct_ActionType = [], ct_RiskClass = [], ct_TargetType = [],
      ct_TargetLabelTemplate = [], ct_ApprovalSummaryTemplate = []\<rparr>"

definition decode_tool :: "json \<Rightarrow> ConnectorTool option" where
  "decode_tool j =
     (case json_entries j of
        None \<Rightarrow> None
      | Some kvs \<Rightarrow>
          (case (string_field ''name'' kvs, string_field ''action_type'' kvs,
                 string_field ''risk_class'' kvs, string_field ''target_type'' kvs,
                 string_field ''target_label_template'' kvs,
                 string_field ''approval_summary_template'' kvs) of
             (Some n, Some a, Some r, Some t, Some l, Some s) \<Rightarrow>
               Some \<lparr>ct_Name = n, ct_ActionType = a, ct_RiskClass = r, ct_TargetType = t,
                     ct_TargetLabelTemplate = l, ct_ApprovalSummaryTemplate = s\<rparr>
           | _ \<Rightarrow> None))"

text \<open>
  A raw message that comes out of a request or a column is never only white space. The text of
  a decoding error is left out.
\<close>

definition ParseTools :: "raw_json \<Rightarrow> con_error + ConnectorTool list" where
  "ParseTools raw =
     (case raw of
        RawEmpty \<Rightarrow> Inr []
      | RawInvalid \<Rightarrow> Inl (Wrap ''parsing connector tools'' (NewError ''syntax error''))
      | RawJSON j \<Rightarrow>
          if j = JNull then Inr []
          else case decode_slice decode_string j of
              Some names \<Rightarrow> Inr (map named_tool names)
            | None \<Rightarrow>
                (case decode_slice decode_tool j of
                   Some tools \<Rightarrow> Inr tools
                 | None \<Rightarrow> Inl (Wrap ''parsing connector tools'' (NewError ''cannot unmarshal''))))"

definition tool_error :: "ConnectorTool \<Rightarrow> con_sentinel option" where
  "tool_error tool =
     (if TrimSpace (ct_Name tool) = [] then Some ErrConnectorToolNameEmpty
      else
        (let actionType = TrimSpace (ct_ActionType tool) in
         if actionType \<in> {'''', ''read''} then None
         else if actionType = ''write'' then
           (if TrimSpace (ct_RiskClass tool) = [] then Some ErrConnectorToolRiskClassNeeded else None)
         else Some ErrConnectorToolActionType))"

fun first_tool_error :: "ConnectorTool list \<Rightarrow> con_sentinel option" where
  "first_tool_error [] = None"
| "first_tool_error (tool # tools) =
     (case tool_error tool of Some e \<Rightarrow> Some e | None \<Rightarrow> first_tool_error tools)"

definition ValidateToolsJSON :: "raw_json \<Rightarrow> con_error option" where
  "ValidateToolsJSON raw =
     (case ParseTools raw of
        Inl e \<Rightarrow> Some e
      | Inr tools \<Rightarrow> map_option Sentinel (first_tool_error tools))"

definition omit_empty :: "string \<Rightarrow> string \<Rightarrow> (string \<times> json) list" where
  "omit_empty k v = (if v = [] then [] else [(k, JStr v)])"

definition encode_tool :: "ConnectorTool \<Rightarrow> json" where
  "encode_tool tool =
     JObj ((''name'', JStr (ct_Name tool)) # omit_empty ''action_type'' (ct_ActionType tool) @
           omit_empty ''risk_class'' (ct_RiskClass tool) @ omit_empty ''target_type'' (ct_TargetType tool) @
           omit_empty ''target_label_template'' (ct_TargetLabelTemplate tool) @
           omit_empty ''approval_summary_template'' (ct_ApprovalSummaryTemplate tool))"

definition EncodeTools :: "ConnectorTool list \<Rightarrow> raw_json" where
  "EncodeTools tools = RawJSON (JArr (map encode_tool tools))"

section \<open>Governance\<close>

record GovernanceResult =
  gr_Governed :: bool
  gr_Decision :: string
  gr_RiskClass :: string
  gr_Tool :: ConnectorTool

definition ResolveToolDefinition :: "raw_json \<Rightarrow> string \<Rightarrow> con_error + ConnectorTool" where
  "ResolveToolDefinition rawTools toolName =
     (case ParseTools rawTools of
        Inl e \<Rightarrow> Inl e
      | Inr tools \<Rightarrow>
          (case find (\<lambda>tool. ct_Name tool = toolName) tools of
             Some tool \<Rightarrow> Inr tool
           | None \<Rightarrow> Inl (Sentinel ErrNotFound)))"

text \<open>The result comes with an error in two of the cases.\<close>

definition EvaluateGovernance ::
  "ConnectorTool \<Rightarrow> PolicySet \<Rightarrow> PolicySet \<Rightarrow> GovernanceResult \<times> con_sentinel option" where
  "EvaluateGovernance tool defaults overrides =
     (let result = \<lparr>gr_Governed = False, gr_Decision = DecisionAllow, gr_RiskClass = [], gr_Tool = tool\<rparr> in
      if ct_ActionType tool \<in> {'''', ''read''} then (result, None)
      else if ct_ActionType tool = ''write'' then
        (let result = result\<lparr>gr_Governed := True, gr_RiskClass := ct_RiskClass tool\<rparr> in
         if ct_RiskClass tool = [] then
           (result\<lparr>gr_Decision := DecisionBlock\<rparr>, Some ErrConnectorToolRiskClassNeeded)
         else (result\<lparr>gr_Decision := Evaluate defaults overrides (ct_RiskClass tool)\<rparr>, None))
      else (result\<lparr>gr_Governed := True, gr_Decision := DecisionBlock\<rparr>, Some ErrConnectorToolActionType))"

definition IsGovernedWrite :: "ConnectorTool \<Rightarrow> bool" where
  "IsGovernedWrite tool \<longleftrightarrow> ct_ActionType tool = ''write''"

definition IsToolMissingGovernanceMetadata :: "con_error \<Rightarrow> bool" where
  "IsToolMissingGovernanceMetadata err \<longleftrightarrow>
     errors_Is err ErrConnectorToolRiskClassNeeded \<or> errors_Is err ErrConnectorToolActionType"

section \<open>The store\<close>

record AgentConnectorConfig =
  acc_ID :: uuid
  acc_Name :: string
  acc_Type :: string
  acc_Endpoint :: string
  acc_Auth :: raw_json
  acc_Tools :: raw_json

definition name_constraint :: string where
  "name_constraint = ''connectors_tenant_name_unique''"

definition insert_connector ::
  "string \<Rightarrow> string \<Rightarrow> string \<Rightarrow> raw_json \<Rightarrow> raw_json \<Rightarrow> raw_json \<Rightarrow> db \<Rightarrow> (string + Connector) \<times> db" where
  "insert_connector name connectorType endpoint authConfig tools resources s =
     (case db_tenant s of
        None \<Rightarrow> (Inl ''null value in column tenant_id'', s)
      | Some t \<Rightarrow>
          if \<not> json_Valid authConfig \<or> \<not> json_Valid tools \<or> \<not> json_Valid resources
          then (Inl ''invalid input syntax for type json'', s)
          else if t \<notin> set (db_tenants s) then (Inl ''foreign key violation: tenant_id'', s)
          else if list_ex (\<lambda>r. co_TenantID r = t \<and> co_Name r = name) (db_connectors s)
          then (Inl name_constraint, s)
          else
            (let row = \<lparr>co_ID = db_next s, co_TenantID = t, co_Name = name,
                        co_ConnectorType = connectorType, co_Endpoint = endpoint,
                        co_AuthConfig = authConfig, co_Resources = resources, co_Tools = tools,
                        co_Status = ''active'', co_CreatedAt = db_now s\<rparr>
             in (Inr row, s\<lparr>db_connectors := db_connectors s @ [row], db_next := Suc (db_next s)\<rparr>)))"

text \<open>The violation of the unique constraint is told from the other errors by its name.\<close>

definition created_connector ::
  "(con_error + string + Connector) \<times> db \<Rightarrow> (con_error + Connector) \<times> db" where
  "created_connector r =
     (case r of
        (Inl e, s) \<Rightarrow> (Inl (Wrap ''creating connector'' e), s)
      | (Inr (Inl m), s) \<Rightarrow>
          (Inl (if m = name_constraint then Sentinel ErrNameTaken
                else Wrap ''creating connector'' (DBError m)), s)
      | (Inr (Inr c), s) \<Rightarrow> (Inr c, s))"

definition co_Create ::
  "string \<Rightarrow> string \<Rightarrow> string \<Rightarrow> raw_json \<Rightarrow> raw_json \<Rightarrow> raw_json \<Rightarrow> Connector con_op" where
  "co_Create name connectorType endpoint authConfig tools resources s =
     (if name = [] then (Inl (Sentinel ErrNameEmpty), s)
      else if endpoint = [] then (Inl (Sentinel ErrEndpointEmpty), s)
      else
        (let connectorType = (if connectorType = [] then ''mcp'' else connectorType);
             authConfig = (if authConfig = RawEmpty then RawJSON (JObj []) else authConfig);
             invalid = (if tools = RawEmpty then None else ValidateToolsJSON tools);
             tools = (if tools = RawEmpty then RawJSON (JArr []) else tools);
             resources = (if resources = RawEmpty then RawJSON (JArr []) else resources) in
         case invalid of
           Some e \<Rightarrow> (Inl e, s)
         | None \<Rightarrow>
             created_connector
               (sql (insert_connector name connectorType endpoint authConfig tools resources) s)))"

definition co_List :: "Connector list con_op" where
  "co_List s =
     wrap_err ''listing connectors''
       (sql (\<lambda>s. (sort_key co_CreatedAt (filter (\<lambda>r. visible s (co_TenantID r)) (db_connectors s)), s)) s)"

definition co_GetByID :: "(string \<Rightarrow> uuid option) \<Rightarrow> string \<Rightarrow> Connector con_op" where
  "co_GetByID parse_uuid i s =
     query_row ''getting connector'' ErrNotFound
       (checked (sql (\<lambda>s.
          (case parse_uuid i of
             None \<Rightarrow> Inl ''invalid input syntax for type uuid''
           | Some u \<Rightarrow>
               Inr (find (\<lambda>r. co_ID r = u \<and> visible s (co_TenantID r)) (db_connectors s)), s)) s))"

definition delete_connector :: "uuid \<Rightarrow> db \<Rightarrow> nat \<times> db" where
  "delete_connector u s =
     (let p = (\<lambda>r. co_ID r = u \<and> own s (co_TenantID r)) in
      (count_where p (db_connectors s),
       s\<lparr>db_connectors := filter (\<lambda>r. \<not> p r) (db_connectors s)\<rparr>))"

definition co_Delete :: "(string \<Rightarrow> uuid option) \<Rightarrow> string \<Rightarrow> unit con_op" where
  "co_Delete parse_uuid i s =
     exec_rows ''deleting connector'' ErrNotFound
       (checked (sql (\<lambda>s.
          (case parse_uuid i of
             None \<Rightarrow> (Inl ''invalid input syntax for type uuid'', s)
           | Some u \<Rightarrow> map_prod Inr id (delete_connector u s))) s))"

definition agent_config :: "Connector \<Rightarrow> AgentConnectorConfig" where
  "agent_config c =
     \<lparr>acc_ID = co_ID c, acc_Name = co_Name c, acc_Type = co_ConnectorType c,
      acc_Endpoint = co_Endpoint c, acc_Auth = co_AuthConfig c, acc_Tools = co_Tools c\<rparr>"

definition ListForAgent :: "AgentConnectorConfig list con_op" where
  "ListForAgent s =
     wrap_err ''listing connectors for agent''
       (sql (\<lambda>s. (map agent_config (sort_key co_CreatedAt
          (filter (\<lambda>r. visible s (co_TenantID r) \<and> co_Status r = ''active'') (db_connectors s))), s)) s)"

section \<open>The handlers\<close>

text \<open>
  The tenant of the context was put there by the authentication and is the text of a UUID. The
  body of a request is its first JSON value of at most 10 KiB, \<open>RawInvalid\<close> if there is none.
  An error body has a fixed text or the text of an error.
\<close>

datatype connector_body =
    ConnectorMessage string
  | ConnectorError con_error
  | ConnectorBody Connector
  | ConnectorsBody "Connector list"
  | NoContent

type_synonym connector_response = "int \<times> connector_body"

datatype tenant_error = errTenantContextRequired | errTenantPathMismatch

definition resolveTenantID :: "string \<Rightarrow> string \<Rightarrow> tenant_error + string" where
  "resolveTenantID tenantID pathTenantID =
     (if tenantID = [] then Inl errTenantContextRequired
      else if pathTenantID \<noteq> [] \<and> pathTenantID \<noteq> tenantID then Inl errTenantPathMismatch
      else Inr tenantID)"

definition writeTenantError :: "tenant_error \<Rightarrow> connector_response" where
  "writeTenantError err =
     (case err of
        errTenantContextRequired \<Rightarrow> (400, ConnectorMessage ''tenant context required'')
      | errTenantPathMismatch \<Rightarrow>
          (403, ConnectorMessage ''tenant path does not match authenticated tenant''))"

record create_request =
  req_Name :: string
  req_ConnectorType :: string
  req_Endpoint :: string
  req_AuthConfig :: raw_json
  req_Tools :: raw_json
  req_Resources :: raw_json

definition decode_create :: "raw_json \<Rightarrow> create_request option" where
  "decode_create body =
     (case object_entries body of
        None \<Rightarrow> None
      | Some kvs \<Rightarrow>
          (case (string_field ''name'' kvs, string_field ''connector_type'' kvs, string_field ''endpoint'' kvs) of
             (Some n, Some t, Some e) \<Rightarrow>
               Some \<lparr>req_Name = n, req_ConnectorType = t, req_Endpoint = e,
                     req_AuthConfig = raw_field ''auth_config'' kvs, req_Tools = raw_field ''tools'' kvs,
                     req_Resources = raw_field ''resources'' kvs\<rparr>
           | _ \<Rightarrow> None))"

definition create_error_response :: "con_error \<Rightarrow> connector_response" where
  "create_error_response err =
     (if errors_Is err ErrNameTaken then (409, ConnectorError err)
      else if errors_Is err ErrNameEmpty \<or> errors_Is err ErrEndpointEmpty then (400, ConnectorError err)
      else (500, ConnectorMessage ''connector creation failed''))"

definition HandleCreate ::
  "(string \<Rightarrow> uuid option) \<Rightarrow> string \<Rightarrow> string \<Rightarrow> raw_json \<Rightarrow> db \<Rightarrow> connector_response \<times> db" where
  "HandleCreate parse_uuid tenant pathTenant body s =
     (case resolveTenantID tenant pathTenant of
        Inl e \<Rightarrow> (writeTenantError e, s)
      | Inr tenantID \<Rightarrow>
          (case decode_create body of
             None \<Rightarrow> ((400, ConnectorMessage ''invalid request body''), s)
           | Some req \<Rightarrow>
               if TrimSpace (req_Name req) = [] then ((400, ConnectorError (Sentinel ErrNameEmpty)), s)
               else if TrimSpace (req_Endpoint req) = []
               then ((400, ConnectorError (Sentinel ErrEndpointEmpty)), s)
               else case ValidateToolsJSON (req_Tools req) of
                   Some e \<Rightarrow> ((400, ConnectorError e), s)
                 | None \<Rightarrow>
                     (case tenant_connection parse_uuid tenantID
                             (co_Create (req_Name req) (req_ConnectorType req) (req_Endpoint req)
                                (req_AuthConfig req) (req_Tools req) (req_Resources req)) s of
                        (Inl e, s1) \<Rightarrow> (create_error_response e, s1)
                      | (Inr connector, s1) \<Rightarrow> ((201, ConnectorBody connector), s1))))"

definition con_HandleList ::
  "(string \<Rightarrow> uuid option) \<Rightarrow> string \<Rightarrow> string \<Rightarrow> db \<Rightarrow> connector_response \<times> db" where
  "con_HandleList parse_uuid tenant pathTenant s =
     (case resolveTenantID tenant pathTenant of
        Inl e \<Rightarrow> (writeTenantError e, s)
      | Inr tenantID \<Rightarrow>
          (case tenant_connection parse_uuid tenantID co_List s of
             (Inl _, s1) \<Rightarrow> ((500, ConnectorMessage ''listing connectors failed''), s1)
           | (Inr rows, s1) \<Rightarrow> ((200, ConnectorsBody rows), s1)))"

definition HandleDelete ::
  "(string \<Rightarrow> uuid option) \<Rightarrow> string \<Rightarrow> string \<Rightarrow> string \<Rightarrow> db \<Rightarrow> connector_response \<times> db" where
  "HandleDelete parse_uuid tenant pathTenant i s =
     (if i = [] then ((400, ConnectorMessage ''connector id is required''), s)
      else case resolveTenantID tenant pathTenant of
          Inl e \<Rightarrow> (writeTenantError e, s)
        | Inr tenantID \<Rightarrow>
            (case tenant_connection parse_uuid tenantID (co_Delete parse_uuid i) s of
               (Inl e, s1) \<Rightarrow>
                 (if errors_Is e ErrNotFound then (404, ConnectorMessage ''connector not found'')
                  else (500, ConnectorMessage ''deleting connector failed''), s1)
             | (Inr _, s1) \<Rightarrow> ((204, NoContent), s1)))"

section \<open>The catalogue stays well formed\<close>

text \<open>Every stored connector has tools that pass validation, and a name of its own in its tenant.\<close>

definition tools_valid :: "raw_json \<Rightarrow> bool" where
  "tools_valid raw \<longleftrightarrow> (\<exists>tools. ParseTools raw = Inr tools \<and> (\<forall>tool \<in> set tools. tool_error tool = None))"

definition catalogue_ok :: "db \<Rightarrow> bool" where
  "catalogue_ok s \<longleftrightarrow>
     distinct (map (\<lambda>r. (co_TenantID r, co_Name r)) (db_connectors s)) \<and>
     distinct (map co_ID (db_connectors s)) \<and>
     (\<forall>r \<in> set (db_connectors s). co_ID r < db_next s \<and> tools_valid (co_Tools r))"

lemma first_tool_error_None: "first_tool_error tools = None \<longleftrightarrow> (\<forall>tool \<in> set tools. tool_error tool = None)"
  by (induction tools) (auto split: option.splits)

lemma ValidateToolsJSON_None: "ValidateToolsJSON raw = None \<longleftrightarrow> tools_valid raw"
  by (auto simp: ValidateToolsJSON_def tools_valid_def first_tool_error_None split: sum.splits)

lemma no_tools_valid: "tools_valid RawEmpty" "tools_valid (RawJSON (JArr []))"
  by (simp_all add: tools_valid_def ParseTools_def decode_slice_def)

lemma catalogue_blind: "session_blind catalogue_ok"
  by (simp add: session_blind_def catalogue_ok_def)

lemma insert_connector_ok:
  assumes "catalogue_ok s" "insert_connector n ct e a tools rs s = (r, s')" "tools_valid tools"
  shows "catalogue_ok s'"
proof -
  from assms(1) have "db_next s \<notin> co_ID ` set (db_connectors s)"
    by (auto simp: catalogue_ok_def)
  with assms show ?thesis
    by (auto simp: insert_connector_def catalogue_ok_def list_ex_iff Let_def less_SucI
        split: option.splits if_splits)
qed

lemma delete_connector_ok: "catalogue_ok s \<Longrightarrow> catalogue_ok (snd (delete_connector u s))"
  by (auto simp: delete_connector_def catalogue_ok_def Let_def distinct_map_filter)

lemma sql_catalogue:
  "(\<And>s. catalogue_ok s \<Longrightarrow> catalogue_ok (snd (stmt s))) \<Longrightarrow> keeps catalogue_ok (sql stmt)"
  by (intro keeps_sql session_blind_faults catalogue_blind keepsI)

lemma snd_created [simp]: "snd (created_connector r) = snd r"
  by (simp add: created_connector_def split: prod.splits sum.splits)

lemma sql_insert_ok:
  assumes "catalogue_ok s" "tools_valid tools"
  shows "catalogue_ok (snd (sql (insert_connector n ct e a tools rs) s :: (con_error + _) \<times> db))"
proof -
  have "keeps catalogue_ok (sql (insert_connector n ct e a tools rs) :: db \<Rightarrow> (con_error + _) \<times> db)"
    by (intro sql_catalogue) (metis insert_connector_ok assms(2) prod.collapse)
  with assms(1) show ?thesis by (simp add: keeps_def)
qed

lemma co_Create_ok: "keeps catalogue_ok (co_Create n ct e a tools rs)"
  by (rule keepsI)
    (simp add: co_Create_def Let_def sql_insert_ok no_tools_valid ValidateToolsJSON_None
      split: option.splits)

lemma reads_catalogue:
  "keeps catalogue_ok co_List" "keeps catalogue_ok (co_GetByID pu i)" "keeps catalogue_ok ListForAgent"
  unfolding co_List_def co_GetByID_def ListForAgent_def
  by (intro keeps_wrap_err keeps_query_row keeps_checked sql_catalogue; simp)+

lemma co_Delete_ok: "keeps catalogue_ok (co_Delete pu i)"
  unfolding co_Delete_def
  by (intro keeps_exec_rows keeps_checked sql_catalogue)
    (simp add: delete_connector_ok split: option.splits)

lemma tenant_connection_ok:
  "keeps catalogue_ok f \<Longrightarrow> keeps catalogue_ok (tenant_connection pu t f)"
  using WithTenantConnection_keeps [OF catalogue_blind]
  by (auto simp: keeps_def tenant_connection_def split: option.splits)

text \<open>Requests to the three handlers, in any order.\<close>

datatype connector_call =
    CoSession gotime bool "string option list"
  | CoCreate string string raw_json
  | CoList string string
  | CoDelete string string string

fun exec_connector :: "(string \<Rightarrow> uuid option) \<Rightarrow> connector_call \<Rightarrow> db \<Rightarrow> db" where
  "exec_connector pu (CoSession now rls fs) s = s\<lparr>db_now := now, db_rls := rls, db_faults := fs\<rparr>"
| "exec_connector pu (CoCreate t pt body) s = snd (HandleCreate pu t pt body s)"
| "exec_connector pu (CoList t pt) s = snd (con_HandleList pu t pt s)"
| "exec_connector pu (CoDelete t pt i) s = snd (HandleDelete pu t pt i s)"

lemma snd_bind:
  "snd (case p of (Inl e, s1) \<Rightarrow> (f e s1, s1) | (Inr a, s1) \<Rightarrow> (g a s1, s1)) = snd p"
  by (simp split: prod.splits sum.splits)

lemma exec_connector_ok:
  assumes "catalogue_ok s"
  shows "catalogue_ok (exec_connector pu c s)"
proof (cases c)
  case (CoSession now rls fs)
  with assms show ?thesis by (simp add: catalogue_ok_def)
next
  case (CoCreate t pt body)
  with assms tenant_connection_ok [OF co_Create_ok] show ?thesis
    by (auto simp: HandleCreate_def keeps_def snd_bind split: sum.splits option.splits)
next
  case (CoList t pt)
  with assms tenant_connection_ok [OF reads_catalogue(1)] show ?thesis
    by (auto simp: con_HandleList_def keeps_def snd_bind split: sum.splits)
next
  case (CoDelete t pt i)
  with assms tenant_connection_ok [OF co_Delete_ok] show ?thesis
    by (auto simp: HandleDelete_def keeps_def snd_bind split: sum.splits)
qed

section \<open>Properties\<close>


definition create_body :: raw_json where
  "create_body = RawJSON (JObj [(''name'', JStr ''crm''), (''endpoint'', JStr ''http://crm''),
     (''tools'', JArr [JObj [(''name'', JStr ''post''), (''action_type'', JStr ''write''), (''risk_class'', JStr ''external_writes'')]])])"

definition tenant_db :: db where
  "tenant_db = empty_db\<lparr>db_tenants := [1]\<rparr>"


text \<open>
  The validation trims the action type, the governance does not: a tool whose action type is
  \<open>write\<close> followed by a blank passes validation and is not governed.
\<close>

definition blank_tool :: ConnectorTool where
  "blank_tool = (named_tool ''post'')\<lparr>ct_ActionType := ''write '', ct_RiskClass := ''destructive_actions''\<rparr>"

theorem blank_action_type_ungoverned:
  "ValidateToolsJSON (EncodeTools [blank_tool]) = None \<and> ParseTools (EncodeTools [blank_tool]) = Inr [blank_tool] \<and>
   \<not> IsGovernedWrite blank_tool"
  by code_simp

end
