(* ===== verification/Agent_Config.thy ===== *)
theory Agent_Config
  imports Connectors Agent_Conn
begin

text \<open>
  What the control plane tells an agent about its connectors: the governed tools with their
  decisions (\<open>buildAgentConnectors\<close> and \<open>loadPolicySets\<close> of
  \<open>internal/orchestrator/handler.go\<close>), and the push of a configuration over the agent's
  connection (\<open>internal/proxy/push.go\<close>).
\<close>

section \<open>Policies of an agent\<close>

record PolicyReader =
  pr_GetTenantDefaults :: "uuid \<Rightarrow> PolicySet pol_op"
  pr_GetAgentOverrides :: "uuid \<Rightarrow> uuid \<Rightarrow> PolicySet pol_op"

definition policy_store_reader :: PolicyReader where
  "policy_store_reader =
     \<lparr>pr_GetTenantDefaults = GetTenantDefaults, pr_GetAgentOverrides = GetAgentOverrides\<rparr>"

text \<open>A stored set counts when it was read without an error and is not empty.\<close>

definition stored_or :: "PolicySet \<Rightarrow> (pol_error + PolicySet) \<times> db \<Rightarrow> PolicySet \<times> db" where
  "stored_or fallback r =
     (case r of
        (Inr ps, s) \<Rightarrow> (if entries ps \<noteq> [] then ps else fallback, s)
      | (Inl _, s) \<Rightarrow> (fallback, s))"

definition loadPolicySets ::
  "(string \<Rightarrow> uuid option) \<Rightarrow> PolicyReader option \<Rightarrow> string \<Rightarrow> string \<Rightarrow> db \<Rightarrow>
   (PolicySet \<times> PolicySet) \<times> db" where
  "loadPolicySets parse_uuid policyStore tenantID agentID s =
     (case policyStore of
        None \<Rightarrow> ((DefaultPolicySet, Some []), s)
      | Some reader \<Rightarrow>
          (case parse_uuid (TrimSpace tenantID) of
             None \<Rightarrow> ((DefaultPolicySet, Some []), s)
           | Some tenant \<Rightarrow>
               (case stored_or DefaultPolicySet (pr_GetTenantDefaults reader tenant s) of
                  (defaults, s1) \<Rightarrow>
                    (case parse_uuid (TrimSpace agentID) of
                       None \<Rightarrow> ((defaults, Some []), s1)
                     | Some agent \<Rightarrow>
                         (case stored_or (Some []) (pr_GetAgentOverrides reader tenant agent s1) of
                            (overrides, s2) \<Rightarrow> ((defaults, overrides), s2))))))"

fun firstNonEmpty :: "string list \<Rightarrow> string" where
  "firstNonEmpty [] = []"
| "firstNonEmpty (v # vs) = (if TrimSpace v \<noteq> [] then TrimSpace v else firstNonEmpty vs)"

section \<open>The connectors of an agent\<close>

definition governed_entry :: "PolicySet \<Rightarrow> PolicySet \<Rightarrow> ConnectorTool \<Rightarrow> json" where
  "governed_entry defaults overrides tool =
     (let governance = fst (EvaluateGovernance tool defaults overrides) in
      JObj [(''action_type'', JStr (ct_ActionType tool)),
            (''risk_class'', JStr (firstNonEmpty [gr_RiskClass governance, ct_RiskClass tool])),
            (''decision'', JStr (gr_Decision governance)),
            (''target_type'', JStr (ct_TargetType tool)),
            (''target_label_template'', JStr (ct_TargetLabelTemplate tool)),
            (''approval_summary_template'', JStr (ct_ApprovalSummaryTemplate tool))])"

fun governed_tools :: "PolicySet \<Rightarrow> PolicySet \<Rightarrow> ConnectorTool list \<Rightarrow> (string \<times> json) list \<Rightarrow> (string \<times> json) list" where
  "governed_tools defaults overrides [] m = m"
| "governed_tools defaults overrides (tool # tools) m =
     governed_tools defaults overrides tools
       (if IsGovernedWrite tool then map_put (ct_Name tool) (governed_entry defaults overrides tool) m
        else m)"

text \<open>A raw message inside a value; none at all is \<open>null\<close>.\<close>

definition raw_member :: "raw_json \<Rightarrow> json" where
  "raw_member r = (case r of RawJSON j \<Rightarrow> j | _ \<Rightarrow> JNull)"

definition connector_payload ::
  "(uuid \<Rightarrow> string) \<Rightarrow> PolicySet \<Rightarrow> PolicySet \<Rightarrow> AgentConnectorConfig \<Rightarrow> json option" where
  "connector_payload show_uuid defaults overrides c =
     (case ParseTools (acc_Tools c) of
        Inl _ \<Rightarrow> None
      | Inr tools \<Rightarrow>
          (let governed = governed_tools defaults overrides tools [] in
           Some (JObj ([(''id'', JStr (show_uuid (acc_ID c))), (''name'', JStr (acc_Name c)),
                        (''type'', JStr (acc_Type c)), (''endpoint'', JStr (acc_Endpoint c)),
                        (''auth'', raw_member (acc_Auth c)),
                        (''tools'', JArr (map (\<lambda>t. JStr (ct_Name t)) tools))] @
                       (if governed \<noteq> [] then [(''governed_tools'', JObj governed)] else [])))))"

text \<open>
  \<open>lister\<close> is the connector store, \<open>None\<close> when the handler has no store or no database. A
  connector whose tools cannot be parsed is left out.
\<close>

definition govern_connectors ::
  "(string \<Rightarrow> uuid option) \<Rightarrow> (uuid \<Rightarrow> string) \<Rightarrow> AgentConnectorConfig list con_op \<Rightarrow>
   PolicyReader option \<Rightarrow> string \<Rightarrow> string \<Rightarrow> json list con_op" where
  "govern_connectors parse_uuid show_uuid listForAgent policyStore tenantID agentID s =
     (case listForAgent s of
        (Inl _, s1) \<Rightarrow> (Inr [], s1)
      | (Inr configs, s1) \<Rightarrow>
          (case loadPolicySets parse_uuid policyStore tenantID agentID s1 of
             ((defaults, overrides), s2) \<Rightarrow>
               (Inr (List.map_filter (connector_payload show_uuid defaults overrides) configs), s2)))"

definition buildAgentConnectors ::
  "(string \<Rightarrow> uuid option) \<Rightarrow> (uuid \<Rightarrow> string) \<Rightarrow> AgentConnectorConfig list con_op option \<Rightarrow>
   PolicyReader option \<Rightarrow> string \<Rightarrow> string \<Rightarrow> db \<Rightarrow> json list \<times> db" where
  "buildAgentConnectors parse_uuid show_uuid lister policyStore tenantID agentID s =
     (case lister of
        None \<Rightarrow> ([], s)
      | Some listForAgent \<Rightarrow>
          (case tenant_connection parse_uuid tenantID
                  (govern_connectors parse_uuid show_uuid listForAgent policyStore tenantID agentID) s of
             (Inl _, s1) \<Rightarrow> ([], s1)
           | (Inr agentConnectors, s1) \<Rightarrow> (agentConnectors, s1)))"

section \<open>Pushing a configuration\<close>

text \<open>Nil maps and slices are \<open>null\<close>, or left out where the field says \<open>omitempty\<close>.\<close>

definition push_payload ::
  "(string \<times> json) list option \<Rightarrow> string list option \<Rightarrow> (string \<times> json) list \<Rightarrow> string list \<Rightarrow> json list \<Rightarrow> json" where
  "push_payload config toolAllowlist toolPolicies canaryTokens agentConnectors =
     JObj ([(''config'', case config of None \<Rightarrow> JNull | Some m \<Rightarrow> JObj m),
            (''tool_allowlist'', case toolAllowlist of None \<Rightarrow> JNull | Some ts \<Rightarrow> JArr (map JStr ts))] @
           (if toolPolicies = [] then [] else [(''tool_policies'', JObj toolPolicies)]) @
           (if canaryTokens = [] then [] else [(''canary_tokens'', JArr (map JStr canaryTokens))]) @
           (if agentConnectors = [] then [] else [(''connectors'', JArr agentConnectors)]))"

datatype push_outcome =
    PushAcked
  | PushRefused Frame
  | PushUnexpected string
  | PushUnreachable string
  | PushSendFailed string
  | PushTimedOut string

text \<open>
  \<open>Recv\<close> is refused once the connection is in request mode; otherwise it gives what the socket
  delivers.
\<close>

definition conn_Recv :: "AgentConn \<Rightarrow> string + Frame \<Rightarrow> string + Frame" where
  "conn_Recv c delivered =
     (if isRequestModeEnabled c
      then Inl ''Recv cannot be used after SendRequest; use request stream Recv''
      else delivered)"

text \<open>
  \<open>receives\<close> has, for every receive up to the deadline of the context, the connection as it is
  then and what the socket delivers; frames for other requests are skipped.
\<close>

fun await_ack :: "string \<Rightarrow> (AgentConn \<times> (string + Frame)) list \<Rightarrow> push_outcome" where
  "await_ack frameID [] = PushTimedOut ''context deadline exceeded''"
| "await_ack frameID ((c, delivered) # receives) =
     (case conn_Recv c delivered of
        Inl e \<Rightarrow> PushTimedOut e
      | Inr reply \<Rightarrow>
          if fr_ID reply \<noteq> frameID then await_ack frameID receives
          else if fr_Type reply = ''error'' then PushRefused reply
          else if fr_Type reply = ''config_ack'' then PushAcked
          else PushUnexpected (fr_Type reply))"

text \<open>The pool loses the connection when the exchange itself failed.\<close>

definition drops_connection :: "push_outcome \<Rightarrow> bool" where
  "drops_connection out =
     (case out of PushSendFailed _ \<Rightarrow> True | PushTimedOut _ \<Rightarrow> True | _ \<Rightarrow> False)"

text \<open>
  \<open>conn\<close> is the result of the pool, \<open>frameID\<close> the fresh identifier and \<open>sent\<close> the error of the
  send. The result has the outcome and whether the connection was removed.
\<close>

definition PushConfig ::
  "string option \<Rightarrow> string \<Rightarrow> string option \<Rightarrow> (AgentConn \<times> (string + Frame)) list \<Rightarrow>
   push_outcome \<times> bool" where
  "PushConfig conn frameID sent receives =
     (let out = (case conn of
                   Some e \<Rightarrow> PushUnreachable e
                 | None \<Rightarrow> (case sent of Some e \<Rightarrow> PushSendFailed e | None \<Rightarrow> await_ack frameID receives)) in
      (out, drops_connection out))"

section \<open>Facts about governed tools\<close>

lemma map_of_governed:
  "map_of (governed_tools d ov tools m) n =
     (case find (\<lambda>t. ct_Name t = n \<and> IsGovernedWrite t) (rev tools) of
        Some t \<Rightarrow> Some (governed_entry d ov t)
      | None \<Rightarrow> map_of m n)"
  by (induction tools arbitrary: m) (auto simp: find_append split: option.splits)

lemma governed_tools_Nil: "governed_tools d ov tools [] = [] \<Longrightarrow> t \<in> set tools \<Longrightarrow> \<not> IsGovernedWrite t"
proof (rule notI)
  assume e: "governed_tools d ov tools [] = []" and t: "t \<in> set tools" "IsGovernedWrite t"
  then have "find (\<lambda>u. ct_Name u = ct_Name t \<and> IsGovernedWrite u) (rev tools) \<noteq> None"
    by (auto simp: find_None_iff)
  with map_of_governed [of d ov tools "[]" "ct_Name t"] e show False by (auto split: option.splits)
qed

end
