(* ===== verification/Runtime_Policy.thy ===== *)
theory Runtime_Policy
  imports Heimdall_Prelude
begin

text \<open>
  The runtime policy of the orchestrator (\<open>internal/orchestrator/runtime_policy.go\<close>): an agent's
  configuration is completed with secure defaults, and refused when it sets an insecure value.

  A configuration is a decoded JSON object, a Go map: its entries have distinct keys. A nil map
  is \<open>None\<close>. \<open>quote\<close> is the verb \<open>%q\<close> of \<open>fmt\<close>.
\<close>

type_synonym config_map = "(string \<times> json) list"

section \<open>Paths\<close>

text \<open>\<open>prev\<close> is the segment before the path, for the error.\<close>

fun nested_from :: "string \<Rightarrow> json \<Rightarrow> string list \<Rightarrow> string + json option" where
  "nested_from prev cur [] = Inr (Some cur)"
| "nested_from prev (JObj m) (part # path) =
     (case map_of m part of None \<Rightarrow> Inr None | Some next \<Rightarrow> nested_from part next path)"
| "nested_from prev cur (part # path) =
     Inl (''path segment '' @ CHR 0x22 # prev @ CHR 0x22 # '' must be an object'')"

definition nestedGet :: "config_map \<Rightarrow> string list \<Rightarrow> string + json option" where
  "nestedGet doc path =
     (if path = [] then Inl ''path is required'' else nested_from [] (JObj doc) path)"

definition nestedGetBool :: "config_map \<Rightarrow> string list \<Rightarrow> string + bool option" where
  "nestedGetBool doc path =
     (case nestedGet doc path of
        Inl e \<Rightarrow> Inl e
      | Inr None \<Rightarrow> Inr None
      | Inr (Some (JBool b)) \<Rightarrow> Inr (Some b)
      | Inr (Some _) \<Rightarrow> Inl ''must be a boolean'')"

definition nestedGetString :: "config_map \<Rightarrow> string list \<Rightarrow> string + string option" where
  "nestedGetString doc path =
     (case nestedGet doc path of
        Inl e \<Rightarrow> Inl e
      | Inr None \<Rightarrow> Inr None
      | Inr (Some (JStr t)) \<Rightarrow> Inr (Some t)
      | Inr (Some _) \<Rightarrow> Inl ''must be a string'')"

fun nestedSet :: "json \<Rightarrow> string list \<Rightarrow> config_map \<Rightarrow> config_map" where
  "nestedSet v [] cur = cur"
| "nestedSet v [part] cur = map_put part v cur"
| "nestedSet v (part # path) cur =
     (let next = (case map_of cur part of Some (JObj m) \<Rightarrow> m | _ \<Rightarrow> []) in
      map_put part (JObj (nestedSet v path next)) cur)"

text \<open>The clone of a configuration is an equal one.\<close>

definition cloneConfigMap :: "config_map option \<Rightarrow> config_map" where
  "cloneConfigMap config = (case config of None \<Rightarrow> [] | Some m \<Rightarrow> m)"

section \<open>The policy\<close>

definition sandbox_path :: "string list" where
  "sandbox_path = [''agents'', ''defaults'', ''sandbox'', ''mode'']"

definition exec_path :: "string list" where
  "exec_path = [''tools'', ''exec'', ''workspaceOnly'']"

definition patch_path :: "string list" where
  "patch_path = [''tools'', ''exec'', ''applyPatch'', ''workspaceOnly'']"

definition bind_path :: "string list" where
  "bind_path = [''gateway'', ''bind'']"

definition enforce_sandbox :: "(string \<Rightarrow> string) \<Rightarrow> config_map \<Rightarrow> string + config_map" where
  "enforce_sandbox quote m =
     (case nestedGetString m sandbox_path of
        Inl e \<Rightarrow> Inl (''invalid agents.defaults.sandbox.mode: '' @ e)
      | Inr None \<Rightarrow> Inr (nestedSet (JStr ''non-main'') sandbox_path m)
      | Inr (Some sandboxMode) \<Rightarrow>
          (let mode = ToLower (TrimSpace sandboxMode) in
           if mode \<in> {''non-main'', ''all''} then Inr m
           else if mode \<in> {'''', ''off'', ''main''}
           then Inl (''agents.defaults.sandbox.mode must not be '' @ quote sandboxMode)
           else Inl (''agents.defaults.sandbox.mode '' @ quote sandboxMode @ '' is not allowed'')))"

definition enforce_true :: "string \<Rightarrow> string list \<Rightarrow> config_map \<Rightarrow> string + config_map" where
  "enforce_true name path m =
     (case nestedGetBool m path of
        Inl e \<Rightarrow> Inl (''invalid '' @ name @ '': '' @ e)
      | Inr None \<Rightarrow> Inr (nestedSet (JBool True) path m)
      | Inr (Some b) \<Rightarrow> if b then Inr m else Inl (name @ '' must not be false''))"

definition local_binds :: "string set" where
  "local_binds = {''loopback'', ''localhost'', ''127.0.0.1'', ''::1''}"

definition enforce_bind :: "config_map \<Rightarrow> string + config_map" where
  "enforce_bind m =
     (case nestedGetString m bind_path of
        Inl e \<Rightarrow> Inl (''invalid gateway.bind: '' @ e)
      | Inr None \<Rightarrow> Inr (nestedSet (JStr ''loopback'') bind_path m)
      | Inr (Some bind) \<Rightarrow>
          if ToLower (TrimSpace bind) \<in> local_binds then Inr m
          else Inl ''gateway.bind must be loopback/local-only'')"

definition enforceOpenClawRuntimePolicy ::
  "(string \<Rightarrow> string) \<Rightarrow> config_map option \<Rightarrow> string + config_map" where
  "enforceOpenClawRuntimePolicy quote config =
     (case enforce_sandbox quote (cloneConfigMap config) of
        Inl e \<Rightarrow> Inl e
      | Inr m1 \<Rightarrow>
          (case enforce_true ''tools.exec.workspaceOnly'' exec_path m1 of
             Inl e \<Rightarrow> Inl e
           | Inr m2 \<Rightarrow>
               (case enforce_true ''tools.exec.applyPatch.workspaceOnly'' patch_path m2 of
                  Inl e \<Rightarrow> Inl e
                | Inr m3 \<Rightarrow> enforce_bind m3)))"

section \<open>What the policy guarantees\<close>

text \<open>The value at a path, when there is one.\<close>

fun at_path :: "json \<Rightarrow> string list \<Rightarrow> json option" where
  "at_path cur [] = Some cur"
| "at_path (JObj m) (part # path) =
     (case map_of m part of None \<Rightarrow> None | Some next \<Rightarrow> at_path next path)"
| "at_path _ (_ # _) = None"

text \<open>Two paths that do not meet: neither is the beginning of the other.\<close>

fun apart_paths :: "string list \<Rightarrow> string list \<Rightarrow> bool" where
  "apart_paths (a # p) (b # q) \<longleftrightarrow> a \<noteq> b \<or> apart_paths p q"
| "apart_paths _ _ \<longleftrightarrow> False"

lemma nested_from_Some: "nested_from prev cur path = Inr (Some v) \<longleftrightarrow> at_path cur path = Some v"
  by (induction prev cur path rule: nested_from.induct) (auto split: option.splits)

lemma nestedGet_Some: "path \<noteq> [] \<Longrightarrow> nestedGet doc path = Inr (Some v) \<longleftrightarrow> at_path (JObj doc) path = Some v"
  by (simp add: nestedGet_def nested_from_Some)

lemma at_path_nestedSet:
  "path \<noteq> [] \<Longrightarrow> at_path (JObj (nestedSet v path m)) path = Some v"
  by (induction v path m rule: nestedSet.induct) (simp_all add: Let_def)

lemma at_path_sub:
  "map_of m a = Some x \<Longrightarrow> at_path (JObj m) (a # p) = at_path x p"
  by simp

lemma nested_from_head:
  "nested_from prev (JObj m) (a # p) = Inr None \<Longrightarrow> p \<noteq> [] \<Longrightarrow>
   map_of m a = None \<or> (\<exists>s. map_of m a = Some (JObj s) \<and> nested_from a (JObj s) p = Inr None)"
  by (cases p; cases "map_of m a"; cases "the (map_of m a)") auto

lemma at_path_apart:
  assumes "nested_from prev (JObj m) path = Inr None" "apart_paths path q"
    "at_path (JObj m) q = Some w"
  shows "at_path (JObj (nestedSet v path m)) q = Some w"
  using assms
proof (induction path arbitrary: prev m q)
  case (Cons a p)
  obtain b r where q: "q = b # r" using Cons.prems(2) by (cases q) auto
  show ?case
  proof (cases p)
    case Nil
    with Cons.prems q show ?thesis by (auto split: option.splits)
  next
    case (Cons c p')
    then have p: "p \<noteq> []" by simp
    show ?thesis
    proof (cases "a = b")
      case False
      with Cons.prems(3) q \<open>p = c # p'\<close> show ?thesis by (auto simp: Let_def split: option.splits)
    next
      case True
      with Cons.prems(3) q obtain x where x: "map_of m a = Some x" "at_path x r = Some w"
        by (auto split: option.splits)
      with nested_from_head [OF Cons.prems(1) p] obtain s where s: "x = JObj s"
        "nested_from a (JObj s) p = Inr None" by auto
      from Cons.prems(2) q True have "apart_paths p r" by simp
      from Cons.IH [OF s(2) this] x s have "at_path (JObj (nestedSet v p s)) r = Some w" by simp
      with True q x s \<open>p = c # p'\<close> show ?thesis by (simp add: Let_def)
    qed
  qed
qed simp

definition leaf :: "json \<Rightarrow> bool" where
  "leaf j \<longleftrightarrow> (case j of JObj _ \<Rightarrow> False | _ \<Rightarrow> True)"

text \<open>A value that is there lies apart from a path that is absent.\<close>

lemma leaf_apart:
  assumes "nested_from prev cur path = Inr None" "at_path cur q = Some w" "leaf w"
  shows "apart_paths path q"
  using assms
proof (induction prev cur path arbitrary: q rule: nested_from.induct)
  case (2 prev m part path)
  show ?case
  proof (cases q)
    case Nil
    with 2 have "w = JObj m" by simp
    with 2 show ?thesis by (simp add: leaf_def)
  next
    case (Cons b r)
    show ?thesis
    proof (cases "b = part")
      case True
      with 2 Cons show ?thesis by (auto split: option.splits)
    qed (simp add: Cons)
  qed
qed simp_all

lemma nestedSet_keeps_leaf:
  assumes "nestedGet m path = Inr None" "at_path (JObj m) q = Some w" "leaf w"
  shows "at_path (JObj (nestedSet v path m)) q = Some w"
  using assms at_path_apart leaf_apart by (fastforce simp: nestedGet_def split: if_splits)

text \<open>
  One step of the policy: the values that are there stay, and the path ends up with a value
  that passes the test.
\<close>

definition settles ::
  "(config_map \<Rightarrow> string + config_map) \<Rightarrow> string list \<Rightarrow> (json \<Rightarrow> bool) \<Rightarrow> bool" where
  "settles step path ok \<longleftrightarrow>
     (\<forall>m m'. step m = Inr m' \<longrightarrow>
        (\<exists>v. at_path (JObj m') path = Some v \<and> ok v) \<and>
        (\<forall>q w. at_path (JObj m) q = Some w \<and> leaf w \<longrightarrow> at_path (JObj m') q = Some w)) \<and>
     (\<forall>m v. at_path (JObj m) path = Some v \<and> ok v \<longrightarrow> step m = Inr m)"

definition sandboxed :: "json \<Rightarrow> bool" where
  "sandboxed v \<longleftrightarrow>
     (case v of JStr mode \<Rightarrow> ToLower (TrimSpace mode) \<in> {''non-main'', ''all''} | _ \<Rightarrow> False)"

definition local_only :: "json \<Rightarrow> bool" where
  "local_only v \<longleftrightarrow> (case v of JStr bind \<Rightarrow> ToLower (TrimSpace bind) \<in> local_binds | _ \<Rightarrow> False)"

lemma nestedGetString_cases:
  assumes "nestedGetString m path = Inr r" "path \<noteq> []"
  shows "(r = None \<and> nestedGet m path = Inr None) \<or>
    (\<exists>t. r = Some t \<and> at_path (JObj m) path = Some (JStr t))"
  using assms nestedGet_Some [OF assms(2), of m]
  by (auto simp: nestedGetString_def split: sum.splits option.splits json.splits)

lemma nestedGetBool_cases:
  assumes "nestedGetBool m path = Inr r" "path \<noteq> []"
  shows "(r = None \<and> nestedGet m path = Inr None) \<or>
    (\<exists>b. r = Some b \<and> at_path (JObj m) path = Some (JBool b))"
  using assms nestedGet_Some [OF assms(2), of m]
  by (auto simp: nestedGetBool_def split: sum.splits option.splits json.splits)

lemma TrimSpace_literals:
  "TrimSpace ''non-main'' = ''non-main''" "TrimSpace ''loopback'' = ''loopback''"
  by (rule TrimSpace_no_space; simp add: space_bytes_def space_encodings_def)+

lemma sandbox_settles: "settles (enforce_sandbox quote) sandbox_path sandboxed"
  unfolding settles_def
proof (intro conjI allI impI; (elim conjE)?)
  have ne: "sandbox_path \<noteq> []" by (simp add: sandbox_path_def)
  fix m m' assume e: "enforce_sandbox quote m = Inr m'"
  then obtain r where r: "nestedGetString m sandbox_path = Inr r"
    by (auto simp: enforce_sandbox_def split: sum.splits)
  note c = nestedGetString_cases [OF r ne]
  show "\<exists>v. at_path (JObj m') sandbox_path = Some v \<and> sandboxed v"
    using e r c at_path_nestedSet [OF ne, of "JStr ''non-main''" m]
    by (auto simp: enforce_sandbox_def sandboxed_def TrimSpace_literals lower_char_def
        Let_def split: option.splits if_splits)
  fix q w assume "at_path (JObj m) q = Some w" "leaf w"
  with e r c show "at_path (JObj m') q = Some w"
    using nestedSet_keeps_leaf [of m sandbox_path q w]
    by (auto simp: enforce_sandbox_def Let_def split: option.splits if_splits)
next
  fix m v assume "at_path (JObj m) sandbox_path = Some v" "sandboxed v"
  moreover from this(1) have "nestedGet m sandbox_path = Inr (Some v)"
    by (simp add: nestedGet_Some sandbox_path_def)
  ultimately show "enforce_sandbox quote m = Inr m"
    by (auto simp: enforce_sandbox_def nestedGetString_def sandboxed_def Let_def split: json.splits)
qed

lemma bind_settles: "settles enforce_bind bind_path local_only"
  unfolding settles_def
proof (intro conjI allI impI; (elim conjE)?)
  have ne: "bind_path \<noteq> []" by (simp add: bind_path_def)
  fix m m' assume e: "enforce_bind m = Inr m'"
  then obtain r where r: "nestedGetString m bind_path = Inr r"
    by (auto simp: enforce_bind_def split: sum.splits)
  note c = nestedGetString_cases [OF r ne]
  show "\<exists>v. at_path (JObj m') bind_path = Some v \<and> local_only v"
    using e r c at_path_nestedSet [OF ne, of "JStr ''loopback''" m]
    by (auto simp: enforce_bind_def local_only_def local_binds_def TrimSpace_literals
        lower_char_def split: option.splits if_splits)
  fix q w assume "at_path (JObj m) q = Some w" "leaf w"
  with e r c show "at_path (JObj m') q = Some w"
    using nestedSet_keeps_leaf [of m bind_path q w]
    by (auto simp: enforce_bind_def split: option.splits if_splits)
next
  fix m v assume "at_path (JObj m) bind_path = Some v" "local_only v"
  moreover from this(1) have "nestedGet m bind_path = Inr (Some v)"
    by (simp add: nestedGet_Some bind_path_def)
  ultimately show "enforce_bind m = Inr m"
    by (auto simp: enforce_bind_def nestedGetString_def local_only_def split: json.splits)
qed

lemma true_settles:
  assumes ne: "path \<noteq> []"
  shows "settles (enforce_true name path) path (\<lambda>v. v = JBool True)"
  unfolding settles_def
proof (intro conjI allI impI; (elim conjE)?)
  fix m m' assume e: "enforce_true name path m = Inr m'"
  then obtain r where r: "nestedGetBool m path = Inr r"
    by (auto simp: enforce_true_def split: sum.splits)
  note c = nestedGetBool_cases [OF r ne]
  show "\<exists>v. at_path (JObj m') path = Some v \<and> v = JBool True"
    using e r c at_path_nestedSet [OF ne, of "JBool True" m]
    by (auto simp: enforce_true_def split: option.splits if_splits)
  fix q w assume "at_path (JObj m) q = Some w" "leaf w"
  with e r c show "at_path (JObj m') q = Some w"
    using nestedSet_keeps_leaf [of m path q w]
    by (auto simp: enforce_true_def split: option.splits if_splits)
next
  fix m v assume "at_path (JObj m) path = Some v" "v = JBool True"
  then show "enforce_true name path m = Inr m"
    using nestedGet_Some [OF ne, of m v] by (simp add: enforce_true_def nestedGetBool_def)
qed

section \<open>Properties\<close>

definition hardened :: "config_map \<Rightarrow> bool" where
  "hardened m \<longleftrightarrow>
     (\<exists>v. at_path (JObj m) sandbox_path = Some v \<and> sandboxed v) \<and>
     at_path (JObj m) exec_path = Some (JBool True) \<and>
     at_path (JObj m) patch_path = Some (JBool True) \<and>
     (\<exists>v. at_path (JObj m) bind_path = Some v \<and> local_only v)"

lemma ok_leaf: "sandboxed v \<Longrightarrow> leaf v" "local_only v \<Longrightarrow> leaf v" "leaf (JBool b)"
  by (auto simp: sandboxed_def local_only_def leaf_def split: json.splits)

lemma settlesD:
  assumes "settles step path ok" "step m = Inr m'"
  shows "\<exists>v. at_path (JObj m') path = Some v \<and> ok v"
    and "at_path (JObj m) q = Some w \<Longrightarrow> leaf w \<Longrightarrow> at_path (JObj m') q = Some w"
  using assms unfolding settles_def by blast+

lemma settles_stable: "settles step path ok \<Longrightarrow> at_path (JObj m) path = Some v \<Longrightarrow> ok v \<Longrightarrow> step m = Inr m"
  unfolding settles_def by blast

lemma enforced_policy:
  assumes "enforceOpenClawRuntimePolicy quote config = Inr m"
  shows "hardened m \<and>
    (\<forall>q w. at_path (JObj (cloneConfigMap config)) q = Some w \<and> leaf w \<longrightarrow> at_path (JObj m) q = Some w) \<and>
    enforceOpenClawRuntimePolicy quote (Some m) = Inr m"
proof -
  let ?c = "cloneConfigMap config"
  from assms obtain m1 m2 m3 where 1: "enforce_sandbox quote ?c = Inr m1"
    and 2: "enforce_true ''tools.exec.workspaceOnly'' exec_path m1 = Inr m2"
    and 3: "enforce_true ''tools.exec.applyPatch.workspaceOnly'' patch_path m2 = Inr m3"
    and 4: "enforce_bind m3 = Inr m"
    by (auto simp: enforceOpenClawRuntimePolicy_def split: sum.splits)
  have ne: "exec_path \<noteq> []" "patch_path \<noteq> []" by (simp_all add: exec_path_def patch_path_def)
  note d1 = settlesD [OF sandbox_settles 1] and d2 = settlesD [OF true_settles [OF ne(1)] 2]
    and d3 = settlesD [OF true_settles [OF ne(2)] 3] and d4 = settlesD [OF bind_settles 4]
  have kept: "at_path (JObj m) q = Some w" if "at_path (JObj ?c) q = Some w" "leaf w" for q w
    using d4(2) [OF d3(2) [OF d2(2) [OF d1(2) [OF that] that(2)] that(2)] that(2)] .
  from d1(1) obtain v where v: "at_path (JObj m1) sandbox_path = Some v" "sandboxed v" by blast
  then have s: "at_path (JObj m) sandbox_path = Some v"
    using d4(2) d3(2) d2(2) ok_leaf(1) by blast
  have x: "at_path (JObj m) exec_path = Some (JBool True)" "at_path (JObj m) patch_path = Some (JBool True)"
    using d2(1) d3(1) d3(2) d4(2) ok_leaf(3) by blast+
  have h: "hardened m" using s v x d4(1) by (auto simp: hardened_def)
  have "enforceOpenClawRuntimePolicy quote (Some m) = Inr m"
    using h settles_stable [OF sandbox_settles] settles_stable [OF true_settles [OF ne(1)]]
      settles_stable [OF true_settles [OF ne(2)]] settles_stable [OF bind_settles]
    by (auto simp: hardened_def enforceOpenClawRuntimePolicy_def cloneConfigMap_def)
  with h kept show ?thesis by blast
qed

text \<open>A configuration that the runtime policy lets through is hardened: the sandbox is on, the
  execution and patch tools are confined to the workspace and the gateway listens locally,
  whatever the caller had set. Every value the caller had set is still there, and a hardened
  configuration is accepted as it is, so applying the policy twice changes nothing.
\<close>

theorem runtime_policy_hardens:
  assumes "enforceOpenClawRuntimePolicy quote config = Inr m"
  shows "hardened m \<and>
    (\<forall>q w. at_path (JObj (cloneConfigMap config)) q = Some w \<and> leaf w \<longrightarrow> at_path (JObj m) q = Some w) \<and>
    enforceOpenClawRuntimePolicy quote (Some m) = Inr m"
  using assms by (rule enforced_policy)

definition sample_config :: config_map where
  "sample_config = [(''model'', JStr ''m1''), (''tools'', JObj [(''exec'', JObj [(''limit'', JNum 3)])])]"

theorem runtime_policy_hardens_witness:
  "\<exists>m. enforceOpenClawRuntimePolicy id (Some sample_config) = Inr m \<and> hardened m \<and>
     at_path (JObj m) [''tools'', ''exec'', ''limit''] = Some (JNum 3)"
proof -
  obtain m where m: "enforceOpenClawRuntimePolicy id (Some sample_config) = Inr m"
    by (auto simp: enforceOpenClawRuntimePolicy_def cloneConfigMap_def sample_config_def map_put_def
        enforce_sandbox_def enforce_true_def enforce_bind_def nestedGetString_def nestedGetBool_def
        nestedGet_def sandbox_path_def exec_path_def patch_path_def bind_path_def Let_def)
  have "at_path (JObj (cloneConfigMap (Some sample_config))) [''tools'', ''exec'', ''limit''] = Some (JNum 3)"
    by (simp add: cloneConfigMap_def sample_config_def)
  moreover have "leaf (JNum 3)" by (simp add: leaf_def)
  ultimately show ?thesis using runtime_policy_hardens [OF m] m by blast
qed

end
