(* ===== verification/Agent_Handlers.thy ===== *)
theory Agent_Handlers
  imports Agent_Config Agent_Manager Runtime_Policy Access_Control
begin

text \<open>
  The HTTP handlers of the orchestrator (\<open>internal/orchestrator/handler.go\<close>): provisioning,
  reading, listing, destroying and configuring agents.

  The world has the fleet of the manager, the configurations pushed to agents (a failed push is
  only logged) and the audit events. The tenant of the context was put there by the
  authentication and is the text of a UUID. A body is the first JSON value of at most 10 KiB:
  \<open>RawEmpty\<close> for an empty body, \<open>RawInvalid\<close> if there is no JSON.
\<close>

section \<open>State\<close>

record config_push =
  ps_agent :: string
  ps_cid :: nat
  ps_payload :: json

record agent_audit =
  aa_TenantID :: uuid
  aa_UserID :: "uuid option"
  aa_Action :: string
  aa_ResourceID :: uuid
  aa_Metadata :: "(string \<times> json) list"

record agent_world =
  aw_fleet :: fleet
  aw_pushes :: "config_push list"
  aw_audit :: "agent_audit list"

text \<open>The optional parts of the handler say whether they are there.\<close>

record agent_handler =
  ah_manager :: Manager
  ah_configPusher :: bool
  ah_auditLog :: bool
  ah_connectorStore :: "AgentConnectorConfig list con_op option"
  ah_policyStore :: "PolicyReader option"
  ah_quote :: "string \<Rightarrow> string"

datatype agent_body =
    AgentMessage string
  | AgentBody AgentInstance
  | AgentsBody "AgentInstance list"
  | AgentNoContent

type_synonym agent_response = "int \<times> agent_body"

definition manager_op :: "'a fleet_op \<Rightarrow> agent_world \<Rightarrow> (orch_error + 'a) \<times> agent_world" where
  "manager_op f w = (case f (aw_fleet w) of (r, fl) \<Rightarrow> (r, w\<lparr>aw_fleet := fl\<rparr>))"

text \<open>The identifier of the path; a text that is no UUID makes the query fail.\<close>

definition get_agent ::
  "agent_handler \<Rightarrow> string \<Rightarrow> agent_world \<Rightarrow> (orch_error + AgentInstance) \<times> agent_world" where
  "get_agent h i w =
     (case mn_parse_uuid (ah_manager h) i of
        None \<Rightarrow> (Inl (Wrap ''getting agent instance'' (DBError ''invalid input syntax for type uuid'')), w)
      | Some u \<Rightarrow> manager_op (on_db (agent_GetByID u)) w)"

definition log_audit ::
  "agent_handler \<Rightarrow> string \<Rightarrow> Identity option \<Rightarrow> string \<Rightarrow> uuid \<Rightarrow> (string \<times> json) list \<Rightarrow> agent_world \<Rightarrow> agent_world" where
  "log_audit h tenantID ident action inst metadata w =
     (if ah_auditLog h then
        w\<lparr>aw_audit := aw_audit w @
           [\<lparr>aa_TenantID = (case mn_parse_uuid (ah_manager h) tenantID of None \<Rightarrow> uuid_Nil | Some t \<Rightarrow> t),
             aa_UserID = (case ident of None \<Rightarrow> None
                          | Some who \<Rightarrow> mn_parse_uuid (ah_manager h) (au_UserID who)),
             aa_Action = action, aa_ResourceID = inst, aa_Metadata = metadata\<rparr>]\<rparr>
      else w)"

definition build_connectors :: "agent_handler \<Rightarrow> string \<Rightarrow> string \<Rightarrow> agent_world \<Rightarrow> json list \<times> agent_world" where
  "build_connectors h tenantID agentID w =
     (case buildAgentConnectors (mn_parse_uuid (ah_manager h)) (mn_show_uuid (ah_manager h))
             (ah_connectorStore h) (ah_policyStore h) tenantID agentID (fl_db (aw_fleet w)) of
        (js, s) \<Rightarrow> (js, w\<lparr>aw_fleet := (aw_fleet w)\<lparr>fl_db := s\<rparr>\<rparr>))"

definition push_config ::
  "agent_handler \<Rightarrow> string \<Rightarrow> AgentInstance \<Rightarrow> (string \<times> json) list option \<Rightarrow> string list option \<Rightarrow> json list \<Rightarrow>
   agent_world \<Rightarrow> agent_world" where
  "push_config h agentID inst config allowlist js w =
     (case ai_VsockCID inst of
        Some cid \<Rightarrow>
          if ah_configPusher h \<and> ai_Status inst = StatusRunning
          then w\<lparr>aw_pushes := aw_pushes w @
                   [\<lparr>ps_agent = agentID, ps_cid = cid, ps_payload = push_payload config allowlist [] [] js\<rparr>]\<rparr>
          else w
      | None \<Rightarrow> w)"

section \<open>Ownership\<close>

definition owned :: "agent_handler \<Rightarrow> string \<Rightarrow> AgentInstance \<Rightarrow> bool" where
  "owned h tenantID inst \<longleftrightarrow>
     (case ai_TenantID inst of None \<Rightarrow> False | Some t \<Rightarrow> mn_show_uuid (ah_manager h) t = tenantID)"

text \<open>
  The beginning that three handlers share: the instance of the path, for an identity that may
  see it.
\<close>

definition with_agent ::
  "agent_handler \<Rightarrow> string \<Rightarrow> Identity option \<Rightarrow> string \<Rightarrow>
   (AgentInstance \<Rightarrow> agent_world \<Rightarrow> agent_response \<times> agent_world) \<Rightarrow> agent_world \<Rightarrow>
   agent_response \<times> agent_world" where
  "with_agent h tenantID ident i k w =
     (if i = [] then ((400, AgentMessage ''id is required''), w)
      else case get_agent h i w of
          (Inl e, w1) \<Rightarrow>
            (if errors_Is e ErrVMNotFound then (404, AgentMessage ''agent not found'')
             else (500, AgentMessage ''lookup failed''), w1)
        | (Inr inst, w1) \<Rightarrow>
            (case ident of
               None \<Rightarrow> ((401, AgentMessage ''authentication required''), w1)
             | Some who \<Rightarrow>
                 if \<not> au_IsPlatformAdmin who \<and> \<not> owned h tenantID inst
                 then ((404, AgentMessage ''agent not found''), w1)
                 else k inst w1))"

definition HandleGetAgent ::
  "agent_handler \<Rightarrow> string \<Rightarrow> Identity option \<Rightarrow> string \<Rightarrow> agent_world \<Rightarrow> agent_response \<times> agent_world" where
  "HandleGetAgent h tenantID ident i =
     with_agent h tenantID ident i (\<lambda>inst w. ((200, AgentBody inst), w))"

definition HandleListAgents ::
  "agent_handler \<Rightarrow> string \<Rightarrow> agent_world \<Rightarrow> agent_response \<times> agent_world" where
  "HandleListAgents h tenantID w =
     (if tenantID = [] then ((400, AgentMessage ''tenant context required''), w)
      else case mn_parse_uuid (ah_manager h) tenantID of
          None \<Rightarrow> ((500, AgentMessage ''failed to list agents''), w)
        | Some t \<Rightarrow>
            (case manager_op (on_db (ListByTenant t)) w of
               (Inl _, w1) \<Rightarrow> ((500, AgentMessage ''failed to list agents''), w1)
             | (Inr agents, w1) \<Rightarrow> ((200, AgentsBody agents), w1)))"

definition HandleDestroyAgent ::
  "agent_handler \<Rightarrow> string \<Rightarrow> Identity option \<Rightarrow> string \<Rightarrow> agent_world \<Rightarrow> agent_response \<times> agent_world" where
  "HandleDestroyAgent h tenantID ident i =
     with_agent h tenantID ident i (\<lambda>inst w.
       case manager_op (Destroy (ai_ID inst)) w of
         (Inl _, w1) \<Rightarrow> ((500, AgentMessage ''destroy failed''), w1)
       | (Inr _, w1) \<Rightarrow>
           ((204, AgentNoContent), log_audit h tenantID ident ''agent.destroyed'' (ai_ID inst) [] w1))"

section \<open>Provisioning\<close>

text \<open>A field of type \<open>*string\<close>, and one of type \<open>map[string]any\<close>.\<close>

fun optional_string :: "json list \<Rightarrow> string option \<Rightarrow> string option option" where
  "optional_string [] acc = Some acc"
| "optional_string (JNull # js) acc = optional_string js None"
| "optional_string (JStr t # js) acc = optional_string js (Some t)"
| "optional_string (_ # js) acc = None"

fun object_values :: "json list \<Rightarrow> (string \<times> json) list option \<Rightarrow> (string \<times> json) list option option" where
  "object_values [] acc = Some acc"
| "object_values (JNull # js) acc = object_values js None"
| "object_values (JObj kvs # js) acc =
     object_values js (Some (fold (\<lambda>(k, v). map_put k v) kvs (case acc of None \<Rightarrow> [] | Some m \<Rightarrow> m)))"
| "object_values (_ # js) acc = None"

record provision_request =
  pq_UserID :: "string option"
  pq_DepartmentID :: "string option"
  pq_Config :: "(string \<times> json) list option"

definition decode_provision :: "raw_json \<Rightarrow> provision_request option" where
  "decode_provision body =
     (if body = RawEmpty then Some \<lparr>pq_UserID = None, pq_DepartmentID = None, pq_Config = None\<rparr>
      else case object_entries body of
          None \<Rightarrow> None
        | Some kvs \<Rightarrow>
            (case (optional_string (field_values ''user_id'' kvs) None,
                   optional_string (field_values ''department_id'' kvs) None,
                   object_values (field_values ''config'' kvs) None) of
               (Some u, Some d, Some c) \<Rightarrow> Some \<lparr>pq_UserID = u, pq_DepartmentID = d, pq_Config = c\<rparr>
             | _ \<Rightarrow> None))"

text \<open>The user the agent is for: anyone for a platform administrator, otherwise the caller.\<close>

definition provision_user ::
  "Identity \<Rightarrow> string option \<Rightarrow> agent_response + string option" where
  "provision_user who userID =
     (if au_IsPlatformAdmin who then
        Inr (case userID of None \<Rightarrow> None | Some u \<Rightarrow> if TrimSpace u = [] then None else Some (TrimSpace u))
      else
        (let caller = TrimSpace (au_UserID who) in
         if caller = [] then Inl (401, AgentMessage ''user identity required'')
         else case userID of
             Some u \<Rightarrow>
               if TrimSpace u \<noteq> [] \<and> TrimSpace u \<noteq> caller
               then Inl (403, AgentMessage ''user_id must match authenticated user'')
               else Inr (Some caller)
           | None \<Rightarrow> Inr (Some caller)))"

definition status_json :: "VMStatus \<Rightarrow> json" where
  "status_json st = JStr
     (case st of
        StatusWarm \<Rightarrow> ''warm'' | StatusProvisioning \<Rightarrow> ''provisioning'' | StatusRunning \<Rightarrow> ''running''
      | StatusUnhealthy \<Rightarrow> ''unhealthy'' | StatusDestroying \<Rightarrow> ''destroying'' | StatusDestroyed \<Rightarrow> ''destroyed'')"

definition provisioned ::
  "agent_handler \<Rightarrow> string \<Rightarrow> Identity \<Rightarrow> AgentInstance \<Rightarrow> agent_world \<Rightarrow> agent_response \<times> agent_world" where
  "provisioned h tenantID who inst w =
     (let agentID = mn_show_uuid (ah_manager h) (ai_ID inst);
          w1 = log_audit h tenantID (Some who) ''agent.provisioned'' (ai_ID inst)
                 [(''status'', status_json (ai_Status inst))] w in
      case build_connectors h tenantID agentID w1 of (js, w2) \<Rightarrow>
        ((201, AgentBody inst), push_config h agentID inst None None js w2))"

definition HandleProvision ::
  "agent_handler \<Rightarrow> string \<Rightarrow> Identity option \<Rightarrow> raw_json \<Rightarrow> agent_world \<Rightarrow> agent_response \<times> agent_world" where
  "HandleProvision h tenantID ident body w =
     (let parse = mn_parse_uuid (ah_manager h) in
      if tenantID = [] then ((400, AgentMessage ''tenant context required''), w)
      else case decode_provision body of
          None \<Rightarrow> ((400, AgentMessage ''invalid request body''), w)
        | Some req \<Rightarrow>
            if (case pq_DepartmentID req of None \<Rightarrow> False | Some d \<Rightarrow> parse d = None)
            then ((400, AgentMessage ''department_id must be a valid UUID''), w)
            else case ident of
                None \<Rightarrow> ((401, AgentMessage ''authentication required''), w)
              | Some who \<Rightarrow>
                  (case provision_user who (pq_UserID req) of
                     Inl r \<Rightarrow> (r, w)
                   | Inr userID \<Rightarrow>
                       (case parse tenantID of
                          None \<Rightarrow> ((500, AgentMessage ''provisioning failed''), w)
                        | Some t \<Rightarrow>
                            (case manager_op
                                    (Provision (ah_manager h) t
                                       \<lparr>po_UserID = userID,
                                        po_DepartmentID = (case pq_DepartmentID req of None \<Rightarrow> None | Some d \<Rightarrow> parse d),
                                        po_Config = pq_Config req\<rparr>) w of
                               (Inl _, w1) \<Rightarrow> ((500, AgentMessage ''provisioning failed''), w1)
                             | (Inr inst, w1) \<Rightarrow> provisioned h tenantID who inst w1))))"

section \<open>Configuration\<close>

definition decode_configure :: "raw_json \<Rightarrow> ((string \<times> json) list option \<times> string list option) option" where
  "decode_configure body =
     (case object_entries body of
        None \<Rightarrow> None
      | Some kvs \<Rightarrow>
          (case (object_values (field_values ''config'' kvs) None, rev (field_values ''tool_allowlist'' kvs)) of
             (Some c, []) \<Rightarrow> Some (c, None)
           | (Some c, JNull # _) \<Rightarrow> Some (c, None)
           | (Some c, j # _) \<Rightarrow> map_option (\<lambda>ts. (c, Some ts)) (decode_slice decode_string j)
           | _ \<Rightarrow> None))"

definition allowlist_json :: "string list option \<Rightarrow> json" where
  "allowlist_json ts = (case ts of None \<Rightarrow> JNull | Some xs \<Rightarrow> JArr (map JStr xs))"

definition configure_agent ::
  "agent_handler \<Rightarrow> string \<Rightarrow> Identity option \<Rightarrow> string \<Rightarrow> raw_json \<Rightarrow> AgentInstance \<Rightarrow> agent_world \<Rightarrow>
   agent_response \<times> agent_world" where
  "configure_agent h tenantID ident i body inst w =
     (case decode_configure body of
        None \<Rightarrow> ((400, AgentMessage ''invalid request body''), w)
      | Some (config, allowlist) \<Rightarrow>
          (case enforceOpenClawRuntimePolicy (ah_quote h) config of
             Inl e \<Rightarrow> ((400, AgentMessage e), w)
           | Inr normalized \<Rightarrow>
               (case manager_op (on_db (agent_UpdateConfig (ai_ID inst) (RawJSON (JObj normalized))
                                          (RawJSON (allowlist_json allowlist)))) w of
                  (Inl _, w1) \<Rightarrow> ((500, AgentMessage ''update failed''), w1)
                | (Inr _, w1) \<Rightarrow>
                    (case build_connectors h tenantID i w1 of (js, w2) \<Rightarrow>
                       let w3 = push_config h i inst (Some normalized) allowlist js w2;
                           w4 = log_audit h tenantID ident ''agent.updated'' (ai_ID inst)
                                  [(''tool_allowlist_count'',
                                    JNum (of_nat (case allowlist of None \<Rightarrow> 0 | Some ts \<Rightarrow> length ts)))] w3 in
                       case get_agent h i w4 of
                         (Inl _, w5) \<Rightarrow> ((500, AgentMessage ''lookup failed''), w5)
                       | (Inr updated, w5) \<Rightarrow> ((200, AgentBody updated), w5)))))"

definition HandleConfigure ::
  "agent_handler \<Rightarrow> string \<Rightarrow> Identity option \<Rightarrow> string \<Rightarrow> raw_json \<Rightarrow> agent_world \<Rightarrow>
   agent_response \<times> agent_world" where
  "HandleConfigure h tenantID ident i body =
     with_agent h tenantID ident i (configure_agent h tenantID ident i body)"

section \<open>Properties\<close>

text \<open>The three handlers of one agent go through \<open>with_agent\<close>; these are their continuations.\<close>

definition touched :: "agent_world \<Rightarrow> agent_world \<Rightarrow> bool" where
  "touched w w' \<longleftrightarrow>
     \<not> same_tables (fl_db (aw_fleet w)) (fl_db (aw_fleet w')) \<or> fl_log (aw_fleet w') \<noteq> fl_log (aw_fleet w) \<or>
     aw_pushes w' \<noteq> aw_pushes w \<or> aw_audit w' \<noteq> aw_audit w"

lemma get_agent_cases:
  assumes "get_agent h i w = (r, w1)"
  shows "same_tables (fl_db (aw_fleet w)) (fl_db (aw_fleet w1)) \<and> fl_log (aw_fleet w1) = fl_log (aw_fleet w) \<and>
    aw_pushes w1 = aw_pushes w \<and> aw_audit w1 = aw_audit w \<and>
    (\<forall>inst. r = Inr inst \<longrightarrow> inst \<in> set (db_agents (fl_db (aw_fleet w))) \<and>
       mn_parse_uuid (ah_manager h) i = Some (ai_ID inst))"
proof (cases "mn_parse_uuid (ah_manager h) i")
  case None
  with assms show ?thesis by (auto simp: get_agent_def)
next
  case (Some u)
  let ?s = "fl_db (aw_fleet w)"
  obtain r1 s1 where s1: "agent_GetByID u ?s = (r1, s1)" by fastforce
  have "keeps (same_tables ?s) (agent_GetByID u)"
    unfolding agent_GetByID_def
    by (intro keeps_query_row keeps_sql session_blind_faults same_tables_blind keeps_query)
  from keepsD [OF this same_tables_refl s1] have t: "same_tables ?s s1" .
  have "r = r1" "w1 = w\<lparr>aw_fleet := (aw_fleet w)\<lparr>fl_db := s1\<rparr>\<rparr>"
    using assms Some s1 by (auto simp: get_agent_def manager_op_def on_db_def split: prod.splits)
  moreover have "inst \<in> set (db_agents ?s) \<and> ai_ID inst = u" if "r1 = Inr inst" for inst
  proof -
    from s1 that have "sql (\<lambda>s. (find (\<lambda>r. ai_ID r = u) (db_agents s), s)) ?s =
        (Inr (Some inst) :: orch_error + _, s1)" by (simp add: agent_GetByID_def)
    from sql_Inr [OF this] show ?thesis by (auto dest: find_SomeD)
  qed
  ultimately show ?thesis using t Some by auto
qed

lemma with_agent_refused:
  assumes "with_agent h t ident i k w = (resp, w')" "touched w w' \<or> fst resp \<in> {200, 204}"
  shows "\<exists>inst who w1. inst \<in> set (db_agents (fl_db (aw_fleet w))) \<and>
    mn_parse_uuid (ah_manager h) i = Some (ai_ID inst) \<and> ident = Some who \<and>
    (au_IsPlatformAdmin who \<or> owned h t inst) \<and> get_agent h i w = (Inr inst, w1) \<and> k inst w1 = (resp, w')"
proof -
  obtain r w1 where g: "get_agent h i w = (r, w1)" by fastforce
  note c = get_agent_cases [OF g]
  then have "\<not> touched w w1" "\<not> touched w w" by (auto simp: touched_def)
  with assms g c show ?thesis
    by (auto simp: with_agent_def split: if_splits sum.splits option.splits)
qed


definition owned_agent :: AgentInstance where
  "owned_agent =
     \<lparr>ai_ID = 5, ai_TenantID = Some 1, ai_UserID = None, ai_DepartmentID = None, ai_VMID = Some ''vm'',
      ai_Status = StatusRunning, ai_Config = RawJSON (JObj []), ai_VsockCID = Some 3, ai_VMDriver = ''mock'',
      ai_ToolAllowlist = RawJSON (JArr []), ai_ConsecutiveFailures = 0, ai_CreatedAt = 1,
      ai_LastHealthCheck = None\<rparr>"

definition member :: Identity where
  "member =
     \<lparr>au_UserID = ''u'', au_TenantID = ''t1'', au_Email = [], au_DisplayName = [], au_Roles = [],
      au_Departments = [], au_TokenType = [], au_FamilyID = [], au_Generation = 0,
      au_IsPlatformAdmin = False, au_ImpersonatorID = []\<rparr>"

definition small_handler :: agent_handler where
  "small_handler =
     \<lparr>ah_manager =
        \<lparr>mn_driver = \<lparr>dv_Start = (\<lambda>_ _. Inl ''no''), dv_Stop = (\<lambda>_ _. None), dv_IsHealthy = (\<lambda>_ _. Inr True),
                      dv_Cleanup = (\<lambda>_ _. None)\<rparr>,
         mn_cfg = \<lparr>mc_Driver = ''mock'', mc_WarmPoolSize = 0, mc_HealthInterval = 1, mc_ReconcileInterval = 1,
                   mc_MaxConsecutiveFailures = 1, mc_WorkspaceDataQuotaMB = 0\<rparr>,
         mn_parse_uuid = (\<lambda>x. if x = ''a5'' then Some 5 else None), mn_show_uuid = (\<lambda>u. if u = 1 then ''t1'' else ''x''),
         mn_now = (\<lambda>_. 0)\<rparr>,
      ah_configPusher = True, ah_auditLog = True, ah_connectorStore = None, ah_policyStore = None,
      ah_quote = (\<lambda>x. x)\<rparr>"

definition small_world :: agent_world where
  "small_world =
     \<lparr>aw_fleet = \<lparr>fl_db = empty_db\<lparr>db_tenants := [1], db_agents := [owned_agent]\<rparr>, fl_log = [], fl_clock = 0\<rparr>,
      aw_pushes = [], aw_audit = []\<rparr>"


lemma build_connectors_pushes: "build_connectors h t a w = (js, w1) \<Longrightarrow> aw_pushes w1 = aw_pushes w"
  by (auto simp: build_connectors_def split: prod.splits)

lemma log_audit_pushes: "aw_pushes (log_audit h t ident act i m w) = aw_pushes w"
  by (simp add: log_audit_def)

lemma push_config_pushes:
  "\<exists>new. aw_pushes (push_config h a inst c al js w) = aw_pushes w @ new \<and> length new \<le> 1 \<and>
     (\<forall>p \<in> set new. ps_payload p = push_payload c al [] [] js)"
  by (auto simp: push_config_def split: option.splits)

lemma manager_op_pushes: "manager_op f w = (r, w1) \<Longrightarrow> aw_pushes w1 = aw_pushes w"
  by (auto simp: manager_op_def split: prod.splits)

text \<open>What one request may push.\<close>

definition hardened_push :: "raw_json \<Rightarrow> config_push \<Rightarrow> bool" where
  "hardened_push body p \<longleftrightarrow>
     (\<exists>config m allow js. decode_configure body = Some (config, allow) \<and> hardened m \<and>
        (\<forall>q v. at_path (JObj (cloneConfigMap config)) q = Some v \<and> leaf v \<longrightarrow> at_path (JObj m) q = Some v) \<and>
        ps_payload p = push_payload (Some m) allow [] [] js)"

lemma configure_agent_pushes:
  assumes "configure_agent h t ident i body inst w = (resp, w')"
  shows "\<exists>new. aw_pushes w' = aw_pushes w @ new \<and> length new \<le> 1 \<and> list_all (hardened_push body) new"
proof (cases "\<exists>config allow m. decode_configure body = Some (config, allow) \<and>
      enforceOpenClawRuntimePolicy (ah_quote h) config = Inr m")
  case False
  then show ?thesis using assms
    by (auto simp: configure_agent_def split: option.splits prod.splits sum.splits)
next
  case True
  then obtain config allow m where d: "decode_configure body = Some (config, allow)"
    and e: "enforceOpenClawRuntimePolicy (ah_quote h) config = Inr m" by blast
  obtain r1 w1 where 1: "manager_op (on_db (agent_UpdateConfig (ai_ID inst) (RawJSON (JObj m))
      (RawJSON (allowlist_json allow)))) w = (r1, w1)" by fastforce
  obtain js w2 where 2: "build_connectors h t i w1 = (js, w2)" by fastforce
  let ?w4 = "log_audit h t ident ''agent.updated'' (ai_ID inst) [(''tool_allowlist_count'',
      JNum (of_nat (case allow of None \<Rightarrow> 0 | Some ts \<Rightarrow> length ts)))] (push_config h i inst (Some m) allow js w2)"
  obtain r5 w5 where 5: "get_agent h i ?w4 = (r5, w5)" by fastforce
  obtain new where new: "aw_pushes (push_config h i inst (Some m) allow js w2) = aw_pushes w2 @ new"
    "length new \<le> 1" "\<forall>p \<in> set new. ps_payload p = push_payload (Some m) allow [] [] js"
    using push_config_pushes by blast
  have "hardened_push body p" if "p \<in> set new" for p
    using new(3) that d enforced_policy [OF e] unfolding hardened_push_def by blast
  then have n: "list_all (hardened_push body) new" by (simp add: list_all_iff)
  have p: "aw_pushes w1 = aw_pushes w" "aw_pushes w5 = aw_pushes w @ new"
    using manager_op_pushes [OF 1] build_connectors_pushes [OF 2] get_agent_cases [OF 5] new(1)
    by (simp_all add: log_audit_pushes)
  have "w' = (case r1 of Inl _ \<Rightarrow> w1 | Inr _ \<Rightarrow> w5)"
    using assms d e 1 2 5 by (auto simp: configure_agent_def Let_def split: sum.splits)
  then show ?thesis using p new(2) n by (cases r1) auto
qed

text \<open>
  C24: Only hardened configurations reach an agent through the configuration endpoint. A request
  pushes at most one configuration; what it pushes has the sandbox on, the tools confined to the
  workspace and the gateway local, carries every value the request had set, and comes with the
  allow-list of the request.
\<close>

theorem configure_pushes_hardened:
  "\<exists>new. aw_pushes (snd (HandleConfigure h t ident i body w)) = aw_pushes w @ new \<and> length new \<le> 1 \<and>
     list_all (hardened_push body) new"
proof (cases "aw_pushes (snd (HandleConfigure h t ident i body w)) = aw_pushes w")
  case False
  then have "touched w (snd (HandleConfigure h t ident i body w))" by (auto simp: touched_def)
  then obtain inst w1 where g: "get_agent h i w = (Inr inst, w1)"
    and k: "configure_agent h t ident i body inst w1 = HandleConfigure h t ident i body w"
    using with_agent_refused [of h t ident i "configure_agent h t ident i body" w]
    unfolding HandleConfigure_def by (metis prod.collapse)
  from get_agent_cases [OF g] have "aw_pushes w1 = aw_pushes w" by simp
  with configure_agent_pushes [of h t ident i body inst w1] k show ?thesis by (metis prod.collapse)
qed simp

end
