(* ===== verification/Guest_Agent.thy ===== *)
theory Guest_Agent
  imports Agent_Config
begin

text \<open>
  The agent inside a virtual machine (\<open>cmd/heimdall-agent\<close>): the configuration it is given, the
  checks on tool calls, the MCP client, and the loop that drives OpenClaw through tool calls.

  The environment answers HTTP requests and says what the guest sees of its own configuration:
  other goroutines may replace it between any two reads, so every read has a number. A send on
  the control connection is an event; its error is only logged. Deadlines of the context show as
  errors of the HTTP client.
\<close>

section \<open>State and environment\<close>

record GovernedTool =
  gt_ActionType :: string
  gt_RiskClass :: string
  gt_Decision :: string
  gt_TargetType :: string
  gt_TargetLabelTemplate :: string
  gt_ApprovalSummaryTemplate :: string

record AgentConnector =
  gc_ID :: string
  gc_Name :: string
  gc_Type :: string
  gc_Endpoint :: string
  gc_Auth :: raw_json
  gc_Tools :: "string list"
  gc_GovernedTools :: "(string \<times> GovernedTool) list"

record ToolPolicy =
  tp_AllowedParams :: "string list"
  tp_DeniedParams :: "string list"
  tp_MaxResults :: int

text \<open>The part of the agent that its lock protects; a nil map of policies is \<open>None\<close>.\<close>

record Agent =
  ag_toolAllowlist :: "string list"
  ag_toolPolicies :: "(string \<times> ToolPolicy) list option"
  ag_canaryTokens :: "string list"
  ag_connectors :: "AgentConnector list"
  ag_config :: "(string \<times> json) list option"

record toolCall =
  tl_ID :: string
  tl_Type :: string
  tl_Name :: string
  tl_Arguments :: string

record parsed_url =
  u_Scheme :: string
  u_Host :: string
  u_Hostname :: string

record guest_request =
  gq_URL :: string
  gq_Authorization :: "string option"
  gq_Body :: json

text \<open>The status code, the body as text and the JSON value of the body.\<close>

datatype http_answer =
    HttpFailed string
  | HttpUnread string
  | HttpAnswer int string raw_json

text \<open>
  \<open>url.Parse\<close>, \<open>net.ParseIP\<close> with \<open>IsLoopback\<close>, the verb \<open>%q\<close> and the reading of a JSON text are
  fields of the environment; \<open>ge_uuid\<close> and \<open>ge_elapsed\<close> take the number of the event.
\<close>

record guest_env =
  ge_OpenClawURL :: string
  ge_AllowRemoteOpenClaw :: bool
  ge_agent :: "nat \<Rightarrow> Agent"
  ge_http :: "nat \<Rightarrow> guest_request \<Rightarrow> http_answer"
  ge_url_Parse :: "string \<Rightarrow> string + parsed_url"
  ge_loopback_ip :: "string \<Rightarrow> bool"
  ge_quote :: "string \<Rightarrow> string"
  ge_json :: "string \<Rightarrow> raw_json"
  ge_uuid :: "nat \<Rightarrow> string"
  ge_elapsed :: "nat \<Rightarrow> int"

datatype guest_event =
    Sent Frame
  | AskedModel guest_request
  | CalledTool AgentConnector string string guest_request

record guest =
  gs_reads :: nat
  gs_trace :: "guest_event list"

definition read_agent :: "guest_env \<Rightarrow> guest \<Rightarrow> Agent \<times> guest" where
  "read_agent env g = (ge_agent env (gs_reads g), g\<lparr>gs_reads := Suc (gs_reads g)\<rparr>)"

definition emit :: "guest_event \<Rightarrow> guest \<Rightarrow> guest" where
  "emit e g = g\<lparr>gs_trace := gs_trace g @ [e]\<rparr>"

definition http_Do ::
  "guest_env \<Rightarrow> (guest_request \<Rightarrow> guest_event) \<Rightarrow> guest_request \<Rightarrow> guest \<Rightarrow> http_answer \<times> guest" where
  "http_Do env ev req g = (ge_http env (length (gs_trace g)) req, emit (ev req) g)"

section \<open>Frames\<close>

definition send_frame :: "string \<Rightarrow> string \<Rightarrow> json \<Rightarrow> guest \<Rightarrow> guest" where
  "send_frame ty reqID payload g =
     emit (Sent \<lparr>fr_Type = ty, fr_ID = reqID, fr_Payload = RawJSON payload\<rparr>) g"

definition sendDoneChunk :: "string \<Rightarrow> string \<Rightarrow> guest \<Rightarrow> guest" where
  "sendDoneChunk reqID content =
     send_frame ''chunk'' reqID (JObj [(''content'', JStr content), (''done'', JBool True)])"

record RuntimeEventPayload =
  re_EventType :: string
  re_Kind :: string
  re_Title :: string
  re_Summary :: string
  re_Status :: string
  re_RiskClass :: string
  re_Binding :: string
  re_DeliveryTarget :: string
  re_RuntimeSource :: string
  re_Metadata :: "(string \<times> json) list"

definition runtime_event_json :: "RuntimeEventPayload \<Rightarrow> json" where
  "runtime_event_json e =
     JObj ((''event_type'', JStr (re_EventType e)) # omit_empty ''kind'' (re_Kind e) @
           omit_empty ''title'' (re_Title e) @ omit_empty ''summary'' (re_Summary e) @
           omit_empty ''status'' (re_Status e) @ omit_empty ''risk_class'' (re_RiskClass e) @
           omit_empty ''binding'' (re_Binding e) @
           omit_empty ''delivery_target'' (re_DeliveryTarget e) @
           omit_empty ''runtime_source'' (re_RuntimeSource e) @
           (if re_Metadata e = [] then [] else [(''metadata'', JObj (re_Metadata e))]))"

definition emitRuntimeEvent :: "string \<Rightarrow> RuntimeEventPayload \<Rightarrow> guest \<Rightarrow> guest" where
  "emitRuntimeEvent reqID e = send_frame ''runtime_event'' reqID (runtime_event_json e)"

text \<open>The common shape of the events: no delivery target, source \<open>openclaw\<close>.\<close>

definition openclaw_event ::
  "string \<Rightarrow> string \<Rightarrow> string \<Rightarrow> string \<Rightarrow> string \<Rightarrow> (string \<times> json) list \<Rightarrow> RuntimeEventPayload" where
  "openclaw_event eventType kind title summary status metadata =
     \<lparr>re_EventType = eventType, re_Kind = kind, re_Title = title, re_Summary = summary,
      re_Status = status, re_RiskClass = [], re_Binding = [], re_DeliveryTarget = [],
      re_RuntimeSource = ''openclaw'', re_Metadata = metadata\<rparr>"

definition emitRunFailed :: "string \<Rightarrow> string \<Rightarrow> (string \<times> json) list \<Rightarrow> guest \<Rightarrow> guest" where
  "emitRunFailed reqID summary metadata =
     emitRuntimeEvent reqID (openclaw_event ''run.failed'' ''run.failed'' ''Run failed'' summary ''failed'' metadata)"

definition emitToolAudit ::
  "guest_env \<Rightarrow> string \<Rightarrow> string \<Rightarrow> string \<Rightarrow> string \<Rightarrow> string \<Rightarrow> guest \<Rightarrow> guest" where
  "emitToolAudit env reqID frameType toolName connectorName errMsg g =
     send_frame frameType reqID
       (JObj ([(''tool_name'', JStr toolName),
               (''duration_ms'', JNum (of_int (ge_elapsed env (length (gs_trace g)))))] @
              omit_empty ''connector_name'' connectorName @ omit_empty ''error'' errMsg)) g"

definition sendError :: "string \<Rightarrow> string \<Rightarrow> string \<Rightarrow> guest \<Rightarrow> guest" where
  "sendError reqID code message =
     send_frame ''error'' reqID (JObj [(''code'', JStr code), (''message'', JStr message)])"

section \<open>Checks\<close>

text \<open>\<open>strings.Contains\<close>\<close>

fun Contains :: "string \<Rightarrow> string \<Rightarrow> bool" where
  "Contains [] t \<longleftrightarrow> t = []"
| "Contains (c # cs) t \<longleftrightarrow> starts_with t (c # cs) \<or> Contains cs t"

definition checkCanary :: "Agent \<Rightarrow> string \<Rightarrow> string option" where
  "checkCanary a content = find (\<lambda>token. Contains content token) (ag_canaryTokens a)"

text \<open>A refusal carries its reason. The parameters are visited in the order of the list.\<close>

fun check_params :: "guest_env \<Rightarrow> ToolPolicy \<Rightarrow> string list \<Rightarrow> string option" where
  "check_params env policy [] = None"
| "check_params env policy (p # ps) =
     (if p \<in> set (tp_DeniedParams policy)
      then Some (''parameter '' @ ge_quote env p @ '' denied by policy'')
      else if tp_AllowedParams policy \<noteq> [] \<and> p \<notin> set (tp_AllowedParams policy)
      then Some (''parameter '' @ ge_quote env p @ '' not in allowed params'')
      else check_params env policy ps)"

definition validateToolCall :: "guest_env \<Rightarrow> Agent \<Rightarrow> string \<Rightarrow> string \<Rightarrow> string option" where
  "validateToolCall env a toolName arguments =
     (if ag_toolAllowlist a \<noteq> [] \<and> toolName \<notin> set (ag_toolAllowlist a)
      then Some (''tool '' @ ge_quote env toolName @ '' not in allow-list'')
      else case ag_toolPolicies a of
          None \<Rightarrow> None
        | Some policies \<Rightarrow>
            (case map_of policies toolName of
               None \<Rightarrow> None
             | Some policy \<Rightarrow>
                 (case object_entries (ge_json env arguments) of
                    None \<Rightarrow> Some ''invalid tool arguments JSON''
                  | Some params \<Rightarrow> check_params env policy (map fst params))))"

definition EqualFold_localhost :: "string \<Rightarrow> bool" where
  "EqualFold_localhost host \<longleftrightarrow> fold_key host = ''localhost''"

definition validateOpenClawURL :: "guest_env \<Rightarrow> string \<Rightarrow> bool \<Rightarrow> string option" where
  "validateOpenClawURL env raw allowRemote =
     (let raw = TrimSpace raw in
      if raw = [] then Some ''openclaw url is required''
      else case ge_url_Parse env raw of
          Inl e \<Rightarrow> Some (''invalid openclaw url: '' @ e)
        | Inr parsed \<Rightarrow>
            if TrimSpace (u_Scheme parsed) = [] \<or> TrimSpace (u_Host parsed) = []
            then Some ''openclaw url must include scheme and host''
            else if allowRemote then None
            else
              (let host = TrimSpace (u_Hostname parsed) in
               if host = [] then Some ''openclaw url host is required''
               else if EqualFold_localhost host \<or> ge_loopback_ip env host then None
               else Some (''openclaw url must use a loopback host unless allow-remote-openclaw is enabled (got ''
                          @ ge_quote env host @ '')'')))"

section \<open>Connectors\<close>

definition resolveConnector :: "guest_env \<Rightarrow> AgentConnector list \<Rightarrow> string \<Rightarrow> string + AgentConnector" where
  "resolveConnector env cs toolName =
     (case find (\<lambda>c. toolName \<in> set (gc_Tools c)) cs of
        Some c \<Rightarrow> Inr c
      | None \<Rightarrow> Inl (''no connector registered for tool '' @ ge_quote env toolName))"

definition resolveConnectorForAction ::
  "guest_env \<Rightarrow> AgentConnector list \<Rightarrow> string \<Rightarrow> string \<Rightarrow> string + AgentConnector" where
  "resolveConnectorForAction env cs connectorID toolName =
     (let connectorID = TrimSpace connectorID in
      case (if connectorID \<noteq> [] then find (\<lambda>c. gc_ID c = connectorID) cs else None) of
        Some c \<Rightarrow>
          if toolName \<in> set (gc_Tools c) then Inr c
          else Inl (''connector '' @ ge_quote env connectorID @ '' does not expose tool '' @ ge_quote env toolName)
      | None \<Rightarrow> resolveConnector env cs toolName)"

section \<open>The MCP client\<close>

text \<open>A struct behind a pointer: \<open>null\<close> is no struct, a repeated key adds to the same struct.\<close>

fun pointer_values :: "(string \<times> json) list option \<Rightarrow> json list \<Rightarrow> (string \<times> json) list option option" where
  "pointer_values acc [] = Some acc"
| "pointer_values acc (JNull # js) = pointer_values None js"
| "pointer_values acc (JObj kvs # js) =
     pointer_values (Some ((case acc of None \<Rightarrow> [] | Some old \<Rightarrow> old) @ kvs)) js"
| "pointer_values acc (_ # js) = None"

definition pointer_field :: "string \<Rightarrow> (string \<times> json) list \<Rightarrow> (string \<times> json) list option option" where
  "pointer_field name kvs = pointer_values None (field_values name kvs)"

definition decode_block :: "json \<Rightarrow> (string \<times> string) option" where
  "decode_block j =
     (case json_entries j of
        None \<Rightarrow> None
      | Some kvs \<Rightarrow>
          (case (string_field ''type'' kvs, string_field ''text'' kvs) of
             (Some ty, Some t) \<Rightarrow> Some (ty, t)
           | _ \<Rightarrow> None))"

text \<open>The error or the text of a JSON-RPC answer.\<close>

definition rpc_result :: "raw_json \<Rightarrow> string + string" where
  "rpc_result body =
     (case object_entries body of
        None \<Rightarrow> Inl ''parsing MCP JSON-RPC response''
      | Some kvs \<Rightarrow>
          (case (string_field ''jsonrpc'' kvs, string_field ''id'' kvs, pointer_field ''result'' kvs,
                 pointer_field ''error'' kvs) of
             (Some _, Some _, Some result, Some err) \<Rightarrow>
               (case (case result of None \<Rightarrow> Some [] | Some r \<Rightarrow> decode_slice decode_block (last_value ''content'' r),
                      case err of None \<Rightarrow> Some (0, [])
                      | Some e \<Rightarrow>
                          (case (decode_int (last_value ''code'' e), string_field ''message'' e) of
                             (Some c, Some m) \<Rightarrow> Some (c, m) | _ \<Rightarrow> None)) of
                  (Some blocks, Some (code, msg)) \<Rightarrow>
                    if err \<noteq> None then Inl (''MCP error '' @ Itoa code @ '': '' @ msg)
                    else if result = None then Inl ''MCP response has no result''
                    else Inr (concat (map snd (filter (\<lambda>(ty, t). ty = ''text'') blocks)))
                | _ \<Rightarrow> Inl ''parsing MCP JSON-RPC response'')
           | _ \<Rightarrow> Inl ''parsing MCP JSON-RPC response''))"

text \<open>The header made from the connector's credentials.\<close>

definition auth_header :: "raw_json \<Rightarrow> string + string option" where
  "auth_header auth =
     (if auth = RawEmpty then Inr None
      else case object_entries auth of
          None \<Rightarrow> Inl ''parsing connector auth config''
        | Some kvs \<Rightarrow>
            (case string_field ''api_key'' kvs of
               None \<Rightarrow> Inl ''parsing connector auth config''
             | Some key \<Rightarrow> Inr (if key \<noteq> [] then Some (''Bearer '' @ key) else None)))"

definition rpc_body :: "string \<Rightarrow> string \<Rightarrow> json \<Rightarrow> json" where
  "rpc_body i toolName args =
     JObj [(''jsonrpc'', JStr ''2.0''), (''id'', JStr i), (''method'', JStr ''tools/call''),
           (''params'', JObj [(''name'', JStr toolName), (''arguments'', args)])]"

definition mcp_answer :: "http_answer \<Rightarrow> string + string" where
  "mcp_answer answer =
     (case answer of
        HttpFailed e \<Rightarrow> Inl (''MCP request failed: '' @ e)
      | HttpUnread e \<Rightarrow> Inl (''reading MCP response: '' @ e)
      | HttpAnswer status text body \<Rightarrow>
          if status \<noteq> 200 then Inl (''MCP server returned HTTP '' @ Itoa status @ '': '' @ text)
          else rpc_result body)"

definition callTool ::
  "guest_env \<Rightarrow> AgentConnector \<Rightarrow> string \<Rightarrow> string \<Rightarrow> guest \<Rightarrow> (string + string) \<times> guest" where
  "callTool env connector toolName arguments g =
     (case ge_url_Parse env (gc_Endpoint connector) of
        Inl e \<Rightarrow> (Inl (''invalid connector endpoint URL: '' @ e), g)
      | Inr parsed \<Rightarrow>
          if u_Scheme parsed \<noteq> ''http'' \<and> u_Scheme parsed \<noteq> ''https''
          then (Inl (''connector endpoint must use http or https scheme, got '' @ ge_quote env (u_Scheme parsed)), g)
          else case ge_json env arguments of
              RawJSON args \<Rightarrow>
                (case auth_header (gc_Auth connector) of
                   Inl e \<Rightarrow> (Inl e, g)
                 | Inr header \<Rightarrow>
                     (case http_Do env (CalledTool connector toolName arguments)
                             \<lparr>gq_URL = gc_Endpoint connector, gq_Authorization = header,
                              gq_Body = rpc_body (ge_uuid env (length (gs_trace g))) toolName args\<rparr> g of
                        (answer, g1) \<Rightarrow> (mcp_answer answer, g1)))
            | _ \<Rightarrow> (Inl ''marshaling tool call params'', g))"

end
