(* ===== verification/Guest_Loop.thy ===== *)
theory Guest_Loop
  imports Guest_Agent
begin

text \<open>
  The handlers of the in-guest agent (\<open>cmd/heimdall-agent/agent.go\<close> and \<open>openclaw.go\<close>): a new
  configuration, a message that OpenClaw works on through tool calls, and an approved connector
  action.
\<close>

section \<open>A new configuration\<close>

definition decode_governed :: "json \<Rightarrow> GovernedTool option" where
  "decode_governed j =
     (case json_entries j of
        None \<Rightarrow> None
      | Some kvs \<Rightarrow>
          (case (string_field ''action_type'' kvs, string_field ''risk_class'' kvs,
                 string_field ''decision'' kvs, string_field ''target_type'' kvs,
                 string_field ''target_label_template'' kvs,
                 string_field ''approval_summary_template'' kvs) of
             (Some a, Some r, Some d, Some t, Some l, Some s) \<Rightarrow>
               Some \<lparr>gt_ActionType = a, gt_RiskClass = r, gt_Decision = d, gt_TargetType = t,
                     gt_TargetLabelTemplate = l, gt_ApprovalSummaryTemplate = s\<rparr>
           | _ \<Rightarrow> None))"

text \<open>Decoding into a map: a later entry replaces an earlier one.\<close>

fun decode_members :: "(json \<Rightarrow> 'a option) \<Rightarrow> (string \<times> 'a) list \<Rightarrow> (string \<times> json) list \<Rightarrow> (string \<times> 'a) list option" where
  "decode_members f m [] = Some m"
| "decode_members f m ((k, j) # kvs) =
     (case f j of None \<Rightarrow> None | Some x \<Rightarrow> decode_members f (map_put k x m) kvs)"

definition decode_map :: "(json \<Rightarrow> 'a option) \<Rightarrow> json \<Rightarrow> (string \<times> 'a) list option option" where
  "decode_map f j =
     (case j of
        JNull \<Rightarrow> Some None
      | JObj kvs \<Rightarrow> map_option Some (decode_members f [] kvs)
      | _ \<Rightarrow> None)"

definition map_entries :: "(string \<times> 'a) list option \<Rightarrow> (string \<times> 'a) list" where
  "map_entries m = (case m of None \<Rightarrow> [] | Some kvs \<Rightarrow> kvs)"

definition decode_connector :: "json \<Rightarrow> AgentConnector option" where
  "decode_connector j =
     (case json_entries j of
        None \<Rightarrow> None
      | Some kvs \<Rightarrow>
          (case (string_field ''id'' kvs, string_field ''name'' kvs, string_field ''type'' kvs,
                 string_field ''endpoint'' kvs, decode_slice decode_string (last_value ''tools'' kvs),
                 decode_map decode_governed (last_value ''governed_tools'' kvs)) of
             (Some i, Some n, Some t, Some e, Some tools, Some governed) \<Rightarrow>
               Some \<lparr>gc_ID = i, gc_Name = n, gc_Type = t, gc_Endpoint = e,
                     gc_Auth = raw_field ''auth'' kvs, gc_Tools = tools,
                     gc_GovernedTools = map_entries governed\<rparr>
           | _ \<Rightarrow> None))"

definition decode_tool_policy :: "json \<Rightarrow> ToolPolicy option" where
  "decode_tool_policy j =
     (case json_entries j of
        None \<Rightarrow> None
      | Some kvs \<Rightarrow>
          (case (decode_slice decode_string (last_value ''allowed_params'' kvs),
                 decode_slice decode_string (last_value ''denied_params'' kvs),
                 decode_int (last_value ''max_results'' kvs)) of
             (Some a, Some d, Some n) \<Rightarrow>
               Some \<lparr>tp_AllowedParams = a, tp_DeniedParams = d, tp_MaxResults = n\<rparr>
           | _ \<Rightarrow> None))"

text \<open>A payload of the control plane has every key once.\<close>

definition decode_config :: "raw_json \<Rightarrow> Agent option" where
  "decode_config raw =
     (case object_entries raw of
        None \<Rightarrow> None
      | Some kvs \<Rightarrow>
          (case (decode_map Some (last_value ''config'' kvs),
                 decode_slice decode_string (last_value ''tool_allowlist'' kvs),
                 decode_map decode_tool_policy (last_value ''tool_policies'' kvs),
                 decode_slice decode_string (last_value ''canary_tokens'' kvs),
                 decode_slice decode_connector (last_value ''connectors'' kvs)) of
             (Some config, Some allowlist, Some policies, Some canaries, Some cs) \<Rightarrow>
               Some \<lparr>ag_toolAllowlist = allowlist, ag_toolPolicies = policies,
                     ag_canaryTokens = canaries, ag_connectors = cs, ag_config = config\<rparr>
           | _ \<Rightarrow> None))"

definition handleConfigUpdate :: "Frame \<Rightarrow> Agent \<Rightarrow> guest \<Rightarrow> Agent \<times> guest" where
  "handleConfigUpdate frame a g =
     (case decode_config (fr_Payload frame) of
        None \<Rightarrow> (a, sendError (fr_ID frame) ''invalid_payload'' ''invalid config payload'' g)
      | Some payload \<Rightarrow>
          (payload, send_frame ''config_ack'' (fr_ID frame) (JObj [(''applied'', JBool True)]) g))"

section \<open>OpenClaw\<close>

definition decode_call :: "json \<Rightarrow> toolCall option" where
  "decode_call j =
     (case json_entries j of
        None \<Rightarrow> None
      | Some kvs \<Rightarrow>
          (case (string_field ''id'' kvs, string_field ''type'' kvs, struct_field ''function'' kvs) of
             (Some i, Some ty, Some f) \<Rightarrow>
               (case (string_field ''name'' f, string_field ''arguments'' f) of
                  (Some n, Some a) \<Rightarrow> Some \<lparr>tl_ID = i, tl_Type = ty, tl_Name = n, tl_Arguments = a\<rparr>
                | _ \<Rightarrow> None)
           | _ \<Rightarrow> None))"

text \<open>A choice: the content and the tool calls of its message.\<close>

definition decode_choice :: "json \<Rightarrow> (string \<times> toolCall list) option" where
  "decode_choice j =
     (case json_entries j of
        None \<Rightarrow> None
      | Some kvs \<Rightarrow>
          (case struct_field ''message'' kvs of
             None \<Rightarrow> None
           | Some m \<Rightarrow>
               (case (string_field ''content'' m, decode_slice decode_call (last_value ''tool_calls'' m)) of
                  (Some c, Some calls) \<Rightarrow> Some (c, calls)
                | _ \<Rightarrow> None)))"

definition openclaw_answer :: "http_answer \<Rightarrow> string + (string \<times> toolCall list)" where
  "openclaw_answer answer =
     (case answer of
        HttpFailed e \<Rightarrow> Inl (''OpenClaw request failed: '' @ e)
      | HttpUnread e \<Rightarrow> Inl (''reading response: '' @ e)
      | HttpAnswer status text body \<Rightarrow>
          if status \<noteq> 200 then Inl (''OpenClaw returned '' @ Itoa status)
          else case object_entries body of
              None \<Rightarrow> Inl ''parsing response''
            | Some kvs \<Rightarrow>
                (case decode_slice decode_choice (last_value ''choices'' kvs) of
                   None \<Rightarrow> Inl ''parsing response''
                 | Some [] \<Rightarrow> Inl ''OpenClaw returned no choices''
                 | Some (choice # _) \<Rightarrow> Inr choice))"

definition callOpenClaw ::
  "guest_env \<Rightarrow> json list \<Rightarrow> guest \<Rightarrow> (string + (string \<times> toolCall list)) \<times> guest" where
  "callOpenClaw env messages g =
     (case http_Do env AskedModel
             \<lparr>gq_URL = ge_OpenClawURL env @ ''/v1/chat/completions'', gq_Authorization = None,
              gq_Body = JObj [(''messages'', JArr messages)]\<rparr> g of
        (answer, g1) \<Rightarrow> (openclaw_answer answer, g1))"

section \<open>Messages\<close>

definition chat_message :: "string \<Rightarrow> string \<Rightarrow> json" where
  "chat_message role content = JObj [(''role'', JStr role), (''content'', JStr content)]"

definition tool_message :: "string \<Rightarrow> string \<Rightarrow> json" where
  "tool_message callID content =
     JObj [(''role'', JStr ''tool''), (''tool_call_id'', JStr callID), (''content'', JStr content)]"

definition call_json :: "toolCall \<Rightarrow> json" where
  "call_json tc =
     JObj [(''id'', JStr (tl_ID tc)), (''type'', JStr (tl_Type tc)),
           (''function'', JObj [(''name'', JStr (tl_Name tc)), (''arguments'', JStr (tl_Arguments tc))])]"

definition assistant_message :: "string \<Rightarrow> toolCall list \<Rightarrow> json" where
  "assistant_message content calls =
     JObj [(''role'', JStr ''assistant''), (''content'', JStr content), (''tool_calls'', JArr (map call_json calls))]"

definition decode_item :: "json \<Rightarrow> (string \<times> string) option" where
  "decode_item j =
     (case json_entries j of
        None \<Rightarrow> None
      | Some kvs \<Rightarrow>
          (case (string_field ''role'' kvs, string_field ''content'' kvs) of
             (Some r, Some c) \<Rightarrow> Some (r, c)
           | _ \<Rightarrow> None))"

definition item_message :: "string \<times> string \<Rightarrow> json option" where
  "item_message i =
     (case i of (role, content) \<Rightarrow>
        if TrimSpace role = [] \<or> TrimSpace content = [] then None
        else Some (chat_message (TrimSpace role) (TrimSpace content)))"

text \<open>The conversation a message frame starts with, \<open>None\<close> when the payload is invalid.\<close>

definition initial_messages :: "raw_json \<Rightarrow> json list option" where
  "initial_messages payload =
     (case object_entries payload of
        None \<Rightarrow> None
      | Some kvs \<Rightarrow>
          (case (decode_item (JObj kvs), decode_slice decode_item (last_value ''messages'' kvs)) of
             (Some single, Some items) \<Rightarrow>
               (case List.map_filter item_message items of
                  [] \<Rightarrow> (case item_message single of None \<Rightarrow> None | Some m \<Rightarrow> Some [m])
                | ms \<Rightarrow> Some ms)
           | _ \<Rightarrow> None))"

section \<open>Tool calls\<close>

definition session_halt :: "guest_env \<Rightarrow> string \<Rightarrow> string \<Rightarrow> string \<Rightarrow> string option \<Rightarrow> guest \<Rightarrow> guest" where
  "session_halt env reqID summary token tool g =
     (let source = (case tool of None \<Rightarrow> ''model_output'' | Some t \<Rightarrow> ''tool:'' @ t) in
      send_frame ''session_halt'' reqID
        (JObj ([(''reason'', JStr ''canary_leak''), (''token'', JStr token)] @
               (case tool of None \<Rightarrow> [] | Some t \<Rightarrow> [(''source'', JStr source)])))
        (emitRunFailed reqID summary [(''code'', JStr ''canary_leak''), (''source'', JStr source)] g))"

definition governance_event ::
  "string \<Rightarrow> string \<Rightarrow> string \<Rightarrow> string \<Rightarrow> string \<Rightarrow> AgentConnector \<Rightarrow> string \<Rightarrow> GovernedTool \<Rightarrow> RuntimeEventPayload" where
  "governance_event eventType kind title summary status c toolName gov =
     (openclaw_event eventType kind title summary status
        [(''connector_id'', JStr (gc_ID c)), (''connector_name'', JStr (gc_Name c)),
         (''tool_name'', JStr toolName), (''decision'', JStr (gt_Decision gov))])
       \<lparr>re_RiskClass := gt_RiskClass gov\<rparr>"

definition block_call :: "string \<Rightarrow> AgentConnector \<Rightarrow> string \<Rightarrow> GovernedTool \<Rightarrow> guest \<Rightarrow> guest" where
  "block_call reqID c toolName gov g =
     send_frame ''tool_blocked'' reqID
       (JObj [(''tool_name'', JStr toolName), (''connector_name'', JStr (gc_Name c)),
              (''risk_class'', JStr (gt_RiskClass gov)),
              (''reason'', JStr ''governed connector write blocked by policy'')])
       (emitRuntimeEvent reqID
          (governance_event ''connector.blocked'' ''connector.blocked'' ''Connector write blocked''
             (toolName @ '' was blocked before external execution.'') ''blocked'' c toolName gov) g)"

definition approval_payload :: "AgentConnector \<Rightarrow> toolCall \<Rightarrow> GovernedTool \<Rightarrow> json" where
  "approval_payload c tc gov =
     JObj (omit_empty ''connector_id'' (gc_ID c) @ omit_empty ''connector_name'' (gc_Name c) @
           [(''tool_name'', JStr (tl_Name tc))] @ omit_empty ''arguments'' (tl_Arguments tc) @
           omit_empty ''risk_class'' (gt_RiskClass gov) @ omit_empty ''target_type'' (gt_TargetType gov) @
           omit_empty ''target_label_template'' (gt_TargetLabelTemplate gov) @
           omit_empty ''approval_summary_template'' (gt_ApprovalSummaryTemplate gov))"

definition require_approval :: "string \<Rightarrow> AgentConnector \<Rightarrow> toolCall \<Rightarrow> GovernedTool \<Rightarrow> guest \<Rightarrow> guest" where
  "require_approval reqID c tc gov g =
     send_frame ''approval_required'' reqID (approval_payload c tc gov)
       (emitRuntimeEvent reqID
          (governance_event ''connector.awaiting_approval'' ''connector.called''
             ''Connector write waiting for approval''
             (tl_Name tc @ '' is paused until approval is granted.'') ''approval_required'' c (tl_Name tc) gov) g)"

text \<open>A tool call either lets the run go on with more messages or ends it.\<close>

definition execute_call ::
  "guest_env \<Rightarrow> string \<Rightarrow> AgentConnector \<Rightarrow> toolCall \<Rightarrow> json list \<Rightarrow> guest \<Rightarrow> json list option \<times> guest" where
  "execute_call env reqID c tc messages g =
     (case callTool env c (tl_Name tc) (tl_Arguments tc) g of
        (Inl e, g1) \<Rightarrow>
          (Some (messages @ [tool_message (tl_ID tc) (''error: '' @ e)]),
           emitToolAudit env reqID ''tool_failed'' (tl_Name tc) (gc_Name c) e g1)
      | (Inr result, g1) \<Rightarrow>
          (case read_agent env g1 of (a, g2) \<Rightarrow>
             case checkCanary a result of
               Some token \<Rightarrow>
                 (None, session_halt env reqID ''Run halted after a canary leak was detected in tool output.''
                          token (Some (tl_Name tc)) g2)
             | None \<Rightarrow>
                 (Some (messages @ [tool_message (tl_ID tc) result]),
                  emitToolAudit env reqID ''tool_executed'' (tl_Name tc) (gc_Name c) [] g2)))"

definition run_call ::
  "guest_env \<Rightarrow> string \<Rightarrow> AgentConnector list \<Rightarrow> toolCall \<Rightarrow> json list \<Rightarrow> guest \<Rightarrow> json list option \<times> guest" where
  "run_call env reqID currentConnectors tc messages g =
     (case resolveConnector env currentConnectors (tl_Name tc) of
        Inl e \<Rightarrow>
          (Some (messages @ [tool_message (tl_ID tc) (''error: '' @ e)]),
           emitToolAudit env reqID ''tool_failed'' (tl_Name tc) [] e g)
      | Inr c \<Rightarrow>
          (case map_of (gc_GovernedTools c) (tl_Name tc) of
             None \<Rightarrow> execute_call env reqID c tc messages g
           | Some gov \<Rightarrow>
               if gt_Decision gov = ''block'' then (None, block_call reqID c (tl_Name tc) gov g)
               else if gt_Decision gov = ''require_approval'' then (None, require_approval reqID c tc gov g)
               else execute_call env reqID c tc messages g))"

fun run_calls ::
  "guest_env \<Rightarrow> string \<Rightarrow> AgentConnector list \<Rightarrow> toolCall list \<Rightarrow> json list \<Rightarrow> guest \<Rightarrow> json list option \<times> guest" where
  "run_calls env reqID currentConnectors [] messages g = (Some messages, g)"
| "run_calls env reqID currentConnectors (tc # tcs) messages g =
     (case run_call env reqID currentConnectors tc messages g of
        (None, g1) \<Rightarrow> (None, g1)
      | (Some messages, g1) \<Rightarrow> run_calls env reqID currentConnectors tcs messages g1)"

text \<open>The first call that is not allowed, with the reason.\<close>

fun validate_calls :: "guest_env \<Rightarrow> toolCall list \<Rightarrow> guest \<Rightarrow> (toolCall \<times> string) option \<times> guest" where
  "validate_calls env [] g = (None, g)"
| "validate_calls env (tc # tcs) g =
     (case read_agent env g of (a, g1) \<Rightarrow>
        case validateToolCall env a (tl_Name tc) (tl_Arguments tc) of
          Some reason \<Rightarrow> (Some (tc, reason), g1)
        | None \<Rightarrow> validate_calls env tcs g1)"

definition tool_phase ::
  "guest_env \<Rightarrow> string \<Rightarrow> string \<Rightarrow> toolCall list \<Rightarrow> json list \<Rightarrow> guest \<Rightarrow> json list option \<times> guest" where
  "tool_phase env reqID content calls messages g =
     (case validate_calls env calls g of
        (Some (tc, reason), g1) \<Rightarrow>
          (None, send_frame ''tool_blocked'' reqID
                   (JObj [(''tool_name'', JStr (tl_Name tc)), (''reason'', JStr reason)]) g1)
      | (None, g1) \<Rightarrow>
          (let n = Itoa (int (length calls));
               g2 = emitRuntimeEvent reqID
                 ((openclaw_event ''sessions_yield'' ''run.yielded'' ''Session yielded''
                    (''OpenClaw requested '' @ n @ '' tool action(s).'') ''pending''
                    [(''tool_count'', JNum (of_nat (length calls)))])\<lparr>re_Binding := ''tool_execution''\<rparr>) g1 in
           case read_agent env g2 of (a, g3) \<Rightarrow>
             run_calls env reqID (ag_connectors a) calls (messages @ [assistant_message content calls]) g3))"

definition maxToolIterations :: nat where
  "maxToolIterations = 10"

fun tool_loop :: "guest_env \<Rightarrow> string \<Rightarrow> nat \<Rightarrow> json list \<Rightarrow> guest \<Rightarrow> guest" where
  "tool_loop env reqID 0 messages g =
     sendError reqID ''max_iterations'' ''tool call loop exceeded maximum iterations''
       (emitRunFailed reqID ''Run exceeded the maximum allowed tool iterations.''
          [(''code'', JStr ''max_iterations'')] g)"
| "tool_loop env reqID (Suc n) messages g =
     (case callOpenClaw env messages g of
        (Inl e, g1) \<Rightarrow>
          sendError reqID ''openclaw_error'' e
            (emitRunFailed reqID ''Run failed while calling OpenClaw.'' [(''code'', JStr ''openclaw_error'')] g1)
      | (Inr (content, calls), g1) \<Rightarrow>
          (case read_agent env g1 of (a, g2) \<Rightarrow>
             case checkCanary a content of
               Some token \<Rightarrow>
                 session_halt env reqID ''Run halted after a canary leak was detected in model output.'' token None g2
             | None \<Rightarrow>
                 if calls = [] then
                   sendDoneChunk reqID content
                     (emitRuntimeEvent reqID
                        (openclaw_event ''task_completion'' ''run.completed'' ''Task completed''
                           ''OpenClaw produced a final response.'' ''completed'' []) g2)
                 else case tool_phase env reqID content calls messages g2 of
                     (None, g3) \<Rightarrow> g3
                   | (Some messages, g3) \<Rightarrow> tool_loop env reqID n messages g3))"

definition forwardToOpenClaw :: "guest_env \<Rightarrow> Frame \<Rightarrow> guest \<Rightarrow> guest" where
  "forwardToOpenClaw env frame g =
     (let reqID = fr_ID frame in
      case validateOpenClawURL env (ge_OpenClawURL env) (ge_AllowRemoteOpenClaw env) of
        Some e \<Rightarrow> sendError reqID ''invalid_config'' e g
      | None \<Rightarrow>
          (case initial_messages (fr_Payload frame) of
             None \<Rightarrow> sendError reqID ''invalid_message'' ''invalid message payload'' g
           | Some messages \<Rightarrow>
               tool_loop env reqID maxToolIterations messages
                 (emitRuntimeEvent reqID
                    (openclaw_event ''run.started'' ''run.started'' ''Run started''
                       ''OpenClaw accepted the prompt and started processing.'' ''pending'' []) g)))"

section \<open>Approved actions\<close>

record ConnectorActionResumePayload =
  cr_ActionID :: string
  cr_ApprovalID :: string
  cr_ConnectorID :: string
  cr_ToolName :: string
  cr_Arguments :: string
  cr_RiskClass :: string

definition decode_resume :: "raw_json \<Rightarrow> ConnectorActionResumePayload option" where
  "decode_resume raw =
     (case object_entries raw of
        None \<Rightarrow> None
      | Some kvs \<Rightarrow>
          (case (string_field ''action_id'' kvs, string_field ''approval_id'' kvs,
                 string_field ''connector_id'' kvs, string_field ''tool_name'' kvs,
                 string_field ''arguments'' kvs, string_field ''risk_class'' kvs) of
             (Some i, Some ap, Some c, Some t, Some a, Some r) \<Rightarrow>
               Some \<lparr>cr_ActionID = i, cr_ApprovalID = ap, cr_ConnectorID = c, cr_ToolName = t,
                     cr_Arguments = a, cr_RiskClass = r\<rparr>
           | _ \<Rightarrow> None))"

definition resume_event ::
  "string \<Rightarrow> string \<Rightarrow> string \<Rightarrow> string \<Rightarrow> ConnectorActionResumePayload \<Rightarrow> string option \<Rightarrow> RuntimeEventPayload" where
  "resume_event eventType title summary status p connectorName =
     (openclaw_event eventType ''connector.called'' title summary status
        ([(''action_id'', JStr (cr_ActionID p)), (''approval_id'', JStr (cr_ApprovalID p)),
          (''tool_name'', JStr (cr_ToolName p))] @
         (case connectorName of None \<Rightarrow> [] | Some n \<Rightarrow> [(''connector_name'', JStr n)])))
       \<lparr>re_RiskClass := cr_RiskClass p\<rparr>"

definition resume_failed ::
  "guest_env \<Rightarrow> string \<Rightarrow> ConnectorActionResumePayload \<Rightarrow> string option \<Rightarrow> string \<Rightarrow> guest \<Rightarrow> guest" where
  "resume_failed env reqID p connectorName e g =
     emitToolAudit env reqID ''tool_failed'' (cr_ToolName p)
       (case connectorName of None \<Rightarrow> [] | Some n \<Rightarrow> n) e
       (emitRuntimeEvent reqID
          (resume_event ''connector.resume_failed'' ''Approved connector action failed'' e ''failed'' p connectorName) g)"

definition handleConnectorActionResume :: "guest_env \<Rightarrow> Frame \<Rightarrow> guest \<Rightarrow> guest" where
  "handleConnectorActionResume env frame g =
     (let reqID = fr_ID frame in
      case decode_resume (fr_Payload frame) of
        None \<Rightarrow> sendError reqID ''invalid_resume_payload'' ''invalid connector action payload'' g
      | Some p \<Rightarrow>
          (case read_agent env g of (a, g1) \<Rightarrow>
             case resolveConnectorForAction env (ag_connectors a) (cr_ConnectorID p) (cr_ToolName p) of
               Inl e \<Rightarrow> resume_failed env reqID p None e g1
             | Inr c \<Rightarrow>
                 (case callTool env c (cr_ToolName p) (cr_Arguments p) g1 of
                    (Inl e, g2) \<Rightarrow> resume_failed env reqID p (Some (gc_Name c)) e g2
                  | (Inr _, g2) \<Rightarrow>
                      emitToolAudit env reqID ''tool_executed'' (cr_ToolName p) (gc_Name c) []
                        (emitRuntimeEvent reqID
                           (resume_event ''connector.resume_completed'' ''Approved connector action executed''
                              (cr_ToolName p @ '' executed after approval.'') ''completed'' p (Some (gc_Name c))) g2))))"

section \<open>The dispatch of frames\<close>

text \<open>A message and an approved action run in goroutines of their own; the rest is done at once.\<close>

datatype guest_task = RunMessage Frame | RunResume Frame

definition dispatch_frame :: "Frame \<Rightarrow> Agent \<Rightarrow> guest \<Rightarrow> guest_task option \<times> Agent \<times> guest" where
  "dispatch_frame frame a g =
     (if fr_Type frame = ''config_update'' then (None, handleConfigUpdate frame a g)
      else if fr_Type frame = ''message'' then (Some (RunMessage frame), a, g)
      else if fr_Type frame = ''connector_action_resume'' then (Some (RunResume frame), a, g)
      else if fr_Type frame = ''ping'' then (None, a, send_frame ''pong'' (fr_ID frame) (JObj []) g)
      else (None, a, g))"

fun run_guest_task :: "guest_env \<Rightarrow> guest_task \<Rightarrow> guest \<Rightarrow> guest" where
  "run_guest_task env (RunMessage frame) g = forwardToOpenClaw env frame g"
| "run_guest_task env (RunResume frame) g = handleConnectorActionResume env frame g"

end
