(* ===== verification/Guest_Properties.thy ===== *)
theory Guest_Properties
  imports Guest_Loop
begin

text \<open>
  What the in-guest agent promises: a run makes only tool calls that its checks let through,
  answers its message with exactly one closing frame, and asks the model a bounded number of
  times, whatever the model, the connectors and the control plane do meanwhile.
\<close>

section \<open>Events of a run\<close>

text \<open>A tool call that the checks of the guest let through.\<close>

definition cleared :: "guest_env \<Rightarrow> AgentConnector \<Rightarrow> string \<Rightarrow> string \<Rightarrow> bool" where
  "cleared env c toolName arguments \<longleftrightarrow>
     (\<exists>k. c \<in> set (ag_connectors (ge_agent env k))) \<and> toolName \<in> set (gc_Tools c) \<and>
     (\<exists>k. validateToolCall env (ge_agent env k) toolName arguments = None) \<and>
     (\<forall>gov. map_of (gc_GovernedTools c) toolName = Some gov \<longrightarrow>
        gt_Decision gov \<noteq> ''block'' \<and> gt_Decision gov \<noteq> ''require_approval'')"

text \<open>A text that was compared with the canary tokens and has none of them.\<close>

definition canary_free :: "guest_env \<Rightarrow> string \<Rightarrow> bool" where
  "canary_free env content \<longleftrightarrow> (\<exists>k. checkCanary (ge_agent env k) content = None)"

definition closing_types :: "string set" where
  "closing_types = {''chunk'', ''error'', ''tool_blocked'', ''approval_required'', ''session_halt''}"

definition progress_types :: "string set" where
  "progress_types = {''runtime_event'', ''tool_executed'', ''tool_failed''}"

text \<open>The events before the closing frame.\<close>

fun progress :: "guest_env \<Rightarrow> string \<Rightarrow> guest_event \<Rightarrow> bool" where
  "progress env reqID (Sent f) \<longleftrightarrow> fr_ID f = reqID \<and> fr_Type f \<in> progress_types"
| "progress env reqID (AskedModel r) \<longleftrightarrow> True"
| "progress env reqID (CalledTool c n args r) \<longleftrightarrow> cleared env c n args"

definition closing :: "guest_env \<Rightarrow> string \<Rightarrow> guest_event \<Rightarrow> bool" where
  "closing env reqID e \<longleftrightarrow>
     (\<exists>f. e = Sent f \<and> fr_ID f = reqID \<and> fr_Type f \<in> closing_types \<and>
        (fr_Type f = ''chunk'' \<longrightarrow>
           (\<exists>content. fr_Payload f = RawJSON (JObj [(''content'', JStr content), (''done'', JBool True)]) \<and>
              canary_free env content)))"

definition asked :: "guest_event list \<Rightarrow> nat" where
  "asked tr = length (filter (\<lambda>e. case e of AskedModel _ \<Rightarrow> True | _ \<Rightarrow> False) tr)"

text \<open>At most \<open>n\<close> questions to the model and no closing frame, or with one at the end.\<close>

definition runs :: "guest_env \<Rightarrow> string \<Rightarrow> nat \<Rightarrow> guest \<Rightarrow> guest \<Rightarrow> bool" where
  "runs env reqID n g g' \<longleftrightarrow>
     (\<exists>tr. gs_trace g' = gs_trace g @ tr \<and> list_all (progress env reqID) tr \<and> asked tr \<le> n)"

definition ends :: "guest_env \<Rightarrow> string \<Rightarrow> nat \<Rightarrow> guest \<Rightarrow> guest \<Rightarrow> bool" where
  "ends env reqID n g g' \<longleftrightarrow>
     (\<exists>tr e. gs_trace g' = gs_trace g @ tr @ [e] \<and> list_all (progress env reqID) tr \<and>
        asked tr \<le> n \<and> closing env reqID e)"

named_theorems guest_steps \<open>steps of a run\<close>

lemma asked_append [simp]: "asked (xs @ ys) = asked xs + asked ys"
  by (simp add: asked_def)

lemma asked_Nil [simp]: "asked [] = 0"
  by (simp add: asked_def)

lemma runs_refl [simp]: "runs env r n g g"
  by (simp add: runs_def)

lemma runs_trans: "runs env r m g g1 \<Longrightarrow> runs env r n g1 g2 \<Longrightarrow> runs env r (m + n) g g2"
  unfolding runs_def by (force simp: add_mono)

lemma runs_ends: "runs env r m g g1 \<Longrightarrow> ends env r n g1 g2 \<Longrightarrow> ends env r (m + n) g g2"
  unfolding runs_def ends_def by (force simp: add_mono)

lemma runs_mono: "runs env r m g g1 \<Longrightarrow> m \<le> n \<Longrightarrow> runs env r n g g1"
  unfolding runs_def by force

lemma ends_mono: "ends env r m g g1 \<Longrightarrow> m \<le> n \<Longrightarrow> ends env r n g g1"
  unfolding ends_def by force

lemma runs_emit: "progress env r e \<Longrightarrow> asked [e] = 0 \<Longrightarrow> runs env r 0 g (emit e g)"
  by (auto simp: runs_def emit_def)

lemma ends_emit: "closing env r e \<Longrightarrow> ends env r 0 g (emit e g)"
  by (auto simp: ends_def emit_def)

text \<open>Reading the configuration is no event.\<close>

lemma read_agent_runs: "read_agent env g = (a, g1) \<Longrightarrow> runs env r 0 g g1 \<and> (\<exists>k. a = ge_agent env k)"
  by (auto simp: read_agent_def runs_def)

lemma runs_send: "ty \<in> progress_types \<Longrightarrow> runs env r 0 g (send_frame ty r j g)"
  unfolding send_frame_def by (rule runs_emit) (simp_all add: asked_def)

lemma ends_send: "ty \<in> closing_types - {''chunk''} \<Longrightarrow> ends env r 0 g (send_frame ty r j g)"
  unfolding send_frame_def by (rule ends_emit) (auto simp: closing_def)

lemma emitRuntimeEvent_runs [guest_steps]: "runs env r 0 g (emitRuntimeEvent r e g)"
  unfolding emitRuntimeEvent_def by (rule runs_send) (simp add: progress_types_def)

lemma emitRunFailed_runs [guest_steps]: "runs env r 0 g (emitRunFailed r s m g)"
  unfolding emitRunFailed_def by (rule guest_steps)

lemma emitToolAudit_runs:
  "ty \<in> {''tool_executed'', ''tool_failed''} \<Longrightarrow> runs env r 0 g (emitToolAudit env' r ty t c e g)"
  unfolding emitToolAudit_def by (rule runs_send) (auto simp: progress_types_def)

lemma sendError_ends: "ends env r 0 g (sendError r code m g)"
  unfolding sendError_def by (rule ends_send) (simp add: closing_types_def)

lemma done_ends: "canary_free env content \<Longrightarrow> ends env r 0 g (sendDoneChunk r content g)"
  unfolding sendDoneChunk_def send_frame_def
  by (rule ends_emit) (auto simp: closing_def closing_types_def)

lemmas runs_then_ends = runs_ends [where m = 0 and n = 0, simplified]

lemma session_halt_ends: "ends env r 0 g (session_halt env' r s t tool g)"
  unfolding session_halt_def Let_def
  by (rule runs_then_ends [OF emitRunFailed_runs ends_send]) (simp add: closing_types_def)

lemma block_call_ends: "ends env r 0 g (block_call r c t gov g)"
  unfolding block_call_def
  by (rule runs_then_ends [OF emitRuntimeEvent_runs ends_send]) (simp add: closing_types_def)

lemma require_approval_ends: "ends env r 0 g (require_approval r c tc gov g)"
  unfolding require_approval_def
  by (rule runs_then_ends [OF emitRuntimeEvent_runs ends_send]) (simp add: closing_types_def)

section \<open>Tool calls\<close>

lemma callTool_runs:
  assumes "callTool env c n args g = (res, g1)" "cleared env c n args"
  shows "runs env r 0 g g1"
  using assms runs_emit [of env r "CalledTool c n args _" g]
  by (auto simp: callTool_def http_Do_def asked_def split: sum.splits if_splits raw_json.splits)

text \<open>What a phase of tool calls does: it goes on, or it ends the run.\<close>

definition phase_ok :: "guest_env \<Rightarrow> string \<Rightarrow> guest \<Rightarrow> json list option \<times> guest \<Rightarrow> bool" where
  "phase_ok env r g p \<longleftrightarrow>
     (case p of (Some _, g') \<Rightarrow> runs env r 0 g g' | (None, g') \<Rightarrow> ends env r 0 g g')"

lemma phase_after: "runs env r 0 g g1 \<Longrightarrow> phase_ok env r g1 p \<Longrightarrow> phase_ok env r g p"
  using runs_trans [of env r 0 g g1 0] runs_then_ends [of env r g g1]
  by (auto simp: phase_ok_def split: prod.splits option.splits)

lemma execute_call_ok:
  assumes "cleared env c (tl_Name tc) (tl_Arguments tc)"
  shows "phase_ok env r g (execute_call env r c tc ms g)"
proof -
  obtain res g1 where 1: "callTool env c (tl_Name tc) (tl_Arguments tc) g = (res, g1)" by fastforce
  have 2: "runs env r 0 g g1" by (rule callTool_runs [OF 1 assms])
  show ?thesis
  proof (rule phase_after [OF 2], cases res)
    case (Inl e)
    with 1 show "phase_ok env r g1 (execute_call env r c tc ms g)"
      by (simp add: execute_call_def phase_ok_def emitToolAudit_runs)
  next
    case (Inr t)
    obtain a g2 where 3: "read_agent env g1 = (a, g2)" by fastforce
    from read_agent_runs [OF this] have "runs env r 0 g1 g2" by blast
    moreover have "phase_ok env r g2 (execute_call env r c tc ms g)"
      using 1 3 Inr
      by (simp add: execute_call_def phase_ok_def emitToolAudit_runs session_halt_ends split: option.splits)
    ultimately show "phase_ok env r g1 (execute_call env r c tc ms g)" by (rule phase_after)
  qed
qed

definition permitted :: "guest_env \<Rightarrow> toolCall \<Rightarrow> bool" where
  "permitted env tc \<longleftrightarrow> (\<exists>k. validateToolCall env (ge_agent env k) (tl_Name tc) (tl_Arguments tc) = None)"

lemma run_call_ok:
  assumes "permitted env tc"
  shows "phase_ok env r g (run_call env r (ag_connectors (ge_agent env k)) tc ms g)"
proof (cases "resolveConnector env (ag_connectors (ge_agent env k)) (tl_Name tc)")
  case (Inl e)
  then show ?thesis by (simp add: run_call_def phase_ok_def emitToolAudit_runs)
next
  case (Inr c)
  then have c: "c \<in> set (ag_connectors (ge_agent env k))" "tl_Name tc \<in> set (gc_Tools c)"
    by (auto simp: resolveConnector_def split: option.splits dest!: find_SomeD)
  show ?thesis
  proof (cases "\<exists>gov. map_of (gc_GovernedTools c) (tl_Name tc) = Some gov \<and>
        gt_Decision gov \<in> {''block'', ''require_approval''}")
    case True
    with Inr show ?thesis
      by (auto simp: run_call_def phase_ok_def block_call_ends require_approval_ends)
  next
    case False
    with c assms have "cleared env c (tl_Name tc) (tl_Arguments tc)"
      by (auto simp: cleared_def permitted_def)
    from execute_call_ok [OF this] False Inr show ?thesis
      by (auto simp: run_call_def split: option.splits)
  qed
qed

lemma run_calls_ok:
  assumes "\<forall>tc \<in> set tcs. permitted env tc"
  shows "phase_ok env r g (run_calls env r (ag_connectors (ge_agent env k)) tcs ms g)"
  using assms
proof (induction tcs arbitrary: ms g)
  case Nil
  then show ?case by (simp add: phase_ok_def)
next
  case (Cons tc tcs)
  let ?cs = "ag_connectors (ge_agent env k)"
  obtain res g1 where 1: "run_call env r ?cs tc ms g = (res, g1)" by fastforce
  have p: "phase_ok env r g (res, g1)" using run_call_ok Cons.prems 1 by (metis list.set_intros(1))
  show ?case
  proof (cases res)
    case None
    with p 1 show ?thesis by simp
  next
    case (Some ms')
    with p have "runs env r 0 g g1" by (simp add: phase_ok_def)
    moreover have "phase_ok env r g1 (run_calls env r ?cs tcs ms' g1)"
      using Cons.IH Cons.prems by simp
    ultimately show ?thesis using 1 Some by (auto intro: phase_after)
  qed
qed

lemma validate_calls_ok:
  assumes "validate_calls env tcs g = (res, g1)"
  shows "runs env r 0 g g1 \<and> (res = None \<longrightarrow> (\<forall>tc \<in> set tcs. permitted env tc))"
  using assms
proof (induction tcs arbitrary: g)
  case (Cons tc tcs)
  obtain a g2 where 2: "read_agent env g = (a, g2)" by fastforce
  from read_agent_runs [OF this] obtain k where k: "runs env r 0 g g2" "a = ge_agent env k" by blast
  show ?case
  proof (cases "validateToolCall env a (tl_Name tc) (tl_Arguments tc)")
    case None
    with Cons.prems 2 have "validate_calls env tcs g2 = (res, g1)" by simp
    from Cons.IH [OF this] None k show ?thesis
      using runs_trans [OF k(1), of 0 g1] by (auto simp: permitted_def)
  qed (use Cons.prems 2 k in auto)
qed simp

lemma tool_phase_ok: "phase_ok env r g (tool_phase env r content calls ms g)"
proof -
  obtain res g1 where 1: "validate_calls env calls g = (res, g1)" by fastforce
  note v = validate_calls_ok [OF this, of r]
  show ?thesis
  proof (rule phase_after, use v in blast, cases res)
    case (Some x)
    with 1 show "phase_ok env r g1 (tool_phase env r content calls ms g)"
      by (auto simp: tool_phase_def phase_ok_def ends_send closing_types_def split: prod.splits)
  next
    case None
    let ?g2 = "emitRuntimeEvent r ((openclaw_event ''sessions_yield'' ''run.yielded'' ''Session yielded''
        (''OpenClaw requested '' @ Itoa (int (length calls)) @ '' tool action(s).'') ''pending''
        [(''tool_count'', JNum (of_nat (length calls)))])\<lparr>re_Binding := ''tool_execution''\<rparr>) g1"
    obtain a g3 where 3: "read_agent env ?g2 = (a, g3)" by fastforce
    from read_agent_runs [OF this] obtain k where k: "runs env r 0 ?g2 g3" "a = ge_agent env k" by blast
    have "runs env r 0 g1 g3" using runs_trans [OF emitRuntimeEvent_runs k(1)] by simp
    moreover have "phase_ok env r g3 (tool_phase env r content calls ms g)"
      using run_calls_ok v None 1 3 k(2) by (simp add: tool_phase_def)
    ultimately show "phase_ok env r g1 (tool_phase env r content calls ms g)" by (rule phase_after)
  qed
qed

section \<open>The loop\<close>

lemma callOpenClaw_runs: "callOpenClaw env ms g = (res, g1) \<Longrightarrow> runs env r 1 g g1"
  by (auto simp: callOpenClaw_def http_Do_def runs_def emit_def asked_def)

lemma tool_loop_ends: "ends env r n g (tool_loop env r n ms g)"
proof (induction n arbitrary: ms g)
  case 0
  show ?case using runs_then_ends [OF emitRunFailed_runs sendError_ends] by simp
next
  case (Suc n)
  obtain res g1 where 1: "callOpenClaw env ms g = (res, g1)" by fastforce
  have s: "ends env r (Suc n) g g'" if "ends env r n g1 g'" for g'
    using runs_ends [OF callOpenClaw_runs [OF 1] that] by simp
  show ?case
  proof (cases res)
    case (Inl e)
    with 1 show ?thesis
      using s [OF ends_mono [OF runs_then_ends [OF emitRunFailed_runs sendError_ends]]] by simp
  next
    case (Inr x)
    obtain content calls where x: "x = (content, calls)" by fastforce
    obtain a g2 where 2: "read_agent env g1 = (a, g2)" by fastforce
    from read_agent_runs [OF this] obtain k where k: "runs env r 0 g1 g2" "a = ge_agent env k" by blast
    have s2: "ends env r (Suc n) g g'" if "ends env r n g2 g'" for g'
      using s runs_ends [OF k(1) that] by simp
    show ?thesis
    proof (cases "checkCanary a content")
      case (Some token)
      with 1 2 Inr x show ?thesis using s2 [OF ends_mono [OF session_halt_ends]] by simp
    next
      case clean: None
      then have "canary_free env content" using k by (auto simp: canary_free_def)
      then have fin: "calls = [] \<Longrightarrow> ?thesis"
        using s2 [OF ends_mono [OF runs_then_ends [OF emitRuntimeEvent_runs done_ends]]] clean 1 2 Inr x
        by simp
      obtain res3 g3 where 3: "tool_phase env r content calls ms g2 = (res3, g3)" by fastforce
      note p = tool_phase_ok [of env r g2 content calls ms, unfolded 3 phase_ok_def]
      show ?thesis
      proof (cases res3)
        case None
        then show ?thesis using fin p s2 [OF ends_mono] clean 1 2 3 Inr x by auto
      next
        case (Some ms')
        then have "ends env r n g2 (tool_loop env r n ms' g3)"
          using runs_ends [of env r 0 g2 g3 n] Suc.IH p by simp
        then show ?thesis using Some fin s2 clean 1 2 3 Inr x by auto
      qed
    qed
  qed
qed

lemma forwardToOpenClaw_ends: "ends env (fr_ID frame) 10 g (forwardToOpenClaw env frame g)"
proof -
  let ?r = "fr_ID frame"
  have "ends env ?r 10 g (tool_loop env ?r 10 ms (emitRuntimeEvent ?r e g))" for ms e
    using runs_ends [OF emitRuntimeEvent_runs tool_loop_ends] by simp
  moreover have "ends env ?r 10 g (sendError ?r code m g)" for code m
    by (rule ends_mono [OF sendError_ends]) simp
  ultimately show ?thesis
    by (simp add: forwardToOpenClaw_def Let_def maxToolIterations_def split: option.splits)
qed

section \<open>Properties\<close>

lemma progressD:
  "progress env r (CalledTool c n args q) \<Longrightarrow> cleared env c n args"
  "progress env r (Sent f) \<Longrightarrow> fr_ID f = r \<and> fr_Type f \<in> progress_types"
  by simp_all

text \<open>
  C6: Every tool call the agent makes while it works on a message was cleared: the connector is
  one of its configuration and offers the tool, the allow-list and the parameter policy in force
  at the check admit the call, and the connector's governance neither blocks the tool nor asks
  for an approval. This holds for every behaviour of the model and the connectors, and however
  the configuration is replaced during the run.
\<close>

theorem guest_calls_are_cleared:
  "{(c, n, args). \<exists>q. CalledTool c n args q \<in>
       set (drop (length (gs_trace g)) (gs_trace (forwardToOpenClaw env frame g)))}
   \<subseteq> {(c, n, args). cleared env c n args}"
proof -
  obtain tr e where "gs_trace (forwardToOpenClaw env frame g) = gs_trace g @ tr @ [e]"
    "list_all (progress env (fr_ID frame)) tr" "closing env (fr_ID frame) e"
    using forwardToOpenClaw_ends [of env frame g] unfolding ends_def by blast
  then show ?thesis by (auto simp: closing_def list_all_iff dest: progressD(1))
qed


end
