(* ===== verification/Action_Resumer.thy ===== *)
theory Action_Resumer
  imports Connector_Approval Guest_Properties
begin

text \<open>
  The resolution of a governed connector action after its approval or denial
  (\<open>internal/proxy/connector_action_resumer.go\<close>): the action is marked, an approved one is sent to
  its agent, and the agent's answer decides whether it counts as executed.

  The lookup of the agent is an interface; the connection pool, the send and the receives of the
  request stream are given by their results, up to the deadline of 30 seconds.
\<close>

section \<open>The resolver\<close>

record resolver_env =
  rv_parse_uuid :: "string \<Rightarrow> uuid option"
  rv_show_uuid :: "uuid \<Rightarrow> string"
  rv_bytes_of :: "raw_json \<Rightarrow> string"
  rv_agents :: "uuid \<Rightarrow> AgentInstance orch_op"
  rv_conn :: "string option" \<comment> \<open>the error of \<open>connPool.Get\<close>\<close>
  rv_request_id :: string
  rv_send :: "string option" \<comment> \<open>the error of \<open>SendRequest\<close>\<close>
  rv_replies :: "(string + Frame) list" \<comment> \<open>the results of \<open>stream.Recv\<close>\<close>
  rv_audit :: bool

record resume_audit =
  ra_TenantID :: uuid
  ra_UserID :: "uuid option"
  ra_Action :: string
  ra_ConnectorID :: uuid
  ra_Metadata :: "(string \<times> json) list"

datatype resume_event = Audited resume_audit | SentResume uuid Frame

type_synonym 'a resolved = "(gov_error + 'a) \<times> db \<times> resume_event list"

definition extractActionID :: "(string \<Rightarrow> uuid option) \<Rightarrow> (string \<times> json) list \<Rightarrow> uuid option" where
  "extractActionID parse_uuid metadata =
     (case map_of metadata ''governed_action_id'' of
        Some (JStr t) \<Rightarrow> parse_uuid t
      | _ \<Rightarrow> None)"

definition logConnectorAudit ::
  "resolver_env \<Rightarrow> Request \<Rightarrow> GovernedAction \<Rightarrow> string \<Rightarrow> resume_event list" where
  "logConnectorAudit env request action name =
     (if \<not> rv_audit env then []
      else
        [Audited \<lparr>ra_TenantID = rq_TenantID request, ra_UserID = rq_ReviewedBy request, ra_Action = name,
           ra_ConnectorID = ga_ConnectorID action,
           ra_Metadata =
             [(''approval_id'', JStr (rv_show_uuid env (rq_ID request))),
              (''governed_action_id'', JStr (rv_show_uuid env (ga_ID action))),
              (''connector_id'', JStr (rv_show_uuid env (ga_ConnectorID action))),
              (''tool_name'', JStr (ga_ToolName action)), (''risk_class'', JStr (ga_RiskClass action)),
              (''target_type'', JStr (ga_TargetType action)), (''target_label'', JStr (ga_TargetLabel action)),
              (''correlation_id'', JStr (ga_CorrelationID action)), (''session_id'', JStr (ga_SessionID action))]\<rparr>])"

definition markActionFailed :: "uuid \<Rightarrow> uuid \<Rightarrow> db \<Rightarrow> db" where
  "markActionFailed tenantID actionID s = snd (WithTenantConnection tenantID (MarkFailed actionID) s)"

definition failConnectorAction ::
  "resolver_env \<Rightarrow> uuid \<Rightarrow> Request \<Rightarrow> GovernedAction \<Rightarrow> gov_error \<Rightarrow> db \<Rightarrow> unit resolved" where
  "failConnectorAction env tenantID request action err s =
     (Inl err, markActionFailed tenantID (ga_ID action) s,
      logConnectorAudit env request action ''connector.write.failed'')"

text \<open>The marking of the action, in one connection.\<close>

definition mark_resolved :: "uuid \<Rightarrow> bool \<Rightarrow> GovernedAction gov_op" where
  "mark_resolved actionID approved s =
     (case ga_GetByID actionID s of
        (Inl e, s1) \<Rightarrow> (Inl e, s1)
      | (Inr action, s1) \<Rightarrow>
          if approved then MarkApproved (ga_ID action) s1 else MarkDenied (ga_ID action) s1)"

definition resume_payload :: "resolver_env \<Rightarrow> Request \<Rightarrow> GovernedAction \<Rightarrow> json" where
  "resume_payload env request action =
     JObj ((''action_id'', JStr (rv_show_uuid env (ga_ID action))) #
           omit_empty ''approval_id'' (rv_show_uuid env (rq_ID request)) @
           omit_empty ''connector_id'' (rv_show_uuid env (ga_ConnectorID action)) @
           [(''tool_name'', JStr (ga_ToolName action))] @
           omit_empty ''arguments'' (rv_bytes_of env (ga_Arguments action)) @
           omit_empty ''risk_class'' (ga_RiskClass action))"

datatype resume_answer = AnswerExecuted | AnswerFailed | AnswerNone string

text \<open>Frames of any other type are passed over.\<close>

fun await_result :: "(string + Frame) list \<Rightarrow> resume_answer" where
  "await_result [] = AnswerNone ''context deadline exceeded''"
| "await_result (Inl e # replies) = AnswerNone e"
| "await_result (Inr reply # replies) =
     (if fr_Type reply = ''tool_executed'' then AnswerExecuted
      else if fr_Type reply \<in> {''tool_failed'', ''error''} then AnswerFailed
      else await_result replies)"

definition finish_resume ::
  "resolver_env \<Rightarrow> uuid \<Rightarrow> Request \<Rightarrow> GovernedAction \<Rightarrow> db \<Rightarrow> unit resolved" where
  "finish_resume env tenantID request action s =
     (case await_result (rv_replies env) of
        AnswerNone e \<Rightarrow>
          failConnectorAction env tenantID request action
            (Wrap ''waiting for connector action resume result'' (NewError e)) s
      | AnswerFailed \<Rightarrow>
          failConnectorAction env tenantID request action
            (NewError ''approved connector action execution failed'') s
      | AnswerExecuted \<Rightarrow>
          (case WithTenantConnection tenantID (MarkExecuted (ga_ID action)) s of
             (Inl e, s1) \<Rightarrow> (Inl e, s1, [])
           | (Inr _, s1) \<Rightarrow> (Inr (), s1, logConnectorAudit env request action ''connector.write.executed'')))"

definition with_log :: "resume_event list \<Rightarrow> 'a resolved \<Rightarrow> 'a resolved" where
  "with_log evs r = (case r of (res, s, evs') \<Rightarrow> (res, s, evs @ evs'))"

definition resume_approved ::
  "resolver_env \<Rightarrow> uuid \<Rightarrow> Request \<Rightarrow> GovernedAction \<Rightarrow> db \<Rightarrow> unit resolved" where
  "resume_approved env tenantID request action s =
     (case ga_AgentID action of
        None \<Rightarrow> (Inl (NewError ''governed action has no agent context''), s, [])
      | Some agentID \<Rightarrow>
          (case rv_agents env agentID s of
             (Inl e, s1) \<Rightarrow>
               failConnectorAction env tenantID request action (NewError ''loading agent for governed action'') s1
           | (Inr inst, s1) \<Rightarrow>
               if ai_Status inst \<noteq> StatusRunning \<or> ai_VsockCID inst = None
               then failConnectorAction env tenantID request action
                      (NewError ''agent is not running for governed action'') s1
               else case rv_conn env of
                   Some e \<Rightarrow>
                     failConnectorAction env tenantID request action
                       (Wrap ''connecting to agent for governed action'' (NewError e)) s1
                 | None \<Rightarrow>
                     (let frame = \<lparr>fr_Type = ''connector_action_resume'', fr_ID = rv_request_id env,
                                   fr_Payload = RawJSON (resume_payload env request action)\<rparr> in
                      with_log [SentResume agentID frame]
                        (case rv_send env of
                           Some e \<Rightarrow>
                             failConnectorAction env tenantID request action
                               (Wrap ''sending connector action resume request'' (NewError e)) s1
                         | None \<Rightarrow> finish_resume env tenantID request action s1))))"

text \<open>\<open>ready\<close> says whether the resolver has all its parts.\<close>

definition ResolveConnectorAction ::
  "resolver_env \<Rightarrow> bool \<Rightarrow> uuid \<Rightarrow> Request option \<Rightarrow> bool \<Rightarrow> db \<Rightarrow> unit resolved" where
  "ResolveConnectorAction env ready tenantID req approved s =
     (if \<not> ready then (Inl (NewError ''connector action resolver unavailable''), s, [])
      else case req of
          None \<Rightarrow> (Inl (NewError ''approval request required''), s, [])
        | Some request \<Rightarrow>
            (case extractActionID (rv_parse_uuid env) (rq_Metadata request) of
               None \<Rightarrow> (Inr (), s, [])
             | Some actionID \<Rightarrow>
                 (case WithTenantConnection tenantID (mark_resolved actionID approved) s of
                    (Inl e, s1) \<Rightarrow> (Inl e, s1, [])
                  | (Inr action, s1) \<Rightarrow>
                      if \<not> approved then
                        (Inr (), s1, logConnectorAudit env request action ''connector.write.denied'')
                      else
                        with_log (logConnectorAudit env request action ''connector.write.approved'')
                          (resume_approved env tenantID request action s1))))"

text \<open>The resolver as the approval handlers use it.\<close>

definition connector_resolver :: "resolver_env \<Rightarrow> resolver" where
  "connector_resolver env tenantID request approved s =
     (case ResolveConnectorAction env True tenantID (Some request) approved s of (r, s1, _) \<Rightarrow> (r, s1))"

section \<open>Marking without faults\<close>

definition the_action :: "uuid \<Rightarrow> uuid \<Rightarrow> db \<Rightarrow> GovernedAction option" where
  "the_action t i s = find (\<lambda>r. ga_ID r = i \<and> ga_TenantID r = t) (db_actions s)"

text \<open>A calm database: no faults ahead, and every action has its own identifier.\<close>

definition calm_db :: "db \<Rightarrow> bool" where
  "calm_db s \<longleftrightarrow> db_faults s = [] \<and> distinct (map ga_ID (db_actions s))"

lemma unique_action:
  assumes "distinct (map ga_ID rs)" "find (\<lambda>r. ga_ID r = i \<and> ga_TenantID r = t) rs = Some a"
  shows "find (\<lambda>r. ga_ID r = i \<and> ga_TenantID r = t \<and> ga_Status r \<in> A) rs = (if ga_Status a \<in> A then Some a else None)"
  using assms
proof (induction rs)
  case (Cons r rs)
  show ?case
  proof (cases "ga_ID r = i")
    case True
    with Cons.prems have "\<forall>x \<in> set rs. ga_ID x \<noteq> i" by (auto simp: image_iff)
    then have "find (\<lambda>r. ga_ID r = i \<and> P r) rs = None" for P by (auto simp: find_None_iff)
    with True Cons.prems show ?thesis by (auto split: if_splits)
  qed (use Cons in simp)
qed simp

lemma updateStatus_calm:
  assumes "calm_db s" "db_tenant s = Some t" "the_action t i s = Some a"
  shows "updateStatus i 0 st allowed s =
    (if ga_Status a \<in> set allowed
     then (Inr (move_action None st (db_now s) a),
           s\<lparr>db_actions := upd_where (\<lambda>r. ga_ID r = i \<and> ga_TenantID r = t \<and> ga_Status r \<in> set allowed)
                             (move_action None st (db_now s)) (db_actions s)\<rparr>)
     else (Inl (Sentinel ErrGovernedActionInvalidTransition), s))"
proof -
  have "find (\<lambda>r. ga_ID r = i \<and> ga_TenantID r = t \<and> ga_Status r \<in> set allowed) (db_actions s) =
      (if ga_Status a \<in> set allowed then Some a else None)"
    using assms by (intro unique_action) (auto simp: calm_db_def the_action_def)
  moreover have own: "own s x \<longleftrightarrow> x = t" for x using assms(2) by (auto simp: own_def)
  ultimately show ?thesis using assms
    by (simp add: updateStatus_def update_action_def ga_GetByID_def checked_def query_row_def calm_db_def
        the_action_def Let_def)
qed

definition others_same :: "uuid \<Rightarrow> db \<Rightarrow> db \<Rightarrow> bool" where
  "others_same i s s' \<longleftrightarrow> (\<forall>u j. j \<noteq> i \<longrightarrow> the_action u j s' = the_action u j s)"

lemma others_trans: "others_same i s s1 \<Longrightarrow> others_same i s1 s2 \<Longrightarrow> others_same i s s2"
  by (simp add: others_same_def)

lemma move_action_simps [simp]:
  "ga_ID (move_action ar st now r) = ga_ID r" "ga_TenantID (move_action ar st now r) = ga_TenantID r"
  "ga_Status (move_action ar st now r) = st" "ga_AgentID (move_action ar st now r) = ga_AgentID r"
  by (simp_all add: move_action_def)

text \<open>One marking in a connection of its own.\<close>

lemma mark_connection:
  assumes "calm_db s" "the_action t i s = Some a" "ga_Status a \<in> set allowed"
  shows "\<exists>s'. WithTenantConnection t (updateStatus i 0 st allowed) s = (Inr (move_action None st (db_now s) a), s') \<and>
    calm_db s' \<and> the_action t i s' = Some (move_action None st (db_now s) a) \<and> others_same i s s' \<and>
    db_agents s' = db_agents s"
proof -
  let ?s = "s\<lparr>db_tenant := Some t\<rparr>"
  let ?p = "\<lambda>r. ga_ID r = i \<and> ga_TenantID r = t \<and> ga_Status r \<in> set allowed"
  let ?f = "move_action None st (db_now s)"
  let ?s2 = "?s\<lparr>db_actions := upd_where ?p ?f (db_actions s)\<rparr>"
  have "updateStatus i 0 st allowed ?s = (Inr (?f a), ?s2)"
    using updateStatus_calm [of ?s t i a st allowed] assms by (simp add: calm_db_def the_action_def)
  then have 1: "WithTenantConnection t (updateStatus i 0 st allowed) s = (Inr (?f a), ?s2\<lparr>db_tenant := None\<rparr>)"
    using assms(1) by (intro connection_no_faults) (simp_all add: calm_db_def)
  let ?s3 = "?s2\<lparr>db_tenant := None\<rparr>"
  have f: "the_action u j ?s3 = map_option (\<lambda>r. if ?p r then ?f r else r) (the_action u j s)" for u j
  proof -
    have "find (\<lambda>r. ga_ID r = j \<and> ga_TenantID r = u) (upd_where ?p ?f (db_actions s)) =
        map_option (\<lambda>r. if ?p r then ?f r else r) (find (\<lambda>r. ga_ID r = j \<and> ga_TenantID r = u) (db_actions s))"
      by (rule find_upd_where) simp
    then show ?thesis by (simp add: the_action_def)
  qed
  have "ga_ID r = j" if "the_action u j s = Some r" for u j r
    using that by (auto simp: the_action_def dest: find_SomeD)
  then have "the_action u j ?s3 = the_action u j s" if "j \<noteq> i" for u j
    unfolding f using that by (cases "the_action u j s") auto
  then have "others_same i s ?s3" by (simp add: others_same_def)
  moreover have "ga_ID a = i" "ga_TenantID a = t"
    using assms(2) by (auto simp: the_action_def dest: find_SomeD)
  then have "the_action t i ?s3 = Some (?f a)" unfolding f using assms(2,3) by simp
  moreover have "calm_db ?s3"
    using assms(1) by (simp add: calm_db_def map_upd_where_id)
  ultimately show ?thesis using 1 by auto
qed

lemma mark_refused:
  assumes "calm_db s" "the_action t i s = Some a" "ga_Status a \<notin> set allowed"
  shows "WithTenantConnection t (updateStatus i 0 st allowed) s =
    (Inl (Sentinel ErrGovernedActionInvalidTransition), s\<lparr>db_tenant := None\<rparr>)"
proof -
  let ?s = "s\<lparr>db_tenant := Some t\<rparr>"
  have "updateStatus i 0 st allowed ?s = (Inl (Sentinel ErrGovernedActionInvalidTransition), ?s)"
    using updateStatus_calm [of ?s t i a st allowed] assms by (simp add: calm_db_def the_action_def)
  then show ?thesis
    using connection_no_faults [of s "updateStatus i 0 st allowed" t] assms(1) by (simp add: calm_db_def)
qed

text \<open>The lookup before the marking finds the same action.\<close>

lemma mark_resolved_calm:
  assumes "calm_db s" "the_action t i s = Some a"
  shows "WithTenantConnection t (mark_resolved i approved) s =
    WithTenantConnection t
      (updateStatus i 0 (if approved then GovernedActionStatusApproved else GovernedActionStatusDenied)
         [GovernedActionStatusAwaitingApproval, GovernedActionStatusPending]) s"
proof -
  let ?s = "s\<lparr>db_tenant := Some t\<rparr>"
  have "own ?s x \<longleftrightarrow> x = t" for x by (auto simp: own_def)
  then have g: "ga_GetByID i ?s = (Inr a, ?s)"
    using assms by (simp add: ga_GetByID_def query_row_def calm_db_def the_action_def)
  have "ga_ID a = i" using assms(2) by (auto simp: the_action_def dest: find_SomeD)
  with g have m: "mark_resolved i approved ?s =
      updateStatus i 0 (if approved then GovernedActionStatusApproved else GovernedActionStatusDenied)
        [GovernedActionStatusAwaitingApproval, GovernedActionStatusPending] ?s"
    by (simp add: mark_resolved_def MarkApproved_def MarkDenied_def)
  have "acquire t s = (Inr () :: gov_error + unit, ?s)" using assms(1) by (simp add: acquire_def calm_db_def)
  with m show ?thesis by (simp add: WithTenantConnection_def)
qed

section \<open>How an action is settled\<close>

text \<open>The agent of the action can be asked: it runs, and the frame goes out.\<close>

definition agent_up :: "uuid \<Rightarrow> db \<Rightarrow> bool" where
  "agent_up i s \<longleftrightarrow>
     (\<exists>inst. find (\<lambda>r. ai_ID r = i) (db_agents s) = Some inst \<and> ai_Status inst = StatusRunning \<and>
        ai_VsockCID inst \<noteq> None)"

definition reachable :: "resolver_env \<Rightarrow> GovernedAction \<Rightarrow> db \<Rightarrow> bool" where
  "reachable env a s \<longleftrightarrow> (\<exists>i. ga_AgentID a = Some i \<and> agent_up i s) \<and> rv_conn env = None"

text \<open>The abstract outcome of a resolution.\<close>

definition settled_status :: "resolver_env \<Rightarrow> bool \<Rightarrow> GovernedAction \<Rightarrow> db \<Rightarrow> GovernedActionStatus" where
  "settled_status env approved a s =
     (if \<not> approved then GovernedActionStatusDenied
      else if ga_AgentID a = None then GovernedActionStatusApproved
      else if reachable env a s \<and> rv_send env = None \<and> await_result (rv_replies env) = AnswerExecuted
      then GovernedActionStatusExecuted
      else GovernedActionStatusFailed)"

definition status_is :: "uuid \<Rightarrow> uuid \<Rightarrow> GovernedActionStatus \<Rightarrow> db \<Rightarrow> bool" where
  "status_is t i st s \<longleftrightarrow> map_option ga_Status (the_action t i s) = Some st"

lemma the_action_IDs: "the_action t i s = Some a \<Longrightarrow> ga_ID a = i \<and> ga_TenantID a = t"
  by (auto simp: the_action_def dest: find_SomeD)

lemma fail_settles:
  assumes "calm_db s" "the_action t i s = Some a" "ga_Status a = GovernedActionStatusApproved"
    "failConnectorAction env t request a err s = (res, s', evs)"
  shows "res = Inl err \<and> status_is t i GovernedActionStatusFailed s' \<and> others_same i s s' \<and>
    (\<forall>ag f. SentResume ag f \<notin> set evs)"
proof -
  have "ga_ID a = i" using assms(2) the_action_IDs by blast
  moreover obtain s1 where "WithTenantConnection t (MarkFailed i) s =
      (Inr (move_action None GovernedActionStatusFailed (db_now s) a), s1)"
    "the_action t i s1 = Some (move_action None GovernedActionStatusFailed (db_now s) a)" "others_same i s s1"
    using mark_connection [OF assms(1,2), of "[GovernedActionStatusPending,
        GovernedActionStatusAwaitingApproval, GovernedActionStatusApproved]" GovernedActionStatusFailed] assms(3)
    unfolding MarkFailed_def by auto
  ultimately show ?thesis using assms(4)
    by (auto simp: failConnectorAction_def markActionFailed_def status_is_def logConnectorAudit_def split: if_splits)
qed

lemma execute_settles:
  assumes "calm_db s" "the_action t i s = Some a" "ga_Status a = GovernedActionStatusApproved"
  shows "\<exists>x s'. WithTenantConnection t (MarkExecuted (ga_ID a)) s = (Inr x, s') \<and>
    status_is t i GovernedActionStatusExecuted s' \<and> others_same i s s'"
proof -
  have "ga_ID a = i" using assms(2) the_action_IDs by blast
  then show ?thesis
    using mark_connection [OF assms(1,2), of "[GovernedActionStatusApproved, GovernedActionStatusPending]"
        GovernedActionStatusExecuted] assms(3)
    unfolding MarkExecuted_def by (auto simp: status_is_def)
qed

lemma finish_settles:
  assumes "calm_db s" "the_action t i s = Some a" "ga_Status a = GovernedActionStatusApproved"
    "finish_resume env t request a s = (res, s', evs)"
  shows "(if await_result (rv_replies env) = AnswerExecuted
      then res = Inr () \<and> status_is t i GovernedActionStatusExecuted s'
      else res \<noteq> Inr () \<and> status_is t i GovernedActionStatusFailed s') \<and>
    others_same i s s' \<and> (\<forall>ag f. SentResume ag f \<notin> set evs)"
proof (cases "await_result (rv_replies env)")
  case AnswerExecuted
  then show ?thesis using assms(4) execute_settles [OF assms(1-3)]
    by (auto simp: finish_resume_def logConnectorAudit_def split: if_splits)
next
  case AnswerFailed
  with assms(4) have "failConnectorAction env t request a
      (NewError ''approved connector action execution failed'') s = (res, s', evs)"
    by (simp add: finish_resume_def)
  from fail_settles [OF assms(1-3) this] AnswerFailed show ?thesis by simp
next
  case (AnswerNone e)
  with assms(4) have "failConnectorAction env t request a
      (Wrap ''waiting for connector action resume result'' (NewError e)) s = (res, s', evs)"
    by (simp add: finish_resume_def)
  from fail_settles [OF assms(1-3) this] AnswerNone show ?thesis by simp
qed

lemma agent_GetByID_calm:
  "db_faults s = [] \<Longrightarrow> agent_GetByID i s =
     (case find (\<lambda>r. ai_ID r = i) (db_agents s) of
        None \<Rightarrow> Inl (Sentinel ErrVMNotFound) | Some inst \<Rightarrow> Inr inst, s)"
  by (simp add: agent_GetByID_def query_row_def split: option.splits)

definition resume_frame :: "resolver_env \<Rightarrow> Request \<Rightarrow> GovernedAction \<Rightarrow> Frame" where
  "resume_frame env request a =
     \<lparr>fr_Type = ''connector_action_resume'', fr_ID = rv_request_id env,
      fr_Payload = RawJSON (resume_payload env request a)\<rparr>"

lemma resume_settles:
  assumes "calm_db s" "the_action t i s = Some a" "ga_Status a = GovernedActionStatusApproved"
    "rv_agents env = agent_GetByID" "resume_approved env t request a s = (res, s', evs)"
  shows "status_is t i (settled_status env True a s) s' \<and> others_same i s s' \<and>
    (res = Inr () \<longleftrightarrow> settled_status env True a s = GovernedActionStatusExecuted) \<and>
    (\<forall>ag f. SentResume ag f \<in> set evs \<longleftrightarrow>
       reachable env a s \<and> ga_AgentID a = Some ag \<and> f = resume_frame env request a)"
proof (cases "reachable env a s")
  case True
  then obtain ag inst where ag: "ga_AgentID a = Some ag" "find (\<lambda>r. ai_ID r = ag) (db_agents s) = Some inst"
    "ai_Status inst = StatusRunning" "ai_VsockCID inst \<noteq> None" "rv_conn env = None"
    by (auto simp: reachable_def agent_up_def)
  define r where "r = (case rv_send env of
      Some e \<Rightarrow> failConnectorAction env t request a (Wrap ''sending connector action resume request'' (NewError e)) s
    | None \<Rightarrow> finish_resume env t request a s)"
  have "(res, s', evs) = with_log [SentResume ag (resume_frame env request a)] r"
    using assms ag
    by (simp add: resume_approved_def agent_GetByID_calm calm_db_def r_def resume_frame_def Let_def)
  then obtain evs1 where r: "r = (res, s', evs1)" "evs = SentResume ag (resume_frame env request a) # evs1"
    by (cases r) (auto simp: with_log_def)
  show ?thesis
  proof (cases "rv_send env")
    case None
    then show ?thesis
      using finish_settles [OF assms(1-3), of env request res s' evs1] r True ag(1)
      by (auto simp: r_def settled_status_def split: if_splits)
  next
    case (Some e)
    then show ?thesis
      using fail_settles [OF assms(1-3), of env request _ res s' evs1] r True ag(1)
      by (auto simp: r_def settled_status_def)
  qed
next
  case False
  show ?thesis
  proof (cases "ga_AgentID a")
    case None
    then show ?thesis using assms False
      by (auto simp: resume_approved_def settled_status_def status_is_def others_same_def)
  next
    case (Some ag)
    with False assms obtain err where "failConnectorAction env t request a err s = (res, s', evs)"
      by (auto simp: resume_approved_def agent_GetByID_calm calm_db_def reachable_def agent_up_def
          split: option.splits if_splits)
    from fail_settles [OF assms(1-3) this] Some False show ?thesis
      by (auto simp: settled_status_def)
  qed
qed

lemma moved_frame: "resume_frame env request (move_action ar st now a) = resume_frame env request a"
  by (simp add: resume_frame_def resume_payload_def move_action_def)

lemma moved_reachable:
  "db_agents s' = db_agents s \<Longrightarrow> reachable env (move_action ar st now a) s' = reachable env a s"
  by (simp add: reachable_def agent_up_def)

lemma moved_settled:
  "db_agents s' = db_agents s \<Longrightarrow>
   settled_status env b (move_action ar st now a) s' = settled_status env b a s"
  unfolding settled_status_def by (simp add: moved_reachable)

definition open_action :: "GovernedAction \<Rightarrow> bool" where
  "open_action a \<longleftrightarrow> ga_Status a \<in> {GovernedActionStatusPending, GovernedActionStatusAwaitingApproval}"

lemma resolve_open:
  assumes "calm_db s" "the_action t i s = Some a" "open_action a" "rv_agents env = agent_GetByID"
    "extractActionID (rv_parse_uuid env) (rq_Metadata request) = Some i"
    "ResolveConnectorAction env True t (Some request) approved s = (res, s', evs)"
  shows "status_is t i (settled_status env approved a s) s' \<and> others_same i s s' \<and>
    (res = Inr () \<longleftrightarrow> settled_status env approved a s \<in> {GovernedActionStatusDenied, GovernedActionStatusExecuted}) \<and>
    (\<forall>ag f. SentResume ag f \<in> set evs \<longleftrightarrow>
       approved \<and> reachable env a s \<and> ga_AgentID a = Some ag \<and> f = resume_frame env request a)"
proof -
  let ?st = "if approved then GovernedActionStatusApproved else GovernedActionStatusDenied"
  let ?a = "move_action None ?st (db_now s) a"
  obtain s1 where w: "WithTenantConnection t (mark_resolved i approved) s = (Inr ?a, s1)"
    and s1: "calm_db s1" "the_action t i s1 = Some ?a" "others_same i s s1" "db_agents s1 = db_agents s"
    using mark_connection [OF assms(1,2), of "[GovernedActionStatusAwaitingApproval, GovernedActionStatusPending]" ?st]
      assms(3) mark_resolved_calm [OF assms(1,2)] by (auto simp: open_action_def)
  show ?thesis
  proof (cases approved)
    case False
    with w assms(5,6) s1 show ?thesis
      by (auto simp: ResolveConnectorAction_def settled_status_def status_is_def logConnectorAudit_def
          split: if_splits)
  next
    case True
    obtain evs1 where r: "resume_approved env t request ?a s1 = (res, s', evs1)"
      and "evs = logConnectorAudit env request ?a ''connector.write.approved'' @ evs1"
      using True w assms(5,6)
      by (cases "resume_approved env t request ?a s1") (auto simp: ResolveConnectorAction_def with_log_def)
    then have e: "SentResume ag f \<in> set evs \<longleftrightarrow> SentResume ag f \<in> set evs1" for ag f
      by (auto simp: logConnectorAudit_def)
    have "ga_Status ?a = GovernedActionStatusApproved" using True by simp
    from resume_settles [OF s1(1,2) this assms(4) r] show ?thesis
      using True e others_trans [OF s1(3)] moved_settled [OF s1(4)] moved_reachable [OF s1(4)]
      by (simp add: moved_frame) (auto simp: settled_status_def)
  qed
qed

lemma resolve_closed:
  assumes "calm_db s" "the_action t i s = Some a" "\<not> open_action a"
    "extractActionID (rv_parse_uuid env) (rq_Metadata request) = Some i"
    "ResolveConnectorAction env True t (Some request) approved s = (res, s', evs)"
  shows "res = Inl (Sentinel ErrGovernedActionInvalidTransition) \<and> db_actions s' = db_actions s \<and> evs = []"
  using assms(3-5) mark_resolved_calm [OF assms(1,2), of approved]
    mark_refused [OF assms(1,2), of "[GovernedActionStatusAwaitingApproval, GovernedActionStatusPending]"]
  by (auto simp: ResolveConnectorAction_def open_action_def)

text \<open>
  C25: Resolving a governed action settles it, and at most once. An action still open ends denied,
  executed, failed, or (when it has no agent) approved, exactly as the agent's answer says; the
  resume frame goes out only for an approved action, to the agent of that action, with its tool and
  arguments, and only if the agent runs and is connected; the call succeeds only for a denied or an
  executed action. An action that is no longer open is refused, and nothing is sent. No other
  action changes.
\<close>

theorem action_settled_once:
  assumes "calm_db s" "the_action t i s = Some a" "rv_agents env = agent_GetByID"
    and "extractActionID (rv_parse_uuid env) (rq_Metadata request) = Some i"
    and "ResolveConnectorAction env True t (Some request) approved s = (res, s', evs)"
  shows "if open_action a
    then status_is t i (settled_status env approved a s) s' \<and> others_same i s s' \<and>
      (res = Inr () \<longleftrightarrow> settled_status env approved a s \<in> {GovernedActionStatusDenied, GovernedActionStatusExecuted}) \<and>
      (\<forall>ag f. SentResume ag f \<in> set evs \<longleftrightarrow>
         approved \<and> reachable env a s \<and> ga_AgentID a = Some ag \<and> f = resume_frame env request a)
    else res = Inl (Sentinel ErrGovernedActionInvalidTransition) \<and> db_actions s' = db_actions s \<and> evs = []"
  using resolve_open [OF assms(1,2) _ assms(3-5)] resolve_closed [OF assms(1,2) _ assms(4,5)]
  by simp

definition waiting_action :: GovernedAction where
  "waiting_action =
     \<lparr>ga_ID = 9, ga_TenantID = 1, ga_AgentID = Some 5, ga_ApprovalRequestID = Some 4, ga_ConnectorID = 7,
      ga_SessionID = ''s'', ga_CorrelationID = ''c'', ga_ToolName = ''post'', ga_RiskClass = ''external_writes'',
      ga_TargetType = ''page'', ga_TargetLabel = ''home'', ga_ActionSummary = ''post'',
      ga_Arguments = RawJSON (JObj []), ga_Status = GovernedActionStatusAwaitingApproval, ga_CreatedAt = 1,
      ga_UpdatedAt = 1\<rparr>"

definition running_agent :: AgentInstance where
  "running_agent =
     \<lparr>ai_ID = 5, ai_TenantID = Some 1, ai_UserID = None, ai_DepartmentID = None, ai_VMID = Some ''vm'',
      ai_Status = StatusRunning, ai_Config = RawJSON (JObj []), ai_VsockCID = Some 3, ai_VMDriver = ''mock'',
      ai_ToolAllowlist = RawJSON (JArr []), ai_ConsecutiveFailures = 0, ai_CreatedAt = 1,
      ai_LastHealthCheck = None\<rparr>"

definition approval_db :: db where
  "approval_db = empty_db\<lparr>db_tenants := [1], db_agents := [running_agent], db_actions := [waiting_action]\<rparr>"

definition approved_request :: Request where
  "approved_request =
     \<lparr>rq_ID = 4, rq_TenantID = 1, rq_AgentID = Some 5, rq_RequestedBy = None, rq_ReviewedBy = Some 8,
      rq_ChannelOutboxID = None, rq_RiskClass = ''external_writes'', rq_Status = StatusApproved,
      rq_TargetType = ''page'', rq_TargetLabel = ''home'', rq_ActionSummary = ''post'',
      rq_Metadata = [(''governed_action_id'', JStr ''9'')], rq_CreatedAt = 1, rq_ReviewedAt = Some 1,
      rq_ExpiresAt = None\<rparr>"

definition resolver_with :: "(string + Frame) list \<Rightarrow> resolver_env" where
  "resolver_with replies =
     \<lparr>rv_parse_uuid = (\<lambda>x. if x = ''9'' then Some 9 else None), rv_show_uuid = (\<lambda>u. if u = 7 then ''c7'' else ''x''),
      rv_bytes_of = (\<lambda>_. ''{}''), rv_agents = agent_GetByID, rv_conn = None, rv_request_id = ''r1'', rv_send = None,
      rv_replies = replies, rv_audit = True\<rparr>"

lemma approval_db_facts:
  "calm_db approval_db" "the_action 1 9 approval_db = Some waiting_action" "open_action waiting_action"
  "extractActionID (rv_parse_uuid (resolver_with rs)) (rq_Metadata approved_request) = Some 9"
  "reachable (resolver_with rs) waiting_action approval_db"
  by (simp_all add: approval_db_def waiting_action_def running_agent_def approved_request_def resolver_with_def
      empty_db_def calm_db_def the_action_def open_action_def extractActionID_def reachable_def agent_up_def)

theorem action_settled_once_witness:
  "\<exists>res s' evs. ResolveConnectorAction (resolver_with []) True 1 (Some approved_request) False approval_db =
     (res, s', evs) \<and> status_is 1 9 GovernedActionStatusDenied s' \<and> (\<forall>ag f. SentResume ag f \<notin> set evs)"
proof -
  obtain res s' evs where r: "ResolveConnectorAction (resolver_with []) True 1 (Some approved_request) False approval_db =
      (res, s', evs)" by (metis prod.exhaust)
  have "rv_agents (resolver_with []) = agent_GetByID" by (simp add: resolver_with_def)
  from action_settled_once [OF approval_db_facts(1,2) this approval_db_facts(4) r] r approval_db_facts(3)
  show ?thesis by (simp add: settled_status_def)
qed

end
