(* ===== verification/Governance_Chain.thy ===== *)
theory Governance_Chain
  imports Guest_Properties
begin

text \<open>
  From the tables to the guest: the connectors and policies the control plane stores, the
  configuration it builds from them, what the guest decodes, and the tool calls the guest makes.
\<close>

section \<open>The keys of the payload\<close>

lemma fold_keys:
  "fold_key ''id'' = ''id''" "fold_key ''name'' = ''name''" "fold_key ''type'' = ''type''"
  "fold_key ''endpoint'' = ''endpoint''" "fold_key ''auth'' = ''auth''" "fold_key ''tools'' = ''tools''"
  "fold_key ''governed_tools'' = ''governed_tools''" "fold_key ''action_type'' = ''action_type''"
  "fold_key ''risk_class'' = ''risk_class''" "fold_key ''decision'' = ''decision''"
  "fold_key ''target_type'' = ''target_type''"
  "fold_key ''target_label_template'' = ''target_label_template''"
  "fold_key ''approval_summary_template'' = ''approval_summary_template''"
  "fold_key ''config'' = ''config''" "fold_key ''tool_allowlist'' = ''tool_allowlist''"
  "fold_key ''tool_policies'' = ''tool_policies''" "fold_key ''canary_tokens'' = ''canary_tokens''"
  "fold_key ''connectors'' = ''connectors''"
  by (code_simp)+

declare fold_key.simps [simp del] fold_keys [simp]

section \<open>What the guest decodes\<close>

definition governed_view :: "PolicySet \<Rightarrow> PolicySet \<Rightarrow> ConnectorTool \<Rightarrow> GovernedTool" where
  "governed_view d ov tool =
     (let governance = fst (EvaluateGovernance tool d ov) in
      \<lparr>gt_ActionType = ct_ActionType tool,
       gt_RiskClass = firstNonEmpty [gr_RiskClass governance, ct_RiskClass tool],
       gt_Decision = gr_Decision governance, gt_TargetType = ct_TargetType tool,
       gt_TargetLabelTemplate = ct_TargetLabelTemplate tool,
       gt_ApprovalSummaryTemplate = ct_ApprovalSummaryTemplate tool\<rparr>)"

lemma decode_governed_entry: "decode_governed (governed_entry d ov tool) = Some (governed_view d ov tool)"
  by (simp add: decode_governed_def governed_entry_def governed_view_def json_entries_def
      object_entries_def string_field_def field_values_def Let_def)

lemma decode_strings: "decode_all decode_string (map (\<lambda>t. JStr (f t)) ts) = Some (map f ts)"
  by (induction ts) (simp_all add: decode_string_def)

lemma decode_members_values:
  assumes "\<forall>j \<in> snd ` set kvs. f j \<noteq> None"
  shows "\<exists>m'. decode_members f m kvs = Some m' \<and>
    map_of m' = (\<lambda>k. case map_of (rev kvs) k of None \<Rightarrow> map_of m k | Some j \<Rightarrow> f j)"
  using assms
proof (induction kvs arbitrary: m)
  case (Cons kv kvs)
  obtain k j where kv: "kv = (k, j)" by fastforce
  with Cons.prems obtain x where x: "f j = Some x" by auto
  with Cons.IH [of "map_put k x m"] Cons.prems kv obtain m' where
    "decode_members f (map_put k x m) kvs = Some m'"
    "map_of m' = (\<lambda>n. case map_of (rev kvs) n of None \<Rightarrow> map_of (map_put k x m) n | Some j \<Rightarrow> f j)" by auto
  with kv x show ?case
    by (auto simp: fun_eq_iff map_add_def split: option.splits)
qed simp

lemma governed_tools_values:
  "(n, j) \<in> set (governed_tools d ov tools m) \<Longrightarrow> (n, j) \<in> set m \<or> (\<exists>t. j = governed_entry d ov t)"
  by (induction tools arbitrary: m) (fastforce simp: map_put_def split: if_splits)+

lemma distinct_governed_tools:
  "distinct (map fst m) \<Longrightarrow> distinct (map fst (governed_tools d ov tools m))"
  by (induction tools arbitrary: m) (simp_all add: distinct_map_put)

text \<open>The governance the guest sees of a tool: that of the last write tool of the name.\<close>

definition governance_of :: "PolicySet \<Rightarrow> PolicySet \<Rightarrow> ConnectorTool list \<Rightarrow> string \<rightharpoonup> GovernedTool" where
  "governance_of d ov tools n =
     map_option (governed_view d ov) (find (\<lambda>t. ct_Name t = n \<and> IsGovernedWrite t) (rev tools))"

lemma decode_governed_tools:
  "\<exists>m. decode_members decode_governed [] (governed_tools d ov tools []) = Some m \<and>
     map_of m = governance_of d ov tools"
proof -
  let ?kvs = "governed_tools d ov tools []"
  have "\<forall>j \<in> snd ` set ?kvs. decode_governed j \<noteq> None"
    using governed_tools_values [of _ _ d ov tools "[]"] by (force simp: decode_governed_entry)
  from decode_members_values [OF this, of "[]"] obtain m where
    m: "decode_members decode_governed [] ?kvs = Some m"
    "map_of m = (\<lambda>k. case map_of (rev ?kvs) k of None \<Rightarrow> map_of [] k | Some j \<Rightarrow> decode_governed j)" by blast
  have "map_of (rev ?kvs) = map_of ?kvs"
    by (rule map_of_rev_distinct) (simp add: distinct_governed_tools)
  with m(2) have "map_of m = governance_of d ov tools"
    by (auto simp: fun_eq_iff governance_of_def map_of_governed decode_governed_entry split: option.splits)
  with m(1) show ?thesis by blast
qed

text \<open>A connector as the guest has it, given the row it comes from.\<close>

definition mirrors :: "(uuid \<Rightarrow> string) \<Rightarrow> PolicySet \<Rightarrow> PolicySet \<Rightarrow> AgentConnectorConfig \<Rightarrow> AgentConnector \<Rightarrow> bool" where
  "mirrors sh d ov cfg c \<longleftrightarrow>
     (\<exists>tools. ParseTools (acc_Tools cfg) = Inr tools \<and> gc_ID c = sh (acc_ID cfg) \<and>
        gc_Name c = acc_Name cfg \<and> gc_Endpoint c = acc_Endpoint cfg \<and>
        gc_Tools c = map ct_Name tools \<and> map_of (gc_GovernedTools c) = governance_of d ov tools)"

lemma decode_payload:
  assumes "connector_payload sh d ov cfg = Some j"
  shows "\<exists>c. decode_connector j = Some c \<and> mirrors sh d ov cfg c"
proof -
  obtain tools where t: "ParseTools (acc_Tools cfg) = Inr tools"
    using assms by (auto simp: connector_payload_def split: sum.splits)
  obtain m where m: "decode_members decode_governed [] (governed_tools d ov tools []) = Some m"
    "map_of m = governance_of d ov tools" using decode_governed_tools by blast
  have e: "map_of [] = governance_of d ov tools" if "governed_tools d ov tools [] = []"
    using m that by simp
  show ?thesis
    using assms t m e
    by (auto simp: connector_payload_def mirrors_def decode_connector_def json_entries_def object_entries_def
        string_field_def last_value_def field_values_def decode_slice_def decode_strings
        decode_map_def map_entries_def Let_def split: if_splits)
qed

lemma decode_payloads:
  "\<exists>cs. decode_all decode_connector (List.map_filter (connector_payload sh d ov) cfgs) = Some cs \<and>
     (\<forall>c \<in> set cs. \<exists>cfg \<in> set cfgs. mirrors sh d ov cfg c)"
proof (induction cfgs)
  case (Cons cfg cfgs)
  then obtain cs where cs: "decode_all decode_connector (List.map_filter (connector_payload sh d ov) cfgs) = Some cs"
    "\<forall>c \<in> set cs. \<exists>cfg \<in> set cfgs. mirrors sh d ov cfg c" by blast
  show ?case
  proof (cases "connector_payload sh d ov cfg")
    case None
    with cs show ?thesis by (auto simp: List.map_filter_simps)
  next
    case (Some j)
    from decode_payload [OF this] obtain c where "decode_connector j = Some c" "mirrors sh d ov cfg c" by blast
    with cs Some show ?thesis by (auto simp: List.map_filter_simps)
  qed
qed (simp add: List.map_filter_simps)

lemma decode_push:
  assumes "decode_config (RawJSON (push_payload config allow pol can js)) = Some a"
    and "decode_all decode_connector js = Some cs"
  shows "ag_connectors a = cs"
proof -
  let ?kvs = "[(''config'', case config of None \<Rightarrow> JNull | Some m \<Rightarrow> JObj m),
      (''tool_allowlist'', case allow of None \<Rightarrow> JNull | Some ts \<Rightarrow> JArr (map JStr ts))] @
      (if pol = [] then [] else [(''tool_policies'', JObj pol)]) @
      (if can = [] then [] else [(''canary_tokens'', JArr (map JStr can))]) @
      (if js = [] then [] else [(''connectors'', JArr js)])"
  have "last_value ''connectors'' ?kvs = (if js = [] then JNull else JArr js)"
    by (simp add: last_value_def field_values_def)
  then have "decode_slice decode_connector (last_value ''connectors'' ?kvs) = Some cs"
    using assms(2) by (auto simp: decode_slice_def split: if_splits)
  then show ?thesis using assms(1)
    by (auto simp: decode_config_def push_payload_def object_entries_def split: option.splits)
qed

section \<open>The policies in force\<close>

definition stored_policies :: "raw_json option \<Rightarrow> string \<Rightarrow> PolicySet" where
  "stored_policies raw key = (case raw of None \<Rightarrow> Some [] | Some r \<Rightarrow> extractPolicies r key)"

text \<open>
  The decision on a risk class, from the tables as the tenant's session sees them: the agent's
  override, the tenant's default, the built-in default, and otherwise to block.
\<close>

definition effective_decision :: "uuid \<Rightarrow> uuid \<Rightarrow> db \<Rightarrow> string \<Rightarrow> string" where
  "effective_decision tenant agent s =
     (let s = s\<lparr>db_tenant := Some tenant\<rparr> in
      Evaluate (stored_policies (tenant_settings tenant s) ''risk_class_policies'')
        (stored_policies (map_option ai_Config (find (agent_row tenant agent s) (db_agents s))) ''policy_overrides''))"

lemma lookup_empty: "entries ps = [] \<Longrightarrow> lookup ps rc = None"
  by (simp add: lookup_def)

lemma Evaluate_fallback:
  "entries d = [] \<Longrightarrow> Evaluate DefaultPolicySet ov = Evaluate d ov"
  "entries ov = [] \<Longrightarrow> Evaluate d (Some []) = Evaluate d ov"
  by (auto simp: Evaluate_def lookup_empty entries_def fun_eq_iff split: option.split)

lemma EvaluateGovernance_cong: "Evaluate d ov = Evaluate d' ov' \<Longrightarrow> EvaluateGovernance t d ov = EvaluateGovernance t d' ov'"
  by (simp add: EvaluateGovernance_def Let_def)

lemma loadPolicySets_effective:
  assumes "db_faults s = []" "pu (TrimSpace t) = Some tenant" "pu (TrimSpace a) = Some agent"
    "loadPolicySets pu (Some policy_store_reader) t a s = ((d, ov), s')" "db_tenant s = Some tenant"
  shows "Evaluate d ov = effective_decision tenant agent s"
proof -
  have s: "s\<lparr>db_tenant := Some tenant\<rparr> = s" using assms(5) by simp
  let ?d = "stored_policies (tenant_settings tenant s) ''risk_class_policies''"
  let ?f = "find (agent_row tenant agent s) (db_agents s)"
  let ?ov = "stored_policies (map_option ai_Config ?f) ''policy_overrides''"
  have 1: "stored_or DefaultPolicySet (GetTenantDefaults tenant s) =
      (if entries ?d \<noteq> [] then ?d else DefaultPolicySet, s)"
    using assms(1)
    by (cases "tenant_settings tenant s")
      (simp_all add: stored_or_def GetTenantDefaults_def scan_row_def stored_policies_def entries_def)
  have 2: "stored_or (Some []) (GetAgentOverrides tenant agent s) =
      (if entries ?ov \<noteq> [] then ?ov else Some [], s)"
    using assms(1)
    by (cases ?f)
      (simp_all add: stored_or_def GetAgentOverrides_def scan_row_def stored_policies_def entries_def)
  have "loadPolicySets pu (Some policy_store_reader) t a s =
      ((if entries ?d \<noteq> [] then ?d else DefaultPolicySet, if entries ?ov \<noteq> [] then ?ov else Some []), s)"
    unfolding loadPolicySets_def policy_store_reader_def using assms(2,3) 1 2 by simp
  then have "d = (if entries ?d \<noteq> [] then ?d else DefaultPolicySet)"
    "ov = (if entries ?ov \<noteq> [] then ?ov else Some [])" using assms(4) by (simp_all only: prod.inject)
  then have "Evaluate d ov = Evaluate ?d ?ov" by (metis Evaluate_fallback)
  then show ?thesis unfolding effective_decision_def s Let_def .
qed

section \<open>From the tables to the tool calls\<close>

lemma connection_body:
  assumes "db_faults s = []" "pu t = Some tenant" "fn (s\<lparr>db_tenant := Some tenant\<rparr>) = (r, s2)"
  shows "\<exists>s3. tenant_connection pu t fn s = (r, s3)"
  using assms by (simp add: tenant_connection_def WithTenantConnection_def acquire_def)

lemma build_Inr:
  assumes "db_faults s = []" "pu t = Some tenant" "TrimSpace t = t" "pu (TrimSpace a) = Some agent"
    "buildAgentConnectors pu sh (Some ListForAgent) (Some policy_store_reader) t a s = (js, s')"
  shows "\<exists>d ov cfgs. js = List.map_filter (connector_payload sh d ov) cfgs \<and>
    Evaluate d ov = effective_decision tenant agent s \<and>
    set cfgs = agent_config ` {r \<in> set (db_connectors s). (db_rls s \<longrightarrow> co_TenantID r = tenant) \<and> co_Status r = ''active''}"
proof -
  let ?s = "s\<lparr>db_tenant := Some tenant\<rparr>"
  let ?cfgs = "map agent_config (sort_key co_CreatedAt
      (filter (\<lambda>r. visible ?s (co_TenantID r) \<and> co_Status r = ''active'') (db_connectors s)))"
  obtain d ov s2 where l: "loadPolicySets pu (Some policy_store_reader) t a ?s = ((d, ov), s2)"
    by (metis prod.exhaust)
  have "ListForAgent ?s = (Inr ?cfgs, ?s)" using assms(1) by (simp add: ListForAgent_def wrap_err_def)
  with l have "govern_connectors pu sh ListForAgent (Some policy_store_reader) t a ?s =
      (Inr (List.map_filter (connector_payload sh d ov) ?cfgs), s2)" by (simp add: govern_connectors_def)
  from connection_body [where fn = "govern_connectors pu sh ListForAgent (Some policy_store_reader) t a"
      and pu = pu and t = t and s = s and tenant = tenant, OF assms(1,2) this] assms(5)
  have js: "js = List.map_filter (connector_payload sh d ov) ?cfgs"
    by (auto simp: buildAgentConnectors_def)
  have "Evaluate d ov = effective_decision tenant agent ?s"
    by (rule loadPolicySets_effective [OF _ _ _ l]) (use assms in simp_all)
  then have e: "Evaluate d ov = effective_decision tenant agent s"
    by (simp add: effective_decision_def Let_def)
  have "set ?cfgs = agent_config ` {r \<in> set (db_connectors s).
      (db_rls s \<longrightarrow> co_TenantID r = tenant) \<and> co_Status r = ''active''}"
    by (auto simp: visible_def own_def)
  with js e show ?thesis by (intro exI [of _ d] exI [of _ ov] exI [of _ ?cfgs] conjI)
qed

text \<open>
  The rows a call may come from: an active connector the tenant's session sees, with its tools.
  A tool declared as a write has a risk class, and the policies in force neither block that class
  nor ask for an approval.
\<close>

definition call_permitted ::
  "(uuid \<Rightarrow> string) \<Rightarrow> uuid \<Rightarrow> uuid \<Rightarrow> db \<Rightarrow> AgentConnector \<Rightarrow> string \<Rightarrow> bool" where
  "call_permitted sh tenant agent s c n \<longleftrightarrow>
     (\<exists>row tools. row \<in> set (db_connectors s) \<and> (db_rls s \<longrightarrow> co_TenantID row = tenant) \<and>
        co_Status row = ''active'' \<and> gc_ID c = sh (co_ID row) \<and> gc_Endpoint c = co_Endpoint row \<and>
        ParseTools (co_Tools row) = Inr tools \<and> n \<in> ct_Name ` set tools \<and>
        (\<forall>tool. find (\<lambda>t. ct_Name t = n \<and> ct_ActionType t = ''write'') (rev tools) = Some tool \<longrightarrow>
           ct_RiskClass tool \<noteq> [] \<and>
           effective_decision tenant agent s (ct_RiskClass tool) \<notin> {''block'', ''require_approval''}))"

lemma mirrored_call_permitted:
  assumes "mirrors sh d ov cfg c" "cleared env c n args" "cfg = agent_config row"
    "row \<in> set (db_connectors s)" "db_rls s \<longrightarrow> co_TenantID row = tenant" "co_Status row = ''active''"
    "Evaluate d ov = effective_decision tenant agent s"
  shows "call_permitted sh tenant agent s c n"
proof -
  from assms(1,3) obtain tools where t: "ParseTools (co_Tools row) = Inr tools"
    "gc_ID c = sh (co_ID row)" "gc_Endpoint c = co_Endpoint row" "gc_Tools c = map ct_Name tools"
    and g: "map_of (gc_GovernedTools c) = governance_of d ov tools"
    by (auto simp: mirrors_def agent_config_def)
  have "ct_RiskClass tool \<noteq> [] \<and>
      effective_decision tenant agent s (ct_RiskClass tool) \<notin> {''block'', ''require_approval''}"
    if f: "find (\<lambda>t. ct_Name t = n \<and> ct_ActionType t = ''write'') (rev tools) = Some tool" for tool
  proof -
    from f have w: "ct_ActionType tool = ''write''" by (auto dest: find_SomeD)
    have "map_of (gc_GovernedTools c) n = Some (governed_view d ov tool)"
      using f by (simp add: g governance_of_def IsGovernedWrite_def)
    with assms(2) have "gt_Decision (governed_view d ov tool) \<notin> {''block'', ''require_approval''}"
      by (auto simp: cleared_def)
    with w assms(7) show ?thesis
      by (simp add: governed_view_def EvaluateGovernance_def DecisionBlock_def Let_def split: if_splits)
  qed
  moreover have "n \<in> ct_Name ` set tools" using assms(2) t(4) by (auto simp: cleared_def)
  ultimately show ?thesis using assms(4-6) t unfolding call_permitted_def by blast
qed


definition sample_parse :: "string \<Rightarrow> uuid option" where
  "sample_parse x = (if x = ''t'' then Some 1 else if x = ''a'' then Some 2 else None)"

definition sample_tools :: json where
  "sample_tools = JArr [JObj [(''name'', JStr ''post''), (''action_type'', JStr ''write''), (''risk_class'', JStr ''channel_sends'')]]"

definition sample_row :: Connector where
  "sample_row =
     \<lparr>co_ID = 7, co_TenantID = 1, co_Name = ''crm'', co_ConnectorType = ''mcp'', co_Endpoint = ''http://crm'',
      co_AuthConfig = RawJSON (JObj []), co_Resources = RawJSON (JArr []), co_Tools = RawJSON sample_tools,
      co_Status = ''active'', co_CreatedAt = 1\<rparr>"

definition sample_tables :: db where
  "sample_tables = empty_db\<lparr>db_tenants := [1], db_connectors := [sample_row]\<rparr>"

definition sample_connectors :: "json list" where
  "sample_connectors = fst (buildAgentConnectors sample_parse (\<lambda>_. ''c7'') (Some ListForAgent)
     (Some policy_store_reader) ''t'' ''a'' sample_tables)"

definition sample_agent :: Agent where
  "sample_agent = the (decode_config (RawJSON (push_payload None None [] [] sample_connectors)))"

definition sample_choice :: json where
  "sample_choice =
     JObj [(''choices'', JArr [JObj [(''message'', JObj [(''content'', JStr []), (''tool_calls'',
       JArr [JObj [(''id'', JStr ''1''), (''type'', JStr ''function''),
         (''function'', JObj [(''name'', JStr ''post''), (''arguments'', JStr ''{}'')])]])])]])]"

text \<open>The model asks for one tool call and is not reachable afterwards.\<close>

definition sample_env :: guest_env where
  "sample_env =
     \<lparr>ge_OpenClawURL = ''http://localhost'', ge_AllowRemoteOpenClaw = False, ge_agent = (\<lambda>_. sample_agent),
      ge_http = (\<lambda>n _. if n = 1 then HttpAnswer 200 [] (RawJSON sample_choice) else HttpFailed ''down''),
      ge_url_Parse = (\<lambda>_. Inr \<lparr>u_Scheme = ''http'', u_Host = ''localhost'', u_Hostname = ''localhost''\<rparr>),
      ge_loopback_ip = (\<lambda>_. False), ge_quote = (\<lambda>x. x), ge_json = (\<lambda>_. RawJSON (JObj [])),
      ge_uuid = (\<lambda>_. ''u''), ge_elapsed = (\<lambda>_. 0)\<rparr>"

definition sample_message :: Frame where
  "sample_message =
     \<lparr>fr_Type = ''message'', fr_ID = ''m1'',
      fr_Payload = RawJSON (JObj [(''role'', JStr ''user''), (''content'', JStr ''hi'')])\<rparr>"

lemma sample_decodes: "decode_config (RawJSON (push_payload None None [] [] sample_connectors)) \<noteq> None"
  by code_simp

lemma sample_calls:
  "list_ex (\<lambda>e. case e of CalledTool c n args q \<Rightarrow> n = ''post'' | _ \<Rightarrow> False)
     (gs_trace (forwardToOpenClaw sample_env sample_message \<lparr>gs_reads = 0, gs_trace = []\<rparr>))"
  by code_simp


end
