(* ===== verification/Approved_Execution.thy ===== *)
theory Approved_Execution
  imports Action_Resumer Governance_Chain
begin

text \<open>
  The resolver of the control plane and the guest together: the frame the resolver sends is the
  one the guest works on, and the frames the guest sends are the replies the resolver reads.
\<close>

section \<open>The frame of an approved action\<close>

lemma resume_keys [simp]:
  "fold_key ''action_id'' = ''action_id''" "fold_key ''approval_id'' = ''approval_id''"
  "fold_key ''connector_id'' = ''connector_id''" "fold_key ''tool_name'' = ''tool_name''"
  "fold_key ''arguments'' = ''arguments''"
  by code_simp+

declare fold_key.simps [simp del]

definition optional_value :: "string \<Rightarrow> json list" where
  "optional_value v = (if v = [] then [] else [JStr v])"

lemma field_omit_empty:
  "field_values name (omit_empty k v) = (if fold_key k = name then optional_value v else [])"
  by (simp add: field_values_def omit_empty_def optional_value_def)

lemma string_values_optional: "string_values [] (optional_value v) = Some v"
  by (simp add: optional_value_def)

lemma field_values_append: "field_values name (xs @ ys) = field_values name xs @ field_values name ys"
  by (simp add: field_values_def)

lemma field_values_Cons:
  "field_values name ((k, j) # kvs) = (if fold_key k = name then j # field_values name kvs else field_values name kvs)"
  by (simp add: field_values_def)

definition action_order :: "resolver_env \<Rightarrow> Request \<Rightarrow> GovernedAction \<Rightarrow> ConnectorActionResumePayload" where
  "action_order env request a =
     \<lparr>cr_ActionID = rv_show_uuid env (ga_ID a), cr_ApprovalID = rv_show_uuid env (rq_ID request),
      cr_ConnectorID = rv_show_uuid env (ga_ConnectorID a), cr_ToolName = ga_ToolName a,
      cr_Arguments = rv_bytes_of env (ga_Arguments a), cr_RiskClass = ga_RiskClass a\<rparr>"

lemma decode_resume_payload:
  "decode_resume (fr_Payload (resume_frame env request a)) = Some (action_order env request a)"
  by (simp add: decode_resume_def resume_frame_def resume_payload_def object_entries_def string_field_def
      field_values_Cons field_values_append field_omit_empty string_values_optional action_order_def)

section \<open>The guest's answer\<close>

fun frame_of :: "guest_event \<Rightarrow> Frame option" where
  "frame_of (Sent f) = Some f"
| "frame_of _ = None"

text \<open>The frames a guest sent since \<open>g\<close>, as the control plane receives them.\<close>

definition replies_since :: "guest \<Rightarrow> guest \<Rightarrow> (string + Frame) list" where
  "replies_since g g' = map Inr (List.map_filter frame_of (drop (length (gs_trace g)) (gs_trace g')))"

definition tool_calls :: "guest \<Rightarrow> guest \<Rightarrow> (AgentConnector \<times> string \<times> string) list" where
  "tool_calls g g' = List.map_filter (\<lambda>e. case e of CalledTool c n a _ \<Rightarrow> Some (c, n, a) | _ \<Rightarrow> None)
     (drop (length (gs_trace g)) (gs_trace g'))"

text \<open>The connector the guest picks for an action, and the result of its call.\<close>

definition guest_pick :: "guest_env \<Rightarrow> guest \<Rightarrow> ConnectorActionResumePayload \<Rightarrow> string + AgentConnector" where
  "guest_pick genv g p =
     resolveConnectorForAction genv (ag_connectors (ge_agent genv (gs_reads g))) (cr_ConnectorID p) (cr_ToolName p)"

definition guest_result :: "guest_env \<Rightarrow> guest \<Rightarrow> ConnectorActionResumePayload \<Rightarrow> string + string" where
  "guest_result genv g p =
     (case guest_pick genv g p of
        Inl e \<Rightarrow> Inl e
      | Inr c \<Rightarrow> fst (callTool genv c (cr_ToolName p) (cr_Arguments p) (g\<lparr>gs_reads := Suc (gs_reads g)\<rparr>)))"

lemma callTool_trace:
  assumes "callTool env c n a g = (r, g1)"
  shows "\<exists>tr. gs_trace g1 = gs_trace g @ tr \<and> List.map_filter frame_of tr = [] \<and>
    (tr = [] \<or> (\<exists>q. tr = [CalledTool c n a q])) \<and> ((\<exists>t. r = Inr t) \<longrightarrow> tr \<noteq> [])"
  using assms
  by (auto simp: callTool_def http_Do_def emit_def List.map_filter_simps
      split: sum.splits if_splits raw_json.splits prod.splits)

lemma resume_run:
  assumes "decode_resume (fr_Payload frame) = Some p" "handleConnectorActionResume genv frame g = g'"
  shows "\<exists>tr ev fin. gs_trace g' = gs_trace g @ tr @ [Sent ev, Sent fin] \<and>
    fr_Type ev = ''runtime_event'' \<and>
    fr_Type fin = (if isl (guest_result genv g p) then ''tool_failed'' else ''tool_executed'') \<and>
    (tr = [] \<and> isl (guest_result genv g p) \<or>
     (\<exists>c q. guest_pick genv g p = Inr c \<and> tr = [CalledTool c (cr_ToolName p) (cr_Arguments p) q]))"
proof (cases "guest_pick genv g p")
  case (Inl e)
  with assms show ?thesis
    by (auto simp: handleConnectorActionResume_def read_agent_def guest_pick_def guest_result_def resume_failed_def
        emitToolAudit_def emitRuntimeEvent_def send_frame_def emit_def Let_def)
next
  case (Inr c)
  let ?g1 = "g\<lparr>gs_reads := Suc (gs_reads g)\<rparr>"
  obtain r g2 where 2: "callTool genv c (cr_ToolName p) (cr_Arguments p) ?g1 = (r, g2)" by fastforce
  obtain tr where tr: "gs_trace g2 = gs_trace g @ tr" "tr = [] \<or> (\<exists>q. tr = [CalledTool c (cr_ToolName p) (cr_Arguments p) q])"
    "(\<exists>t. r = Inr t) \<longrightarrow> tr \<noteq> []" using callTool_trace [OF 2] by auto
  have res: "guest_result genv g p = r" using Inr 2 by (simp add: guest_result_def)
  show ?thesis
  proof (cases r)
    case (Inl e)
    with assms Inr 2 tr res show ?thesis
      by (auto simp: handleConnectorActionResume_def read_agent_def guest_pick_def resume_failed_def
          emitToolAudit_def emitRuntimeEvent_def send_frame_def emit_def Let_def)
  next
    case (Inr t)
    with assms \<open>guest_pick genv g p = Inr c\<close> 2 tr res show ?thesis
      by (auto simp: handleConnectorActionResume_def read_agent_def guest_pick_def
          emitToolAudit_def emitRuntimeEvent_def send_frame_def emit_def Let_def)
  qed
qed

lemma await_guest:
  assumes "decode_resume (fr_Payload frame) = Some p"
  shows "await_result (replies_since g (handleConnectorActionResume genv frame g)) =
      (if isl (guest_result genv g p) then AnswerFailed else AnswerExecuted)"
    and "tool_calls g (handleConnectorActionResume genv frame g) \<in>
      {[]} \<union> {[(c, cr_ToolName p, cr_Arguments p)] | c. guest_pick genv g p = Inr c}"
    and "\<not> isl (guest_result genv g p) \<Longrightarrow> tool_calls g (handleConnectorActionResume genv frame g) \<noteq> []"
  using resume_run [OF assms refl, of genv g]
  by (auto simp: replies_since_def tool_calls_def List.map_filter_simps)

lemma pick_connector:
  assumes "guest_pick genv g p = Inr c"
  shows "c \<in> set (ag_connectors (ge_agent genv (gs_reads g))) \<and> cr_ToolName p \<in> set (gc_Tools c) \<and>
    (TrimSpace (cr_ConnectorID p) \<noteq> [] \<and>
     TrimSpace (cr_ConnectorID p) \<in> gc_ID ` set (ag_connectors (ge_agent genv (gs_reads g))) \<longrightarrow>
       gc_ID c = TrimSpace (cr_ConnectorID p))"
  using assms
  by (auto simp: guest_pick_def resolveConnectorForAction_def resolveConnector_def Let_def find_None_iff
      split: option.splits if_splits dest!: find_SomeD)

definition approved_connector :: "resolver_env \<Rightarrow> GovernedAction \<Rightarrow> string" where
  "approved_connector env a = TrimSpace (rv_show_uuid env (ga_ConnectorID a))"

section \<open>Properties\<close>

text \<open>
  C5: What was approved is what is executed, and what was executed is what is recorded. When an
  approved action reaches the guest and the guest's frames reach the resolver, the guest makes at
  most one tool call, with the tool and the arguments of the approved action, to a connector of its
  configuration that offers the tool (the approved one, if it is configured); the action is recorded
  as executed exactly if that call succeeded, and as failed otherwise.
\<close>

theorem approved_action_executed:
  assumes "calm_db s" "the_action t i s = Some a" "open_action a" "rv_agents env = agent_GetByID"
    and "extractActionID (rv_parse_uuid env) (rq_Metadata request) = Some i"
    and "reachable env a s" "rv_send env = None"
    and "g' = handleConnectorActionResume genv (resume_frame env request a) g"
    and "rv_replies env = replies_since g g'"
    and "ResolveConnectorAction env True t (Some request) True s = (res, s', evs)"
  shows "(if isl (guest_result genv g (action_order env request a))
      then status_is t i GovernedActionStatusFailed s'
      else status_is t i GovernedActionStatusExecuted s' \<and> tool_calls g g' \<noteq> []) \<and>
    (tool_calls g g' = [] \<or>
     (\<exists>c. tool_calls g g' = [(c, ga_ToolName a, rv_bytes_of env (ga_Arguments a))] \<and>
        c \<in> set (ag_connectors (ge_agent genv (gs_reads g))) \<and> ga_ToolName a \<in> set (gc_Tools c) \<and>
        (approved_connector env a \<noteq> [] \<and>
         approved_connector env a \<in> gc_ID ` set (ag_connectors (ge_agent genv (gs_reads g))) \<longrightarrow>
           gc_ID c = approved_connector env a)))"
proof -
  let ?p = "action_order env request a"
  note d = decode_resume_payload [of env request a]
  have w: "await_result (rv_replies env) =
      (if isl (guest_result genv g ?p) then AnswerFailed else AnswerExecuted)"
    using await_guest(1) [OF d] assms(8,9) by simp
  have "ga_AgentID a \<noteq> None" using assms(6) by (auto simp: reachable_def)
  with w assms(6,7) have "settled_status env True a s =
      (if isl (guest_result genv g ?p) then GovernedActionStatusFailed else GovernedActionStatusExecuted)"
    by (simp add: settled_status_def)
  with resolve_open [OF assms(1-5) assms(10)]
  have st: "status_is t i (if isl (guest_result genv g ?p) then GovernedActionStatusFailed
      else GovernedActionStatusExecuted) s'" by simp
  have "tool_calls g g' = [] \<or> (\<exists>c. tool_calls g g' = [(c, ga_ToolName a, rv_bytes_of env (ga_Arguments a))] \<and>
      guest_pick genv g ?p = Inr c)"
    using await_guest(2) [OF d, of g genv] assms(8) by (auto simp: action_order_def)
  then show ?thesis
    using st await_guest(3) [OF d, of genv g] assms(8) pick_connector [of genv g ?p]
    by (auto simp: action_order_def approved_connector_def split: if_splits)
qed

definition post_connector :: AgentConnector where
  "post_connector =
     \<lparr>gc_ID = ''c7'', gc_Name = ''crm'', gc_Type = ''mcp'', gc_Endpoint = ''http://crm'', gc_Auth = RawJSON (JObj []),
      gc_Tools = [''post''], gc_GovernedTools = []\<rparr>"

definition post_env :: guest_env where
  "post_env = sample_env
     \<lparr>ge_agent := (\<lambda>_. \<lparr>ag_toolAllowlist = [], ag_toolPolicies = None, ag_canaryTokens = [],
         ag_connectors = [post_connector], ag_config = None\<rparr>),
      ge_http := (\<lambda>_ _. HttpAnswer 200 [] (RawJSON (JObj [(''result'', JObj [])])))\<rparr>"

definition idle_guest :: guest where
  "idle_guest = \<lparr>gs_reads = 0, gs_trace = []\<rparr>"

definition post_frame :: Frame where
  "post_frame = resume_frame (resolver_with []) approved_request waiting_action"

lemma post_frame_any: "resume_frame (resolver_with rs) approved_request waiting_action = post_frame"
  by (simp add: post_frame_def resume_frame_def resume_payload_def resolver_with_def)

lemma post_succeeds: "\<not> isl (guest_result post_env idle_guest (action_order (resolver_with rs) approved_request waiting_action))"
proof -
  have "action_order (resolver_with rs) approved_request waiting_action =
      action_order (resolver_with []) approved_request waiting_action"
    by (simp add: action_order_def resolver_with_def)
  moreover have "\<not> isl (guest_result post_env idle_guest (action_order (resolver_with []) approved_request waiting_action))"
    by code_simp
  ultimately show ?thesis by simp
qed

theorem approved_action_executed_witness:
  "\<exists>res s' evs. ResolveConnectorAction
       (resolver_with (replies_since idle_guest (handleConnectorActionResume post_env post_frame idle_guest)))
       True 1 (Some approved_request) True approval_db = (res, s', evs) \<and>
     status_is 1 9 GovernedActionStatusExecuted s'"
proof -
  let ?g' = "handleConnectorActionResume post_env post_frame idle_guest"
  let ?env = "resolver_with (replies_since idle_guest ?g')"
  obtain res s' evs where r: "ResolveConnectorAction ?env True 1 (Some approved_request) True approval_db = (res, s', evs)"
    by (metis prod.exhaust)
  have e: "rv_agents ?env = agent_GetByID" "rv_send ?env = None" "rv_replies ?env = replies_since idle_guest ?g'"
    by (simp_all add: resolver_with_def)
  have "?g' = handleConnectorActionResume post_env (resume_frame ?env approved_request waiting_action) idle_guest"
    by (simp add: post_frame_any)
  from approved_action_executed [OF approval_db_facts(1-3) e(1) approval_db_facts(4,5) e(2) this e(3) r]
  show ?thesis using r post_succeeds by simp
qed

end
