(* ===== verification/Go_Hash.thy ===== *)
theory Go_Hash
  imports Go_Crypto
begin

text \<open>
  \<open>crypto/sha256\<close>, \<open>crypto/hmac\<close> over it, and the hexadecimal text of bytes, as the webhook
  verifiers and the payload fingerprint use them. Bytes are characters.
\<close>

section \<open>SHA-256\<close>

text \<open>The table of round constants and the initial state, in decimal.\<close>

definition sha_constants :: "32 word list" where
  "sha_constants =
     [1116352408, 1899447441, 3049323471, 3921009573, 961987163, 1508970993, 2453635748, 2870763221,
     3624381080, 310598401, 607225278, 1426881987, 1925078388, 2162078206, 2614888103, 3248222580,
     3835390401, 4022224774, 264347078, 604807628, 770255983, 1249150122, 1555081692, 1996064986,
     2554220882, 2821834349, 2952996808, 3210313671, 3336571891, 3584528711, 113926993, 338241895,
     666307205, 773529912, 1294757372, 1396182291, 1695183700, 1986661051, 2177026350, 2456956037,
     2730485921, 2820302411, 3259730800, 3345764771, 3516065817, 3600352804, 4094571909, 275423344,
     430227734, 506948616, 659060556, 883997877, 958139571, 1322822218, 1537002063, 1747873779,
     1955562222, 2024104815, 2227730452, 2361852424, 2428436474, 2756734187, 3204031479, 3329325298]"

definition sha_start :: "32 word list" where
  "sha_start =
     [1779033703, 3144134277, 1013904242, 2773480762, 1359893119, 2600822924, 528734635, 1541459225]"

text \<open>Big-endian bytes of a number and the words of a block.\<close>

definition number_bytes :: "nat \<Rightarrow> nat \<Rightarrow> string" where
  "number_bytes width n = map (\<lambda>i. char_of (n div 256 ^ (width - 1 - i) mod 256)) [0..<width]"

definition bytes_word :: "string \<Rightarrow> 32 word" where
  "bytes_word bs = of_nat (fold (\<lambda>b n. n * 256 + of_char b) bs 0)"

fun groups :: "nat \<Rightarrow> nat \<Rightarrow> 'a list \<Rightarrow> 'a list list" where
  "groups width 0 xs = []"
| "groups width (Suc n) xs = take width xs # groups width n (drop width xs)"

definition sha_pad :: "string \<Rightarrow> string" where
  "sha_pad msg =
     msg @ [CHR 0x80] @ replicate ((119 - length msg mod 64) mod 64) (char_of (0 :: nat)) @
     number_bytes 8 (8 * length msg mod 2 ^ 64)"

definition small_sigma :: "nat \<Rightarrow> nat \<Rightarrow> nat \<Rightarrow> 32 word \<Rightarrow> 32 word" where
  "small_sigma r1 r2 r3 x = word_rotr r1 x XOR word_rotr r2 x XOR drop_bit r3 x"

definition big_sigma :: "nat \<Rightarrow> nat \<Rightarrow> nat \<Rightarrow> 32 word \<Rightarrow> 32 word" where
  "big_sigma r1 r2 r3 x = word_rotr r1 x XOR word_rotr r2 x XOR word_rotr r3 x"

text \<open>The message schedule, newest word first.\<close>

definition next_schedule :: "32 word list \<Rightarrow> 32 word list" where
  "next_schedule ws =
     (small_sigma 17 19 10 (ws ! 1) + ws ! 6 + small_sigma 7 18 3 (ws ! 14) + ws ! 15) # ws"

definition schedule :: "string \<Rightarrow> 32 word list" where
  "schedule block = rev ((next_schedule ^^ 48) (rev (map bytes_word (groups 4 16 block))))"

fun sha_round :: "32 word \<times> 32 word \<Rightarrow> 32 word list \<Rightarrow> 32 word list" where
  "sha_round (k, w) [a, b, c, d, e, f, g, h] =
     (let t1 = h + big_sigma 6 11 25 e + ((e AND f) XOR (NOT e AND g)) + k + w;
          t2 = big_sigma 2 13 22 a + ((a AND b) XOR (a AND c) XOR (b AND c)) in
      [t1 + t2, a, b, c, d + t1, e, f, g])"
| "sha_round kw hs = hs"

definition sha_block :: "string \<Rightarrow> 32 word list \<Rightarrow> 32 word list" where
  "sha_block block hs = map2 (+) hs (fold sha_round (zip sha_constants (schedule block)) hs)"

definition Sum256 :: "string \<Rightarrow> string" where
  "Sum256 msg =
     (let padded = sha_pad msg in
      concat (map (\<lambda>h. number_bytes 4 (unat h))
        (fold sha_block (groups 64 (length padded div 64) padded) sha_start)))"

section \<open>HMAC and hexadecimal text\<close>

definition xor_pad :: "nat \<Rightarrow> string \<Rightarrow> string" where
  "xor_pad x key = map (\<lambda>c. char_of (of_char c XOR x)) key"

definition hmac_key :: "string \<Rightarrow> string" where
  "hmac_key key =
     (let k = (if 64 < length key then Sum256 key else key) in
      k @ replicate (64 - length k) (char_of (0 :: nat)))"

definition hmac_sha256 :: "string \<Rightarrow> string \<Rightarrow> string" where
  "hmac_sha256 key msg =
     Sum256 (xor_pad 0x5c (hmac_key key) @ Sum256 (xor_pad 0x36 (hmac_key key) @ msg))"

definition hex_digit :: "nat \<Rightarrow> char" where
  "hex_digit n = ''0123456789abcdef'' ! n"

definition hex_text :: "string \<Rightarrow> string" where
  "hex_text bs = concat (map (\<lambda>c. [hex_digit (of_char c div 16), hex_digit (of_char c mod 16)]) bs)"

lemma length_hex_text [simp]: "length (hex_text bs) = 2 * length bs"
  by (induction bs) (auto simp: hex_text_def)

lemma hex_digit_inj: "i < 16 \<Longrightarrow> j < 16 \<Longrightarrow> hex_digit i = hex_digit j \<longleftrightarrow> i = j"
proof -
  have "distinct ''0123456789abcdef''" by simp
  moreover assume "i < 16" "j < 16"
  ultimately show ?thesis unfolding hex_digit_def by (subst nth_eq_iff_index_eq) simp_all
qed

lemma hex_text_inj [simp]: "hex_text xs = hex_text ys \<longleftrightarrow> xs = ys"
proof (induction xs arbitrary: ys)
  case Nil
  then show ?case by (cases ys) (auto simp: hex_text_def)
next
  case (Cons x xs)
  have b: "of_char c div 16 < (16 :: nat)" "of_char c mod 16 < (16 :: nat)" for c
    by (simp_all add: less_mult_imp_div_less)
  have "of_char x = (of_char y :: nat)" if "of_char x div 16 = (of_char y div 16 :: nat)"
      "of_char x mod 16 = (of_char y mod 16 :: nat)" for y
    using that by (metis div_mult_mod_eq)
  then show ?case using Cons by (cases ys) (auto simp: hex_text_def hex_digit_inj b)
qed

text \<open>A digest has 32 bytes, its text 64 characters.\<close>

lemma length_sha_round: "length (sha_round kw hs) = length hs"
  by (induction kw hs rule: sha_round.induct) (simp_all add: Let_def)

lemma length_fold_same: "(\<And>x ys. length (f x ys) = length ys) \<Longrightarrow> length (fold f xs ys) = length ys"
  by (induction xs arbitrary: ys) simp_all

lemma length_sha_block: "length (sha_block b hs) = length hs"
  by (simp add: sha_block_def length_fold_same length_sha_round)

lemma length_Sum256 [simp]: "length (Sum256 msg) = 32"
proof -
  have b: "length (number_bytes 4 n) = 4" for n by (simp add: number_bytes_def)
  have "length (concat (map (\<lambda>h. number_bytes 4 (unat h)) hs)) = 4 * length hs" for hs :: "32 word list"
    by (induction hs) (simp_all add: b)
  then show ?thesis by (simp add: Sum256_def Let_def length_fold_same length_sha_block sha_start_def)
qed

end
