(* ===== verification/Channel_Verify.thy ===== *)
theory Channel_Verify
  imports Channel_Config Go_Hash
begin

text \<open>
  Authenticity of webhooks: the three verifiers of \<open>internal/channels/verifier*.go\<close>, and the
  verifier of \<open>cmd/heimdall/main.go\<close> that looks up the secret of the tenant for every request.

  A header has canonical keys; \<open>Get\<close> reads the first value. A time is built from seconds as
  \<open>time.Unix\<close> does, with the wrap-around of \<open>int64\<close>; \<open>Sub\<close> saturates.
\<close>

section \<open>Headers and times\<close>

type_synonym http_header = "(string \<times> string list) list"

definition header_Get :: "http_header \<Rightarrow> string \<Rightarrow> string" where
  "header_Get h k = (case map_of h k of Some (v # _) \<Rightarrow> v | _ \<Rightarrow> [])"

definition time_Unix :: "int \<Rightarrow> gotime" where
  "time_Unix sec = wrap64 (sec + 62135596800) * 1000000000"

definition time_Sub :: "gotime \<Rightarrow> gotime \<Rightarrow> duration" where
  "time_Sub t u = max (- (2 ^ 63)) (min (2 ^ 63 - 1) (t - u))"

section \<open>The verifiers\<close>

type_synonym verify_fn = "http_header \<Rightarrow> string \<Rightarrow> gotime \<Rightarrow> chan_error option"

record SlackVerifier =
  sv_signingSecret :: string
  sv_maxSkew :: duration

definition NewSlackVerifier :: "string \<Rightarrow> duration \<Rightarrow> SlackVerifier" where
  "NewSlackVerifier signingSecret maxSkew =
     \<lparr>sv_signingSecret = signingSecret,
      sv_maxSkew = (if maxSkew \<le> 0 then 5 * 60 * 1000000000 else maxSkew)\<rparr>"

definition slackSignatureHeader :: string where
  "slackSignatureHeader = ''X-Slack-Signature''"

definition slackTimestampHeader :: string where
  "slackTimestampHeader = ''X-Slack-Request-Timestamp''"

text \<open>The details of a number that does not parse are left out of the error.\<close>

definition slack_Verify :: "SlackVerifier \<Rightarrow> verify_fn" where
  "slack_Verify v headers body now =
     (let signature = header_Get headers slackSignatureHeader;
          timestamp = header_Get headers slackTimestampHeader in
      if signature = [] then Some (Sentinel ErrMissingSignature)
      else if timestamp = [] then Some (Sentinel ErrInvalidTimestamp)
      else case Atoi timestamp of
          None \<Rightarrow> Some (annotate ErrInvalidTimestamp ''strconv.ParseInt'')
        | Some ts \<Rightarrow>
            (let msgTime = time_Unix ts in
             if time_Sub now msgTime > sv_maxSkew v \<or> time_Sub msgTime now > sv_maxSkew v
             then Some (Sentinel ErrTimestampExpired)
             else
               (let base = ''v0:'' @ timestamp @ '':'' @ body;
                    expected = ''v0='' @ hex_text (hmac_sha256 (sv_signingSecret v) base) in
                if expected \<noteq> signature then Some (Sentinel ErrInvalidSignature) else None)))"

definition telegramSecretHeader :: string where
  "telegramSecretHeader = ''X-Telegram-Bot-Api-Secret-Token''"

definition telegram_Verify :: "string \<Rightarrow> verify_fn" where
  "telegram_Verify secretToken headers body now =
     (let got = header_Get headers telegramSecretHeader in
      if got = [] then Some (Sentinel ErrMissingSignature)
      else if got \<noteq> secretToken then Some (Sentinel ErrInvalidSignature)
      else None)"

definition whatsappSignatureHeader :: string where
  "whatsappSignatureHeader = ''X-Hub-Signature-256''"

definition whatsapp_Verify :: "string \<Rightarrow> verify_fn" where
  "whatsapp_Verify appSecret headers body now =
     (let signature = header_Get headers whatsappSignatureHeader in
      if signature = [] then Some (Sentinel ErrMissingSignature)
      else if ''sha256='' @ hex_text (hmac_sha256 appSecret body) \<noteq> signature
      then Some (Sentinel ErrInvalidSignature)
      else None)"

section \<open>The secret of the tenant\<close>

text \<open>
  A verifier may use the request context, here the tenant in it. \<open>parse_uuid\<close> is how the
  database reads the tenant.
\<close>

datatype Verifier =
    Plain verify_fn
  | Contextual "string \<Rightarrow> http_header \<Rightarrow> string \<Rightarrow> gotime \<Rightarrow> unit chan_op"

definition VerifyContext ::
  "(string \<Rightarrow> verify_fn chan_op) option \<Rightarrow> string \<Rightarrow> http_header \<Rightarrow> string \<Rightarrow> gotime \<Rightarrow> unit chan_op" where
  "VerifyContext resolve tenantID headers body now s =
     (case resolve of
        None \<Rightarrow> (Inl (Sentinel ErrMissingSignature), s)
      | Some r \<Rightarrow>
          (case r tenantID s of
             (Inl err, s1) \<Rightarrow>
               if errors_Is err ErrProviderCredentialNotFound \<or> errors_Is err ErrProviderSigningSecretRequired \<or>
                  errors_Is err ErrProviderSecretTokenRequired
               then (Inl (Sentinel ErrMissingSignature), s1)
               else (Inl err, s1)
           | (Inr verify, s1) \<Rightarrow>
               (case verify headers body now of
                  None \<Rightarrow> (Inr (), s1)
                | Some err \<Rightarrow> (Inl err, s1))))"

definition credentialForTenant ::
  "(string \<Rightarrow> uuid option) \<Rightarrow> Store \<Rightarrow> string \<Rightarrow> string \<Rightarrow> ProviderCredential chan_op" where
  "credentialForTenant parse_uuid st provider tenantID s =
     (if tenantID = [] then (Inl (NewError ''tenant context required''), s)
      else tenant_connection parse_uuid tenantID (GetProviderCredential st provider) s)"

definition secret_verifier ::
  "(string \<Rightarrow> uuid option) \<Rightarrow> Store \<Rightarrow> string \<Rightarrow> (ProviderCredential \<Rightarrow> string) \<Rightarrow> chan_sentinel \<Rightarrow>
   (string \<Rightarrow> verify_fn) \<Rightarrow> Verifier" where
  "secret_verifier parse_uuid st provider field missing mk =
     Contextual (VerifyContext (Some (\<lambda>tenantID s.
       case credentialForTenant parse_uuid st provider tenantID s of
         (Inl err, s1) \<Rightarrow> (Inl err, s1)
       | (Inr credential, s1) \<Rightarrow>
           (let secret = TrimSpace (field credential) in
            if secret = [] then (Inl (Sentinel missing), s1) else (Inr (mk secret), s1)))))"

definition slackVerifier :: "(string \<Rightarrow> uuid option) \<Rightarrow> Store \<Rightarrow> Verifier" where
  "slackVerifier parse_uuid st =
     secret_verifier parse_uuid st ''slack'' pc_SigningSecret ErrProviderSigningSecretRequired
       (\<lambda>secret. slack_Verify (NewSlackVerifier secret (5 * 60 * 1000000000)))"

definition whatsAppVerifier :: "(string \<Rightarrow> uuid option) \<Rightarrow> Store \<Rightarrow> Verifier" where
  "whatsAppVerifier parse_uuid st =
     secret_verifier parse_uuid st ''whatsapp'' pc_SigningSecret ErrProviderSigningSecretRequired whatsapp_Verify"

definition telegramVerifier :: "(string \<Rightarrow> uuid option) \<Rightarrow> Store \<Rightarrow> Verifier" where
  "telegramVerifier parse_uuid st =
     secret_verifier parse_uuid st ''telegram'' pc_SecretToken ErrProviderSecretTokenRequired telegram_Verify"

end
