(* ===== verification/Channel_Parser.thy ===== *)
theory Channel_Parser
  imports Channel_Verify
begin

text \<open>
  The messages in a webhook body (\<open>internal/channels/parser.go\<close>). The body comes as the JSON
  value read from it; the texts of decoding errors are left out.
\<close>

record ingressControl =
  ic_AcknowledgeOnly :: bool
  ic_SlackChallenge :: string

record ingressMetadata =
  im_PlatformUserID :: string
  im_PlatformMessageID :: string
  im_OccurredAt :: gotime
  im_Content :: string
  im_OutboundRecipientID :: string
  im_OutboundThreadTS :: string
  im_Control :: "ingressControl option"

definition control_meta :: "gotime \<Rightarrow> string \<Rightarrow> ingressMetadata" where
  "control_meta occurredAt challenge =
     \<lparr>im_PlatformUserID = [], im_PlatformMessageID = [], im_OccurredAt = occurredAt, im_Content = [],
      im_OutboundRecipientID = [], im_OutboundThreadTS = [],
      im_Control = Some \<lparr>ic_AcknowledgeOnly = True, ic_SlackChallenge = challenge\<rparr>\<rparr>"

definition message_meta :: "string \<Rightarrow> string \<Rightarrow> gotime \<Rightarrow> string \<Rightarrow> ingressMetadata" where
  "message_meta user message occurredAt content =
     \<lparr>im_PlatformUserID = user, im_PlatformMessageID = message, im_OccurredAt = occurredAt,
      im_Content = content, im_OutboundRecipientID = [], im_OutboundThreadTS = [], im_Control = None\<rparr>"

text \<open>A timestamp in seconds; without one it is the time of the request.\<close>

definition parse_timestamp :: "string \<Rightarrow> gotime \<Rightarrow> string \<Rightarrow> chan_error + gotime" where
  "parse_timestamp msg now raw =
     (let ts = TrimSpace raw in
      if ts = [] then Inr now
      else case Atoi ts of
          None \<Rightarrow> Inl (Wrap msg (NewError ''strconv.ParseInt''))
        | Some unixTs \<Rightarrow> Inr (time_Unix unixTs))"

section \<open>Slack\<close>

record slack_payload =
  sp_Type :: string
  sp_Challenge :: string
  sp_EventID :: string
  sp_User :: string
  sp_BotID :: string
  sp_Text :: string
  sp_Channel :: string
  sp_ThreadTS :: string

definition decode_slack :: "raw_json \<Rightarrow> slack_payload option" where
  "decode_slack body =
     (case object_entries body of
        None \<Rightarrow> None
      | Some kvs \<Rightarrow>
          (case (string_field ''type'' kvs, string_field ''challenge'' kvs, string_field ''event_id'' kvs,
                 struct_field ''event'' kvs) of
             (Some ty, Some ch, Some i, Some ev) \<Rightarrow>
               (case (string_field ''type'' ev, string_field ''user'' ev, string_field ''bot_id'' ev,
                      string_field ''text'' ev, string_field ''channel'' ev, string_field ''thread_ts'' ev) of
                  (Some _, Some u, Some b, Some t, Some c, Some th) \<Rightarrow>
                    Some \<lparr>sp_Type = ty, sp_Challenge = ch, sp_EventID = i, sp_User = u, sp_BotID = b,
                          sp_Text = t, sp_Channel = c, sp_ThreadTS = th\<rparr>
                | _ \<Rightarrow> None)
           | _ \<Rightarrow> None))"

definition extractSlackIngressMetadata ::
  "http_header \<Rightarrow> raw_json \<Rightarrow> gotime \<Rightarrow> chan_error + ingressMetadata list" where
  "extractSlackIngressMetadata headers body now =
     (case decode_slack body of
        None \<Rightarrow> Inl (Wrap ''parsing slack payload'' (NewError ''json''))
      | Some payload \<Rightarrow>
          (case parse_timestamp ''parsing slack timestamp'' now (header_Get headers slackTimestampHeader) of
             Inl e \<Rightarrow> Inl e
           | Inr occurredAt \<Rightarrow>
               if sp_Type payload \<noteq> [] \<and> sp_Type payload \<noteq> ''event_callback''
               then Inr [control_meta occurredAt (TrimSpace (sp_Challenge payload))]
               else
                 (let platformIdentity =
                    (if TrimSpace (sp_User payload) = [] then TrimSpace (sp_BotID payload)
                     else TrimSpace (sp_User payload)) in
                  if platformIdentity = [] then Inr [control_meta occurredAt []]
                  else Inr [(message_meta platformIdentity (TrimSpace (sp_EventID payload)) occurredAt
                               (TrimSpace (sp_Text payload)))
                              \<lparr>im_OutboundRecipientID := TrimSpace (sp_Channel payload),
                               im_OutboundThreadTS := TrimSpace (sp_ThreadTS payload)\<rparr>])))"

section \<open>WhatsApp\<close>

record wa_message =
  wm_From :: string
  wm_ID :: string
  wm_Timestamp :: string
  wm_Body :: string

record wa_value =
  wv_Messages :: "wa_message list"
  wv_Statuses :: "string list"

definition decode_wa_message :: "json \<Rightarrow> wa_message option" where
  "decode_wa_message j =
     (case json_entries j of
        None \<Rightarrow> None
      | Some kvs \<Rightarrow>
          (case (string_field ''from'' kvs, string_field ''id'' kvs, string_field ''timestamp'' kvs,
                 struct_field ''text'' kvs) of
             (Some f, Some i, Some ts, Some t) \<Rightarrow>
               map_option (\<lambda>b. \<lparr>wm_From = f, wm_ID = i, wm_Timestamp = ts, wm_Body = b\<rparr>)
                 (string_field ''body'' t)
           | _ \<Rightarrow> None))"

definition decode_wa_status :: "json \<Rightarrow> string option" where
  "decode_wa_status j = Option.bind (json_entries j) (string_field ''timestamp'')"

definition decode_wa_change :: "json \<Rightarrow> wa_value option" where
  "decode_wa_change j =
     (case Option.bind (json_entries j) (struct_field ''value'') of
        None \<Rightarrow> None
      | Some v \<Rightarrow>
          (case (slice_field decode_wa_message ''messages'' v, slice_field decode_wa_status ''statuses'' v) of
             (Some ms, Some st) \<Rightarrow> Some \<lparr>wv_Messages = ms, wv_Statuses = st\<rparr>
           | _ \<Rightarrow> None))"

definition decode_wa_entry :: "json \<Rightarrow> wa_value list option" where
  "decode_wa_entry j = Option.bind (json_entries j) (slice_field decode_wa_change ''changes'')"

definition decode_whatsapp :: "raw_json \<Rightarrow> wa_value list list option" where
  "decode_whatsapp body = Option.bind (object_entries body) (slice_field decode_wa_entry ''entry'')"

fun wa_metas :: "gotime \<Rightarrow> wa_message list \<Rightarrow> chan_error + ingressMetadata list" where
  "wa_metas now [] = Inr []"
| "wa_metas now (m # ms) =
     (if TrimSpace (wm_From m) = [] then Inl (Wrap ''parsing whatsapp payload'' (Sentinel ErrIdentityEmpty))
      else case parse_timestamp ''parsing whatsapp timestamp'' now (wm_Timestamp m) of
          Inl e \<Rightarrow> Inl e
        | Inr occurredAt \<Rightarrow>
            (case wa_metas now ms of
               Inl e \<Rightarrow> Inl e
             | Inr metas \<Rightarrow>
                 Inr (message_meta (TrimSpace (wm_From m)) (TrimSpace (wm_ID m)) occurredAt
                        (TrimSpace (wm_Body m)) # metas)))"

text \<open>
  Without a message, the time of the first status of a change; the \<open>break\<close> leaves the changes
  of one entry only, so a later entry overrides an earlier one.
\<close>

fun wa_entry_time :: "gotime \<Rightarrow> wa_value list \<Rightarrow> chan_error + gotime" where
  "wa_entry_time t [] = Inr t"
| "wa_entry_time t (v # vs) =
     (case wv_Statuses v of
        [] \<Rightarrow> wa_entry_time t vs
      | ts # _ \<Rightarrow> parse_timestamp ''parsing whatsapp status timestamp'' t ts)"

fun wa_status_time :: "gotime \<Rightarrow> wa_value list list \<Rightarrow> chan_error + gotime" where
  "wa_status_time t [] = Inr t"
| "wa_status_time t (entry # entries) =
     (case wa_entry_time t entry of
        Inl e \<Rightarrow> Inl e
      | Inr t' \<Rightarrow> wa_status_time t' entries)"

definition extractWhatsAppIngressMetadata :: "raw_json \<Rightarrow> gotime \<Rightarrow> chan_error + ingressMetadata list" where
  "extractWhatsAppIngressMetadata body now =
     (case decode_whatsapp body of
        None \<Rightarrow> Inl (Wrap ''parsing whatsapp payload'' (NewError ''json''))
      | Some entries \<Rightarrow>
          if entries = [] then Inr [control_meta now []]
          else
            (case wa_metas now (concat (map wv_Messages (concat entries))) of
               Inl e \<Rightarrow> Inl e
             | Inr metas \<Rightarrow>
                 if metas \<noteq> [] then Inr metas
                 else (case wa_status_time now entries of
                         Inl e \<Rightarrow> Inl e
                       | Inr occurredAt \<Rightarrow> Inr [control_meta occurredAt []])))"

section \<open>Telegram\<close>

record tg_message =
  tm_MessageID :: int
  tm_Date :: int
  tm_Text :: string
  tm_FromID :: int

definition decode_telegram :: "raw_json \<Rightarrow> tg_message option" where
  "decode_telegram body =
     (case Option.bind (object_entries body) (struct_field ''message'') of
        None \<Rightarrow> None
      | Some m \<Rightarrow>
          (case (int_field ''message_id'' m, int_field ''date'' m, string_field ''text'' m,
                 Option.bind (struct_field ''from'' m) (int_field ''id'')) of
             (Some i, Some d, Some t, Some f) \<Rightarrow>
               Some \<lparr>tm_MessageID = i, tm_Date = d, tm_Text = t, tm_FromID = f\<rparr>
           | _ \<Rightarrow> None))"

definition extractTelegramIngressMetadata :: "raw_json \<Rightarrow> gotime \<Rightarrow> chan_error + ingressMetadata list" where
  "extractTelegramIngressMetadata body now =
     (case decode_telegram body of
        None \<Rightarrow> Inl (Wrap ''parsing telegram payload'' (NewError ''json''))
      | Some m \<Rightarrow>
          if tm_FromID m = 0 then Inl (Wrap ''parsing telegram payload'' (Sentinel ErrIdentityEmpty))
          else Inr [message_meta (Itoa (tm_FromID m))
                      (if tm_MessageID m > 0 then Itoa (tm_MessageID m) else [])
                      (if tm_Date m > 0 then time_Unix (tm_Date m) else now)
                      (TrimSpace (tm_Text m))])"

definition extractIngressMetadata ::
  "string \<Rightarrow> http_header \<Rightarrow> raw_json \<Rightarrow> gotime \<Rightarrow> chan_error + ingressMetadata list" where
  "extractIngressMetadata provider headers body now =
     (let p = ToLower (TrimSpace provider) in
      if p = ''slack'' then extractSlackIngressMetadata headers body now
      else if p = ''whatsapp'' then extractWhatsAppIngressMetadata body now
      else if p = ''telegram'' then extractTelegramIngressMetadata body now
      else Inl (NewError (''unsupported provider: '' @ provider)))"

end
