(* ===== verification/Channel_Ingress.thy ===== *)
theory Channel_Ingress
  imports Channel_Parser
begin

text \<open>
  The ingress guard (\<open>internal/channels/ingress.go\<close>): signature, link, verification state, replay
  window and idempotency, in this order, with the audit event of every decision. The second half
  is the guard \<open>cmd/heimdall/main.go\<close> builds on the channel store.

  Every reading of the clock is numbered; \<open>wall\<close> answers the readings.
\<close>

section \<open>The guard\<close>

datatype IngressDecision =
    IngressAccepted
  | IngressExecuted
  | IngressDuplicate
  | IngressReplayBlocked
  | IngressRejectedSignature
  | IngressDeniedUnverified
  | IngressDeniedRBAC
  | IngressDeniedNoAgent
  | IngressDeniedSentinel
  | IngressDispatchFailed
  | IngressIgnored

definition decision_text :: "IngressDecision \<Rightarrow> string" where
  "decision_text d =
     (case d of
        IngressAccepted \<Rightarrow> ''accepted'' | IngressExecuted \<Rightarrow> ''executed''
      | IngressDuplicate \<Rightarrow> ''duplicate'' | IngressReplayBlocked \<Rightarrow> ''replay_blocked''
      | IngressRejectedSignature \<Rightarrow> ''rejected_signature'' | IngressDeniedUnverified \<Rightarrow> ''denied_unverified''
      | IngressDeniedRBAC \<Rightarrow> ''denied_rbac'' | IngressDeniedNoAgent \<Rightarrow> ''denied_no_agent''
      | IngressDeniedSentinel \<Rightarrow> ''denied_sentinel'' | IngressDispatchFailed \<Rightarrow> ''dispatch_failed''
      | IngressIgnored \<Rightarrow> ''ignored'')"

record IngressMessage =
  ms_Platform :: string
  ms_PlatformUserID :: string
  ms_PlatformMessageID :: string
  ms_IdempotencyKey :: string
  ms_PayloadFingerprint :: string
  ms_CorrelationID :: string
  ms_Headers :: http_header
  ms_Body :: string
  ms_OccurredAt :: gotime
  ms_ExpiresAt :: gotime

record channel_audit =
  ca_TenantID :: uuid
  ca_UserID :: "uuid option"
  ca_Action :: string
  ca_Metadata :: "(string \<times> json) list"
  ca_Source :: string

text \<open>The first argument of the last two is the tenant of the request context.\<close>

record IngressGuard =
  gd_verifier :: Verifier
  gd_replayWindow :: duration
  gd_resolveLink :: "string \<Rightarrow> string \<Rightarrow> string \<Rightarrow> ChannelLink chan_op"
  gd_insertIdempotency :: "string \<Rightarrow> IngressMessage \<Rightarrow> bool chan_op"
  gd_auditLogger :: bool

definition NewIngressGuard ::
  "Verifier \<Rightarrow> duration \<Rightarrow> (string \<Rightarrow> string \<Rightarrow> string \<Rightarrow> ChannelLink chan_op) \<Rightarrow>
   (string \<Rightarrow> IngressMessage \<Rightarrow> bool chan_op) \<Rightarrow> IngressGuard" where
  "NewIngressGuard verifier replayWindow resolveLink insertIdempotency =
     \<lparr>gd_verifier = verifier, gd_replayWindow = replayWindow, gd_resolveLink = resolveLink,
      gd_insertIdempotency = insertIdempotency, gd_auditLogger = False\<rparr>"

text \<open>
  What the requests act on: the database, the number of clock readings so far, and the audit
  events and executions in order (executions are added by the webhook handler).
\<close>

record ExecutionMessage =
  xm_TenantID :: string
  xm_Platform :: string
  xm_PlatformUserID :: string
  xm_PlatformMessageID :: string
  xm_CorrelationID :: string
  xm_Content :: string
  xm_ConversationHistory :: "ChannelConversationTurn list"
  xm_Link :: ChannelLink

datatype channel_event =
    Audit channel_audit
  | Execute string ExecutionMessage \<comment> \<open>with the idempotency key of the message\<close>

record channel_world =
  cw_db :: db
  cw_ticks :: nat
  cw_events :: "channel_event list"

definition read_clock :: "(nat \<Rightarrow> gotime) \<Rightarrow> channel_world \<Rightarrow> gotime \<times> channel_world" where
  "read_clock wall w = (wall (cw_ticks w), w\<lparr>cw_ticks := Suc (cw_ticks w)\<rparr>)"

definition on_channel_db :: "'a chan_op \<Rightarrow> channel_world \<Rightarrow> (chan_error + 'a) \<times> channel_world" where
  "on_channel_db f w = (case f (cw_db w) of (r, s) \<Rightarrow> (r, w\<lparr>cw_db := s\<rparr>))"

definition add_event :: "channel_event \<Rightarrow> channel_world \<Rightarrow> channel_world" where
  "add_event e w = w\<lparr>cw_events := cw_events w @ [e]\<rparr>"

definition VerifyWithContext ::
  "(nat \<Rightarrow> gotime) \<Rightarrow> IngressGuard \<Rightarrow> string \<Rightarrow> http_header \<Rightarrow> string \<Rightarrow> channel_world \<Rightarrow>
   (chan_error + unit) \<times> channel_world" where
  "VerifyWithContext wall g tenantID headers body w =
     (case read_clock wall w of (now, w1) \<Rightarrow>
        case gd_verifier g of
          Contextual v \<Rightarrow> on_channel_db (v tenantID headers body now) w1
        | Plain v \<Rightarrow> ((case v headers body now of None \<Rightarrow> Inr () | Some e \<Rightarrow> Inl e), w1))"

definition ingress_action :: "IngressDecision \<Rightarrow> string" where
  "ingress_action decision =
     (case decision of
        IngressDuplicate \<Rightarrow> ''channel.message.duplicate''
      | IngressReplayBlocked \<Rightarrow> ''channel.message.replay_blocked''
      | IngressIgnored \<Rightarrow> ''channel.webhook.ignored''
      | IngressRejectedSignature \<Rightarrow> ''channel.webhook.rejected_signature''
      | IngressDeniedUnverified \<Rightarrow> ''channel.action_denied_unverified''
      | _ \<Rightarrow> ''channel.message.accepted'')"

definition logDecision ::
  "IngressGuard \<Rightarrow> IngressMessage \<Rightarrow> IngressDecision \<Rightarrow> ChannelLink option \<Rightarrow> channel_world \<Rightarrow> channel_world" where
  "logDecision g msg decision link w =
     (if \<not> gd_auditLogger g then w
      else add_event (Audit
        \<lparr>ca_TenantID = (case link of None \<Rightarrow> uuid_Nil | Some l \<Rightarrow> ln_TenantID l),
         ca_UserID = (case link of None \<Rightarrow> None
                      | Some l \<Rightarrow> if ln_UserID l = uuid_Nil then None else Some (ln_UserID l)),
         ca_Action = ingress_action decision,
         ca_Metadata = [(''correlation_id'', JStr (ms_CorrelationID msg)), (''decision'', JStr (decision_text decision)),
                        (''idempotency_key'', JStr (ms_IdempotencyKey msg)),
                        (''platform_message_id'', JStr (ms_PlatformMessageID msg))],
         ca_Source = ms_Platform msg\<rparr>) w)"

record IngressResult =
  ir_Decision :: "IngressDecision option"
  ir_Link :: "ChannelLink option"

definition outside_window :: "duration \<Rightarrow> gotime \<Rightarrow> gotime \<Rightarrow> bool" where
  "outside_window window now occurredAt \<longleftrightarrow>
     (let skew = time_Sub now occurredAt in skew > window \<or> skew < - window)"

definition ingest ::
  "IngressGuard \<Rightarrow> string \<Rightarrow> IngressMessage \<Rightarrow> ChannelLink \<Rightarrow> channel_world \<Rightarrow>
   (IngressResult \<times> chan_error option) \<times> channel_world" where
  "ingest g tenantID msg link w =
     (case on_channel_db (gd_insertIdempotency g tenantID msg) w of
        (Inl e, w1) \<Rightarrow> ((\<lparr>ir_Decision = None, ir_Link = None\<rparr>, Some e), w1)
      | (Inr firstSeen, w1) \<Rightarrow>
          (let d = (if firstSeen then IngressAccepted else IngressDuplicate) in
           ((\<lparr>ir_Decision = Some d, ir_Link = Some link\<rparr>, None), logDecision g msg d (Some link) w1)))"

definition Process ::
  "(nat \<Rightarrow> gotime) \<Rightarrow> IngressGuard \<Rightarrow> string \<Rightarrow> IngressMessage \<Rightarrow> channel_world \<Rightarrow>
   (IngressResult \<times> chan_error option) \<times> channel_world" where
  "Process wall g tenantID msg w =
     (case VerifyWithContext wall g tenantID (ms_Headers msg) (ms_Body msg) w of
        (Inl e, w1) \<Rightarrow>
          ((\<lparr>ir_Decision = Some IngressRejectedSignature, ir_Link = None\<rparr>, Some e),
           logDecision g msg IngressRejectedSignature None w1)
      | (Inr _, w1) \<Rightarrow>
          (case on_channel_db (gd_resolveLink g tenantID (ms_Platform msg) (ms_PlatformUserID msg)) w1 of
             (Inl e, w2) \<Rightarrow>
               if errors_Is e ErrLinkNotFound
               then ((\<lparr>ir_Decision = Some IngressDeniedUnverified, ir_Link = None\<rparr>,
                      Some (Sentinel ErrLinkUnverified)),
                     logDecision g msg IngressDeniedUnverified None w2)
               else ((\<lparr>ir_Decision = None, ir_Link = None\<rparr>, Some e), w2)
           | (Inr link, w2) \<Rightarrow>
               if \<not> IsVerified link
               then ((\<lparr>ir_Decision = Some IngressDeniedUnverified, ir_Link = Some link\<rparr>,
                      Some (Sentinel ErrLinkUnverified)),
                     logDecision g msg IngressDeniedUnverified (Some link) w2)
               else if gd_replayWindow g > 0 \<and> ms_OccurredAt msg \<noteq> 0
               then (case read_clock wall w2 of (now, w3) \<Rightarrow>
                       if outside_window (gd_replayWindow g) now (ms_OccurredAt msg)
                       then ((\<lparr>ir_Decision = Some IngressReplayBlocked, ir_Link = Some link\<rparr>, None),
                             logDecision g msg IngressReplayBlocked (Some link) w3)
                       else ingest g tenantID msg link w3)
               else ingest g tenantID msg link w2))"

section \<open>The guards on the channel store\<close>

definition store_resolveLink ::
  "(string \<Rightarrow> uuid option) \<Rightarrow> string \<Rightarrow> string \<Rightarrow> string \<Rightarrow> ChannelLink chan_op" where
  "store_resolveLink parse_uuid tenantID platform platformUserID s =
     (if tenantID = [] then (Inl (NewError ''tenant context required''), s)
      else tenant_connection parse_uuid tenantID (GetLinkByIdentity platform platformUserID) s)"

definition store_insertIdempotency ::
  "(string \<Rightarrow> uuid option) \<Rightarrow> string \<Rightarrow> IngressMessage \<Rightarrow> bool chan_op" where
  "store_insertIdempotency parse_uuid tenantID msg s =
     (if tenantID = [] then (Inl (NewError ''tenant context required''), s)
      else tenant_connection parse_uuid tenantID
        (InsertIdempotency (ms_Platform msg) (ms_PlatformUserID msg) (ms_PlatformMessageID msg)
           (ms_IdempotencyKey msg) (ms_PayloadFingerprint msg) (ms_CorrelationID msg) (ms_ExpiresAt msg)) s)"

definition replay_window :: "int \<Rightarrow> duration" where
  "replay_window seconds =
     (let w = wrap64 (seconds * 1000000000) in if w \<le> 0 then 24 * 60 * 60 * 1000000000 else w)"

definition store_guard :: "(string \<Rightarrow> uuid option) \<Rightarrow> ChannelsConfig \<Rightarrow> Verifier \<Rightarrow> IngressGuard" where
  "store_guard parse_uuid cfg verifier =
     NewIngressGuard verifier (replay_window (ig_ReplayWindowSeconds (ch_Ingress cfg)))
       (store_resolveLink parse_uuid) (store_insertIdempotency parse_uuid)"

definition ingress_guards ::
  "(string \<Rightarrow> uuid option) \<Rightarrow> Store \<Rightarrow> ChannelsConfig \<Rightarrow> (string \<times> IngressGuard) list" where
  "ingress_guards parse_uuid st cfg =
     (if pv_Enabled (ps_Slack (ch_Providers cfg))
      then [(''slack'', store_guard parse_uuid cfg (slackVerifier parse_uuid st))] else []) @
     (if pv_Enabled (ps_WhatsApp (ch_Providers cfg))
      then [(''whatsapp'', store_guard parse_uuid cfg (whatsAppVerifier parse_uuid st))] else []) @
     (if pv_Enabled (ps_Telegram (ch_Providers cfg))
      then [(''telegram'', store_guard parse_uuid cfg (telegramVerifier parse_uuid st))] else [])"

end
