(* ===== verification/Channel_Execution.thy ===== *)
theory Channel_Execution
  imports Channel_Ingress Access_Control Agent_Store Agent_Conn
begin

text \<open>
  The execution of an accepted channel message (\<open>cmd/heimdall/channels_execution.go\<close>): identity,
  authorization, sentinel scan, choice of the agent, and the exchange of frames with it. The
  functions the executor is built from are its arguments; an error is its text.
\<close>

section \<open>The executor\<close>

record ExecutionResult =
  xr_Decision :: "IngressDecision option"
  xr_AgentID :: string
  xr_ResponseContent :: string

type_synonym executor = "ExecutionMessage \<Rightarrow> db \<Rightarrow> ExecutionResult \<times> db \<times> channel_audit list"

record ScanResult =
  sr_Allowed :: bool
  sr_Score :: rat
  sr_Reason :: string

datatype context_error = ErrUserContextNotFound | ContextError string

text \<open>
  The functions that use the database only read it: they give a result and what is left of the
  fault script.
\<close>

type_synonym ('e, 'a) db_reader = "db \<Rightarrow> ('e + 'a) \<times> string option list"

definition run_reader :: "('e, 'a) db_reader \<Rightarrow> db \<Rightarrow> ('e + 'a) \<times> db" where
  "run_reader f s = (case f s of (r, fs) \<Rightarrow> (r, s\<lparr>db_faults := fs\<rparr>))"

record channel_executor =
  ce_parse_uuid :: "string \<Rightarrow> uuid option"
  ce_show_uuid :: "uuid \<Rightarrow> string"
  ce_lookupIdentity :: "string \<Rightarrow> (string, Identity option) db_reader"
  ce_authorize :: "Identity \<Rightarrow> string \<Rightarrow> string + Decision option"
  ce_listAgents :: "string \<Rightarrow> (string, AgentInstance list) db_reader"
  ce_dispatch :: "AgentInstance \<Rightarrow> string \<Rightarrow> ChannelConversationTurn list \<Rightarrow> string \<Rightarrow> string + string"
  ce_lookupUserContext :: "(string \<Rightarrow> string \<Rightarrow> string \<Rightarrow> (context_error, string) db_reader) option"
  ce_scanSentinel :: "(string \<Rightarrow> string \<Rightarrow> string \<Rightarrow> string + ScanResult) option"
  ce_audit :: bool

definition logChannelExecutionEvent ::
  "channel_executor \<Rightarrow> string \<Rightarrow> ExecutionMessage \<Rightarrow> (string \<times> json) list \<Rightarrow> channel_audit list" where
  "logChannelExecutionEvent ex action msg extra =
     (if \<not> ce_audit ex then []
      else [\<lparr>ca_TenantID = (case ce_parse_uuid ex (xm_TenantID msg) of None \<Rightarrow> uuid_Nil | Some t \<Rightarrow> t),
             ca_UserID = (if ln_UserID (xm_Link msg) = uuid_Nil then None else Some (ln_UserID (xm_Link msg))),
             ca_Action = action,
             ca_Metadata =
               [(''correlation_id'', JStr (xm_CorrelationID msg)),
                (''platform_message_id'', JStr (xm_PlatformMessageID msg)),
                (''platform_user_id'', JStr (xm_PlatformUserID msg))] @ extra,
             ca_Source = xm_Platform msg\<rparr>])"

definition exec_result :: "IngressDecision \<Rightarrow> string \<Rightarrow> string \<Rightarrow> ExecutionResult" where
  "exec_result d agentID content = \<lparr>xr_Decision = Some d, xr_AgentID = agentID, xr_ResponseContent = content\<rparr>"

definition dispatch_failed ::
  "channel_executor \<Rightarrow> ExecutionMessage \<Rightarrow> string \<Rightarrow> (string \<times> json) list \<Rightarrow> string \<Rightarrow> db \<Rightarrow>
   ExecutionResult \<times> db \<times> channel_audit list" where
  "dispatch_failed ex msg reason extra agentID s =
     (exec_result IngressDispatchFailed agentID [], s,
      logChannelExecutionEvent ex ''channel.action_dispatch_failed'' msg ((''reason'', JStr reason) # extra))"

section \<open>The choice of the agent\<close>

definition isChannelDispatchCandidate :: "AgentInstance \<Rightarrow> bool" where
  "isChannelDispatchCandidate inst \<longleftrightarrow> ai_Status inst = StatusRunning \<and> ai_VsockCID inst \<noteq> None"

definition isChannelDispatchUserMatch :: "AgentInstance \<Rightarrow> string \<Rightarrow> bool" where
  "isChannelDispatchUserMatch inst requestedUserID \<longleftrightarrow>
     (if TrimSpace requestedUserID = []
      then (case ai_UserID inst of None \<Rightarrow> True | Some u \<Rightarrow> TrimSpace u = [])
      else (case ai_UserID inst of None \<Rightarrow> False | Some u \<Rightarrow> TrimSpace u = TrimSpace requestedUserID))"

definition selectChannelTargetAgent ::
  "(uuid \<Rightarrow> string) \<Rightarrow> AgentInstance list \<Rightarrow> string \<Rightarrow> string list \<Rightarrow> AgentInstance option" where
  "selectChannelTargetAgent show_uuid instances userID preferredDepartments =
     (let requestedUserID = TrimSpace userID;
          preferred = filter (\<lambda>d. d \<noteq> []) (map TrimSpace preferredDepartments);
          usable = (\<lambda>inst. isChannelDispatchCandidate inst \<and> isChannelDispatchUserMatch inst requestedUserID);
          department = (if preferred = [] then None
            else find (\<lambda>inst. usable inst \<and>
                   (case ai_DepartmentID inst of None \<Rightarrow> False | Some d \<Rightarrow> show_uuid d \<in> set preferred)) instances) in
      case department of
        Some inst \<Rightarrow> Some inst
      | None \<Rightarrow> find (\<lambda>inst. usable inst \<and> ai_DepartmentID inst = None) instances)"

section \<open>Execution\<close>

definition user_context ::
  "channel_executor \<Rightarrow> ExecutionMessage \<Rightarrow> string \<Rightarrow> string \<Rightarrow> db \<Rightarrow> (string + string) \<times> db" where
  "user_context ex msg agentID userID s =
     (case ce_lookupUserContext ex of
        None \<Rightarrow> (Inr [], s)
      | Some lookup \<Rightarrow>
          (case run_reader (lookup (xm_TenantID msg) agentID userID) s of
             (Inr text, s1) \<Rightarrow> (Inr text, s1)
           | (Inl ErrUserContextNotFound, s1) \<Rightarrow> (Inr [], s1)
           | (Inl (ContextError e), s1) \<Rightarrow> (Inl e, s1)))"

definition run_agent ::
  "channel_executor \<Rightarrow> ExecutionMessage \<Rightarrow> string \<Rightarrow> Identity \<Rightarrow> AgentInstance \<Rightarrow> db \<Rightarrow>
   ExecutionResult \<times> db \<times> channel_audit list" where
  "run_agent ex msg content identity target s =
     (let agentID = ce_show_uuid ex (ai_ID target) in
      case user_context ex msg agentID (au_UserID identity) s of
        (Inl e, s1) \<Rightarrow>
          dispatch_failed ex msg ''resolving user context failed''
            [(''agent_id'', JStr agentID), (''error'', JStr e)] agentID s1
      | (Inr context, s1) \<Rightarrow>
          (case ce_dispatch ex target content (xm_ConversationHistory msg) context of
             Inl e \<Rightarrow>
               dispatch_failed ex msg ''dispatch to agent failed''
                 [(''agent_id'', JStr agentID), (''error'', JStr e)] agentID s1
           | Inr response \<Rightarrow>
               (exec_result IngressExecuted agentID response, s1,
                logChannelExecutionEvent ex ''channel.action_executed'' msg
                  [(''agent_id'', JStr agentID), (''response_char_count'', JNum (of_nat (length response)))])))"

definition find_agent ::
  "channel_executor \<Rightarrow> ExecutionMessage \<Rightarrow> string \<Rightarrow> Identity \<Rightarrow> db \<Rightarrow> ExecutionResult \<times> db \<times> channel_audit list" where
  "find_agent ex msg content identity s =
     (case run_reader (ce_listAgents ex (xm_TenantID msg)) s of
        (Inl e, s1) \<Rightarrow> dispatch_failed ex msg ''listing tenant agents failed'' [(''error'', JStr e)] [] s1
      | (Inr agents, s1) \<Rightarrow>
          (case selectChannelTargetAgent (ce_show_uuid ex) agents (au_UserID identity) (au_Departments identity) of
             None \<Rightarrow>
               (exec_result IngressDeniedNoAgent [] [], s1,
                logChannelExecutionEvent ex ''channel.action_denied_no_agent'' msg
                  [(''reason'', JStr ''no running agent available'')])
           | Some target \<Rightarrow> run_agent ex msg content identity target s1))"

definition scan_message ::
  "channel_executor \<Rightarrow> ExecutionMessage \<Rightarrow> string \<Rightarrow> Identity \<Rightarrow> db \<Rightarrow> ExecutionResult \<times> db \<times> channel_audit list" where
  "scan_message ex msg content identity s =
     (case ce_scanSentinel ex of
        None \<Rightarrow> find_agent ex msg content identity s
      | Some scan \<Rightarrow>
          (case scan (xm_TenantID msg) (au_UserID identity) content of
             Inl e \<Rightarrow> dispatch_failed ex msg ''sentinel scan failed'' [(''error'', JStr e)] [] s
           | Inr result \<Rightarrow>
               if \<not> sr_Allowed result
               then (exec_result IngressDeniedSentinel [] [], s,
                     logChannelExecutionEvent ex ''channel.action_denied_sentinel'' msg
                       [(''reason'', JStr (sr_Reason result)), (''score'', JNum (sr_Score result))])
               else find_agent ex msg content identity s))"

definition execute_message :: "channel_executor \<Rightarrow> executor" where
  "execute_message ex msg s =
     (let content = TrimSpace (xm_Content msg); link = xm_Link msg in
      if content = [] then (exec_result IngressAccepted [] [], s, [])
      else if ln_UserID link = uuid_Nil then dispatch_failed ex msg ''linked user is missing'' [] [] s
      else if ln_TenantID link \<noteq> uuid_Nil \<and> xm_TenantID msg \<noteq> [] \<and>
              ce_show_uuid ex (ln_TenantID link) \<noteq> xm_TenantID msg
      then dispatch_failed ex msg ''tenant mismatch between link and ingress path'' [] [] s
      else case run_reader (ce_lookupIdentity ex (ce_show_uuid ex (ln_UserID link))) s of
          (Inl e, s1) \<Rightarrow> dispatch_failed ex msg ''identity lookup failed'' [(''error'', JStr e)] [] s1
        | (Inr None, s1) \<Rightarrow> dispatch_failed ex msg ''identity lookup failed'' [(''error'', JStr [])] [] s1
        | (Inr (Some identity), s1) \<Rightarrow>
            if TrimSpace (au_UserID identity) = []
            then dispatch_failed ex msg ''identity is missing user id'' [] [] s1
            else (case ce_authorize ex identity ''channels:messages:write'' of
                Inl e \<Rightarrow> dispatch_failed ex msg ''authorization failed'' [(''error'', JStr e)] [] s1
              | Inr None \<Rightarrow> dispatch_failed ex msg ''authorization failed'' [(''error'', JStr [])] [] s1
              | Inr (Some decision) \<Rightarrow>
                  if \<not> dc_Allowed decision
                  then (exec_result IngressDeniedRBAC [] [], s1,
                        logChannelExecutionEvent ex ''channel.action_denied_rbac'' msg
                          [(''reason'', JStr (dc_Reason decision))])
                  else scan_message ex msg content identity s1))"

section \<open>The exchange with the agent\<close>

definition buildDispatchConversationMessages ::
  "ChannelConversationTurn list \<Rightarrow> string \<Rightarrow> string \<Rightarrow> (string \<times> string) list" where
  "buildDispatchConversationMessages history latestContent userContext =
     (let contextText = TrimSpace userContext; latest = TrimSpace latestContent in
      (if contextText = [] then [] else [(''system'', ''Persisted user context:'' @ [CHR 0x0A] @ contextText)]) @
      concat (map (\<lambda>turn.
        (let request = TrimSpace (ct_RequestContent turn); response = TrimSpace (ct_ResponseContent turn) in
         (if request = [] then [] else [(''user'', request)]) @
         (if response = [] then [] else [(''assistant'', response)]))) history) @
      (if latest = [] then [] else [(''user'', latest)]))"

definition dispatch_payload :: "ChannelConversationTurn list \<Rightarrow> string \<Rightarrow> string \<Rightarrow> json" where
  "dispatch_payload history content userContext =
     JObj [(''content'', JStr content),
           (''messages'', JArr (map (\<lambda>(role, text). JObj [(''content'', JStr text), (''role'', JStr role)])
             (buildDispatchConversationMessages history content userContext))),
           (''role'', JStr ''user'')]"

text \<open>
  The pool, the send and the results of \<open>request.Recv\<close> up to the deadline. The second component
  of a result says whether the connection is removed from the pool.
\<close>

record agent_wire =
  wi_pool :: bool
  wi_get :: "string option"
  wi_request_id :: string
  wi_send :: "string option"
  wi_replies :: "(string + Frame) list"

definition decode_chunk :: "raw_json \<Rightarrow> (string \<times> bool) option" where
  "decode_chunk payload =
     (case object_entries payload of
        None \<Rightarrow> None
      | Some kvs \<Rightarrow>
          (case (string_field ''content'' kvs, bool_field ''done'' kvs) of
             (Some c, Some d) \<Rightarrow> Some (c, d)
           | _ \<Rightarrow> None))"

definition lenient_string :: "string \<Rightarrow> raw_json \<Rightarrow> string" where
  "lenient_string name payload =
     (case Option.bind (object_entries payload) (string_field name) of None \<Rightarrow> [] | Some t \<Rightarrow> t)"

definition agent_error_text :: "raw_json \<Rightarrow> string" where
  "agent_error_text payload =
     (let m = TrimSpace (lenient_string ''message'' payload) in
      ''agent error: '' @ (if m = [] then ''unknown agent error'' else m))"

definition tool_blocked_text :: "raw_json \<Rightarrow> string" where
  "tool_blocked_text payload =
     (let t = lenient_string ''tool_name'' payload in
      if TrimSpace t = [] then ''tool blocked'' else ''tool blocked: '' @ t)"

fun collect_reply :: "string \<Rightarrow> (string + Frame) list \<Rightarrow> (string + string) \<times> bool" where
  "collect_reply parts [] = (Inl ''receiving agent response: context deadline exceeded'', True)"
| "collect_reply parts (Inl e # replies) = (Inl (''receiving agent response: '' @ e), True)"
| "collect_reply parts (Inr reply # replies) =
     (if fr_Type reply = ''chunk'' then
        (case decode_chunk (fr_Payload reply) of
           None \<Rightarrow> (Inl ''decoding chunk response'', False)
         | Some (content, fin) \<Rightarrow>
             if fin then (Inr (parts @ content), False) else collect_reply (parts @ content) replies)
      else if fr_Type reply = ''error'' then (Inl (agent_error_text (fr_Payload reply)), False)
      else if fr_Type reply = ''tool_blocked'' then (Inl (tool_blocked_text (fr_Payload reply)), False)
      else if fr_Type reply = ''session_halt'' then (Inl ''session halted by agent'', True)
      else (Inl (''unexpected frame type from agent: '' @ fr_Type reply), True))"

definition dispatch_frame_of ::
  "agent_wire \<Rightarrow> string \<Rightarrow> ChannelConversationTurn list \<Rightarrow> string \<Rightarrow> Frame" where
  "dispatch_frame_of wire content history userContext =
     \<lparr>fr_Type = ''message'', fr_ID = wi_request_id wire,
      fr_Payload = RawJSON (dispatch_payload history content userContext)\<rparr>"

definition dispatchChannelMessageToAgent ::
  "agent_wire \<Rightarrow> AgentInstance \<Rightarrow> string \<Rightarrow> ChannelConversationTurn list \<Rightarrow> string \<Rightarrow> (string + string) \<times> bool" where
  "dispatchChannelMessageToAgent wire agent content history userContext =
     (if \<not> wi_pool wire then (Inl ''proxy connection pool is not configured'', False)
      else if ai_VsockCID agent = None then (Inl ''agent has no vsock CID'', False)
      else case wi_get wire of
          Some e \<Rightarrow> (Inl (''dialing agent connection: '' @ e), False)
        | None \<Rightarrow>
            (case wi_send wire of
               Some e \<Rightarrow> (Inl (''sending agent message: '' @ e), True)
             | None \<Rightarrow> collect_reply [] (wi_replies wire)))"

section \<open>The executor of the control plane\<close>

definition newChannelExecutor ::
  "(string \<Rightarrow> uuid option) \<Rightarrow> (uuid \<Rightarrow> string) \<Rightarrow> (string \<Rightarrow> (string, Identity option) db_reader) option \<Rightarrow>
   (Identity \<Rightarrow> string \<Rightarrow> string + Decision option) option \<Rightarrow>
   (string \<Rightarrow> (string, AgentInstance list) db_reader) option \<Rightarrow>
   (AgentInstance \<Rightarrow> string \<Rightarrow> ChannelConversationTurn list \<Rightarrow> string \<Rightarrow> string + string) option \<Rightarrow>
   (string \<Rightarrow> string \<Rightarrow> string \<Rightarrow> (context_error, string) db_reader) option \<Rightarrow>
   (string \<Rightarrow> string \<Rightarrow> string \<Rightarrow> string + ScanResult) option \<Rightarrow> bool \<Rightarrow> executor option" where
  "newChannelExecutor parse_uuid show_uuid lookupIdentity authorize listAgents dispatch lookupUserContext
     scanSentinel audit =
     (case (lookupIdentity, authorize, listAgents, dispatch) of
        (Some li, Some au, Some la, Some di) \<Rightarrow>
          Some (execute_message
            \<lparr>ce_parse_uuid = parse_uuid, ce_show_uuid = show_uuid, ce_lookupIdentity = li, ce_authorize = au,
             ce_listAgents = la, ce_dispatch = di, ce_lookupUserContext = lookupUserContext,
             ce_scanSentinel = scanSentinel, ce_audit = audit\<rparr>)
      | _ \<Rightarrow> None)"

end
