(* ===== verification/Channel_Webhook.thy ===== *)
theory Channel_Webhook
  imports Channel_Execution
begin

text \<open>
  The channel endpoints (\<open>internal/channels/handler.go\<close>): the webhook that ingests messages, runs
  them and enqueues the replies, and the administration of links, outbox and credentials.
\<close>

section \<open>The handler\<close>

text \<open>Every function field may be nil; the first argument is the tenant.\<close>

record channel_handler =
  hd_ingressByProvider :: "(string \<times> IngressGuard) list"
  hd_listLinks :: "(string \<Rightarrow> ChannelLink list chan_op) option"
  hd_upsertLink :: "(string \<Rightarrow> gotime \<Rightarrow> UpsertLinkParams \<Rightarrow> ChannelLink chan_op) option"
  hd_deleteLink :: "(string \<Rightarrow> string \<Rightarrow> unit chan_op) option"
  hd_listOutbox :: "(string \<Rightarrow> string \<Rightarrow> int \<Rightarrow> ChannelOutbox list chan_op) option"
  hd_requeueOutboxDead :: "(string \<Rightarrow> uuid \<Rightarrow> unit chan_op) option"
  hd_listConversation :: "(string \<Rightarrow> string \<Rightarrow> int \<Rightarrow> ChannelConversationTurn list chan_op) option"
  hd_updateMessageStatus :: "(string \<Rightarrow> string \<Rightarrow> string \<Rightarrow> string \<Rightarrow> raw_json \<Rightarrow> unit chan_op) option"
  hd_getMessageByIdempotencyKey :: "(string \<Rightarrow> string \<Rightarrow> string \<Rightarrow> ChannelMessageRecord chan_op) option"
  hd_enqueueOutbound ::
    "(string \<Rightarrow> string \<Rightarrow> string \<Rightarrow> string \<Rightarrow> string \<Rightarrow> string \<Rightarrow> string \<Rightarrow> unit chan_op) option"
  hd_getProviderCredential :: "(string \<Rightarrow> string \<Rightarrow> ProviderCredential chan_op) option"
  hd_upsertProviderCredential ::
    "(string \<Rightarrow> (nat \<Rightarrow> string option) \<Rightarrow> UpsertProviderCredentialParams \<Rightarrow> ProviderCredential chan_op) option"
  hd_deleteProviderCredential :: "(string \<Rightarrow> string \<Rightarrow> unit chan_op) option"
  hd_execute :: "executor option"

definition NewHandler :: "(string \<times> IngressGuard) list \<Rightarrow> channel_handler" where
  "NewHandler ingressByProvider =
     \<lparr>hd_ingressByProvider = ingressByProvider, hd_listLinks = None, hd_upsertLink = None,
      hd_deleteLink = None, hd_listOutbox = None, hd_requeueOutboxDead = None, hd_listConversation = None,
      hd_updateMessageStatus = None, hd_getMessageByIdempotencyKey = None, hd_enqueueOutbound = None,
      hd_getProviderCredential = None, hd_upsertProviderCredential = None, hd_deleteProviderCredential = None,
      hd_execute = None\<rparr>"

definition WithExecutor :: "executor option \<Rightarrow> channel_handler \<Rightarrow> channel_handler" where
  "WithExecutor exec h = h\<lparr>hd_execute := exec\<rparr>"

text \<open>\<open>render\<close> is the database's text form of a JSON value that is not a string.\<close>

definition store_enqueueOutbound ::
  "(string \<Rightarrow> uuid option) \<Rightarrow> (uuid \<Rightarrow> string) \<Rightarrow> string \<Rightarrow> string \<Rightarrow> string \<Rightarrow> string \<Rightarrow> string \<Rightarrow> string \<Rightarrow> unit chan_op" where
  "store_enqueueOutbound parse_uuid show_uuid platform idempotencyKey recipientID outboxThreadTS correlationID
     responseContent s =
     (case GetMessageIDByIdempotencyKey platform idempotencyKey s of
        (Inl e, s1) \<Rightarrow> (Inl (Wrap ''resolving channel message for outbox enqueue'' e), s1)
      | (Inr messageID, s1) \<Rightarrow>
          (let threadTS = TrimSpace outboxThreadTS;
               payload = JObj ([(''content'', JStr responseContent), (''correlation_id'', JStr correlationID)] @
                               (if threadTS = [] then [] else [(''thread_ts'', JStr threadTS)])) in
           case EnqueueOutbound parse_uuid
                  \<lparr>eq_ChannelMessageID = show_uuid messageID, eq_Provider = platform,
                   eq_RecipientID = recipientID, eq_Payload = RawJSON payload, eq_MaxAttempts = 0\<rparr> s1 of
             (Inl e, s2) \<Rightarrow> (Inl (Wrap ''enqueuing outbound response'' e), s2)
           | (Inr _, s2) \<Rightarrow> (Inr (), s2)))"

definition WithLinkStore ::
  "(string \<Rightarrow> uuid option) \<Rightarrow> (uuid \<Rightarrow> string) \<Rightarrow> (json \<Rightarrow> string) \<Rightarrow> Store \<Rightarrow> channel_handler \<Rightarrow> channel_handler" where
  "WithLinkStore pu su render st h = h
     \<lparr>hd_listLinks := Some (\<lambda>t. tenant_connection pu t ListLinks),
      hd_upsertLink := Some (\<lambda>t wall params. tenant_connection pu t (UpsertLink pu wall params)),
      hd_deleteLink := Some (\<lambda>t i. tenant_connection pu t (DeleteLink pu i)),
      hd_listOutbox := Some (\<lambda>t status limit. tenant_connection pu t (ListOutbox status limit)),
      hd_requeueOutboxDead := Some (\<lambda>t i. tenant_connection pu t (RequeueOutboxDead i)),
      hd_listConversation :=
        Some (\<lambda>t u limit. tenant_connection pu t (ListRecentConversationByUser render u limit)),
      hd_updateMessageStatus :=
        Some (\<lambda>t platform key status meta. tenant_connection pu t (UpdateMessageStatus platform key status meta)),
      hd_getMessageByIdempotencyKey :=
        Some (\<lambda>t platform key. tenant_connection pu t (GetMessageByIdempotencyKey platform key)),
      hd_enqueueOutbound :=
        Some (\<lambda>t platform key recipient thread correlation content.
          tenant_connection pu t (store_enqueueOutbound pu su platform key recipient thread correlation content)),
      hd_getProviderCredential := Some (\<lambda>t provider. tenant_connection pu t (GetProviderCredential st provider)),
      hd_upsertProviderCredential :=
        Some (\<lambda>t rnd params. tenant_connection pu t (UpsertProviderCredential st rnd params)),
      hd_deleteProviderCredential :=
        Some (\<lambda>t provider. tenant_connection pu t (DeleteProviderCredential provider))\<rparr>"

definition buildChannelHandler ::
  "(string \<Rightarrow> uuid option) \<Rightarrow> (uuid \<Rightarrow> string) \<Rightarrow> (json \<Rightarrow> string) \<Rightarrow> bool \<Rightarrow> ChannelsConfig \<Rightarrow>
   chan_error + channel_handler option" where
  "buildChannelHandler pu su render pool cfg =
     (if \<not> pool then Inr None
      else case buildChannelStore cfg of
          Inl e \<Rightarrow> Inl e
        | Inr st \<Rightarrow>
            if \<not> ig_Enabled (ch_Ingress cfg) then Inr (Some (WithLinkStore pu su render st (NewHandler [])))
            else if ingress_guards pu st cfg = []
            then Inl (NewError ''channels ingress enabled but no providers configured'')
            else Inr (Some (WithLinkStore pu su render st (NewHandler (ingress_guards pu st cfg)))))"

section \<open>Decisions\<close>

definition messageStatusForDecision :: "IngressDecision \<Rightarrow> string option" where
  "messageStatusForDecision d =
     (case d of
        IngressExecuted \<Rightarrow> Some MessageStatusExecuted
      | IngressDeniedRBAC \<Rightarrow> Some MessageStatusDeniedRBAC
      | IngressDeniedNoAgent \<Rightarrow> Some MessageStatusDeniedNoAgent
      | IngressDeniedSentinel \<Rightarrow> Some MessageStatusDeniedSentinel
      | IngressDispatchFailed \<Rightarrow> Some MessageStatusDispatchFailed
      | _ \<Rightarrow> None)"

definition defaultOutboundContentForDecision :: "IngressDecision \<Rightarrow> string" where
  "defaultOutboundContentForDecision d =
     (case d of
        IngressDeniedRBAC \<Rightarrow> ''I can'' @ [CHR 0x27] @ ''t perform that action from this channel.''
      | IngressDeniedNoAgent \<Rightarrow> ''No agent is available right now. Please try again shortly.''
      | IngressDeniedSentinel \<Rightarrow> ''I can'' @ [CHR 0x27] @ ''t process that request due to policy.''
      | IngressDispatchFailed \<Rightarrow>
          ''I couldn'' @ [CHR 0x27] @ ''t process your request right now. Please try again.''
      | _ \<Rightarrow> [])"

definition shouldEnqueueOutboundForDecision :: "IngressDecision \<Rightarrow> bool" where
  "shouldEnqueueOutboundForDecision d \<longleftrightarrow>
     d \<in> {IngressExecuted, IngressDeniedRBAC, IngressDeniedNoAgent, IngressDeniedSentinel, IngressDispatchFailed}"

section \<open>The webhook request\<close>

text \<open>
  The body is the bytes read, \<open>None\<close> if it is too long or cannot be read; \<open>json\<close> reads the JSON
  value of bytes; \<open>wq_RequestID\<close> is the identifier the middleware gave to the request.
\<close>

record webhook_request =
  wq_Provider :: string
  wq_TenantID :: string
  wq_Headers :: http_header
  wq_Body :: "string option"
  wq_RequestID :: string

datatype webhook_body =
    Fields "(string \<times> string) list"
  | Refusal chan_error IngressDecision string

type_synonym webhook_response = "int \<times> webhook_body"

text \<open>What the messages of one request share.\<close>

record webhook =
  wk_Provider :: string
  wk_TenantID :: string
  wk_Headers :: http_header
  wk_Body :: string
  wk_Fingerprint :: string
  wk_CorrelationID :: string
  wk_Now :: gotime

definition resolveWebhookTenantID :: "(string \<Rightarrow> uuid option) \<Rightarrow> string \<Rightarrow> string + string" where
  "resolveWebhookTenantID parse_uuid pathTenant =
     (let tenantID = TrimSpace pathTenant in
      if tenantID = [] then Inl ''tenant path is required''
      else if parse_uuid tenantID = None then Inl ''tenant path must be a valid UUID''
      else Inr tenantID)"

definition correlation_id :: "webhook_request \<Rightarrow> gotime \<Rightarrow> string" where
  "correlation_id rq now =
     (if wq_RequestID rq \<noteq> [] then wq_RequestID rq
      else if header_Get (wq_Headers rq) ''X-Request-Id'' \<noteq> [] then header_Get (wq_Headers rq) ''X-Request-Id''
      else ''channel-'' @ Itoa (wrap64 (now - 62135596800 * 1000000000)))"

definition failed_response :: "string \<Rightarrow> webhook_response" where
  "failed_response correlationID =
     (500, Fields [(''error'', ''processing webhook failed''), (''correlation_id'', correlationID)])"

definition writeIngressError :: "chan_error \<Rightarrow> string \<Rightarrow> webhook_response option" where
  "writeIngressError err correlationID =
     (if errors_Is err ErrInvalidSignature \<or> errors_Is err ErrMissingSignature \<or>
         errors_Is err ErrInvalidTimestamp \<or> errors_Is err ErrTimestampExpired
      then Some (401, Refusal err IngressRejectedSignature correlationID)
      else if errors_Is err ErrLinkUnverified
      then Some (403, Refusal err IngressDeniedUnverified correlationID)
      else None)"

definition ingress_failure :: "chan_error \<Rightarrow> string \<Rightarrow> webhook_response" where
  "ingress_failure err correlationID =
     (case writeIngressError err correlationID of Some r \<Rightarrow> r | None \<Rightarrow> failed_response correlationID)"

definition idempotency_key :: "webhook \<Rightarrow> ingressMetadata \<Rightarrow> string" where
  "idempotency_key k meta =
     (let own_key = TrimSpace (im_PlatformMessageID meta);
          header_key = TrimSpace (header_Get (wk_Headers k) ''X-Idempotency-Key'') in
      if own_key \<noteq> [] then own_key
      else if header_key \<noteq> [] then header_key
      else if im_PlatformUserID meta \<noteq> []
      then wk_Provider k @ '':'' @ im_PlatformUserID meta @ '':'' @ wk_Fingerprint k
      else wk_Provider k @ '':'' @ wk_Fingerprint k)"

definition recipient_id :: "webhook \<Rightarrow> ingressMetadata \<Rightarrow> string" where
  "recipient_id k meta =
     (let r = TrimSpace (im_OutboundRecipientID meta) in
      if r = [] \<and> wk_Provider k \<noteq> ''slack'' then TrimSpace (im_PlatformUserID meta) else r)"

definition ingress_message :: "webhook \<Rightarrow> ingressMetadata \<Rightarrow> IngressMessage" where
  "ingress_message k meta =
     \<lparr>ms_Platform = wk_Provider k, ms_PlatformUserID = im_PlatformUserID meta,
      ms_PlatformMessageID = im_PlatformMessageID meta, ms_IdempotencyKey = idempotency_key k meta,
      ms_PayloadFingerprint = wk_Fingerprint k, ms_CorrelationID = wk_CorrelationID k,
      ms_Headers = wk_Headers k, ms_Body = wk_Body k, ms_OccurredAt = im_OccurredAt meta,
      ms_ExpiresAt = wk_Now k + 24 * 60 * 60 * 1000000000\<rparr>"

section \<open>One message\<close>

text \<open>The variables of the loop body: the decision, the agent, the metadata and the failure flag.\<close>

record message_state =
  sx_Decision :: IngressDecision
  sx_AgentID :: string
  sx_Extra :: "(string \<times> json) list"
  sx_EnqueueFailed :: bool

definition note_targets :: "string \<Rightarrow> string \<Rightarrow> (string \<times> json) list \<Rightarrow> (string \<times> json) list" where
  "note_targets recipient thread extra =
     (let e1 = (if recipient = [] then extra else map_put ''outbox_recipient_id'' (JStr recipient) extra) in
      if thread = [] then e1 else map_put ''outbox_thread_ts'' (JStr thread) e1)"

definition note_outbox :: "bool \<Rightarrow> string \<Rightarrow> string \<Rightarrow> string \<Rightarrow> (string \<times> json) list \<Rightarrow> (string \<times> json) list" where
  "note_outbox failed recipient thread content extra =
     map_put ''response_content'' (JStr content)
       (note_targets recipient thread (map_put ''outbox_enqueue_failed'' (JBool failed) extra))"

definition enqueue_failed :: "string \<Rightarrow> string \<Rightarrow> string \<Rightarrow> message_state \<Rightarrow> message_state" where
  "enqueue_failed recipient thread content st =
     (let st1 = st\<lparr>sx_Extra := note_outbox True recipient thread content (sx_Extra st)\<rparr> in
      if sx_Decision st = IngressExecuted
      then st1\<lparr>sx_Decision := IngressDispatchFailed, sx_EnqueueFailed := True\<rparr> else st1)"

definition enqueue_reply ::
  "channel_handler \<Rightarrow> webhook \<Rightarrow> string \<Rightarrow> string \<Rightarrow> string \<Rightarrow> string \<Rightarrow> message_state \<Rightarrow> channel_world \<Rightarrow>
   message_state \<times> channel_world" where
  "enqueue_reply h k key recipient thread content st w =
     (case hd_enqueueOutbound h of
        None \<Rightarrow> (st, w)
      | Some enqueue \<Rightarrow>
          if \<not> shouldEnqueueOutboundForDecision (sx_Decision st) \<or> TrimSpace content = [] then (st, w)
          else if wk_Provider k = ''slack'' \<and> recipient = [] then (enqueue_failed recipient thread content st, w)
          else
            (case on_channel_db (enqueue (wk_TenantID k) (wk_Provider k) key recipient thread
                                   (wk_CorrelationID k) content) w of
               (Inl e, w1) \<Rightarrow> (enqueue_failed recipient thread content st, w1)
             | (Inr _, w1) \<Rightarrow>
                 if sx_Decision st = IngressExecuted then (st, w1)
                 else (st\<lparr>sx_Extra := note_outbox False recipient thread content (sx_Extra st)\<rparr>, w1)))"

definition conversation_history ::
  "channel_handler \<Rightarrow> (uuid \<Rightarrow> string) \<Rightarrow> webhook \<Rightarrow> ChannelLink \<Rightarrow> channel_world \<Rightarrow>
   ChannelConversationTurn list \<times> channel_world" where
  "conversation_history h show_uuid k link w =
     (case hd_listConversation h of
        None \<Rightarrow> ([], w)
      | Some list \<Rightarrow>
          if ln_UserID link = uuid_Nil then ([], w)
          else (case on_channel_db (list (wk_TenantID k) (show_uuid (ln_UserID link)) ConversationHistoryMaxTurns) w of
              (Inl _, w1) \<Rightarrow> ([], w1)
            | (Inr history, w1) \<Rightarrow> (history, w1)))"

definition run_executor ::
  "executor \<Rightarrow> string \<Rightarrow> ExecutionMessage \<Rightarrow> channel_world \<Rightarrow> ExecutionResult \<times> channel_world" where
  "run_executor exec key msg w =
     (case exec msg (cw_db w) of (r, s, audits) \<Rightarrow>
        (r, w\<lparr>cw_db := s, cw_events := cw_events w @ Execute key msg # map Audit audits\<rparr>))"

definition executed_state :: "ExecutionResult \<Rightarrow> message_state \<Rightarrow> message_state \<times> string" where
  "executed_state r st =
     (let d = (case xr_Decision r of None \<Rightarrow> sx_Decision st | Some d \<Rightarrow> d);
          agent = (if xr_AgentID r = [] then sx_AgentID st else xr_AgentID r);
          content = (if xr_ResponseContent r = [] then defaultOutboundContentForDecision d
                     else xr_ResponseContent r);
          extra = (if content = [] then sx_Extra st
                   else map_put ''response_content'' (JStr content) (sx_Extra st)) in
      (st\<lparr>sx_Decision := d, sx_AgentID := agent, sx_Extra := extra\<rparr>, content))"

definition execution_message ::
  "webhook \<Rightarrow> ingressMetadata \<Rightarrow> ChannelConversationTurn list \<Rightarrow> ChannelLink \<Rightarrow> ExecutionMessage" where
  "execution_message k meta history link =
     \<lparr>xm_TenantID = wk_TenantID k, xm_Platform = wk_Provider k, xm_PlatformUserID = im_PlatformUserID meta,
      xm_PlatformMessageID = im_PlatformMessageID meta, xm_CorrelationID = wk_CorrelationID k,
      xm_Content = TrimSpace (im_Content meta), xm_ConversationHistory = history, xm_Link = link\<rparr>"

definition run_accepted ::
  "channel_handler \<Rightarrow> (uuid \<Rightarrow> string) \<Rightarrow> webhook \<Rightarrow> ingressMetadata \<Rightarrow> IngressResult \<Rightarrow> message_state \<Rightarrow>
   channel_world \<Rightarrow> message_state \<times> channel_world" where
  "run_accepted h show_uuid k meta result st w =
     (case (hd_execute h, ir_Link result) of
        (Some exec, Some link) \<Rightarrow>
          if ir_Decision result \<noteq> Some IngressAccepted \<or> TrimSpace (im_Content meta) = [] then (st, w)
          else
            (case conversation_history h show_uuid k link w of (history, w1) \<Rightarrow>
               case run_executor exec (idempotency_key k meta) (execution_message k meta history link) w1 of
                 (r, w2) \<Rightarrow>
                   (case executed_state r st of (st1, content) \<Rightarrow>
                      enqueue_reply h k (idempotency_key k meta) (recipient_id k meta)
                        (TrimSpace (im_OutboundThreadTS meta)) content st1 w2))
      | _ \<Rightarrow> (st, w))"

section \<open>A message seen before\<close>

record dispatchFailureMetadata =
  df_AgentID :: string
  df_ResponseContent :: string
  df_OutboxEnqueueFailed :: bool
  df_OutboxRecipientID :: string
  df_OutboxThreadTS :: string

definition decode_failure :: "json \<Rightarrow> dispatchFailureMetadata option" where
  "decode_failure j =
     (case json_entries j of
        None \<Rightarrow> None
      | Some kvs \<Rightarrow>
          (case (string_field ''agent_id'' kvs, string_field ''response_content'' kvs,
                 bool_field ''outbox_enqueue_failed'' kvs, string_field ''outbox_recipient_id'' kvs,
                 string_field ''outbox_thread_ts'' kvs) of
             (Some a, Some c, Some f, Some r, Some t) \<Rightarrow>
               Some \<lparr>df_AgentID = a, df_ResponseContent = c, df_OutboxEnqueueFailed = f,
                     df_OutboxRecipientID = r, df_OutboxThreadTS = t\<rparr>
           | _ \<Rightarrow> None))"

definition requeue_recipient :: "webhook \<Rightarrow> ingressMetadata \<Rightarrow> ChannelMessageRecord \<Rightarrow> dispatchFailureMetadata \<Rightarrow> string" where
  "requeue_recipient k meta record md =
     (let r1 = TrimSpace (df_OutboxRecipientID md);
          r2 = (if r1 = [] then recipient_id k meta else r1) in
      if r2 = [] \<and> wk_Provider k \<noteq> ''slack'' then TrimSpace (mr_PlatformUserID record) else r2)"

definition requeue_thread :: "ingressMetadata \<Rightarrow> dispatchFailureMetadata \<Rightarrow> string" where
  "requeue_thread meta md =
     (let t = TrimSpace (df_OutboxThreadTS md) in if t = [] then TrimSpace (im_OutboundThreadTS meta) else t)"

definition requeue_correlation :: "webhook \<Rightarrow> ChannelMessageRecord \<Rightarrow> string" where
  "requeue_correlation k record =
     (let c = TrimSpace (mr_CorrelationID record) in if c = [] then TrimSpace (wk_CorrelationID k) else c)"

text \<open>The agent and the content of a reply that was enqueued now; \<open>None\<close> if there is nothing to do.\<close>

definition requeue_reply ::
  "(string \<Rightarrow> string \<Rightarrow> string \<Rightarrow> string \<Rightarrow> string \<Rightarrow> string \<Rightarrow> string \<Rightarrow> unit chan_op) \<Rightarrow> webhook \<Rightarrow>
   ingressMetadata \<Rightarrow> ChannelMessageRecord \<Rightarrow> dispatchFailureMetadata \<Rightarrow> channel_world \<Rightarrow>
   (chan_error + (string \<times> string) option) \<times> channel_world" where
  "requeue_reply enqueue k meta record md w =
     (if \<not> df_OutboxEnqueueFailed md \<or> TrimSpace (df_ResponseContent md) = [] then (Inr None, w)
      else if requeue_recipient k meta record md = []
      then (Inl (NewError ''missing recipient id for duplicate dispatch recovery''), w)
      else if requeue_correlation k record = []
      then (Inl (NewError ''missing correlation id for duplicate dispatch recovery''), w)
      else case on_channel_db (enqueue (wk_TenantID k) (wk_Provider k) (idempotency_key k meta)
                                 (requeue_recipient k meta record md) (requeue_thread meta md)
                                 (requeue_correlation k record) (TrimSpace (df_ResponseContent md))) w of
          (Inl e, w1) \<Rightarrow> (Inl (Wrap ''re-enqueuing duplicate dispatch failure'' e), w1)
        | (Inr _, w1) \<Rightarrow> (Inr (Some (TrimSpace (df_AgentID md), TrimSpace (df_ResponseContent md))), w1))"

definition recoverDuplicateDispatchFailure ::
  "(string \<Rightarrow> string \<Rightarrow> string \<Rightarrow> ChannelMessageRecord chan_op) \<Rightarrow>
   (string \<Rightarrow> string \<Rightarrow> string \<Rightarrow> string \<Rightarrow> string \<Rightarrow> string \<Rightarrow> string \<Rightarrow> unit chan_op) \<Rightarrow> webhook \<Rightarrow>
   ingressMetadata \<Rightarrow> channel_world \<Rightarrow> (chan_error + (string \<times> string) option) \<times> channel_world" where
  "recoverDuplicateDispatchFailure get enqueue k meta w =
     (case on_channel_db (get (wk_TenantID k) (wk_Provider k) (idempotency_key k meta)) w of
        (Inl e, w1) \<Rightarrow>
          if errors_Is e ErrMessageNotFound then (Inr None, w1)
          else (Inl (Wrap ''loading duplicate message state'' e), w1)
      | (Inr record, w1) \<Rightarrow>
          if TrimSpace (mr_Status record) \<noteq> MessageStatusDispatchFailed then (Inr None, w1)
          else (case decode_failure (mr_Metadata record) of
              None \<Rightarrow> (Inr None, w1)
            | Some md \<Rightarrow> requeue_reply enqueue k meta record md w1))"

definition recovered_state :: "webhook \<Rightarrow> ingressMetadata \<Rightarrow> string \<Rightarrow> string \<Rightarrow> message_state \<Rightarrow> message_state" where
  "recovered_state k meta agent content st =
     (let e1 = map_put ''outbox_recovered'' (JBool True) (map_put ''outbox_enqueue_failed'' (JBool False) (sx_Extra st));
          e2 = note_targets (recipient_id k meta) (TrimSpace (im_OutboundThreadTS meta)) e1;
          e3 = (if content = [] then e2 else map_put ''response_content'' (JStr content) e2) in
      st\<lparr>sx_Decision := IngressExecuted, sx_AgentID := (if agent = [] then sx_AgentID st else agent), sx_Extra := e3\<rparr>)"

definition recover_duplicate ::
  "channel_handler \<Rightarrow> webhook \<Rightarrow> ingressMetadata \<Rightarrow> IngressResult \<Rightarrow> message_state \<Rightarrow> channel_world \<Rightarrow>
   (chan_error + message_state) \<times> channel_world" where
  "recover_duplicate h k meta result st w =
     (case (hd_getMessageByIdempotencyKey h, hd_enqueueOutbound h) of
        (Some get, Some enqueue) \<Rightarrow>
          if ir_Decision result \<noteq> Some IngressDuplicate then (Inr st, w)
          else (case recoverDuplicateDispatchFailure get enqueue k meta w of
              (Inl e, w1) \<Rightarrow> (Inl e, w1)
            | (Inr None, w1) \<Rightarrow> (Inr st, w1)
            | (Inr (Some (agent, content)), w1) \<Rightarrow> (Inr (recovered_state k meta agent content st), w1))
      | _ \<Rightarrow> (Inr st, w))"

section \<open>The loop over the messages\<close>

definition record_status ::
  "channel_handler \<Rightarrow> webhook \<Rightarrow> string \<Rightarrow> message_state \<Rightarrow> channel_world \<Rightarrow> (chan_error + unit) \<times> channel_world" where
  "record_status h k key st w =
     (case (hd_updateMessageStatus h, messageStatusForDecision (sx_Decision st)) of
        (Some update, Some status) \<Rightarrow>
          (let base = (if sx_AgentID st = [] then [] else [(''agent_id'', JStr (sx_AgentID st))]) @
                      [(''decision'', JStr (decision_text (sx_Decision st)))];
               metadata = fold (\<lambda>(key, v). map_put key v) (sx_Extra st) base in
           on_channel_db (update (wk_TenantID k) (wk_Provider k) key status (RawJSON (JObj metadata))) w)
      | _ \<Rightarrow> (Inr (), w))"

definition initial_extra :: "(uuid \<Rightarrow> string) \<Rightarrow> ingressMetadata \<Rightarrow> IngressResult \<Rightarrow> (string \<times> json) list" where
  "initial_extra show_uuid meta result =
     (let content = TrimSpace (im_Content meta) in
      (case ir_Link result of
         None \<Rightarrow> [] | Some l \<Rightarrow> if ln_UserID l = uuid_Nil then [] else [(''user_id'', JStr (show_uuid (ln_UserID l)))]) @
      (if content = [] then [] else [(''request_content'', JStr content)]))"

definition initial_state :: "(uuid \<Rightarrow> string) \<Rightarrow> ingressMetadata \<Rightarrow> IngressResult \<Rightarrow> message_state" where
  "initial_state show_uuid meta result =
     \<lparr>sx_Decision = (case ir_Decision result of None \<Rightarrow> IngressIgnored | Some d \<Rightarrow> d), sx_AgentID = [],
      sx_Extra = initial_extra show_uuid meta result, sx_EnqueueFailed = False\<rparr>"

text \<open>The response that ends the request, or the state after the message.\<close>

definition handle_message ::
  "(nat \<Rightarrow> gotime) \<Rightarrow> (uuid \<Rightarrow> string) \<Rightarrow> channel_handler \<Rightarrow> IngressGuard \<Rightarrow> webhook \<Rightarrow> ingressMetadata \<Rightarrow>
   channel_world \<Rightarrow> (webhook_response + message_state) \<times> channel_world" where
  "handle_message wall show_uuid h guard k meta w =
     (case Process wall guard (wk_TenantID k) (ingress_message k meta) w of
        ((result, Some err), w1) \<Rightarrow> (Inl (ingress_failure err (wk_CorrelationID k)), w1)
      | ((result, None), w1) \<Rightarrow>
          (case recover_duplicate h k meta result (initial_state show_uuid meta result) w1 of
             (Inl e, w2) \<Rightarrow> (Inl (failed_response (wk_CorrelationID k)), w2)
           | (Inr st1, w2) \<Rightarrow>
               (case run_accepted h show_uuid k meta result st1 w2 of (st2, w3) \<Rightarrow>
                  case record_status h k (idempotency_key k meta) st2 w3 of
                    (Inl e, w4) \<Rightarrow> (Inl (failed_response (wk_CorrelationID k)), w4)
                  | (Inr _, w4) \<Rightarrow>
                      if sx_EnqueueFailed st2 then (Inl (failed_response (wk_CorrelationID k)), w4)
                      else (Inr st2, w4))))"

text \<open>
  The variables outside the loop: the last decision, \<open>None\<close> while no message was actionable,
  whether a control message was verified, and the agent of the last message that had one.
\<close>

record loop_vars =
  lv_Decision :: "IngressDecision option"
  lv_ControlVerified :: bool
  lv_AgentID :: string

definition acknowledge ::
  "(nat \<Rightarrow> gotime) \<Rightarrow> IngressGuard \<Rightarrow> webhook \<Rightarrow> ingressControl \<Rightarrow> loop_vars \<Rightarrow> channel_world \<Rightarrow>
   (webhook_response + loop_vars) \<times> channel_world" where
  "acknowledge wall guard k control vars w =
     (case (if lv_ControlVerified vars then (Inr (), w)
            else VerifyWithContext wall guard (wk_TenantID k) (wk_Headers k) (wk_Body k) w) of
        (Inl err, w1) \<Rightarrow> (Inl (ingress_failure err (wk_CorrelationID k)), w1)
      | (Inr _, w1) \<Rightarrow>
          if ic_SlackChallenge control \<noteq> []
          then (Inl (200, Fields [(''challenge'', ic_SlackChallenge control)]), w1)
          else (Inr (vars\<lparr>lv_ControlVerified := True\<rparr>), w1))"

fun handle_metas ::
  "(nat \<Rightarrow> gotime) \<Rightarrow> (uuid \<Rightarrow> string) \<Rightarrow> channel_handler \<Rightarrow> IngressGuard \<Rightarrow> webhook \<Rightarrow> ingressMetadata list \<Rightarrow>
   loop_vars \<Rightarrow> channel_world \<Rightarrow> (webhook_response + loop_vars) \<times> channel_world" where
  "handle_metas wall su h guard k [] vars w = (Inr vars, w)"
| "handle_metas wall su h guard k (meta # metas) vars w =
     (case (case im_Control meta of
              Some c \<Rightarrow> if ic_AcknowledgeOnly c then Some c else None | None \<Rightarrow> None) of
        Some control \<Rightarrow>
          (case acknowledge wall guard k control vars w of
             (Inl r, w1) \<Rightarrow> (Inl r, w1)
           | (Inr vars1, w1) \<Rightarrow> handle_metas wall su h guard k metas vars1 w1)
      | None \<Rightarrow>
          (case handle_message wall su h guard k meta w of
             (Inl r, w1) \<Rightarrow> (Inl r, w1)
           | (Inr st, w1) \<Rightarrow>
               handle_metas wall su h guard k metas
                 (vars\<lparr>lv_Decision := Some (sx_Decision st),
                       lv_AgentID := (if sx_AgentID st = [] then lv_AgentID vars else sx_AgentID st)\<rparr>) w1))"

definition final_response :: "webhook \<Rightarrow> loop_vars \<Rightarrow> webhook_response" where
  "final_response k vars =
     (case lv_Decision vars of
        None \<Rightarrow> (200, Fields [(''decision'', ''ignored''), (''correlation_id'', wk_CorrelationID k)])
      | Some d \<Rightarrow>
          (200, Fields ([(''decision'', decision_text d), (''correlation_id'', wk_CorrelationID k)] @
                        (if lv_AgentID vars = [] then [] else [(''agent_id'', lv_AgentID vars)]))))"

definition HandleWebhook ::
  "(nat \<Rightarrow> gotime) \<Rightarrow> (string \<Rightarrow> uuid option) \<Rightarrow> (uuid \<Rightarrow> string) \<Rightarrow> (string \<Rightarrow> raw_json) \<Rightarrow> channel_handler \<Rightarrow>
   webhook_request \<Rightarrow> channel_world \<Rightarrow> webhook_response \<times> channel_world" where
  "HandleWebhook wall pu su json h rq w =
     (let provider = ToLower (TrimSpace (wq_Provider rq)) in
      if provider = [] then ((400, Fields [(''error'', ''provider is required'')]), w)
      else case map_of (hd_ingressByProvider h) provider of
          None \<Rightarrow> ((404, Fields [(''error'', ''unsupported provider'')]), w)
        | Some guard \<Rightarrow>
            (case wq_Body rq of
               None \<Rightarrow> ((400, Fields [(''error'', ''invalid request body'')]), w)
             | Some body \<Rightarrow>
                 (case resolveWebhookTenantID pu (wq_TenantID rq) of
                    Inl e \<Rightarrow> ((400, Fields [(''error'', e)]), w)
                  | Inr tenantID \<Rightarrow>
                      (case read_clock wall w of (now, w1) \<Rightarrow>
                         let correlationID = correlation_id rq now;
                             invalid = (400, Fields [(''error'', ''invalid webhook payload''),
                                                     (''correlation_id'', correlationID)]) in
                         case extractIngressMetadata provider (wq_Headers rq) (json body) now of
                           Inl e \<Rightarrow> (invalid, w1)
                         | Inr metas \<Rightarrow>
                             if metas = [] then (invalid, w1)
                             else
                               (let k = \<lparr>wk_Provider = provider, wk_TenantID = tenantID, wk_Headers = wq_Headers rq,
                                         wk_Body = body, wk_Fingerprint = hex_text (Sum256 body),
                                         wk_CorrelationID = correlationID, wk_Now = now\<rparr> in
                                case handle_metas wall su h guard k metas
                                       \<lparr>lv_Decision = None, lv_ControlVerified = False, lv_AgentID = []\<rparr> w1 of
                                  (Inl r, w2) \<Rightarrow> (r, w2)
                                | (Inr vars, w2) \<Rightarrow> (final_response k vars, w2))))))"

text \<open>The handler of the running control plane.\<close>

definition channel_system ::
  "(string \<Rightarrow> uuid option) \<Rightarrow> (uuid \<Rightarrow> string) \<Rightarrow> (json \<Rightarrow> string) \<Rightarrow> Store \<Rightarrow> ChannelsConfig \<Rightarrow> executor option \<Rightarrow>
   channel_handler" where
  "channel_system pu su render st cfg exec =
     WithExecutor exec (WithLinkStore pu su render st (NewHandler (ingress_guards pu st cfg)))"

end
