(* ===== verification/Channel_Admin.thy ===== *)
theory Channel_Admin
  imports Channel_Webhook
begin

text \<open>
  The administration endpoints of \<open>internal/channels/handler.go\<close>: links, outbox jobs and provider
  credentials of the tenant of the request. A body comes as the first JSON value of the request.
\<close>

section \<open>Requests and responses\<close>

record providerCredentialResponse =
  cr_Provider :: string
  cr_APIBaseURL :: string
  cr_APIVersion :: string
  cr_PhoneNumberID :: string
  cr_HasAccessToken :: bool
  cr_HasSigningSecret :: bool
  cr_HasSecretToken :: bool
  cr_UpdatedAt :: gotime

datatype admin_body =
    AdminMessage string
  | AdminError chan_error
  | LinksBody "ChannelLink list"
  | LinkBody ChannelLink
  | JobsBody "ChannelOutbox list"
  | RequeuedBody uuid
  | CredentialBody providerCredentialResponse
  | NoBody

type_synonym admin_response = "int \<times> admin_body"

definition chan_resolveTenantID :: "string \<Rightarrow> admin_response + string" where
  "chan_resolveTenantID contextTenant =
     (if contextTenant = [] then Inl (400, AdminMessage ''tenant context required'') else Inr contextTenant)"

text \<open>\<open>DisallowUnknownFields\<close>: every key names a field.\<close>

definition known_entries :: "string list \<Rightarrow> raw_json \<Rightarrow> (string \<times> json) list option" where
  "known_entries names body =
     (case object_entries body of
        None \<Rightarrow> None
      | Some kvs \<Rightarrow> if list_all (\<lambda>(k, _). fold_key k \<in> set names) kvs then Some kvs else None)"

text \<open>A request that needs the tenant and one of the function fields.\<close>

definition admin_request ::
  "string \<Rightarrow> 'f option \<Rightarrow> string \<Rightarrow> ('f \<Rightarrow> string \<Rightarrow> db \<Rightarrow> admin_response \<times> db) \<Rightarrow> db \<Rightarrow> admin_response \<times> db" where
  "admin_request contextTenant field missing k s =
     (case chan_resolveTenantID contextTenant of
        Inl r \<Rightarrow> (r, s)
      | Inr tenantID \<Rightarrow>
          (case field of
             None \<Rightarrow> ((503, AdminMessage missing), s)
           | Some f \<Rightarrow> k f tenantID s))"

text \<open>The status of an error: the sentinels of a request's own fault, those of a missing row, any other.\<close>

definition admin_error ::
  "chan_sentinel list \<Rightarrow> chan_sentinel list \<Rightarrow> string \<Rightarrow> chan_error \<Rightarrow> admin_response" where
  "admin_error bad missing msg err =
     (if list_ex (errors_Is err) bad then (400, AdminError err)
      else if list_ex (errors_Is err) missing then (404, AdminError err)
      else (500, AdminMessage msg))"

section \<open>Links\<close>

definition HandleListLinks :: "channel_handler \<Rightarrow> string \<Rightarrow> db \<Rightarrow> admin_response \<times> db" where
  "HandleListLinks h contextTenant =
     admin_request contextTenant (hd_listLinks h) ''channel links are not configured''
       (\<lambda>list tenantID s.
          case list tenantID s of
            (Inl _, s1) \<Rightarrow> ((500, AdminMessage ''listing channel links failed''), s1)
          | (Inr links, s1) \<Rightarrow> ((200, LinksBody links), s1))"

definition parseLinkState :: "string \<Rightarrow> string option" where
  "parseLinkState raw =
     (let value = ToLower (TrimSpace raw) in
      if value = [] then Some ''pending_verification''
      else if parse_link_state value \<noteq> None then Some value
      else None)"

definition decode_link_request :: "raw_json \<Rightarrow> UpsertLinkParams option" where
  "decode_link_request body =
     (case known_entries [''user_id'', ''platform'', ''platform_user_id'', ''state'', ''verification_method'',
                          ''verification_metadata''] body of
        None \<Rightarrow> None
      | Some kvs \<Rightarrow>
          (case (string_field ''user_id'' kvs, string_field ''platform'' kvs, string_field ''platform_user_id'' kvs,
                 string_field ''state'' kvs, string_field ''verification_method'' kvs) of
             (Some u, Some p, Some i, Some st, Some m) \<Rightarrow>
               Some \<lparr>ul_UserID = u, ul_Platform = p, ul_PlatformUserID = i, ul_State = st,
                     ul_VerificationMethod = m, ul_VerificationMetadata = raw_field ''verification_metadata'' kvs\<rparr>
           | _ \<Rightarrow> None))"

definition HandleCreateLink ::
  "(string \<Rightarrow> uuid option) \<Rightarrow> channel_handler \<Rightarrow> gotime \<Rightarrow> string \<Rightarrow> raw_json \<Rightarrow> db \<Rightarrow> admin_response \<times> db" where
  "HandleCreateLink parse_uuid h wall contextTenant body =
     admin_request contextTenant (hd_upsertLink h) ''channel links are not configured''
       (\<lambda>upsert tenantID s.
          case decode_link_request body of
            None \<Rightarrow> ((400, AdminMessage ''invalid request body''), s)
          | Some req \<Rightarrow>
              if TrimSpace (ul_UserID req) = [] then ((400, AdminError (Sentinel ErrUserIDRequired)), s)
              else if parse_uuid (TrimSpace (ul_UserID req)) = None
              then ((400, AdminMessage ''user_id must be a valid UUID''), s)
              else case parseLinkState (ul_State req) of
                  None \<Rightarrow> ((400, AdminError (Sentinel ErrLinkState)), s)
                | Some st \<Rightarrow>
                    (case upsert tenantID wall
                            \<lparr>ul_UserID = TrimSpace (ul_UserID req), ul_Platform = TrimSpace (ul_Platform req),
                             ul_PlatformUserID = TrimSpace (ul_PlatformUserID req), ul_State = st,
                             ul_VerificationMethod = TrimSpace (ul_VerificationMethod req),
                             ul_VerificationMetadata = ul_VerificationMetadata req\<rparr> s of
                       (Inl e, s1) \<Rightarrow>
                         (admin_error [ErrPlatformEmpty, ErrIdentityEmpty, ErrUserIDRequired, ErrLinkState]
                            [ErrUserNotFound] ''creating channel link failed'' e, s1)
                     | (Inr link, s1) \<Rightarrow> ((200, LinkBody link), s1)))"

definition HandleDeleteLink :: "channel_handler \<Rightarrow> string \<Rightarrow> string \<Rightarrow> db \<Rightarrow> admin_response \<times> db" where
  "HandleDeleteLink h contextTenant pathID =
     admin_request contextTenant (hd_deleteLink h) ''channel links are not configured''
       (\<lambda>delete tenantID s.
          case delete tenantID (TrimSpace pathID) s of
            (Inl e, s1) \<Rightarrow>
              (admin_error [ErrLinkIDRequired, ErrLinkIDInvalid] [ErrLinkNotFound]
                 ''deleting channel link failed'' e, s1)
          | (Inr _, s1) \<Rightarrow> ((204, NoBody), s1))"

section \<open>Outbox jobs\<close>

definition HandleListOutbox :: "channel_handler \<Rightarrow> string \<Rightarrow> string \<Rightarrow> string \<Rightarrow> db \<Rightarrow> admin_response \<times> db" where
  "HandleListOutbox h contextTenant queryStatus queryLimit =
     admin_request contextTenant (hd_listOutbox h) ''channel outbox is not configured''
       (\<lambda>list tenantID s.
          let status = TrimSpace (ToLower queryStatus);
              rawLimit = TrimSpace queryLimit in
          case (if rawLimit = [] then Some 100
                else case Atoi rawLimit of None \<Rightarrow> None | Some n \<Rightarrow> if n \<le> 0 then None else Some n) of
            None \<Rightarrow> ((400, AdminMessage ''limit must be a positive integer''), s)
          | Some limit \<Rightarrow>
              (case list tenantID status limit s of
                 (Inl e, s1) \<Rightarrow> (admin_error [ErrOutboxStatus] [] ''listing channel outbox failed'' e, s1)
               | (Inr jobs, s1) \<Rightarrow> ((200, JobsBody jobs), s1)))"

definition HandleRequeueOutboxDead ::
  "(string \<Rightarrow> uuid option) \<Rightarrow> channel_handler \<Rightarrow> string \<Rightarrow> string \<Rightarrow> db \<Rightarrow> admin_response \<times> db" where
  "HandleRequeueOutboxDead parse_uuid h contextTenant pathID =
     admin_request contextTenant (hd_requeueOutboxDead h) ''channel outbox is not configured''
       (\<lambda>requeue tenantID s.
          let idValue = TrimSpace pathID in
          if idValue = [] then ((400, AdminMessage ''outbox id is required''), s)
          else case parse_uuid idValue of
              None \<Rightarrow> ((400, AdminMessage ''outbox id must be a valid UUID''), s)
            | Some outboxID \<Rightarrow>
                (case requeue tenantID outboxID s of
                   (Inl e, s1) \<Rightarrow> (admin_error [] [ErrOutboxNotFound] ''requeueing channel outbox failed'' e, s1)
                 | (Inr _, s1) \<Rightarrow> ((202, RequeuedBody outboxID), s1)))"

section \<open>Provider credentials\<close>

definition sanitizeProviderCredentialResponse :: "ProviderCredential \<Rightarrow> providerCredentialResponse" where
  "sanitizeProviderCredentialResponse c =
     \<lparr>cr_Provider = pc_Provider c, cr_APIBaseURL = pc_APIBaseURL c, cr_APIVersion = pc_APIVersion c,
      cr_PhoneNumberID = pc_PhoneNumberID c, cr_HasAccessToken = (TrimSpace (pc_AccessToken c) \<noteq> []),
      cr_HasSigningSecret = (TrimSpace (pc_SigningSecret c) \<noteq> []),
      cr_HasSecretToken = (TrimSpace (pc_SecretToken c) \<noteq> []), cr_UpdatedAt = pc_UpdatedAt c\<rparr>"

definition HandleGetProviderCredential :: "channel_handler \<Rightarrow> string \<Rightarrow> string \<Rightarrow> db \<Rightarrow> admin_response \<times> db" where
  "HandleGetProviderCredential h contextTenant pathProvider =
     admin_request contextTenant (hd_getProviderCredential h) ''provider credentials are not configured''
       (\<lambda>get tenantID s.
          case get tenantID (TrimSpace pathProvider) s of
            (Inl e, s1) \<Rightarrow>
              (admin_error [ErrPlatformEmpty, ErrProviderUnsupported] [ErrProviderCredentialNotFound]
                 ''getting provider credential failed'' e, s1)
          | (Inr c, s1) \<Rightarrow> ((200, CredentialBody (sanitizeProviderCredentialResponse c)), s1))"

definition decode_credential_request :: "string \<Rightarrow> raw_json \<Rightarrow> UpsertProviderCredentialParams option" where
  "decode_credential_request pathProvider body =
     (case known_entries [''access_token'', ''signing_secret'', ''secret_token'', ''api_base_url'', ''api_version'',
                          ''phone_number_id''] body of
        None \<Rightarrow> None
      | Some kvs \<Rightarrow>
          (case (string_field ''access_token'' kvs, string_field ''signing_secret'' kvs,
                 string_field ''secret_token'' kvs, string_field ''api_base_url'' kvs,
                 string_field ''api_version'' kvs, string_field ''phone_number_id'' kvs) of
             (Some a, Some sg, Some t, Some b, Some v, Some p) \<Rightarrow>
               Some \<lparr>uc_Provider = TrimSpace pathProvider, uc_AccessToken = TrimSpace a,
                     uc_SigningSecret = TrimSpace sg, uc_SecretToken = TrimSpace t, uc_APIBaseURL = TrimSpace b,
                     uc_APIVersion = TrimSpace v, uc_PhoneNumberID = TrimSpace p\<rparr>
           | _ \<Rightarrow> None))"

definition HandleUpsertProviderCredential ::
  "channel_handler \<Rightarrow> (nat \<Rightarrow> string option) \<Rightarrow> string \<Rightarrow> string \<Rightarrow> raw_json \<Rightarrow> db \<Rightarrow> admin_response \<times> db" where
  "HandleUpsertProviderCredential h rnd contextTenant pathProvider body =
     admin_request contextTenant (hd_upsertProviderCredential h) ''provider credentials are not configured''
       (\<lambda>upsert tenantID s.
          case decode_credential_request pathProvider body of
            None \<Rightarrow> ((400, AdminMessage ''invalid request body''), s)
          | Some params \<Rightarrow>
              (case upsert tenantID rnd params s of
                 (Inl e, s1) \<Rightarrow>
                   (admin_error [ErrPlatformEmpty, ErrProviderUnsupported, ErrProviderAccessTokenRequired,
                                 ErrProviderPhoneNumberIDRequired, ErrProviderSigningSecretRequired,
                                 ErrProviderSecretTokenRequired]
                      [] ''upserting provider credential failed'' e, s1)
               | (Inr c, s1) \<Rightarrow> ((200, CredentialBody (sanitizeProviderCredentialResponse c)), s1)))"

definition HandleDeleteProviderCredential ::
  "channel_handler \<Rightarrow> string \<Rightarrow> string \<Rightarrow> db \<Rightarrow> admin_response \<times> db" where
  "HandleDeleteProviderCredential h contextTenant pathProvider =
     admin_request contextTenant (hd_deleteProviderCredential h) ''provider credentials are not configured''
       (\<lambda>delete tenantID s.
          case delete tenantID (TrimSpace pathProvider) s of
            (Inl e, s1) \<Rightarrow>
              (admin_error [ErrPlatformEmpty, ErrProviderUnsupported] [ErrProviderCredentialNotFound]
                 ''deleting provider credential failed'' e, s1)
          | (Inr _, s1) \<Rightarrow> ((204, NoBody), s1))"

end
