(* ===== verification/Webhook_Laws.thy ===== *)
theory Webhook_Laws
  imports Channel_Admin Channel_Properties
begin

text \<open>
  What a request to the channel endpoints keeps. The locale \<open>channel_endpoints\<close> is the contract
  between the handler and the functions it is built from: each keeps a property of the database.
  The webhook then keeps it, whatever it receives. The handler of the control plane is an
  interpretation for the invariant of the channel tables and for the keys of messages seen.
\<close>

section \<open>Operations in a world\<close>

definition world_keeps :: "(db \<Rightarrow> bool) \<Rightarrow> (channel_world \<Rightarrow> 'a \<times> channel_world) \<Rightarrow> bool" where
  "world_keeps P f \<longleftrightarrow> (\<forall>w. P (cw_db w) \<longrightarrow> P (cw_db (snd (f w))))"

lemma world_keepsI: "(\<And>w. P (cw_db w) \<Longrightarrow> P (cw_db (snd (f w)))) \<Longrightarrow> world_keeps P f"
  by (simp add: world_keeps_def)

lemma world_keepsD: "world_keeps P f \<Longrightarrow> P (cw_db w) \<Longrightarrow> f w = (r, w') \<Longrightarrow> P (cw_db w')"
  by (metis world_keeps_def snd_conv)

lemma on_channel_db_keeps: "keeps P f \<Longrightarrow> world_keeps P (on_channel_db f)"
  by (auto simp: world_keeps_def keeps_def on_channel_db_def split: prod.splits)

lemma on_channel_dbD: "keeps P f \<Longrightarrow> on_channel_db f w = (r, w') \<Longrightarrow> P (cw_db w) \<Longrightarrow> P (cw_db w')"
  by (rule world_keepsD [OF on_channel_db_keeps])

lemma logDecision_db [simp]: "cw_db (logDecision g msg d l w) = cw_db w"
  by (simp add: logDecision_def add_event_def)

lemma read_clock_db: "read_clock wall w = (t, w') \<Longrightarrow> cw_db w' = cw_db w \<and> cw_events w' = cw_events w"
  by (auto simp: read_clock_def)

lemma read_clock_keeps: "world_keeps P (read_clock wall)"
  by (simp add: world_keeps_def read_clock_def)

section \<open>The contract\<close>

definition guard_keeps :: "(db \<Rightarrow> bool) \<Rightarrow> IngressGuard \<Rightarrow> bool" where
  "guard_keeps P g \<longleftrightarrow>
     (\<forall>v t hs b now. gd_verifier g = Contextual v \<longrightarrow> keeps P (v t hs b now)) \<and>
     (\<forall>t p u. keeps P (gd_resolveLink g t p u)) \<and> (\<forall>t msg. keeps P (gd_insertIdempotency g t msg))"

locale channel_endpoints =
  fixes h :: channel_handler and P :: "db \<Rightarrow> bool"
  assumes guards: "map_of (hd_ingressByProvider h) p = Some g \<Longrightarrow> guard_keeps P g"
    and enqueue: "hd_enqueueOutbound h = Some e \<Longrightarrow> keeps P (e t pf k r th c x)"
    and update: "hd_updateMessageStatus h = Some u \<Longrightarrow> keeps P (u t pf k st meta)"
    and conversation: "hd_listConversation h = Some l \<Longrightarrow> keeps P (l t usr n)"
    and message: "hd_getMessageByIdempotencyKey h = Some m \<Longrightarrow> keeps P (m t pf k)"
    and execute: "hd_execute h = Some run \<Longrightarrow> P s \<Longrightarrow> P (fst (snd (run msg s)))"
begin

lemma Process_keeps:
  assumes "map_of (hd_ingressByProvider h) p = Some g"
  shows "world_keeps P (VerifyWithContext wall g t hs b)" "world_keeps P (Process wall g t msg)"
proof -
  note g = guards [OF assms, unfolded guard_keeps_def]
  have v: "P (cw_db w')" if "VerifyWithContext wall g t hs b w = (r, w')" "P (cw_db w)" for t hs b w r w'
  proof -
    obtain now w1 where 1: "read_clock wall w = (now, w1)" by fastforce
    with that g read_clock_db [OF 1] show ?thesis
      by (auto simp: VerifyWithContext_def split: Verifier.splits elim!: on_channel_dbD [rotated])
  qed
  then show "world_keeps P (VerifyWithContext wall g t hs b)"
    by (metis world_keepsI prod.collapse)
  have l: "P (cw_db w')" if "on_channel_db (gd_resolveLink g t pf u) w = (r, w')" "P (cw_db w)" for pf u w r w'
    using that g by (blast intro: on_channel_dbD)
  have i: "P (cw_db (snd (ingest g t msg l w)))" if "P (cw_db w)" for l w
  proof -
    obtain r w1 where 1: "on_channel_db (gd_insertIdempotency g t msg) w = (r, w1)" by fastforce
    with that g have "P (cw_db w1)" by (blast intro: on_channel_dbD)
    with 1 show ?thesis by (simp add: ingest_def Let_def split: sum.splits)
  qed
  show "world_keeps P (Process wall g t msg)"
  proof (rule world_keepsI)
    fix w :: channel_world assume P: "P (cw_db w)"
    obtain r1 w1 where 1: "VerifyWithContext wall g t (ms_Headers msg) (ms_Body msg) w = (r1, w1)" by fastforce
    obtain r2 w2 where 2: "on_channel_db (gd_resolveLink g t (ms_Platform msg) (ms_PlatformUserID msg)) w1 = (r2, w2)"
      by fastforce
    obtain now w3 where 3: "read_clock wall w2 = (now, w3)" by fastforce
    have "P (cw_db w1)" using v [OF 1 P] .
    moreover from this have "P (cw_db w2)" by (rule l [OF 2])
    moreover from this have "P (cw_db w3)" using read_clock_db [OF 3] by simp
    ultimately show "P (cw_db (snd (Process wall g t msg w)))"
      by (simp add: Process_def 1 2 3 i split: sum.split)
  qed
qed

lemma run_accepted_keeps: "world_keeps P (run_accepted h su k meta result st)"
proof (rule world_keepsI)
  fix w :: channel_world assume P: "P (cw_db w)"
  have c: "P (cw_db (snd (conversation_history h su k l w)))" for l
    using P by (auto simp: conversation_history_def split: option.split prod.split sum.split
        intro: on_channel_dbD [OF conversation])
  have e: "P (cw_db (snd (enqueue_reply h k key r t x st' w')))" if "P (cw_db w')" for key r t x st' w'
    using that by (auto simp: enqueue_reply_def split: option.split prod.split sum.split
        intro: on_channel_dbD [OF enqueue])
  have x: "P (cw_db (snd (run_executor ex key msg w')))" if "P (cw_db w')" "hd_execute h = Some ex" for ex key msg w'
    using execute [OF that(2,1), of msg] by (auto simp: run_executor_def split: prod.splits)
  show "P (cw_db (snd (run_accepted h su k meta result st w)))"
  proof (cases "hd_execute h")
    case (Some ex)
    have "P (cw_db (snd (enqueue_reply h k key r t y st' (snd (run_executor ex key msg (snd (conversation_history h su k l w)))))))"
      for key msg l r t y st'
      by (rule e [OF x [OF c Some]])
    then show ?thesis using P Some
      by (simp add: run_accepted_def case_prod_unfold split: option.split)
  qed (simp add: run_accepted_def P)
qed

lemma recover_duplicate_keeps: "world_keeps P (recover_duplicate h k meta result st)"
proof (rule world_keepsI)
  fix w :: channel_world assume P: "P (cw_db w)"
  have q: "P (cw_db (snd (requeue_reply e k meta rec md w')))" if "hd_enqueueOutbound h = Some e" "P (cw_db w')" for e rec md w'
    using that(2) by (auto simp: requeue_reply_def split: prod.split sum.split
        intro: on_channel_dbD [OF enqueue [OF that(1)]])
  have r: "P (cw_db w')" if "hd_enqueueOutbound h = Some e" "hd_getMessageByIdempotencyKey h = Some g"
    "recoverDuplicateDispatchFailure g e k meta w = (r, w')" for e g r w'
  proof -
    obtain r1 w1 where 1: "on_channel_db (g (wk_TenantID k) (wk_Provider k) (idempotency_key k meta)) w = (r1, w1)"
      by fastforce
    have "P (cw_db w1)" by (rule on_channel_dbD [OF message [OF that(2)] 1 P])
    with 1 q [OF that(1)] have "P (cw_db (snd (recoverDuplicateDispatchFailure g e k meta w)))"
      by (simp add: recoverDuplicateDispatchFailure_def split: sum.split option.split)
    with that(3) show ?thesis by simp
  qed
  show "P (cw_db (snd (recover_duplicate h k meta result st w)))"
    using P by (auto simp: recover_duplicate_def split: option.split prod.split sum.split dest: r)
qed

lemma record_status_keeps: "world_keeps P (record_status h k key st)"
  by (rule world_keepsI)
    (auto simp: record_status_def Let_def split: option.split
      intro: on_channel_dbD [OF update prod.collapse [symmetric]])

lemma handle_message_keeps:
  assumes "map_of (hd_ingressByProvider h) p = Some g"
  shows "world_keeps P (handle_message wall su h g k meta)"
proof (rule world_keepsI)
  fix w :: channel_world assume P: "P (cw_db w)"
  obtain res err w1 where 1: "Process wall g (wk_TenantID k) (ingress_message k meta) w = ((res, err), w1)"
    by (metis prod.exhaust)
  have p1: "P (cw_db w1)" by (rule world_keepsD [OF Process_keeps(2) [OF assms] P 1])
  obtain r2 w2 where 2: "recover_duplicate h k meta res (initial_state su meta res) w1 = (r2, w2)" by fastforce
  have p2: "P (cw_db w2)" by (rule world_keepsD [OF recover_duplicate_keeps p1 2])
  show "P (cw_db (snd (handle_message wall su h g k meta w)))"
  proof (cases "err = None \<and> (\<exists>st. r2 = Inr st)")
    case True
    then obtain st where e: "err = None" "r2 = Inr st" by blast
    obtain st2 w3 where 3: "run_accepted h su k meta res st w2 = (st2, w3)" by fastforce
    obtain r4 w4 where 4: "record_status h k (idempotency_key k meta) st2 w3 = (r4, w4)" by fastforce
    have "P (cw_db w4)"
      by (rule world_keepsD [OF record_status_keeps world_keepsD [OF run_accepted_keeps p2 3] 4])
    then show ?thesis by (simp add: handle_message_def 1 e 2 3 4 split: sum.split)
  next
    case False
    then show ?thesis using p1 p2 by (auto simp: handle_message_def 1 2 split: option.split sum.split)
  qed
qed

lemma handle_metas_keeps:
  assumes "map_of (hd_ingressByProvider h) p = Some g" "P (cw_db w)"
  shows "P (cw_db (snd (handle_metas wall su h g k metas vars w)))"
  using assms(2)
proof (induction metas arbitrary: vars w)
  case (Cons meta metas)
  obtain r1 w1 where 1: "handle_message wall su h g k meta w = (r1, w1)" by fastforce
  have p1: "P (cw_db w1)" by (rule world_keepsD [OF handle_message_keeps [OF assms(1)] Cons.prems 1])
  obtain r2 w2 where 2: "VerifyWithContext wall g (wk_TenantID k) (wk_Headers k) (wk_Body k) w = (r2, w2)" by fastforce
  have p2: "P (cw_db w2)" by (rule world_keepsD [OF Process_keeps(1) [OF assms(1)] Cons.prems 2])
  have "P (cw_db (snd (acknowledge wall g k c vars w)))" for c
    using p2 Cons.prems by (simp add: acknowledge_def 2 split: sum.split)
  then have a: "P (cw_db w3)" if "acknowledge wall g k c vars w = (r3, w3)" for c r3 w3
    using that by (metis snd_conv)
  show ?case
    using p1 Cons.IH a by (auto simp: 1 split: option.split sum.split prod.split)
qed simp

lemma HandleWebhook_keeps:
  assumes "P (cw_db w)"
  shows "P (cw_db (snd (HandleWebhook wall pu su json h rq w)))"
proof -
  obtain now w1 where 1: "read_clock wall w = (now, w1)" by fastforce
  have "P (cw_db w1)" using read_clock_db [OF 1] assms by simp
  then have "P (cw_db w2)" if "handle_metas wall su h g k metas vars w1 = (r, w2)"
    "map_of (hd_ingressByProvider h) p = Some g" for p g k metas vars r w2
    using handle_metas_keeps [OF that(2)] that(1) by (metis snd_conv)
  then show ?thesis
    using assms \<open>P (cw_db w1)\<close>
    by (auto simp: HandleWebhook_def Let_def 1 split: option.split sum.split prod.split)
qed

end

section \<open>Reads\<close>

lemma keeps_tenant_connection: "session_blind P \<Longrightarrow> keeps P f \<Longrightarrow> keeps P (tenant_connection pu t f)"
  unfolding tenant_connection_def [abs_def] by (intro keeps_option keeps_return WithTenantConnection_keeps)

lemma keeps_checked_secret:
  "keeps P f \<Longrightarrow> keeps P (\<lambda>s. case f s of (Inl e, s1) \<Rightarrow> (Inl e, s1)
     | (Inr c, s1) \<Rightarrow> (let x = g c in if x = [] then (Inl m, s1) else (Inr (mk x), s1)))"
  by (force simp: keeps_def Let_def split: prod.splits sum.splits)

lemma channel_reads_keep:
  assumes "fault_blind P"
  shows "keeps P (GetLinkByIdentity p u)" "keeps P (GetProviderCredential st p)"
    "keeps P (ListRecentConversationByUser render u n)" "keeps P (GetMessageByIdempotencyKey p k)"
    "keeps P (GetMessageIDByIdempotencyKey p k)" "keeps P ListLinks" "keeps P (ListOutbox status n)"
proof -
  note reads = keeps_ifI keeps_option keeps_sum keeps_bind keeps_return keeps_wrap_err keeps_query_row
    keeps_query keeps_decrypt_result keeps_sql [OF assms]
  show "keeps P (GetLinkByIdentity p u)" unfolding GetLinkByIdentity_def [abs_def] by (intro reads)
  show "keeps P (GetProviderCredential st p)" unfolding GetProviderCredential_def [abs_def] by (intro reads)
  show "keeps P (ListRecentConversationByUser render u n)"
    unfolding ListRecentConversationByUser_def [abs_def] Let_def by (intro reads)
  show "keeps P (GetMessageByIdempotencyKey p k)"
    unfolding GetMessageByIdempotencyKey_def [abs_def] by (intro reads)
  show "keeps P (GetMessageIDByIdempotencyKey p k)"
    unfolding GetMessageIDByIdempotencyKey_def [abs_def] by (intro reads)
  show "keeps P ListLinks" unfolding ListLinks_def [abs_def] by (intro reads)
  have "keeps P (list_outbox_stmt st' n)" for st' n by (simp add: keeps_def list_outbox_stmt_def)
  then show "keeps P (ListOutbox status n)"
    unfolding ListOutbox_def [abs_def] Let_def by (intro reads)
qed

lemma store_guard_keeps:
  assumes "session_blind P" "\<And>a b c d e f g. keeps P (InsertIdempotency a b c d e f g)"
    and "map_of (ingress_guards pu st cfg) p = Some g"
  shows "guard_keeps P g"
proof -
  note fb = session_blind_faults [OF assms(1)]
  have r: "keeps P (store_resolveLink pu t pf u)" "keeps P (store_insertIdempotency pu t msg)" for t pf u msg
    unfolding store_resolveLink_def [abs_def] store_insertIdempotency_def [abs_def]
    by (intro keeps_ifI keeps_return keeps_tenant_connection assms channel_reads_keep fb)+
  have v: "keeps P (VerifyContext (Some res) t hs b now)" if "\<And>t. keeps P (res t)" for res t hs b now
  proof (rule keepsI)
    fix s assume "P s"
    then have "P (snd (res t s))" using that by (simp add: keeps_def)
    then show "P (snd (VerifyContext (Some res) t hs b now s))"
      by (cases "res t s") (auto simp: VerifyContext_def split: sum.split option.split)
  qed
  have c: "keeps P (credentialForTenant pu st pr t)" for pr t
    unfolding credentialForTenant_def [abs_def]
    by (intro keeps_ifI keeps_return keeps_tenant_connection assms channel_reads_keep fb)
  from assms(3) obtain pr fld mis mk where
    "g = store_guard pu cfg (secret_verifier pu st pr fld mis mk)"
    by (auto simp: ingress_guards_def slackVerifier_def whatsAppVerifier_def telegramVerifier_def split: if_splits)
  then show ?thesis
    by (auto simp: guard_keeps_def store_guard_def NewIngressGuard_def secret_verifier_def
        intro!: r v keeps_checked_secret c)
qed

section \<open>The running control plane\<close>

text \<open>The executor changes nothing but the fault script.\<close>

lemma run_reader_tables: "run_reader f s = (r, s') \<Longrightarrow> \<exists>fs. s' = s\<lparr>db_faults := fs\<rparr>"
  by (auto simp: run_reader_def split: prod.splits)

lemma execute_message_faults: "\<exists>fs. fst (snd (execute_message ex msg s)) = s\<lparr>db_faults := fs\<rparr>"
proof -
  have id: "\<exists>fs. s = s\<lparr>db_faults := fs\<rparr>" for s :: db by (rule exI [of _ "db_faults s"]) simp
  have u: "\<exists>fs. s' = s\<lparr>db_faults := fs\<rparr>" if "user_context ex msg a u s = (r, s')" for a u s r s'
    using that id by (auto simp: user_context_def split: option.splits prod.splits sum.splits context_error.splits
        dest!: run_reader_tables)
  have a: "\<exists>fs. fst (snd (run_agent ex msg c i tg s)) = s\<lparr>db_faults := fs\<rparr>" for c i tg s
    using u by (auto simp: run_agent_def Let_def dispatch_failed_def split: prod.split sum.split)
  have f: "\<exists>fs. fst (snd (find_agent ex msg c i s)) = s\<lparr>db_faults := fs\<rparr>" for c i s
  proof -
    obtain r s1 where 1: "run_reader (ce_listAgents ex (xm_TenantID msg)) s = (r, s1)" by fastforce
    from run_reader_tables [OF 1] obtain fs1 where s1: "s1 = s\<lparr>db_faults := fs1\<rparr>" ..
    have "\<exists>fs. fst (snd (run_agent ex msg c i tg s1)) = s\<lparr>db_faults := fs\<rparr>" for tg
      using a [of c i tg s1] by (simp add: s1)
    then show ?thesis
      by (auto simp: find_agent_def 1 s1 dispatch_failed_def split: sum.split option.split)
  qed
  have sc: "\<exists>fs. fst (snd (scan_message ex msg c i s)) = s\<lparr>db_faults := fs\<rparr>" for c i s
    using f id by (auto simp: scan_message_def dispatch_failed_def split: sum.split option.split)
  obtain r s1 where 1: "run_reader (ce_lookupIdentity ex (ce_show_uuid ex (ln_UserID (xm_Link msg)))) s = (r, s1)"
    by fastforce
  from run_reader_tables [OF 1] obtain fs1 where s1: "s1 = s\<lparr>db_faults := fs1\<rparr>" ..
  have "\<exists>fs. fst (snd (scan_message ex msg c i s1)) = s\<lparr>db_faults := fs\<rparr>" for c i
    using sc [of c i s1] by (simp add: s1)
  then show ?thesis using id
    by (auto simp: execute_message_def Let_def 1 s1 dispatch_failed_def split: prod.split sum.split option.split)
qed

locale channel_writes =
  fixes pu :: "string \<Rightarrow> uuid option" and P :: "db \<Rightarrow> bool"
  assumes blind: "session_blind P"
    and insert_keeps: "keeps P (InsertIdempotency a b c d e f g)"
    and status_keeps: "keeps P (UpdateMessageStatus pf k st meta)"
    and enqueue_keeps: "keeps P (EnqueueOutbound pu params)"
begin

lemma store_enqueueOutbound_keeps: "keeps P (store_enqueueOutbound pu su a b c d e f)"
  unfolding store_enqueueOutbound_def [abs_def] Let_def
  by (intro keeps_bind channel_reads_keep [OF session_blind_faults [OF blind]] enqueue_keeps keeps_return)

lemma execute_keeps: "P s \<Longrightarrow> P (fst (snd (execute_message ex msg s)))"
  using execute_message_faults [of ex msg s] session_blind_faults [OF blind] by (auto simp: fault_blind_def)

end

sublocale channel_writes \<subseteq> sys: channel_endpoints "channel_system pu su render st cfg (Some (execute_message ex))" P
  for su render st cfg ex
  by unfold_locales
    (auto simp: channel_system_def WithExecutor_def WithLinkStore_def NewHandler_def
      intro!: keeps_tenant_connection blind insert_keeps status_keeps store_enqueueOutbound_keeps execute_keeps
        channel_reads_keep [OF session_blind_faults [OF blind]]
      elim!: store_guard_keeps [OF blind insert_keeps])

lemma Enqueue_keeps:
  "keeps channel_inv (EnqueueOutbound pu params)" "keeps (key_taken t p k) (EnqueueOutbound pu params)"
proof -
  show "keeps channel_inv (EnqueueOutbound pu params)"
    using exec_call_channel_inv [of _ pu "Enqueue params"] by (simp add: keeps_def)
  show "keeps (key_taken t p k) (EnqueueOutbound pu params)"
    using exec_channel_key [of "OutboxCall (Enqueue params)" t p k _ pu] by (simp add: keeps_def)
qed

lemma key_taken_session: "session_blind (key_taken t p k)"
  by (simp add: session_blind_def key_taken_def message_keys_def)

lemma Requeue_keeps:
  "keeps channel_inv (RequeueOutboxDead i)" "keeps (key_taken t p k) (RequeueOutboxDead i)"
proof -
  show "keeps channel_inv (RequeueOutboxDead i)"
    using exec_call_channel_inv [of _ undefined "Requeue i"] by (simp add: keeps_def)
  show "keeps (key_taken t p k) (RequeueOutboxDead i)"
    using exec_channel_key [of "OutboxCall (Requeue i)" t p k] by (simp add: keeps_def)
qed

section \<open>Administration\<close>

datatype admin_call =
    ListLinksCall
  | CreateLinkCall gotime raw_json
  | DeleteLinkCall string
  | ListOutboxCall string string
  | RequeueCall string
  | GetCredentialCall string
  | PutCredentialCall "nat \<Rightarrow> string option" string raw_json
  | DropCredentialCall string

fun serve_admin ::
  "(string \<Rightarrow> uuid option) \<Rightarrow> channel_handler \<Rightarrow> string \<Rightarrow> admin_call \<Rightarrow> db \<Rightarrow> admin_response \<times> db" where
  "serve_admin pu h t ListLinksCall = HandleListLinks h t"
| "serve_admin pu h t (CreateLinkCall wall body) = HandleCreateLink pu h wall t body"
| "serve_admin pu h t (DeleteLinkCall i) = HandleDeleteLink h t i"
| "serve_admin pu h t (ListOutboxCall status limit) = HandleListOutbox h t status limit"
| "serve_admin pu h t (RequeueCall i) = HandleRequeueOutboxDead pu h t i"
| "serve_admin pu h t (GetCredentialCall p) = HandleGetProviderCredential h t p"
| "serve_admin pu h t (PutCredentialCall rnd p body) = HandleUpsertProviderCredential h rnd t p body"
| "serve_admin pu h t (DropCredentialCall p) = HandleDeleteProviderCredential h t p"

lemma keeps_admin_request:
  "(\<And>f t'. fld = Some f \<Longrightarrow> keeps P (k f t')) \<Longrightarrow> keeps P (admin_request t fld m k)"
  by (simp add: keeps_def admin_request_def split: sum.split option.split)

lemma keeps_answer:
  "keeps P f \<Longrightarrow> keeps P (\<lambda>s. case f s of (Inl e, s1) \<Rightarrow> (g e, s1) | (Inr a, s1) \<Rightarrow> (g' a, s1))"
  by (intro keeps_bind keeps_return)

locale channel_administration = channel_writes +
  assumes link_keeps: "keeps P (UpsertLink pu wall lp)" "keeps P (DeleteLink pu i)"
    and requeue_keeps: "keeps P (RequeueOutboxDead j)"
    and credential_keeps: "keeps P (UpsertProviderCredential cs rnd cp)" "keeps P (DeleteProviderCredential pr)"
begin

lemma serve_admin_keeps: "keeps P (serve_admin pu (channel_system pu su render cs cfg exec) t c)"
proof -
  note ops = keeps_tenant_connection [OF blind] link_keeps requeue_keeps credential_keeps
    channel_reads_keep [OF session_blind_faults [OF blind]]
  note sys = channel_system_def WithExecutor_def WithLinkStore_def NewHandler_def
  note steps = keeps_admin_request keeps_option keeps_ifI keeps_return keeps_answer
  show ?thesis
  proof (cases c)
    case (CreateLinkCall wall body)
    show ?thesis unfolding CreateLinkCall serve_admin.simps HandleCreateLink_def sys
      by (intro steps) (auto intro!: ops)
  next
    case (ListOutboxCall status n)
    show ?thesis unfolding ListOutboxCall serve_admin.simps HandleListOutbox_def sys Let_def
      by (intro steps) (auto intro!: ops)
  next
    case (RequeueCall i)
    show ?thesis unfolding RequeueCall serve_admin.simps HandleRequeueOutboxDead_def sys Let_def
      by (intro steps) (auto intro!: ops)
  next
    case (PutCredentialCall rnd p body)
    show ?thesis unfolding PutCredentialCall serve_admin.simps HandleUpsertProviderCredential_def sys
      by (intro steps) (auto intro!: ops)
  next
    case ListLinksCall
    show ?thesis unfolding ListLinksCall serve_admin.simps HandleListLinks_def sys
      by (intro steps) (auto intro!: ops)
  next
    case (DeleteLinkCall i)
    show ?thesis unfolding DeleteLinkCall serve_admin.simps HandleDeleteLink_def sys
      by (intro steps) (auto intro!: ops)
  next
    case (GetCredentialCall p)
    show ?thesis unfolding GetCredentialCall serve_admin.simps HandleGetProviderCredential_def sys
      by (intro steps) (auto intro!: ops)
  next
    case (DropCredentialCall p)
    show ?thesis unfolding DropCredentialCall serve_admin.simps HandleDeleteProviderCredential_def sys
      by (intro steps) (auto intro!: ops)
  qed
qed

end

interpretation channel_tables: channel_administration pu channel_inv for pu
  by unfold_locales
    (intro channel_inv_blind InsertIdempotency_inv message_ops_inv Enqueue_keeps UpsertLink_inv delete_ops_inv
      Requeue_keeps UpsertProviderCredential_inv)+

interpretation seen_keys: channel_administration pu "key_taken t p k" for pu t p k
  by unfold_locales
    (intro key_taken_session message_ops_key Enqueue_keeps link_ops_key credential_ops_key Requeue_keeps)+

end
