(* ===== verification/Webhook_Trace.thy ===== *)
theory Webhook_Trace
  imports Webhook_Laws
begin

text \<open>
  What a run of the webhook leaves in the world: verification against the credential of the
  tenant, the decision of the guard, and the executions, each with a key that was free before.
\<close>

section \<open>Authentic requests\<close>

text \<open>The specification of a signed request, for the decrypted credential of a provider.\<close>

definition signed_by :: "string \<Rightarrow> ProviderCredential \<Rightarrow> http_header \<Rightarrow> string \<Rightarrow> gotime \<Rightarrow> bool" where
  "signed_by provider plain headers body now \<longleftrightarrow>
     (let signing = TrimSpace (pc_SigningSecret plain); token = TrimSpace (pc_SecretToken plain);
          stamp = header_Get headers ''X-Slack-Request-Timestamp'' in
      if provider = ''slack'' then
        signing \<noteq> [] \<and>
        header_Get headers ''X-Slack-Signature'' = ''v0='' @ hex_text (hmac_sha256 signing (''v0:'' @ stamp @ '':'' @ body)) \<and>
        (\<exists>sec. Atoi stamp = Some sec \<and> \<bar>now - time_Unix sec\<bar> \<le> 300 * 1000000000)
      else if provider = ''whatsapp'' then
        signing \<noteq> [] \<and> header_Get headers ''X-Hub-Signature-256'' = ''sha256='' @ hex_text (hmac_sha256 signing body)
      else token \<noteq> [] \<and> header_Get headers ''X-Telegram-Bot-Api-Secret-Token'' = token)"

definition authentic ::
  "(string \<Rightarrow> uuid option) \<Rightarrow> Store \<Rightarrow> string \<Rightarrow> string \<Rightarrow> http_header \<Rightarrow> string \<Rightarrow> gotime \<Rightarrow> db \<Rightarrow> bool" where
  "authentic pu st provider tenantID headers body now s \<longleftrightarrow>
     (\<exists>c \<in> set (db_credentials s). pu tenantID = Some (pc_TenantID c) \<and> pc_Provider c = provider \<and>
        (\<exists>plain. decryptCredentialFields (st_credentialCrypto st) c = Inr plain \<and>
           signed_by provider plain headers body now))"

text \<open>The verifier a provider gets.\<close>

definition provider_secret :: "string \<Rightarrow> ProviderCredential \<Rightarrow> string" where
  "provider_secret p = (if p = ''telegram'' then pc_SecretToken else pc_SigningSecret)"

definition provider_verify :: "string \<Rightarrow> string \<Rightarrow> verify_fn" where
  "provider_verify p secret =
     (if p = ''slack'' then slack_Verify (NewSlackVerifier secret (5 * 60 * 1000000000))
      else if p = ''whatsapp'' then whatsapp_Verify secret else telegram_Verify secret)"

lemma store_guardD:
  assumes "map_of (ingress_guards pu st cfg) p = Some g"
  obtains mis where "p \<in> {''slack'', ''whatsapp'', ''telegram''}"
    "g = store_guard pu cfg (secret_verifier pu st p (provider_secret p) mis (provider_verify p))"
proof -
  have "provider_verify ''slack'' = (\<lambda>secret. slack_Verify (NewSlackVerifier secret (5 * 60 * 1000000000)))"
    "provider_verify ''whatsapp'' = whatsapp_Verify" "provider_verify ''telegram'' = telegram_Verify"
    by (simp_all add: fun_eq_iff provider_verify_def)
  with assms show ?thesis
    by (auto simp: ingress_guards_def slackVerifier_def whatsAppVerifier_def telegramVerifier_def provider_secret_def
        split: if_splits intro: that)
qed

lemma time_Sub_close: "time_Sub a b \<le> 300000000000 \<Longrightarrow> time_Sub b a \<le> 300000000000 \<Longrightarrow> \<bar>a - b\<bar> \<le> 300000000000"
  by (auto simp: time_Sub_def)

lemma provider_verify_signed:
  assumes "provider_verify p (TrimSpace (provider_secret p plain)) hs b now = None"
    and "p \<in> {''slack'', ''whatsapp'', ''telegram''}" "TrimSpace (provider_secret p plain) \<noteq> []"
  shows "signed_by p plain hs b now"
  using assms
  by (auto simp: provider_verify_def provider_secret_def signed_by_def slack_Verify_def whatsapp_Verify_def
      telegram_Verify_def NewSlackVerifier_def slackSignatureHeader_def slackTimestampHeader_def
      whatsappSignatureHeader_def telegramSecretHeader_def Let_def split: if_splits option.splits
      intro!: time_Sub_close)

lemma tenant_connection_Inr:
  assumes "tenant_connection pu tid fn s = (Inr a, s')"
  obtains t s1 s2 where "pu tid = Some t" "db_tenant s1 = Some t" "same_tables s s1" "fn s1 = (Inr a, s2)"
    "s' = reset_tenant s2"
  using assms by (auto simp: tenant_connection_def split: option.splits elim: WithTenantConnection_Inr)

lemma credentialForTenant_Inr:
  assumes "credentialForTenant pu st p tid s = (Inr plain, s')" "p \<in> {''slack'', ''whatsapp'', ''telegram''}"
  shows "\<exists>c \<in> set (db_credentials s). pu tid = Some (pc_TenantID c) \<and> pc_Provider c = p \<and>
    decryptCredentialFields (st_credentialCrypto st) c = Inr plain"
proof -
  from assms(1) have "tenant_connection pu tid (GetProviderCredential st p) s = (Inr plain, s')"
    by (simp add: credentialForTenant_def split: if_splits)
  then obtain t s1 s2 where t: "pu tid = Some t" "db_tenant s1 = Some t" "same_tables s s1"
    and g: "GetProviderCredential st p s1 = (Inr plain, s2)"
    by (rule tenant_connection_Inr)
  have "normalizeCredentialProvider p = Inr p" using assms(2) by (auto; code_simp)
  with g obtain c fs where "find (credential_key (s1\<lparr>db_faults := fs\<rparr>) p) (db_credentials s1) = Some c"
    "decryptCredentialFields (st_credentialCrypto st) c = Inr plain"
    by (auto simp: GetProviderCredential_def decrypt_result_def split: prod.splits sum.splits dest!: sql_Inr)
  with t show ?thesis
    by (intro bexI [of _ c]) (auto simp: credential_key_def own_def same_tables_def dest!: find_SomeD)
qed

section \<open>The guard\<close>

lemma on_channel_db_frame:
  "on_channel_db f w = (r, w') \<Longrightarrow> cw_events w' = cw_events w \<and> cw_ticks w' = cw_ticks w"
  by (auto simp: on_channel_db_def split: prod.splits)

lemma store_guard_fields [simp]:
  "gd_verifier (store_guard pu cfg v) = v" "gd_resolveLink (store_guard pu cfg v) = store_resolveLink pu"
  "gd_insertIdempotency (store_guard pu cfg v) = store_insertIdempotency pu" "\<not> gd_auditLogger (store_guard pu cfg v)"
  by (simp_all add: store_guard_def NewIngressGuard_def)

lemma verify_authentic:
  assumes "map_of (ingress_guards pu st cfg) p = Some g" "VerifyWithContext wall g t hs b w = (r, w')"
  shows "same_tables (cw_db w) (cw_db w') \<and> cw_events w' = cw_events w"
    and "r = Inr u \<Longrightarrow> authentic pu st p t hs b (wall (cw_ticks w)) (cw_db w)"
proof -
  from assms(1) obtain mis where p: "p \<in> {''slack'', ''whatsapp'', ''telegram''}"
    and g: "g = store_guard pu cfg (secret_verifier pu st p (provider_secret p) mis (provider_verify p))"
    by (rule store_guardD)
  let ?c = "credentialForTenant pu st p t (cw_db w)"
  have k: "keeps (same_tables (cw_db w)) (credentialForTenant pu st p t)"
    unfolding credentialForTenant_def [abs_def]
    by (intro keeps_ifI keeps_return keeps_tenant_connection channel_reads_keep session_blind_faults same_tables_blind)
  obtain rc s1 where c: "?c = (rc, s1)" by fastforce
  have t: "same_tables (cw_db w) s1" by (rule keepsD [OF k same_tables_refl c])
  note v = assms(2) [unfolded g VerifyWithContext_def read_clock_def secret_verifier_def on_channel_db_def VerifyContext_def,
      simplified, simplified c]
  show "same_tables (cw_db w) (cw_db w') \<and> cw_events w' = cw_events w"
    using v t by (auto simp: Let_def split: prod.splits sum.splits option.splits if_splits)
  show "authentic pu st p t hs b (wall (cw_ticks w)) (cw_db w)" if "r = Inr u"
  proof -
    from v that obtain plain where "rc = Inr plain" "TrimSpace (provider_secret p plain) \<noteq> []"
      "provider_verify p (TrimSpace (provider_secret p plain)) hs b (wall (cw_ticks w)) = None"
      by (auto simp: Let_def split: prod.splits sum.splits option.splits if_splits)
    with provider_verify_signed [OF _ p] credentialForTenant_Inr [OF _ p, of pu st t "cw_db w" plain s1] c
    show ?thesis unfolding authentic_def by blast
  qed
qed

definition link_of :: "string \<Rightarrow> string \<Rightarrow> uuid \<Rightarrow> ChannelLink \<Rightarrow> bool" where
  "link_of platform user t l \<longleftrightarrow>
     IsVerified l \<and> ln_TenantID l = t \<and> ln_Platform l = platform \<and> ln_PlatformUserID l = user"

lemma resolveLink_Inr:
  assumes "store_resolveLink pu t pf u s = (Inr l, s')"
  shows "l \<in> set (db_links s) \<and> pu t = Some (ln_TenantID l) \<and> ln_Platform l = pf \<and> ln_PlatformUserID l = u"
proof -
  from assms have "tenant_connection pu t (GetLinkByIdentity pf u) s = (Inr l, s')"
    by (simp add: store_resolveLink_def split: if_splits)
  then obtain tu s1 s2 where t: "pu t = Some tu" "db_tenant s1 = Some tu" "same_tables s s1"
    and g: "GetLinkByIdentity pf u s1 = (Inr l, s2)"
    by (rule tenant_connection_Inr)
  from g obtain fs where "find (link_key (s1\<lparr>db_faults := fs\<rparr>) pf u) (db_links s1) = Some l"
    by (auto simp: GetLinkByIdentity_def split: if_splits dest!: sql_Inr)
  with t show ?thesis by (auto simp: link_key_def own_def same_tables_def dest!: find_SomeD)
qed

lemma resolveLink_tables:
  assumes "store_resolveLink pu t pf u s = (r, s')"
  shows "same_tables s s'"
proof -
  have "keeps (same_tables s) (store_resolveLink pu t pf u)"
    unfolding store_resolveLink_def [abs_def]
    by (intro keeps_ifI keeps_return keeps_tenant_connection channel_reads_keep session_blind_faults same_tables_blind)
  from keepsD [OF this same_tables_refl assms] show ?thesis .
qed

lemma key_taken_tables: "same_tables s s' \<Longrightarrow> key_taken t p k s' = key_taken t p k s"
  by (rule key_taken_messages) (simp add: same_tables_def)

lemma key_taken_reset: "key_taken t p k (reset_tenant s) = key_taken t p k s"
  by (rule key_taken_tables [OF reset_tenant_keeps [OF same_tables_blind same_tables_refl]])

lemma insertIdempotency_True:
  assumes "store_insertIdempotency pu t msg s = (Inr True, s')"
  shows "\<exists>tu. pu t = Some tu \<and> \<not> key_taken tu (ms_Platform msg) (ms_IdempotencyKey msg) s \<and>
    key_taken tu (ms_Platform msg) (ms_IdempotencyKey msg) s'"
proof -
  from assms have "tenant_connection pu t (InsertIdempotency (ms_Platform msg) (ms_PlatformUserID msg)
      (ms_PlatformMessageID msg) (ms_IdempotencyKey msg) (ms_PayloadFingerprint msg) (ms_CorrelationID msg)
      (ms_ExpiresAt msg)) s = (Inr True, s')"
    by (simp add: store_insertIdempotency_def split: if_splits)
  then obtain tu s1 s2 where t: "pu t = Some tu" "db_tenant s1 = Some tu" "same_tables s s1" "s' = reset_tenant s2"
    and i: "InsertIdempotency (ms_Platform msg) (ms_PlatformUserID msg) (ms_PlatformMessageID msg)
      (ms_IdempotencyKey msg) (ms_PayloadFingerprint msg) (ms_CorrelationID msg) (ms_ExpiresAt msg) s1 = (Inr True, s2)"
    by (rule tenant_connection_Inr)
  from InsertIdempotency_True [OF i] t(1,2,4) key_taken_tables [OF t(3)] show ?thesis
    by (auto simp: key_taken_reset)
qed

lemma Process_accepted:
  assumes "map_of (ingress_guards pu st cfg) p = Some g" "Process wall g t msg w = ((res, err), w')"
  shows "cw_events w' = cw_events w"
    and "ir_Decision res = Some IngressAccepted \<Longrightarrow> \<exists>tu l. pu t = Some tu \<and> ir_Link res = Some l \<and>
      link_of (ms_Platform msg) (ms_PlatformUserID msg) tu l \<and>
      \<not> key_taken tu (ms_Platform msg) (ms_IdempotencyKey msg) (cw_db w) \<and>
      key_taken tu (ms_Platform msg) (ms_IdempotencyKey msg) (cw_db w')"
proof -
  from assms(1) obtain v where g: "g = store_guard pu cfg v" by (rule store_guardD)
  have lg: "logDecision g m d l w = w" "gd_resolveLink g = store_resolveLink pu"
    "gd_insertIdempotency g = store_insertIdempotency pu" for m d l w
    by (simp_all add: logDecision_def g)
  obtain r1 w1 where 1: "VerifyWithContext wall g t (ms_Headers msg) (ms_Body msg) w = (r1, w1)" by fastforce
  obtain r2 s2 where 2: "store_resolveLink pu t (ms_Platform msg) (ms_PlatformUserID msg) (cw_db w1) = (r2, s2)" by fastforce
  obtain r3 s3 where 3: "store_insertIdempotency pu t msg s2 = (r3, s3)" by fastforce
  note v1 = verify_authentic(1) [OF assms(1) 1]
  show "cw_events w' = cw_events w"
    using assms(2) v1
    by (auto simp: Process_def 1 2 3 on_channel_db_def ingest_def read_clock_def lg Let_def
        split: sum.splits if_splits)
  assume "ir_Decision res = Some IngressAccepted"
  with assms(2) obtain l u where l: "r2 = Inr l" "IsVerified l" "ir_Link res = Some l" and i: "r3 = Inr True" "cw_db w' = s3"
    by (auto simp: Process_def 1 2 3 on_channel_db_def ingest_def read_clock_def lg Let_def
        split: sum.splits if_splits)
  have "same_tables (cw_db w) s2" using v1 resolveLink_tables [OF 2] by (blast intro: same_tables_trans)
  then have "key_taken x y z s2 = key_taken x y z (cw_db w)" for x y z
    by (rule key_taken_tables)
  with insertIdempotency_True [OF 3 [unfolded i(1)]] resolveLink_Inr [OF 2 [unfolded l(1)]] l i(2)
  show "\<exists>tu l. pu t = Some tu \<and> ir_Link res = Some l \<and>
      link_of (ms_Platform msg) (ms_PlatformUserID msg) tu l \<and>
      \<not> key_taken tu (ms_Platform msg) (ms_IdempotencyKey msg) (cw_db w) \<and>
      key_taken tu (ms_Platform msg) (ms_IdempotencyKey msg) (cw_db w')"
    by (auto simp: link_of_def)
qed

section \<open>Events of a message\<close>

lemma enqueue_reply_events: "enqueue_reply h k key r t c st w = (st', w') \<Longrightarrow> cw_events w' = cw_events w"
  by (auto simp: enqueue_reply_def split: option.splits if_splits prod.splits sum.splits dest!: on_channel_db_frame)

lemma conversation_history_events: "conversation_history h su k l w = (hist, w') \<Longrightarrow> cw_events w' = cw_events w"
  by (auto simp: conversation_history_def split: option.splits if_splits prod.splits sum.splits dest!: on_channel_db_frame)

lemma record_status_events: "record_status h k key st w = (r, w') \<Longrightarrow> cw_events w' = cw_events w"
  by (auto simp: record_status_def Let_def split: option.splits prod.splits dest!: on_channel_db_frame)

lemma requeue_reply_events: "requeue_reply e k meta rec md w = (r, w') \<Longrightarrow> cw_events w' = cw_events w"
  by (auto simp: requeue_reply_def split: if_splits prod.splits sum.splits dest!: on_channel_db_frame)

lemma recover_duplicate_events:
  assumes "recover_duplicate h k meta result st w = (r, w')"
  shows "cw_events w' = cw_events w"
proof -
  have "cw_events w2 = cw_events w" if "recoverDuplicateDispatchFailure g e k meta w = (x, w2)" for g e x w2
    using that by (auto simp: recoverDuplicateDispatchFailure_def split: prod.splits sum.splits if_splits option.splits
        dest!: on_channel_db_frame requeue_reply_events)
  with assms show ?thesis
    by (auto simp: recover_duplicate_def split: option.splits if_splits prod.splits sum.splits)
qed

lemma run_accepted_events:
  assumes "run_accepted h su k meta result st w = (st', w')"
  shows "cw_events w' = cw_events w \<or>
    (ir_Decision result = Some IngressAccepted \<and> (\<exists>l hist audits. ir_Link result = Some l \<and>
       cw_events w' = cw_events w @ Execute (idempotency_key k meta) (execution_message k meta hist l) # map Audit audits))"
proof (cases "\<exists>ex l. hd_execute h = Some ex \<and> ir_Link result = Some l \<and>
    ir_Decision result = Some IngressAccepted \<and> TrimSpace (im_Content meta) \<noteq> []")
  case True
  then obtain ex l where e: "hd_execute h = Some ex" "ir_Link result = Some l"
    "ir_Decision result = Some IngressAccepted" "TrimSpace (im_Content meta) \<noteq> []" by blast
  obtain hist w1 where 1: "conversation_history h su k l w = (hist, w1)" by fastforce
  obtain r w2 where 2: "run_executor ex (idempotency_key k meta) (execution_message k meta hist l) w1 = (r, w2)" by fastforce
  obtain audits where "cw_events w2 = cw_events w1 @ Execute (idempotency_key k meta) (execution_message k meta hist l) # map Audit audits"
    using 2 by (auto simp: run_executor_def split: prod.splits)
  moreover have "cw_events w' = cw_events w2"
    using assms e by (auto simp: run_accepted_def 1 2 split: prod.splits dest!: enqueue_reply_events)
  ultimately show ?thesis using e conversation_history_events [OF 1] by auto
next
  case False
  with assms have "w' = w" by (auto simp: run_accepted_def split: option.splits if_splits)
  then show ?thesis by simp
qed

section \<open>Executions\<close>

fun execution_key :: "(string \<Rightarrow> uuid option) \<Rightarrow> channel_event \<Rightarrow> (uuid option \<times> string \<times> string) option" where
  "execution_key pu (Execute key m) = Some (pu (xm_TenantID m), xm_Platform m, key)"
| "execution_key pu (Audit _) = None"

definition executions :: "(string \<Rightarrow> uuid option) \<Rightarrow> channel_event list \<Rightarrow> (uuid option \<times> string \<times> string) list" where
  "executions pu es = List.map_filter (execution_key pu) es"

fun for_owner :: "(string \<Rightarrow> uuid option) \<Rightarrow> channel_event \<Rightarrow> bool" where
  "for_owner pu (Execute key m) \<longleftrightarrow>
     (\<exists>t. pu (xm_TenantID m) = Some t \<and> link_of (xm_Platform m) (xm_PlatformUserID m) t (xm_Link m))"
| "for_owner pu (Audit _) \<longleftrightarrow> True"

lemma executions_append [simp]: "executions pu (xs @ ys) = executions pu xs @ executions pu ys"
  by (simp add: executions_def List.map_filter_def)

lemma executions_audits [simp]:
  "executions pu (map Audit as) = []" "list_all (for_owner pu) (map Audit as)"
  "executions pu (Execute k m # map Audit as) = [(pu (xm_TenantID m), xm_Platform m, k)]"
  by (induction as) (simp_all add: executions_def List.map_filter_def)

text \<open>Every key executed is one of a message in the table.\<close>

definition executed_keys :: "(string \<Rightarrow> uuid option) \<Rightarrow> channel_world \<Rightarrow> bool" where
  "executed_keys pu w \<longleftrightarrow>
     distinct (executions pu (cw_events w)) \<and> list_all (for_owner pu) (cw_events w) \<and>
     (\<forall>(t, p, k) \<in> set (executions pu (cw_events w)). \<exists>u. t = Some u \<and> key_taken u p k (cw_db w))"

lemma executed_keys_mono:
  assumes "executed_keys pu w" "cw_events w' = cw_events w"
    and "\<And>t p k. key_taken t p k (cw_db w) \<Longrightarrow> key_taken t p k (cw_db w')"
  shows "executed_keys pu w'"
  using assms(1) unfolding executed_keys_def assms(2) by (blast intro: assms(3))

lemma executed_keys_new:
  assumes "executed_keys pu w" "cw_events w' = cw_events w @ Execute k m # map Audit as"
    and "\<And>t p k. key_taken t p k (cw_db w) \<Longrightarrow> key_taken t p k (cw_db w')"
    and "pu (xm_TenantID m) = Some t" "link_of (xm_Platform m) (xm_PlatformUserID m) t (xm_Link m)"
    and "\<not> key_taken t (xm_Platform m) k (cw_db w)" "key_taken t (xm_Platform m) k (cw_db w')"
  shows "executed_keys pu w'"
  using assms unfolding executed_keys_def by (fastforce split: prod.splits)

lemma handle_message_executed:
  assumes g: "map_of (ingress_guards pu st cfg) p = Some g"
    and h: "handle_message wall su (channel_system pu su' render st cfg (Some (execute_message ex))) g k meta w = (r, w')"
    and e: "executed_keys pu w"
  shows "executed_keys pu w'"
proof -
  let ?h = "channel_system pu su' render st cfg (Some (execute_message ex))"
  have gh: "map_of (hd_ingressByProvider ?h) p = Some g"
    using g by (simp add: channel_system_def WithExecutor_def WithLinkStore_def NewHandler_def)
  obtain res err w1 where 1: "Process wall g (wk_TenantID k) (ingress_message k meta) w = ((res, err), w1)"
    by (metis prod.exhaust)
  obtain r2 w2 where 2: "recover_duplicate ?h k meta res (initial_state su meta res) w1 = (r2, w2)" by fastforce
  obtain st2 w3 where 3: "run_accepted ?h su k meta res (projr r2) w2 = (st2, w3)" by fastforce
  obtain r4 w4 where 4: "record_status ?h k (idempotency_key k meta) st2 w3 = (r4, w4)" by fastforce
  note k1 = world_keepsD [OF seen_keys.sys.Process_keeps(2) [OF gh] _ 1]
  note k2 = world_keepsD [OF seen_keys.sys.recover_duplicate_keeps _ 2]
  note k3 = world_keepsD [OF seen_keys.sys.run_accepted_keeps _ 3]
  note k4 = world_keepsD [OF seen_keys.sys.record_status_keeps _ 4]
  have w2: "executed_keys pu w1" "executed_keys pu w2"
    using e Process_accepted(1) [OF g 1] recover_duplicate_events [OF 2] k1 k2
    by (auto intro: executed_keys_mono)
  have "executed_keys pu w3"
  proof (cases "cw_events w3 = cw_events w2")
    case True
    then show ?thesis using w2(2) k3 by (auto intro: executed_keys_mono)
  next
    case False
    with run_accepted_events [OF 3] obtain l hist audits where a: "ir_Decision res = Some IngressAccepted" "ir_Link res = Some l"
      and ev: "cw_events w3 = cw_events w @ Execute (idempotency_key k meta) (execution_message k meta hist l) # map Audit audits"
      using Process_accepted(1) [OF g 1] recover_duplicate_events [OF 2] by auto
    from Process_accepted(2) [OF g 1 a(1)] a(2) obtain t where t: "pu (wk_TenantID k) = Some t"
      "link_of (wk_Provider k) (im_PlatformUserID meta) t l"
      "\<not> key_taken t (wk_Provider k) (idempotency_key k meta) (cw_db w)"
      "key_taken t (wk_Provider k) (idempotency_key k meta) (cw_db w1)"
      by (auto simp: ingress_message_def)
    show ?thesis
      by (rule executed_keys_new [OF e ev]) (use t k1 k2 k3 in \<open>auto simp: execution_message_def\<close>)
  qed
  then have "executed_keys pu w4" using record_status_events [OF 4] k4 by (auto intro: executed_keys_mono)
  then show ?thesis
    using h w2 3 4 by (auto simp: handle_message_def 1 2 split: option.splits sum.splits if_splits)
qed

lemma acknowledge_executed:
  assumes "map_of (ingress_guards pu st cfg) p = Some g" "acknowledge wall g k c vars w = (r, w')" "executed_keys pu w"
  shows "executed_keys pu w'"
proof -
  obtain r1 w1 where 1: "VerifyWithContext wall g (wk_TenantID k) (wk_Headers k) (wk_Body k) w = (r1, w1)" by fastforce
  have "executed_keys pu w1"
    using verify_authentic(1) [OF assms(1) 1] assms(3) by (auto intro: executed_keys_mono simp: key_taken_tables)
  with assms(2,3) show ?thesis
    by (auto simp: acknowledge_def 1 split: sum.splits if_splits)
qed

lemma handle_metas_executed:
  assumes "map_of (ingress_guards pu st cfg) p = Some g" "executed_keys pu w"
    and "handle_metas wall su (channel_system pu su' render st cfg (Some (execute_message ex))) g k metas vars w = (r, w')"
  shows "executed_keys pu w'"
  using assms(2,3)
proof (induction metas arbitrary: vars w)
  case (Cons meta metas)
  let ?h = "channel_system pu su' render st cfg (Some (execute_message ex))"
  show ?case
  proof (cases "\<exists>c. im_Control meta = Some c \<and> ic_AcknowledgeOnly c")
    case True
    then obtain c where c: "im_Control meta = Some c" "ic_AcknowledgeOnly c" by blast
    obtain r1 w1 where 1: "acknowledge wall g k c vars w = (r1, w1)" by fastforce
    have "executed_keys pu w1" by (rule acknowledge_executed [OF assms(1) 1 Cons.prems(1)])
    with Cons.prems(2) c 1 Cons.IH show ?thesis by (auto split: sum.splits)
  next
    case False
    then have c: "(case im_Control meta of Some c \<Rightarrow> if ic_AcknowledgeOnly c then Some c else None | None \<Rightarrow> None) = None"
      by (auto split: option.split)
    obtain r1 w1 where 1: "handle_message wall su ?h g k meta w = (r1, w1)" by fastforce
    have "executed_keys pu w1" by (rule handle_message_executed [OF assms(1) 1 Cons.prems(1)])
    with Cons.prems(2) 1 Cons.IH show ?thesis by (auto simp: c split: sum.splits)
  qed
qed simp

lemma HandleWebhook_executed:
  assumes "executed_keys pu w"
  shows "executed_keys pu (snd (HandleWebhook wall pu su json (channel_system pu su' render st cfg (Some (execute_message ex))) rq w))"
proof -
  let ?h = "channel_system pu su' render st cfg (Some (execute_message ex))"
  obtain now w1 where 1: "read_clock wall w = (now, w1)" by fastforce
  have e: "executed_keys pu w1"
    using assms read_clock_db [OF 1] by (auto intro: executed_keys_mono)
  have h: "hd_ingressByProvider ?h = ingress_guards pu st cfg"
    by (simp add: channel_system_def WithExecutor_def WithLinkStore_def NewHandler_def)
  show ?thesis
    using assms e handle_metas_executed [OF _ e]
    by (auto simp: HandleWebhook_def Let_def 1 h split: option.split sum.split prod.split)
qed

end
