(* ===== verification/Webhook_Properties.thy ===== *)
theory Webhook_Properties
  imports Webhook_Trace Approved_Execution Channel_Workers
begin

text \<open>
  What the channel endpoints promise: a webhook acts only when its signature is right, a message
  is executed once and only for the verified owner of the link, an agent is reached only by a
  user it belongs to, and what happens to the answer of the agent.
\<close>

section \<open>Reaching an agent\<close>

definition department_of :: "(uuid \<Rightarrow> string) \<Rightarrow> Identity \<Rightarrow> AgentInstance \<Rightarrow> bool" where
  "department_of show_uuid identity inst \<longleftrightarrow>
     (case ai_DepartmentID inst of
        None \<Rightarrow> True | Some d \<Rightarrow> show_uuid d \<in> TrimSpace ` set (au_Departments identity))"

definition cleared_target :: "channel_executor \<Rightarrow> ExecutionMessage \<Rightarrow> db \<Rightarrow> AgentInstance \<Rightarrow> bool" where
  "cleared_target ex msg s inst \<longleftrightarrow>
     (\<exists>identity fs decision agents fs'.
        ce_lookupIdentity ex (ce_show_uuid ex (ln_UserID (xm_Link msg))) s = (Inr (Some identity), fs) \<and>
        ce_authorize ex identity ''channels:messages:write'' = Inr (Some decision) \<and> dc_Allowed decision \<and>
        (case ce_scanSentinel ex of
           None \<Rightarrow> True
         | Some scan \<Rightarrow>
             \<exists>r. scan (xm_TenantID msg) (au_UserID identity) (TrimSpace (xm_Content msg)) = Inr r \<and> sr_Allowed r) \<and>
        ce_listAgents ex (xm_TenantID msg) (s\<lparr>db_faults := fs\<rparr>) = (Inr agents, fs') \<and>
        inst \<in> set agents \<and> ai_Status inst = StatusRunning \<and> ai_VsockCID inst \<noteq> None \<and>
        map_option TrimSpace (ai_UserID inst) = Some (TrimSpace (au_UserID identity)) \<and>
        department_of (ce_show_uuid ex) identity inst)"

lemma selectChannelTargetAgent_ok:
  assumes "selectChannelTargetAgent su agents (au_UserID identity) (au_Departments identity) = Some inst"
    and "TrimSpace (au_UserID identity) \<noteq> []"
  shows "inst \<in> set agents \<and> ai_Status inst = StatusRunning \<and> ai_VsockCID inst \<noteq> None \<and>
    map_option TrimSpace (ai_UserID inst) = Some (TrimSpace (au_UserID identity)) \<and>
    department_of su identity inst"
  using assms
  by (auto simp: selectChannelTargetAgent_def Let_def isChannelDispatchCandidate_def isChannelDispatchUserMatch_def
      department_of_def split: option.splits if_splits dest!: find_SomeD)

lemma dispatch_blind:
  "dispatch_failed (ex\<lparr>ce_dispatch := d\<rparr>) = dispatch_failed ex"
  "logChannelExecutionEvent (ex\<lparr>ce_dispatch := d\<rparr>) = logChannelExecutionEvent ex"
  "user_context (ex\<lparr>ce_dispatch := d\<rparr>) = user_context ex"
  by (simp_all add: fun_eq_iff dispatch_failed_def logChannelExecutionEvent_def user_context_def)

lemma run_agent_reached:
  assumes "run_agent (ex\<lparr>ce_dispatch := d\<rparr>) msg c i inst s \<noteq> run_agent ex msg c i inst s"
  shows "\<exists>context. d inst c (xm_ConversationHistory msg) context \<noteq>
    ce_dispatch ex inst c (xm_ConversationHistory msg) context"
proof (rule ccontr)
  assume "\<not> ?thesis"
  then have "d inst c (xm_ConversationHistory msg) x = ce_dispatch ex inst c (xm_ConversationHistory msg) x" for x
    by blast
  then have "run_agent (ex\<lparr>ce_dispatch := d\<rparr>) msg c i inst s = run_agent ex msg c i inst s"
    by (simp add: run_agent_def Let_def dispatch_blind split: prod.split sum.split)
  with assms show False by simp
qed


section \<open>A control plane with one user and one agent\<close>

definition text_uuid :: "uuid \<Rightarrow> string" where
  "text_uuid u = Itoa (int u)"

definition uuid_text :: "string \<Rightarrow> uuid option" where
  "uuid_text t = map_option nat (Atoi t)"

definition user_agent :: AgentInstance where
  "user_agent =
     \<lparr>ai_ID = 5, ai_TenantID = Some 1, ai_UserID = Some ''3'', ai_DepartmentID = None, ai_VMID = None,
      ai_Status = StatusRunning, ai_Config = RawEmpty, ai_VsockCID = Some 9, ai_VMDriver = ''mock'',
      ai_ToolAllowlist = RawEmpty, ai_ConsecutiveFailures = 0, ai_CreatedAt = 0, ai_LastHealthCheck = None\<rparr>"

definition channel_user :: Identity where
  "channel_user =
     \<lparr>au_UserID = ''3'', au_TenantID = ''1'', au_Email = [], au_DisplayName = [], au_Roles = [''standard''],
      au_Departments = [], au_TokenType = [], au_FamilyID = [], au_Generation = 0, au_IsPlatformAdmin = False,
      au_ImpersonatorID = []\<rparr>"

definition channel_link :: ChannelLink where
  "channel_link =
     \<lparr>ln_ID = 2, ln_TenantID = 1, ln_UserID = 3, ln_Platform = ''telegram'', ln_PlatformUserID = ''77'',
      ln_State = LinkStateVerified, ln_Verified = True, ln_CreatedAt = 0, ln_VerifiedAt = Some 0,
      ln_RevokedAt = None, ln_VerificationMethod = [], ln_VerificationMetadata = RawJSON (JObj [])\<rparr>"

definition channel_message :: ExecutionMessage where
  "channel_message =
     \<lparr>xm_TenantID = ''1'', xm_Platform = ''telegram'', xm_PlatformUserID = ''77'', xm_PlatformMessageID = ''8'',
      xm_CorrelationID = ''c'', xm_Content = ''hi'', xm_ConversationHistory = [], xm_Link = channel_link\<rparr>"

definition user_executor ::
  "(AgentInstance \<Rightarrow> string \<Rightarrow> ChannelConversationTurn list \<Rightarrow> string \<Rightarrow> string + string) \<Rightarrow> channel_executor" where
  "user_executor dispatch =
     \<lparr>ce_parse_uuid = uuid_text, ce_show_uuid = text_uuid, ce_lookupIdentity = (\<lambda>_ s. (Inr (Some channel_user), db_faults s)),
      ce_authorize = (\<lambda>_ _. Inr (Some \<lparr>dc_Allowed = True, dc_Reason = []\<rparr>)),
      ce_listAgents = (\<lambda>_ s. (Inr [user_agent], db_faults s)), ce_dispatch = dispatch,
      ce_lookupUserContext = None, ce_scanSentinel = None, ce_audit = False\<rparr>"

lemma user_executor_runs:
  "fst (execute_message (user_executor d) channel_message s) =
     (case d user_agent ''hi'' [] [] of
        Inl e \<Rightarrow> exec_result IngressDispatchFailed ''5'' [] | Inr r \<Rightarrow> exec_result IngressExecuted ''5'' r)"
proof -
  have t: "text_uuid (Suc 0) = ''1''" "text_uuid 5 = ''5''" "TrimSpace ''hi'' = ''hi''" "TrimSpace ''3'' = ''3''"
    by code_simp+
  have "selectChannelTargetAgent text_uuid [user_agent] ''3'' [] = Some user_agent" by code_simp
  then show ?thesis
    by (simp add: execute_message_def user_executor_def channel_message_def channel_link_def run_reader_def t
        channel_user_def scan_message_def find_agent_def run_agent_def user_context_def Let_def
        dispatch_failed_def split: sum.split)
      (simp add: user_agent_def t)
qed


section \<open>The answer of the agent\<close>

lemma collect_unexpected:
  "fr_Type f \<notin> {''chunk'', ''error'', ''tool_blocked'', ''session_halt''} \<Longrightarrow>
   collect_reply parts (Inr f # rs) = (Inl (''unexpected frame type from agent: '' @ fr_Type f), True)"
  by simp

lemma guest_first_frame:
  "\<exists>f rs. replies_since g (forwardToOpenClaw genv fm g) = Inr f # rs \<and>
     fr_Type f \<in> {''runtime_event'', ''error''}"
proof -
  have r: "replies_since g g' = Inr f # map Inr (List.map_filter frame_of tr)"
    if "gs_trace g' = gs_trace g @ Sent f # tr" for g' f tr
    using that by (simp add: replies_since_def List.map_filter_simps)
  have "\<exists>f rs. replies_since g (tool_loop genv id n ms (emitRuntimeEvent id e g)) = Inr f # rs \<and>
      fr_Type f \<in> {''runtime_event'', ''error''}" for id n ms e
  proof -
    let ?f = "\<lparr>fr_Type = ''runtime_event'', fr_ID = id, fr_Payload = RawJSON (runtime_event_json e)\<rparr>"
    obtain tr where "gs_trace (tool_loop genv id n ms (emitRuntimeEvent id e g)) = gs_trace g @ Sent ?f # tr"
      using tool_loop_ends [of genv id n "emitRuntimeEvent id e g" ms]
      by (auto simp: ends_def emitRuntimeEvent_def send_frame_def emit_def)
    from r [OF this] show ?thesis by simp
  qed
  moreover have "\<exists>f rs. replies_since g (sendError id code m g) = Inr f # rs \<and>
      fr_Type f \<in> {''runtime_event'', ''error''}" for id code m
    using r [of "sendError id code m g" _ "[]"] by (simp add: sendError_def send_frame_def emit_def)
  ultimately show ?thesis
    by (simp add: forwardToOpenClaw_def Let_def split: option.split)
qed

definition guest_wire :: "guest_env \<Rightarrow> guest \<Rightarrow> agent_wire \<Rightarrow> string \<Rightarrow> ChannelConversationTurn list \<Rightarrow> string \<Rightarrow> agent_wire" where
  "guest_wire genv g wire content history context =
     wire\<lparr>wi_replies := replies_since g
       (forwardToOpenClaw genv (dispatch_frame_of wire content history context) g)\<rparr>"

text \<open>
  C35: No message from a channel is ever answered by the agent. Whatever the model says and
  however the agent is configured, the first frame of a guest for a message is the runtime event
  \<open>run.started\<close> or an error, and the exchange of the control plane takes a runtime event for an
  unexpected frame: it gives up and drops the connection. An executor that reaches a guest in
  this way never reports a message as executed, and the user gets the text for failures.
\<close>

theorem channel_messages_never_answered:
  assumes "\<And>agent content history context. ce_dispatch ex agent content history context =
    fst (dispatchChannelMessageToAgent
      (guest_wire (genv agent) (g agent) (wire agent) content history context) agent content history context)"
  shows "xr_Decision (fst (execute_message ex msg s)) \<noteq> Some IngressExecuted"
proof -
  have d: "\<exists>e. ce_dispatch ex a c h x = Inl e" for a c h x
  proof -
    obtain f rs where "replies_since (g a) (forwardToOpenClaw (genv a) (dispatch_frame_of (wire a) c h x) (g a)) = Inr f # rs"
      "fr_Type f \<in> {''runtime_event'', ''error''}"
      using guest_first_frame by blast
    then have "\<exists>e. fst (collect_reply [] (wi_replies (guest_wire (genv a) (g a) (wire a) c h x))) = Inl e"
      by (auto simp: guest_wire_def)
    then show ?thesis by (auto simp: assms dispatchChannelMessageToAgent_def split: option.split)
  qed
  have a: "xr_Decision (fst (run_agent ex msg c i inst s)) \<noteq> Some IngressExecuted" for c i inst s
  proof -
    obtain r s1 where 1: "user_context ex msg (ce_show_uuid ex (ai_ID inst)) (au_UserID i) s = (r, s1)" by fastforce
    show ?thesis
    proof (cases r)
      case (Inr x)
      obtain e where "ce_dispatch ex inst c (xm_ConversationHistory msg) x = Inl e" using d by blast
      with Inr show ?thesis by (simp add: run_agent_def Let_def 1 dispatch_failed_def exec_result_def)
    qed (simp add: run_agent_def Let_def 1 dispatch_failed_def exec_result_def)
  qed
  have f: "xr_Decision (fst (find_agent ex msg c i s)) \<noteq> Some IngressExecuted" for c i s
    using a by (auto simp: find_agent_def dispatch_failed_def exec_result_def split: prod.split sum.split option.split)
  have sc: "xr_Decision (fst (scan_message ex msg c i s)) \<noteq> Some IngressExecuted" for c i s
    using f by (auto simp: scan_message_def dispatch_failed_def exec_result_def split: sum.split option.split)
  show ?thesis
    using sc by (auto simp: execute_message_def Let_def dispatch_failed_def exec_result_def
        split: prod.split sum.split option.split)
qed

definition idle_wire :: agent_wire where
  "idle_wire = \<lparr>wi_pool = True, wi_get = None, wi_request_id = ''r'', wi_send = None, wi_replies = []\<rparr>"

definition guest_dispatch :: "AgentInstance \<Rightarrow> string \<Rightarrow> ChannelConversationTurn list \<Rightarrow> string \<Rightarrow> string + string" where
  "guest_dispatch agent content history context =
     fst (dispatchChannelMessageToAgent (guest_wire sample_env idle_guest idle_wire content history context)
       agent content history context)"

theorem channel_messages_never_answered_witness:
  "fst (execute_message (user_executor guest_dispatch) channel_message empty_db) =
     exec_result IngressDispatchFailed ''5'' []"
proof -
  have "xr_Decision (fst (execute_message (user_executor guest_dispatch) channel_message empty_db)) \<noteq> Some IngressExecuted"
    by (rule channel_messages_never_answered [where genv = "\<lambda>_. sample_env" and g = "\<lambda>_. idle_guest" and wire = "\<lambda>_. idle_wire"])
      (simp add: user_executor_def guest_dispatch_def)
  then show ?thesis by (auto simp: user_executor_runs exec_result_def split: sum.splits)
qed

section \<open>Who may act through the webhook\<close>

lemma system_guards [simp]:
  "hd_ingressByProvider (channel_system pu su render st cfg exec) = ingress_guards pu st cfg"
  by (simp add: channel_system_def WithExecutor_def WithLinkStore_def NewHandler_def)

lemma ingress_failure_status: "400 \<le> fst (ingress_failure err c)"
  by (simp add: ingress_failure_def writeIngressError_def failed_response_def)

lemma unauthentic_refused:
  assumes "map_of (ingress_guards pu st cfg) p = Some g" "metas \<noteq> []" "\<not> lv_ControlVerified vars"
    and "\<not> authentic pu st p (wk_TenantID k) (wk_Headers k) (wk_Body k) (wall (cw_ticks w)) (cw_db w)"
    and "handle_metas wall su h g k metas vars w = (r, w')"
  shows "same_tables (cw_db w) (cw_db w') \<and> cw_events w' = cw_events w \<and> (\<exists>x. r = Inl x \<and> 400 \<le> fst x)"
proof -
  obtain meta rest where m: "metas = meta # rest" using assms(2) by (cases metas) auto
  obtain r1 w1 where 1: "VerifyWithContext wall g (wk_TenantID k) (wk_Headers k) (wk_Body k) w = (r1, w1)" by fastforce
  with verify_authentic(2) [OF assms(1) 1] assms(4) obtain e where e: "r1 = Inl e" by (cases r1) auto
  from assms(1) obtain v where g: "g = store_guard pu cfg v" by (rule store_guardD)
  have "handle_message wall su h g k meta w = (Inl (ingress_failure e (wk_CorrelationID k)), w1)"
    using 1 e by (simp add: handle_message_def Process_def ingress_message_def logDecision_def g)
  moreover have "acknowledge wall g k c vars w = (Inl (ingress_failure e (wk_CorrelationID k)), w1)" for c
    using 1 e assms(3) by (simp add: acknowledge_def)
  ultimately have "r = Inl (ingress_failure e (wk_CorrelationID k)) \<and> w' = w1"
    using assms(5) by (auto simp: m split: option.splits if_splits)
  with verify_authentic(1) [OF assms(1) 1] ingress_failure_status show ?thesis by auto
qed

text \<open>
  C7: A webhook request acts only when it is authentic. Either the tables and the event log are
  as before and the response is an error, or the request carries a signature made with the
  stored secret of this tenant for this provider: for Slack over the timestamp and the body and
  at most five minutes old, for WhatsApp over the body, for Telegram the secret token itself.
  This holds for every executor, every payload and every fault of the database.
\<close>

theorem webhook_authenticated:
  "(case HandleWebhook wall pu su json (channel_system pu su' render st cfg exec) rq w of (response, w') \<Rightarrow>
      same_tables (cw_db w) (cw_db w') \<and> cw_events w' = cw_events w \<and> 400 \<le> fst response) \<or>
   (\<exists>body. wq_Body rq = Some body \<and>
      authentic pu st (ToLower (TrimSpace (wq_Provider rq))) (TrimSpace (wq_TenantID rq)) (wq_Headers rq) body
        (wall (Suc (cw_ticks w))) (cw_db w))"
proof (rule disjCI)
  assume n: "\<not> (\<exists>body. wq_Body rq = Some body \<and>
      authentic pu st (ToLower (TrimSpace (wq_Provider rq))) (TrimSpace (wq_TenantID rq)) (wq_Headers rq) body
        (wall (Suc (cw_ticks w))) (cw_db w))"
  let ?h = "channel_system pu su' render st cfg exec"
  have t: "x = TrimSpace (wq_TenantID rq)" if "resolveWebhookTenantID pu (wq_TenantID rq) = Inr x" for x
    using that by (simp add: resolveWebhookTenantID_def Let_def split: if_splits)
  have r: "read_clock wall w = (wall (cw_ticks w), w\<lparr>cw_ticks := Suc (cw_ticks w)\<rparr>)" by (simp add: read_clock_def)
  note u = unauthentic_refused [where w = "w\<lparr>cw_ticks := Suc (cw_ticks w)\<rparr>" and vars = "\<lparr>lv_Decision = None, lv_ControlVerified = False, lv_AgentID = []\<rparr>"]
  show "case HandleWebhook wall pu su json ?h rq w of (response, w') \<Rightarrow>
      same_tables (cw_db w) (cw_db w') \<and> cw_events w' = cw_events w \<and> 400 \<le> fst response"
    using n t by (auto simp: HandleWebhook_def Let_def r split: option.split sum.split prod.split dest!: u [rotated 4])
qed

section \<open>Requests over time\<close>

text \<open>Webhooks, requests of administrators and the background work of the store, in any order.\<close>

datatype channel_step =
    Webhook webhook_request
  | Admin string admin_call
  | Background channel_call

fun run_step ::
  "(nat \<Rightarrow> gotime) \<Rightarrow> (string \<Rightarrow> uuid option) \<Rightarrow> (uuid \<Rightarrow> string) \<Rightarrow> (string \<Rightarrow> raw_json) \<Rightarrow> (json \<Rightarrow> string) \<Rightarrow>
   channel_handler \<Rightarrow> channel_step \<Rightarrow> channel_world \<Rightarrow> channel_world" where
  "run_step wall pu su json render h (Webhook rq) w = snd (HandleWebhook wall pu su json h rq w)"
| "run_step wall pu su json render h (Admin t c) w = w\<lparr>cw_db := snd (serve_admin pu h t c (cw_db w))\<rparr>"
| "run_step wall pu su json render h (Background c) w = w\<lparr>cw_db := exec_channel pu render c (cw_db w)\<rparr>"

definition run_steps ::
  "(nat \<Rightarrow> gotime) \<Rightarrow> (string \<Rightarrow> uuid option) \<Rightarrow> (uuid \<Rightarrow> string) \<Rightarrow> (string \<Rightarrow> raw_json) \<Rightarrow> (json \<Rightarrow> string) \<Rightarrow>
   Store \<Rightarrow> ChannelsConfig \<Rightarrow> channel_executor \<Rightarrow> channel_step list \<Rightarrow> channel_world \<Rightarrow> channel_world" where
  "run_steps wall pu su json render st cfg ex steps w =
     fold (run_step wall pu su json render (channel_system pu su render st cfg (Some (execute_message ex)))) steps w"

fun drops_keys :: "channel_step \<Rightarrow> bool" where
  "drops_keys (Background c) = expires c"
| "drops_keys _ = False"

text \<open>The channel tables stay well formed under every sequence of webhook requests,
  administration requests and background work, whatever the requests contain and whatever
  statements of the database fail.
\<close>

theorem channel_requests_keep_tables:
  assumes "channel_inv (cw_db w)"
  shows "channel_inv (cw_db (run_steps wall pu su json render st cfg ex steps w))"
proof -
  let ?h = "channel_system pu su render st cfg (Some (execute_message ex))"
  have "channel_inv (cw_db (run_step wall pu su json render ?h c w))" if "channel_inv (cw_db w)" for c w
    using that
    by (cases c) (auto intro: channel_tables.sys.HandleWebhook_keeps exec_channel_inv
        channel_tables.serve_admin_keeps [unfolded keeps_def, rule_format])
  then show ?thesis using assms unfolding run_steps_def by (induction steps arbitrary: w) auto
qed

text \<open>
  C8: A message is executed at most once. As long as the expiry of old messages does not run,
  in every sequence of requests no two executions have the same tenant, platform and
  idempotency key, and every execution is for the verified link of the sender in that tenant.
  Duplicate deliveries, failed replies and retries of the provider do not change this.
\<close>

theorem webhook_executes_once:
  assumes "list_all (\<lambda>c. \<not> drops_keys c) steps" "cw_events w = []"
  shows "distinct (executions pu (cw_events (run_steps wall pu su json render st cfg ex steps w))) \<and>
    list_all (for_owner pu) (cw_events (run_steps wall pu su json render st cfg ex steps w))"
proof -
  let ?h = "channel_system pu su render st cfg (Some (execute_message ex))"
  have step: "executed_keys pu (run_step wall pu su json render ?h c w)"
    if e: "executed_keys pu w" and c: "\<not> drops_keys c" for c w
  proof (cases c)
    case (Webhook rq)
    with HandleWebhook_executed [OF e] show ?thesis by simp
  next
    case (Admin t a)
    show ?thesis unfolding Admin
      by (rule executed_keys_mono [OF e]) (auto intro: seen_keys.serve_admin_keeps [unfolded keeps_def, rule_format])
  next
    case (Background b)
    with c show ?thesis
      by (auto intro!: executed_keys_mono [OF e] exec_channel_key)
  qed
  have "executed_keys pu w" using assms(2) by (simp add: executed_keys_def executions_def List.map_filter_simps)
  then have "executed_keys pu (run_steps wall pu su json render st cfg ex steps w)"
    using assms(1) unfolding run_steps_def by (induction steps arbitrary: w) (auto intro: step)
  then show ?thesis by (simp add: executed_keys_def)
qed

section \<open>A run\<close>

definition no_provider :: ChannelProviderConfig where
  "no_provider = \<lparr>pv_Enabled = False, pv_SigningSecret = [], pv_SecretToken = [], pv_APIBaseURL = [],
     pv_APIVersion = [], pv_AccessToken = [], pv_PhoneNumberID = []\<rparr>"

definition telegram_config :: ChannelsConfig where
  "telegram_config = worker_config
     \<lparr>ch_Providers := \<lparr>ps_Slack = no_provider, ps_WhatsApp = no_provider, ps_Telegram = no_provider\<lparr>pv_Enabled := True\<rparr>\<rparr>\<rparr>"

definition plain_store :: Store where
  "plain_store = \<lparr>st_credentialCrypto = None\<rparr>"

definition telegram_world :: channel_world where
  "telegram_world =
     \<lparr>cw_db = empty_db
        \<lparr>db_links := [channel_link], db_users := [sample_user 3 1], db_next := 50,
         db_credentials := [\<lparr>pc_ID = 4, pc_TenantID = 1, pc_Provider = ''telegram'', pc_AccessToken = ''a'',
           pc_SigningSecret = [], pc_SecretToken = ''s'', pc_APIBaseURL = [], pc_APIVersion = [], pc_PhoneNumberID = [],
           pc_CreatedAt = 0, pc_UpdatedAt = 0\<rparr>]\<rparr>,
      cw_ticks = 0, cw_events = []\<rparr>"

definition telegram_post :: webhook_request where
  "telegram_post =
     \<lparr>wq_Provider = ''telegram'', wq_TenantID = ''1'', wq_Headers = [(''X-Telegram-Bot-Api-Secret-Token'', [''s''])],
      wq_Body = Some ''b'', wq_RequestID = ''q''\<rparr>"

definition telegram_json :: "string \<Rightarrow> raw_json" where
  "telegram_json _ = RawJSON (JObj [(''message'', JObj [(''message_id'', JNum 8), (''date'', JNum 1000),
     (''text'', JStr ''hi''), (''from'', JObj [(''id'', JNum 77)])])])"

definition telegram_clock :: "nat \<Rightarrow> gotime" where
  "telegram_clock n = time_Unix 1001"

definition telegram_webhook :: "string \<Rightarrow> webhook" where
  "telegram_webhook f = \<lparr>wk_Provider = ''telegram'', wk_TenantID = ''1'',
      wk_Headers = [(''X-Telegram-Bot-Api-Secret-Token'', [''s''])], wk_Body = ''b'', wk_Fingerprint = f,
      wk_CorrelationID = ''q'', wk_Now = time_Unix 1001\<rparr>"

definition telegram_system :: channel_handler where
  "telegram_system = channel_system uuid_text text_uuid (\<lambda>_. []) plain_store telegram_config
     (Some (execute_message (user_executor (\<lambda>_ _ _ _. Inr ''hello''))))"

definition telegram_guard :: IngressGuard where
  "telegram_guard = store_guard uuid_text telegram_config (telegramVerifier uuid_text plain_store)"

lemma telegram_message:
  "executions uuid_text (cw_events (snd (handle_message telegram_clock text_uuid telegram_system telegram_guard
     (telegram_webhook (c # f)) (message_meta ''77'' ''8'' (time_Unix 1000) ''hi'') (telegram_world\<lparr>cw_ticks := 1\<rparr>)))) =
   [(Some 1, ''telegram'', ''8'')]"
  by code_simp

lemma telegram_parts:
  "ToLower (TrimSpace ''telegram'') = ''telegram''" "TrimSpace ''1'' = ''1''" "uuid_text ''1'' = Some 1"
  "extractIngressMetadata ''telegram'' [(''X-Telegram-Bot-Api-Secret-Token'', [''s''])] (telegram_json ''b'') (time_Unix 1001) =
     Inr [message_meta ''77'' ''8'' (time_Unix 1000) ''hi'']"
  "im_Control (message_meta ''77'' ''8'' (time_Unix 1000) ''hi'') = None"
  by code_simp+

lemma telegram_guards: "ingress_guards uuid_text plain_store telegram_config = [(''telegram'', telegram_guard)]"
  by (simp add: ingress_guards_def telegram_config_def no_provider_def telegram_guard_def)

lemma telegram_run:
  "executions uuid_text (cw_events (snd (HandleWebhook telegram_clock uuid_text text_uuid telegram_json telegram_system
     telegram_post telegram_world))) = [(Some 1, ''telegram'', ''8'')]"
proof -
  obtain c f where cf: "hex_text (Sum256 ''b'') = c # f"
    by (metis length_Sum256 length_hex_text length_0_conv list.exhaust mult_eq_0_iff zero_neq_numeral)
  have k: "\<lparr>wk_Provider = ''telegram'', wk_TenantID = ''1'',
      wk_Headers = [(''X-Telegram-Bot-Api-Secret-Token'', [''s''])], wk_Body = ''b'', wk_Fingerprint = c # f,
      wk_CorrelationID = ''q'', wk_Now = time_Unix 1001\<rparr> = telegram_webhook (c # f)"
    by (simp add: telegram_webhook_def)
  have g: "hd_ingressByProvider telegram_system = [(''telegram'', telegram_guard)]"
    by (simp add: telegram_system_def telegram_guards)
  have r: "read_clock telegram_clock telegram_world = (time_Unix 1001, telegram_world\<lparr>cw_ticks := 1\<rparr>)"
    by (simp add: read_clock_def telegram_clock_def telegram_world_def)
  obtain r1 w1 where 1: "handle_message telegram_clock text_uuid telegram_system telegram_guard (telegram_webhook (c # f))
      (message_meta ''77'' ''8'' (time_Unix 1000) ''hi'') (telegram_world\<lparr>cw_ticks := 1\<rparr>) = (r1, w1)" by fastforce
  have "snd (HandleWebhook telegram_clock uuid_text text_uuid telegram_json telegram_system telegram_post telegram_world) = w1"
    by (simp add: HandleWebhook_def telegram_post_def telegram_parts g r resolveWebhookTenantID_def Let_def cf
        correlation_id_def k 1 [simplified] split: sum.split)
  then show ?thesis using telegram_message [of c f] by (simp add: 1 [simplified])
qed

theorem webhook_executes_once_witness:
  "let es = cw_events (run_steps telegram_clock uuid_text text_uuid telegram_json (\<lambda>_. []) plain_store telegram_config
      (user_executor (\<lambda>_ _ _ _. Inr ''hello'')) [Webhook telegram_post] telegram_world) in
   executions uuid_text es = [(Some 1, ''telegram'', ''8'')] \<and> list_all (for_owner uuid_text) es"
proof -
  have "cw_events telegram_world = []" by (simp add: telegram_world_def)
  from webhook_executes_once [OF _ this, of "[Webhook telegram_post]"]
  show ?thesis using telegram_run by (simp add: run_steps_def telegram_system_def Let_def)
qed

theorem channel_requests_keep_tables_witness:
  "channel_inv (cw_db (run_steps telegram_clock uuid_text text_uuid telegram_json (\<lambda>_. []) plain_store telegram_config
     (user_executor (\<lambda>_ _ _ _. Inr ''hello'')) [Webhook telegram_post, Admin ''7'' (DropCredentialCall ''telegram'')]
     (telegram_world\<lparr>cw_db := channel_sample\<rparr>)))"
  by (rule channel_requests_keep_tables) (simp add: channel_sample_inv)

end
