(* ===== verification/Auth_Tokens.thy ===== *)
theory Auth_Tokens
  imports Channel_Verify Access_Control
begin

text \<open>
  Tokens (\<open>internal/auth/token.go\<close>, \<open>state.go\<close>, \<open>middleware.go\<close>): the JSON web tokens of the
  control plane, the signed state of a login, and the middleware that reads the identity of a
  request. Signing and parsing of web tokens is the package \<open>golang-jwt\<close>, an argument here.
\<close>

section \<open>Claims\<close>

datatype auth_sentinel =
    ErrTokenExpired
  | ErrTokenInvalid
  | ErrUserNotFound
  | ErrUnauthorized
  | ErrTenantNotFound
  | ErrFamilyRevoked
  | ErrTokenReuse
  | ErrFamilyNotFound
  | ErrLegacyTokenReplay
  | ErrInviteNotFound
  | ErrInviteExpired
  | ErrInviteUsed

type_synonym auth_error = "auth_sentinel go_error"

record heimdallClaims =
  hc_Issuer :: string
  hc_Subject :: string
  hc_IssuedAt :: gotime
  hc_ExpiresAt :: gotime
  hc_UserID :: string
  hc_TenantID :: string
  hc_Email :: string
  hc_DisplayName :: string
  hc_Roles :: "string list"
  hc_Departments :: "string list"
  hc_TokenType :: string
  hc_FamilyID :: string
  hc_Generation :: int
  hc_IsPlatformAdmin :: bool
  hc_ImpersonatorID :: string

text \<open>
  \<open>jw_sign\<close> is \<open>SignedString\<close> with HS256 and a key; \<open>jw_parse\<close> is \<open>ParseWithClaims\<close> with the key,
  the required issuer and the time, for a parser that refuses every method but HMAC. An error
  says whether it is \<open>jwt.ErrTokenExpired\<close>.
\<close>

record jwt_lib =
  jw_sign :: "string \<Rightarrow> heimdallClaims \<Rightarrow> string + string"
  jw_parse :: "string \<Rightarrow> string \<Rightarrow> gotime \<Rightarrow> string \<Rightarrow> (bool \<times> string) + heimdallClaims"

record TokenService =
  ts_signingKey :: string
  ts_issuer :: string
  ts_expiryHours :: int
  ts_refreshExpiryHours :: int

definition NewTokenService :: "string \<Rightarrow> string \<Rightarrow> int \<Rightarrow> int \<Rightarrow> TokenService" where
  "NewTokenService signingKey issuer expiryHours refreshExpiryHours =
     \<lparr>ts_signingKey = signingKey, ts_issuer = issuer, ts_expiryHours = expiryHours,
      ts_refreshExpiryHours = refreshExpiryHours\<rparr>"

definition AccessTokenExpirySeconds :: "TokenService \<Rightarrow> int" where
  "AccessTokenExpirySeconds svc = wrap64 (ts_expiryHours svc * 3600)"

text \<open>\<open>jwt.NewNumericDate\<close> keeps whole seconds.\<close>

definition NewNumericDate :: "gotime \<Rightarrow> gotime" where
  "NewNumericDate t = t div 1000000000 * 1000000000"

definition createToken ::
  "jwt_lib \<Rightarrow> TokenService \<Rightarrow> gotime \<Rightarrow> Identity \<Rightarrow> string \<Rightarrow> int \<Rightarrow> string + string" where
  "createToken lib svc now identity tokenType expiryHours =
     jw_sign lib (ts_signingKey svc)
       \<lparr>hc_Issuer = ts_issuer svc, hc_Subject = au_UserID identity, hc_IssuedAt = NewNumericDate now,
        hc_ExpiresAt = NewNumericDate (now + wrap64 (expiryHours * 3600000000000)),
        hc_UserID = au_UserID identity, hc_TenantID = au_TenantID identity, hc_Email = au_Email identity,
        hc_DisplayName = au_DisplayName identity, hc_Roles = au_Roles identity,
        hc_Departments = au_Departments identity, hc_TokenType = tokenType, hc_FamilyID = au_FamilyID identity,
        hc_Generation = au_Generation identity, hc_IsPlatformAdmin = au_IsPlatformAdmin identity,
        hc_ImpersonatorID = au_ImpersonatorID identity\<rparr>"

definition CreateAccessToken :: "jwt_lib \<Rightarrow> TokenService \<Rightarrow> gotime \<Rightarrow> Identity \<Rightarrow> string + string" where
  "CreateAccessToken lib svc now identity = createToken lib svc now identity ''access'' (ts_expiryHours svc)"

definition CreateRefreshToken :: "jwt_lib \<Rightarrow> TokenService \<Rightarrow> gotime \<Rightarrow> Identity \<Rightarrow> string + string" where
  "CreateRefreshToken lib svc now identity = createToken lib svc now identity ''refresh'' (ts_refreshExpiryHours svc)"

definition CreateImpersonationToken ::
  "jwt_lib \<Rightarrow> TokenService \<Rightarrow> gotime \<Rightarrow> Identity \<Rightarrow> string \<Rightarrow> auth_error + string" where
  "CreateImpersonationToken lib svc now identity targetTenantID =
     (if \<not> au_IsPlatformAdmin identity
      then Inl (Wrap ''impersonation requires platform admin'' (Sentinel ErrUnauthorized))
      else case jw_sign lib (ts_signingKey svc)
             \<lparr>hc_Issuer = ts_issuer svc, hc_Subject = au_UserID identity, hc_IssuedAt = NewNumericDate now,
              hc_ExpiresAt = NewNumericDate (now + 30 * 60 * 1000000000),
              hc_UserID = au_UserID identity, hc_TenantID = targetTenantID, hc_Email = au_Email identity,
              hc_DisplayName = au_DisplayName identity, hc_Roles = [''org_admin''], hc_Departments = [],
              hc_TokenType = ''access'', hc_FamilyID = [], hc_Generation = 0, hc_IsPlatformAdmin = True,
              hc_ImpersonatorID = au_UserID identity\<rparr> of
          Inl e \<Rightarrow> Inl (NewError e)
        | Inr t \<Rightarrow> Inr t)"

definition claims_identity :: "heimdallClaims \<Rightarrow> Identity" where
  "claims_identity c =
     \<lparr>au_UserID = hc_UserID c, au_TenantID = hc_TenantID c, au_Email = hc_Email c,
      au_DisplayName = hc_DisplayName c, au_Roles = hc_Roles c, au_Departments = hc_Departments c,
      au_TokenType = hc_TokenType c, au_FamilyID = hc_FamilyID c, au_Generation = hc_Generation c,
      au_IsPlatformAdmin = hc_IsPlatformAdmin c, au_ImpersonatorID = hc_ImpersonatorID c\<rparr>"

definition ValidateToken :: "jwt_lib \<Rightarrow> TokenService \<Rightarrow> gotime \<Rightarrow> string \<Rightarrow> auth_error + Identity" where
  "ValidateToken lib svc now tokenString =
     (case jw_parse lib (ts_signingKey svc) (ts_issuer svc) now tokenString of
        Inl (expired, e) \<Rightarrow> Inl (Wrap e (Sentinel (if expired then ErrTokenExpired else ErrTokenInvalid)))
      | Inr claims \<Rightarrow> Inr (claims_identity claims))"

section \<open>The middleware\<close>

text \<open>The identity the next handler finds in its context, or the response.\<close>

fun split_space :: "string \<Rightarrow> string \<times> string option" where
  "split_space [] = ([], None)"
| "split_space (c # cs) =
     (if c = CHR '' '' then ([], Some cs) else case split_space cs of (a, b) \<Rightarrow> (c # a, b))"

definition extractBearerToken :: "http_header \<Rightarrow> string + string" where
  "extractBearerToken headers =
     (let authHeader = header_Get headers ''Authorization'' in
      if authHeader = [] then Inl ''missing authorization header''
      else case split_space authHeader of
          (scheme, Some token) \<Rightarrow>
            if ToLower scheme = ''bearer'' then Inr token else Inl ''invalid authorization header format''
        | (scheme, None) \<Rightarrow> Inl ''invalid authorization header format'')"

definition access_identity :: "jwt_lib \<Rightarrow> TokenService \<Rightarrow> gotime \<Rightarrow> string \<Rightarrow> (int \<times> string) + Identity" where
  "access_identity lib svc now token =
     (case ValidateToken lib svc now token of
        Inl _ \<Rightarrow> Inl (401, ''invalid token'')
      | Inr identity \<Rightarrow>
          if au_TokenType identity \<noteq> ''access'' then Inl (401, ''access token required'') else Inr identity)"

definition auth_Middleware :: "jwt_lib \<Rightarrow> TokenService \<Rightarrow> gotime \<Rightarrow> http_header \<Rightarrow> (int \<times> string) + Identity" where
  "auth_Middleware lib svc now headers =
     (case extractBearerToken headers of
        Inl e \<Rightarrow> Inl (401, e)
      | Inr token \<Rightarrow> access_identity lib svc now token)"

definition MiddlewareWithDevMode ::
  "jwt_lib \<Rightarrow> TokenService \<Rightarrow> Identity option \<Rightarrow> gotime \<Rightarrow> http_header \<Rightarrow> (int \<times> string) + Identity" where
  "MiddlewareWithDevMode lib svc devIdentity now headers =
     (case extractBearerToken headers of
        Inl e \<Rightarrow> Inl (401, e)
      | Inr token \<Rightarrow>
          (case devIdentity of
             Some dev \<Rightarrow> if token = ''dev'' then Inr dev else access_identity lib svc now token
           | None \<Rightarrow> access_identity lib svc now token))"

definition RequirePlatformAdmin :: "Identity option \<Rightarrow> (int \<times> string) option" where
  "RequirePlatformAdmin identity =
     (case identity of
        None \<Rightarrow> Some (401, ''authentication required'')
      | Some i \<Rightarrow> if au_IsPlatformAdmin i then None else Some (403, ''platform admin required''))"

section \<open>The state of a login\<close>

text \<open>\<open>base64.RawURLEncoding\<close>: no padding, and two characters of the alphabet replaced.\<close>

definition to_url_char :: "char \<Rightarrow> char" where
  "to_url_char c = (if c = CHR ''+'' then CHR ''-'' else if c = CHR ''/'' then CHR ''_'' else c)"

definition from_url_char :: "char \<Rightarrow> char" where
  "from_url_char c =
     (if c = CHR ''-'' then CHR ''+'' else if c = CHR ''_'' then CHR ''/''
      else if c = CHR ''+'' \<or> c = CHR ''/'' then CHR ''='' else c)"

definition raw_url_encode :: "string \<Rightarrow> string" where
  "raw_url_encode bs = map to_url_char (filter (\<lambda>c. c \<noteq> CHR ''='') (EncodeToString bs))"

definition raw_url_decode :: "string \<Rightarrow> string option" where
  "raw_url_decode cs = DecodeString False (map from_url_char cs)"

definition stateNonceLen :: nat where "stateNonceLen = 16"
definition stateTimeLen :: nat where "stateTimeLen = 8"
definition stateMACLen :: nat where "stateMACLen = 32"
definition stateRawLen :: nat where "stateRawLen = stateNonceLen + stateTimeLen + stateMACLen"
definition statePrefix :: string where "statePrefix = ''oidc-state:''"
definition stateMaxSkew :: duration where "stateMaxSkew = 30 * 1000000000"

record StateStore =
  ss_signingKey :: string
  ss_ttl :: duration

definition NewStateStore :: "string \<Rightarrow> duration \<Rightarrow> StateStore" where
  "NewStateStore signingKey ttl = \<lparr>ss_signingKey = signingKey, ss_ttl = ttl\<rparr>"

definition state_sign :: "StateStore \<Rightarrow> string \<Rightarrow> string \<Rightarrow> string" where
  "state_sign st nonce ts = hmac_sha256 (ss_signingKey st) (statePrefix @ nonce @ ts)"

definition time_seconds :: "gotime \<Rightarrow> int" where
  "time_seconds t = t div 1000000000 - 62135596800"

text \<open>The random bytes are an argument, \<open>None\<close> when the source fails.\<close>

definition state_Generate :: "StateStore \<Rightarrow> string option \<Rightarrow> gotime \<Rightarrow> string + string" where
  "state_Generate st random now =
     (case random of
        None \<Rightarrow> Inl ''generating state nonce''
      | Some nonce \<Rightarrow>
          (let unix = time_seconds now in
           if unix < 0 then Inl ''system clock before Unix epoch''
           else
             (let ts = number_bytes stateTimeLen (nat unix) in
              Inr (raw_url_encode (nonce @ ts @ state_sign st nonce ts)))))"

definition bytes_number :: "string \<Rightarrow> nat" where
  "bytes_number bs = fold (\<lambda>b n. n * 256 + of_char b) bs 0"

definition state_Validate :: "StateStore \<Rightarrow> string \<Rightarrow> gotime \<Rightarrow> bool" where
  "state_Validate st state now =
     (case raw_url_decode state of
        None \<Rightarrow> False
      | Some raw \<Rightarrow>
          if length raw \<noteq> stateRawLen then False
          else
            (let nonce = take stateNonceLen raw;
                 ts = take stateTimeLen (drop stateNonceLen raw);
                 providedMAC = drop (stateNonceLen + stateTimeLen) raw;
                 rawTS = bytes_number ts;
                 age = time_Sub now (time_Unix (int rawTS)) in
             if providedMAC \<noteq> state_sign st nonce ts then False
             else if int rawTS > 2 ^ 63 - 1 then False
             else if age < - stateMaxSkew then False
             else age \<le> ss_ttl st))"

end
