(* ===== verification/Auth_Store.thy ===== *)
theory Auth_Store
  imports Auth_Tokens
begin

text \<open>
  The stores behind the login (\<open>internal/auth/store.go\<close>, \<open>refresh_store.go\<close>, \<open>tenant.go\<close>,
  \<open>internal/tenant/invite_store.go\<close>): users by their credentials, identities with roles and
  departments, families of refresh tokens, tenants by host name, and invites. The statements run
  on the pool, without a tenant in the session; \<open>visible\<close> says which rows they see.
\<close>

type_synonym 'a auth_op = "db \<Rightarrow> (auth_error + 'a) \<times> db"

definition bad_uuid :: string where
  "bad_uuid = ''invalid input syntax for type uuid''"

definition unique_violation :: string where
  "unique_violation = ''23505''"

text \<open>A statement with a UUID parameter given as text.\<close>

definition with_uuid ::
  "(string \<Rightarrow> uuid option) \<Rightarrow> string \<Rightarrow> (uuid \<Rightarrow> db \<Rightarrow> (string + 'a) \<times> db) \<Rightarrow> db \<Rightarrow> (string + 'a) \<times> db" where
  "with_uuid parse_uuid t f s = (case parse_uuid t of None \<Rightarrow> (Inl bad_uuid, s) | Some u \<Rightarrow> f u s)"

section \<open>Identities\<close>

record OIDCUserInfo =
  oi_Issuer :: string
  oi_Subject :: string
  oi_Email :: string
  oi_Name :: string

definition oidc_user :: "db \<Rightarrow> string \<Rightarrow> string \<Rightarrow> User \<Rightarrow> bool" where
  "oidc_user s issuer subject u \<longleftrightarrow>
     us_OIDCIssuer u = Some issuer \<and> us_OIDCSubject u = Some subject \<and> visible s (us_TenantID u)"

definition role_names :: "db \<Rightarrow> uuid \<Rightarrow> string list" where
  "role_names s u =
     concat (map (\<lambda>r. map (\<lambda>_. rl_Name r)
       (filter (\<lambda>x. ur_UserID x = u \<and> ur_RoleID x = rl_ID r) (db_user_roles s)))
       (filter (\<lambda>r. visible s (rl_TenantID r)) (db_roles s)))"

text \<open>The rows are read in the order of the tables; the statement does not say which.\<close>

definition GetIdentityWithRoles :: "(string \<Rightarrow> uuid option) \<Rightarrow> (uuid \<Rightarrow> string) \<Rightarrow> string \<Rightarrow> Identity auth_op" where
  "GetIdentityWithRoles pu su userID s =
     (case query_row ''querying user'' ErrUserNotFound
             (checked (sql (with_uuid pu userID (\<lambda>u s.
                (Inr (find (\<lambda>r. us_ID r = u \<and> visible s (us_TenantID r)) (db_users s)), s))) s)) of
        (Inl e, s1) \<Rightarrow> (Inl e, s1)
      | (Inr user, s1) \<Rightarrow>
          (case wrap_err ''querying roles'' (sql (\<lambda>s. (role_names s (us_ID user), s)) s1) of
             (Inl e, s2) \<Rightarrow> (Inl e, s2)
           | (Inr roles, s2) \<Rightarrow>
               (case wrap_err ''querying departments''
                       (sql (\<lambda>s. (map (su \<circ> snd) (filter (\<lambda>(u, _). u = us_ID user) (db_user_departments s)), s)) s2) of
                  (Inl e, s3) \<Rightarrow> (Inl e, s3)
                | (Inr departments, s3) \<Rightarrow>
                    (Inr \<lparr>au_UserID = userID, au_TenantID = su (us_TenantID user), au_Email = us_Email user,
                          au_DisplayName = (case us_DisplayName user of None \<Rightarrow> [] | Some n \<Rightarrow> n),
                          au_Roles = roles, au_Departments = departments, au_TokenType = ''access'',
                          au_FamilyID = [], au_Generation = 0, au_IsPlatformAdmin = us_IsPlatformAdmin user,
                          au_ImpersonatorID = []\<rparr>, s3))))"

text \<open>\<open>None\<close> when the credentials are taken; the constraint on tenant and email is an error.\<close>

definition insert_oidc_user :: "OIDCUserInfo \<Rightarrow> uuid \<Rightarrow> db \<Rightarrow> (string + uuid option) \<times> db" where
  "insert_oidc_user info t s =
     (if \<not> visible s t then (Inl ''new row violates row-level security policy'', s)
      else if t \<notin> set (db_tenants s) then (Inl ''foreign key violation: tenant_id'', s)
      else if list_ex (\<lambda>u. us_OIDCIssuer u = Some (oi_Issuer info) \<and> us_OIDCSubject u = Some (oi_Subject info)) (db_users s)
      then (Inr None, s)
      else if list_ex (\<lambda>u. us_TenantID u = t \<and> us_Email u = oi_Email info) (db_users s)
      then (Inl unique_violation, s)
      else
        (let row = \<lparr>us_ID = db_next s, us_TenantID = t, us_Email = oi_Email info,
                    us_DisplayName = Some (oi_Name info), us_OIDCSubject = Some (oi_Subject info),
                    us_OIDCIssuer = Some (oi_Issuer info), us_Status = ''active'', us_CreatedAt = db_now s,
                    us_IsPlatformAdmin = False\<rparr>
         in (Inr (Some (us_ID row)), s\<lparr>db_users := db_users s @ [row], db_next := Suc (db_next s)\<rparr>)))"

definition find_oidc :: "OIDCUserInfo \<Rightarrow> db \<Rightarrow> uuid option \<times> db" where
  "find_oidc info s = (map_option us_ID (find (oidc_user s (oi_Issuer info) (oi_Subject info)) (db_users s)), s)"

definition link_row :: "OIDCUserInfo \<Rightarrow> User \<Rightarrow> User" where
  "link_row info u = u
     \<lparr>us_OIDCIssuer := Some (oi_Issuer info), us_OIDCSubject := Some (oi_Subject info),
      us_DisplayName := Some (case us_DisplayName u of
        None \<Rightarrow> oi_Name info | Some n \<Rightarrow> if n = [] then oi_Name info else n)\<rparr>"

definition link_oidc_stmt :: "OIDCUserInfo \<Rightarrow> uuid \<Rightarrow> db \<Rightarrow> (string + uuid option) \<times> db" where
  "link_oidc_stmt info t s =
     (let p = (\<lambda>u. us_TenantID u = t \<and> us_Email u = oi_Email info \<and> us_OIDCIssuer u \<in> {None, Some []} \<and>
                    visible s (us_TenantID u)) in
      case find p (db_users s) of
        None \<Rightarrow> (Inr None, s)
      | Some u \<Rightarrow>
          if list_ex (\<lambda>v. us_OIDCIssuer v = Some (oi_Issuer info) \<and> us_OIDCSubject v = Some (oi_Subject info)) (db_users s)
          then (Inl unique_violation, s)
          else (Inr (Some (us_ID u)), s\<lparr>db_users := upd_where p (link_row info) (db_users s)\<rparr>))"

definition resolveEmailConflict ::
  "(string \<Rightarrow> uuid option) \<Rightarrow> OIDCUserInfo \<Rightarrow> string \<Rightarrow> uuid auth_op" where
  "resolveEmailConflict pu info tenantID s =
     (case sql (find_oidc info) s of
        (Inl e, s1) \<Rightarrow> (Inl (Wrap ''checking for race condition'' e), s1)
      | (Inr (Some u), s1) \<Rightarrow> (Inr u, s1)
      | (Inr None, s1) \<Rightarrow>
          (case checked (sql (with_uuid pu tenantID (link_oidc_stmt info)) s1) of
             (Inl e, s2) \<Rightarrow> (Inl (Wrap ''linking OIDC to existing user'' e), s2)
           | (Inr None, s2) \<Rightarrow>
               (Inl (NewError ''email conflict but user already has different OIDC credentials''), s2)
           | (Inr (Some u), s2) \<Rightarrow> (Inr u, s2)))"

definition oidc_user_id ::
  "(string \<Rightarrow> uuid option) \<Rightarrow> OIDCUserInfo \<Rightarrow> string \<Rightarrow> (uuid \<times> bool) auth_op" where
  "oidc_user_id pu info tenantID s =
     (case sql (with_uuid pu tenantID (insert_oidc_user info)) s of
        (Inr (Inr (Some u)), s1) \<Rightarrow> (Inr (u, True), s1)
      | (Inr (Inr None), s1) \<Rightarrow>
          (case sql (find_oidc info) s1 of
             (Inr (Some u), s2) \<Rightarrow> (Inr (u, False), s2)
           | (Inr None, s2) \<Rightarrow> (Inl (Wrap ''querying existing OIDC user'' (NewError ''no rows in result set'')), s2)
           | (Inl e, s2) \<Rightarrow> (Inl (Wrap ''querying existing OIDC user'' e), s2))
      | (Inr (Inl m), s1) \<Rightarrow>
          if m = unique_violation
          then (case resolveEmailConflict pu info tenantID s1 of
                  (Inl e, s2) \<Rightarrow> (Inl (Wrap ''resolving email conflict'' e), s2)
                | (Inr u, s2) \<Rightarrow> (Inr (u, False), s2))
          else (Inl (Wrap ''upserting user'' (DBError m)), s1)
      | (Inl e, s1) \<Rightarrow> (Inl (Wrap ''upserting user'' e), s1))"

definition FindOrCreateByOIDC ::
  "(string \<Rightarrow> uuid option) \<Rightarrow> (uuid \<Rightarrow> string) \<Rightarrow> OIDCUserInfo \<Rightarrow> string \<Rightarrow> (Identity \<times> bool) auth_op" where
  "FindOrCreateByOIDC pu su info defaultTenantID s =
     (case oidc_user_id pu info defaultTenantID s of
        (Inl e, s1) \<Rightarrow> (Inl e, s1)
      | (Inr (u, created), s1) \<Rightarrow>
          (case GetIdentityWithRoles pu su (su u) s1 of
             (Inl e, s2) \<Rightarrow> (Inl (Wrap ''getting identity'' e), s2)
           | (Inr identity, s2) \<Rightarrow> (Inr (identity, created), s2)))"

definition LookupPlatformAdminByOIDC ::
  "(string \<Rightarrow> uuid option) \<Rightarrow> (uuid \<Rightarrow> string) \<Rightarrow> string \<Rightarrow> string \<Rightarrow> Identity option auth_op" where
  "LookupPlatformAdminByOIDC pu su issuer subject s =
     (case query_row ''looking up platform admin'' ErrUserNotFound
             (sql (\<lambda>s. (find (oidc_user s issuer subject) (db_users s), s)) s) of
        (Inl e, s1) \<Rightarrow> (Inl e, s1)
      | (Inr u, s1) \<Rightarrow>
          if \<not> us_IsPlatformAdmin u then (Inr None, s1)
          else (case GetIdentityWithRoles pu su (su (us_ID u)) s1 of
              (Inl e, s2) \<Rightarrow> (Inl e, s2)
            | (Inr i, s2) \<Rightarrow> (Inr (Some i), s2)))"

definition FindUserIDByEmail :: "(uuid \<Rightarrow> string) \<Rightarrow> string \<Rightarrow> string auth_op" where
  "FindUserIDByEmail su email s =
     query_row ''querying user by email'' ErrUserNotFound
       (sql (\<lambda>s. (map_option (su \<circ> us_ID)
          (find (\<lambda>_. True) (select_order_limit (\<lambda>u. us_Email u = email \<and> visible s (us_TenantID u)) us_CreatedAt 1
             (db_users s))), s)) s)"

text \<open>\<open>users.tenant_id\<close> is declared \<open>NOT NULL\<close>, so the condition \<open>tenant_id IS NULL\<close> holds for no row.\<close>

definition tenantless :: "User \<Rightarrow> bool" where
  "tenantless u \<longleftrightarrow> False"

definition move_user_stmt :: "uuid \<Rightarrow> uuid \<Rightarrow> db \<Rightarrow> (string + nat) \<times> db" where
  "move_user_stmt t u s =
     (let p = (\<lambda>r. us_ID r = u \<and> tenantless r) in
      (Inr (count_where p (db_users s)), s\<lparr>db_users := upd_where p (us_TenantID_update (\<lambda>_. t)) (db_users s)\<rparr>))"

definition UpdateUserTenant :: "(string \<Rightarrow> uuid option) \<Rightarrow> string \<Rightarrow> string \<Rightarrow> unit auth_op" where
  "UpdateUserTenant pu userID tenantID s =
     (case checked (sql (with_uuid pu tenantID (\<lambda>t. with_uuid pu userID (move_user_stmt t))) s) of
        (Inl e, s1) \<Rightarrow> (Inl (Wrap ''updating user tenant'' e), s1)
      | (Inr n, s1) \<Rightarrow>
          if n = 0 then (Inl (NewError ''user not found or already has a tenant''), s1) else (Inr (), s1))"

definition assign_role_stmt :: "uuid \<Rightarrow> uuid \<Rightarrow> string \<Rightarrow> db \<Rightarrow> (string + unit) \<times> db" where
  "assign_role_stmt u t roleName s =
     (let rows = map (\<lambda>r. \<lparr>ur_UserID = u, ur_RoleID = rl_ID r, ur_ScopeType = ''org'', ur_ScopeID = t\<rparr>)
                   (filter (\<lambda>r. rl_TenantID r = t \<and> rl_Name r = roleName \<and> visible s (rl_TenantID r)) (db_roles s));
          new = filter (\<lambda>r. r \<notin> set (db_user_roles s)) rows in
      if new \<noteq> [] \<and> u \<notin> us_ID ` set (db_users s) then (Inl ''foreign key violation: user_id'', s)
      else (Inr (), s\<lparr>db_user_roles := db_user_roles s @ new\<rparr>))"

definition AssignRole :: "(string \<Rightarrow> uuid option) \<Rightarrow> string \<Rightarrow> string \<Rightarrow> string \<Rightarrow> unit auth_op" where
  "AssignRole pu userID tenantID roleName s =
     wrap_err ''assigning role''
       (checked (sql (with_uuid pu userID (\<lambda>u. with_uuid pu tenantID (\<lambda>t. assign_role_stmt u t roleName))) s))"

section \<open>Refresh token families\<close>

definition HashToken :: "string \<Rightarrow> string" where
  "HashToken rawJWT = hex_text (Sum256 rawJWT)"

definition insert_family :: "uuid \<Rightarrow> uuid \<Rightarrow> string \<Rightarrow> string option \<Rightarrow> db \<Rightarrow> (string + uuid) \<times> db" where
  "insert_family t u hash legacy s =
     (if \<not> visible s t then (Inl ''new row violates row-level security policy'', s)
      else if t \<notin> set (db_tenants s) then (Inl ''foreign key violation: tenant_id'', s)
      else if u \<notin> us_ID ` set (db_users s) then (Inl ''foreign key violation: user_id'', s)
      else
        (let row = \<lparr>tf_ID = db_next s, tf_TenantID = t, tf_UserID = u, tf_CurrentGeneration = 1,
                    tf_CurrentTokenHash = hash, tf_RevokedAt = None, tf_CreatedAt = db_now s,
                    tf_UpdatedAt = db_now s, tf_LegacyTokenHash = legacy\<rparr>
         in (Inr (tf_ID row), s\<lparr>db_families := db_families s @ [row], db_next := Suc (db_next s)\<rparr>)))"

definition new_family ::
  "(string \<Rightarrow> uuid option) \<Rightarrow> (uuid \<Rightarrow> string) \<Rightarrow> string \<Rightarrow> string \<Rightarrow> string \<Rightarrow> string \<Rightarrow> string option \<Rightarrow> string auth_op" where
  "new_family pu su msg tenantID userID hash legacy s =
     (case wrap_err msg
             (checked (sql (with_uuid pu tenantID (\<lambda>t. with_uuid pu userID (\<lambda>u. insert_family t u hash legacy))) s)) of
        (Inl e, s1) \<Rightarrow> (Inl e, s1)
      | (Inr f, s1) \<Rightarrow> (Inr (su f), s1))"

definition CreateFamily ::
  "(string \<Rightarrow> uuid option) \<Rightarrow> (uuid \<Rightarrow> string) \<Rightarrow> string \<Rightarrow> string \<Rightarrow> string \<Rightarrow> string auth_op" where
  "CreateFamily pu su tenantID userID tokenHash = new_family pu su ''creating token family'' tenantID userID tokenHash None"

definition pending :: string where
  "pending = ''pending''"

definition CreateFamilyAndReturnID ::
  "(string \<Rightarrow> uuid option) \<Rightarrow> (uuid \<Rightarrow> string) \<Rightarrow> string \<Rightarrow> string \<Rightarrow> string auth_op" where
  "CreateFamilyAndReturnID pu su tenantID userID =
     new_family pu su ''creating token family'' tenantID userID pending None"

definition CreateFamilyForLegacyUpgrade ::
  "(string \<Rightarrow> uuid option) \<Rightarrow> (uuid \<Rightarrow> string) \<Rightarrow> string \<Rightarrow> string \<Rightarrow> string \<Rightarrow> string auth_op" where
  "CreateFamilyForLegacyUpgrade pu su tenantID userID legacyHash =
     new_family pu su ''creating token family for legacy upgrade'' tenantID userID pending (Some legacyHash)"

definition legacy_seen :: "uuid \<Rightarrow> uuid \<Rightarrow> string \<Rightarrow> db \<Rightarrow> bool" where
  "legacy_seen u t hash s \<longleftrightarrow>
     list_ex (\<lambda>f. tf_UserID f = u \<and> tf_TenantID f = t \<and> tf_LegacyTokenHash f = Some hash \<and> visible s t) (db_families s)"

definition IsLegacyTokenUpgraded ::
  "(string \<Rightarrow> uuid option) \<Rightarrow> string \<Rightarrow> string \<Rightarrow> string \<Rightarrow> bool auth_op" where
  "IsLegacyTokenUpgraded pu userID tenantID legacyHash s =
     wrap_err ''checking legacy token upgrade''
       (checked (sql (with_uuid pu userID (\<lambda>u. with_uuid pu tenantID (\<lambda>t s. (Inr (legacy_seen u t legacyHash s), s)))) s))"

definition family_of :: "uuid \<Rightarrow> uuid \<Rightarrow> db \<Rightarrow> TokenFamily \<Rightarrow> bool" where
  "family_of f t s r \<longleftrightarrow> tf_ID r = f \<and> tf_TenantID r = t \<and> visible s t"

definition first_hash_stmt :: "string \<Rightarrow> uuid \<Rightarrow> uuid \<Rightarrow> db \<Rightarrow> (string + nat) \<times> db" where
  "first_hash_stmt tokenHash f t s =
     (let p = (\<lambda>r. family_of f t s r \<and> tf_CurrentTokenHash r = pending) in
      (Inr (count_where p (db_families s)),
       s\<lparr>db_families := upd_where p
           (\<lambda>r. r\<lparr>tf_CurrentTokenHash := tokenHash, tf_UpdatedAt := db_now s\<rparr>) (db_families s)\<rparr>))"

definition SetInitialTokenHash ::
  "(string \<Rightarrow> uuid option) \<Rightarrow> string \<Rightarrow> string \<Rightarrow> string \<Rightarrow> unit auth_op" where
  "SetInitialTokenHash pu familyID tenantID tokenHash s =
     (case checked (sql (with_uuid pu familyID (\<lambda>f. with_uuid pu tenantID (first_hash_stmt tokenHash f))) s) of
        (Inl e, s1) \<Rightarrow> (Inl (Wrap ''setting initial token hash'' e), s1)
      | (Inr n, s1) \<Rightarrow>
          if n = 0 then (Inl (NewError (''family '' @ familyID @ '' not in pending state'')), s1) else (Inr (), s1))"

definition rotate_row :: "string \<Rightarrow> gotime \<Rightarrow> TokenFamily \<Rightarrow> TokenFamily" where
  "rotate_row newHash now r =
     r\<lparr>tf_CurrentGeneration := tf_CurrentGeneration r + 1, tf_CurrentTokenHash := newHash, tf_UpdatedAt := now\<rparr>"

text \<open>\<open>current_generation\<close> is a 32-bit integer.\<close>

definition rotate_stmt :: "string \<Rightarrow> int \<Rightarrow> string \<Rightarrow> uuid \<Rightarrow> uuid \<Rightarrow> db \<Rightarrow> (string + TokenFamily option) \<times> db" where
  "rotate_stmt presentedHash presentedGeneration newHash f t s =
     (let p = (\<lambda>r. family_of f t s r \<and> tf_CurrentTokenHash r = presentedHash \<and>
                    tf_CurrentGeneration r = presentedGeneration \<and> tf_RevokedAt r = None) in
      if presentedGeneration < - (2 ^ 31) \<or> presentedGeneration \<ge> 2 ^ 31
      then (Inl ''integer out of range'', s)
      else case find p (db_families s) of
          None \<Rightarrow> (Inr None, s)
        | Some r \<Rightarrow>
            if presentedGeneration = 2 ^ 31 - 1 then (Inl ''integer out of range'', s)
            else (Inr (Some (rotate_row newHash (db_now s) r)),
                  s\<lparr>db_families := upd_where p (rotate_row newHash (db_now s)) (db_families s)\<rparr>))"

definition revoke_row :: "gotime \<Rightarrow> TokenFamily \<Rightarrow> TokenFamily" where
  "revoke_row now r = r\<lparr>tf_RevokedAt := Some now, tf_UpdatedAt := now\<rparr>"

definition revoke_stmt :: "uuid \<Rightarrow> uuid \<Rightarrow> db \<Rightarrow> (string + nat) \<times> db" where
  "revoke_stmt f t s =
     (let p = (\<lambda>r. family_of f t s r \<and> tf_RevokedAt r = None) in
      (Inr (count_where p (db_families s)),
       s\<lparr>db_families := upd_where p (revoke_row (db_now s)) (db_families s)\<rparr>))"

definition RevokeFamily :: "(string \<Rightarrow> uuid option) \<Rightarrow> string \<Rightarrow> string \<Rightarrow> unit auth_op" where
  "RevokeFamily pu familyID tenantID s =
     exec_rows ''revoking token family'' ErrFamilyNotFound
       (checked (sql (with_uuid pu familyID (\<lambda>f. with_uuid pu tenantID (revoke_stmt f))) s))"

definition diagnoseRotationFailure ::
  "(string \<Rightarrow> uuid option) \<Rightarrow> string \<Rightarrow> string \<Rightarrow> db \<Rightarrow> auth_error \<times> db" where
  "diagnoseRotationFailure pu familyID tenantID s =
     (case query_row ''diagnosing rotation failure'' ErrFamilyNotFound
             (checked (sql (with_uuid pu familyID (\<lambda>f. with_uuid pu tenantID (\<lambda>t s.
                (Inr (find (family_of f t s) (db_families s)), s)))) s)) of
        (Inl e, s1) \<Rightarrow> (e, s1)
      | (Inr r, s1) \<Rightarrow>
          if tf_RevokedAt r \<noteq> None then (Sentinel ErrFamilyRevoked, s1)
          else (case RevokeFamily pu familyID tenantID s1 of
              (Inl e, s2) \<Rightarrow> (Wrap ''revoking family after reuse detection'' e, s2)
            | (Inr _, s2) \<Rightarrow> (Sentinel ErrTokenReuse, s2)))"

definition RotateToken ::
  "(string \<Rightarrow> uuid option) \<Rightarrow> string \<Rightarrow> string \<Rightarrow> string \<Rightarrow> int \<Rightarrow> string \<Rightarrow> TokenFamily auth_op" where
  "RotateToken pu familyID tenantID presentedHash presentedGeneration newTokenHash s =
     (case checked (sql (with_uuid pu familyID (\<lambda>f. with_uuid pu tenantID
             (rotate_stmt presentedHash presentedGeneration newTokenHash f))) s) of
        (Inl e, s1) \<Rightarrow> (Inl (Wrap ''rotating token'' e), s1)
      | (Inr None, s1) \<Rightarrow> (case diagnoseRotationFailure pu familyID tenantID s1 of (e, s2) \<Rightarrow> (Inl e, s2))
      | (Inr (Some family), s1) \<Rightarrow> (Inr family, s1))"

definition revoke_all_stmt :: "uuid \<Rightarrow> uuid \<Rightarrow> db \<Rightarrow> (string + unit) \<times> db" where
  "revoke_all_stmt u t s =
     (Inr (), s\<lparr>db_families := upd_where
        (\<lambda>r. tf_UserID r = u \<and> tf_TenantID r = t \<and> visible s t \<and> tf_RevokedAt r = None)
        (revoke_row (db_now s)) (db_families s)\<rparr>)"

definition RevokeAllForUser :: "(string \<Rightarrow> uuid option) \<Rightarrow> string \<Rightarrow> string \<Rightarrow> unit auth_op" where
  "RevokeAllForUser pu userID tenantID s =
     wrap_err ''revoking all families for user''
       (checked (sql (with_uuid pu userID (\<lambda>u. with_uuid pu tenantID (revoke_all_stmt u))) s))"

definition GetFamily :: "(string \<Rightarrow> uuid option) \<Rightarrow> string \<Rightarrow> string \<Rightarrow> TokenFamily auth_op" where
  "GetFamily pu familyID tenantID s =
     query_row ''getting token family'' ErrFamilyNotFound
       (checked (sql (with_uuid pu familyID (\<lambda>f. with_uuid pu tenantID (\<lambda>t s.
          (Inr (find (family_of f t s) (db_families s)), s)))) s))"

section \<open>Tenants by host name\<close>

text \<open>
  \<open>SplitHostPort\<close> and \<open>url.Parse\<close> are arguments: the host without a port, if there is one, and the
  host of an origin.
\<close>

record TenantResolver =
  tr_baseDomain :: string
  tr_splitHostPort :: "string \<Rightarrow> string option"
  tr_originHost :: "string \<Rightarrow> string option"

definition extractSlug :: "TenantResolver \<Rightarrow> string \<Rightarrow> auth_error + string" where
  "extractSlug tr host =
     (let hostname = (case tr_splitHostPort tr host of None \<Rightarrow> host | Some h \<Rightarrow> h);
          suffix = CHR ''.'' # tr_baseDomain tr;
          slug = take (length hostname - length suffix) hostname in
      if \<not> (length suffix \<le> length hostname \<and> drop (length hostname - length suffix) hostname = suffix)
      then Inl (Wrap ''host does not match base domain'' (Sentinel ErrTenantNotFound))
      else if slug = [] \<or> CHR ''.'' \<in> set slug then Inl (Wrap ''invalid slug in host'' (Sentinel ErrTenantNotFound))
      else Inr slug)"

definition extractSlugFromOrigin :: "TenantResolver \<Rightarrow> string \<Rightarrow> auth_error + string" where
  "extractSlugFromOrigin tr origin =
     (if origin = [] then Inl (Wrap ''empty origin'' (Sentinel ErrTenantNotFound))
      else case tr_originHost tr origin of
          None \<Rightarrow> Inl (Wrap ''invalid origin'' (Sentinel ErrTenantNotFound))
        | Some h \<Rightarrow> if h = [] then Inl (Wrap ''invalid origin'' (Sentinel ErrTenantNotFound)) else extractSlug tr h)"

text \<open>The table of tenants has row-level security enabled and no policy: only the owner of the tables sees its rows.\<close>

definition seen_tenants :: "db \<Rightarrow> Tenant list" where
  "seen_tenants s = (if db_rls s then [] else db_tenant_rows s)"

definition ResolveBySlug :: "(uuid \<Rightarrow> string) \<Rightarrow> string \<Rightarrow> string auth_op" where
  "ResolveBySlug su slug s =
     (if slug = [] then (Inl (Wrap ''empty slug'' (Sentinel ErrTenantNotFound)), s)
      else case sql (\<lambda>s. (map_option tn_ID (find (\<lambda>t. tn_Slug t = slug) (seen_tenants s)), s)) s of
          (Inl e, s1) \<Rightarrow> (Inl (Wrap ''querying tenant'' e), s1)
        | (Inr None, s1) \<Rightarrow> (Inl (Wrap ''slug'' (Sentinel ErrTenantNotFound)), s1)
        | (Inr (Some t), s1) \<Rightarrow> (Inr (su t), s1))"

definition ResolveFromRequest :: "TenantResolver \<Rightarrow> (uuid \<Rightarrow> string) \<Rightarrow> string \<Rightarrow> string auth_op" where
  "ResolveFromRequest tr su host s =
     (case extractSlug tr host of Inl e \<Rightarrow> (Inl e, s) | Inr slug \<Rightarrow> ResolveBySlug su slug s)"

definition ResolveFromOrigin :: "TenantResolver \<Rightarrow> (uuid \<Rightarrow> string) \<Rightarrow> string \<Rightarrow> string auth_op" where
  "ResolveFromOrigin tr su origin s =
     (case extractSlugFromOrigin tr origin of Inl e \<Rightarrow> (Inl e, s) | Inr slug \<Rightarrow> ResolveBySlug su slug s)"

section \<open>Invites\<close>

definition generateCode :: "string option \<Rightarrow> auth_error + string" where
  "generateCode random =
     (case random of None \<Rightarrow> Inl (NewError ''generating invite code'') | Some b \<Rightarrow> Inr (hex_text b))"

definition insert_invite ::
  "string \<Rightarrow> string \<Rightarrow> gotime \<Rightarrow> uuid \<Rightarrow> uuid \<Rightarrow> db \<Rightarrow> (string + Invite) \<times> db" where
  "insert_invite code role expiresAt t u s =
     (if \<not> visible s t then (Inl ''new row violates row-level security policy'', s)
      else if t \<notin> set (db_tenants s) then (Inl ''foreign key violation: tenant_id'', s)
      else if u \<notin> us_ID ` set (db_users s) then (Inl ''foreign key violation: created_by'', s)
      else if list_ex (\<lambda>i. iv_Code i = code) (db_invites s) then (Inl unique_violation, s)
      else
        (let row = \<lparr>iv_ID = db_next s, iv_TenantID = t, iv_Code = code, iv_Role = role, iv_CreatedBy = u,
                    iv_ExpiresAt = expiresAt, iv_UsedBy = None, iv_UsedAt = None, iv_CreatedAt = db_now s\<rparr>
         in (Inr row, s\<lparr>db_invites := db_invites s @ [row], db_next := Suc (db_next s)\<rparr>)))"

definition invite_Create ::
  "(string \<Rightarrow> uuid option) \<Rightarrow> string option \<Rightarrow> gotime \<Rightarrow> string \<Rightarrow> string \<Rightarrow> string \<Rightarrow> duration \<Rightarrow> Invite auth_op" where
  "invite_Create pu random wall tenantID createdBy role ttl s =
     (case generateCode random of
        Inl e \<Rightarrow> (Inl e, s)
      | Inr code \<Rightarrow>
          wrap_err ''creating invite''
            (checked (sql (with_uuid pu tenantID (\<lambda>t. with_uuid pu createdBy (insert_invite code role (wall + ttl) t))) s)))"

definition GetByCode :: "string \<Rightarrow> Invite auth_op" where
  "GetByCode code s =
     query_row ''getting invite by code'' ErrInviteNotFound
       (sql (\<lambda>s. (find (\<lambda>i. iv_Code i = code \<and> visible s (iv_TenantID i)) (db_invites s), s)) s)"

definition invite_ListByTenant :: "(string \<Rightarrow> uuid option) \<Rightarrow> string \<Rightarrow> Invite list auth_op" where
  "invite_ListByTenant pu tenantID s =
     wrap_err ''listing invites''
       (checked (sql (with_uuid pu tenantID (\<lambda>t s.
          (Inr (sort_key (\<lambda>i. - iv_CreatedAt i)
            (filter (\<lambda>i. iv_TenantID i = t \<and> visible s t) (db_invites s))), s))) s))"

definition redeem_row :: "uuid \<Rightarrow> gotime \<Rightarrow> Invite \<Rightarrow> Invite" where
  "redeem_row u now i = i\<lparr>iv_UsedBy := Some u, iv_UsedAt := Some now\<rparr>"

definition redeem_stmt :: "string \<Rightarrow> uuid \<Rightarrow> db \<Rightarrow> (string + Invite option) \<times> db" where
  "redeem_stmt code u s =
     (let p = (\<lambda>i. iv_Code i = code \<and> iv_UsedAt i = None \<and> iv_ExpiresAt i > db_now s \<and> visible s (iv_TenantID i)) in
      case find p (db_invites s) of
        None \<Rightarrow> (Inr None, s)
      | Some i \<Rightarrow>
          if u \<notin> us_ID ` set (db_users s) then (Inl ''foreign key violation: used_by'', s)
          else (Inr (Some (redeem_row u (db_now s) i)),
                s\<lparr>db_invites := upd_where p (redeem_row u (db_now s)) (db_invites s)\<rparr>))"

definition Redeem :: "(string \<Rightarrow> uuid option) \<Rightarrow> string \<Rightarrow> string \<Rightarrow> Invite auth_op" where
  "Redeem pu code userID s =
     (case checked (sql (with_uuid pu userID (redeem_stmt code)) s) of
        (Inl e, s1) \<Rightarrow> (Inl (Wrap ''redeeming invite'' e), s1)
      | (Inr (Some i), s1) \<Rightarrow> (Inr i, s1)
      | (Inr None, s1) \<Rightarrow>
          (case GetByCode code s1 of
             (Inl _, s2) \<Rightarrow> (Inl (Sentinel ErrInviteNotFound), s2)
           | (Inr existing, s2) \<Rightarrow>
               (Inl (Sentinel (if iv_UsedAt existing \<noteq> None then ErrInviteUsed else ErrInviteExpired)), s2)))"

definition delete_invite_stmt :: "uuid \<Rightarrow> uuid \<Rightarrow> db \<Rightarrow> (string + nat) \<times> db" where
  "delete_invite_stmt i t s =
     (let p = (\<lambda>r. iv_ID r = i \<and> iv_TenantID r = t \<and> visible s t) in
      (Inr (count_where p (db_invites s)), s\<lparr>db_invites := filter (\<lambda>r. \<not> p r) (db_invites s)\<rparr>))"

definition invite_Delete :: "(string \<Rightarrow> uuid option) \<Rightarrow> string \<Rightarrow> string \<Rightarrow> unit auth_op" where
  "invite_Delete pu i tenantID s =
     exec_rows ''deleting invite'' ErrInviteNotFound
       (checked (sql (with_uuid pu i (\<lambda>u. with_uuid pu tenantID (delete_invite_stmt u))) s))"

end
