(* ===== verification/Tenant_Store.thy ===== *)
theory Tenant_Store
  imports Auth_Store
begin

text \<open>
  The stores of the tenant administration (\<open>internal/tenant\<close>: \<open>role_store.go\<close>, \<open>user_store.go\<close>,
  \<open>department_store.go\<close>, \<open>store.go\<close>, \<open>tenant.go\<close>): roles and their assignments, users, departments
  and tenants. All but the last run on a connection of the tenant and rely on the row-level
  security policies. \<open>collate\<close> gives the place of a name in the collation of the database.
\<close>

datatype tenant_sentinel =
    ErrRoleNotFound
  | ErrRoleNameEmpty
  | ErrRoleDuplicate
  | ErrRoleIsSystem
  | ErrRoleHasUsers
  | ErrUserNotFound
  | ErrEmailInvalid
  | ErrEmailDuplicate
  | ErrDepartmentNotFound
  | ErrDepartmentNameEmpty
  | ErrDepartmentSelfParent
  | ErrTenantNotFound
  | ErrSlugTaken
  | ErrInvalidSlug

type_synonym admin_error = "tenant_sentinel go_error"
type_synonym 'a tenant_op = "db \<Rightarrow> (admin_error + 'a) \<times> db"
type_synonym uuid_reader = "string \<Rightarrow> uuid option"

text \<open>The message of a violated unique constraint, and \<open>strings.Contains\<close> on messages.\<close>

definition duplicate_key :: string where
  "duplicate_key = ''ERROR: duplicate key value violates unique constraint (SQLSTATE 23505)''"

definition text_contains :: "string \<Rightarrow> string \<Rightarrow> bool" where
  "text_contains s p = list_ex (\<lambda>i. take (length p) (drop i s) = p) [0..<Suc (length s)]"

definition is_duplicate :: "string \<Rightarrow> bool" where
  "is_duplicate m = (text_contains m ''duplicate key'' \<or> text_contains m ''unique constraint'')"

text \<open>The policy of the junction tables: the user of the row is visible.\<close>

definition user_visible :: "db \<Rightarrow> uuid \<Rightarrow> bool" where
  "user_visible s u \<longleftrightarrow> (db_rls s \<longrightarrow> list_ex (\<lambda>r. us_ID r = u \<and> own s (us_TenantID r)) (db_users s))"

section \<open>Roles\<close>

definition insert_role :: "string \<Rightarrow> string list \<Rightarrow> db \<Rightarrow> (string + Role) \<times> db" where
  "insert_role name permissions s =
     (case db_tenant s of
        None \<Rightarrow> (Inl ''null value in column tenant_id'', s)
      | Some t \<Rightarrow>
          if t \<notin> set (db_tenants s) then (Inl ''foreign key violation: tenant_id'', s)
          else if list_ex (\<lambda>r. rl_TenantID r = t \<and> rl_Name r = name) (db_roles s) then (Inl duplicate_key, s)
          else
            (let row = \<lparr>rl_ID = db_next s, rl_TenantID = t, rl_Name = name, rl_Permissions = permissions,
                        rl_IsSystem = False, rl_CreatedAt = db_now s\<rparr>
             in (Inr row, s\<lparr>db_roles := db_roles s @ [row], db_next := Suc (db_next s)\<rparr>)))"

definition role_Create :: "string \<Rightarrow> string list \<Rightarrow> Role tenant_op" where
  "role_Create name permissions s =
     (if TrimSpace name = [] then (Inl (Sentinel ErrRoleNameEmpty), s)
      else case checked (sql (insert_role name permissions) s) of
          (Inl (DBError m), s1) \<Rightarrow>
            (Inl (if m = duplicate_key then Wrap name (Sentinel ErrRoleDuplicate)
                  else Wrap ''creating role'' (DBError m)), s1)
        | (Inl e, s1) \<Rightarrow> (Inl (Wrap ''creating role'' e), s1)
        | (Inr role, s1) \<Rightarrow> (Inr role, s1))"

definition find_role :: "uuid \<Rightarrow> db \<Rightarrow> Role option" where
  "find_role i s = find (\<lambda>r. rl_ID r = i \<and> visible s (rl_TenantID r)) (db_roles s)"

definition role_GetByID :: "uuid_reader \<Rightarrow> string \<Rightarrow> Role tenant_op" where
  "role_GetByID pu i s =
     query_row ''getting role'' ErrRoleNotFound
       (checked (sql (with_uuid pu i (\<lambda>u s. (Inr (find_role u s), s))) s))"

definition role_List :: "(string \<Rightarrow> nat) \<Rightarrow> Role list tenant_op" where
  "role_List collate s =
     wrap_err ''listing roles''
       (sql (\<lambda>s. (sort_key (\<lambda>r. collate (rl_Name r)) (filter (\<lambda>r. visible s (rl_TenantID r)) (db_roles s)), s)) s)"

text \<open>The definitions for the evaluator, read on the pool; the order of the tenants is that of their keys.\<close>

definition LoadRoles :: "(uuid \<Rightarrow> string) \<Rightarrow> (string \<Rightarrow> nat) \<Rightarrow> RoleDef list tenant_op" where
  "LoadRoles su collate s =
     wrap_err ''loading roles''
       (sql (\<lambda>s. (map (\<lambda>r. \<lparr>rd_TenantID = su (rl_TenantID r), rd_Name = rl_Name r, rd_Permissions = rl_Permissions r\<rparr>)
          (sort_key rl_TenantID (sort_key (\<lambda>r. collate (rl_Name r))
             (filter (\<lambda>r. visible s (rl_TenantID r)) (db_roles s)))), s)) s)"

definition update_role_stmt :: "string \<Rightarrow> string list \<Rightarrow> uuid \<Rightarrow> db \<Rightarrow> (string + Role option) \<times> db" where
  "update_role_stmt name permissions i s =
     (let p = (\<lambda>r. rl_ID r = i \<and> \<not> rl_IsSystem r \<and> visible s (rl_TenantID r));
          f = (\<lambda>r. r\<lparr>rl_Name := name, rl_Permissions := permissions\<rparr>) in
      case find p (db_roles s) of
        None \<Rightarrow> (Inr None, s)
      | Some r \<Rightarrow>
          if list_ex (\<lambda>x. rl_TenantID x = rl_TenantID r \<and> rl_Name x = name \<and> rl_ID x \<noteq> i) (db_roles s)
          then (Inl duplicate_key, s)
          else (Inr (Some (f r)), s\<lparr>db_roles := upd_where p f (db_roles s)\<rparr>))"

text \<open>Why no row was changed: the role is a system role, or not there.\<close>

definition role_is_system :: "uuid_reader \<Rightarrow> string \<Rightarrow> bool tenant_op" where
  "role_is_system pu i s =
     query_row ''checking role'' ErrRoleNotFound
       (checked (sql (with_uuid pu i (\<lambda>u s. (Inr (map_option rl_IsSystem (find_role u s)), s))) s))"

definition role_refused :: "uuid_reader \<Rightarrow> string \<Rightarrow> tenant_sentinel \<Rightarrow> 'a tenant_op" where
  "role_refused pu i otherwise s =
     (case role_is_system pu i s of
        (Inl _, s1) \<Rightarrow> (Inl (Sentinel ErrRoleNotFound), s1)
      | (Inr True, s1) \<Rightarrow> (Inl (Sentinel ErrRoleIsSystem), s1)
      | (Inr False, s1) \<Rightarrow> (Inl (Sentinel otherwise), s1))"

definition role_Update :: "uuid_reader \<Rightarrow> string \<Rightarrow> string \<Rightarrow> string list \<Rightarrow> Role tenant_op" where
  "role_Update pu i name permissions s =
     (if TrimSpace name = [] then (Inl (Sentinel ErrRoleNameEmpty), s)
      else case checked (sql (with_uuid pu i (update_role_stmt name permissions)) s) of
          (Inl (DBError m), s1) \<Rightarrow>
            (Inl (if m = duplicate_key then Wrap name (Sentinel ErrRoleDuplicate)
                  else Wrap ''updating role'' (DBError m)), s1)
        | (Inl e, s1) \<Rightarrow> (Inl (Wrap ''updating role'' e), s1)
        | (Inr None, s1) \<Rightarrow> role_refused pu i ErrRoleNotFound s1
        | (Inr (Some role), s1) \<Rightarrow> (Inr role, s1))"

text \<open>The assignments of a deleted role go with it (\<open>ON DELETE CASCADE\<close>).\<close>

definition delete_role_stmt :: "uuid \<Rightarrow> db \<Rightarrow> (string + unit option) \<times> db" where
  "delete_role_stmt i s =
     (let p = (\<lambda>r. rl_ID r = i \<and> \<not> rl_IsSystem r \<and> visible s (rl_TenantID r)) in
      if list_ex (\<lambda>x. ur_RoleID x = i \<and> user_visible s (ur_UserID x)) (db_user_roles s) \<or> \<not> list_ex p (db_roles s)
      then (Inr None, s)
      else (Inr (Some ()), s\<lparr>db_roles := filter (\<lambda>r. \<not> p r) (db_roles s),
              db_user_roles := filter (\<lambda>x. ur_RoleID x \<noteq> i) (db_user_roles s)\<rparr>))"

definition role_Delete :: "uuid_reader \<Rightarrow> string \<Rightarrow> unit tenant_op" where
  "role_Delete pu i s =
     (case checked (sql (with_uuid pu i delete_role_stmt) s) of
        (Inl e, s1) \<Rightarrow> (Inl (Wrap ''deleting role'' e), s1)
      | (Inr None, s1) \<Rightarrow> role_refused pu i ErrRoleHasUsers s1
      | (Inr (Some _), s1) \<Rightarrow> (Inr (), s1))"

definition assign_stmt :: "string \<Rightarrow> uuid \<Rightarrow> uuid \<Rightarrow> uuid \<Rightarrow> db \<Rightarrow> (string + unit) \<times> db" where
  "assign_stmt scopeType u r sc s =
     (let row = \<lparr>ur_UserID = u, ur_RoleID = r, ur_ScopeType = scopeType, ur_ScopeID = sc\<rparr> in
      if \<not> user_visible s u then (Inl ''new row violates row-level security policy'', s)
      else if row \<in> set (db_user_roles s) then (Inr (), s)
      else if u \<notin> us_ID ` set (db_users s) then (Inl ''foreign key violation: user_id'', s)
      else if r \<notin> rl_ID ` set (db_roles s) then (Inl ''foreign key violation: role_id'', s)
      else (Inr (), s\<lparr>db_user_roles := db_user_roles s @ [row]\<rparr>))"

definition AssignToUser :: "uuid_reader \<Rightarrow> string \<Rightarrow> string \<Rightarrow> string \<Rightarrow> string \<Rightarrow> unit tenant_op" where
  "AssignToUser pu userID roleID scopeType scopeID s =
     wrap_err ''assigning role''
       (checked (sql (with_uuid pu userID (\<lambda>u. with_uuid pu roleID (\<lambda>r.
          with_uuid pu scopeID (assign_stmt scopeType u r)))) s))"

definition unassign_stmt :: "string \<Rightarrow> uuid \<Rightarrow> uuid \<Rightarrow> uuid \<Rightarrow> db \<Rightarrow> (string + unit) \<times> db" where
  "unassign_stmt scopeType u r sc s =
     (Inr (), s\<lparr>db_user_roles := filter (\<lambda>x. \<not> (ur_UserID x = u \<and> ur_RoleID x = r \<and> ur_ScopeType x = scopeType \<and>
        ur_ScopeID x = sc \<and> user_visible s u)) (db_user_roles s)\<rparr>)"

definition RemoveFromUser :: "uuid_reader \<Rightarrow> string \<Rightarrow> string \<Rightarrow> string \<Rightarrow> string \<Rightarrow> unit tenant_op" where
  "RemoveFromUser pu userID roleID scopeType scopeID s =
     wrap_err ''removing role''
       (checked (sql (with_uuid pu userID (\<lambda>u. with_uuid pu roleID (\<lambda>r.
          with_uuid pu scopeID (unassign_stmt scopeType u r)))) s))"

definition user_role_rows :: "uuid \<Rightarrow> db \<Rightarrow> (UserRole \<times> string) list" where
  "user_role_rows u s =
     concat (map (\<lambda>x. map (\<lambda>r. (x, rl_Name r)) (filter (\<lambda>r. rl_ID r = ur_RoleID x \<and> visible s (rl_TenantID r)) (db_roles s)))
       (filter (\<lambda>x. ur_UserID x = u \<and> user_visible s u) (db_user_roles s)))"

definition ListForUser :: "uuid_reader \<Rightarrow> (string \<Rightarrow> nat) \<Rightarrow> string \<Rightarrow> (UserRole \<times> string) list tenant_op" where
  "ListForUser pu collate userID s =
     wrap_err ''listing user roles''
       (checked (sql (with_uuid pu userID (\<lambda>u s. (Inr (sort_key (collate \<circ> snd) (user_role_rows u s)), s))) s))"

section \<open>Users\<close>

text \<open>\<open>mail.ParseAddress\<close> is an argument: whether it accepts the address.\<close>

definition ValidateEmail :: "(string \<Rightarrow> bool) \<Rightarrow> string \<Rightarrow> admin_error option" where
  "ValidateEmail parses email =
     (if email = [] then Some (Wrap ''email is required'' (Sentinel ErrEmailInvalid))
      else if \<not> parses email then Some (Wrap ''mail'' (Sentinel ErrEmailInvalid))
      else None)"

definition insert_user :: "string \<Rightarrow> string \<Rightarrow> db \<Rightarrow> (string + User) \<times> db" where
  "insert_user email displayName s =
     (case db_tenant s of
        None \<Rightarrow> (Inl ''null value in column tenant_id'', s)
      | Some t \<Rightarrow>
          if t \<notin> set (db_tenants s) then (Inl ''foreign key violation: tenant_id'', s)
          else if list_ex (\<lambda>u. us_TenantID u = t \<and> us_Email u = email) (db_users s) then (Inl duplicate_key, s)
          else
            (let row = \<lparr>us_ID = db_next s, us_TenantID = t, us_Email = email, us_DisplayName = Some displayName,
                        us_OIDCSubject = None, us_OIDCIssuer = None, us_Status = ''active'', us_CreatedAt = db_now s,
                        us_IsPlatformAdmin = False\<rparr>
             in (Inr row, s\<lparr>db_users := db_users s @ [row], db_next := Suc (db_next s)\<rparr>)))"

definition user_Create :: "(string \<Rightarrow> bool) \<Rightarrow> string \<Rightarrow> string \<Rightarrow> User tenant_op" where
  "user_Create parses email displayName s =
     (case ValidateEmail parses email of
        Some e \<Rightarrow> (Inl e, s)
      | None \<Rightarrow>
          (case checked (sql (insert_user email displayName) s) of
             (Inl (DBError m), s1) \<Rightarrow>
               (Inl (if is_duplicate m then Wrap email (Sentinel ErrEmailDuplicate)
                     else Wrap ''creating user'' (DBError m)), s1)
           | (Inl e, s1) \<Rightarrow> (Inl (Wrap ''creating user'' e), s1)
           | (Inr u, s1) \<Rightarrow> (Inr u, s1)))"

definition find_user :: "uuid \<Rightarrow> db \<Rightarrow> User option" where
  "find_user i s = find (\<lambda>u. us_ID u = i \<and> visible s (us_TenantID u)) (db_users s)"

definition user_GetByID :: "uuid_reader \<Rightarrow> string \<Rightarrow> User tenant_op" where
  "user_GetByID pu i s =
     query_row ''getting user'' ErrUserNotFound
       (checked (sql (with_uuid pu i (\<lambda>u s. (Inr (find_user u s), s))) s))"

definition user_List :: "User list tenant_op" where
  "user_List s =
     wrap_err ''listing users''
       (sql (\<lambda>s. (sort_key us_CreatedAt (filter (\<lambda>u. visible s (us_TenantID u)) (db_users s)), s)) s)"

definition join_stmt :: "uuid \<Rightarrow> uuid \<Rightarrow> db \<Rightarrow> (string + unit) \<times> db" where
  "join_stmt u d s =
     (if \<not> user_visible s u then (Inl ''new row violates row-level security policy'', s)
      else if (u, d) \<in> set (db_user_departments s) then (Inr (), s)
      else if u \<notin> us_ID ` set (db_users s) then (Inl ''foreign key violation: user_id'', s)
      else if d \<notin> dp_ID ` set (db_departments s) then (Inl ''foreign key violation: department_id'', s)
      else (Inr (), s\<lparr>db_user_departments := db_user_departments s @ [(u, d)]\<rparr>))"

definition AddToDepartment :: "uuid_reader \<Rightarrow> string \<Rightarrow> string \<Rightarrow> unit tenant_op" where
  "AddToDepartment pu userID departmentID s =
     wrap_err ''adding user to department''
       (checked (sql (with_uuid pu userID (\<lambda>u. with_uuid pu departmentID (join_stmt u))) s))"

definition leave_stmt :: "uuid \<Rightarrow> uuid \<Rightarrow> db \<Rightarrow> (string + unit) \<times> db" where
  "leave_stmt u d s =
     (Inr (), s\<lparr>db_user_departments := filter (\<lambda>x. \<not> (x = (u, d) \<and> user_visible s u)) (db_user_departments s)\<rparr>)"

definition RemoveFromDepartment :: "uuid_reader \<Rightarrow> string \<Rightarrow> string \<Rightarrow> unit tenant_op" where
  "RemoveFromDepartment pu userID departmentID s =
     wrap_err ''removing user from department''
       (checked (sql (with_uuid pu userID (\<lambda>u. with_uuid pu departmentID (leave_stmt u))) s))"

definition ListDepartments :: "uuid_reader \<Rightarrow> (string \<Rightarrow> nat) \<Rightarrow> string \<Rightarrow> Department list tenant_op" where
  "ListDepartments pu collate userID s =
     wrap_err ''listing user departments''
       (checked (sql (with_uuid pu userID (\<lambda>u s. (Inr (sort_key (\<lambda>d. collate (dp_Name d))
          (filter (\<lambda>d. visible s (dp_TenantID d) \<and> user_visible s u \<and> (u, dp_ID d) \<in> set (db_user_departments s))
             (db_departments s))), s))) s))"

definition update_user_row :: "string \<Rightarrow> string \<Rightarrow> User \<Rightarrow> User" where
  "update_user_row displayName status u =
     u\<lparr>us_DisplayName := (if displayName = [] then us_DisplayName u else Some displayName),
       us_Status := (if status = [] then us_Status u else status)\<rparr>"

definition update_user_stmt :: "(User \<Rightarrow> User) \<Rightarrow> uuid \<Rightarrow> db \<Rightarrow> (string + User option) \<times> db" where
  "update_user_stmt f i s =
     (let p = (\<lambda>u. us_ID u = i \<and> visible s (us_TenantID u)) in
      case find p (db_users s) of
        None \<Rightarrow> (Inr None, s)
      | Some u \<Rightarrow> (Inr (Some (f u)), s\<lparr>db_users := upd_where p f (db_users s)\<rparr>))"

definition user_Update :: "uuid_reader \<Rightarrow> string \<Rightarrow> string \<Rightarrow> string \<Rightarrow> User tenant_op" where
  "user_Update pu i displayName status s =
     query_row ''updating user'' ErrUserNotFound
       (checked (sql (with_uuid pu i (update_user_stmt (update_user_row displayName status))) s))"

definition suspend_row :: "User \<Rightarrow> User" where
  "suspend_row u = u\<lparr>us_Status := ''suspended''\<rparr>"

definition suspend_stmt :: "uuid \<Rightarrow> db \<Rightarrow> (string + nat) \<times> db" where
  "suspend_stmt i s =
     (let p = (\<lambda>u. us_ID u = i \<and> visible s (us_TenantID u)) in
      (Inr (count_where p (db_users s)), s\<lparr>db_users := upd_where p suspend_row (db_users s)\<rparr>))"

definition SoftDelete :: "uuid_reader \<Rightarrow> string \<Rightarrow> unit tenant_op" where
  "SoftDelete pu i s =
     exec_rows ''soft-deleting user'' ErrUserNotFound (checked (sql (with_uuid pu i suspend_stmt) s))"

section \<open>Departments\<close>

definition ValidateDepartmentName :: "string \<Rightarrow> admin_error option" where
  "ValidateDepartmentName name =
     (let trimmed = TrimSpace name in
      if trimmed = [] then Some (Sentinel ErrDepartmentNameEmpty)
      else if length trimmed > 255 then Some (Wrap ''must not exceed 255 characters'' (Sentinel ErrDepartmentNameEmpty))
      else None)"

definition find_department :: "uuid \<Rightarrow> db \<Rightarrow> Department option" where
  "find_department i s = find (\<lambda>d. dp_ID d = i \<and> visible s (dp_TenantID d)) (db_departments s)"

definition department_GetByID :: "uuid_reader \<Rightarrow> string \<Rightarrow> Department tenant_op" where
  "department_GetByID pu i s =
     query_row ''getting department'' ErrDepartmentNotFound
       (checked (sql (with_uuid pu i (\<lambda>u s. (Inr (find_department u s), s))) s))"

text \<open>A parent has to be a department of the tenant; \<open>None\<close> is no parent.\<close>

definition check_parent :: "uuid_reader \<Rightarrow> string option \<Rightarrow> unit tenant_op" where
  "check_parent pu parentID s =
     (case parentID of
        None \<Rightarrow> (Inr (), s)
      | Some p \<Rightarrow>
          (case department_GetByID pu p s of
             (Inl e, s1) \<Rightarrow> (Inl (Wrap ''invalid parent department'' e), s1)
           | (Inr _, s1) \<Rightarrow> (Inr (), s1)))"

text \<open>A parameter that may be \<open>NULL\<close>.\<close>

definition with_uuid_option ::
  "uuid_reader \<Rightarrow> string option \<Rightarrow> (uuid option \<Rightarrow> db \<Rightarrow> (string + 'a) \<times> db) \<Rightarrow> db \<Rightarrow> (string + 'a) \<times> db" where
  "with_uuid_option pu t f s = (case t of None \<Rightarrow> f None s | Some x \<Rightarrow> with_uuid pu x (\<lambda>u. f (Some u)) s)"

definition parent_exists :: "uuid option \<Rightarrow> db \<Rightarrow> bool" where
  "parent_exists parent s = (case parent of None \<Rightarrow> True | Some p \<Rightarrow> p \<in> dp_ID ` set (db_departments s))"

definition insert_department :: "string \<Rightarrow> uuid option \<Rightarrow> db \<Rightarrow> (string + Department) \<times> db" where
  "insert_department name parent s =
     (case db_tenant s of
        None \<Rightarrow> (Inl ''null value in column tenant_id'', s)
      | Some t \<Rightarrow>
          if t \<notin> set (db_tenants s) then (Inl ''foreign key violation: tenant_id'', s)
          else if \<not> parent_exists parent s then (Inl ''foreign key violation: parent_id'', s)
          else
            (let row = \<lparr>dp_ID = db_next s, dp_TenantID = t, dp_Name = name, dp_ParentID = parent, dp_CreatedAt = db_now s\<rparr>
             in (Inr row, s\<lparr>db_departments := db_departments s @ [row], db_next := Suc (db_next s)\<rparr>)))"

definition department_Create :: "uuid_reader \<Rightarrow> string \<Rightarrow> string option \<Rightarrow> Department tenant_op" where
  "department_Create pu name parentID s =
     (case ValidateDepartmentName name of
        Some e \<Rightarrow> (Inl e, s)
      | None \<Rightarrow>
          (case check_parent pu parentID s of
             (Inl e, s1) \<Rightarrow> (Inl e, s1)
           | (Inr _, s1) \<Rightarrow>
               wrap_err ''creating department''
                 (checked (sql (with_uuid_option pu parentID (insert_department name)) s1))))"

definition department_List :: "Department list tenant_op" where
  "department_List s =
     wrap_err ''listing departments''
       (sql (\<lambda>s. (sort_key dp_CreatedAt (filter (\<lambda>d. visible s (dp_TenantID d)) (db_departments s)), s)) s)"

definition update_department_row :: "string \<Rightarrow> bool \<Rightarrow> uuid option \<Rightarrow> Department \<Rightarrow> Department" where
  "update_department_row name updateParent parent d =
     d\<lparr>dp_Name := (if name = [] then dp_Name d else name),
       dp_ParentID := (if updateParent then parent else dp_ParentID d)\<rparr>"

definition update_department_stmt ::
  "string \<Rightarrow> bool \<Rightarrow> uuid \<Rightarrow> uuid option \<Rightarrow> db \<Rightarrow> (string + Department option) \<times> db" where
  "update_department_stmt name updateParent i parent s =
     (let p = (\<lambda>d. dp_ID d = i \<and> visible s (dp_TenantID d)); f = update_department_row name updateParent parent in
      case find p (db_departments s) of
        None \<Rightarrow> (Inr None, s)
      | Some d \<Rightarrow>
          if updateParent \<and> \<not> parent_exists parent s then (Inl ''foreign key violation: parent_id'', s)
          else (Inr (Some (f d)), s\<lparr>db_departments := upd_where p f (db_departments s)\<rparr>))"

text \<open>A pointer to the empty string clears the parent.\<close>

definition parent_value :: "string option \<Rightarrow> string option" where
  "parent_value parentID = (case parentID of None \<Rightarrow> None | Some p \<Rightarrow> if p = [] then None else Some p)"

definition department_Update :: "uuid_reader \<Rightarrow> string \<Rightarrow> string \<Rightarrow> string option \<Rightarrow> Department tenant_op" where
  "department_Update pu i name parentID s =
     (case (if name = [] then None else ValidateDepartmentName name) of
        Some e \<Rightarrow> (Inl e, s)
      | None \<Rightarrow>
          if parent_value parentID = Some i then (Inl (Sentinel ErrDepartmentSelfParent), s)
          else (case check_parent pu (parent_value parentID) s of
              (Inl e, s1) \<Rightarrow> (Inl e, s1)
            | (Inr _, s1) \<Rightarrow>
                query_row ''updating department'' ErrDepartmentNotFound
                  (checked (sql (with_uuid pu i (\<lambda>u. with_uuid_option pu (parent_value parentID)
                     (update_department_stmt name (parentID \<noteq> None) u))) s1))))"

text \<open>The memberships go with a department; its children and its agents lose the reference.\<close>

definition orphan_department :: "uuid list \<Rightarrow> Department \<Rightarrow> Department" where
  "orphan_department gone d =
     (case dp_ParentID d of None \<Rightarrow> d | Some p \<Rightarrow> if p \<in> set gone then d\<lparr>dp_ParentID := None\<rparr> else d)"

definition orphan_agent :: "uuid list \<Rightarrow> AgentInstance \<Rightarrow> AgentInstance" where
  "orphan_agent gone a =
     (case ai_DepartmentID a of None \<Rightarrow> a | Some d \<Rightarrow> if d \<in> set gone then a\<lparr>ai_DepartmentID := None\<rparr> else a)"

definition delete_department_stmt :: "uuid \<Rightarrow> db \<Rightarrow> (string + nat) \<times> db" where
  "delete_department_stmt i s =
     (let p = (\<lambda>d. dp_ID d = i \<and> visible s (dp_TenantID d)); gone = map dp_ID (filter p (db_departments s)) in
      (Inr (length gone),
       s\<lparr>db_departments := map (orphan_department gone) (filter (\<lambda>d. \<not> p d) (db_departments s)),
         db_user_departments := filter (\<lambda>x. snd x \<notin> set gone) (db_user_departments s),
         db_agents := map (orphan_agent gone) (db_agents s)\<rparr>))"

definition department_Delete :: "uuid_reader \<Rightarrow> string \<Rightarrow> unit tenant_op" where
  "department_Delete pu i s =
     exec_rows ''deleting department'' ErrDepartmentNotFound
       (checked (sql (with_uuid pu i delete_department_stmt) s))"

section \<open>Tenants\<close>

definition slug_char :: "char \<Rightarrow> bool" where
  "slug_char c \<longleftrightarrow> (let n = (of_char c :: nat) in 97 \<le> n \<and> n \<le> 122 \<or> 48 \<le> n \<and> n \<le> 57)"

text \<open>The language of \<open>slugPattern\<close>.\<close>

definition slug_matches :: "string \<Rightarrow> bool" where
  "slug_matches slug \<longleftrightarrow>
     3 \<le> length slug \<and> length slug \<le> 63 \<and> slug_char (hd slug) \<and> slug_char (last slug) \<and>
     list_all (\<lambda>c. slug_char c \<or> c = CHR ''-'') slug"

definition reservedSlugs :: "string list" where
  "reservedSlugs = [''api'', ''app'', ''www'', ''admin'', ''platform'', ''auth'', ''static'', ''assets'']"

definition ValidateSlug :: "string \<Rightarrow> admin_error option" where
  "ValidateSlug slug =
     (if \<not> slug_matches slug then Some (Wrap ''must be 3-63 lowercase alphanumeric characters'' (Sentinel ErrInvalidSlug))
      else if slug \<in> set reservedSlugs then Some (Wrap ''is reserved'' (Sentinel ErrInvalidSlug))
      else None)"

text \<open>The loop that replaces double hyphens until there are none.\<close>

fun has_double :: "string \<Rightarrow> bool" where
  "has_double (a # b # cs) \<longleftrightarrow> a = CHR ''-'' \<and> b = CHR ''-'' \<or> has_double (b # cs)"
| "has_double _ \<longleftrightarrow> False"

fun replace_doubles :: "string \<Rightarrow> string" where
  "replace_doubles (a # b # cs) =
     (if a = CHR ''-'' \<and> b = CHR ''-'' then CHR ''-'' # replace_doubles cs else a # replace_doubles (b # cs))"
| "replace_doubles cs = cs"

lemma replace_doubles_length: "length (replace_doubles cs) \<le> length cs"
  by (induction cs rule: replace_doubles.induct) auto

lemma replace_doubles_shrinks: "has_double cs \<Longrightarrow> length (replace_doubles cs) < length cs"
proof (induction cs rule: replace_doubles.induct)
  case (1 a b cs)
  then show ?case using replace_doubles_length [of cs] by (auto simp: less_Suc_eq_le)
qed simp_all

function collapse :: "string \<Rightarrow> string" where
  "collapse slug = (if has_double slug then collapse (replace_doubles slug) else slug)"
  by pat_completeness auto
termination
  by (relation "measure length") (simp_all add: replace_doubles_shrinks)

declare collapse.simps [simp del]

definition trim_hyphens :: "string \<Rightarrow> string" where
  "trim_hyphens slug = rev (dropWhile (\<lambda>c. c = CHR ''-'') (rev (dropWhile (\<lambda>c. c = CHR ''-'') slug)))"

text \<open>A character of several bytes becomes several hyphens here and one in the code; the loop makes them one.
  The few that \<open>ToLower\<close> maps to ASCII, such as the Kelvin sign, are left out.\<close>

definition GenerateSlug :: "string \<Rightarrow> string" where
  "GenerateSlug name =
     (let slug = trim_hyphens (collapse (map (\<lambda>c. if slug_char c then c else CHR ''-'') (ToLower name)));
          long = (if length slug < 3 then slug @ ''-team'' else slug) in
      take 63 long)"

definition insert_tenant :: "string \<Rightarrow> string \<Rightarrow> db \<Rightarrow> (string + Tenant) \<times> db" where
  "insert_tenant name slug s =
     (if db_rls s then (Inl ''new row violates row-level security policy'', s)
      else if list_ex (\<lambda>t. tn_Slug t = slug) (db_tenant_rows s) then (Inl duplicate_key, s)
      else
        (let row = \<lparr>tn_ID = db_next s, tn_Name = name, tn_Slug = slug, tn_Status = ''active'', tn_CreatedAt = db_now s,
                    tn_UpdatedAt = db_now s\<rparr>
         in (Inr row, s\<lparr>db_tenants := db_tenants s @ [tn_ID row], db_tenant_rows := db_tenant_rows s @ [row],
               db_next := Suc (db_next s)\<rparr>)))"

definition tenant_Create :: "string \<Rightarrow> string \<Rightarrow> Tenant tenant_op" where
  "tenant_Create name slug s =
     (case ValidateSlug slug of
        Some e \<Rightarrow> (Inl e, s)
      | None \<Rightarrow>
          (case checked (sql (insert_tenant name slug) s) of
             (Inl (DBError m), s1) \<Rightarrow>
               (Inl (if is_duplicate m then Wrap slug (Sentinel ErrSlugTaken) else Wrap ''creating tenant'' (DBError m)), s1)
           | (Inl e, s1) \<Rightarrow> (Inl (Wrap ''creating tenant'' e), s1)
           | (Inr t, s1) \<Rightarrow> (Inr t, s1)))"

definition tenant_GetByID :: "uuid_reader \<Rightarrow> string \<Rightarrow> Tenant tenant_op" where
  "tenant_GetByID pu i s =
     query_row ''getting tenant'' ErrTenantNotFound
       (checked (sql (with_uuid pu i (\<lambda>u s. (Inr (find (\<lambda>t. tn_ID t = u) (seen_tenants s)), s))) s))"

record Stats =
  sx_Users :: nat
  sx_Departments :: nat
  sx_Agents :: nat
  sx_Connectors :: nat

definition GetStats :: "uuid_reader \<Rightarrow> string \<Rightarrow> Stats tenant_op" where
  "GetStats pu i s =
     wrap_err ''getting tenant stats''
       (checked (sql (with_uuid pu i (\<lambda>t s.
          (Inr \<lparr>sx_Users = count_where (\<lambda>u. us_TenantID u = t \<and> visible s t) (db_users s),
                 sx_Departments = count_where (\<lambda>d. dp_TenantID d = t \<and> visible s t) (db_departments s),
                 sx_Agents = count_where (\<lambda>a. ai_TenantID a = Some t \<and> visible s t) (db_agents s),
                 sx_Connectors = count_where (\<lambda>c. co_TenantID c = t \<and> visible s t) (db_connectors s)\<rparr>, s))) s))"

definition tenant_List :: "Tenant list tenant_op" where
  "tenant_List s = wrap_err ''listing tenants'' (sql (\<lambda>s. (sort_key tn_CreatedAt (seen_tenants s), s)) s)"

definition default_roles :: "(string \<times> string list) list" where
  "default_roles =
     [(''org_admin'', [''*'']),
      (''dept_head'', [''users:read'', ''users:write'', ''departments:read'', ''departments:write'', ''agents:read'',
         ''agents:write'', ''connectors:read'', ''audit:read'', ''invites:read'', ''invites:write'']),
      (''standard_user'', [''agents:read'', ''agents:write'', ''connectors:read'', ''channels:read'']),
      (''read_only'', [''agents:read'', ''connectors:read'', ''channels:read'', ''audit:read''])]"

definition seed_role :: "uuid \<Rightarrow> string \<times> string list \<Rightarrow> db \<Rightarrow> db" where
  "seed_role t d s =
     (if list_ex (\<lambda>r. rl_TenantID r = t \<and> rl_Name r = fst d) (db_roles s) then s
      else s\<lparr>db_roles := db_roles s @ [\<lparr>rl_ID = db_next s, rl_TenantID = t, rl_Name = fst d, rl_Permissions = snd d,
                                        rl_IsSystem = True, rl_CreatedAt = db_now s\<rparr>],
             db_next := Suc (db_next s)\<rparr>)"

definition seed_stmt :: "uuid \<Rightarrow> db \<Rightarrow> (string + unit) \<times> db" where
  "seed_stmt t s =
     (if \<not> visible s t then (Inl ''new row violates row-level security policy'', s)
      else if t \<notin> set (db_tenants s) then (Inl ''foreign key violation: tenant_id'', s)
      else (Inr (), fold (seed_role t) default_roles s))"

definition SeedDefaultRoles :: "uuid_reader \<Rightarrow> string \<Rightarrow> unit tenant_op" where
  "SeedDefaultRoles pu tenantID s =
     wrap_err ''seeding default roles'' (checked (sql (with_uuid pu tenantID seed_stmt) s))"

end
