(* ===== verification/Auth_Handlers.thy ===== *)
theory Auth_Handlers
  imports Auth_Store Go_JSON
begin

text \<open>
  The endpoints of \<open>internal/auth/handler.go\<close>, \<open>invite_handler.go\<close> and
  \<open>internal/tenant/invite_handler.go\<close>, and the validation of external tokens with the cached keys
  of their issuer (\<open>idtoken.go\<close>, \<open>jwks.go\<close>). \<open>clock i\<close> is the time at the \<open>i\<close>-th reading of the
  clock in a request.
\<close>

type_synonym clock = "nat \<Rightarrow> gotime"

section \<open>Keys of an issuer\<close>

type_synonym rsa_key = "int \<times> int"

record JWKSClient =
  jk_ttl :: duration
  jk_keys :: "string \<rightharpoonup> rsa_key"
  jk_fetchedAt :: gotime

text \<open>The zero \<open>time.Time\<close> is 0 here.\<close>

definition NewJWKSClient :: "duration \<Rightarrow> JWKSClient" where
  "NewJWKSClient ttl = \<lparr>jk_ttl = ttl, jk_keys = Map.empty, jk_fetchedAt = 0\<rparr>"

text \<open>What the key endpoint would answer now: a transport error, or a status and a body.\<close>

type_synonym jwks_answer = "string + (int \<times> raw_json)"

definition parseRSAPublicKey :: "string \<Rightarrow> string \<Rightarrow> rsa_key option" where
  "parseRSAPublicKey nStr eStr =
     (case raw_url_decode nStr of
        None \<Rightarrow> None
      | Some nBytes \<Rightarrow>
          (case raw_url_decode eStr of
             None \<Rightarrow> None
           | Some eBytes \<Rightarrow> Some (int (bytes_number nBytes), wrap64 (int (bytes_number eBytes)))))"

record jwk =
  kx_Kid :: string
  kx_Kty :: string
  kx_N :: string
  kx_E :: string

definition decode_jwk :: "json \<Rightarrow> jwk option" where
  "decode_jwk j =
     (case json_entries j of
        None \<Rightarrow> None
      | Some kvs \<Rightarrow>
          (case (string_field ''kid'' kvs, string_field ''kty'' kvs, string_field ''n'' kvs, string_field ''e'' kvs) of
             (Some kid, Some kty, Some n, Some e) \<Rightarrow> Some \<lparr>kx_Kid = kid, kx_Kty = kty, kx_N = n, kx_E = e\<rparr>
           | _ \<Rightarrow> None))"

definition decode_jwks :: "raw_json \<Rightarrow> jwk list option" where
  "decode_jwks body =
     (case object_entries body of
        None \<Rightarrow> None
      | Some kvs \<Rightarrow> decode_slice decode_jwk (last_value ''keys'' kvs))"

fun jwk_table :: "jwk list \<Rightarrow> (string \<rightharpoonup> rsa_key) \<Rightarrow> (string \<rightharpoonup> rsa_key)" where
  "jwk_table [] m = m"
| "jwk_table (k # ks) m =
     (if kx_Kty k \<noteq> ''RSA'' then jwk_table ks m
      else case parseRSAPublicKey (kx_N k) (kx_E k) of
          None \<Rightarrow> jwk_table ks m
        | Some pub \<Rightarrow> jwk_table ks (m(kx_Kid k \<mapsto> pub)))"

definition jwks_refresh :: "jwks_answer \<Rightarrow> gotime \<Rightarrow> JWKSClient \<Rightarrow> string option \<times> JWKSClient" where
  "jwks_refresh answer now c =
     (case answer of
        Inl e \<Rightarrow> (Some e, c)
      | Inr (status, body) \<Rightarrow>
          if status \<noteq> 200 then (Some ''status'', c)
          else case decode_jwks body of
              None \<Rightarrow> (Some ''decoding JWKS'', c)
            | Some ks \<Rightarrow> (None, c\<lparr>jk_keys := jwk_table ks Map.empty, jk_fetchedAt := now\<rparr>))"

definition GetKey :: "jwks_answer \<Rightarrow> clock \<Rightarrow> string \<Rightarrow> JWKSClient \<Rightarrow> (string + rsa_key) \<times> JWKSClient" where
  "GetKey answer clock kid c =
     (case jk_keys c kid of
        Some key \<Rightarrow>
          if time_Sub (clock 0) (jk_fetchedAt c) < jk_ttl c then (Inr key, c)
          else (case jwks_refresh answer (clock 1) c of
              (Some e, c1) \<Rightarrow> (Inl (''fetching JWKS: '' @ e), c1)
            | (None, c1) \<Rightarrow>
                (case jk_keys c1 kid of None \<Rightarrow> (Inl ''key not found in JWKS'', c1) | Some k \<Rightarrow> (Inr k, c1)))
      | None \<Rightarrow>
          (case jwks_refresh answer (clock 1) c of
              (Some e, c1) \<Rightarrow> (Inl (''fetching JWKS: '' @ e), c1)
            | (None, c1) \<Rightarrow>
                (case jk_keys c1 kid of None \<Rightarrow> (Inl ''key not found in JWKS'', c1) | Some k \<Rightarrow> (Inr k, c1))))"

section \<open>External tokens\<close>

text \<open>
  The calls into \<open>golang-jwt\<close>: the header of a token, unverified, as whether its method is RSA
  and its key id, if that is text; and the claims of a token whose signature, issuer, audience
  (unless empty) and required expiry are as given. A claim that is not text reads as empty.
\<close>

record id_claims =
  ic_azp :: string
  ic_sub :: string
  ic_email :: string
  ic_name :: string
  ic_iss :: string

record id_lib =
  il_header :: "string \<Rightarrow> string + (bool \<times> string option)"
  il_verify :: "rsa_key \<Rightarrow> string \<Rightarrow> string \<Rightarrow> gotime \<Rightarrow> string \<Rightarrow> string + id_claims"

record IDTokenValidator =
  iv_issuer :: string
  iv_audience :: string
  iv_azp :: string
  iv_lib :: id_lib

definition NewIDTokenValidator :: "id_lib \<Rightarrow> string \<Rightarrow> string \<Rightarrow> string \<Rightarrow> duration \<Rightarrow> IDTokenValidator \<times> JWKSClient" where
  "NewIDTokenValidator lib issuer audience azp cacheTTL =
     (\<lparr>iv_issuer = issuer, iv_audience = audience, iv_azp = azp, iv_lib = lib\<rparr>,
      NewJWKSClient (if cacheTTL = 0 then 60 * 60 * 1000000000 else cacheTTL))"

definition idtoken_key ::
  "IDTokenValidator \<Rightarrow> jwks_answer \<Rightarrow> clock \<Rightarrow> string \<Rightarrow> JWKSClient \<Rightarrow> (string + rsa_key) \<times> JWKSClient" where
  "idtoken_key v answer clock token c =
     (case il_header (iv_lib v) token of
        Inl e \<Rightarrow> (Inl e, c)
      | Inr (False, _) \<Rightarrow> (Inl ''unexpected signing method'', c)
      | Inr (True, None) \<Rightarrow> (Inl ''missing kid in token header'', c)
      | Inr (True, Some kid) \<Rightarrow> GetKey answer clock kid c)"

definition idtoken_Validate ::
  "IDTokenValidator \<Rightarrow> jwks_answer \<Rightarrow> clock \<Rightarrow> string \<Rightarrow> JWKSClient \<Rightarrow> (string + OIDCUserInfo) \<times> JWKSClient" where
  "idtoken_Validate v answer clock token c =
     (case idtoken_key v answer clock token c of
        (Inl e, c1) \<Rightarrow> (Inl (''validating id_token: '' @ e), c1)
      | (Inr key, c1) \<Rightarrow>
          (case il_verify (iv_lib v) key (iv_issuer v) (iv_audience v) (clock 2) token of
             Inl e \<Rightarrow> (Inl (''validating id_token: '' @ e), c1)
           | Inr claims \<Rightarrow>
               if iv_audience v = [] \<and> iv_azp v \<noteq> [] \<and> ic_azp claims \<noteq> iv_azp v then (Inl ''azp mismatch'', c1)
               else if ic_sub claims = [] then (Inl ''missing sub claim'', c1)
               else (Inr \<lparr>oi_Issuer = ic_iss claims, oi_Subject = ic_sub claims, oi_Email = ic_email claims,
                          oi_Name = ic_name claims\<rparr>, c1)))"

section \<open>The handler\<close>

record OIDCProvider =
  op_AuthCodeURL :: "string \<Rightarrow> string"
  op_Exchange :: "string \<Rightarrow> string + OIDCUserInfo"

text \<open>A dependency that may be \<open>nil\<close> is an option, or a flag when it has no configuration.\<close>

record auth_handler =
  ah_lib :: jwt_lib
  ah_parse_uuid :: "string \<Rightarrow> uuid option"
  ah_show_uuid :: "uuid \<Rightarrow> string"
  ah_tokenSvc :: TokenService
  ah_store :: bool
  ah_refreshStore :: bool
  ah_oidc :: "OIDCProvider option"
  ah_stateStore :: StateStore
  ah_tenantResolver :: "TenantResolver option"
  ah_idTokenValidator :: "IDTokenValidator option"

record tokenUserInfo =
  tu_ID :: string
  tu_Email :: string
  tu_DisplayName :: string
  tu_TenantID :: string
  tu_IsPlatformAdmin :: bool

datatype auth_body =
    AuthMessage string
  | TokensBody string string
  | DevLoginBody string string int tokenUserInfo
  | ExchangeBody string string int bool tokenUserInfo
  | RedirectBody string

text \<open>A cookie is the value of \<open>__Host-oidc_state\<close> and its \<open>MaxAge\<close>.\<close>

record auth_response =
  re_Status :: int
  re_Cookies :: "(string \<times> int) list"
  re_Body :: auth_body

definition auth_writeJSON :: "int \<Rightarrow> auth_body \<Rightarrow> auth_response" where
  "auth_writeJSON status body = \<lparr>re_Status = status, re_Cookies = [], re_Body = body\<rparr>"

definition auth_failure :: "int \<Rightarrow> string \<Rightarrow> auth_response" where
  "auth_failure status msg = auth_writeJSON status (AuthMessage msg)"

definition user_info :: "Identity \<Rightarrow> tokenUserInfo" where
  "user_info i = \<lparr>tu_ID = au_UserID i, tu_Email = au_Email i, tu_DisplayName = au_DisplayName i,
                  tu_TenantID = au_TenantID i, tu_IsPlatformAdmin = au_IsPlatformAdmin i\<rparr>"

definition body_string :: "string \<Rightarrow> raw_json \<Rightarrow> string option" where
  "body_string name body = (case object_entries body of None \<Rightarrow> None | Some kvs \<Rightarrow> string_field name kvs)"

subsection \<open>Development login\<close>

definition HandleDevLogin :: "auth_handler \<Rightarrow> clock \<Rightarrow> raw_json \<Rightarrow> db \<Rightarrow> auth_response \<times> db" where
  "HandleDevLogin h clock body s =
     (case body_string ''email'' body of
        None \<Rightarrow> (auth_failure 400 ''invalid request body'', s)
      | Some email \<Rightarrow>
          if email = [] then (auth_failure 400 ''email is required'', s)
          else if \<not> ah_store h then (auth_failure 503 ''user store not configured'', s)
          else case FindUserIDByEmail (ah_show_uuid h) email s of
              (Inl e, s1) \<Rightarrow>
                (if errors_Is e ErrUserNotFound then auth_failure 404 ''user not found''
                 else auth_failure 500 ''user lookup failed'', s1)
            | (Inr userID, s1) \<Rightarrow>
                (case GetIdentityWithRoles (ah_parse_uuid h) (ah_show_uuid h) userID s1 of
                   (Inl _, s2) \<Rightarrow> (auth_failure 500 ''identity loading failed'', s2)
                 | (Inr identity, s2) \<Rightarrow>
                     (case CreateAccessToken (ah_lib h) (ah_tokenSvc h) (clock 0) identity of
                        Inl _ \<Rightarrow> (auth_failure 500 ''token creation failed'', s2)
                      | Inr access \<Rightarrow>
                          (case CreateRefreshToken (ah_lib h) (ah_tokenSvc h) (clock 1) identity of
                             Inl _ \<Rightarrow> (auth_failure 500 ''token creation failed'', s2)
                           | Inr refresh \<Rightarrow>
                               (auth_writeJSON 200 (DevLoginBody access refresh
                                  (AccessTokenExpirySeconds (ah_tokenSvc h)) (user_info identity)), s2)))))"

subsection \<open>Token exchange\<close>

definition email_at_ok :: "string \<Rightarrow> bool" where
  "email_at_ok email =
     (let before = takeWhile (\<lambda>c. c \<noteq> CHR ''@'') email; rest = dropWhile (\<lambda>c. c \<noteq> CHR ''@'') email in
      before \<noteq> [] \<and> 1 < length rest \<and> CHR ''@'' \<notin> set (tl rest))"

definition isValidEmail :: "string \<Rightarrow> bool" where
  "isValidEmail email = (length email \<le> 254 \<and> email_at_ok email)"

record exchange_request =
  xr_IDToken :: string
  xr_TenantSlug :: string
  xr_EmailHint :: string

definition decode_exchange :: "raw_json \<Rightarrow> exchange_request option" where
  "decode_exchange body =
     (case (body_string ''id_token'' body, body_string ''tenant_slug'' body, body_string ''email_hint'' body) of
        (Some i, Some t, Some e) \<Rightarrow> Some \<lparr>xr_IDToken = i, xr_TenantSlug = t, xr_EmailHint = e\<rparr>
      | _ \<Rightarrow> None)"

text \<open>Failures of the resolution leave the tenant empty.\<close>

definition exchange_by_slug :: "auth_handler \<Rightarrow> string \<Rightarrow> db \<Rightarrow> string \<times> db" where
  "exchange_by_slug h slug s =
     (if slug = [] then ([], s)
      else case ResolveBySlug (ah_show_uuid h) slug s of (Inl _, s1) \<Rightarrow> ([], s1) | (Inr t, s1) \<Rightarrow> (t, s1))"

definition exchange_by_origin :: "auth_handler \<Rightarrow> TenantResolver \<Rightarrow> string \<Rightarrow> db \<Rightarrow> string \<times> db" where
  "exchange_by_origin h tr origin s =
     (if origin = [] then ([], s)
      else case ResolveFromOrigin tr (ah_show_uuid h) origin s of (Inl _, s1) \<Rightarrow> ([], s1) | (Inr t, s1) \<Rightarrow> (t, s1))"

definition exchange_tenant :: "auth_handler \<Rightarrow> string \<Rightarrow> string \<Rightarrow> db \<Rightarrow> string \<times> db" where
  "exchange_tenant h slug origin s =
     (case ah_tenantResolver h of
        None \<Rightarrow> ([], s)
      | Some tr \<Rightarrow>
          (case exchange_by_slug h slug s of
             (t, s1) \<Rightarrow> if t = [] then exchange_by_origin h tr origin s1 else (t, s1)))"

text \<open>Whether a request without a tenant may go on.\<close>

definition exchange_admin :: "auth_handler \<Rightarrow> OIDCUserInfo \<Rightarrow> string \<Rightarrow> db \<Rightarrow> bool \<times> db" where
  "exchange_admin h info tenantID s =
     (if tenantID \<noteq> [] then (True, s)
      else case LookupPlatformAdminByOIDC (ah_parse_uuid h) (ah_show_uuid h) (oi_Issuer info) (oi_Subject info) s of
          (Inr (Some _), s1) \<Rightarrow> (True, s1)
        | (_, s1) \<Rightarrow> (False, s1))"

definition exchange_role :: "auth_handler \<Rightarrow> bool \<Rightarrow> string \<Rightarrow> string \<Rightarrow> db \<Rightarrow> db" where
  "exchange_role h created userID tenantID s =
     (if created \<and> tenantID \<noteq> []
      then snd (AssignRole (ah_parse_uuid h) userID tenantID ''standard_user'' s) else s)"

text \<open>
  The refresh token of a family. The identity keeps the family even when the token could not be
  created; the error of \<open>SetInitialTokenHash\<close> is dropped.
\<close>

definition exchange_refresh :: "auth_handler \<Rightarrow> clock \<Rightarrow> Identity \<Rightarrow> db \<Rightarrow> (string \<times> Identity) \<times> db" where
  "exchange_refresh h clock identity s =
     (if \<not> ah_refreshStore h then (([], identity), s)
      else case CreateFamilyAndReturnID (ah_parse_uuid h) (ah_show_uuid h) (au_TenantID identity) (au_UserID identity) s of
          (Inl _, s1) \<Rightarrow> (([], identity), s1)
        | (Inr familyID, s1) \<Rightarrow>
            (let i1 = identity\<lparr>au_FamilyID := familyID, au_Generation := 1\<rparr> in
             case CreateRefreshToken (ah_lib h) (ah_tokenSvc h) (clock 4) i1 of
               Inl _ \<Rightarrow> (([], i1), s1)
             | Inr token \<Rightarrow>
                 ((token, i1),
                  snd (SetInitialTokenHash (ah_parse_uuid h) familyID (au_TenantID i1) (HashToken token) s1))))"

definition exchange_tokens :: "auth_handler \<Rightarrow> clock \<Rightarrow> bool \<Rightarrow> Identity \<Rightarrow> db \<Rightarrow> auth_response \<times> db" where
  "exchange_tokens h clock created identity s =
     (case CreateAccessToken (ah_lib h) (ah_tokenSvc h) (clock 3) identity of
        Inl _ \<Rightarrow> (auth_failure 500 ''token creation failed'', s)
      | Inr access \<Rightarrow>
          (case exchange_refresh h clock identity s of
             ((token, i1), s1) \<Rightarrow>
               (case (if token = [] then CreateRefreshToken (ah_lib h) (ah_tokenSvc h) (clock 5) i1 else Inr token) of
                  Inl _ \<Rightarrow> (auth_failure 500 ''token creation failed'', s1)
                | Inr refresh \<Rightarrow>
                    (auth_writeJSON 200 (ExchangeBody access refresh
                       (AccessTokenExpirySeconds (ah_tokenSvc h)) created (user_info i1)), s1))))"

definition exchange_user :: "auth_handler \<Rightarrow> clock \<Rightarrow> OIDCUserInfo \<Rightarrow> string \<Rightarrow> db \<Rightarrow> auth_response \<times> db" where
  "exchange_user h clock info tenantID s =
     (case FindOrCreateByOIDC (ah_parse_uuid h) (ah_show_uuid h) info tenantID s of
        (Inl _, s1) \<Rightarrow> (auth_failure 500 ''user resolution failed'', s1)
      | (Inr (identity, created), s1) \<Rightarrow>
          (case GetIdentityWithRoles (ah_parse_uuid h) (ah_show_uuid h) (au_UserID identity)
                  (exchange_role h created (au_UserID identity) tenantID s1) of
             (Inl _, s2) \<Rightarrow> (auth_failure 500 ''loading identity failed'', s2)
           | (Inr full, s2) \<Rightarrow> exchange_tokens h clock created full s2))"

definition exchange_verified ::
  "auth_handler \<Rightarrow> clock \<Rightarrow> exchange_request \<Rightarrow> string \<Rightarrow> OIDCUserInfo \<Rightarrow> db \<Rightarrow> auth_response \<times> db" where
  "exchange_verified h clock req origin info s =
     (let hinted = (oi_Email info = [] \<and> xr_EmailHint req \<noteq> []);
          info1 = (if hinted then info\<lparr>oi_Email := xr_EmailHint req\<rparr> else info) in
      if hinted \<and> \<not> isValidEmail (xr_EmailHint req) then (auth_failure 400 ''invalid email_hint'', s)
      else if \<not> ah_store h then (auth_failure 503 ''auth store not configured'', s)
      else case exchange_tenant h (xr_TenantSlug req) origin s of
          (tenantID, s1) \<Rightarrow>
            (case exchange_admin h info1 tenantID s1 of
               (False, s2) \<Rightarrow> (auth_failure 404 ''tenant not found'', s2)
             | (True, s2) \<Rightarrow> exchange_user h clock info1 tenantID s2))"

definition HandleExchange ::
  "auth_handler \<Rightarrow> jwks_answer \<Rightarrow> clock \<Rightarrow> http_header \<Rightarrow> raw_json \<Rightarrow> JWKSClient \<Rightarrow> db \<Rightarrow>
   auth_response \<times> JWKSClient \<times> db" where
  "HandleExchange h answer clock headers body c s =
     (case ah_idTokenValidator h of
        None \<Rightarrow> (auth_failure 503 ''OIDC token exchange not configured'', c, s)
      | Some v \<Rightarrow>
          (case decode_exchange body of
             None \<Rightarrow> (auth_failure 400 ''missing or invalid id_token'', c, s)
           | Some req \<Rightarrow>
               if xr_IDToken req = [] then (auth_failure 400 ''missing or invalid id_token'', c, s)
               else (case idtoken_Validate v answer clock (xr_IDToken req) c of
                  (Inl _, c1) \<Rightarrow> (auth_failure 401 ''invalid id_token'', c1, s)
                | (Inr info, c1) \<Rightarrow>
                    (case exchange_verified h clock req (header_Get headers ''Origin'') info s of
                       (r, s1) \<Rightarrow> (r, c1, s1)))))"

subsection \<open>The authorization code flow\<close>

definition HandleLogin :: "auth_handler \<Rightarrow> string option \<Rightarrow> gotime \<Rightarrow> auth_response" where
  "HandleLogin h random now =
     (case ah_oidc h of
        None \<Rightarrow> auth_failure 503 ''OIDC not configured''
      | Some oidc \<Rightarrow>
          (case state_Generate (ah_stateStore h) random now of
             Inl _ \<Rightarrow> auth_failure 500 ''failed to generate state''
           | Inr state \<Rightarrow>
               \<lparr>re_Status = 307, re_Cookies = [(state, 600)], re_Body = RedirectBody (op_AuthCodeURL oidc state)\<rparr>))"

text \<open>The query parameters read as empty when absent; the cookie is absent or a value.\<close>

record callback_request =
  cb_state :: string
  cb_code :: string
  cb_cookie :: "string option"
  cb_host :: string

text \<open>The response, if the user is a platform administrator.\<close>

definition tryPlatformAdminCallback ::
  "auth_handler \<Rightarrow> clock \<Rightarrow> OIDCUserInfo \<Rightarrow> db \<Rightarrow> auth_response option \<times> db" where
  "tryPlatformAdminCallback h clock info s =
     (if \<not> ah_store h then (None, s)
      else case LookupPlatformAdminByOIDC (ah_parse_uuid h) (ah_show_uuid h) (oi_Issuer info) (oi_Subject info) s of
          (Inr (Some admin), s1) \<Rightarrow>
            (let identity = admin\<lparr>au_TenantID := []\<rparr> in
             case CreateAccessToken (ah_lib h) (ah_tokenSvc h) (clock 1) identity of
               Inl _ \<Rightarrow> (Some (auth_failure 500 ''token creation failed''), s1)
             | Inr access \<Rightarrow>
                 (case CreateRefreshToken (ah_lib h) (ah_tokenSvc h) (clock 2) identity of
                    Inl _ \<Rightarrow> (Some (auth_failure 500 ''token creation failed''), s1)
                  | Inr refresh \<Rightarrow> (Some (auth_writeJSON 200 (TokensBody access refresh)), s1)))
        | (_, s1) \<Rightarrow> (None, s1))"

text \<open>A refresh token with its family, or the message of the failure.\<close>

definition callback_family :: "auth_handler \<Rightarrow> clock \<Rightarrow> Identity \<Rightarrow> db \<Rightarrow> (string + string) \<times> db" where
  "callback_family h clock identity s =
     (case CreateFamilyAndReturnID (ah_parse_uuid h) (ah_show_uuid h) (au_TenantID identity) (au_UserID identity) s of
        (Inl _, s1) \<Rightarrow> (Inl ''token family creation failed'', s1)
      | (Inr familyID, s1) \<Rightarrow>
          (case CreateRefreshToken (ah_lib h) (ah_tokenSvc h) (clock 2)
                  (identity\<lparr>au_FamilyID := familyID, au_Generation := 1\<rparr>) of
             Inl _ \<Rightarrow> (Inl ''token creation failed'', s1)
           | Inr token \<Rightarrow>
               (case SetInitialTokenHash (ah_parse_uuid h) familyID (au_TenantID identity) (HashToken token) s1 of
                  (Inl _, s2) \<Rightarrow> (Inl ''token family initialization failed'', s2)
                | (Inr _, s2) \<Rightarrow> (Inr token, s2))))"

definition callback_refresh :: "auth_handler \<Rightarrow> clock \<Rightarrow> Identity \<Rightarrow> db \<Rightarrow> (string + string) \<times> db" where
  "callback_refresh h clock identity s =
     (if ah_refreshStore h then callback_family h clock identity s
      else case CreateRefreshToken (ah_lib h) (ah_tokenSvc h) (clock 2) identity of
          Inl _ \<Rightarrow> (Inl ''token creation failed'', s)
        | Inr token \<Rightarrow> (Inr token, s))"

definition callback_user :: "auth_handler \<Rightarrow> clock \<Rightarrow> OIDCUserInfo \<Rightarrow> string \<Rightarrow> db \<Rightarrow> auth_response \<times> db" where
  "callback_user h clock info tenantID s =
     (case FindOrCreateByOIDC (ah_parse_uuid h) (ah_show_uuid h) info tenantID s of
        (Inl _, s1) \<Rightarrow> (auth_failure 500 ''user lookup failed'', s1)
      | (Inr (identity, _), s1) \<Rightarrow>
          (case GetIdentityWithRoles (ah_parse_uuid h) (ah_show_uuid h) (au_UserID identity) s1 of
             (Inl _, s2) \<Rightarrow> (auth_failure 500 ''identity loading failed'', s2)
           | (Inr full, s2) \<Rightarrow>
               (case CreateAccessToken (ah_lib h) (ah_tokenSvc h) (clock 1) full of
                  Inl _ \<Rightarrow> (auth_failure 500 ''token creation failed'', s2)
                | Inr access \<Rightarrow>
                    (case callback_refresh h clock full s2 of
                       (Inl msg, s3) \<Rightarrow> (auth_failure 500 msg, s3)
                     | (Inr refresh, s3) \<Rightarrow> (auth_writeJSON 200 (TokensBody access refresh), s3)))))"

definition callback_admin ::
  "auth_handler \<Rightarrow> clock \<Rightarrow> OIDCUserInfo \<Rightarrow> int \<Rightarrow> string \<Rightarrow> db \<Rightarrow> auth_response \<times> db" where
  "callback_admin h clock info status msg s =
     (case tryPlatformAdminCallback h clock info s of
        (Some r, s1) \<Rightarrow> (r, s1)
      | (None, s1) \<Rightarrow> (auth_failure status msg, s1))"

text \<open>What follows the validation of the state; the responses carry the cleared cookie.\<close>

definition callback_exchange ::
  "auth_handler \<Rightarrow> OIDCProvider \<Rightarrow> clock \<Rightarrow> callback_request \<Rightarrow> db \<Rightarrow> auth_response \<times> db" where
  "callback_exchange h oidc clock req s =
     (if \<not> ah_store h then (auth_failure 503 ''user store not configured'', s)
      else if cb_code req = [] then (auth_failure 400 ''missing code parameter'', s)
      else case op_Exchange oidc (cb_code req) of
          Inl _ \<Rightarrow> (auth_failure 401 ''OIDC exchange failed'', s)
        | Inr info \<Rightarrow>
            (case ah_tenantResolver h of
               None \<Rightarrow> callback_admin h clock info 503 ''tenant resolution not configured'' s
             | Some tr \<Rightarrow>
                 (case ResolveFromRequest tr (ah_show_uuid h) (cb_host req) s of
                    (Inl _, s1) \<Rightarrow> callback_admin h clock info 400 ''cannot resolve tenant'' s1
                  | (Inr tenantID, s1) \<Rightarrow> callback_user h clock info tenantID s1)))"

definition HandleCallback :: "auth_handler \<Rightarrow> clock \<Rightarrow> callback_request \<Rightarrow> db \<Rightarrow> auth_response \<times> db" where
  "HandleCallback h clock req s =
     (case ah_oidc h of
        None \<Rightarrow> (auth_failure 503 ''OIDC not configured'', s)
      | Some oidc \<Rightarrow>
          if cb_state req = [] then (auth_failure 400 ''missing state parameter'', s)
          else if cb_cookie req \<noteq> Some (cb_state req) then (auth_failure 400 ''invalid state parameter'', s)
          else if \<not> state_Validate (ah_stateStore h) (cb_state req) (clock 0)
          then (auth_failure 400 ''invalid state parameter'', s)
          else case callback_exchange h oidc clock req s of
              (r, s1) \<Rightarrow> (r\<lparr>re_Cookies := [([], -1)]\<rparr>, s1))"

subsection \<open>Refresh\<close>

definition classifyRotationError :: "auth_error \<Rightarrow> int \<times> string" where
  "classifyRotationError err =
     (if errors_Is err ErrTokenReuse then (401, ''token reuse detected'')
      else if errors_Is err ErrFamilyRevoked then (401, ''token family revoked'')
      else if errors_Is err ErrFamilyNotFound then (401, ''invalid token family'')
      else if errors_Is err ErrLegacyTokenReplay then (401, ''legacy token already upgraded'')
      else (500, ''token rotation failed''))"

definition upgradeLegacyToken ::
  "auth_handler \<Rightarrow> clock \<Rightarrow> Identity \<Rightarrow> string \<Rightarrow> (Identity \<times> string) auth_op" where
  "upgradeLegacyToken h clock identity presentedJWT s =
     (let legacyHash = HashToken presentedJWT; pu = ah_parse_uuid h in
      case IsLegacyTokenUpgraded pu (au_UserID identity) (au_TenantID identity) legacyHash s of
        (Inl e, s1) \<Rightarrow> (Inl (Wrap ''checking legacy token upgrade'' e), s1)
      | (Inr True, s1) \<Rightarrow> (Inl (Sentinel ErrLegacyTokenReplay), s1)
      | (Inr False, s1) \<Rightarrow>
          (case CreateFamilyForLegacyUpgrade pu (ah_show_uuid h) (au_TenantID identity) (au_UserID identity) legacyHash s1 of
             (Inl e, s2) \<Rightarrow> (Inl (Wrap ''upgrading legacy token'' e), s2)
           | (Inr familyID, s2) \<Rightarrow>
               (let i1 = identity\<lparr>au_FamilyID := familyID, au_Generation := 1\<rparr> in
                case CreateRefreshToken (ah_lib h) (ah_tokenSvc h) (clock 1) i1 of
                  Inl e \<Rightarrow> (Inl (Wrap ''creating refresh token for legacy upgrade'' (NewError e)), s2)
                | Inr token \<Rightarrow>
                    (case SetInitialTokenHash pu familyID (au_TenantID identity) (HashToken token) s2 of
                       (Inl e, s3) \<Rightarrow> (Inl (Wrap ''setting hash for legacy upgrade'' e), s3)
                     | (Inr _, s3) \<Rightarrow> (Inr (i1, token), s3)))))"

definition rotateRefreshToken ::
  "auth_handler \<Rightarrow> clock \<Rightarrow> Identity \<Rightarrow> string \<Rightarrow> (Identity \<times> string) auth_op" where
  "rotateRefreshToken h clock identity presentedJWT s =
     (if au_FamilyID identity = [] then upgradeLegacyToken h clock identity presentedJWT s
      else
        (let i1 = identity\<lparr>au_Generation := wrap64 (au_Generation identity + 1)\<rparr> in
         case CreateRefreshToken (ah_lib h) (ah_tokenSvc h) (clock 1) i1 of
           Inl e \<Rightarrow> (Inl (Wrap ''creating rotated refresh token'' (NewError e)), s)
         | Inr token \<Rightarrow>
             (case RotateToken (ah_parse_uuid h) (au_FamilyID identity) (au_TenantID identity)
                     (HashToken presentedJWT) (au_Generation identity) (HashToken token) s of
                (Inl e, s1) \<Rightarrow> (Inl e, s1)
              | (Inr _, s1) \<Rightarrow> (Inr (i1, token), s1))))"

definition refresh_stateless :: "auth_handler \<Rightarrow> clock \<Rightarrow> Identity \<Rightarrow> auth_response" where
  "refresh_stateless h clock identity =
     (case CreateAccessToken (ah_lib h) (ah_tokenSvc h) (clock 1) identity of
        Inl _ \<Rightarrow> auth_failure 500 ''token creation failed''
      | Inr access \<Rightarrow>
          (case CreateRefreshToken (ah_lib h) (ah_tokenSvc h) (clock 2) identity of
             Inl _ \<Rightarrow> auth_failure 500 ''token creation failed''
           | Inr refresh \<Rightarrow> auth_writeJSON 200 (TokensBody access refresh)))"

definition refresh_stored :: "auth_handler \<Rightarrow> clock \<Rightarrow> Identity \<Rightarrow> string \<Rightarrow> db \<Rightarrow> auth_response \<times> db" where
  "refresh_stored h clock identity token s =
     (case rotateRefreshToken h clock identity token s of
        (Inl e, s1) \<Rightarrow> (case classifyRotationError e of (status, msg) \<Rightarrow> (auth_failure status msg, s1))
      | (Inr (i1, refresh), s1) \<Rightarrow>
          (case CreateAccessToken (ah_lib h) (ah_tokenSvc h) (clock 2) i1 of
             Inl _ \<Rightarrow> (auth_failure 500 ''token creation failed'', s1)
           | Inr access \<Rightarrow> (auth_writeJSON 200 (TokensBody access refresh), s1)))"

definition HandleRefresh :: "auth_handler \<Rightarrow> clock \<Rightarrow> raw_json \<Rightarrow> db \<Rightarrow> auth_response \<times> db" where
  "HandleRefresh h clock body s =
     (case body_string ''refresh_token'' body of
        None \<Rightarrow> (auth_failure 400 ''invalid request body'', s)
      | Some token \<Rightarrow>
          (case ValidateToken (ah_lib h) (ah_tokenSvc h) (clock 0) token of
             Inl _ \<Rightarrow> (auth_failure 401 ''invalid refresh token'', s)
           | Inr identity \<Rightarrow>
               if au_TokenType identity \<noteq> ''refresh'' then (auth_failure 401 ''refresh token required'', s)
               else if ah_refreshStore h then refresh_stored h clock identity token s
               else (refresh_stateless h clock identity, s)))"

subsection \<open>Invites\<close>

text \<open>The adapter of \<open>main.go\<close> gives the sentinels of one package the names of the other; they are one here.\<close>

definition inviteRedeemAdapter ::
  "auth_handler \<Rightarrow> string \<Rightarrow> string \<Rightarrow> (string \<times> string) auth_op" where
  "inviteRedeemAdapter h code userID s =
     (case Redeem (ah_parse_uuid h) code userID s of
        (Inl e, s1) \<Rightarrow>
          (Inl (if errors_Is e ErrInviteNotFound then Sentinel ErrInviteNotFound
                else if errors_Is e ErrInviteExpired then Sentinel ErrInviteExpired
                else if errors_Is e ErrInviteUsed then Sentinel ErrInviteUsed
                else e), s1)
      | (Inr invite, s1) \<Rightarrow> (Inr (ah_show_uuid h (iv_TenantID invite), iv_Role invite), s1))"

definition redeem_error :: "auth_error \<Rightarrow> auth_response" where
  "redeem_error e =
     (if errors_Is e ErrInviteNotFound then auth_failure 400 ''invite not found''
      else if errors_Is e ErrInviteExpired then auth_failure 400 ''invite has expired''
      else if errors_Is e ErrInviteUsed then auth_failure 400 ''invite has already been used''
      else auth_failure 500 ''failed to redeem invite'')"

text \<open>The new tokens, once the user is in the tenant of the invite.\<close>

definition redeem_tokens :: "auth_handler \<Rightarrow> clock \<Rightarrow> string \<Rightarrow> db \<Rightarrow> auth_response \<times> db" where
  "redeem_tokens h clock userID s =
     (case GetIdentityWithRoles (ah_parse_uuid h) (ah_show_uuid h) userID s of
        (Inl _, s1) \<Rightarrow> (auth_failure 500 ''failed to load updated identity'', s1)
      | (Inr updated, s1) \<Rightarrow>
          (case CreateAccessToken (ah_lib h) (ah_tokenSvc h) (clock 0) updated of
             Inl _ \<Rightarrow> (auth_failure 500 ''failed to create access token'', s1)
           | Inr access \<Rightarrow>
               (case CreateRefreshToken (ah_lib h) (ah_tokenSvc h) (clock 1) updated of
                  Inl _ \<Rightarrow> (auth_failure 500 ''failed to create refresh token'', s1)
                | Inr refresh \<Rightarrow>
                    (auth_writeJSON 200 (DevLoginBody access refresh 86400 (user_info updated)), s1))))"

definition HandleRedeem ::
  "auth_handler \<Rightarrow> clock \<Rightarrow> Identity option \<Rightarrow> raw_json \<Rightarrow> db \<Rightarrow> auth_response \<times> db" where
  "HandleRedeem h clock identity body s =
     (case identity of
        None \<Rightarrow> (auth_failure 401 ''authentication required'', s)
      | Some i \<Rightarrow>
          (case body_string ''code'' body of
             None \<Rightarrow> (auth_failure 400 ''invite code required'', s)
           | Some code \<Rightarrow>
               if code = [] then (auth_failure 400 ''invite code required'', s)
               else case inviteRedeemAdapter h code (au_UserID i) s of
                   (Inl e, s1) \<Rightarrow> (redeem_error e, s1)
                 | (Inr (tenantID, role), s1) \<Rightarrow>
                     (case UpdateUserTenant (ah_parse_uuid h) (au_UserID i) tenantID s1 of
                        (Inl _, s2) \<Rightarrow> (auth_failure 500 ''failed to assign user to tenant'', s2)
                      | (Inr _, s2) \<Rightarrow>
                          (case AssignRole (ah_parse_uuid h) (au_UserID i) tenantID role s2 of
                             (Inl _, s3) \<Rightarrow> (auth_failure 500 ''failed to assign role'', s3)
                           | (Inr _, s3) \<Rightarrow> redeem_tokens h clock (au_UserID i) s3))))"

text \<open>The administration of invites by the tenant.\<close>

datatype invite_body =
    InviteMessage string
  | InviteBody Invite
  | InvitesBody "Invite list"
  | InviteGone

definition allowedInviteRoles :: "string list" where
  "allowedInviteRoles = [''org_admin'', ''dept_head'', ''standard_user'', ''read_only'']"

definition invite_HandleCreate ::
  "(string \<Rightarrow> uuid option) \<Rightarrow> string option \<Rightarrow> gotime \<Rightarrow> Identity option \<Rightarrow> string \<Rightarrow> raw_json \<Rightarrow> db \<Rightarrow> (int \<times> invite_body) \<times> db" where
  "invite_HandleCreate pu random wall identity contextTenant body s =
     (case identity of
        None \<Rightarrow> ((401, InviteMessage ''authentication required''), s)
      | Some i \<Rightarrow>
          if contextTenant = [] then ((400, InviteMessage ''tenant context required''), s)
          else case body_string ''role'' body of
              None \<Rightarrow> ((400, InviteMessage ''invalid request body''), s)
            | Some given \<Rightarrow>
                (let role = (if given = [] then ''standard_user'' else given) in
                 if role \<notin> set allowedInviteRoles then ((400, InviteMessage ''invalid role''), s)
                 else case invite_Create pu random wall contextTenant (au_UserID i) role (7 * 24 * 3600 * 1000000000) s of
                     (Inl _, s1) \<Rightarrow> ((500, InviteMessage ''failed to create invite''), s1)
                   | (Inr invite, s1) \<Rightarrow> ((201, InviteBody invite), s1)))"

definition invite_HandleList ::
  "(string \<Rightarrow> uuid option) \<Rightarrow> Identity option \<Rightarrow> string \<Rightarrow> db \<Rightarrow> (int \<times> invite_body) \<times> db" where
  "invite_HandleList pu identity contextTenant s =
     (case identity of
        None \<Rightarrow> ((401, InviteMessage ''authentication required''), s)
      | Some i \<Rightarrow>
          if contextTenant = [] then ((400, InviteMessage ''tenant context required''), s)
          else case invite_ListByTenant pu contextTenant s of
              (Inl _, s1) \<Rightarrow> ((500, InviteMessage ''failed to list invites''), s1)
            | (Inr invites, s1) \<Rightarrow> ((200, InvitesBody invites), s1))"

definition invite_HandleDelete ::
  "(string \<Rightarrow> uuid option) \<Rightarrow> Identity option \<Rightarrow> string \<Rightarrow> string \<Rightarrow> db \<Rightarrow> (int \<times> invite_body) \<times> db" where
  "invite_HandleDelete pu identity contextTenant pathID s =
     (case identity of
        None \<Rightarrow> ((401, InviteMessage ''authentication required''), s)
      | Some i \<Rightarrow>
          if contextTenant = [] then ((400, InviteMessage ''tenant context required''), s)
          else if pathID = [] then ((400, InviteMessage ''invite id required''), s)
          else case invite_Delete pu pathID contextTenant s of
              (Inl e, s1) \<Rightarrow>
                (if errors_Is e ErrInviteNotFound then (404, InviteMessage ''invite not found'')
                 else (500, InviteMessage ''failed to delete invite''), s1)
            | (Inr _, s1) \<Rightarrow> ((204, InviteGone), s1))"

end
