(* ===== verification/Tenant_Handlers.thy ===== *)
theory Tenant_Handlers
  imports Tenant_Store Auth_Handlers
begin

text \<open>
  The endpoints of the tenant administration (\<open>role_handler.go\<close>, \<open>user_handler.go\<close>,
  \<open>department_handler.go\<close>, \<open>handler.go\<close>, \<open>onboarding_handler.go\<close>). A request finds the tenant of its
  context; roles that change are loaded anew into the evaluator; changes are written to the audit log.
\<close>

section \<open>State, requests and responses\<close>

record audit_Event =
  ad_TenantID :: "uuid option"
  ad_UserID :: "uuid option"
  ad_Action :: string
  ad_ResourceType :: string
  ad_ResourceID :: "uuid option"
  ad_Metadata :: "(string \<times> json) list"
  ad_Source :: string

text \<open>\<open>None\<close> for a UUID is its zero value, and no pointer for the actor.\<close>

record tenant_handler =
  th_parse_uuid :: uuid_reader
  th_show_uuid :: "uuid \<Rightarrow> string"
  th_collate :: "string \<Rightarrow> nat"
  th_parses_mail :: "string \<Rightarrow> bool"
  th_audited :: bool

record tenant_world =
  tw_db :: db
  tw_evaluator :: "Evaluator option"
  tw_events :: "audit_Event list"

text \<open>The context tenant, the identity, the path values and the first JSON value of the body.\<close>

record tenant_request =
  tq_tenant :: string
  tq_identity :: "Identity option"
  tq_id :: string
  tq_dept :: string
  tq_body :: raw_json

datatype tenant_body =
    TenantMessage string
  | TenantFault admin_error
  | RoleBody Role
  | RolesBody "Role list"
  | UserRolesBody "(UserRole \<times> string) list"
  | UserBody User
  | UsersBody "User list"
  | DepartmentBody Department
  | DepartmentsBody "Department list"
  | TenantBody Tenant "Stats option"
  | TenantsBody "Tenant list"
  | StatusOK
  | NoContent

type_synonym tenant_response = "int \<times> tenant_body"
type_synonym tenant_endpoint = "tenant_request \<Rightarrow> tenant_world \<Rightarrow> tenant_response \<times> tenant_world"

definition ActorIDFromContext :: "uuid_reader \<Rightarrow> Identity option \<Rightarrow> uuid option" where
  "ActorIDFromContext pu identity = (case identity of None \<Rightarrow> None | Some i \<Rightarrow> pu (au_UserID i))"

definition audit_Log ::
  "tenant_handler \<Rightarrow> tenant_request \<Rightarrow> string \<Rightarrow> string \<Rightarrow> uuid option \<Rightarrow> (string \<times> json) list \<Rightarrow> tenant_world \<Rightarrow> tenant_world" where
  "audit_Log h q action kind resource metadata w =
     (if th_audited h
      then w\<lparr>tw_events := tw_events w @
        [\<lparr>ad_TenantID = th_parse_uuid h (tq_tenant q), ad_UserID = ActorIDFromContext (th_parse_uuid h) (tq_identity q),
          ad_Action = action, ad_ResourceType = kind, ad_ResourceID = resource, ad_Metadata = metadata,
          ad_Source = ''api''\<rparr>]\<rparr>
      else w)"

text \<open>An operation on a connection of the tenant, and the guards in front of it.\<close>

definition on_tenant :: "tenant_handler \<Rightarrow> string \<Rightarrow> 'a tenant_op \<Rightarrow> tenant_world \<Rightarrow> (admin_error + 'a) \<times> tenant_world" where
  "on_tenant h t f w = (case tenant_connection (th_parse_uuid h) t f (tw_db w) of (r, s) \<Rightarrow> (r, w\<lparr>tw_db := s\<rparr>))"

definition need_tenant :: "tenant_request \<Rightarrow> (tenant_world \<Rightarrow> tenant_response \<times> tenant_world) \<Rightarrow> tenant_world \<Rightarrow> tenant_response \<times> tenant_world" where
  "need_tenant q f w = (if tq_tenant q = [] then ((400, TenantMessage ''tenant context required''), w) else f w)"

definition need_id ::
  "string \<Rightarrow> tenant_request \<Rightarrow> (tenant_world \<Rightarrow> tenant_response \<times> tenant_world) \<Rightarrow> tenant_world \<Rightarrow> tenant_response \<times> tenant_world" where
  "need_id msg q f w = (if tq_id q = [] then ((400, TenantMessage msg), w) else f w)"

text \<open>The status of an error: the first pair whose sentinel matches.\<close>

fun tenant_status :: "(tenant_sentinel \<times> tenant_response) list \<Rightarrow> string \<Rightarrow> admin_error \<Rightarrow> tenant_response" where
  "tenant_status [] msg e = (500, TenantMessage msg)"
| "tenant_status ((x, r) # xs) msg e = (if errors_Is e x then r else tenant_status xs msg e)"

text \<open>The evaluator reads the roles of all tenants from the pool (\<open>RoleLoaderAdapter\<close>).\<close>

definition reload_roles :: "tenant_handler \<Rightarrow> tenant_world \<Rightarrow> tenant_world" where
  "reload_roles h w =
     (case tw_evaluator w of
        None \<Rightarrow> w
      | Some ev \<Rightarrow>
          (case LoadRoles (th_show_uuid h) (th_collate h) (tw_db w) of
             (r, s) \<Rightarrow>
               w\<lparr>tw_db := s, tw_evaluator := Some (snd (ReloadRoles (ev\<lparr>ev_loader := Some (\<lambda>_.
                   case r of Inl _ \<Rightarrow> Inl (NewError ''loading roles'') | Inr defs \<Rightarrow> Inr defs)\<rparr>)))\<rparr>))"

definition quoted :: "string \<Rightarrow> string" where
  "quoted t = CHR 0x27 # t @ [CHR 0x27]"

section \<open>Roles\<close>

record role_request =
  rr_Name :: string
  rr_Permissions :: "string list"

definition decode_role :: "raw_json \<Rightarrow> role_request option" where
  "decode_role body =
     (case object_entries body of
        None \<Rightarrow> None
      | Some kvs \<Rightarrow>
          (case (string_field ''name'' kvs, decode_slice decode_string (last_value ''permissions'' kvs)) of
             (Some n, Some ps) \<Rightarrow> Some \<lparr>rr_Name = n, rr_Permissions = ps\<rparr>
           | _ \<Rightarrow> None))"

definition role_metadata :: "Role \<Rightarrow> (string \<times> json) list" where
  "role_metadata r = [(''name'', JStr (rl_Name r)), (''permissions'', JArr (map JStr (rl_Permissions r)))]"

definition wildcard_refused :: tenant_response where
  "wildcard_refused = (400, TenantMessage ''wildcard permission not allowed for custom roles'')"

definition role_HandleCreate :: "tenant_handler \<Rightarrow> tenant_endpoint" where
  "role_HandleCreate h q =
     need_tenant q (\<lambda>w.
       case decode_role (tq_body q) of
         None \<Rightarrow> ((400, TenantMessage ''invalid request body''), w)
       | Some req \<Rightarrow>
           if ''*'' \<in> set (rr_Permissions req) then (wildcard_refused, w)
           else case on_tenant h (tq_tenant q) (role_Create (rr_Name req) (rr_Permissions req)) w of
               (Inl e, w1) \<Rightarrow>
                 (tenant_status [(ErrRoleNameEmpty, (400, TenantFault e)), (ErrRoleDuplicate, (409, TenantFault e))]
                    ''role creation failed'' e, w1)
             | (Inr role, w1) \<Rightarrow>
                 ((201, RoleBody role),
                  reload_roles h (audit_Log h q ''role.created'' ''role'' (Some (rl_ID role)) (role_metadata role) w1)))"

definition role_HandleList :: "tenant_handler \<Rightarrow> tenant_endpoint" where
  "role_HandleList h q =
     need_tenant q (\<lambda>w.
       case on_tenant h (tq_tenant q) (role_List (th_collate h)) w of
         (Inl _, w1) \<Rightarrow> ((500, TenantMessage ''listing roles failed''), w1)
       | (Inr roles, w1) \<Rightarrow> ((200, RolesBody roles), w1))"

definition role_HandleUpdate :: "tenant_handler \<Rightarrow> tenant_endpoint" where
  "role_HandleUpdate h q =
     need_id ''missing role id'' q (need_tenant q (\<lambda>w.
       case decode_role (tq_body q) of
         None \<Rightarrow> ((400, TenantMessage ''invalid request body''), w)
       | Some req \<Rightarrow>
           if ''*'' \<in> set (rr_Permissions req) then (wildcard_refused, w)
           else case on_tenant h (tq_tenant q)
                       (role_Update (th_parse_uuid h) (tq_id q) (rr_Name req) (rr_Permissions req)) w of
               (Inl e, w1) \<Rightarrow>
                 (tenant_status [(ErrRoleNotFound, (404, TenantFault e)), (ErrRoleIsSystem, (403, TenantFault e)),
                                 (ErrRoleNameEmpty, (400, TenantFault e)), (ErrRoleDuplicate, (409, TenantFault e))]
                    ''role update failed'' e, w1)
             | (Inr role, w1) \<Rightarrow>
                 ((200, RoleBody role),
                  reload_roles h (audit_Log h q ''role.updated'' ''role'' (Some (rl_ID role)) (role_metadata role) w1))))"

definition role_HandleDelete :: "tenant_handler \<Rightarrow> tenant_endpoint" where
  "role_HandleDelete h q =
     need_id ''missing role id'' q (need_tenant q (\<lambda>w.
       case on_tenant h (tq_tenant q) (role_Delete (th_parse_uuid h) (tq_id q)) w of
         (Inl e, w1) \<Rightarrow>
           (tenant_status [(ErrRoleNotFound, (404, TenantFault e)), (ErrRoleIsSystem, (403, TenantFault e)),
                           (ErrRoleHasUsers, (409, TenantFault e))] ''role deletion failed'' e, w1)
       | (Inr _, w1) \<Rightarrow>
           ((204, NoContent),
            reload_roles h (audit_Log h q ''role.deleted'' ''role'' (th_parse_uuid h (tq_id q)) [] w1))))"

record scope_request =
  sq_RoleID :: string
  sq_ScopeType :: string
  sq_ScopeID :: string

definition decode_scope :: "raw_json \<Rightarrow> scope_request option" where
  "decode_scope body =
     (case (body_string ''role_id'' body, body_string ''scope_type'' body, body_string ''scope_id'' body) of
        (Some r, Some t, Some i) \<Rightarrow> Some \<lparr>sq_RoleID = r, sq_ScopeType = t, sq_ScopeID = i\<rparr>
      | _ \<Rightarrow> None)"

definition scope_metadata :: "scope_request \<Rightarrow> (string \<times> json) list" where
  "scope_metadata q =
     [(''role_id'', JStr (sq_RoleID q)), (''scope_type'', JStr (sq_ScopeType q)), (''scope_id'', JStr (sq_ScopeID q))]"

text \<open>User, role and department of the scope are looked up in the tenant before the row is written.\<close>

definition assign_checked :: "tenant_handler \<Rightarrow> string \<Rightarrow> scope_request \<Rightarrow> unit tenant_op" where
  "assign_checked h userID req s =
     (case user_GetByID (th_parse_uuid h) userID s of
        (Inl e, s1) \<Rightarrow> (Inl e, s1)
      | (Inr _, s1) \<Rightarrow>
          (case role_GetByID (th_parse_uuid h) (sq_RoleID req) s1 of
             (Inl e, s2) \<Rightarrow> (Inl e, s2)
           | (Inr _, s2) \<Rightarrow>
               if sq_ScopeType req = ''department''
               then (case department_GetByID (th_parse_uuid h) (sq_ScopeID req) s2 of
                   (Inl e, s3) \<Rightarrow> (Inl (Wrap ''invalid scope'' e), s3)
                 | (Inr _, s3) \<Rightarrow>
                     AssignToUser (th_parse_uuid h) userID (sq_RoleID req) (sq_ScopeType req) (sq_ScopeID req) s3)
               else AssignToUser (th_parse_uuid h) userID (sq_RoleID req) (sq_ScopeType req) (sq_ScopeID req) s2))"

definition scope_complete :: "scope_request \<Rightarrow> bool" where
  "scope_complete req \<longleftrightarrow> sq_RoleID req \<noteq> [] \<and> sq_ScopeType req \<noteq> [] \<and> sq_ScopeID req \<noteq> []"

definition HandleAssignRole :: "tenant_handler \<Rightarrow> tenant_endpoint" where
  "HandleAssignRole h q =
     need_id ''missing user id'' q (need_tenant q (\<lambda>w.
       case decode_scope (tq_body q) of
         None \<Rightarrow> ((400, TenantMessage ''invalid request body''), w)
       | Some req \<Rightarrow>
           if \<not> scope_complete req then ((400, TenantMessage ''role_id, scope_type, and scope_id are required''), w)
           else if sq_ScopeType req \<notin> {''org'', ''department''}
           then ((400, TenantMessage (''scope_type must be '' @ quoted ''org'' @ '' or '' @ quoted ''department'')), w)
           else case on_tenant h (tq_tenant q) (assign_checked h (tq_id q) req) w of
               (Inl e, w1) \<Rightarrow>
                 (tenant_status [(ErrUserNotFound, (404, TenantMessage ''user not found'')),
                                 (ErrRoleNotFound, (404, TenantMessage ''role not found'')),
                                 (ErrDepartmentNotFound, (404, TenantMessage ''department not found''))]
                    ''role assignment failed'' e, w1)
             | (Inr _, w1) \<Rightarrow>
                 ((200, StatusOK),
                  audit_Log h q ''user_role.assigned'' ''user'' (th_parse_uuid h (tq_id q)) (scope_metadata req) w1)))"

definition HandleRemoveRole :: "tenant_handler \<Rightarrow> tenant_endpoint" where
  "HandleRemoveRole h q =
     need_id ''missing user id'' q (need_tenant q (\<lambda>w.
       case decode_scope (tq_body q) of
         None \<Rightarrow> ((400, TenantMessage ''invalid request body''), w)
       | Some req \<Rightarrow>
           if \<not> scope_complete req then ((400, TenantMessage ''role_id, scope_type, and scope_id are required''), w)
           else case on_tenant h (tq_tenant q)
                       (RemoveFromUser (th_parse_uuid h) (tq_id q) (sq_RoleID req) (sq_ScopeType req) (sq_ScopeID req)) w of
               (Inl _, w1) \<Rightarrow> ((500, TenantMessage ''role removal failed''), w1)
             | (Inr _, w1) \<Rightarrow>
                 ((200, StatusOK),
                  audit_Log h q ''user_role.revoked'' ''user'' (th_parse_uuid h (tq_id q)) (scope_metadata req) w1)))"

definition HandleListUserRoles :: "tenant_handler \<Rightarrow> tenant_endpoint" where
  "HandleListUserRoles h q =
     need_id ''missing user id'' q (need_tenant q (\<lambda>w.
       case on_tenant h (tq_tenant q) (ListForUser (th_parse_uuid h) (th_collate h) (tq_id q)) w of
         (Inl _, w1) \<Rightarrow> ((500, TenantMessage ''listing user roles failed''), w1)
       | (Inr roles, w1) \<Rightarrow> ((200, UserRolesBody roles), w1)))"

section \<open>Users\<close>

definition user_HandleCreate :: "tenant_handler \<Rightarrow> tenant_endpoint" where
  "user_HandleCreate h q =
     need_tenant q (\<lambda>w.
       case (body_string ''email'' (tq_body q), body_string ''display_name'' (tq_body q)) of
         (Some email, Some displayName) \<Rightarrow>
           (case on_tenant h (tq_tenant q) (user_Create (th_parses_mail h) email displayName) w of
              (Inl e, w1) \<Rightarrow>
                (tenant_status [(ErrEmailInvalid, (400, TenantFault e)), (ErrEmailDuplicate, (409, TenantFault e))]
                   ''user creation failed'' e, w1)
            | (Inr user, w1) \<Rightarrow>
                ((201, UserBody user),
                 audit_Log h q ''user.created'' ''user'' (Some (us_ID user))
                   [(''email'', JStr (us_Email user)), (''display_name'', JStr displayName)] w1))
       | _ \<Rightarrow> ((400, TenantMessage ''invalid request body''), w))"

definition user_HandleGet :: "tenant_handler \<Rightarrow> tenant_endpoint" where
  "user_HandleGet h q =
     need_id ''missing user id'' q (need_tenant q (\<lambda>w.
       case on_tenant h (tq_tenant q) (user_GetByID (th_parse_uuid h) (tq_id q)) w of
         (Inl e, w1) \<Rightarrow>
           (tenant_status [(ErrUserNotFound, (404, TenantMessage ''user not found''))] ''fetching user failed'' e, w1)
       | (Inr user, w1) \<Rightarrow> ((200, UserBody user), w1)))"

definition user_HandleList :: "tenant_handler \<Rightarrow> tenant_endpoint" where
  "user_HandleList h q =
     need_tenant q (\<lambda>w.
       case on_tenant h (tq_tenant q) user_List w of
         (Inl _, w1) \<Rightarrow> ((500, TenantMessage ''listing users failed''), w1)
       | (Inr users, w1) \<Rightarrow> ((200, UsersBody users), w1))"

definition HandleListUserDepartments :: "tenant_handler \<Rightarrow> tenant_endpoint" where
  "HandleListUserDepartments h q =
     need_id ''missing user id'' q (need_tenant q (\<lambda>w.
       case on_tenant h (tq_tenant q) (ListDepartments (th_parse_uuid h) (th_collate h) (tq_id q)) w of
         (Inl _, w1) \<Rightarrow> ((500, TenantMessage ''listing user departments failed''), w1)
       | (Inr ds, w1) \<Rightarrow> ((200, DepartmentsBody ds), w1)))"

definition join_checked :: "tenant_handler \<Rightarrow> string \<Rightarrow> string \<Rightarrow> unit tenant_op" where
  "join_checked h userID departmentID s =
     (case user_GetByID (th_parse_uuid h) userID s of
        (Inl e, s1) \<Rightarrow> (Inl e, s1)
      | (Inr _, s1) \<Rightarrow>
          (case department_GetByID (th_parse_uuid h) departmentID s1 of
             (Inl e, s2) \<Rightarrow> (Inl e, s2)
           | (Inr _, s2) \<Rightarrow> AddToDepartment (th_parse_uuid h) userID departmentID s2))"

definition HandleAddToDepartment :: "tenant_handler \<Rightarrow> tenant_endpoint" where
  "HandleAddToDepartment h q =
     need_id ''missing user id'' q (need_tenant q (\<lambda>w.
       case body_string ''department_id'' (tq_body q) of
         None \<Rightarrow> ((400, TenantMessage ''invalid request body''), w)
       | Some d \<Rightarrow>
           if d = [] then ((400, TenantMessage ''department_id is required''), w)
           else case on_tenant h (tq_tenant q) (join_checked h (tq_id q) d) w of
               (Inl e, w1) \<Rightarrow>
                 (tenant_status [(ErrUserNotFound, (404, TenantMessage ''user not found'')),
                                 (ErrDepartmentNotFound, (404, TenantMessage ''department not found''))]
                    ''adding user to department failed'' e, w1)
             | (Inr _, w1) \<Rightarrow>
                 ((200, StatusOK),
                  audit_Log h q ''user.updated'' ''user'' (th_parse_uuid h (tq_id q)) [(''department_added'', JStr d)] w1)))"

definition HandleRemoveFromDepartment :: "tenant_handler \<Rightarrow> tenant_endpoint" where
  "HandleRemoveFromDepartment h q w =
     (if tq_id q = [] \<or> tq_dept q = [] then ((400, TenantMessage ''missing user id or department id''), w)
      else need_tenant q (\<lambda>w.
        case on_tenant h (tq_tenant q) (RemoveFromDepartment (th_parse_uuid h) (tq_id q) (tq_dept q)) w of
          (Inl _, w1) \<Rightarrow> ((500, TenantMessage ''removing user from department failed''), w1)
        | (Inr _, w1) \<Rightarrow>
            ((200, StatusOK),
             audit_Log h q ''user.updated'' ''user'' (th_parse_uuid h (tq_id q))
               [(''department_removed'', JStr (tq_dept q))] w1)) w)"

definition user_HandleUpdate :: "tenant_handler \<Rightarrow> tenant_endpoint" where
  "user_HandleUpdate h q =
     need_id ''missing user id'' q (need_tenant q (\<lambda>w.
       case (body_string ''display_name'' (tq_body q), body_string ''status'' (tq_body q)) of
         (Some displayName, Some status) \<Rightarrow>
           if status \<notin> {[], ''active'', ''suspended''}
           then ((400, TenantMessage (''status must be '' @ quoted ''active'' @ '' or '' @ quoted ''suspended'')), w)
           else (case on_tenant h (tq_tenant q) (user_Update (th_parse_uuid h) (tq_id q) displayName status) w of
              (Inl e, w1) \<Rightarrow>
                (tenant_status [(ErrUserNotFound, (404, TenantMessage ''user not found''))] ''updating user failed'' e, w1)
            | (Inr user, w1) \<Rightarrow>
                ((200, UserBody user),
                 audit_Log h q ''user.updated'' ''user'' (Some (us_ID user))
                   [(''display_name'', JStr (case us_DisplayName user of None \<Rightarrow> [] | Some n \<Rightarrow> n)),
                    (''status'', JStr (us_Status user))] w1))
       | _ \<Rightarrow> ((400, TenantMessage ''invalid request body''), w)))"

definition user_HandleDelete :: "tenant_handler \<Rightarrow> tenant_endpoint" where
  "user_HandleDelete h q =
     need_id ''missing user id'' q (need_tenant q (\<lambda>w.
       case on_tenant h (tq_tenant q) (SoftDelete (th_parse_uuid h) (tq_id q)) w of
         (Inl e, w1) \<Rightarrow>
           (tenant_status [(ErrUserNotFound, (404, TenantMessage ''user not found''))] ''deleting user failed'' e, w1)
       | (Inr _, w1) \<Rightarrow>
           ((200, StatusOK), audit_Log h q ''user.suspended'' ''user'' (th_parse_uuid h (tq_id q)) [] w1)))"

section \<open>Departments\<close>

text \<open>A field of type \<open>*string\<close>.\<close>

fun pointer_values :: "string option \<Rightarrow> json list \<Rightarrow> string option option" where
  "pointer_values v [] = Some v"
| "pointer_values v (JStr t # js) = pointer_values (Some t) js"
| "pointer_values v (JNull # js) = pointer_values None js"
| "pointer_values v (_ # js) = None"

record department_request =
  dq_Name :: string
  dq_ParentID :: "string option"

definition decode_department :: "raw_json \<Rightarrow> department_request option" where
  "decode_department body =
     (case object_entries body of
        None \<Rightarrow> None
      | Some kvs \<Rightarrow>
          (case (string_field ''name'' kvs, pointer_values None (field_values ''parent_id'' kvs)) of
             (Some n, Some p) \<Rightarrow> Some \<lparr>dq_Name = n, dq_ParentID = p\<rparr>
           | _ \<Rightarrow> None))"

definition department_HandleCreate :: "tenant_handler \<Rightarrow> tenant_endpoint" where
  "department_HandleCreate h q =
     need_tenant q (\<lambda>w.
       case decode_department (tq_body q) of
         None \<Rightarrow> ((400, TenantMessage ''invalid request body''), w)
       | Some req \<Rightarrow>
           (case on_tenant h (tq_tenant q) (department_Create (th_parse_uuid h) (dq_Name req) (dq_ParentID req)) w of
              (Inl e, w1) \<Rightarrow>
                (tenant_status [(ErrDepartmentNameEmpty, (400, TenantFault e)),
                                (ErrDepartmentNotFound, (400, TenantMessage ''parent department not found''))]
                   ''department creation failed'' e, w1)
            | (Inr d, w1) \<Rightarrow>
                ((201, DepartmentBody d),
                 audit_Log h q ''department.created'' ''department'' (Some (dp_ID d)) [(''name'', JStr (dp_Name d))] w1)))"

definition department_HandleGet :: "tenant_handler \<Rightarrow> tenant_endpoint" where
  "department_HandleGet h q =
     need_id ''missing department id'' q (need_tenant q (\<lambda>w.
       case on_tenant h (tq_tenant q) (department_GetByID (th_parse_uuid h) (tq_id q)) w of
         (Inl e, w1) \<Rightarrow>
           (tenant_status [(ErrDepartmentNotFound, (404, TenantMessage ''department not found''))]
              ''fetching department failed'' e, w1)
       | (Inr d, w1) \<Rightarrow> ((200, DepartmentBody d), w1)))"

definition department_HandleList :: "tenant_handler \<Rightarrow> tenant_endpoint" where
  "department_HandleList h q =
     need_tenant q (\<lambda>w.
       case on_tenant h (tq_tenant q) department_List w of
         (Inl _, w1) \<Rightarrow> ((500, TenantMessage ''listing departments failed''), w1)
       | (Inr ds, w1) \<Rightarrow> ((200, DepartmentsBody ds), w1))"

definition department_HandleUpdate :: "tenant_handler \<Rightarrow> tenant_endpoint" where
  "department_HandleUpdate h q =
     need_id ''missing department id'' q (need_tenant q (\<lambda>w.
       case decode_department (tq_body q) of
         None \<Rightarrow> ((400, TenantMessage ''invalid request body''), w)
       | Some req \<Rightarrow>
           (case on_tenant h (tq_tenant q) (department_Update (th_parse_uuid h) (tq_id q) (dq_Name req) (dq_ParentID req)) w of
              (Inl e, w1) \<Rightarrow>
                (tenant_status [(ErrDepartmentNameEmpty, (400, TenantFault e)), (ErrDepartmentSelfParent, (400, TenantFault e)),
                                (ErrDepartmentNotFound, (404, TenantMessage ''department not found''))]
                   ''updating department failed'' e, w1)
            | (Inr d, w1) \<Rightarrow>
                ((200, DepartmentBody d),
                 audit_Log h q ''department.updated'' ''department'' (Some (dp_ID d)) [(''name'', JStr (dp_Name d))] w1))))"

definition department_HandleDelete :: "tenant_handler \<Rightarrow> tenant_endpoint" where
  "department_HandleDelete h q =
     need_id ''missing department id'' q (need_tenant q (\<lambda>w.
       case on_tenant h (tq_tenant q) (department_Delete (th_parse_uuid h) (tq_id q)) w of
         (Inl e, w1) \<Rightarrow>
           (tenant_status [(ErrDepartmentNotFound, (404, TenantMessage ''department not found''))]
              ''deleting department failed'' e, w1)
       | (Inr _, w1) \<Rightarrow>
           ((200, StatusOK), audit_Log h q ''department.deleted'' ''department'' (th_parse_uuid h (tq_id q)) [] w1)))"

section \<open>Tenants\<close>

text \<open>These run on the pool, for platform administrators.\<close>

definition on_pool :: "(db \<Rightarrow> 'r \<times> db) \<Rightarrow> tenant_world \<Rightarrow> 'r \<times> tenant_world" where
  "on_pool f w = (case f (tw_db w) of (r, s) \<Rightarrow> (r, w\<lparr>tw_db := s\<rparr>))"

definition tenant_HandleCreate :: "tenant_handler \<Rightarrow> tenant_endpoint" where
  "tenant_HandleCreate h q w =
     (case (body_string ''name'' (tq_body q), body_string ''slug'' (tq_body q)) of
        (Some name, Some slug) \<Rightarrow>
          if name = [] \<or> slug = [] then ((400, TenantMessage ''name and slug are required''), w)
          else (case on_pool (tenant_Create name slug) w of
              (Inl e, w1) \<Rightarrow>
                (tenant_status [(ErrInvalidSlug, (400, TenantFault e)), (ErrSlugTaken, (409, TenantFault e))]
                   ''tenant creation failed'' e, w1)
            | (Inr t, w1) \<Rightarrow>
                ((201, TenantBody t None),
                 audit_Log h (q\<lparr>tq_tenant := th_show_uuid h (tn_ID t)\<rparr>) ''tenant.created'' ''tenant'' (Some (tn_ID t))
                   [(''name'', JStr (tn_Name t)), (''slug'', JStr (tn_Slug t))] w1))
      | _ \<Rightarrow> ((400, TenantMessage ''invalid request body''), w))"

definition tenant_HandleGet :: "tenant_handler \<Rightarrow> tenant_endpoint" where
  "tenant_HandleGet h q =
     need_id ''missing tenant id'' q (\<lambda>w.
       case on_pool (tenant_GetByID (th_parse_uuid h) (tq_id q)) w of
         (Inl e, w1) \<Rightarrow>
           (tenant_status [(ErrTenantNotFound, (404, TenantMessage ''tenant not found''))] ''fetching tenant failed'' e, w1)
       | (Inr t, w1) \<Rightarrow>
           (case on_pool (GetStats (th_parse_uuid h) (tq_id q)) w1 of
              (Inl _, w2) \<Rightarrow> ((500, TenantMessage ''fetching tenant stats failed''), w2)
            | (Inr stats, w2) \<Rightarrow> ((200, TenantBody t (Some stats)), w2)))"

definition tenant_HandleList :: "tenant_endpoint" where
  "tenant_HandleList q w =
     (case on_pool tenant_List w of
        (Inl _, w1) \<Rightarrow> ((500, TenantMessage ''listing tenants failed''), w1)
      | (Inr ts, w1) \<Rightarrow> ((200, TenantsBody ts), w1))"

subsection \<open>Self-service\<close>

definition create_team :: "string \<Rightarrow> gotime \<Rightarrow> Tenant tenant_op" where
  "create_team name now s =
     (let slug = GenerateSlug name in
      case tenant_Create name slug s of
        (Inl e, s1) \<Rightarrow>
          if errors_Is e ErrSlugTaken
          then tenant_Create name (slug @ ''-'' @ Itoa ((now div 1000000 - 62135596800000) mod 10000)) s1
          else (Inl e, s1)
      | (Inr t, s1) \<Rightarrow> (Inr t, s1))"

definition HandleSelfServiceCreate :: "tenant_handler \<Rightarrow> gotime \<Rightarrow> tenant_endpoint" where
  "HandleSelfServiceCreate h now q w =
     (case tq_identity q of
        None \<Rightarrow> ((401, TenantMessage ''authentication required''), w)
      | Some i \<Rightarrow>
          if au_TenantID i \<noteq> [] then ((400, TenantMessage ''user already belongs to a tenant''), w)
          else case body_string ''name'' (tq_body q) of
              None \<Rightarrow> ((400, TenantMessage ''team name is required''), w)
            | Some name \<Rightarrow>
                if name = [] then ((400, TenantMessage ''team name is required''), w)
                else (case on_pool (create_team name now) w of
                    (Inl _, w1) \<Rightarrow> ((500, TenantMessage ''failed to create team''), w1)
                  | (Inr t, w1) \<Rightarrow>
                      (case on_pool (SeedDefaultRoles (th_parse_uuid h) (th_show_uuid h (tn_ID t))) w1 of
                         (Inl _, w2) \<Rightarrow> ((500, TenantMessage ''failed to initialize team roles''), w2)
                       | (Inr _, w2) \<Rightarrow>
                           (case on_pool (UpdateUserTenant (th_parse_uuid h) (au_UserID i) (th_show_uuid h (tn_ID t))) w2 of
                              (Inl _, w3) \<Rightarrow> ((500, TenantMessage ''failed to assign user to team''), w3)
                            | (Inr _, w3) \<Rightarrow>
                                (case on_pool (AssignRole (th_parse_uuid h) (au_UserID i) (th_show_uuid h (tn_ID t)) ''org_admin'') w3 of
                                   (Inl _, w4) \<Rightarrow> ((500, TenantMessage ''failed to assign admin role''), w4)
                                 | (Inr _, w4) \<Rightarrow> ((201, TenantBody t None), w4))))))"

subsection \<open>Access of platform administrators\<close>

definition tenantExists :: "uuid_reader \<Rightarrow> string \<Rightarrow> bool tenant_op" where
  "tenantExists pu t s =
     wrap_err ''check tenant exists''
       (checked (sql (with_uuid pu t (\<lambda>u s. (Inr (list_ex (\<lambda>r. tn_ID r = u) (seen_tenants s)), s))) s))"

text \<open>The tenant the wrapped handler finds in its context, or the response.\<close>

definition TenantProxy_Wrap :: "tenant_handler \<Rightarrow> tenant_request \<Rightarrow> tenant_world \<Rightarrow> (tenant_response + string) \<times> tenant_world" where
  "TenantProxy_Wrap h q w =
     (case tq_identity q of
        None \<Rightarrow> (Inl (401, TenantMessage ''authentication required''), w)
      | Some i \<Rightarrow>
          if \<not> au_IsPlatformAdmin i then (Inl (403, TenantMessage ''platform admin required''), w)
          else if th_parse_uuid h (tq_id q) = None then (Inl (400, TenantMessage ''invalid tenant ID''), w)
          else (case on_pool (tenantExists (th_parse_uuid h) (tq_id q)) w of
              (Inl _, w1) \<Rightarrow> (Inl (500, TenantMessage ''failed to validate tenant''), w1)
            | (Inr False, w1) \<Rightarrow> (Inl (404, TenantMessage (''tenant '' @ tq_id q @ '' not found'')), w1)
            | (Inr True, w1) \<Rightarrow> (Inr (tq_id q), w1)))"

definition tenantNameByID :: "uuid_reader \<Rightarrow> string \<Rightarrow> string tenant_op" where
  "tenantNameByID pu t s =
     query_row ''get tenant name'' ErrTenantNotFound
       (checked (sql (with_uuid pu t (\<lambda>u s. (Inr (map_option tn_Name (find (\<lambda>r. tn_ID r = u) (seen_tenants s))), s))) s))"

datatype impersonate_body = ImpersonateMessage string | ImpersonateBody string int string

definition impersonate_Handle ::
  "tenant_handler \<Rightarrow> jwt_lib \<Rightarrow> TokenService \<Rightarrow> gotime \<Rightarrow> tenant_request \<Rightarrow> tenant_world \<Rightarrow> (int \<times> impersonate_body) \<times> tenant_world" where
  "impersonate_Handle h lib svc now q w =
     (case tq_identity q of
        None \<Rightarrow> ((401, ImpersonateMessage ''authentication required''), w)
      | Some i \<Rightarrow>
          if \<not> au_IsPlatformAdmin i then ((403, ImpersonateMessage ''platform admin required''), w)
          else if th_parse_uuid h (tq_id q) = None then ((400, ImpersonateMessage ''invalid tenant ID''), w)
          else (case on_pool (tenantNameByID (th_parse_uuid h) (tq_id q)) w of
              (Inl _, w1) \<Rightarrow> ((404, ImpersonateMessage (''tenant '' @ tq_id q @ '' not found'')), w1)
            | (Inr name, w1) \<Rightarrow>
                (let w2 = audit_Log h (q\<lparr>tq_tenant := tq_id q\<rparr>) ''admin.impersonation.started'' ''tenant''
                       (th_parse_uuid h (tq_id q)) [(''impersonator_id'', JStr (au_UserID i))] w1 in
                 case CreateImpersonationToken lib svc now i (tq_id q) of
                   Inl _ \<Rightarrow> ((500, ImpersonateMessage ''failed to generate token''), w2)
                 | Inr token \<Rightarrow> ((200, ImpersonateBody token 1800 name), w2))))"

end
