(* ===== verification/Auth_Laws.thy ===== *)
theory Auth_Laws
  imports Auth_Handlers
begin

text \<open>
  What the authentication endpoints keep of the tables. A locale states it for any predicate that
  the statements of the stores keep; the handlers follow. It holds for the growth of the families
  of refresh tokens and for the keys of the users table.
\<close>

section \<open>Composition\<close>

lemma keeps_prod:
  "keeps P f \<Longrightarrow> (\<And>a. keeps P (g a)) \<Longrightarrow> keeps P (\<lambda>s. case f s of (a, s1) \<Rightarrow> g a s1)"
  by (force simp: keeps_def split: prod.splits)

lemma keeps_pair: "(\<And>a b. keeps P (g a b)) \<Longrightarrow> keeps P (\<lambda>s. case y of (a, b) \<Rightarrow> g a b s)"
  by (cases y) simp

lemma keeps_bool: "(y \<Longrightarrow> keeps P f) \<Longrightarrow> (\<not> y \<Longrightarrow> keeps P g) \<Longrightarrow> keeps P (\<lambda>s. case y of True \<Rightarrow> f s | False \<Rightarrow> g s)"
  by (cases y) simp_all

lemma keeps_with_uuid: "(\<And>u. keeps P (f u)) \<Longrightarrow> keeps P (with_uuid pu t f)"
  unfolding with_uuid_def [abs_def] by (intro keeps_option keeps_return)

lemma keeps_snd: "keeps P f \<Longrightarrow> keeps P (\<lambda>s. (a, snd (f s)))"
  by (simp add: keeps_def)

lemmas keeps_steps = keeps_prod keeps_pair keeps_bool keeps_sum keeps_option keeps_ifI keeps_return keeps_snd
  keeps_wrap_err keeps_query_row keeps_exec_rows keeps_checked keeps_with_uuid keeps_query

section \<open>The statements and the endpoints\<close>

datatype auth_call =
    DevLoginCall clock raw_json
  | ExchangeCall jwks_answer clock http_header raw_json
  | LoginCall "string option" gotime
  | CallbackCall clock callback_request
  | RefreshCall clock raw_json
  | RedeemCall clock "Identity option" raw_json
  | CreateInviteCall "string option" gotime "Identity option" string raw_json
  | ListInvitesCall "Identity option" string
  | DeleteInviteCall "Identity option" string string

type_synonym auth_world = "JWKSClient \<times> db"

text \<open>A request and the status of its response.\<close>

definition on_db :: "('r \<Rightarrow> int) \<Rightarrow> (db \<Rightarrow> 'r \<times> db) \<Rightarrow> auth_world \<Rightarrow> int \<times> auth_world" where
  "on_db status f w = (case f (snd w) of (r, s1) \<Rightarrow> (status r, fst w, s1))"

definition serve_auth :: "auth_handler \<Rightarrow> auth_call \<Rightarrow> auth_world \<Rightarrow> int \<times> auth_world" where
  "serve_auth h c w =
     (case c of
        DevLoginCall clock body \<Rightarrow> on_db re_Status (HandleDevLogin h clock body) w
      | ExchangeCall answer clock headers body \<Rightarrow>
          (case HandleExchange h answer clock headers body (fst w) (snd w) of (r, w1) \<Rightarrow> (re_Status r, w1))
      | LoginCall random now \<Rightarrow> (re_Status (HandleLogin h random now), w)
      | CallbackCall clock req \<Rightarrow> on_db re_Status (HandleCallback h clock req) w
      | RefreshCall clock body \<Rightarrow> on_db re_Status (HandleRefresh h clock body) w
      | RedeemCall clock identity body \<Rightarrow> on_db re_Status (HandleRedeem h clock identity body) w
      | CreateInviteCall random wall identity t body \<Rightarrow>
          on_db fst (invite_HandleCreate (ah_parse_uuid h) random wall identity t body) w
      | ListInvitesCall identity t \<Rightarrow> on_db fst (invite_HandleList (ah_parse_uuid h) identity t) w
      | DeleteInviteCall identity t i \<Rightarrow> on_db fst (invite_HandleDelete (ah_parse_uuid h) identity t i) w)"

locale auth_writes =
  fixes P :: "db \<Rightarrow> bool"
  assumes blind: "fault_blind P"
    and insert_user: "keeps P (insert_oidc_user info t)"
    and link_user: "keeps P (link_oidc_stmt info t)"
    and assign_role: "keeps P (assign_role_stmt u t n)"
    and insert_family: "keeps P (insert_family t u hash legacy)"
    and first_hash: "keeps P (first_hash_stmt hash f t)"
    and rotate: "keeps P (rotate_stmt presented g fresh f t)"
    and revoke: "keeps P (revoke_stmt f t)"
    and redeem: "keeps P (redeem_stmt code u)"
    and insert_invite: "keeps P (insert_invite code role expires t u)"
    and delete_invite: "keeps P (delete_invite_stmt i t)"
begin

lemma move_user: "keeps P (move_user_stmt t u)"
proof -
  have "move_user_stmt t u = (\<lambda>s. (Inr 0, s))"
    by (simp add: move_user_stmt_def tenantless_def upd_where_def count_where_def fun_eq_iff)
  then show ?thesis by (simp add: keeps_return)
qed

lemmas statements = keeps_sql [OF blind] insert_user link_user assign_role insert_family first_hash rotate revoke
  redeem insert_invite delete_invite move_user

lemma identity_keeps: "keeps P (GetIdentityWithRoles pu su u)"
  unfolding GetIdentityWithRoles_def [abs_def] by (intro keeps_steps statements)

lemma new_family_keeps: "keeps P (new_family pu su m t u hash legacy)"
  unfolding new_family_def [abs_def] by (intro keeps_steps statements)

lemma user_keeps: "keeps P (FindOrCreateByOIDC pu su info t)"
  unfolding FindOrCreateByOIDC_def [abs_def] oidc_user_id_def [abs_def] resolveEmailConflict_def [abs_def]
    find_oidc_def [abs_def]
  by (intro keeps_steps statements identity_keeps)

lemma admin_keeps: "keeps P (LookupPlatformAdminByOIDC pu su i sub)"
  unfolding LookupPlatformAdminByOIDC_def [abs_def] by (intro keeps_steps statements identity_keeps)

lemma role_keeps: "keeps P (AssignRole pu u t r)"
  unfolding AssignRole_def [abs_def] by (intro keeps_steps statements)

lemma first_hash_keeps: "keeps P (SetInitialTokenHash pu f t hash)"
  unfolding SetInitialTokenHash_def [abs_def] by (intro keeps_steps statements)

lemma rotate_keeps: "keeps P (RotateToken pu f t presented g fresh)"
  unfolding RotateToken_def [abs_def] diagnoseRotationFailure_def [abs_def] RevokeFamily_def [abs_def]
  by (intro keeps_steps statements)

lemma slug_keeps: "keeps P (ResolveBySlug su slug)"
  unfolding ResolveBySlug_def [abs_def] by (intro keeps_steps statements)

lemma redeem_keeps: "keeps P (Redeem pu code u)"
  unfolding Redeem_def [abs_def] GetByCode_def [abs_def] by (intro keeps_steps statements)

lemma dev_login_keeps: "keeps P (HandleDevLogin h clock body)"
  unfolding HandleDevLogin_def [abs_def] FindUserIDByEmail_def [abs_def]
  by (intro keeps_steps statements identity_keeps)

lemma exchange_tenant_keeps: "keeps P (exchange_tenant h slug origin)"
  unfolding exchange_tenant_def [abs_def] exchange_by_slug_def [abs_def] exchange_by_origin_def [abs_def]
    ResolveFromOrigin_def [abs_def]
  by (intro keeps_steps slug_keeps)

lemma exchange_tokens_keeps: "keeps P (exchange_tokens h clock created identity)"
  unfolding exchange_tokens_def [abs_def] exchange_refresh_def [abs_def] CreateFamilyAndReturnID_def [abs_def] Let_def
  by (intro keeps_steps new_family_keeps first_hash_keeps)

lemma exchange_role_keeps: "P s \<Longrightarrow> P (exchange_role h created u t s)"
  using role_keeps [of "ah_parse_uuid h" u t "''standard_user''"] by (simp add: exchange_role_def keeps_def)

lemma exchange_user_keeps: "keeps P (exchange_user h clock info t)"
proof (rule keepsI)
  fix s :: db
  assume P: "P s"
  obtain r s1 where 1: "FindOrCreateByOIDC (ah_parse_uuid h) (ah_show_uuid h) info t s = (r, s1)"
    by fastforce
  have P1: "P s1" by (rule keepsD [OF user_keeps P 1])
  show "P (snd (exchange_user h clock info t s))"
  proof (cases r)
    case (Inr x)
    obtain identity created where x: "x = (identity, created)" by fastforce
    obtain r2 s2 where 2: "GetIdentityWithRoles (ah_parse_uuid h) (ah_show_uuid h) (au_UserID identity)
        (exchange_role h created (au_UserID identity) t s1) = (r2, s2)"
      by fastforce
    have "P s2" by (rule keepsD [OF identity_keeps exchange_role_keeps [OF P1] 2])
    then show ?thesis
      using exchange_tokens_keeps by (cases r2) (simp_all add: exchange_user_def 1 Inr x 2 keeps_def)
  qed (simp add: exchange_user_def 1 P1)
qed

lemma exchange_keeps: "P s \<Longrightarrow> P (snd (snd (HandleExchange h answer clock headers body c s)))"
proof -
  assume P: "P s"
  have "keeps P (exchange_verified h clock req origin info)" for req origin info
    unfolding exchange_verified_def [abs_def] exchange_admin_def [abs_def] Let_def
    by (intro keeps_steps exchange_tenant_keeps admin_keeps exchange_user_keeps)
  with P show ?thesis
    by (auto simp: HandleExchange_def keeps_def split: option.split sum.split prod.splits) (metis snd_conv)+
qed

lemma callback_keeps: "keeps P (HandleCallback h clock req)"
  unfolding HandleCallback_def [abs_def] callback_exchange_def [abs_def] callback_admin_def [abs_def]
    tryPlatformAdminCallback_def [abs_def] callback_user_def [abs_def] callback_refresh_def [abs_def]
    callback_family_def [abs_def] CreateFamilyAndReturnID_def [abs_def] ResolveFromRequest_def [abs_def] Let_def
  by (intro keeps_steps slug_keeps admin_keeps user_keeps identity_keeps new_family_keeps first_hash_keeps)

lemma refresh_keeps: "keeps P (HandleRefresh h clock body)"
  unfolding HandleRefresh_def [abs_def] refresh_stored_def [abs_def] rotateRefreshToken_def [abs_def]
    upgradeLegacyToken_def [abs_def] IsLegacyTokenUpgraded_def [abs_def] CreateFamilyForLegacyUpgrade_def [abs_def] Let_def
  by (intro keeps_steps statements rotate_keeps new_family_keeps first_hash_keeps)

lemma redeem_request_keeps: "keeps P (HandleRedeem h clock identity body)"
  unfolding HandleRedeem_def [abs_def] inviteRedeemAdapter_def [abs_def] redeem_tokens_def [abs_def]
    UpdateUserTenant_def [abs_def]
  by (intro keeps_steps statements redeem_keeps role_keeps identity_keeps)

lemma invite_requests_keep:
  "keeps P (invite_HandleCreate pu random wall identity t body)" "keeps P (invite_HandleList pu identity t)"
  "keeps P (invite_HandleDelete pu identity t i)"
  unfolding invite_HandleCreate_def [abs_def] invite_HandleList_def [abs_def] invite_HandleDelete_def [abs_def]
    invite_Create_def [abs_def] invite_ListByTenant_def [abs_def] invite_Delete_def [abs_def] Let_def
  by (intro keeps_steps statements)+

lemma request_on_db_keeps: "keeps P f \<Longrightarrow> P (snd w) \<Longrightarrow> P (snd (snd (on_db st f w)))"
  by (simp add: on_db_def keeps_def split: prod.split) (metis snd_conv)

theorem serve_auth_keeps:
  assumes "P (snd w)"
  shows "P (snd (snd (serve_auth h c w)))"
proof (cases c)
  case (ExchangeCall answer clock headers body)
  show ?thesis
    using exchange_keeps [OF assms, of h answer clock headers body "fst w"]
    by (simp add: serve_auth_def ExchangeCall split: prod.split) (metis snd_conv)
qed (simp_all add: serve_auth_def assms
      request_on_db_keeps [OF dev_login_keeps assms] request_on_db_keeps [OF callback_keeps assms] request_on_db_keeps [OF refresh_keeps assms]
      request_on_db_keeps [OF redeem_request_keeps assms] request_on_db_keeps [OF invite_requests_keep(1) assms]
      request_on_db_keeps [OF invite_requests_keep(2) assms] request_on_db_keeps [OF invite_requests_keep(3) assms])

end

section \<open>Families only grow\<close>

text \<open>
  A family keeps its key, owner and legacy hash, its generation never falls, and once revoked it
  stays so. The keys of the table are unique.
\<close>

definition family_keys :: "db \<Rightarrow> bool" where
  "family_keys s \<longleftrightarrow>
     distinct (map tf_ID (db_families s)) \<and> list_all (\<lambda>r. tf_ID r < db_next s) (db_families s)"

definition family_follows :: "TokenFamily \<Rightarrow> TokenFamily \<Rightarrow> bool" where
  "family_follows r r' \<longleftrightarrow>
     tf_ID r' = tf_ID r \<and> tf_TenantID r' = tf_TenantID r \<and> tf_UserID r' = tf_UserID r \<and>
     tf_LegacyTokenHash r' = tf_LegacyTokenHash r \<and> tf_CurrentGeneration r \<le> tf_CurrentGeneration r' \<and>
     (tf_RevokedAt r \<noteq> None \<longrightarrow> tf_RevokedAt r' \<noteq> None)"

definition families_grown :: "db \<Rightarrow> db \<Rightarrow> bool" where
  "families_grown s0 s \<longleftrightarrow>
     family_keys s \<and> (\<forall>r \<in> set (db_families s0). \<exists>r' \<in> set (db_families s). family_follows r r')"

lemma family_follows_refl [intro, simp]: "family_follows r r"
  by (simp add: family_follows_def)

lemma family_follows_trans: "family_follows a b \<Longrightarrow> family_follows b c \<Longrightarrow> family_follows a c"
  by (auto simp: family_follows_def)

lemma families_grown_refl: "family_keys s \<Longrightarrow> families_grown s s"
  by (auto simp: families_grown_def)

lemma families_grownI:
  assumes "families_grown s0 s" "family_keys s'"
    and "\<And>r. r \<in> set (db_families s) \<Longrightarrow> \<exists>r' \<in> set (db_families s'). family_follows r r'"
  shows "families_grown s0 s'"
  using assms unfolding families_grown_def by (meson family_follows_trans)

lemma families_grown_trans: "families_grown a b \<Longrightarrow> families_grown b c \<Longrightarrow> families_grown a c"
  by (rule families_grownI) (auto simp: families_grown_def)

lemma grown_blind: "fault_blind (families_grown s0)"
  by (simp add: fault_blind_def families_grown_def family_keys_def)

lemma grown_same:
  assumes "\<And>s. db_families (snd (stmt s)) = db_families s" "\<And>s. db_next s \<le> db_next (snd (stmt s))"
  shows "keeps (families_grown s0) stmt"
proof (rule keepsI)
  fix s :: db
  assume g: "families_grown s0 s"
  then have "family_keys (snd (stmt s))"
    using assms(1) [of s] order_less_le_trans [OF _ assms(2) [of s]]
    by (auto simp: families_grown_def family_keys_def list_all_iff)
  then show "families_grown s0 (snd (stmt s))"
    by (rule families_grownI [OF g]) (auto simp: assms(1))
qed

lemma family_keys_upd:
  assumes "\<And>r. tf_ID (f r) = tf_ID r"
  shows "family_keys (s\<lparr>db_families := upd_where p f (db_families s)\<rparr>) \<longleftrightarrow> family_keys s"
proof -
  have "map tf_ID (upd_where p f (db_families s)) = map tf_ID (db_families s)"
    by (simp add: upd_where_def assms)
  then show ?thesis
    by (simp add: family_keys_def) (metis list.pred_map [of "\<lambda>i. i < db_next s" tf_ID, unfolded comp_def])
qed

lemma grown_upd:
  assumes "families_grown s0 s" "\<And>r. p r \<Longrightarrow> family_follows r (f r)" "\<And>r. tf_ID (f r) = tf_ID r"
  shows "families_grown s0 (s\<lparr>db_families := upd_where p f (db_families s)\<rparr>)"
  using assms(1)
proof (rule families_grownI)
  show "family_keys (s\<lparr>db_families := upd_where p f (db_families s)\<rparr>)"
    using assms(1) by (simp add: family_keys_upd assms(3) families_grown_def)
next
  fix r
  assume r: "r \<in> set (db_families s)"
  have "family_follows r (if p r then f r else r)" using assms(2) by simp
  then show "\<exists>r' \<in> set (db_families (s\<lparr>db_families := upd_where p f (db_families s)\<rparr>)). family_follows r r'"
    using r by (intro bexI [of _ "if p r then f r else r"]) (auto simp: upd_where_def)
qed

lemma insert_family_grows: "keeps (families_grown s0) (insert_family t u hash legacy)"
proof (rule keepsI)
  fix s :: db
  assume g: "families_grown s0 s"
  show "families_grown s0 (snd (insert_family t u hash legacy s))"
  proof (rule families_grownI [OF g])
    show "family_keys (snd (insert_family t u hash legacy s))"
      using g by (force simp: insert_family_def Let_def families_grown_def family_keys_def list_all_iff)
  qed (auto simp: insert_family_def Let_def)
qed

lemma family_updates_grow:
  "keeps (families_grown s0) (first_hash_stmt hash f t)"
  "keeps (families_grown s0) (rotate_stmt presented g fresh f t)"
  "keeps (families_grown s0) (revoke_stmt f t)"
  by (auto simp: keeps_def first_hash_stmt_def rotate_stmt_def revoke_stmt_def Let_def family_follows_def
      rotate_row_def revoke_row_def split: option.split intro!: grown_upd)

interpretation families: auth_writes "families_grown s0" for s0
proof unfold_locales
  show "fault_blind (families_grown s0)" by (rule grown_blind)
  show "keeps (families_grown s0) (insert_family t u hash legacy)" for t u hash legacy
    by (rule insert_family_grows)
qed (auto intro!: grown_same family_updates_grow
       simp: insert_oidc_user_def link_oidc_stmt_def assign_role_stmt_def redeem_stmt_def insert_invite_def
         delete_invite_stmt_def Let_def split: option.split)

section \<open>Accounts stay\<close>

text \<open>
  An account keeps its key, tenant, email, status and platform flag, and credentials that it once
  had; an account that appears is not a platform administrator.
\<close>

definition account_follows :: "User \<Rightarrow> User \<Rightarrow> bool" where
  "account_follows u u' \<longleftrightarrow>
     us_ID u' = us_ID u \<and> us_TenantID u' = us_TenantID u \<and> us_Email u' = us_Email u \<and>
     us_Status u' = us_Status u \<and> us_IsPlatformAdmin u' = us_IsPlatformAdmin u \<and>
     (us_OIDCIssuer u \<notin> {None, Some []} \<longrightarrow>
        us_OIDCIssuer u' = us_OIDCIssuer u \<and> us_OIDCSubject u' = us_OIDCSubject u)"

definition accounts_stable :: "db \<Rightarrow> db \<Rightarrow> bool" where
  "accounts_stable s0 s \<longleftrightarrow>
     list_all2 account_follows (db_users s0) (take (length (db_users s0)) (db_users s)) \<and>
     list_all (\<lambda>u. \<not> us_IsPlatformAdmin u) (drop (length (db_users s0)) (db_users s))"

lemma account_follows_refl [intro, simp]: "account_follows u u"
  by (simp add: account_follows_def)

lemma account_follows_trans: "account_follows a b \<Longrightarrow> account_follows b c \<Longrightarrow> account_follows a c"
  unfolding account_follows_def by auto

lemma accounts_stable_refl: "accounts_stable s s"
  by (simp add: accounts_stable_def list.rel_refl)

lemma accounts_blind: "fault_blind (accounts_stable s0)"
  by (simp add: fault_blind_def accounts_stable_def)

lemma accounts_same: "(\<And>s. db_users (snd (stmt s)) = db_users s) \<Longrightarrow> keeps (accounts_stable s0) stmt"
  by (simp add: keeps_def accounts_stable_def)

lemma accounts_stable_length: "accounts_stable s0 s \<Longrightarrow> length (db_users s0) \<le> length (db_users s)"
  unfolding accounts_stable_def by (metis length_take list_all2_lengthD min.absorb_iff2 min.commute)

lemma insert_user_stable: "keeps (accounts_stable s0) (insert_oidc_user info t)"
proof (rule keepsI)
  fix s :: db
  assume a: "accounts_stable s0 s"
  show "accounts_stable s0 (snd (insert_oidc_user info t s))"
    using a accounts_stable_length [OF a] by (auto simp: insert_oidc_user_def Let_def accounts_stable_def)
qed

lemma link_row_follows: "us_OIDCIssuer u \<in> {None, Some []} \<Longrightarrow> account_follows u (link_row info u)"
  by (auto simp: account_follows_def link_row_def)

lemma upd_where_stable:
  assumes "accounts_stable s0 s" "\<And>u. p u \<Longrightarrow> account_follows u (f u)"
  shows "accounts_stable s0 (s\<lparr>db_users := upd_where p f (db_users s)\<rparr>)"
proof -
  let ?g = "\<lambda>u. if p u then f u else u"
  have g: "account_follows u (?g u)" for u using assms(2) by simp
  have "list_all2 account_follows xs ys \<Longrightarrow> list_all2 account_follows xs (map ?g ys)" for xs ys
    by (simp add: list_all2_conv_all_nth account_follows_trans [OF _ g] del: if_split)
  moreover have "us_IsPlatformAdmin (?g u) = us_IsPlatformAdmin u" for u
    using g [of u] by (simp add: account_follows_def)
  ultimately show ?thesis
    using assms(1)
    by (simp add: accounts_stable_def upd_where_def take_map drop_map list.pred_map comp_def del: if_split)
qed

lemma link_user_stable: "keeps (accounts_stable s0) (link_oidc_stmt info t)"
  by (auto simp: keeps_def link_oidc_stmt_def Let_def split: option.split
      intro!: upd_where_stable link_row_follows)

interpretation accounts: auth_writes "accounts_stable s0" for s0
proof unfold_locales
  show "fault_blind (accounts_stable s0)" by (rule accounts_blind)
qed (auto intro!: accounts_same insert_user_stable link_user_stable
       simp: assign_role_stmt_def insert_family_def first_hash_stmt_def rotate_stmt_def revoke_stmt_def redeem_stmt_def
         insert_invite_def delete_invite_stmt_def Let_def split: option.split)

end
