(* ===== verification/Tenant_Laws.thy ===== *)
theory Tenant_Laws
  imports Tenant_Handlers Auth_Laws
begin

text \<open>
  What the tenant administration keeps. On a connection of tenant \<open>t\<close> with row-level security the
  statements keep the links of the tables within a tenant and leave the rows of every other tenant
  as they are; system roles stay without it.
\<close>

section \<open>Operations on a connection of a tenant\<close>

lemma update_others:
  "(\<And>x. p x \<Longrightarrow> \<not> q x \<and> \<not> q (f x)) \<Longrightarrow> filter q (upd_where p f xs) = filter q xs"
  by (induction xs) (auto simp: upd_where_def)

definition scoped :: "uuid \<Rightarrow> (db \<Rightarrow> bool) \<Rightarrow> db \<Rightarrow> bool" where
  "scoped t P s \<longleftrightarrow> db_tenant s = Some t \<and> P s"

lemma scoped_blind: "session_blind P \<Longrightarrow> fault_blind (scoped t P)"
  by (simp add: session_blind_def fault_blind_def scoped_def)

lemma scoped_connection:
  fixes f :: "db \<Rightarrow> ('e go_error + 'a) \<times> db"
  assumes "session_blind P" "keeps (scoped t P) f"
  shows "keeps P (WithTenantConnection t f)"
proof (rule keepsI)
  fix s :: db
  assume P: "P s"
  obtain r :: "'e go_error + unit" and s1 where a: "acquire t s = (r, s1)" by fastforce
  have P1: "P s1" by (rule keepsD [OF acquire_keeps [OF assms(1)] P a])
  obtain r2 s2 where 2: "f s1 = (r2, s2)" by fastforce
  show "P (snd (WithTenantConnection t f s))"
  proof (cases r)
    case (Inr u)
    then have "scoped t P s1" using acquire_Inr [OF a [unfolded Inr]] P1 by (simp add: scoped_def)
    then have "P s2" using keepsD [OF assms(2) _ 2] by (simp add: scoped_def)
    then show ?thesis
      using reset_tenant_keeps [OF assms(1)] by (simp add: WithTenantConnection_def a Inr 2)
  qed (simp add: WithTenantConnection_def a P1)
qed

lemma scoped_tenant_connection:
  assumes "session_blind P" "keeps (scoped t P) f" "pu x \<in> {None, Some t}"
  shows "keeps P (tenant_connection pu x f)"
proof (cases "pu x")
  case None
  then show ?thesis by (simp add: keeps_def tenant_connection_def)
next
  case (Some t')
  then have "tenant_connection pu x f = WithTenantConnection t f"
    using assms(3) by (simp add: tenant_connection_def fun_eq_iff)
  then show ?thesis using scoped_connection [OF assms(1,2)] by simp
qed

lemma keeps_go_error:
  "(\<And>m. keeps P (f m)) \<Longrightarrow> (\<And>m. keeps P (f1 m)) \<Longrightarrow> (\<And>m. keeps P (f2 m)) \<Longrightarrow> (\<And>m e. keeps P (f3 m e)) \<Longrightarrow>
   keeps P (\<lambda>s. case x of Sentinel m \<Rightarrow> f m s | NewError m \<Rightarrow> f1 m s | DBError m \<Rightarrow> f2 m s | Wrap m e \<Rightarrow> f3 m e s)"
  by (cases x) simp_all

section \<open>Operations on the world of the endpoints\<close>

definition world_keeps :: "(db \<Rightarrow> bool) \<Rightarrow> (tenant_world \<Rightarrow> 'r \<times> tenant_world) \<Rightarrow> bool" where
  "world_keeps P f \<longleftrightarrow> (\<forall>w. P (tw_db w) \<longrightarrow> P (tw_db (snd (f w))))"

lemma audit_Log_db [simp]: "tw_db (audit_Log h q a k r m w) = tw_db w"
  by (simp add: audit_Log_def)

lemma LoadRoles_keeps: "fault_blind P \<Longrightarrow> keeps P (LoadRoles su collate)"
  unfolding LoadRoles_def [abs_def] by (intro keeps_steps keeps_sql)

lemma reload_roles_keeps: "fault_blind P \<Longrightarrow> P (tw_db w) \<Longrightarrow> P (tw_db (reload_roles h w))"
  using LoadRoles_keeps [of P "th_show_uuid h" "th_collate h"]
  by (simp add: reload_roles_def keeps_def split: option.split prod.split) (metis snd_conv)

lemma world_prod:
  "world_keeps P f \<Longrightarrow> (\<And>a. world_keeps P (g a)) \<Longrightarrow> world_keeps P (\<lambda>w. case f w of (a, w1) \<Rightarrow> g a w1)"
  by (force simp: world_keeps_def split: prod.splits)

lemma world_sum:
  "(\<And>e. x = Inl e \<Longrightarrow> world_keeps P (f e)) \<Longrightarrow> (\<And>a. x = Inr a \<Longrightarrow> world_keeps P (g a)) \<Longrightarrow>
   world_keeps P (\<lambda>w. case x of Inl e \<Rightarrow> f e w | Inr a \<Rightarrow> g a w)"
  by (cases x) simp_all

lemma world_option:
  "(x = None \<Longrightarrow> world_keeps P f) \<Longrightarrow> (\<And>a. x = Some a \<Longrightarrow> world_keeps P (g a)) \<Longrightarrow>
   world_keeps P (\<lambda>w. case x of None \<Rightarrow> f w | Some a \<Rightarrow> g a w)"
  by (cases x) simp_all

lemma world_pair: "(\<And>a b. world_keeps P (g a b)) \<Longrightarrow> world_keeps P (\<lambda>w. case y of (a, b) \<Rightarrow> g a b w)"
  by (cases y) simp

lemma world_ifI:
  "(c \<Longrightarrow> world_keeps P f) \<Longrightarrow> (\<not> c \<Longrightarrow> world_keeps P g) \<Longrightarrow> world_keeps P (\<lambda>w. if c then f w else g w)"
  by (cases c) simp_all

lemma world_return: "world_keeps P (\<lambda>w. (a, w))"
  by (simp add: world_keeps_def)

lemma world_audit: "world_keeps P (\<lambda>w. (r, audit_Log h q a k i m w))"
  by (simp add: world_keeps_def)

lemma world_reload: "fault_blind P \<Longrightarrow> world_keeps P (\<lambda>w. (r, reload_roles h (audit_Log h q a k i m w)))"
  by (simp add: world_keeps_def reload_roles_keeps)

lemma world_need:
  "world_keeps P f \<Longrightarrow> world_keeps P (need_tenant q f)" "world_keeps P f \<Longrightarrow> world_keeps P (need_id msg q f)"
  by (simp_all add: world_keeps_def need_tenant_def need_id_def)

lemmas world_steps = world_prod world_pair world_sum world_option world_ifI world_return world_audit world_need

text \<open>The endpoints that work on the tenant of the request.\<close>

datatype tenant_call =
    CreateRole | ListRoles | UpdateRole | DeleteRole | AssignUserRole | RemoveUserRole | ListUserRoles
  | CreateUser | GetUser | ListUsers | UpdateUser | DeleteUser | ListUserDepartments | JoinDepartment | LeaveDepartment
  | CreateDepartment | GetDepartment | ListAllDepartments | UpdateDepartment | DeleteDepartment

fun serve_tenant :: "tenant_handler \<Rightarrow> tenant_call \<Rightarrow> tenant_endpoint" where
  "serve_tenant h CreateRole = role_HandleCreate h"
| "serve_tenant h ListRoles = role_HandleList h"
| "serve_tenant h UpdateRole = role_HandleUpdate h"
| "serve_tenant h DeleteRole = role_HandleDelete h"
| "serve_tenant h AssignUserRole = HandleAssignRole h"
| "serve_tenant h RemoveUserRole = HandleRemoveRole h"
| "serve_tenant h ListUserRoles = HandleListUserRoles h"
| "serve_tenant h CreateUser = user_HandleCreate h"
| "serve_tenant h GetUser = user_HandleGet h"
| "serve_tenant h ListUsers = user_HandleList h"
| "serve_tenant h UpdateUser = user_HandleUpdate h"
| "serve_tenant h DeleteUser = user_HandleDelete h"
| "serve_tenant h ListUserDepartments = HandleListUserDepartments h"
| "serve_tenant h JoinDepartment = HandleAddToDepartment h"
| "serve_tenant h LeaveDepartment = HandleRemoveFromDepartment h"
| "serve_tenant h CreateDepartment = department_HandleCreate h"
| "serve_tenant h GetDepartment = department_HandleGet h"
| "serve_tenant h ListAllDepartments = department_HandleList h"
| "serve_tenant h UpdateDepartment = department_HandleUpdate h"
| "serve_tenant h DeleteDepartment = department_HandleDelete h"

locale tenant_writes =
  fixes t :: uuid and P :: "db \<Rightarrow> bool"
  assumes blind: "session_blind P"
    and insert_role_keeps: "''*'' \<notin> set ps \<Longrightarrow> keeps (scoped t P) (insert_role n ps)"
    and update_role_keeps: "''*'' \<notin> set ps \<Longrightarrow> keeps (scoped t P) (update_role_stmt n ps i)"
    and delete_role_keeps: "keeps (scoped t P) (delete_role_stmt i)"
    and assign_keeps: "keeps (scoped t P) (assign_checked h x req)"
    and unassign_keeps: "keeps (scoped t P) (unassign_stmt st u r sc)"
    and insert_user_keeps: "keeps (scoped t P) (insert_user email name)"
    and update_user_keeps: "keeps (scoped t P) (update_user_stmt (update_user_row name st) i)"
    and suspend_keeps: "keeps (scoped t P) (suspend_stmt i)"
    and join_keeps: "keeps (scoped t P) (join_checked h x y)"
    and leave_keeps: "keeps (scoped t P) (leave_stmt u d)"
    and create_department_keeps: "keeps (scoped t P) (department_Create pu nm parent)"
    and update_department_keeps: "keeps (scoped t P) (department_Update pu x nm parent)"
    and delete_department_keeps: "keeps (scoped t P) (delete_department_stmt i)"
begin

lemmas statement_keeps = keeps_sql [OF scoped_blind [OF blind]]

lemma role_refused_keeps: "keeps (scoped t P) (role_refused pu i x)"
  unfolding role_refused_def [abs_def] role_is_system_def [abs_def] by (intro keeps_steps statement_keeps)

lemma role_create_keeps: "''*'' \<notin> set ps \<Longrightarrow> keeps (scoped t P) (role_Create n ps)"
  unfolding role_Create_def [abs_def] by (intro keeps_steps keeps_go_error statement_keeps insert_role_keeps)

lemma role_update_keeps: "''*'' \<notin> set ps \<Longrightarrow> keeps (scoped t P) (role_Update pu i n ps)"
  unfolding role_Update_def [abs_def]
  by (intro keeps_steps keeps_go_error statement_keeps update_role_keeps role_refused_keeps)

lemma role_operations:
  "keeps (scoped t P) (role_Delete pu i)" "keeps (scoped t P) (role_List collate)"
  "keeps (scoped t P) (RemoveFromUser pu u r st sc)" "keeps (scoped t P) (ListForUser pu collate u)"
  unfolding role_Delete_def [abs_def] role_List_def [abs_def] RemoveFromUser_def [abs_def] ListForUser_def [abs_def]
  by (intro keeps_steps statement_keeps delete_role_keeps unassign_keeps role_refused_keeps)+

lemma user_update_keeps: "keeps (scoped t P) (user_Update pu i name st)"
  unfolding user_Update_def [abs_def]
  by (intro keeps_steps statement_keeps update_user_keeps)

lemma user_operations:
  "keeps (scoped t P) (user_Create mail email name)" "keeps (scoped t P) (user_GetByID pu i)"
  "keeps (scoped t P) user_List" "keeps (scoped t P) (ListDepartments pu collate i)"
  "keeps (scoped t P) (RemoveFromDepartment pu i d)" "keeps (scoped t P) (SoftDelete pu i)"
  unfolding user_Create_def [abs_def] user_GetByID_def [abs_def] user_List_def [abs_def] ListDepartments_def [abs_def]
    RemoveFromDepartment_def [abs_def] SoftDelete_def [abs_def]
  by (intro keeps_steps keeps_go_error statement_keeps insert_user_keeps leave_keeps suspend_keeps)+

lemma department_operations:
  "keeps (scoped t P) (department_GetByID pu i)" "keeps (scoped t P) department_List"
  "keeps (scoped t P) (department_Delete pu i)"
  unfolding department_GetByID_def [abs_def] department_List_def [abs_def] department_Delete_def [abs_def]
  by (intro keeps_steps statement_keeps delete_department_keeps)+

text \<open>An operation under the tenant of the request, and the endpoints.\<close>

lemma on_tenant_keeps:
  assumes "keeps (scoped t P) f" "th_parse_uuid h x \<in> {None, Some t}"
  shows "world_keeps P (on_tenant h x f)"
  using scoped_tenant_connection [OF blind assms(1), of "th_parse_uuid h" x] assms(2)
  by (simp add: world_keeps_def on_tenant_def keeps_def split: prod.split) (metis snd_conv)

lemmas tenant_steps = world_steps world_reload [OF session_blind_faults [OF blind]] on_tenant_keeps
  role_create_keeps role_update_keeps role_operations assign_keeps user_update_keeps user_operations join_keeps
  create_department_keeps update_department_keeps department_operations

lemma role_endpoints:
  assumes "th_parse_uuid h (tq_tenant q) \<in> {None, Some t}"
  shows "world_keeps P (role_HandleCreate h q)" "world_keeps P (role_HandleList h q)"
    "world_keeps P (role_HandleUpdate h q)" "world_keeps P (role_HandleDelete h q)"
    "world_keeps P (HandleAssignRole h q)" "world_keeps P (HandleRemoveRole h q)"
    "world_keeps P (HandleListUserRoles h q)"
  unfolding role_HandleCreate_def role_HandleList_def role_HandleUpdate_def role_HandleDelete_def HandleAssignRole_def
    HandleRemoveRole_def HandleListUserRoles_def
  by (intro tenant_steps assms; assumption)+

lemma user_endpoints:
  assumes "th_parse_uuid h (tq_tenant q) \<in> {None, Some t}"
  shows "world_keeps P (user_HandleCreate h q)" "world_keeps P (user_HandleGet h q)" "world_keeps P (user_HandleList h q)"
    "world_keeps P (user_HandleUpdate h q)" "world_keeps P (user_HandleDelete h q)"
    "world_keeps P (HandleListUserDepartments h q)" "world_keeps P (HandleAddToDepartment h q)"
    "world_keeps P (HandleRemoveFromDepartment h q)"
  unfolding user_HandleCreate_def user_HandleGet_def user_HandleList_def user_HandleUpdate_def user_HandleDelete_def
    HandleListUserDepartments_def HandleAddToDepartment_def HandleRemoveFromDepartment_def [abs_def]
  by (intro tenant_steps assms)+

lemma department_endpoints:
  assumes "th_parse_uuid h (tq_tenant q) \<in> {None, Some t}"
  shows "world_keeps P (department_HandleCreate h q)" "world_keeps P (department_HandleGet h q)"
    "world_keeps P (department_HandleList h q)" "world_keeps P (department_HandleUpdate h q)"
    "world_keeps P (department_HandleDelete h q)"
  unfolding department_HandleCreate_def department_HandleGet_def department_HandleList_def department_HandleUpdate_def
    department_HandleDelete_def
  by (intro tenant_steps assms)+

theorem serve_tenant_keeps:
  assumes "th_parse_uuid h (tq_tenant q) \<in> {None, Some t}"
  shows "world_keeps P (serve_tenant h c q)"
  by (cases c) (simp_all add: role_endpoints [OF assms] user_endpoints [OF assms] department_endpoints [OF assms])

end

end
