(* ===== verification/Tenant_Links.thy ===== *)
theory Tenant_Links
  imports Tenant_Laws
begin

text \<open>
  The tables of the tenant administration belong together: assignments, memberships and parents
  stay within one tenant, and keys are unique. With row-level security every statement keeps that
  and leaves the rows of the other tenants alone; system roles need no policy.
\<close>

section \<open>Keys and links\<close>

type_synonym tenant_keys = "(uuid \<times> uuid) list"

definition user_keys :: "db \<Rightarrow> tenant_keys" where
  "user_keys s = map (\<lambda>u. (us_ID u, us_TenantID u)) (db_users s)"

definition role_keys :: "db \<Rightarrow> tenant_keys" where
  "role_keys s = map (\<lambda>r. (rl_ID r, rl_TenantID r)) (db_roles s)"

definition department_keys :: "db \<Rightarrow> tenant_keys" where
  "department_keys s = map (\<lambda>d. (dp_ID d, dp_TenantID d)) (db_departments s)"

definition fresh_keys :: "nat \<Rightarrow> tenant_keys \<Rightarrow> bool" where
  "fresh_keys n ks \<longleftrightarrow> distinct (map fst ks) \<and> list_all (\<lambda>k. fst k < n) ks"

definition in_one_tenant :: "tenant_keys \<Rightarrow> tenant_keys \<Rightarrow> uuid \<Rightarrow> uuid \<Rightarrow> bool" where
  "in_one_tenant ks ls a b \<longleftrightarrow> list_ex (\<lambda>k. fst k = a \<and> (b, snd k) \<in> set ls) ks"

definition parent_ok :: "tenant_keys \<Rightarrow> Department \<Rightarrow> bool" where
  "parent_ok ks d = (case dp_ParentID d of None \<Rightarrow> True | Some p \<Rightarrow> (p, dp_TenantID d) \<in> set ks)"

definition agent_ok :: "tenant_keys \<Rightarrow> AgentInstance \<Rightarrow> bool" where
  "agent_ok ks a =
     (case ai_DepartmentID a of
        None \<Rightarrow> True
      | Some d \<Rightarrow> (case ai_TenantID a of None \<Rightarrow> False | Some t \<Rightarrow> (d, t) \<in> set ks))"

definition keys_fresh :: "db \<Rightarrow> bool" where
  "keys_fresh s \<longleftrightarrow>
     fresh_keys (db_next s) (user_keys s) \<and> fresh_keys (db_next s) (role_keys s) \<and> fresh_keys (db_next s) (department_keys s)"

definition linked :: "db \<Rightarrow> bool" where
  "linked s \<longleftrightarrow>
     db_rls s \<and> keys_fresh s \<and>
     list_all (\<lambda>x. in_one_tenant (user_keys s) (role_keys s) (ur_UserID x) (ur_RoleID x)) (db_user_roles s) \<and>
     list_all (\<lambda>x. in_one_tenant (user_keys s) (department_keys s) (fst x) (snd x)) (db_user_departments s) \<and>
     list_all (parent_ok (department_keys s)) (db_departments s) \<and>
     list_all (agent_ok (department_keys s)) (db_agents s)"

text \<open>What the tables hold for a tenant.\<close>

record tenant_rows =
  tr_users :: "User list"
  tr_roles :: "Role list"
  tr_departments :: "Department list"
  tr_user_roles :: "UserRole list"
  tr_user_departments :: "(uuid \<times> uuid) list"
  tr_agents :: "AgentInstance list"

definition tenant_view :: "uuid \<Rightarrow> db \<Rightarrow> tenant_rows" where
  "tenant_view t s =
     \<lparr>tr_users = filter (\<lambda>u. us_TenantID u = t) (db_users s),
      tr_roles = filter (\<lambda>r. rl_TenantID r = t) (db_roles s),
      tr_departments = filter (\<lambda>d. dp_TenantID d = t) (db_departments s),
      tr_user_roles = filter (\<lambda>x. (ur_UserID x, t) \<in> set (user_keys s)) (db_user_roles s),
      tr_user_departments = filter (\<lambda>x. (fst x, t) \<in> set (user_keys s)) (db_user_departments s),
      tr_agents = filter (\<lambda>a. ai_TenantID a = Some t) (db_agents s)\<rparr>"

definition isolated :: "uuid \<Rightarrow> db \<Rightarrow> db \<Rightarrow> bool" where
  "isolated t s0 s \<longleftrightarrow> linked s \<and> (\<forall>t'. t' \<noteq> t \<longrightarrow> tenant_view t' s = tenant_view t' s0)"

lemmas key_defs = user_keys_def role_keys_def department_keys_def

lemma isolated_blind: "session_blind (isolated t s0)"
  by (simp add: session_blind_def isolated_def linked_def keys_fresh_def tenant_view_def key_defs)

text \<open>A key belongs to one tenant.\<close>

lemma key_unique: "fresh_keys n ks \<Longrightarrow> (i, a) \<in> set ks \<Longrightarrow> (i, b) \<in> set ks \<Longrightarrow> a = b"
  by (auto simp: fresh_keys_def dest: eq_key_imp_eq_value)

lemma fresh_keys_snoc: "fresh_keys n ks \<Longrightarrow> fresh_keys (Suc n) (ks @ [(n, t)])"
  by (auto simp: fresh_keys_def list_all_iff)

lemma fresh_keys_Suc: "fresh_keys n ks \<Longrightarrow> fresh_keys (Suc n) ks"
  by (auto simp: fresh_keys_def list_all_iff)

lemma key_below: "fresh_keys n ks \<Longrightarrow> (n, t) \<notin> set ks"
  by (auto simp: fresh_keys_def list_all_iff)

lemma in_one_tenant_iff: "in_one_tenant ks ls a b \<longleftrightarrow> (\<exists>t. (a, t) \<in> set ks \<and> (b, t) \<in> set ls)"
  by (force simp: in_one_tenant_def list_ex_iff)

lemma in_one_tenant_mono:
  "in_one_tenant ks ls a b \<Longrightarrow> set ks \<subseteq> set ks' \<Longrightarrow> set ls \<subseteq> set ls' \<Longrightarrow> in_one_tenant ks' ls' a b"
  by (auto simp: in_one_tenant_iff)

section \<open>The statements\<close>

text \<open>A state of a connection of the tenant, and what a statement on it may do.\<close>

definition serving :: "uuid \<Rightarrow> db \<Rightarrow> bool" where
  "serving t s \<longleftrightarrow> db_tenant s = Some t \<and> linked s"

definition apart :: "uuid \<Rightarrow> db \<Rightarrow> db \<Rightarrow> bool" where
  "apart t s s' \<longleftrightarrow> serving t s' \<and> (\<forall>t'. t' \<noteq> t \<longrightarrow> tenant_view t' s' = tenant_view t' s)"

lemma apart_refl: "serving t s \<Longrightarrow> apart t s s"
  by (simp add: apart_def)

lemma isolatedI: "(\<And>s. serving t s \<Longrightarrow> apart t s (snd (f s))) \<Longrightarrow> keeps (scoped t (isolated t s0)) f"
  by (rule keepsI) (simp add: scoped_def isolated_def serving_def apart_def)

lemma serving_visible: "serving t s \<Longrightarrow> visible s x \<longleftrightarrow> x = t"
  by (auto simp: serving_def linked_def visible_def own_def)

lemma serving_user_visible: "serving t s \<Longrightarrow> user_visible s u \<longleftrightarrow> (u, t) \<in> set (user_keys s)"
  by (auto simp: serving_def linked_def user_visible_def own_def list_ex_iff user_keys_def)

lemma fresh_user: "linked s \<Longrightarrow> (db_next s, t) \<notin> set (user_keys s)"
  using key_below by (auto simp: linked_def keys_fresh_def)

lemma linked_users: "linked s \<Longrightarrow> fresh_keys (db_next s) (user_keys s)"
  by (simp add: linked_def keys_fresh_def)

lemma insert_role_apart:
  assumes "serving t s"
  shows "apart t s (snd (insert_role n ps s))"
proof -
  have "apart t s (s\<lparr>db_roles := db_roles s @ [row], db_next := Suc (db_next s)\<rparr>)"
    if "rl_ID row = db_next s" "rl_TenantID row = t" for row
    using assms that
    by (auto simp: apart_def serving_def linked_def keys_fresh_def tenant_view_def key_defs fresh_keys_snoc fresh_keys_Suc
        list_all_iff intro: in_one_tenant_mono)
  with assms show ?thesis
    by (auto simp: insert_role_def serving_def Let_def apart_refl [OF assms])
qed

lemma insert_user_apart:
  assumes "serving t s"
  shows "apart t s (snd (insert_user email name s))"
proof -
  have "apart t s (s\<lparr>db_users := db_users s @ [row], db_next := Suc (db_next s)\<rparr>)"
    if "us_ID row = db_next s" "us_TenantID row = t" for row
    using assms that
    by (auto simp: apart_def serving_def linked_def keys_fresh_def tenant_view_def key_defs fresh_keys_snoc fresh_keys_Suc
        list_all_iff intro: in_one_tenant_mono)
  with assms show ?thesis
    by (auto simp: insert_user_def serving_def Let_def apart_refl [OF assms])
qed

text \<open>Changes of a row that keep its keys.\<close>

lemma user_keys_update:
  assumes "\<And>u. us_ID (f u) = us_ID u \<and> us_TenantID (f u) = us_TenantID u"
  shows "map (\<lambda>u. (us_ID u, us_TenantID u)) (upd_where p f us) = map (\<lambda>u. (us_ID u, us_TenantID u)) us"
  using assms by (simp add: upd_where_def)

lemma users_changed:
  assumes "serving t s" "\<And>u. us_ID (f u) = us_ID u \<and> us_TenantID (f u) = us_TenantID u"
  shows "apart t s (s\<lparr>db_users := upd_where (\<lambda>u. us_ID u = i \<and> us_TenantID u = t) f (db_users s)\<rparr>)"
  using assms
  by (auto simp: apart_def serving_def linked_def keys_fresh_def tenant_view_def key_defs user_keys_update intro!: update_others)

lemma update_user_apart:
  assumes "serving t s" "\<And>u. us_ID (f u) = us_ID u \<and> us_TenantID (f u) = us_TenantID u"
  shows "apart t s (snd (update_user_stmt f i s))"
  using users_changed [OF assms]
  by (simp add: update_user_stmt_def serving_visible [OF assms(1)] Let_def apart_refl [OF assms(1)] split: option.split)

lemma suspend_apart: "serving t s \<Longrightarrow> apart t s (snd (suspend_stmt i s))"
  using users_changed [of t s suspend_row i] by (simp add: suspend_stmt_def serving_visible Let_def suspend_row_def)

lemma role_keys_update:
  "map (\<lambda>r. (rl_ID r, rl_TenantID r)) (upd_where p (\<lambda>r. r\<lparr>rl_Name := n, rl_Permissions := ps\<rparr>) rs) =
   map (\<lambda>r. (rl_ID r, rl_TenantID r)) rs"
  by (simp add: upd_where_def)

lemma update_role_apart: "serving t s \<Longrightarrow> apart t s (snd (update_role_stmt n ps i s))"
  by (auto simp: update_role_stmt_def Let_def serving_visible apart_refl split: option.split)
    (auto simp: apart_def serving_def linked_def keys_fresh_def tenant_view_def key_defs role_keys_update intro!: update_others)

text \<open>Removed assignments and memberships are those of users of the tenant.\<close>

lemma assignments_removed:
  assumes "serving t s" "\<And>x. x \<in> set (db_user_roles s) \<Longrightarrow> p x \<Longrightarrow> (ur_UserID x, t) \<in> set (user_keys s)"
  shows "apart t s (s\<lparr>db_user_roles := filter (\<lambda>x. \<not> p x) (db_user_roles s)\<rparr>)"
proof -
  have l: "linked s" using assms(1) by (simp add: serving_def)
  have "filter (\<lambda>x. \<not> p x \<and> (ur_UserID x, t') \<in> set (user_keys s)) (db_user_roles s) =
      filter (\<lambda>x. (ur_UserID x, t') \<in> set (user_keys s)) (db_user_roles s)" if "t' \<noteq> t" for t'
    using assms(2) key_unique [OF linked_users [OF l]] that by (intro filter_cong) auto
  with assms(1) show ?thesis
    by (auto simp: apart_def serving_def linked_def keys_fresh_def tenant_view_def key_defs list_all_iff)
qed

lemma memberships_removed:
  assumes "serving t s" "\<And>x. x \<in> set (db_user_departments s) \<Longrightarrow> p x \<Longrightarrow> (fst x, t) \<in> set (user_keys s)"
  shows "apart t s (s\<lparr>db_user_departments := filter (\<lambda>x. \<not> p x) (db_user_departments s)\<rparr>)"
proof -
  have l: "linked s" using assms(1) by (simp add: serving_def)
  have "filter (\<lambda>x. \<not> p x \<and> (fst x, t') \<in> set (user_keys s)) (db_user_departments s) =
      filter (\<lambda>x. (fst x, t') \<in> set (user_keys s)) (db_user_departments s)" if "t' \<noteq> t" for t'
    using assms(2) key_unique [OF linked_users [OF l]] that by (intro filter_cong) auto
  with assms(1) show ?thesis
    by (auto simp: apart_def serving_def linked_def keys_fresh_def tenant_view_def key_defs list_all_iff)
qed

lemma unassign_apart: "serving t s \<Longrightarrow> apart t s (snd (unassign_stmt st u r sc s))"
  using assignments_removed [of t s "\<lambda>x. ur_UserID x = u \<and> ur_RoleID x = r \<and> ur_ScopeType x = st \<and> ur_ScopeID x = sc \<and>
    user_visible s u"] by (simp add: unassign_stmt_def serving_user_visible)

lemma leave_apart: "serving t s \<Longrightarrow> apart t s (snd (leave_stmt u d s))"
  using memberships_removed [of t s "\<lambda>x. x = (u, d) \<and> user_visible s u"]
  by (simp add: leave_stmt_def serving_user_visible)

text \<open>The assignments of a deleted role are of its tenant.\<close>

lemma role_removed:
  assumes "serving t s" "(i, t) \<in> set (role_keys s)"
  shows "apart t s (s\<lparr>db_roles := filter (\<lambda>r. \<not> (rl_ID r = i \<and> \<not> rl_IsSystem r \<and> rl_TenantID r = t)) (db_roles s),
    db_user_roles := filter (\<lambda>x. ur_RoleID x \<noteq> i) (db_user_roles s)\<rparr>)" (is "apart t s ?s'")
proof -
  have l: "linked s" using assms(1) by (simp add: serving_def)
  have r: "in_one_tenant (user_keys s) (role_keys s) (ur_UserID x) (ur_RoleID x)" if "x \<in> set (db_user_roles s)" for x
    using l that by (simp add: linked_def list_all_iff)
  have fr: "fresh_keys (db_next s) (role_keys s)" using l by (simp add: linked_def keys_fresh_def)
  have u: "(ur_UserID x, t) \<in> set (user_keys s)" if "x \<in> set (db_user_roles s)" "ur_RoleID x = i" for x
    using r [OF that(1)] key_unique [OF fr assms(2)] that(2) by (auto simp: in_one_tenant_iff)
  let ?s1 = "s\<lparr>db_user_roles := filter (\<lambda>x. \<not> ur_RoleID x = i) (db_user_roles s)\<rparr>"
  have 1: "apart t s ?s1" using u by (intro assignments_removed [OF assms(1)])
  have keys: "set (role_keys ?s') \<supseteq> {k \<in> set (role_keys s). fst k \<noteq> i}"
    by (auto simp: role_keys_def)
  have "linked ?s'"
  proof -
    have "fresh_keys (db_next s) (role_keys ?s')"
      using fr by (auto simp: fresh_keys_def role_keys_def list_all_iff distinct_map_filter comp_def)
    moreover have "in_one_tenant (user_keys s) (role_keys ?s') (ur_UserID x) (ur_RoleID x)"
      if "x \<in> set (db_user_roles s)" "ur_RoleID x \<noteq> i" for x
      using r [OF that(1)] keys that(2) by (auto simp: in_one_tenant_iff)
    ultimately show ?thesis
      using l by (simp add: linked_def keys_fresh_def list_all_iff user_keys_def department_keys_def)
  qed
  moreover have "tenant_view t' ?s' = tenant_view t' s" if "t' \<noteq> t" for t'
  proof -
    have "filter (\<lambda>r. rl_TenantID r = t') (db_roles ?s') = filter (\<lambda>r. rl_TenantID r = t') (db_roles s)"
      using that by (auto intro!: filter_cong)
    moreover have "tenant_view t' ?s1 = tenant_view t' s" using 1 that by (simp add: apart_def)
    ultimately show ?thesis by (simp add: tenant_view_def user_keys_def)
  qed
  ultimately show ?thesis using assms(1) by (simp add: apart_def serving_def)
qed

lemma delete_role_apart:
  assumes "serving t s"
  shows "apart t s (snd (delete_role_stmt i s))"
proof (cases "list_ex (\<lambda>r. rl_ID r = i \<and> \<not> rl_IsSystem r \<and> rl_TenantID r = t) (db_roles s)")
  case True
  then have "(i, t) \<in> set (role_keys s)" by (force simp: list_ex_iff role_keys_def)
  then show ?thesis
    using role_removed [OF assms] by (simp add: delete_role_stmt_def serving_visible [OF assms] Let_def apart_refl [OF assms])
qed (simp add: delete_role_stmt_def serving_visible [OF assms] Let_def apart_refl [OF assms])

text \<open>A deleted department leaves the references within its tenant.\<close>

lemma filter_untouched:
  "(\<And>x. x \<in> set xs \<Longrightarrow> q (f x) = q x \<and> (q x \<longrightarrow> n x \<and> f x = x)) \<Longrightarrow> filter q (map f (filter n xs)) = filter q xs"
  by (induction xs) auto

lemma orphan_department_keys [simp]:
  "dp_ID (orphan_department gone d) = dp_ID d" "dp_TenantID (orphan_department gone d) = dp_TenantID d"
  by (simp_all add: orphan_department_def split: option.split)

lemma orphan_agent_tenant [simp]: "ai_TenantID (orphan_agent gone a) = ai_TenantID a"
  by (simp add: orphan_agent_def split: option.split)

lemma agent_untouched:
  "agent_ok ks a \<Longrightarrow> ai_TenantID a = Some t' \<Longrightarrow> \<forall>d \<in> set gone. (d, t') \<notin> set ks \<Longrightarrow> orphan_agent gone a = a"
  by (auto simp: agent_ok_def orphan_agent_def split: option.splits)

lemma department_untouched:
  "parent_ok ks d \<Longrightarrow> \<forall>i \<in> set gone. (i, dp_TenantID d) \<notin> set ks \<Longrightarrow> orphan_department gone d = d"
  by (auto simp: parent_ok_def orphan_department_def split: option.splits)

lemma department_removed:
  assumes "serving t s" and gone: "\<And>d. d \<in> set gone \<Longrightarrow> (d, t) \<in> set (department_keys s)"
    and p: "\<And>d. d \<in> set (db_departments s) \<Longrightarrow> p d \<Longrightarrow> dp_ID d \<in> set gone \<and> dp_TenantID d = t"
  shows "apart t s (s\<lparr>db_departments := map (orphan_department gone) (filter (\<lambda>d. \<not> p d) (db_departments s)),
    db_user_departments := filter (\<lambda>x. \<not> snd x \<in> set gone) (db_user_departments s),
    db_agents := map (orphan_agent gone) (db_agents s)\<rparr>)" (is "apart t s ?s'")
proof -
  have l: "linked s" using assms(1) by (simp add: serving_def)
  have fr: "fresh_keys (db_next s) (department_keys s)" using l by (simp add: linked_def keys_fresh_def)
  have one: "t' = t" if "d \<in> set gone" "(d, t') \<in> set (department_keys s)" for d t'
    using key_unique [OF fr gone [OF that(1)] that(2)] by simp
  have m: "in_one_tenant (user_keys s) (department_keys s) (fst x) (snd x)" if "x \<in> set (db_user_departments s)" for x
    using l that by (simp add: linked_def list_all_iff)
  have pa: "parent_ok (department_keys s) d" if "d \<in> set (db_departments s)" for d
    using l that by (simp add: linked_def list_all_iff)
  have ag: "agent_ok (department_keys s) a" if "a \<in> set (db_agents s)" for a
    using l that by (simp add: linked_def list_all_iff)
  have keys: "set (department_keys ?s') \<supseteq> {k \<in> set (department_keys s). fst k \<notin> set gone}"
    using p by (force simp: department_keys_def)
  let ?s1 = "s\<lparr>db_user_departments := filter (\<lambda>x. \<not> snd x \<in> set gone) (db_user_departments s)\<rparr>"
  have 1: "apart t s ?s1"
  proof (rule memberships_removed [OF assms(1)])
    fix x assume "x \<in> set (db_user_departments s)" "snd x \<in> set gone"
    then show "(fst x, t) \<in> set (user_keys s)" using m [of x] one by (auto simp: in_one_tenant_iff)
  qed
  have "linked ?s'"
  proof -
    have "fresh_keys (db_next s) (department_keys ?s')"
      using fr by (auto simp: fresh_keys_def department_keys_def list_all_iff distinct_map_filter comp_def)
    moreover have "in_one_tenant (user_keys s) (department_keys ?s') (fst x) (snd x)"
      if "x \<in> set (db_user_departments s)" "snd x \<notin> set gone" for x
      using m [OF that(1)] keys that(2) by (auto simp: in_one_tenant_iff)
    moreover have "parent_ok (department_keys ?s') (orphan_department gone d)" if "d \<in> set (db_departments s)" for d
      using pa [OF that] keys by (auto simp: parent_ok_def orphan_department_def split: option.splits)
    moreover have "agent_ok (department_keys ?s') (orphan_agent gone a)" if "a \<in> set (db_agents s)" for a
      using ag [OF that] keys by (auto simp: agent_ok_def orphan_agent_def split: option.splits)
    ultimately show ?thesis
      using l by (simp add: linked_def keys_fresh_def list_all_iff user_keys_def role_keys_def)
  qed
  moreover have "tenant_view t' ?s' = tenant_view t' s" if "t' \<noteq> t" for t'
  proof -
    have o: "\<forall>d \<in> set gone. (d, t') \<notin> set (department_keys s)" using one that by blast
    have "filter (\<lambda>d. dp_TenantID d = t') (db_departments ?s') = filter (\<lambda>d. dp_TenantID d = t') (db_departments s)"
      using p that department_untouched [OF pa, of _ gone] o by simp (rule filter_untouched, auto)
    moreover have "filter (\<lambda>a. ai_TenantID a = Some t') (db_agents ?s') = filter (\<lambda>a. ai_TenantID a = Some t') (db_agents s)"
      using filter_untouched [of "db_agents s" "\<lambda>a. ai_TenantID a = Some t'" "orphan_agent gone" "\<lambda>_. True"]
        agent_untouched [OF ag _ o] by simp
    moreover have "tenant_view t' ?s1 = tenant_view t' s" using 1 that by (simp add: apart_def)
    ultimately show ?thesis by (simp add: tenant_view_def user_keys_def)
  qed
  ultimately show ?thesis using assms(1) by (simp add: apart_def serving_def)
qed

lemma delete_department_apart:
  assumes "serving t s"
  shows "apart t s (snd (delete_department_stmt i s))"
proof -
  let ?p = "\<lambda>d. dp_ID d = i \<and> dp_TenantID d = t"
  have "(d, t) \<in> set (department_keys s)" if "d \<in> set (map dp_ID (filter ?p (db_departments s)))" for d
    using that by (auto simp: department_keys_def)
  then have "apart t s (s\<lparr>db_departments :=
        map (orphan_department (map dp_ID (filter ?p (db_departments s)))) (filter (\<lambda>d. \<not> ?p d) (db_departments s)),
      db_user_departments := filter (\<lambda>x. \<not> snd x \<in> set (map dp_ID (filter ?p (db_departments s)))) (db_user_departments s),
      db_agents := map (orphan_agent (map dp_ID (filter ?p (db_departments s)))) (db_agents s)\<rparr>)"
    by (rule department_removed [OF assms]) auto
  then show ?thesis by (simp only: delete_department_stmt_def serving_visible [OF assms] Let_def snd_conv)
qed

text \<open>New references, to rows of the tenant.\<close>

lemma keys_of_other_tables [simp]:
  "user_keys (s\<lparr>db_user_roles := a\<rparr>) = user_keys s" "role_keys (s\<lparr>db_user_roles := a\<rparr>) = role_keys s"
  "department_keys (s\<lparr>db_user_roles := a\<rparr>) = department_keys s"
  "user_keys (s\<lparr>db_user_departments := b\<rparr>) = user_keys s" "role_keys (s\<lparr>db_user_departments := b\<rparr>) = role_keys s"
  "department_keys (s\<lparr>db_user_departments := b\<rparr>) = department_keys s"
  "user_keys (s\<lparr>db_departments := c\<rparr>) = user_keys s" "role_keys (s\<lparr>db_departments := c\<rparr>) = role_keys s"
  by (simp_all add: key_defs)

lemma key_of_one: "serving t s \<Longrightarrow> (u, t) \<in> set (user_keys s) \<Longrightarrow> t' \<noteq> t \<Longrightarrow> (u, t') \<notin> set (user_keys s)"
  using key_unique [OF linked_users] by (auto simp: serving_def)

lemma assign_apart:
  assumes "serving t s" "(r, t) \<in> set (role_keys s)"
  shows "apart t s (snd (assign_stmt st u r sc s))"
proof -
  have "apart t s (s\<lparr>db_user_roles := db_user_roles s @ [x]\<rparr>)"
    if u: "(u, t) \<in> set (user_keys s)" "ur_UserID x = u" "ur_RoleID x = r" for x
  proof -
    have "in_one_tenant (user_keys s) (role_keys s) u r" using assms(2) u(1) by (auto simp: in_one_tenant_iff)
    with assms(1) key_of_one [OF assms(1) u(1)] show ?thesis
      by (simp add: apart_def serving_def linked_def keys_fresh_def tenant_view_def u(2,3))
  qed
  with assms(1) show ?thesis by (simp add: assign_stmt_def Let_def serving_user_visible apart_refl)
qed

lemma join_apart:
  assumes "serving t s" "(d, t) \<in> set (department_keys s)"
  shows "apart t s (snd (join_stmt u d s))"
proof -
  have "apart t s (s\<lparr>db_user_departments := db_user_departments s @ [(u, d)]\<rparr>)" if u: "(u, t) \<in> set (user_keys s)"
  proof -
    have "in_one_tenant (user_keys s) (department_keys s) u d" using assms(2) u by (auto simp: in_one_tenant_iff)
    with assms(1) key_of_one [OF assms(1) u] show ?thesis
      by (simp add: apart_def serving_def linked_def keys_fresh_def tenant_view_def)
  qed
  with assms(1) show ?thesis by (simp add: join_stmt_def serving_user_visible apart_refl)
qed

definition own_parent :: "uuid \<Rightarrow> uuid option \<Rightarrow> db \<Rightarrow> bool" where
  "own_parent t parent s = (case parent of None \<Rightarrow> True | Some p \<Rightarrow> (p, t) \<in> set (department_keys s))"

lemma parent_ok_mono: "parent_ok ks d \<Longrightarrow> set ks \<subseteq> set ks' \<Longrightarrow> parent_ok ks' d"
  by (auto simp: parent_ok_def split: option.splits)

lemma agent_ok_mono: "agent_ok ks a \<Longrightarrow> set ks \<subseteq> set ks' \<Longrightarrow> agent_ok ks' a"
  by (auto simp: agent_ok_def split: option.splits)

lemma insert_department_apart:
  assumes "serving t s" "own_parent t parent s"
  shows "apart t s (snd (insert_department nm parent s))"
proof -
  have "apart t s (s\<lparr>db_departments := db_departments s @ [d], db_next := Suc (db_next s)\<rparr>)"
    if "dp_ID d = db_next s" "dp_TenantID d = t" "dp_ParentID d = parent" for d
  proof -
    have "parent_ok (department_keys s @ [(db_next s, t)]) d"
      using assms(2) that by (simp add: own_parent_def parent_ok_def split: option.splits)
    then show ?thesis
      using assms(1) that
      by (auto simp: apart_def serving_def linked_def keys_fresh_def tenant_view_def key_defs fresh_keys_snoc fresh_keys_Suc
          list_all_iff intro: in_one_tenant_mono parent_ok_mono agent_ok_mono)
  qed
  with assms(1) show ?thesis
    by (auto simp: insert_department_def serving_def Let_def apart_refl [OF assms(1)])
qed

lemma update_department_keys [simp]:
  "department_keys (s\<lparr>db_departments := upd_where p (update_department_row nm up parent) (db_departments s)\<rparr>) = department_keys s"
  by (simp add: department_keys_def upd_where_def update_department_row_def)

lemma update_department_apart:
  assumes "serving t s" "own_parent t parent s"
  shows "apart t s (snd (update_department_stmt nm up i parent s))"
proof -
  let ?f = "update_department_row nm up parent" and ?p = "\<lambda>d. dp_ID d = i \<and> dp_TenantID d = t"
  have "parent_ok (department_keys s) (?f d)" if "d \<in> set (db_departments s)" "dp_TenantID d = t" for d
    using assms that
    by (auto simp: own_parent_def parent_ok_def update_department_row_def serving_def linked_def list_all_iff split: option.splits)
  then have "list_all (parent_ok (department_keys s)) (upd_where ?p ?f (db_departments s))"
    using assms(1) by (auto simp: upd_where_def list_all_iff serving_def linked_def)
  moreover have "filter (\<lambda>d. dp_TenantID d = t') (upd_where ?p ?f (db_departments s)) =
      filter (\<lambda>d. dp_TenantID d = t') (db_departments s)" if "t' \<noteq> t" for t'
    using that by (intro update_others) (simp add: update_department_row_def)
  ultimately have "apart t s (s\<lparr>db_departments := upd_where ?p ?f (db_departments s)\<rparr>)"
    using assms(1) by (simp add: apart_def serving_def linked_def keys_fresh_def tenant_view_def)
  then show ?thesis
    by (simp add: update_department_stmt_def Let_def serving_visible [OF assms(1)] apart_refl [OF assms(1)] split: option.split)
qed

section \<open>Operations that look rows up first\<close>

lemma serving_faults [simp]: "serving t (s\<lparr>db_faults := fs\<rparr>) = serving t s"
  by (simp add: serving_def linked_def keys_fresh_def key_defs)

lemma apart_faults [simp]: "apart t (s\<lparr>db_faults := fs\<rparr>) s' = apart t s s'"
  by (simp add: apart_def tenant_view_def key_defs)

lemma apart_after_faults: "serving t s \<Longrightarrow> apart t s (s\<lparr>db_faults := fs\<rparr>)"
  by (simp add: apart_def tenant_view_def key_defs)

lemma sql_apart:
  assumes "serving t s" "\<And>fs. apart t s (snd (stmt (s\<lparr>db_faults := fs\<rparr>)))"
  shows "apart t s (snd (sql stmt s :: ('e go_error + 'a) \<times> db))"
proof -
  obtain r :: "'e go_error + 'a" and s' where rs: "sql stmt s = (r, s')" by fastforce
  then show ?thesis
  proof (cases rule: sql_cases)
    case (fault m)
    then show ?thesis using rs apart_after_faults [OF assms(1)] by simp
  next
    case (ok fs a)
    then show ?thesis using rs assms(2) [of fs] by simp
  qed
qed

text \<open>A row that is found is one of the tenant, and the state has only lost faults.\<close>

lemma lookup_row:
  fixes r :: "'e go_error + 'a"
  assumes "query_row m x (checked (sql (with_uuid pu i (\<lambda>u s. (Inr (g u s), s))) s)) = (r, s')"
  obtains fs where "s' = s\<lparr>db_faults := fs\<rparr>" "\<And>a. r = Inr a \<Longrightarrow> \<exists>u. pu i = Some u \<and> g u s' = Some a"
proof -
  obtain y :: "'e go_error + (string + 'a option)" and s1 where y: "sql (with_uuid pu i (\<lambda>u s. (Inr (g u s), s))) s = (y, s1)" by fastforce
  have s1: "s' = s1" using assms y by (metis snd_checked snd_query_row snd_conv)
  show thesis using y
  proof (cases rule: sql_cases)
    case (fault e)
    then show ?thesis using assms y s1 by (intro that [of "tl (db_faults s)"]) (auto simp: query_row_def checked_def)
  next
    case (ok fs a)
    then show ?thesis
      using assms y s1 by (intro that [of fs]) (auto simp: with_uuid_def query_row_def checked_def split: option.splits)
  qed
qed

lemma found_role: "serving t s \<Longrightarrow> find_role u s = Some a \<Longrightarrow> (u, t) \<in> set (role_keys s)"
  by (auto simp: find_role_def find_Some_iff serving_visible role_keys_def)

lemma found_department: "serving t s \<Longrightarrow> find_department u s = Some a \<Longrightarrow> (u, t) \<in> set (department_keys s)"
  by (auto simp: find_department_def find_Some_iff serving_visible department_keys_def)

lemma user_lookup:
  assumes "user_GetByID pu i s = (r, s')"
  obtains fs where "s' = s\<lparr>db_faults := fs\<rparr>"
  using assms unfolding user_GetByID_def by (rule lookup_row) (rule that)

lemma role_lookup:
  assumes "role_GetByID pu i s = (r, s')" "serving t s"
  obtains fs where "s' = s\<lparr>db_faults := fs\<rparr>" "\<And>a. r = Inr a \<Longrightarrow> \<exists>u. pu i = Some u \<and> (u, t) \<in> set (role_keys s')"
  using assms(1) unfolding role_GetByID_def
proof (rule lookup_row)
  fix fs assume s': "s' = s\<lparr>db_faults := fs\<rparr>" and f: "\<And>a. r = Inr a \<Longrightarrow> \<exists>u. pu i = Some u \<and> find_role u s' = Some a"
  have "serving t s'" using assms(2) s' by simp
  from s' show thesis by (rule that) (use f found_role [OF \<open>serving t s'\<close>] in blast)
qed

lemma department_lookup:
  assumes "department_GetByID pu i s = (r, s')" "serving t s"
  obtains fs where "s' = s\<lparr>db_faults := fs\<rparr>" "\<And>a. r = Inr a \<Longrightarrow> \<exists>u. pu i = Some u \<and> (u, t) \<in> set (department_keys s')"
  using assms(1) unfolding department_GetByID_def
proof (rule lookup_row)
  fix fs assume s': "s' = s\<lparr>db_faults := fs\<rparr>" and f: "\<And>a. r = Inr a \<Longrightarrow> \<exists>u. pu i = Some u \<and> find_department u s' = Some a"
  have "serving t s'" using assms(2) s' by simp
  from s' show thesis by (rule that) (use f found_department [OF \<open>serving t s'\<close>] in blast)
qed

lemma keys_faults [simp]:
  "user_keys (s\<lparr>db_faults := fs\<rparr>) = user_keys s" "role_keys (s\<lparr>db_faults := fs\<rparr>) = role_keys s"
  "department_keys (s\<lparr>db_faults := fs\<rparr>) = department_keys s"
  by (simp_all add: key_defs)

lemma AssignToUser_apart:
  assumes "serving t s" "pu r = Some u" "(u, t) \<in> set (role_keys s)"
  shows "apart t s (snd (AssignToUser pu x r st sc s))"
proof -
  have "apart t s (snd (assign_stmt st y u z (s\<lparr>db_faults := fs\<rparr>)))" for y z fs
    using assign_apart [of t "s\<lparr>db_faults := fs\<rparr>" u st y z] assms(1,3) by simp
  then show ?thesis
    unfolding AssignToUser_def snd_wrap_err snd_checked
    by (intro sql_apart assms(1)) (simp add: with_uuid_def assms(2) apart_after_faults [OF assms(1)] split: option.split)
qed

lemma AddToDepartment_apart:
  assumes "serving t s" "pu d = Some u" "(u, t) \<in> set (department_keys s)"
  shows "apart t s (snd (AddToDepartment pu x d s))"
proof -
  have "apart t s (snd (join_stmt y u (s\<lparr>db_faults := fs\<rparr>)))" for y fs
    using join_apart [of t "s\<lparr>db_faults := fs\<rparr>" u y] assms(1,3) by simp
  then show ?thesis
    unfolding AddToDepartment_def snd_wrap_err snd_checked
    by (intro sql_apart assms(1)) (simp add: with_uuid_def assms(2) apart_after_faults [OF assms(1)] split: option.split)
qed

lemma assign_checked_apart:
  assumes s: "serving t s"
  shows "apart t s (snd (assign_checked h x req s))"
proof -
  let ?pu = "th_parse_uuid h"
  obtain r1 s1 where 1: "user_GetByID ?pu x s = (r1, s1)" by fastforce
  obtain r2 s2 where 2: "role_GetByID ?pu (sq_RoleID req) s1 = (r2, s2)" by fastforce
  obtain r3 s3 where 3: "department_GetByID ?pu (sq_ScopeID req) s2 = (r3, s3)" by fastforce
  obtain f1 where s1: "s1 = s\<lparr>db_faults := f1\<rparr>" using user_lookup [OF 1] .
  have sv1: "serving t s1" using s by (simp add: s1)
  obtain f2 where s2: "s2 = s1\<lparr>db_faults := f2\<rparr>"
    and role: "\<And>a. r2 = Inr a \<Longrightarrow> \<exists>u. ?pu (sq_RoleID req) = Some u \<and> (u, t) \<in> set (role_keys s2)"
    using role_lookup [OF 2 sv1] by blast
  have sv2: "serving t s2" using sv1 by (simp add: s2)
  obtain f3 where s3: "s3 = s2\<lparr>db_faults := f3\<rparr>" using department_lookup [OF 3 sv2] by blast
  have "apart t s (snd (AssignToUser ?pu x (sq_RoleID req) st (sq_ScopeID req) s'))"
    if ok: "r2 = Inr a" and s': "s' \<in> {s2, s3}" for a s' st
  proof -
    obtain u where u: "?pu (sq_RoleID req) = Some u" "(u, t) \<in> set (role_keys s')"
      using role [OF ok] s' s3 by auto
    have "serving t s'" using s' sv2 s3 by auto
    from AssignToUser_apart [where pu = "th_parse_uuid h", OF this u(1) u(2)] show ?thesis
      using s' by (auto simp: s1 s2 s3)
  qed
  then show ?thesis
    using apart_after_faults [OF s]
    by (simp add: assign_checked_def 1 2 3 split: sum.split) (auto simp: s1 s2 s3)
qed

lemma join_checked_apart:
  assumes s: "serving t s"
  shows "apart t s (snd (join_checked h x y s))"
proof -
  let ?pu = "th_parse_uuid h"
  obtain r1 s1 where 1: "user_GetByID ?pu x s = (r1, s1)" by fastforce
  obtain r2 s2 where 2: "department_GetByID ?pu y s1 = (r2, s2)" by fastforce
  obtain f1 where s1: "s1 = s\<lparr>db_faults := f1\<rparr>" using user_lookup [OF 1] .
  have sv1: "serving t s1" using s by (simp add: s1)
  obtain f2 where s2: "s2 = s1\<lparr>db_faults := f2\<rparr>"
    and d: "\<And>a. r2 = Inr a \<Longrightarrow> \<exists>u. ?pu y = Some u \<and> (u, t) \<in> set (department_keys s2)"
    using department_lookup [OF 2 sv1] by blast
  have sv2: "serving t s2" using sv1 by (simp add: s2)
  have "apart t s (snd (AddToDepartment ?pu x y s2))" if "r2 = Inr a" for a
    using d [OF that] AddToDepartment_apart [OF sv2] by (auto simp: s1 s2)
  then show ?thesis
    using apart_after_faults [OF s]
    by (simp add: join_checked_def 1 2 split: sum.split) (simp add: s1 s2)
qed

lemma parent_lookup:
  assumes "check_parent pu parent s = (r, s')" "serving t s"
  obtains fs where "s' = s\<lparr>db_faults := fs\<rparr>"
    "r = Inr () \<Longrightarrow> \<exists>p. (case parent of None \<Rightarrow> Some None | Some x \<Rightarrow> map_option Some (pu x)) = Some p \<and> own_parent t p s'"
proof (cases parent)
  case None
  have "s' = s\<lparr>db_faults := db_faults s\<rparr>" using assms(1) by (simp add: check_parent_def None)
  then show thesis by (rule that) (simp add: None own_parent_def)
next
  case (Some x)
  obtain r1 s1 where 1: "department_GetByID pu x s = (r1, s1)" by fastforce
  have s': "s' = s1" and r: "r = Inr () \<Longrightarrow> \<exists>d. r1 = Inr d"
    using assms(1) by (auto simp: check_parent_def Some 1 split: sum.splits)
  show thesis
  proof (rule department_lookup [OF 1 assms(2)])
    fix fs assume f: "s1 = s\<lparr>db_faults := fs\<rparr>" "\<And>a. r1 = Inr a \<Longrightarrow> \<exists>u. pu x = Some u \<and> (u, t) \<in> set (department_keys s1)"
    show thesis by (rule that [of fs]) (use f s' r in \<open>auto simp: Some own_parent_def\<close>)
  qed
qed

lemma own_parent_faults [simp]: "own_parent t p (s\<lparr>db_faults := fs\<rparr>) = own_parent t p s"
  by (cases p) (simp_all add: own_parent_def)

lemma with_uuid_option_apart:
  assumes "\<And>p. (case parent of None \<Rightarrow> Some None | Some x \<Rightarrow> map_option Some (pu x)) = Some p \<Longrightarrow> apart t s (snd (f p s))"
    "serving t s"
  shows "apart t s (snd (with_uuid_option pu parent f s))"
  using assms by (auto simp: with_uuid_option_def with_uuid_def apart_refl split: option.splits)

lemma department_Create_apart:
  assumes s: "serving t s"
  shows "apart t s (snd (department_Create pu nm parent s))"
proof -
  obtain r s1 where 1: "check_parent pu parent s = (r, s1)" by fastforce
  obtain fs where s1: "s1 = s\<lparr>db_faults := fs\<rparr>"
    and p: "r = Inr () \<Longrightarrow> \<exists>p. (case parent of None \<Rightarrow> Some None | Some x \<Rightarrow> map_option Some (pu x)) = Some p \<and> own_parent t p s1"
    using parent_lookup [OF 1 s] by blast
  have sv1: "serving t s1" using s by (simp add: s1)
  have "apart t s1 (snd (sql (with_uuid_option pu parent (insert_department nm)) s1 :: (admin_error + _) \<times> _))"
    if ok: "r = Inr ()"
  proof (rule sql_apart [OF sv1])
    fix gs
    let ?s = "s1\<lparr>db_faults := gs\<rparr>"
    have "apart t ?s (snd (with_uuid_option pu parent (insert_department nm) ?s))"
      using p [OF ok] sv1 by (intro with_uuid_option_apart insert_department_apart) auto
    then show "apart t s1 (snd (with_uuid_option pu parent (insert_department nm) ?s))" by simp
  qed
  then show ?thesis
    using apart_after_faults [OF s] apart_refl [OF s]
    by (simp add: department_Create_def 1 split: sum.split option.split) (simp add: s1)
qed

lemma department_Update_apart:
  assumes s: "serving t s"
  shows "apart t s (snd (department_Update pu i nm parentID s))"
proof -
  let ?parent = "parent_value parentID" and ?up = "parentID \<noteq> None"
  obtain r s1 where 1: "check_parent pu ?parent s = (r, s1)" by fastforce
  obtain fs where s1: "s1 = s\<lparr>db_faults := fs\<rparr>"
    and p: "r = Inr () \<Longrightarrow> \<exists>p. (case ?parent of None \<Rightarrow> Some None | Some x \<Rightarrow> map_option Some (pu x)) = Some p \<and> own_parent t p s1"
    using parent_lookup [OF 1 s] by blast
  have sv1: "serving t s1" using s by (simp add: s1)
  let ?stmt = "with_uuid pu i (\<lambda>u. with_uuid_option pu ?parent (update_department_stmt nm ?up u))"
  have "apart t s1 (snd (sql ?stmt s1 :: (admin_error + _) \<times> _))" if ok: "r = Inr ()"
  proof (rule sql_apart [OF sv1])
    fix gs
    let ?s = "s1\<lparr>db_faults := gs\<rparr>"
    have "apart t ?s (snd (with_uuid_option pu ?parent (update_department_stmt nm ?up u) ?s))" for u
      using p [OF ok] sv1 by (intro with_uuid_option_apart update_department_apart) auto
    then show "apart t s1 (snd (?stmt ?s))"
      using apart_after_faults [OF sv1] by (simp add: with_uuid_def split: option.split)
  qed
  then show ?thesis
    using apart_after_faults [OF s] apart_refl [OF s]
    by (auto simp: department_Update_def 1 s1 split: sum.split option.split)
qed

section \<open>Interpretation\<close>

lemma update_row_apart: "serving t s \<Longrightarrow> apart t s (snd (update_user_stmt (update_user_row name st) i s))"
  by (rule update_user_apart) (simp_all add: update_user_row_def)

interpretation tenants: tenant_writes t "isolated t s0"
  by unfold_locales
    (rule isolated_blind | (intro isolatedI insert_role_apart update_role_apart delete_role_apart assign_checked_apart
      unassign_apart insert_user_apart update_row_apart suspend_apart join_checked_apart leave_apart department_Create_apart
      department_Update_apart delete_department_apart; assumption))+

end
