(* ===== verification/Tenant_Guards.thy ===== *)
theory Tenant_Guards
  imports Tenant_Laws
begin

text \<open>
  What the statements of the tenant administration keep without any policy of the database: the
  system roles, the wildcard permission and the platform administrators, and the unique names of
  the roles of a tenant. With them the roles that the evaluator loads are those of the table.
\<close>

section \<open>Privileges\<close>

definition privileges :: "Role list \<Rightarrow> uuid list \<Rightarrow> db \<Rightarrow> bool" where
  "privileges system admins s \<longleftrightarrow>
     filter rl_IsSystem (db_roles s) = system \<and> map us_ID (filter us_IsPlatformAdmin (db_users s)) = admins \<and>
     list_all (\<lambda>r. ''*'' \<in> set (rl_Permissions r) \<longrightarrow> rl_IsSystem r) (db_roles s)"

lemma privileges_blind: "session_blind (privileges system admins)"
  by (simp add: session_blind_def privileges_def)

lemma scoped_keepsI:
  "(\<And>s a s'. P s \<Longrightarrow> f s = (a, s') \<Longrightarrow> P s' \<and> db_tenant s' = db_tenant s) \<Longrightarrow> keeps (scoped t P) f"
  by (rule keepsI) (metis prod.collapse scoped_def)

text \<open>Statements that leave roles, users and the session alone.\<close>

definition same_accounts :: "db \<Rightarrow> db \<Rightarrow> bool" where
  "same_accounts s s' \<longleftrightarrow>
     db_roles s' = db_roles s \<and> db_users s' = db_users s \<and> db_tenant s' = db_tenant s \<and>
     db_next s \<le> db_next s'"

lemma same_accounts_blind: "fault_blind (same_accounts s)"
  by (simp add: fault_blind_def same_accounts_def)

lemma same_accounts_refl [simp]: "same_accounts s s"
  by (simp add: same_accounts_def)

lemma accounts_keepsI: "(\<And>s. same_accounts s (snd (f s))) \<Longrightarrow> keeps (same_accounts s0) f"
  by (rule keepsI) (auto simp: same_accounts_def intro: le_trans)

lemmas accounts_sql = keeps_sql [OF same_accounts_blind]

lemma accounts_statements:
  "keeps (same_accounts s0) (assign_stmt st u r sc)" "keeps (same_accounts s0) (unassign_stmt st u r sc)"
  "keeps (same_accounts s0) (join_stmt u d)" "keeps (same_accounts s0) (leave_stmt u d)"
  "keeps (same_accounts s0) (insert_department nm parent)" "keeps (same_accounts s0) (update_department_stmt nm up i parent)"
  "keeps (same_accounts s0) (delete_department_stmt i)"
  by (rule accounts_keepsI; simp add: same_accounts_def assign_stmt_def unassign_stmt_def join_stmt_def leave_stmt_def
      insert_department_def update_department_stmt_def delete_department_stmt_def Let_def split: option.split)+

lemma keeps_with_uuid_option: "(\<And>u. keeps P (f u)) \<Longrightarrow> keeps P (with_uuid_option pu x f)"
  unfolding with_uuid_option_def [abs_def] by (intro keeps_option keeps_with_uuid)

lemmas accounts_steps = keeps_steps keeps_with_uuid_option accounts_sql accounts_statements

lemma accounts_lookups:
  "keeps (same_accounts s0) (user_GetByID pu i)" "keeps (same_accounts s0) (role_GetByID pu i)"
  "keeps (same_accounts s0) (department_GetByID pu i)" "keeps (same_accounts s0) (AssignToUser pu i r st sc)"
  "keeps (same_accounts s0) (AddToDepartment pu i d)"
  unfolding user_GetByID_def [abs_def] role_GetByID_def [abs_def] department_GetByID_def [abs_def]
    AssignToUser_def [abs_def] AddToDepartment_def [abs_def]
  by (intro accounts_steps)+

lemma accounts_operations:
  "keeps (same_accounts s0) (assign_checked h x req)" "keeps (same_accounts s0) (join_checked h x y)"
  "keeps (same_accounts s0) (department_Create pu nm parent)" "keeps (same_accounts s0) (department_Update pu x nm parent)"
  unfolding assign_checked_def [abs_def] join_checked_def [abs_def] department_Create_def [abs_def]
    department_Update_def [abs_def] check_parent_def [abs_def]
  by (intro accounts_steps accounts_lookups)+

text \<open>Such a statement keeps every property of roles, users and the session.\<close>

lemma scoped_same_accounts:
  assumes "\<And>s s'. same_accounts s s' \<Longrightarrow> P s \<Longrightarrow> P s'" "\<And>s0. keeps (same_accounts s0) f"
  shows "keeps (scoped t P) f"
proof (rule scoped_keepsI)
  fix s a s' assume "P s" "f s = (a, s')"
  then have "same_accounts s s'" using keepsD [OF assms(2) same_accounts_refl] by blast
  then show "P s' \<and> db_tenant s' = db_tenant s" using assms(1) \<open>P s\<close> by (auto simp: same_accounts_def)
qed

lemma privileges_same: "same_accounts s s' \<Longrightarrow> privileges system admins s \<Longrightarrow> privileges system admins s'"
  by (simp add: same_accounts_def privileges_def)

lemma map_filter_upd:
  "(\<And>u. q (f u) = q u \<and> g (f u) = g u) \<Longrightarrow> map g (filter q (upd_where p f xs)) = map g (filter q xs)"
  by (induction xs) (auto simp: upd_where_def)

lemma privileges_insert_role:
  "''*'' \<notin> set ps \<Longrightarrow> keeps (scoped t (privileges system admins)) (insert_role n ps)"
  by (rule scoped_keepsI) (auto simp: insert_role_def privileges_def Let_def split: option.splits if_splits)

lemma privileges_update_role:
  "''*'' \<notin> set ps \<Longrightarrow> keeps (scoped t (privileges system admins)) (update_role_stmt n ps i)"
  by (rule scoped_keepsI)
    (auto simp: update_role_stmt_def privileges_def Let_def upd_where_def list_all_iff split: option.splits if_splits
      intro!: update_others [unfolded upd_where_def])

lemma privileges_delete_role: "keeps (scoped t (privileges system admins)) (delete_role_stmt i)"
  by (rule scoped_keepsI)
    (auto simp: delete_role_stmt_def privileges_def Let_def list_all_iff split: if_splits intro!: filter_cong)

lemma privileges_users:
  "keeps (scoped t (privileges system admins)) (insert_user email name)"
  "keeps (scoped t (privileges system admins)) (update_user_stmt (update_user_row name st) i)"
  "keeps (scoped t (privileges system admins)) (suspend_stmt i)"
  by (rule scoped_keepsI; auto simp: insert_user_def update_user_stmt_def suspend_stmt_def privileges_def Let_def
      map_filter_upd update_user_row_def suspend_row_def split: option.splits if_splits)+

interpretation guards: tenant_writes t "privileges system admins"
  by unfold_locales (rule privileges_blind privileges_insert_role privileges_update_role privileges_delete_role
    privileges_users | assumption |
    (rule scoped_same_accounts, erule (1) privileges_same, intro accounts_operations accounts_statements))+

section \<open>Names of roles\<close>

definition role_name :: "Role \<Rightarrow> uuid \<times> string" where
  "role_name r = (rl_TenantID r, rl_Name r)"

definition role_index :: "db \<Rightarrow> bool" where
  "role_index s \<longleftrightarrow>
     distinct (map role_name (db_roles s)) \<and> distinct (map rl_ID (db_roles s)) \<and>
     list_all (\<lambda>r. rl_ID r < db_next s) (db_roles s)"

lemma role_index_blind: "session_blind role_index"
  by (simp add: session_blind_def role_index_def)

lemma role_index_same: "same_accounts s s' \<Longrightarrow> role_index s \<Longrightarrow> role_index s'"
  by (auto simp: same_accounts_def role_index_def list_all_iff)

lemma index_insert_role: "keeps (scoped t role_index) (insert_role n ps)"
  by (rule scoped_keepsI)
    (auto simp: insert_role_def role_index_def role_name_def Let_def list_all_iff list_ex_iff split: option.splits if_splits)

lemma renamed_distinct:
  assumes "distinct (map role_name rs)" "distinct (map rl_ID rs)"
    and "\<And>r. p r \<Longrightarrow> rl_ID r = i"
    and "\<And>r x. r \<in> set rs \<Longrightarrow> p r \<Longrightarrow> x \<in> set rs \<Longrightarrow> rl_TenantID x = rl_TenantID r \<Longrightarrow> rl_Name x = n \<Longrightarrow> rl_ID x = i"
  shows "distinct (map role_name (upd_where p (\<lambda>r. r\<lparr>rl_Name := n, rl_Permissions := ps\<rparr>) rs))"
proof -
  let ?h = "\<lambda>r. role_name (if p r then r\<lparr>rl_Name := n, rl_Permissions := ps\<rparr> else r)"
  have "inj_on ?h (set rs)"
  proof (rule inj_onI)
    fix x y assume xy: "x \<in> set rs" "y \<in> set rs" "?h x = ?h y"
    have "rl_ID x = rl_ID y \<or> role_name x = role_name y"
      using xy assms(3,4) by (auto simp: role_name_def split: if_splits)
    then show "x = y" using assms(1,2) xy(1,2) by (auto simp: distinct_map inj_on_def)
  qed
  then show ?thesis using assms(1) by (simp add: upd_where_def distinct_map comp_def)
qed

lemma index_update_role: "keeps (scoped t role_index) (update_role_stmt n ps i)"
proof (rule scoped_keepsI)
  fix s a s' assume s: "role_index s" "update_role_stmt n ps i s = (a, s')"
  let ?p = "\<lambda>r. rl_ID r = i \<and> \<not> rl_IsSystem r \<and> visible s (rl_TenantID r)"
    and ?f = "\<lambda>r. r\<lparr>rl_Name := n, rl_Permissions := ps\<rparr>"
  show "role_index s' \<and> db_tenant s' = db_tenant s"
  proof (cases "s' = s")
    case False
    then obtain r where r: "find ?p (db_roles s) = Some r"
      and no: "\<not> list_ex (\<lambda>x. rl_TenantID x = rl_TenantID r \<and> rl_Name x = n \<and> rl_ID x \<noteq> i) (db_roles s)"
      and s': "s' = s\<lparr>db_roles := upd_where ?p ?f (db_roles s)\<rparr>"
      using s(2) by (auto simp: update_role_stmt_def Let_def split: option.splits if_splits)
    have r': "r \<in> set (db_roles s)" "rl_ID r = i" using r by (auto simp: find_Some_iff)
    have same: "x = r" if "x \<in> set (db_roles s)" "rl_ID x = i" for x
      using s(1) that r' by (auto simp: role_index_def distinct_map inj_on_def)
    have "distinct (map role_name (upd_where ?p ?f (db_roles s)))"
      using s(1) same no by (intro renamed_distinct [where i = i]) (auto simp: role_index_def list_ex_iff)
    moreover have "map rl_ID (upd_where ?p ?f (db_roles s)) = map rl_ID (db_roles s)"
      by (simp add: upd_where_def)
    ultimately show ?thesis
      using s(1) by (simp add: role_index_def s') (auto simp: list_all_iff upd_where_def)
  qed (simp add: s(1))
qed

lemma index_delete_role: "keeps (scoped t role_index) (delete_role_stmt i)"
  by (rule scoped_keepsI)
    (auto simp: delete_role_stmt_def role_index_def Let_def list_all_iff distinct_map_filter split: if_splits)

lemma index_users:
  "keeps (scoped t role_index) (insert_user email name)"
  "keeps (scoped t role_index) (update_user_stmt (update_user_row name st) i)"
  "keeps (scoped t role_index) (suspend_stmt i)"
  by (rule scoped_keepsI; auto simp: insert_user_def update_user_stmt_def suspend_stmt_def role_index_def Let_def list_all_iff
      split: option.splits if_splits)+

interpretation names: tenant_writes t role_index
  by unfold_locales (rule role_index_blind index_insert_role index_update_role index_delete_role index_users |
    (rule scoped_same_accounts, erule (1) role_index_same, intro accounts_operations accounts_statements))+

end
