(* ===== verification/Auth_Trace.thy ===== *)
theory Auth_Trace
  imports Auth_Laws
begin

text \<open>
  Refresh tokens over a run: the key of an accepted token was free before and is used after, and
  keys stay used as the families grow; every key of a revoked family is used.
\<close>

section \<open>Keys of refresh tokens\<close>

text \<open>A token of a family is its tenant, family and generation; one without a family is its hash.\<close>

datatype refresh_key =
    FamilyToken "uuid option" "uuid option" int
  | LegacyToken "uuid option" "uuid option" string

definition identity_key :: "auth_handler \<Rightarrow> Identity \<Rightarrow> string \<Rightarrow> refresh_key" where
  "identity_key h i token =
     (if au_FamilyID i = []
      then LegacyToken (ah_parse_uuid h (au_TenantID i)) (ah_parse_uuid h (au_UserID i)) (HashToken token)
      else FamilyToken (ah_parse_uuid h (au_TenantID i)) (ah_parse_uuid h (au_FamilyID i)) (au_Generation i))"

text \<open>The valid refresh token in a request, with its identity.\<close>

definition presented :: "auth_handler \<Rightarrow> clock \<Rightarrow> raw_json \<Rightarrow> (Identity \<times> string) option" where
  "presented h clock body =
     (case body_string ''refresh_token'' body of
        None \<Rightarrow> None
      | Some token \<Rightarrow>
          (case ValidateToken (ah_lib h) (ah_tokenSvc h) (clock 0) token of
             Inl _ \<Rightarrow> None
           | Inr i \<Rightarrow> if au_TokenType i = ''refresh'' then Some (i, token) else None))"

fun key_spent :: "refresh_key \<Rightarrow> db \<Rightarrow> bool" where
  "key_spent (FamilyToken t f g) s =
     list_ex (\<lambda>r. t = Some (tf_TenantID r) \<and> f = Some (tf_ID r) \<and> (g < tf_CurrentGeneration r \<or> tf_RevokedAt r \<noteq> None)) (db_families s)"
| "key_spent (LegacyToken t u hash) s =
     list_ex (\<lambda>r. t = Some (tf_TenantID r) \<and> u = Some (tf_UserID r) \<and> tf_LegacyTokenHash r = Some hash) (db_families s)"

lemma key_spent_iff:
  "key_spent k s \<longleftrightarrow> (\<exists>r \<in> set (db_families s). case k of
      FamilyToken t f g \<Rightarrow> t = Some (tf_TenantID r) \<and> f = Some (tf_ID r) \<and> (g < tf_CurrentGeneration r \<or> tf_RevokedAt r \<noteq> None)
    | LegacyToken t u hash \<Rightarrow> t = Some (tf_TenantID r) \<and> u = Some (tf_UserID r) \<and> tf_LegacyTokenHash r = Some hash)"
  by (cases k) (simp_all add: list_ex_iff)

lemma key_spent_grown:
  assumes "key_spent k s" "families_grown s s'"
  shows "key_spent k s'"
proof -
  from assms(1) obtain r where r: "r \<in> set (db_families s)" and k: "case k of
      FamilyToken t f g \<Rightarrow> t = Some (tf_TenantID r) \<and> f = Some (tf_ID r) \<and> (g < tf_CurrentGeneration r \<or> tf_RevokedAt r \<noteq> None)
    | LegacyToken t u hash \<Rightarrow> t = Some (tf_TenantID r) \<and> u = Some (tf_UserID r) \<and> tf_LegacyTokenHash r = Some hash"
    unfolding key_spent_iff by blast
  from assms(2) r obtain r' where r': "r' \<in> set (db_families s')" "family_follows r r'"
    unfolding families_grown_def by blast
  then show ?thesis
    unfolding key_spent_iff using k
    by (intro bexI [of _ r']) (auto simp: family_follows_def split: refresh_key.split)
qed

section \<open>One refresh\<close>

lemma HandleRefresh_presented:
  assumes "ah_refreshStore h" "presented h clock body = Some (i, token)"
  shows "HandleRefresh h clock body s = refresh_stored h clock i token s"
  using assms by (auto simp: presented_def HandleRefresh_def split: option.splits sum.splits if_splits)

lemma HandleRefresh_accepted:
  assumes "ah_refreshStore h" "HandleRefresh h clock body s = (r, s')" "re_Status r = 200"
  obtains i token x where "presented h clock body = Some (i, token)" "rotateRefreshToken h clock i token s = (Inr x, s')"
proof -
  have "re_Status (fst (HandleRefresh h clock body s)) \<noteq> 200" if "presented h clock body = None"
    using that by (auto simp: presented_def HandleRefresh_def auth_failure_def auth_writeJSON_def
        split: option.splits sum.splits if_splits)
  then obtain i token where p: "presented h clock body = Some (i, token)"
    using assms(2,3) by (cases "presented h clock body") auto
  show ?thesis
    using assms(2,3) that [OF p]
    by (auto simp: HandleRefresh_presented [OF assms(1) p] refresh_stored_def auth_failure_def auth_writeJSON_def
        classifyRotationError_def split: sum.splits prod.splits if_splits)
qed

lemma with_uuid_ok: "with_uuid pu t f s = (Inr a, s') \<longleftrightarrow> (\<exists>u. pu t = Some u \<and> f u s = (Inr a, s'))"
  by (auto simp: with_uuid_def split: option.splits)

lemma RotateToken_ok:
  assumes "RotateToken pu f t hash g fresh s = (Inr x, s')"
  obtains f' t' fs where "pu f = Some f'" "pu t = Some t'"
    "rotate_stmt hash g fresh f' t' (s\<lparr>db_faults := fs\<rparr>) = (Inr (Some x), s')"
proof -
  from assms have "checked (sql (with_uuid pu f (\<lambda>f. with_uuid pu t (rotate_stmt hash g fresh f))) s) = (Inr (Some x) :: auth_error + _, s')"
    by (auto simp: RotateToken_def split: prod.splits sum.splits option.splits)
  then show ?thesis
    by (auto simp: checked_Inr with_uuid_ok elim!: sql_cases intro: that)
qed

lemma family_unique:
  "family_keys s \<Longrightarrow> r \<in> set (db_families s) \<Longrightarrow> r' \<in> set (db_families s) \<Longrightarrow> tf_ID r = tf_ID r' \<Longrightarrow> r = r'"
  by (auto simp: family_keys_def distinct_map inj_on_def)

lemma rotation_uses:
  assumes "family_keys s" "RotateToken pu f t hash g fresh s = (Inr x, s')"
  shows "\<not> key_spent (FamilyToken (pu t) (pu f) g) s" "key_spent (FamilyToken (pu t) (pu f) g) s'"
proof -
  obtain f' t' fs where u: "pu f = Some f'" "pu t = Some t'"
    and r: "rotate_stmt hash g fresh f' t' (s\<lparr>db_faults := fs\<rparr>) = (Inr (Some x), s')"
    by (rule RotateToken_ok [OF assms(2)])
  let ?s = "s\<lparr>db_faults := fs\<rparr>"
  let ?p = "\<lambda>r. family_of f' t' ?s r \<and> tf_CurrentTokenHash r = hash \<and> tf_CurrentGeneration r = g \<and> tf_RevokedAt r = None"
  obtain y where y: "find ?p (db_families s) = Some y"
    and s': "s' = ?s\<lparr>db_families := upd_where ?p (rotate_row fresh (db_now s)) (db_families s)\<rparr>"
    using r by (auto simp: rotate_stmt_def Let_def split: if_splits option.splits)
  have y': "y \<in> set (db_families s)" "?p y" using y by (auto simp: find_Some_iff)
  show "\<not> key_spent (FamilyToken (pu t) (pu f) g) s"
    using family_unique [OF assms(1)] y' by (auto simp: list_ex_iff u family_of_def)
  have "rotate_row fresh (db_now s) y \<in> set (db_families s')"
    using y' by (auto simp: s' upd_where_def)
  with y' show "key_spent (FamilyToken (pu t) (pu f) g) s'"
    unfolding key_spent_iff
    by (intro bexI [of _ "rotate_row fresh (db_now s) y"]) (auto simp: u family_of_def rotate_row_def)
qed

lemma IsLegacyTokenUpgraded_ok:
  assumes "IsLegacyTokenUpgraded pu u t hash s = (Inr b, s')"
  obtains u' t' fs where "pu u = Some u'" "pu t = Some t'" "b = legacy_seen u' t' hash s" "s' = s\<lparr>db_faults := fs\<rparr>"
proof -
  from assms have "checked (sql (with_uuid pu u (\<lambda>u. with_uuid pu t (\<lambda>t s. (Inr (legacy_seen u t hash s), s)))) s)
      = (Inr b :: auth_error + _, s')"
    by (auto simp: IsLegacyTokenUpgraded_def wrap_err_def split: prod.splits sum.splits)
  then obtain u' t' fs where "pu u = Some u'" "pu t = Some t'" "b = legacy_seen u' t' hash (s\<lparr>db_faults := fs\<rparr>)"
    "s' = s\<lparr>db_faults := fs\<rparr>"
    by (auto simp: checked_Inr with_uuid_ok elim!: sql_cases)
  then show ?thesis
    by (intro that) (simp_all add: legacy_seen_def visible_def own_def)
qed

lemma new_family_ok:
  assumes "new_family pu su m t u hash legacy s = (Inr x, s')"
  obtains t' u' r where "pu t = Some t'" "pu u = Some u'" "visible s t'" "db_families s' = db_families s @ [r]"
    "tf_TenantID r = t'" "tf_UserID r = u'" "tf_LegacyTokenHash r = legacy"
proof -
  from assms obtain f where "checked (sql (with_uuid pu t (\<lambda>t. with_uuid pu u (\<lambda>u. insert_family t u hash legacy))) s)
      = (Inr f :: auth_error + _, s')"
    by (auto simp: new_family_def wrap_err_def split: prod.splits sum.splits)
  then obtain t' u' fs where u: "pu t = Some t'" "pu u = Some u'"
    and i: "insert_family t' u' hash legacy (s\<lparr>db_faults := fs\<rparr>) = (Inr f, s')"
    by (auto simp: checked_Inr with_uuid_ok elim!: sql_cases)
  let ?r = "\<lparr>tf_ID = db_next s, tf_TenantID = t', tf_UserID = u', tf_CurrentGeneration = 1,
             tf_CurrentTokenHash = hash, tf_RevokedAt = None, tf_CreatedAt = db_now s,
             tf_UpdatedAt = db_now s, tf_LegacyTokenHash = legacy\<rparr>"
  from i have "visible s t'" "db_families s' = db_families s @ [?r]"
    by (auto simp: insert_family_def Let_def visible_def own_def split: if_splits)
  then show ?thesis by (rule that [OF u]) simp_all
qed

lemma upgrade_uses:
  assumes "family_keys s" "upgradeLegacyToken h clock i token s = (Inr x, s')"
  defines "k \<equiv> LegacyToken (ah_parse_uuid h (au_TenantID i)) (ah_parse_uuid h (au_UserID i)) (HashToken token)"
  shows "\<not> key_spent k s" "key_spent k s'"
proof -
  let ?pu = "ah_parse_uuid h"
  let ?hash = "HashToken token"
  obtain s1 s2 f y tok where 1: "IsLegacyTokenUpgraded ?pu (au_UserID i) (au_TenantID i) ?hash s = (Inr False, s1)"
    and 2: "new_family ?pu (ah_show_uuid h) ''creating token family for legacy upgrade'' (au_TenantID i) (au_UserID i)
        pending (Some ?hash) s1 = (Inr f, s2)"
    and 3: "SetInitialTokenHash ?pu f (au_TenantID i) (HashToken tok) s2 = (y, s')"
    using assms(2)
    by (auto simp: upgradeLegacyToken_def CreateFamilyForLegacyUpgrade_def Let_def
        split: prod.splits sum.splits bool.splits)
  obtain u t fs where u: "?pu (au_UserID i) = Some u" "?pu (au_TenantID i) = Some t"
    and seen: "\<not> legacy_seen u t ?hash s" and s1: "s1 = s\<lparr>db_faults := fs\<rparr>"
    by (rule IsLegacyTokenUpgraded_ok [OF 1]) auto
  obtain r where vis: "visible s1 t" and s2: "db_families s2 = db_families s1 @ [r]"
    and r: "tf_TenantID r = t" "tf_UserID r = u" "tf_LegacyTokenHash r = Some ?hash"
    by (rule new_family_ok [OF 2]) (auto simp: u)
  have "visible s t" using vis by (simp add: s1 visible_def own_def)
  with seen show "\<not> key_spent k s"
    by (auto simp: k_def u legacy_seen_def list_ex_iff)
  have g1: "families_grown s s1"
    using assms(1) by (simp add: s1 families_grown_def family_keys_def) blast
  have "families_grown s1 s1" using g1 by (simp add: families_grown_def) blast
  from keepsD [OF families.new_family_keeps this 2] have "family_keys s2" by (simp add: families_grown_def)
  from keepsD [OF families.first_hash_keeps families_grown_refl [OF this] 3] have "families_grown s2 s'" .
  moreover have "key_spent k s2" by (simp add: k_def u s2 r)
  ultimately show "key_spent k s'" by (rule key_spent_grown [rotated])
qed

lemma accepted_uses:
  assumes "ah_refreshStore h" "family_keys s" "HandleRefresh h clock body s = (r, s')" "re_Status r = 200"
  obtains i token where "presented h clock body = Some (i, token)"
    "\<not> key_spent (identity_key h i token) s" "key_spent (identity_key h i token) s'"
proof -
  obtain i token x where p: "presented h clock body = Some (i, token)"
    and r: "rotateRefreshToken h clock i token s = (Inr x, s')"
    by (rule HandleRefresh_accepted [OF assms(1,3,4)])
  show ?thesis
  proof (cases "au_FamilyID i = []")
    case True
    then show ?thesis
      using r upgrade_uses [OF assms(2)] that [OF p] by (simp add: rotateRefreshToken_def identity_key_def)
  next
    case False
    with r obtain hash fresh y where "RotateToken (ah_parse_uuid h) (au_FamilyID i) (au_TenantID i) hash
        (au_Generation i) fresh s = (Inr y, s')"
      by (auto simp: rotateRefreshToken_def Let_def split: sum.splits prod.splits)
    then show ?thesis
      using rotation_uses [OF assms(2)] that [OF p] False by (simp add: identity_key_def)
  qed
qed

section \<open>Runs\<close>

text \<open>
  A run of requests from a world, with the keys of the refresh tokens that were answered with new
  tokens. In between, anything may happen that only lets the families grow.
\<close>

definition accepted_key :: "auth_handler \<Rightarrow> auth_call \<Rightarrow> int \<Rightarrow> refresh_key list" where
  "accepted_key h c status =
     (case c of
        RefreshCall clock body \<Rightarrow>
          if status = 200
          then (case presented h clock body of None \<Rightarrow> [] | Some (i, token) \<Rightarrow> [identity_key h i token]) else []
      | _ \<Rightarrow> [])"

inductive refresh_run :: "auth_handler \<Rightarrow> auth_world \<Rightarrow> refresh_key list \<Rightarrow> auth_world \<Rightarrow> bool" for h w0 where
  start: "refresh_run h w0 [] w0"
| request: "refresh_run h w0 ks w \<Longrightarrow> serve_auth h c w = (status, w') \<Longrightarrow>
    refresh_run h w0 (ks @ accepted_key h c status) w'"
| elsewhere: "refresh_run h w0 ks w \<Longrightarrow> families_grown (snd w) (snd w') \<Longrightarrow> refresh_run h w0 ks w'"

lemma serve_auth_grows:
  assumes "serve_auth h c w = (status, w')" "family_keys (snd w)"
  shows "families_grown (snd w) (snd w')"
  using families.serve_auth_keeps [OF families_grown_refl [OF assms(2)], of h c] assms(1) by simp

lemma accepted_key_cases:
  assumes "k \<in> set (accepted_key h c status)"
  shows "\<exists>clock body. c = RefreshCall clock body \<and> status = 200"
  using assms by (cases c; cases "status = 200") (simp_all add: accepted_key_def)

lemma accepted_key_uses:
  assumes "ah_refreshStore h" "family_keys (snd w)" "serve_auth h c w = (status, w')" "k \<in> set (accepted_key h c status)"
  shows "accepted_key h c status = [k]" "\<not> key_spent k (snd w)" "key_spent k (snd w')"
proof -
  obtain clock body where c: "c = RefreshCall clock body" and st: "status = 200"
    using accepted_key_cases [OF assms(4)] by blast
  obtain r s' where r: "HandleRefresh h clock body (snd w) = (r, s')" by fastforce
  have w': "re_Status r = 200" "snd w' = s'"
    using assms(3) unfolding c st by (simp_all add: serve_auth_def on_db_def r prod_eq_iff)
  obtain i token where i: "presented h clock body = Some (i, token)"
    "\<not> key_spent (identity_key h i token) (snd w)" "key_spent (identity_key h i token) s'"
    by (rule accepted_uses [OF assms(1,2) r w'(1)])
  have key: "accepted_key h c status = [identity_key h i token]"
    by (simp add: accepted_key_def c st i(1))
  then have "k = identity_key h i token" using assms(4) by simp
  then show "accepted_key h c status = [k]" "\<not> key_spent k (snd w)" "key_spent k (snd w')"
    using key i(2,3) w'(2) by simp_all
qed

lemma refresh_run_grows:
  "refresh_run h w0 ks w \<Longrightarrow> family_keys (snd w0) \<Longrightarrow> families_grown (snd w0) (snd w)"
proof (induction rule: refresh_run.induct)
  case start
  then show ?case by (rule families_grown_refl)
next
  case (request ks w c status w')
  then have "family_keys (snd w)" by (simp add: families_grown_def)
  with request show ?case by (blast intro: families_grown_trans serve_auth_grows)
next
  case (elsewhere ks w w')
  then show ?case by (blast intro: families_grown_trans)
qed

lemma refresh_run_keys:
  assumes "refresh_run h w0 ks w" "ah_refreshStore h" "family_keys (snd w0)"
  shows "distinct ks \<and> (\<forall>k \<in> set ks. \<not> key_spent k (snd w0) \<and> key_spent k (snd w))"
  using assms(1)
proof (induction rule: refresh_run.induct)
  case (request ks w c status w')
  have g: "families_grown (snd w0) (snd w)" by (rule refresh_run_grows [OF request.hyps(1) assms(3)])
  then have keys: "family_keys (snd w)" by (simp add: families_grown_def)
  note use = accepted_key_uses [OF assms(2) keys request.hyps(2)]
  have kept: "key_spent k (snd w) \<Longrightarrow> key_spent k (snd w')" for k
    by (rule key_spent_grown [OF _ serve_auth_grows [OF request.hyps(2) keys]])
  show ?case
  proof (cases "accepted_key h c status")
    case Nil
    then show ?thesis using request.IH kept by auto
  next
    case (Cons k xs)
    then have k: "accepted_key h c status = [k]" "\<not> key_spent k (snd w)" "key_spent k (snd w')"
      using use [of k] by simp_all
    have "\<not> key_spent k (snd w0)" using k(2) key_spent_grown [OF _ g] by blast
    then show ?thesis using request.IH kept k by auto
  qed
next
  case (elsewhere ks w w')
  then show ?case using key_spent_grown by blast
qed simp

section \<open>Reuse\<close>

text \<open>A statement without faults on two keys that parse.\<close>

lemma checked_run:
  "db_faults s = [] \<Longrightarrow> pu a = Some x \<Longrightarrow> pu b = Some y \<Longrightarrow>
   checked (sql (with_uuid pu a (\<lambda>u. with_uuid pu b (stmt u))) s) =
     (case stmt x y s of (Inl m, s1) \<Rightarrow> (Inl (DBError m), s1) | (Inr v, s1) \<Rightarrow> (Inr v, s1))"
  by (simp add: sql_no_faults with_uuid_def checked_def split: prod.split sum.split)

lemma rotate_superseded:
  assumes "family_keys s" "r \<in> set (db_families s)" "tf_ID r = f" "tf_TenantID r = t" "g < tf_CurrentGeneration r"
    and "- (2 ^ 31) \<le> g" "g < 2 ^ 31"
  shows "rotate_stmt hash g fresh f t s = (Inr None, s)"
proof -
  have "\<not> (family_of f t s x \<and> tf_CurrentTokenHash x = hash \<and> tf_CurrentGeneration x = g \<and> tf_RevokedAt x = None)"
    if "x \<in> set (db_families s)" for x
    using family_unique [OF assms(1) that assms(2)] assms(3,5) by (auto simp: family_of_def)
  then have "find (\<lambda>x. family_of f t s x \<and> tf_CurrentTokenHash x = hash \<and> tf_CurrentGeneration x = g \<and>
      tf_RevokedAt x = None) (db_families s) = None"
    by (simp add: find_None_iff)
  then show ?thesis using assms(6,7) by (simp add: rotate_stmt_def)
qed

lemma find_family:
  assumes "family_keys s" "r \<in> set (db_families s)" "tf_ID r = f" "tf_TenantID r = t" "visible s t"
  shows "find (family_of f t s) (db_families s) = Some r"
proof -
  have "family_of f t s r" using assms by (simp add: family_of_def)
  then obtain r' where r': "find (family_of f t s) (db_families s) = Some r'"
    using assms(2) by (cases "find (family_of f t s) (db_families s)") (auto simp: find_None_iff)
  then have "r' \<in> set (db_families s)" "tf_ID r' = f" by (auto simp: find_Some_iff family_of_def)
  with r' show ?thesis using family_unique [OF assms(1)] assms(2,3) by metis
qed

lemma reuse_detected:
  assumes "db_faults s = []" "family_keys s" "r \<in> set (db_families s)" "visible s (tf_TenantID r)"
    and "pu fid = Some (tf_ID r)" "pu tid = Some (tf_TenantID r)"
    and "g < tf_CurrentGeneration r" "- (2 ^ 31) \<le> g" "g < 2 ^ 31"
  shows "\<exists>e s'. RotateToken pu fid tid hash g fresh s = (Inl (Sentinel e), s') \<and> e \<in> {ErrTokenReuse, ErrFamilyRevoked} \<and>
      (\<forall>g'. key_spent (FamilyToken (pu tid) (pu fid) g') s')"
proof -
  let ?t = "tf_TenantID r"
  let ?f = "tf_ID r"
  note run = checked_run [of s pu, OF assms(1) assms(5,6)]
  have "RotateToken pu fid tid hash g fresh s =
      (case diagnoseRotationFailure pu fid tid s of (e, s2) \<Rightarrow> (Inl e, s2))"
    using rotate_superseded [OF assms(2,3) refl refl assms(7-9)] by (simp add: RotateToken_def run)
  moreover have found: "find (family_of ?f ?t s) (db_families s) = Some r"
    by (rule find_family [OF assms(2,3) refl refl assms(4)])
  let ?s' = "s\<lparr>db_families := upd_where (\<lambda>x. family_of ?f ?t s x \<and> tf_RevokedAt x = None)
      (revoke_row (db_now s)) (db_families s)\<rparr>"
  have "diagnoseRotationFailure pu fid tid s =
      (if tf_RevokedAt r \<noteq> None then (Sentinel ErrFamilyRevoked, s) else (Sentinel ErrTokenReuse, ?s'))"
  proof (cases "tf_RevokedAt r = None")
    case True
    have "0 < count_where (\<lambda>x. family_of ?f ?t s x \<and> tf_RevokedAt x = None) (db_families s)"
      using assms(3,4) True by (auto simp: count_where_def family_of_def filter_empty_conv)
    with True show ?thesis
      by (simp add: diagnoseRotationFailure_def RevokeFamily_def run found revoke_stmt_def query_row_def exec_rows_def Let_def)
  qed (simp add: diagnoseRotationFailure_def run found query_row_def)
  moreover have "key_spent (FamilyToken (pu tid) (pu fid) g') ?s'" if "tf_RevokedAt r = None" for g'
  proof -
    have "revoke_row (db_now s) r \<in> set (db_families ?s')"
      using assms(3,4) that by (auto simp: upd_where_def family_of_def)
    then show ?thesis
      unfolding key_spent_iff
      by (intro bexI [of _ "revoke_row (db_now s) r"]) (simp_all add: assms(5,6) revoke_row_def)
  qed
  moreover have "key_spent (FamilyToken (pu tid) (pu fid) g') s" if "tf_RevokedAt r \<noteq> None" for g'
    unfolding key_spent_iff using assms(3,5,6) that by (intro bexI [of _ r]) simp_all
  ultimately show ?thesis by (cases "tf_RevokedAt r = None") auto
qed

end
