(* ===== verification/Login_State.thy ===== *)
theory Login_State
  imports Auth_Tokens
begin

text \<open>
  The signed state of a login (\<open>internal/auth/state.go\<close>): the unpadded base64 form and the
  big-endian time are read back as they were written.
\<close>

lemma sextet_char_no_pad: "sextet_char n \<noteq> CHR ''=''"
  using char_sextet_sextet_char [of n] char_sextet_pad by (metis option.distinct(1))

lemma sextets_two [simp]: "sextets [sextet_char a, sextet_char b] = Some [a mod 64, b mod 64]"
  using sextets_sextet_chars [of "[a, b]"] by simp

lemma sextets_three [simp]:
  "sextets [sextet_char a, sextet_char b, sextet_char c] = Some [a mod 64, b mod 64, c mod 64]"
  using sextets_sextet_chars [of "[a, b, c]"] by simp

lemma sextets_four [simp]:
  "sextets [sextet_char a, sextet_char b, sextet_char c, sextet_char d] = Some [a mod 64, b mod 64, c mod 64, d mod 64]"
  using sextets_sextet_chars [of "[a, b, c, d]"] by simp

lemma decode_unpadded: "decode_quanta False (filter (\<lambda>c. c \<noteq> CHR ''='') (EncodeToString bs)) = Some bs"
proof (induction bs rule: EncodeToString.induct)
  case (2 a)
  show ?case
    using quantum_two [of _ a] by (simp add: Let_def sextet_char_no_pad last_quantum_def del: quantum.simps)
next
  case (3 a b)
  show ?case
    using quantum_three [of _ a b] by (simp add: Let_def sextet_char_no_pad last_quantum_def del: quantum.simps)
next
  case (4 a b c rest)
  then show ?case
    using quantum_four [of _ a b c] by (simp add: Let_def sextet_char_no_pad del: quantum.simps)
qed simp

lemma from_to_url: "c \<in> set base64_alphabet \<Longrightarrow> from_url_char (to_url_char c) = c"
proof -
  have "list_all (\<lambda>c. from_url_char (to_url_char c) = c) base64_alphabet" by code_simp
  then show "c \<in> set base64_alphabet \<Longrightarrow> from_url_char (to_url_char c) = c" by (simp add: list_all_iff)
qed

lemma raw_url_roundtrip: "raw_url_decode (raw_url_encode bs) = Some bs"
proof -
  let ?cs = "filter (\<lambda>c. c \<noteq> CHR ''='') (EncodeToString bs)"
  have cs: "set ?cs \<subseteq> set base64_alphabet" using set_EncodeToString [of bs] by auto
  then have "map from_url_char (raw_url_encode bs) = ?cs"
    by (auto simp: raw_url_encode_def from_to_url intro!: map_idI)
  moreover have "CHR 0x0A \<notin> set base64_alphabet" "CHR 0x0D \<notin> set base64_alphabet" by code_simp+
  with cs have "filter (\<lambda>c. c \<noteq> CHR 0x0A \<and> c \<noteq> CHR 0x0D) ?cs = ?cs" by (intro filter_True) blast
  ultimately show ?thesis by (simp only: raw_url_decode_def DecodeString_def decode_unpadded)
qed

lemma number_bytes_Suc: "number_bytes (Suc w) n = number_bytes w (n div 256) @ [char_of (n mod 256)]"
proof -
  have "n div 256 ^ (w - i) = n div 256 div 256 ^ (w - 1 - i)" if "i < w" for i
  proof -
    from that have "w - i = Suc (w - 1 - i)" by simp
    then show ?thesis by (simp add: div_mult2_eq)
  qed
  then show ?thesis by (simp add: number_bytes_def)
qed

lemma bytes_number_number_bytes: "bytes_number (number_bytes w n) = n mod 256 ^ w"
proof (induction w arbitrary: n)
  case 0
  show ?case by (simp add: number_bytes_def bytes_number_def)
next
  case (Suc w)
  have "bytes_number (number_bytes (Suc w) n) = bytes_number (number_bytes w (n div 256)) * 256 + n mod 256"
    by (simp add: number_bytes_Suc bytes_number_def)
  then show ?case by (simp add: Suc mod_mult2_eq [of n 256 "256 ^ w"])
qed

lemma length_number_bytes [simp]: "length (number_bytes w n) = w"
  by (simp add: number_bytes_def)

lemma length_state_sign: "length (state_sign st nonce ts) = stateMACLen"
  by (simp add: state_sign_def hmac_sha256_def length_Sum256 stateMACLen_def)

text \<open>What a validated state is: a nonce, a time and the code over both.\<close>

lemma state_Validate_parts:
  assumes "length nonce = stateNonceLen" "length ts = stateTimeLen" "length mac = stateMACLen"
  shows "state_Validate st (raw_url_encode (nonce @ ts @ mac)) now \<longleftrightarrow>
    mac = state_sign st nonce ts \<and> int (bytes_number ts) < 2 ^ 63 \<and>
    - stateMaxSkew \<le> time_Sub now (time_Unix (int (bytes_number ts))) \<and>
    time_Sub now (time_Unix (int (bytes_number ts))) \<le> ss_ttl st"
  using assms by (auto simp: state_Validate_def raw_url_roundtrip stateRawLen_def Let_def)

end
