(* ===== verification/Auth_Properties.thy ===== *)
theory Auth_Properties
  imports Auth_Trace Login_State
begin

text \<open>
  The properties of the authentication endpoints, and the defects that the model shows.
\<close>

section \<open>A small installation\<close>

text \<open>A signer whose tokens are as long as their generation; it serves the examples only.\<close>

definition count_claims :: "nat \<Rightarrow> heimdallClaims" where
  "count_claims n =
     \<lparr>hc_Issuer = ''heimdall'', hc_Subject = ''2'', hc_IssuedAt = 0, hc_ExpiresAt = 0, hc_UserID = ''2'',
      hc_TenantID = ''1'', hc_Email = [], hc_DisplayName = [], hc_Roles = [], hc_Departments = [],
      hc_TokenType = ''refresh'', hc_FamilyID = ''3'', hc_Generation = int n, hc_IsPlatformAdmin = False,
      hc_ImpersonatorID = []\<rparr>"

definition count_lib :: jwt_lib where
  "count_lib =
     \<lparr>jw_sign = (\<lambda>_ c. Inr (replicate (nat (hc_Generation c)) (CHR ''g''))),
      jw_parse = (\<lambda>_ _ _ t. Inr (count_claims (length t)))\<rparr>"

definition digit_uuid :: "string \<Rightarrow> uuid option" where
  "digit_uuid t = (if t = ''1'' then Some 1 else if t = ''2'' then Some 2 else if t = ''3'' then Some 3 else None)"

definition uuid_digit :: "uuid \<Rightarrow> string" where
  "uuid_digit u = (if u = 1 then ''1'' else if u = 2 then ''2'' else ''3'')"

definition small_handler :: auth_handler where
  "small_handler =
     \<lparr>ah_lib = count_lib, ah_parse_uuid = digit_uuid, ah_show_uuid = uuid_digit,
      ah_tokenSvc = NewTokenService ''key'' ''heimdall'' 1 24, ah_store = True, ah_refreshStore = True,
      ah_oidc = Some \<lparr>op_AuthCodeURL = (\<lambda>t. t), op_Exchange = (\<lambda>_. Inl ''down'')\<rparr>,
      ah_stateStore = \<lparr>ss_signingKey = ''key'', ss_ttl = 600 * 1000000000\<rparr>,
      ah_tenantResolver = Some \<lparr>tr_baseDomain = ''example.com'', tr_splitHostPort = (\<lambda>_. None), tr_originHost = (\<lambda>_. None)\<rparr>,
      ah_idTokenValidator = None\<rparr>"

definition small_family :: "int \<Rightarrow> TokenFamily" where
  "small_family g =
     \<lparr>tf_ID = 3, tf_TenantID = 1, tf_UserID = 2, tf_CurrentGeneration = g,
      tf_CurrentTokenHash = HashToken (replicate (nat g) (CHR ''g'')), tf_RevokedAt = None, tf_CreatedAt = 1,
      tf_UpdatedAt = 1, tf_LegacyTokenHash = None\<rparr>"

definition small_user :: User where
  "small_user =
     \<lparr>us_ID = 2, us_TenantID = 1, us_Email = ''a@b'', us_DisplayName = None, us_OIDCSubject = None,
      us_OIDCIssuer = None, us_Status = ''active'', us_CreatedAt = 0, us_IsPlatformAdmin = True\<rparr>"

definition small_tenant :: Tenant where
  "small_tenant =
     \<lparr>tn_ID = 1, tn_Name = ''Acme'', tn_Slug = ''acme'', tn_Status = ''active'', tn_CreatedAt = 1, tn_UpdatedAt = 1\<rparr>"

definition small_db :: "int \<Rightarrow> db" where
  "small_db g = empty_db\<lparr>db_tenants := [1], db_tenant_rows := [small_tenant], db_users := [small_user],
     db_families := [small_family g], db_next := 4\<rparr>"

definition refresh_with :: "nat \<Rightarrow> auth_call" where
  "refresh_with n = RefreshCall (\<lambda>_. 0) (RawJSON (JObj [(''refresh_token'', JStr (replicate n (CHR ''g'')))]))"

definition small_world :: "int \<Rightarrow> auth_world" where
  "small_world g = (NewJWKSClient 0, small_db g)"

lemmas small_defs = small_handler_def count_lib_def count_claims_def digit_uuid_def uuid_digit_def small_family_def
  small_user_def small_tenant_def small_db_def small_world_def refresh_with_def empty_db_def NewTokenService_def

lemma small_handler_fields [simp]:
  "ah_refreshStore small_handler" "ah_store small_handler" "ah_lib small_handler = count_lib"
  "ah_parse_uuid small_handler ''1'' = Some 1" "ah_parse_uuid small_handler ''2'' = Some 2"
  "ah_parse_uuid small_handler ''3'' = Some 3"
  by (simp_all add: small_handler_def digit_uuid_def)

lemma small_presented:
  "presented small_handler (\<lambda>_. 0) (RawJSON (JObj [(''refresh_token'', JStr (replicate n (CHR ''g'')))])) =
     Some (claims_identity (count_claims n), replicate n (CHR ''g''))"
proof -
  have "body_string ''refresh_token'' (RawJSON (JObj [(''refresh_token'', JStr t)])) = Some t" for t
    by (simp add: body_string_def object_entries_def string_field_def field_values_def fold_key.simps) code_simp
  then show ?thesis
    by (simp add: presented_def ValidateToken_def count_lib_def claims_identity_def count_claims_def)
qed

lemma small_key:
  "accepted_key small_handler (refresh_with n) 200 = [FamilyToken (Some 1) (Some 3) (int n)]"
  by (simp add: accepted_key_def refresh_with_def small_presented identity_key_def claims_identity_def
      count_claims_def)

lemma small_refresh:
  assumes "n < 1000"
  shows "serve_auth small_handler (refresh_with n) (small_world (int n)) = (200, small_world (int n + 1))"
proof -
  have w: "wrap64 (int n + 1) = int n + 1" using assms by (simp add: wrap64_def)
  have sign: "CreateRefreshToken count_lib (ah_tokenSvc small_handler) now i =
      Inr (replicate (nat (au_Generation i)) (CHR ''g''))"
    "CreateAccessToken count_lib (ah_tokenSvc small_handler) now i =
      Inr (replicate (nat (au_Generation i)) (CHR ''g''))" for now i
    by (simp_all add: CreateRefreshToken_def CreateAccessToken_def createToken_def count_lib_def)
  have id: "au_FamilyID (claims_identity (count_claims n)) = ''3''" "au_TenantID (claims_identity (count_claims n)) = ''1''"
    "au_Generation (claims_identity (count_claims n)) = int n"
    by (simp_all add: claims_identity_def count_claims_def)
  have s: "db_faults (small_db g) = []" "visible (small_db g) t" "db_families (small_db g) = [small_family g]"
    "db_now (small_db g) = 1" for g t
    by (simp_all add: small_db_def empty_db_def visible_def)
  have f: "family_of 3 1 (small_db g) (small_family g) = True" "tf_RevokedAt (small_family g) = None"
    "tf_CurrentGeneration (small_family g) = g"
    "tf_CurrentTokenHash (small_family g) = HashToken (replicate (nat g) (CHR ''g''))"
    "rotate_row (HashToken (replicate (nat (g + 1)) (CHR ''g''))) 1 (small_family g) = small_family (g + 1)"
    "small_db g\<lparr>db_families := [small_family (g + 1)]\<rparr> = small_db (g + 1)" for g
    by (simp_all add: family_of_def s(2)) (simp_all add: small_family_def rotate_row_def small_db_def)
  let ?i = "claims_identity (count_claims n)"
  have "rotate_stmt (HashToken (replicate n (CHR ''g''))) (int n) (HashToken (replicate (nat (int n + 1)) (CHR ''g'')))
      3 1 (small_db (int n)) = (Inr (Some (small_family (int n + 1))), small_db (int n + 1))"
    using assms by (simp add: rotate_stmt_def Let_def s f f(1) [unfolded One_nat_def])
  then have "RotateToken (ah_parse_uuid small_handler) ''3'' ''1'' (HashToken (replicate n (CHR ''g''))) (int n)
      (HashToken (replicate (nat (int n + 1)) (CHR ''g''))) (small_db (int n)) =
      (Inr (small_family (int n + 1)), small_db (int n + 1))"
    using s by (simp add: RotateToken_def with_uuid_def checked_def)
  then have "rotateRefreshToken small_handler (\<lambda>_. 0) ?i (replicate n (CHR ''g'')) (small_db (int n)) =
      (Inr (?i\<lparr>au_Generation := int n + 1\<rparr>, replicate (nat (int n + 1)) (CHR ''g'')), small_db (int n + 1))"
    by (simp add: rotateRefreshToken_def id w sign Let_def)
  then show ?thesis
    by (simp add: serve_auth_def on_db_def refresh_with_def small_world_def HandleRefresh_presented [OF _ small_presented]
        refresh_stored_def sign auth_writeJSON_def)
qed

section \<open>Refresh tokens\<close>



text \<open>
  C11: presenting a token that was already exchanged kills its family. With a database that
  answers and a signer that signs, the request is refused with 401, and no token of that family
  is accepted in any run that follows.
\<close>

theorem superseded_token_kills_family:
  assumes "ah_refreshStore h" "presented h clock body = Some (i, token)" "au_FamilyID i \<noteq> []"
    and "db_faults s = []" "\<not> db_rls s" "family_keys s"
    and "r \<in> set (db_families s)" "ah_parse_uuid h (au_FamilyID i) = Some (tf_ID r)"
    and "ah_parse_uuid h (au_TenantID i) = Some (tf_TenantID r)"
    and "0 \<le> au_Generation i" "au_Generation i < tf_CurrentGeneration r" "tf_CurrentGeneration r < 2 ^ 31"
    and "\<And>now j. \<exists>t. CreateRefreshToken (ah_lib h) (ah_tokenSvc h) now j = Inr t"
    and "HandleRefresh h clock body s = (response, s')" "refresh_run h (c, s') ks w"
  shows "re_Status response = 401 \<and>
    (\<forall>g. FamilyToken (Some (tf_TenantID r)) (Some (tf_ID r)) g \<notin> set ks)"
proof -
  obtain t where t: "CreateRefreshToken (ah_lib h) (ah_tokenSvc h) (clock 1)
      (i\<lparr>au_Generation := wrap64 (au_Generation i + 1)\<rparr>) = Inr t"
    using assms(13) by blast
  have "visible s (tf_TenantID r)" using assms(5) by (simp add: visible_def)
  then obtain e s1 where rot: "RotateToken (ah_parse_uuid h) (au_FamilyID i) (au_TenantID i) (HashToken token)
      (au_Generation i) (HashToken t) s = (Inl (Sentinel e), s1)" and e: "e \<in> {ErrTokenReuse, ErrFamilyRevoked}"
    and spent: "\<And>g. key_spent (FamilyToken (Some (tf_TenantID r)) (Some (tf_ID r)) g) s1"
    using reuse_detected [OF assms(4,6,7) _ assms(8,9,11), of "HashToken token" "HashToken t"] assms(8-12) by auto
  have "rotateRefreshToken h clock i token s = (Inl (Sentinel e), s1)"
    using assms(3) by (simp add: rotateRefreshToken_def Let_def t [simplified] rot)
  then have "response = (case classifyRotationError (Sentinel e) of (st, m) \<Rightarrow> auth_failure st m)" "s' = s1"
    using assms(14) unfolding HandleRefresh_presented [OF assms(1,2)] by (auto simp: refresh_stored_def split: prod.splits)
  moreover from this e have "re_Status response = 401"
    by (auto simp: classifyRotationError_def auth_failure_def auth_writeJSON_def)
  moreover have "family_keys s'"
    using keepsD [OF families.refresh_keeps families_grown_refl [OF assms(6)] assms(14)]
    by (simp add: families_grown_def)
  ultimately show ?thesis
    using refresh_run_keys [OF assms(15,1)] spent by auto
qed

theorem superseded_token_kills_family_witness:
  "\<exists>response s'. HandleRefresh small_handler (\<lambda>_. 0) (RawJSON (JObj [(''refresh_token'', JStr ''g'')])) (small_db 2) =
     (response, s') \<and> re_Status response = 401"
proof -
  obtain response s' where r: "HandleRefresh small_handler (\<lambda>_. 0) (RawJSON (JObj [(''refresh_token'', JStr ''g'')]))
      (small_db 2) = (response, s')"
    by fastforce
  have p: "presented small_handler (\<lambda>_. 0) (RawJSON (JObj [(''refresh_token'', JStr ''g'')])) =
      Some (claims_identity (count_claims 1), ''g'')"
    using small_presented [of 1] by simp
  have sign: "\<exists>t. CreateRefreshToken (ah_lib small_handler) (ah_tokenSvc small_handler) now j = Inr t" for now j
    by (simp add: CreateRefreshToken_def createToken_def count_lib_def)
  have "re_Status response = 401"
    using superseded_token_kills_family [where r = "small_family 2" and c = "NewJWKSClient 0",
        OF small_handler_fields(1) p _ _ _ _ _ _ _ _ _ _ sign r refresh_run.start]
    by (simp add: small_db_def empty_db_def small_family_def family_keys_def claims_identity_def count_claims_def)
  with r show ?thesis by blast
qed

section \<open>Accounts\<close>

definition serve_all :: "auth_handler \<Rightarrow> auth_call list \<Rightarrow> auth_world \<Rightarrow> auth_world" where
  "serve_all h cs w = fold (\<lambda>c w. snd (serve_auth h c w)) cs w"

lemma accounts_stable_run: "accounts_stable s0 (snd w) \<Longrightarrow> accounts_stable s0 (snd (serve_all h cs w))"
  by (induction cs arbitrary: w) (simp_all add: serve_all_def accounts.serve_auth_keeps)

text \<open>
  C14: No sequence of authentication requests moves an account to another tenant, changes its
  email, its status or its platform flag, replaces credentials it has, or creates a platform
  administrator.
\<close>

theorem auth_requests_keep_accounts: "accounts_stable (snd w) (snd (serve_all h cs w))"
  by (rule accounts_stable_run [OF accounts_stable_refl])

section \<open>Defects\<close>

lemma UpdateUserTenant_fails: "\<exists>e. fst (UpdateUserTenant pu u t s) = Inl e"
proof -
  have "move_user_stmt t u = (\<lambda>s. (Inr 0, s))" for t u
    by (simp add: move_user_stmt_def tenantless_def upd_where_def count_where_def fun_eq_iff)
  then show ?thesis
    by (auto simp: UpdateUserTenant_def checked_def with_uuid_def sql_def split: list.split option.split)
qed

text \<open>
  C37: No invite is ever redeemed. The statement that moves the user wants a user without a tenant,
  and every user has one: each request ends with an error, whatever the tables hold.
\<close>

theorem invites_never_redeemed: "re_Status (fst (HandleRedeem h clock identity body s)) \<in> {400, 401, 500}"
proof (cases identity)
  case (Some i)
  show ?thesis
  proof (cases "body_string ''code'' body")
    case (Some code)
    obtain r s1 where a: "inviteRedeemAdapter h code (au_UserID i) s = (r, s1)" by fastforce
    have m: "(case UpdateUserTenant pu u t s1 of
          (Inl _, s2) \<Rightarrow> (auth_failure 500 ''failed to assign user to tenant'', s2)
        | (Inr _, s2) \<Rightarrow> f s2) = (auth_failure 500 ''failed to assign user to tenant'', snd (UpdateUserTenant pu u t s1))"
      for pu u t f
      using UpdateUserTenant_fails [of pu u t s1] by (auto split: prod.splits)
    show ?thesis
      by (cases r) (auto simp: HandleRedeem_def \<open>identity = Some i\<close> Some a m redeem_error_def auth_failure_def
          auth_writeJSON_def split: prod.split)
  qed (simp add: HandleRedeem_def Some auth_failure_def auth_writeJSON_def)
qed (simp add: HandleRedeem_def auth_failure_def auth_writeJSON_def)

definition other_accounts :: "User list \<Rightarrow> UserRole list \<Rightarrow> db \<Rightarrow> db" where
  "other_accounts us rs s = s\<lparr>db_users := us, db_user_roles := rs\<rparr>"

lemma sql_other_accounts:
  assumes "\<And>s. stmt (other_accounts us rs s) = map_prod id (other_accounts us rs) (stmt s)"
  shows "sql stmt (other_accounts us rs s) = map_prod id (other_accounts us rs) (sql stmt s)"
proof -
  have f: "db_faults (other_accounts us rs s) = db_faults s"
    "other_accounts us rs s\<lparr>db_faults := fs\<rparr> = other_accounts us rs (s\<lparr>db_faults := fs\<rparr>)" for fs
    by (simp_all add: other_accounts_def)
  show ?thesis by (auto simp: sql_def f assms prod.map_comp comp_def split: list.split option.split)
qed

lemma RotateToken_other_accounts:
  "RotateToken pu f t hash g fresh (other_accounts us rs s) =
     map_prod id (other_accounts us rs) (RotateToken pu f t hash g fresh s)"
proof -
  let ?o = "other_accounts us rs"
  have o: "db_families (?o s) = db_families s" "visible (?o s) t = visible s t" "db_now (?o s) = db_now s"
    "?o s\<lparr>db_families := fs\<rparr> = ?o (s\<lparr>db_families := fs\<rparr>)" "family_of f t (?o s) = family_of f t s" for s f t fs
    by (simp_all add: other_accounts_def visible_def own_def family_of_def fun_eq_iff)
  have stmts: "rotate_stmt hash g fresh f t (?o s) = map_prod id ?o (rotate_stmt hash g fresh f t s)"
    "revoke_stmt f t (?o s) = map_prod id ?o (revoke_stmt f t s)" for f t s
    by (simp_all add: rotate_stmt_def revoke_stmt_def Let_def o split: option.split)
  have uuids: "with_uuid pu x stmt (?o s) = map_prod id ?o (with_uuid pu x stmt s)"
    if "\<And>u s. stmt u (?o s) = map_prod id ?o (stmt u s)" for x s and stmt :: "uuid \<Rightarrow> db \<Rightarrow> (string + 'a) \<times> db"
    by (simp add: with_uuid_def that split: option.split)
  have checks: "checked (map_prod id ?o r) = map_prod id ?o (checked r)" for r :: "(auth_error + (string + 'a)) \<times> db"
    by (cases r) (simp add: checked_def split: sum.split)
  note run = sql_other_accounts uuids stmts checks
  have rows: "query_row m none (map_prod id ?o r) = map_prod id ?o (query_row m none r)"
    "exec_rows m none (map_prod id ?o r') = map_prod id ?o (exec_rows m none r')"
    for m none and r :: "(auth_error + 'a option) \<times> db" and r'
    by (cases r, simp add: query_row_def split: sum.split option.split)
      (cases r', simp add: exec_rows_def split: sum.split)
  have seq: "(case map_prod id ?o r of (a, s1) \<Rightarrow> k a s1) = map_prod id ?o (case r of (a, s1) \<Rightarrow> k a s1)"
    if "\<And>a s. k a (?o s) = map_prod id ?o (k a s)" for r :: "'a \<times> db" and k :: "'a \<Rightarrow> db \<Rightarrow> 'b \<times> db"
    by (cases r) (simp add: that)
  have revoke: "RevokeFamily pu f t (?o s) = map_prod id ?o (RevokeFamily pu f t s)" for s
    by (simp add: RevokeFamily_def run rows)
  have diagnose: "diagnoseRotationFailure pu f t (?o s) = map_prod id ?o (diagnoseRotationFailure pu f t s)" for s
    unfolding diagnoseRotationFailure_def
    by (simp add: run o rows, rule seq) (simp add: revoke seq split: sum.split)
  show ?thesis
    unfolding RotateToken_def
    by (simp add: run, rule seq) (simp add: diagnose seq split: sum.split option.split)
qed

text \<open>A refresh looks at no account. The answer to a token of a family is the same whatever the
  users table says of its user and whatever roles are left: suspension, deletion and the removal
  of a role reach nobody who keeps refreshing.
\<close>

theorem refresh_ignores_account:
  assumes "ah_refreshStore h" "presented h clock body = Some (i, token)" "au_FamilyID i \<noteq> []"
  shows "fst (HandleRefresh h clock body (s\<lparr>db_users := us, db_user_roles := rs\<rparr>)) = fst (HandleRefresh h clock body s)"
proof -
  have "fst (refresh_stored h clock i token (other_accounts us rs s)) = fst (refresh_stored h clock i token s)"
    using assms(3)
    by (simp add: refresh_stored_def rotateRefreshToken_def Let_def RotateToken_other_accounts
        split: prod.split sum.split)
  then show ?thesis by (simp add: HandleRefresh_presented [OF assms(1,2)] other_accounts_def)
qed

theorem refresh_ignores_account_witness:
  "serve_auth small_handler (refresh_with 1) (NewJWKSClient 0, (small_db 1)\<lparr>db_users := [], db_user_roles := []\<rparr>) =
     (200, NewJWKSClient 0, snd (HandleRefresh small_handler (\<lambda>_. 0)
        (RawJSON (JObj [(''refresh_token'', JStr ''g'')])) ((small_db 1)\<lparr>db_users := [], db_user_roles := []\<rparr>)))"
proof -
  let ?b = "RawJSON (JObj [(''refresh_token'', JStr ''g'')])"
  have p: "presented small_handler (\<lambda>_. 0) ?b = Some (claims_identity (count_claims 1), ''g'')"
    using small_presented [of 1] by simp
  have "re_Status (fst (HandleRefresh small_handler (\<lambda>_. 0) ?b (small_db 1))) = 200"
    using small_refresh [of 1] by (simp add: serve_auth_def on_db_def refresh_with_def small_world_def split: prod.splits)
  then have "re_Status (fst (HandleRefresh small_handler (\<lambda>_. 0) ?b ((small_db 1)\<lparr>db_users := [], db_user_roles := []\<rparr>))) = 200"
    using refresh_ignores_account [OF small_handler_fields(1) p, where s = "small_db 1" and us = "[]" and rs = "[]"]
    by (simp add: claims_identity_def count_claims_def)
  then show ?thesis by (simp add: serve_auth_def on_db_def refresh_with_def case_prod_beta)
qed

section \<open>Logins\<close>

lemma state_Generate_Inr:
  assumes "state_Generate st (Some nonce) now = Inr state" "length nonce = 16"
  obtains ts where "ts = number_bytes stateTimeLen (nat (time_seconds now))" "0 \<le> time_seconds now"
    "state = raw_url_encode (nonce @ ts @ state_sign st nonce ts)" "state \<noteq> []"
proof -
  let ?ts = "number_bytes stateTimeLen (nat (time_seconds now))"
  from assms have s: "0 \<le> time_seconds now" "state = raw_url_encode (nonce @ ?ts @ state_sign st nonce ?ts)"
    by (auto simp: state_Generate_def Let_def split: if_splits)
  have "nonce \<noteq> []" using assms(2) by auto
  with s(2) have "state \<noteq> []"
    using raw_url_roundtrip [of "nonce @ ?ts @ state_sign st nonce ?ts"]
    by (auto simp: raw_url_decode_def DecodeString_def)
  with s that show ?thesis by blast
qed

lemma state_Validate_Generate:
  assumes "state_Generate st (Some nonce) now = Inr state" "length nonce = 16" "now < 2 ^ 63 * 1000000000"
  shows "state_Validate st state later \<longleftrightarrow>
    - stateMaxSkew \<le> time_Sub later (NewNumericDate now) \<and> time_Sub later (NewNumericDate now) \<le> ss_ttl st"
proof -
  obtain ts where ts: "ts = number_bytes stateTimeLen (nat (time_seconds now))" and pos: "0 \<le> time_seconds now"
    and state: "state = raw_url_encode (nonce @ ts @ state_sign st nonce ts)"
    by (rule state_Generate_Inr [OF assms(1,2)])
  have sec: "0 \<le> now div 1000000000" "now div 1000000000 < 2 ^ 63"
    using pos assms(3) by (simp_all add: time_seconds_def)
  then have "nat (time_seconds now) < 256 ^ stateTimeLen" by (simp add: time_seconds_def stateTimeLen_def)
  then have n: "int (bytes_number ts) = time_seconds now"
    using pos by (simp add: ts bytes_number_number_bytes)
  have u: "time_Unix (time_seconds now) = NewNumericDate now"
    using sec by (simp add: time_Unix_def time_seconds_def NewNumericDate_def wrap64_def)
  have "int (bytes_number ts) < 2 ^ 63" using sec(2) by (simp add: n time_seconds_def)
  moreover have "length nonce = stateNonceLen" "length ts = stateTimeLen"
    by (simp_all add: assms(2) stateNonceLen_def ts)
  note state_Validate_parts [OF this length_state_sign, of st st nonce ts later]
  ultimately show ?thesis by (simp add: state n u)
qed



section \<open>The middleware\<close>

text \<open>
  What the tokens of a key rely on in \<open>golang-jwt\<close>: a signed token is read back as its claims by
  a parser with the same key and the issuer of the claims, before its expiry, and is refused otherwise.
\<close>

definition jwt_reads :: "jwt_lib \<Rightarrow> string \<Rightarrow> string \<Rightarrow> bool" where
  "jwt_reads lib key t \<longleftrightarrow>
     (\<forall>c issuer now. jw_sign lib key c = Inr t \<longrightarrow>
        (if now < hc_ExpiresAt c \<and> hc_Issuer c = issuer then jw_parse lib key issuer now t = Inr c
         else \<exists>e. jw_parse lib key issuer now t = Inl e))"


definition one_claims :: "string \<Rightarrow> heimdallClaims" where
  "one_claims kind = (count_claims 1)\<lparr>hc_TokenType := kind, hc_ExpiresAt := 3600 * 1000000000\<rparr>"

definition one_lib :: "string \<Rightarrow> jwt_lib" where
  "one_lib kind =
     \<lparr>jw_sign = (\<lambda>_ c. if c = one_claims kind then Inr ''t'' else Inl ''refused''),
      jw_parse = (\<lambda>_ issuer now t. if t = ''t'' \<and> now < 3600 * 1000000000 \<and> issuer = ''heimdall''
        then Inr (one_claims kind) else Inl (False, ''refused''))\<rparr>"


section \<open>The email hint\<close>

lemma find_unique:
  assumes "x \<in> set xs" "p x" "\<And>y. y \<in> set xs \<Longrightarrow> p y \<Longrightarrow> y = x"
  shows "find p xs = Some x"
proof (cases "find p xs")
  case (Some y)
  then have "y \<in> set xs" "p y" by (auto simp: find_Some_iff)
  with Some assms(3) show ?thesis by simp
qed (use assms(1,2) in \<open>auto simp: find_None_iff\<close>)

text \<open>The account of an email that has no credentials gets those of the request.\<close>

lemma oidc_links_account:
  assumes "db_faults s = []" "\<not> db_rls s" "pu tid = Some t" "t \<in> set (db_tenants s)"
    and "v \<in> set (db_users s)" "us_TenantID v = t" "us_Email v = oi_Email info" "us_OIDCIssuer v \<in> {None, Some []}"
    and "distinct (map (\<lambda>u. (us_TenantID u, us_Email u)) (db_users s))"
    and fresh: "list_all (\<lambda>u. us_OIDCIssuer u \<noteq> Some (oi_Issuer info) \<or> us_OIDCSubject u \<noteq> Some (oi_Subject info)) (db_users s)"
  shows "oidc_user_id pu info tid s =
    (Inr (us_ID v, False), s\<lparr>db_users := upd_where (\<lambda>u. u = v) (link_row info) (db_users s)\<rparr>)"
proof -
  have vis: "visible s x" for x using assms(2) by (simp add: visible_def)
  have none: "\<not> list_ex (\<lambda>u. us_OIDCIssuer u = Some (oi_Issuer info) \<and> us_OIDCSubject u = Some (oi_Subject info)) (db_users s)"
    "find (oidc_user s (oi_Issuer info) (oi_Subject info)) (db_users s) = None"
    using fresh by (auto simp: list_ex_iff list_all_iff find_None_iff oidc_user_def)
  have taken: "list_ex (\<lambda>u. us_TenantID u = t \<and> us_Email u = oi_Email info) (db_users s)"
    using assms(5-7) by (auto simp: list_ex_iff)
  let ?p = "\<lambda>u. us_TenantID u = t \<and> us_Email u = oi_Email info \<and> us_OIDCIssuer u \<in> {None, Some []} \<and> visible s (us_TenantID u)"
  have p: "?p u \<longleftrightarrow> u = v" if "u \<in> set (db_users s)" for u
    using assms(5-9) that by (auto simp: vis distinct_map inj_on_def)
  have f: "find ?p (db_users s) = Some v" by (rule find_unique) (use assms(5) p in auto)
  have "upd_where ?p (link_row info) (db_users s) = upd_where (\<lambda>u. u = v) (link_row info) (db_users s)"
    unfolding upd_where_def by (rule map_cong [OF refl]) (use p in auto)
  then have link: "link_oidc_stmt info t s =
      (Inr (Some (us_ID v)), s\<lparr>db_users := upd_where (\<lambda>u. u = v) (link_row info) (db_users s)\<rparr>)"
    using f none(1) unfolding link_oidc_stmt_def Let_def by simp
  have "insert_oidc_user info t s = (Inl unique_violation, s)"
    using none(1) taken assms(4) vis by (simp add: insert_oidc_user_def)
  then show ?thesis
    using none(2) assms(1,3)
    by (simp add: oidc_user_id_def sql_no_faults with_uuid_def resolveEmailConflict_def find_oidc_def checked_def link)
qed

lemma GetIdentityWithRoles_run:
  assumes "db_faults s = []" "\<not> db_rls s" "pu uid = Some (us_ID u)" "u \<in> set (db_users s)"
    and "distinct (map us_ID (db_users s))"
  shows "GetIdentityWithRoles pu su uid s =
    (Inr \<lparr>au_UserID = uid, au_TenantID = su (us_TenantID u), au_Email = us_Email u,
          au_DisplayName = (case us_DisplayName u of None \<Rightarrow> [] | Some n \<Rightarrow> n),
          au_Roles = role_names s (us_ID u),
          au_Departments = map (su \<circ> snd) (filter (\<lambda>(x, _). x = us_ID u) (db_user_departments s)),
          au_TokenType = ''access'', au_FamilyID = [], au_Generation = 0, au_IsPlatformAdmin = us_IsPlatformAdmin u,
          au_ImpersonatorID = []\<rparr>, s)"
proof -
  have "find (\<lambda>r. us_ID r = us_ID u \<and> visible s (us_TenantID r)) (db_users s) = Some u"
    by (rule find_unique) (use assms(2,4,5) in \<open>auto simp: visible_def distinct_map inj_on_def\<close>)
  then show ?thesis
    using assms(1,3)
    by (simp add: GetIdentityWithRoles_def sql_no_faults with_uuid_def checked_def query_row_def wrap_err_def)
qed

text \<open>
  C36: the email in an exchange may come from the caller. A caller whose verified token carries no
  email names the email of any account of the tenant that has no credentials yet, and gets the
  tokens of that account, with its roles and its platform flag; the account now belongs to the
  caller's subject.
\<close>

theorem email_hint_takes_over:
  assumes "ah_store h" "ah_tenantResolver h = Some tr" "db_faults s = []" "\<not> db_rls s"
    and "\<And>u. ah_parse_uuid h (ah_show_uuid h u) = Some u" "ah_parse_uuid h [] = None"
    and "map_option tn_ID (find (\<lambda>t. tn_Slug t = xr_TenantSlug req) (db_tenant_rows s)) = Some t" "xr_TenantSlug req \<noteq> []" "t \<in> set (db_tenants s)"
    and "v \<in> set (db_users s)" "us_TenantID v = t" "us_Email v = xr_EmailHint req" "us_OIDCIssuer v \<in> {None, Some []}"
    and "distinct (map us_ID (db_users s))" "distinct (map (\<lambda>u. (us_TenantID u, us_Email u)) (db_users s))"
    and "oi_Email info = []" "isValidEmail (xr_EmailHint req)"
    and "list_all (\<lambda>u. us_OIDCIssuer u \<noteq> Some (oi_Issuer info) \<or> us_OIDCSubject u \<noteq> Some (oi_Subject info)) (db_users s)"
  shows "\<exists>full s' v'. exchange_verified h clock req origin info s = exchange_tokens h clock False full s' \<and>
    au_UserID full = ah_show_uuid h (us_ID v) \<and> au_IsPlatformAdmin full = us_IsPlatformAdmin v \<and>
    au_Roles full = role_names s (us_ID v) \<and>
    v' \<in> set (db_users s') \<and> us_ID v' = us_ID v \<and> us_OIDCSubject v' = Some (oi_Subject info)"
proof -
  let ?su = "ah_show_uuid h"
  let ?pu = "ah_parse_uuid h"
  let ?info = "info\<lparr>oi_Email := xr_EmailHint req\<rparr>"
  let ?us = "upd_where (\<lambda>u. u = v) (link_row ?info) (db_users s)"
  let ?s = "s\<lparr>db_users := ?us\<rparr>"
  let ?v = "link_row ?info v"
  have hint: "xr_EmailHint req \<noteq> []" using assms(17) by (auto simp: isValidEmail_def email_at_ok_def Let_def)
  have tid: "?su t \<noteq> []" using assms(5) [of t] assms(6) by auto
  have 1: "exchange_tenant h (xr_TenantSlug req) origin s = (?su t, s)"
    using assms(2,3,4,7,8) tid by (auto simp: exchange_tenant_def exchange_by_slug_def ResolveBySlug_def seen_tenants_def)
  have 2: "oidc_user_id ?pu ?info (?su t) s = (Inr (us_ID v, False), ?s)"
    by (rule oidc_links_account [where t = t]) (use assms in simp_all)
  have row: "us_ID ?v = us_ID v" "us_IsPlatformAdmin ?v = us_IsPlatformAdmin v" "us_OIDCSubject ?v = Some (oi_Subject info)"
    by (simp_all add: link_row_def)
  have mem: "?v \<in> set ?us" using assms(10) by (auto simp: upd_where_def)
  have "map us_ID ?us = map us_ID (db_users s)" by (simp add: upd_where_def link_row_def)
  then have dist: "distinct (map us_ID ?us)" using assms(14) by simp
  obtain full where 3: "GetIdentityWithRoles ?pu ?su (?su (us_ID v)) ?s = (Inr full, ?s)"
    and full: "au_UserID full = ?su (us_ID v)" "au_IsPlatformAdmin full = us_IsPlatformAdmin v"
      "au_Roles full = role_names ?s (us_ID v)"
    using GetIdentityWithRoles_run [of ?s ?pu "?su (us_ID v)" ?v ?su] assms(3,4) assms(5) [of "us_ID v"] mem dist row by simp
  have "exchange_verified h clock req origin info s = exchange_tokens h clock False full ?s"
    using assms(1,3,16,17) hint tid full(1)
    by (simp add: exchange_verified_def 1 exchange_admin_def exchange_user_def FindOrCreateByOIDC_def 2 3 exchange_role_def)
  moreover have "role_names ?s (us_ID v) = role_names s (us_ID v)"
    by (simp add: role_names_def visible_def own_def)
  ultimately show ?thesis
    using full mem row by (intro exI [of _ full] exI [of _ ?s] exI [of _ ?v]) simp
qed

definition unary_handler :: auth_handler where
  "unary_handler = small_handler
     \<lparr>ah_show_uuid := \<lambda>u. replicate (Suc u) (CHR ''u''),
      ah_parse_uuid := \<lambda>t. if t = [] then None else Some (length t - 1)\<rparr>"

theorem email_hint_takes_over_witness:
  "\<exists>full s'. exchange_verified unary_handler (\<lambda>_. 0) \<lparr>xr_IDToken = ''x'', xr_TenantSlug = ''acme'', xr_EmailHint = ''a@b''\<rparr> []
     \<lparr>oi_Issuer = ''clerk'', oi_Subject = ''mallory'', oi_Email = [], oi_Name = []\<rparr> (small_db 1) =
       exchange_tokens unary_handler (\<lambda>_. 0) False full s' \<and> au_UserID full = ''uuu'' \<and> au_IsPlatformAdmin full"
proof -
  have valid: "isValidEmail ''a@b''" by code_simp
  obtain tr where tr: "ah_tenantResolver unary_handler = Some tr" by (simp add: unary_handler_def small_handler_def)
  show ?thesis
    using email_hint_takes_over [OF _ tr, where s = "small_db 1" and t = 1 and v = small_user and origin = "[]"
        and req = "\<lparr>xr_IDToken = ''x'', xr_TenantSlug = ''acme'', xr_EmailHint = ''a@b''\<rparr>" and clock = "\<lambda>_. 0"
        and info = "\<lparr>oi_Issuer = ''clerk'', oi_Subject = ''mallory'', oi_Email = [], oi_Name = []\<rparr>"]
    by (fastforce simp: unary_handler_def small_db_def small_tenant_def small_user_def empty_db_def valid numeral_2_eq_2)
qed

end
