(* ===== verification/Tenant_Properties.thy ===== *)
theory Tenant_Properties
  imports Tenant_Links Tenant_Guards Auth_Properties
begin

text \<open>
  What the tenant administration guarantees: requests of other tenants change nothing, privileges
  stay where they are, changed roles take effect at once, and where it goes wrong.
\<close>

text \<open>A connection without driver faults and without policies.\<close>

definition quiet :: "db \<Rightarrow> bool" where
  "quiet s \<longleftrightarrow> db_faults s = [] \<and> \<not> db_rls s"

section \<open>A small installation\<close>

text \<open>Two tenants, 1 and 2, with a user, a role and a department each; UUIDs are written in unary.\<close>

definition unary :: "string \<Rightarrow> uuid option" where
  "unary t = (if list_all (\<lambda>c. c = CHR ''i'') t then Some (length t) else None)"

definition in_unary :: "uuid \<Rightarrow> string" where
  "in_unary u = replicate u (CHR ''i'')"

lemma unary_roundtrip: "unary (in_unary u) = Some u"
  by (simp add: unary_def in_unary_def list_all_iff)

lemma in_unary_inj: "inj in_unary"
  by (rule injI) (metis unary_roundtrip option.inject)

definition town_handler :: tenant_handler where
  "town_handler =
     \<lparr>th_parse_uuid = unary, th_show_uuid = in_unary, th_collate = length, th_parses_mail = (\<lambda>_. True), th_audited = True\<rparr>"

definition town_user :: "uuid \<Rightarrow> uuid \<Rightarrow> User" where
  "town_user i t =
     \<lparr>us_ID = i, us_TenantID = t, us_Email = ''a@b'', us_DisplayName = None, us_OIDCSubject = None,
      us_OIDCIssuer = None, us_Status = ''active'', us_CreatedAt = 0, us_IsPlatformAdmin = False\<rparr>"

definition town_role :: "uuid \<Rightarrow> uuid \<Rightarrow> Role" where
  "town_role i t =
     \<lparr>rl_ID = i, rl_TenantID = t, rl_Name = ''clerk'', rl_Permissions = [''agents:read''], rl_IsSystem = False, rl_CreatedAt = 0\<rparr>"

definition town_department :: "uuid \<Rightarrow> uuid \<Rightarrow> Department" where
  "town_department i t = \<lparr>dp_ID = i, dp_TenantID = t, dp_Name = ''desk'', dp_ParentID = None, dp_CreatedAt = 0\<rparr>"

definition town_db :: "bool \<Rightarrow> db" where
  "town_db rls = empty_db\<lparr>db_rls := rls, db_tenants := [1, 2], db_users := [town_user 3 1, town_user 4 2],
     db_roles := [town_role 5 1, town_role 6 2], db_departments := [town_department 7 1, town_department 8 2],
     db_user_roles := [\<lparr>ur_UserID = 3, ur_RoleID = 5, ur_ScopeType = ''org'', ur_ScopeID = 1\<rparr>],
     db_user_departments := [(3, 7)], db_next := 9\<rparr>"

definition town :: "bool \<Rightarrow> tenant_world" where
  "town rls = \<lparr>tw_db = town_db rls, tw_evaluator = Some (NewEvaluator None None), tw_events = []\<rparr>"

definition ask :: "string \<Rightarrow> string \<Rightarrow> json \<Rightarrow> tenant_request" where
  "ask t i body = \<lparr>tq_tenant = t, tq_identity = None, tq_id = i, tq_dept = [], tq_body = RawJSON body\<rparr>"

definition clerk :: "string \<Rightarrow> Identity" where
  "clerk t = \<lparr>au_UserID = ''u'', au_TenantID = t, au_Email = [], au_DisplayName = [], au_Roles = [''clerk''],
     au_Departments = [], au_TokenType = ''access'', au_FamilyID = [], au_Generation = 0, au_IsPlatformAdmin = False,
     au_ImpersonatorID = []\<rparr>"

lemmas town_defs = town_def town_db_def town_handler_def town_user_def town_role_def town_department_def ask_def empty_db_def

lemma town_linked: "linked (tw_db (town True))"
  by (simp add: town_defs linked_def keys_fresh_def fresh_keys_def key_defs in_one_tenant_def parent_ok_def)

lemma town_quiet: "quiet (tw_db (town False))" "role_index (tw_db (town False))"
  by (simp_all add: town_defs quiet_def role_index_def role_name_def)

section \<open>Runs of requests\<close>

definition serve_all :: "tenant_handler \<Rightarrow> (tenant_call \<times> tenant_request) list \<Rightarrow> tenant_world \<Rightarrow> tenant_world" where
  "serve_all h cs w = fold (\<lambda>(c, q) w. snd (serve_tenant h c q w)) cs w"

lemma serve_keeps:
  assumes "\<And>t. tenant_writes t P" "P (tw_db w)"
  shows "P (tw_db (snd (serve_tenant h c q w)))"
proof -
  obtain t where "th_parse_uuid h (tq_tenant q) \<in> {None, Some t}" by (cases "th_parse_uuid h (tq_tenant q)") auto
  from tenant_writes.serve_tenant_keeps [OF assms(1) this] show ?thesis using assms(2) by (simp add: world_keeps_def)
qed

lemma serve_all_keeps:
  assumes "\<And>t. tenant_writes t P"
  shows "P (tw_db w) \<Longrightarrow> P (tw_db (serve_all h cs w))"
  unfolding serve_all_def by (induction cs arbitrary: w) (auto simp: serve_keeps [OF assms])

lemma serve_isolated:
  assumes "linked (tw_db w)" "th_parse_uuid h (tq_tenant q) \<noteq> Some t'"
  shows "linked (tw_db (snd (serve_tenant h c q w))) \<and>
    tenant_view t' (tw_db (snd (serve_tenant h c q w))) = tenant_view t' (tw_db w)"
proof -
  obtain t where t: "th_parse_uuid h (tq_tenant q) \<in> {None, Some t}" "t \<noteq> t'"
    using assms(2) by (cases "th_parse_uuid h (tq_tenant q)") (auto intro: that [of "Suc t'"])
  have "isolated t (tw_db w) (tw_db w)" using assms(1) by (simp add: isolated_def)
  then have "isolated t (tw_db w) (tw_db (snd (serve_tenant h c q w)))"
    using tenants.serve_tenant_keeps [OF t(1)] by (simp add: world_keeps_def)
  with t(2) show ?thesis by (simp add: isolated_def)
qed

text \<open>
  C15: With row-level security, no sequence of requests of the tenant administration (the twenty
  endpoints for roles, users and departments, with any bodies and identifiers and any driver faults)
  that carries other tenants changes a user, role, department, assignment, membership or agent of a
  tenant, and every link between the tables stays within one tenant.
\<close>

theorem tenant_admin_isolated:
  assumes "linked (tw_db w)" "\<forall>(c, q) \<in> set cs. th_parse_uuid h (tq_tenant q) \<noteq> Some t"
  shows "linked (tw_db (serve_all h cs w)) \<and> tenant_view t (tw_db (serve_all h cs w)) = tenant_view t (tw_db w)"
  using assms
proof (induction cs arbitrary: w)
  case (Cons x cs)
  obtain c q where x: "x = (c, q)" by fastforce
  show ?case
    using Cons.IH [of "snd (serve_tenant h c q w)"] serve_isolated [of w h q t c] Cons.prems
    by (simp add: x serve_all_def)
qed (simp add: serve_all_def)

theorem tenant_admin_isolated_witness:
  "tenant_view 1 (tw_db (serve_all town_handler [(DeleteUser, ask ''ii'' ''iii'' JNull), (DeleteDepartment, ask ''ii'' (in_unary 7) JNull)]
     (town True))) = tenant_view 1 (tw_db (town True))"
proof -
  have "\<forall>(c, q) \<in> set [(DeleteUser, ask ''ii'' ''iii'' JNull), (DeleteDepartment, ask ''ii'' (in_unary 7) JNull)].
      th_parse_uuid town_handler (tq_tenant q) \<noteq> Some 1"
    by (simp add: town_handler_def ask_def unary_def)
  from tenant_admin_isolated [OF town_linked this] show ?thesis by blast
qed

text \<open>
  C16: No sequence of requests of the tenant administration, for any tenants, with any driver faults
  and with or without row-level security, changes, removes or adds a system role, gives the wildcard
  permission to a custom role, or makes or removes a platform administrator.
\<close>

theorem tenant_admin_guarded:
  assumes "privileges system admins (tw_db w)"
  shows "privileges system admins (tw_db (serve_all h cs w))"
  by (rule serve_all_keeps [OF guards.tenant_writes_axioms assms])

theorem tenant_admin_guarded_witness:
  "privileges [] [] (tw_db (serve_all town_handler [(CreateRole, ask ''i'' [] (JObj [(''name'', JStr ''root''), (''permissions'', JArr [JStr ''*''])]))]
     (town False)))"
proof -
  have "privileges [] [] (tw_db (town False))" by (simp add: town_defs privileges_def)
  then show ?thesis by (rule tenant_admin_guarded)
qed

section \<open>Roles in the evaluator\<close>

definition granted :: "(uuid \<Rightarrow> string) \<Rightarrow> Role list \<Rightarrow> Identity \<Rightarrow> string \<Rightarrow> bool" where
  "granted su roles i action \<longleftrightarrow>
     list_ex (\<lambda>r. su (rl_TenantID r) = au_TenantID i \<and> rl_Name r \<in> set (au_Roles i) \<and>
        (''*'' \<in> set (rl_Permissions r) \<or> action \<in> set (rl_Permissions r))) roles"

definition role_def :: "(uuid \<Rightarrow> string) \<Rightarrow> Role \<Rightarrow> RoleDef" where
  "role_def su r = \<lparr>rd_TenantID = su (rl_TenantID r), rd_Name = rl_Name r, rd_Permissions = rl_Permissions r\<rparr>"

lemma table_of_roles:
  assumes "inj su" "distinct (map role_name rs)"
  shows "table_of (map (role_def su) rs) (x, n) = Some ps \<longleftrightarrow>
    (\<exists>r \<in> set rs. su (rl_TenantID r) = x \<and> rl_Name r = n \<and> rl_Permissions r = ps)"
proof -
  let ?k = "\<lambda>r. ((su (rl_TenantID r), rl_Name r), rl_Permissions r)"
  have "distinct (map (fst \<circ> ?k) rs)"
    using assms by (auto simp: distinct_map inj_on_def role_name_def dest: injD)
  then have d: "distinct (map fst (map ?k (rev rs)))" by (simp add: rev_map [symmetric])
  have "table_of (map (role_def su) rs) = map_of (map ?k (rev rs))"
    by (simp add: table_of_def role_def_def rev_map comp_def)
  then show ?thesis using map_of_eq_Some_iff [OF d, of "(x, n)" ps] by auto
qed

lemma table_grants:
  assumes "inj su" "distinct (map role_name rs)"
  shows "role_grants (table_of (map (role_def su) rs)) i action \<longleftrightarrow> granted su rs i action"
  by (auto simp: role_grants_def granted_def list_ex_iff table_of_roles [OF assms])

lemma quiet_sql: "keeps quiet stmt \<Longrightarrow> keeps quiet (sql stmt)"
  by (simp add: keeps_def quiet_def)

lemma quiet_statements:
  "keeps quiet (insert_role n ps)" "keeps quiet (update_role_stmt n ps i)" "keeps quiet (delete_role_stmt i)"
  by (simp_all add: keeps_def quiet_def insert_role_def update_role_stmt_def delete_role_stmt_def Let_def split: option.split)

lemma quiet_role_operations:
  "keeps quiet (role_Create n ps)" "keeps quiet (role_Update pu i n ps)" "keeps quiet (role_Delete pu i)"
  unfolding role_Create_def [abs_def] role_Update_def [abs_def] role_Delete_def [abs_def] role_refused_def [abs_def]
    role_is_system_def [abs_def]
  by (intro keeps_steps keeps_go_error quiet_sql quiet_statements)+

lemma quiet_connection:
  assumes "keeps quiet f"
  shows "keeps quiet (tenant_connection pu x f)"
proof (rule keepsI)
  fix s assume s: "quiet s"
  show "quiet (snd (tenant_connection pu x f s))"
  proof (cases "pu x")
    case (Some t)
    obtain r s2 where 2: "f (s\<lparr>db_tenant := Some t\<rparr>) = (r, s2)" by fastforce
    have q: "quiet s2" using keepsD [OF assms _ 2] s by (simp add: quiet_def)
    then have "WithTenantConnection t f s = (r, s2\<lparr>db_tenant := None\<rparr>)"
      using connection_no_faults [where fn = f and s = s and t = t, OF _ 2] s by (simp add: quiet_def)
    then show ?thesis using q by (simp add: tenant_connection_def Some quiet_def)
  qed (simp add: tenant_connection_def s)
qed

lemma LoadRoles_quiet:
  assumes "quiet s"
  shows "\<exists>rs. LoadRoles su collate s = (Inr (map (role_def su) rs), s) \<and>
    set rs = set (db_roles s) \<and> (distinct (db_roles s) \<longrightarrow> distinct rs)"
proof -
  have v: "visible s x" for x using assms by (simp add: visible_def quiet_def)
  let ?rs = "sort_key rl_TenantID (sort_key (\<lambda>r. collate (rl_Name r)) (db_roles s))"
  have "LoadRoles su collate s = (Inr (map (role_def su) ?rs), s)"
    using assms by (simp add: LoadRoles_def quiet_def wrap_err_def v role_def_def [abs_def])
  then show ?thesis by (intro exI [of _ ?rs]) simp
qed

lemma granted_set: "set rs = set rs' \<Longrightarrow> granted su rs i action = granted su rs' i action"
  by (simp add: granted_def list_ex_iff)

text \<open>What the evaluator decides on an action without a resource.\<close>

definition decides :: "Evaluator \<Rightarrow> Identity \<Rightarrow> string \<Rightarrow> bool \<Rightarrow> bool" where
  "decides ev i action b \<longleftrightarrow> map_sum id dc_Allowed (Authorize ev (Some i) action [] []) = Inr b"

lemma reload_effect:
  assumes "quiet (tw_db w)" "role_index (tw_db w)" "inj (th_show_uuid h)" "tw_evaluator w = Some ev"
  shows "tw_db (reload_roles h w) = tw_db w \<and> (\<exists>ev'. tw_evaluator (reload_roles h w) = Some ev' \<and>
    (\<forall>i action. decides ev' i action (granted (th_show_uuid h) (db_roles (tw_db w)) i action)))"
proof -
  obtain rs where l: "LoadRoles (th_show_uuid h) (th_collate h) (tw_db w) = (Inr (map (role_def (th_show_uuid h)) rs), tw_db w)"
    and rs: "set rs = set (db_roles (tw_db w))" "distinct (db_roles (tw_db w)) \<longrightarrow> distinct rs"
    using LoadRoles_quiet [OF assms(1)] by blast
  let ?defs = "map (role_def (th_show_uuid h)) rs"
  let ?ev = "snd (ReloadRoles (ev\<lparr>ev_loader := Some (\<lambda>_. Inr ?defs)\<rparr>))"
  have "distinct (map role_name rs)"
    using assms(2) rs by (auto simp: role_index_def distinct_map)
  then have g: "role_grants (table_of ?defs) i action = granted (th_show_uuid h) (db_roles (tw_db w)) i action" for i action
    using table_grants [OF assms(3)] granted_set [OF rs(1)] by metis
  have "flat (ev_roles ?ev) = table_of ?defs" by (simp add: ReloadRoles_def flat_fold_put flat_empty)
  then have "decides ?ev i action (granted (th_show_uuid h) (db_roles (tw_db w)) i action)" for i action
    using Authorize_permitted [of ?ev i action "[]" "[]"] by (simp add: decides_def permitted_def g split: option.split)
  then show ?thesis by (simp add: reload_roles_def assms(4) l)
qed

definition role_changes :: "tenant_call list" where
  "role_changes = [CreateRole, UpdateRole, DeleteRole]"

lemma tenant_status_error:
  "list_all (\<lambda>x. 400 \<le> fst (snd x)) xs \<Longrightarrow> 400 \<le> fst (tenant_status xs m e)"
  by (induction xs m e rule: tenant_status.induct) auto

text \<open>A successful change of a role ends with the evaluator loading the changed table.\<close>

lemma on_tenant_roles:
  assumes "on_tenant h x f w = (r, w1)" "keeps quiet f" "\<And>t. keeps (scoped t role_index) f"
    "quiet (tw_db w)" "role_index (tw_db w)"
  shows "quiet (tw_db w1) \<and> role_index (tw_db w1) \<and> tw_evaluator w1 = tw_evaluator w"
proof -
  obtain t where t: "th_parse_uuid h x \<in> {None, Some t}" by (cases "th_parse_uuid h x") auto
  obtain r1 s1 where 1: "tenant_connection (th_parse_uuid h) x f (tw_db w) = (r1, s1)" by fastforce
  have "quiet s1" by (rule keepsD [OF quiet_connection [OF assms(2)] assms(4) 1])
  moreover have "role_index s1"
    by (rule keepsD [OF scoped_tenant_connection [where pu = "th_parse_uuid h" and x = x, OF role_index_blind assms(3) t] assms(5) 1])
  ultimately show ?thesis using assms(1) 1 by (auto simp: on_tenant_def)
qed

definition reloaded :: "tenant_handler \<Rightarrow> tenant_world \<Rightarrow> tenant_world \<Rightarrow> bool" where
  "reloaded h w w' \<longleftrightarrow>
     (\<exists>w1. w' = reload_roles h w1 \<and> quiet (tw_db w1) \<and> role_index (tw_db w1) \<and> tw_evaluator w1 = tw_evaluator w)"

lemma reloadedI:
  assumes "on_tenant h x f w = (r, w1)" "keeps quiet f" "\<And>t. keeps (scoped t role_index) f"
    "quiet (tw_db w)" "role_index (tw_db w)" "w' = reload_roles h (audit_Log h q a k i m w1)"
  shows "reloaded h w w'"
  using on_tenant_roles [OF assms(1-5)] unfolding reloaded_def assms(6)
  by (intro exI [of _ "audit_Log h q a k i m w1"]) (simp add: audit_Log_def)

lemma create_reloads:
  assumes "role_HandleCreate h q w = (r, w')" "fst r < 300" "quiet (tw_db w)" "role_index (tw_db w)"
  shows "reloaded h w w'"
proof -
  obtain req where d: "tq_tenant q \<noteq> []" "decode_role (tq_body q) = Some req" "''*'' \<notin> set (rr_Permissions req)"
    using assms(1,2) by (auto simp: role_HandleCreate_def need_tenant_def wildcard_refused_def split: if_splits option.splits)
  obtain x w1 where 1: "on_tenant h (tq_tenant q) (role_Create (rr_Name req) (rr_Permissions req)) w = (x, w1)" by fastforce
  show ?thesis
  proof (cases x)
    case (Inl e)
    then have "400 \<le> fst r"
      using assms(1) d 1 by (auto simp: role_HandleCreate_def need_tenant_def intro!: tenant_status_error)
    then show ?thesis using assms(2) by simp
  next
    case (Inr role)
    then show ?thesis
      using assms d by (intro reloadedI [OF 1 quiet_role_operations(1) names.role_create_keeps])
        (auto simp: role_HandleCreate_def need_tenant_def 1)
  qed
qed

lemma update_reloads:
  assumes "role_HandleUpdate h q w = (r, w')" "fst r < 300" "quiet (tw_db w)" "role_index (tw_db w)"
  shows "reloaded h w w'"
proof -
  obtain req where d: "tq_id q \<noteq> []" "tq_tenant q \<noteq> []" "decode_role (tq_body q) = Some req" "''*'' \<notin> set (rr_Permissions req)"
    using assms(1,2)
    by (auto simp: role_HandleUpdate_def need_tenant_def need_id_def wildcard_refused_def split: if_splits option.splits)
  let ?f = "role_Update (th_parse_uuid h) (tq_id q) (rr_Name req) (rr_Permissions req)"
  obtain x w1 where 1: "on_tenant h (tq_tenant q) ?f w = (x, w1)" by fastforce
  show ?thesis
  proof (cases x)
    case (Inl e)
    then have "400 \<le> fst r"
      using assms(1) d 1 by (auto simp: role_HandleUpdate_def need_tenant_def need_id_def intro!: tenant_status_error)
    then show ?thesis using assms(2) by simp
  next
    case (Inr role)
    then show ?thesis
      using assms d by (intro reloadedI [OF 1 quiet_role_operations(2) names.role_update_keeps])
        (auto simp: role_HandleUpdate_def need_tenant_def need_id_def 1)
  qed
qed

lemma delete_reloads:
  assumes "role_HandleDelete h q w = (r, w')" "fst r < 300" "quiet (tw_db w)" "role_index (tw_db w)"
  shows "reloaded h w w'"
proof -
  have d: "tq_id q \<noteq> []" "tq_tenant q \<noteq> []"
    using assms(1,2) by (auto simp: role_HandleDelete_def need_tenant_def need_id_def split: if_splits)
  obtain x w1 where 1: "on_tenant h (tq_tenant q) (role_Delete (th_parse_uuid h) (tq_id q)) w = (x, w1)" by fastforce
  show ?thesis
  proof (cases x)
    case (Inl e)
    then have "400 \<le> fst r"
      using assms(1) d 1 by (auto simp: role_HandleDelete_def need_tenant_def need_id_def intro!: tenant_status_error)
    then show ?thesis using assms(2) by simp
  next
    case (Inr u)
    then show ?thesis
      using assms d by (intro reloadedI [OF 1 quiet_role_operations(3) names.role_operations(1)])
        (auto simp: role_HandleDelete_def need_tenant_def need_id_def 1)
  qed
qed


definition fired :: tenant_request where
  "fired = ask ''ii'' ''iiiiii'' JNull"

lemma town_fired:
  "serve_tenant town_handler DeleteRole fired (town False) =
     ((204, NoContent), snd (serve_tenant town_handler DeleteRole fired (town False)))"
  "db_roles (tw_db (snd (serve_tenant town_handler DeleteRole fired (town False)))) = [town_role 5 1]"
proof -
  let ?s = "town_db False" and ?x = "[town_role 5 1]"
  have 1: "role_Delete unary ''iiiiii'' (?s\<lparr>db_tenant := Some 2\<rparr>) = (Inr (), ?s\<lparr>db_tenant := Some 2, db_roles := ?x\<rparr>)"
    by (simp add: role_Delete_def checked_def with_uuid_def unary_def delete_role_stmt_def user_visible_def visible_def
        town_defs Let_def)
  have 2: "WithTenantConnection 2 (role_Delete unary ''iiiiii'') ?s = (Inr (), ?s\<lparr>db_tenant := Some 2, db_roles := ?x, db_tenant := None\<rparr>)"
    by (rule connection_no_faults [where s = "town_db False" and t = 2 and fn = "role_Delete unary ''iiiiii''", OF _ 1]) (simp_all add: town_defs)
  have u: "unary ''ii'' = Some 2" by (simp add: unary_def)
  have 3: "on_tenant town_handler ''ii'' (role_Delete unary ''iiiiii'') (town False) =
      (Inr (), (town False)\<lparr>tw_db := ?s\<lparr>db_tenant := Some 2, db_roles := ?x, db_tenant := None\<rparr>\<rparr>)"
    using 2 u by (simp add: on_tenant_def tenant_connection_def town_handler_def town_def)
  have f: "db_faults ?s = []" by (simp add: town_defs)
  have 4: "tw_db (reload_roles h w) = tw_db w" if "db_faults (tw_db w) = []" for h w
    using that by (simp add: reload_roles_def LoadRoles_def wrap_err_def split: option.split)
  show "serve_tenant town_handler DeleteRole fired (town False) =
     ((204, NoContent), snd (serve_tenant town_handler DeleteRole fired (town False)))"
    "db_roles (tw_db (snd (serve_tenant town_handler DeleteRole fired (town False)))) = ?x"
    using 3 by (simp_all add: role_HandleDelete_def need_id_def need_tenant_def fired_def ask_def town_handler_def 4 f)
qed


section \<open>Defects\<close>

text \<open>
  C39: The stores name no tenant. On a connection without row-level security (the policies do not bind
  the owner of the tables) the suspension of a user by an administrator of any tenant reaches the
  user of that identifier in whatever tenant: it is answered with success and changes the row.
\<close>

theorem suspension_crosses_tenants:
  assumes "quiet (tw_db w)" "tq_tenant q \<noteq> []" "th_parse_uuid h (tq_tenant q) = Some t"
    and "tq_id q \<noteq> []" "th_parse_uuid h (tq_id q) = Some (us_ID u)" "u \<in> set (db_users (tw_db w))"
  shows "fst (serve_tenant h DeleteUser q w) = (200, StatusOK) \<and>
    db_users (tw_db (snd (serve_tenant h DeleteUser q w))) = upd_where (\<lambda>x. us_ID x = us_ID u) suspend_row (db_users (tw_db w))"
proof -
  let ?s = "tw_db w" and ?p = "\<lambda>x. us_ID x = us_ID u"
  let ?s' = "?s\<lparr>db_tenant := Some t, db_users := upd_where ?p suspend_row (db_users ?s)\<rparr>"
  have v: "visible (?s\<lparr>db_tenant := x\<rparr>) y" for x y using assms(1) by (simp add: visible_def quiet_def)
  have n: "count_where ?p (db_users ?s) \<noteq> 0" using assms(6) by (auto simp: count_where_def filter_empty_conv)
  have "SoftDelete (th_parse_uuid h) (tq_id q) (?s\<lparr>db_tenant := Some t\<rparr>) = (Inr (), ?s')"
    using assms(1,5) n by (simp add: SoftDelete_def exec_rows_def checked_def with_uuid_def suspend_stmt_def v Let_def quiet_def)
  then have "WithTenantConnection t (SoftDelete (th_parse_uuid h) (tq_id q)) ?s = (Inr (), ?s'\<lparr>db_tenant := None\<rparr>)"
    using assms(1) by (intro connection_no_faults) (simp_all add: quiet_def)
  then show ?thesis
    using assms by (simp add: user_HandleDelete_def need_id_def need_tenant_def on_tenant_def tenant_connection_def)
qed

theorem suspension_crosses_tenants_witness:
  "us_TenantID (town_user 3 1) = 1 \<and>
   db_users (tw_db (snd (serve_tenant town_handler DeleteUser (ask ''ii'' ''iii'' JNull) (town False)))) =
     [suspend_row (town_user 3 1), town_user 4 2]"
proof -
  let ?q = "ask ''ii'' ''iii'' JNull"
  have "tq_tenant ?q \<noteq> []" "th_parse_uuid town_handler (tq_tenant ?q) = Some 2" "tq_id ?q \<noteq> []"
    "th_parse_uuid town_handler (tq_id ?q) = Some (us_ID (town_user 3 1))" "town_user 3 1 \<in> set (db_users (tw_db (town False)))"
    by (simp_all add: town_defs unary_def)
  from suspension_crosses_tenants [OF town_quiet(1) this] show ?thesis
    by (simp add: town_defs upd_where_def)
qed

text \<open>Seeding adds the four roles to a tenant that has none.\<close>

lemma tenant_Create_quiet:
  assumes "quiet s" "ValidateSlug slug = None" "\<not> list_ex (\<lambda>t. tn_Slug t = slug) (db_tenant_rows s)"
  shows "\<exists>t. tenant_Create name slug s = (Inr t, s\<lparr>db_tenants := db_tenants s @ [tn_ID t],
    db_tenant_rows := db_tenant_rows s @ [t], db_next := Suc (db_next s)\<rparr>) \<and> tn_ID t = db_next s \<and> tn_Slug t = slug"
  using assms by (simp add: tenant_Create_def insert_tenant_def checked_def quiet_def Let_def)

lemma seed_roles_new:
  assumes "\<not> list_ex (\<lambda>r. rl_TenantID r = t) (db_roles s)"
  shows "map (\<lambda>r. (rl_TenantID r, rl_Name r)) (db_roles (fold (seed_role t) default_roles s)) =
    map (\<lambda>r. (rl_TenantID r, rl_Name r)) (db_roles s) @ map (\<lambda>d. (t, fst d)) default_roles"
proof -
  have no: "\<not> list_ex (\<lambda>r. rl_TenantID r = t \<and> rl_Name r = n) (db_roles s)" for n
    using assms by (auto simp: list_ex_iff)
  show ?thesis by (simp add: default_roles_def seed_role_def no)
qed

lemma seed_roles_frame:
  "quiet (fold (seed_role t) ds s) = quiet s" "db_tenant_rows (fold (seed_role t) ds s) = db_tenant_rows s"
  "db_users (fold (seed_role t) ds s) = db_users s"
  by (induction ds arbitrary: s) (simp_all add: seed_role_def quiet_def)

lemma SeedDefaultRoles_quiet:
  "quiet s \<Longrightarrow> t \<in> set (db_tenants s) \<Longrightarrow> pu x = Some t \<Longrightarrow> SeedDefaultRoles pu x s = (Inr (), fold (seed_role t) default_roles s)"
  by (simp add: SeedDefaultRoles_def seed_stmt_def with_uuid_def wrap_err_def checked_def quiet_def visible_def)

lemma UpdateUserTenant_quiet: "quiet s \<Longrightarrow> \<exists>e. UpdateUserTenant pu u x s = (Inl e, s)"
  by (auto simp: UpdateUserTenant_def move_user_stmt_def tenantless_def upd_where_def count_where_def checked_def
      with_uuid_def quiet_def split: option.split)

lemma self_service_status: "400 \<le> fst (fst (HandleSelfServiceCreate h now q w))"
proof -
  have "fst (on_pool (UpdateUserTenant pu u t) w) \<noteq> Inr x" for pu u t w x
    using UpdateUserTenant_fails [of pu u t "tw_db w"] by (auto simp: on_pool_def split: prod.split)
  then show ?thesis
    by (auto simp: HandleSelfServiceCreate_def split: option.split prod.split sum.split) (metis fst_conv)
qed

text \<open>
  C40: Nobody can create a team for himself: every request ends with an error. One with a usable name
  creates the tenant and its four roles first and then fails to move the user, who must have no
  tenant while the column allows none to lack one; tenant and roles stay behind and keep the name.
\<close>

theorem self_service_leaves_tenant:
  assumes "quiet (tw_db w)" "tq_identity q = Some i" "au_TenantID i = []"
    and "body_string ''name'' (tq_body q) = Some name" "name \<noteq> []" "ValidateSlug (GenerateSlug name) = None"
    and "\<not> list_ex (\<lambda>t. tn_Slug t = GenerateSlug name) (db_tenant_rows (tw_db w))"
    and "\<not> list_ex (\<lambda>r. rl_TenantID r = db_next (tw_db w)) (db_roles (tw_db w))"
    and "\<forall>u. th_parse_uuid h (th_show_uuid h u) = Some u"
  shows "(\<forall>now q w. 400 \<le> fst (fst (HandleSelfServiceCreate h now q w))) \<and>
    (\<exists>t w'. HandleSelfServiceCreate h now q w = ((500, TenantMessage ''failed to assign user to team''), w') \<and>
      tn_Slug t = GenerateSlug name \<and> db_tenant_rows (tw_db w') = db_tenant_rows (tw_db w) @ [t] \<and>
      map role_name (db_roles (tw_db w')) = map role_name (db_roles (tw_db w)) @ map (\<lambda>d. (tn_ID t, fst d)) default_roles)"
proof -
  let ?s = "tw_db w"
  obtain t where t: "tenant_Create name (GenerateSlug name) ?s = (Inr t, ?s\<lparr>db_tenants := db_tenants ?s @ [tn_ID t],
      db_tenant_rows := db_tenant_rows ?s @ [t], db_next := Suc (db_next ?s)\<rparr>)" (is "_ = (_, ?s1)")
    and id: "tn_ID t = db_next ?s" "tn_Slug t = GenerateSlug name"
    using tenant_Create_quiet [OF assms(1,6,7)] by blast
  have q1: "quiet ?s1" using assms(1) by (simp add: quiet_def)
  let ?s2 = "fold (seed_role (tn_ID t)) default_roles ?s1"
  have 2: "SeedDefaultRoles (th_parse_uuid h) (th_show_uuid h (tn_ID t)) ?s1 = (Inr (), ?s2)"
    using assms(9) by (intro SeedDefaultRoles_quiet [OF q1]) simp_all
  have q2: "quiet ?s2" using q1 by (simp add: seed_roles_frame)
  obtain e where 3: "UpdateUserTenant (th_parse_uuid h) (au_UserID i) (th_show_uuid h (tn_ID t)) ?s2 = (Inl e, ?s2)"
    using UpdateUserTenant_quiet [OF q2] by blast
  have "map role_name (db_roles ?s2) = map role_name (db_roles ?s) @ map (\<lambda>d. (tn_ID t, fst d)) default_roles"
    using seed_roles_new [of "tn_ID t" ?s1] assms(8) by (simp add: id role_name_def [abs_def])
  moreover have "HandleSelfServiceCreate h now q w = ((500, TenantMessage ''failed to assign user to team''), w\<lparr>tw_db := ?s2\<rparr>)"
    using assms(2-5) by (simp add: HandleSelfServiceCreate_def on_pool_def create_team_def Let_def t 2 3)
  moreover have "db_tenant_rows ?s2 = db_tenant_rows ?s @ [t]" by (simp add: seed_roles_frame)
  ultimately show ?thesis using self_service_status id(2) by auto
qed

definition founder :: tenant_request where
  "founder = (ask [] [] (JObj [(''name'', JStr ''Zoo'')]))\<lparr>tq_identity := Some (clerk [])\<rparr>"

theorem self_service_leaves_tenant_witness:
  "\<exists>t w'. HandleSelfServiceCreate town_handler 0 founder (town False) =
     ((500, TenantMessage ''failed to assign user to team''), w') \<and> tn_Slug t = ''zoo'' \<and> db_tenant_rows (tw_db w') = [t]"
proof -
  have g: "GenerateSlug ''Zoo'' = ''zoo''" "ValidateSlug ''zoo'' = None"
    "body_string ''name'' (RawJSON (JObj [(''name'', JStr ''Zoo'')])) = Some ''Zoo''"
    by code_simp+
  have "tq_identity founder = Some (clerk [])" "au_TenantID (clerk []) = []" "body_string ''name'' (tq_body founder) = Some ''Zoo''"
    "''Zoo'' \<noteq> []" "ValidateSlug (GenerateSlug ''Zoo'') = None"
    "\<not> list_ex (\<lambda>t. tn_Slug t = GenerateSlug ''Zoo'') (db_tenant_rows (tw_db (town False)))"
    "\<not> list_ex (\<lambda>r. rl_TenantID r = db_next (tw_db (town False))) (db_roles (tw_db (town False)))"
    "\<forall>u. th_parse_uuid town_handler (th_show_uuid town_handler u) = Some u"
    using g unary_roundtrip by (simp_all add: town_defs founder_def clerk_def)
  from self_service_leaves_tenant [OF town_quiet(1) this, of 0] show ?thesis
    unfolding g(1) by (auto simp: town_defs)
qed

section \<open>Slugs\<close>

definition slug_base :: "string \<Rightarrow> string" where
  "slug_base name = trim_hyphens (collapse (map (\<lambda>c. if slug_char c then c else CHR ''-'') (ToLower name)))"

lemma replace_doubles_set: "set (replace_doubles cs) \<subseteq> set cs"
  by (induction cs rule: replace_doubles.induct) auto

lemma collapse_set: "set (collapse cs) \<subseteq> set cs"
proof (induction cs rule: collapse.induct)
  case (1 cs)
  then show ?case using replace_doubles_set [of cs] by (subst collapse.simps) auto
qed

lemma trim_set: "set (trim_hyphens cs) \<subseteq> set cs"
  by (auto simp: trim_hyphens_def dest!: set_dropWhileD)

lemma trim_hd_last:
  assumes "trim_hyphens cs \<noteq> []"
  shows "hd (trim_hyphens cs) \<noteq> CHR ''-'' \<and> last (trim_hyphens cs) \<noteq> CHR ''-''"
proof
  let ?d = "dropWhile (\<lambda>c. c = CHR ''-'')"
  have ne: "?d (rev (?d cs)) \<noteq> []" using assms by (simp add: trim_hyphens_def)
  then show "last (trim_hyphens cs) \<noteq> CHR ''-''"
    using hd_dropWhile [OF ne] by (simp add: trim_hyphens_def last_rev)
  define x where "x = rev (takeWhile (\<lambda>c. c = CHR ''-'') (rev (?d cs)))"
  have "rev (rev (?d cs)) = trim_hyphens cs @ x"
    unfolding trim_hyphens_def x_def rev_append [symmetric] takeWhile_dropWhile_id ..
  then have x: "?d cs = trim_hyphens cs @ x" by simp
  have d: "?d cs \<noteq> []" using assms by (simp only: x append_is_Nil_conv) simp
  have "hd (?d cs) = hd (trim_hyphens cs)" unfolding x by (rule hd_append2 [OF assms])
  then show "hd (trim_hyphens cs) \<noteq> CHR ''-''" using hd_dropWhile [OF d] by simp
qed

lemma slug_base_chars: "c \<in> set (slug_base name) \<Longrightarrow> slug_char c \<or> c = CHR ''-''"
  using trim_set collapse_set unfolding slug_base_def by fastforce

lemma slug_base_ends:
  assumes "slug_base name \<noteq> []"
  shows "slug_char (hd (slug_base name))" "slug_char (last (slug_base name))"
  using slug_base_chars [of _ name] trim_hd_last assms unfolding slug_base_def
  by (meson hd_in_set last_in_set)+

lemma slug_team: "list_all (\<lambda>c. slug_char c \<or> c = CHR ''-'') ''-team''" "slug_char (last ''-team'')" "\<not> slug_char (CHR ''-'')"
  by (simp_all add: slug_char_def)

lemma reserved_no_hyphen: "slug \<in> set reservedSlugs \<Longrightarrow> CHR ''-'' \<notin> set slug \<and> 3 \<le> length slug \<and> length slug < 63"
  by (auto simp: reservedSlugs_def)

lemma GenerateSlug_base:
  "GenerateSlug name = (if length (slug_base name) < 3 then slug_base name @ ''-team'' else take 63 (slug_base name))"
  by (simp add: GenerateSlug_def slug_base_def Let_def)

text \<open>
  C38: The slug generated from a team name is a valid one exactly when the name has a letter or digit
  of ASCII, its base (lower case, runs of other characters as one hyphen, none at the ends) is not
  reserved and, when longer than 63, is not cut right after a hyphen. Names such as one in another
  script therefore always fail: the generated slug is \<open>-team\<close>, which the validation refuses.
\<close>

theorem generated_slug_valid:
  "ValidateSlug (GenerateSlug name) = None \<longleftrightarrow>
     slug_base name \<noteq> [] \<and> slug_base name \<notin> set reservedSlugs \<and>
     (63 < length (slug_base name) \<longrightarrow> slug_base name ! 62 \<noteq> CHR ''-'')"
proof -
  let ?b = "slug_base name"
  have valid: "ValidateSlug s = None \<longleftrightarrow> slug_matches s \<and> s \<notin> set reservedSlugs" for s
    by (simp add: ValidateSlug_def)
  consider "?b = []" | "?b \<noteq> []" "length ?b < 3" | "3 \<le> length ?b" "length ?b \<le> 63" | "63 < length ?b" by linarith
  then show ?thesis
  proof cases
    case 1
    then show ?thesis using slug_team by (simp add: GenerateSlug_base valid slug_matches_def)
  next
    case 2
    have "?b @ ''-team'' \<notin> set reservedSlugs" "?b \<notin> set reservedSlugs"
      using reserved_no_hyphen 2(2) by fastforce+
    moreover have "slug_matches (?b @ ''-team'')"
      using 2 slug_base_ends slug_base_chars slug_team by (auto simp: slug_matches_def list_all_iff)
    ultimately show ?thesis using 2 by (simp add: GenerateSlug_base valid)
  next
    case 3
    then have "?b \<noteq> []" by auto
    then show ?thesis
      using 3 slug_base_ends slug_base_chars by (simp add: GenerateSlug_base valid slug_matches_def list_all_iff)
  next
    case 4
    then have ne: "?b \<noteq> []" by auto
    have "last (take 63 ?b) = ?b ! 62" using 4 ne by (subst last_conv_nth) auto
    moreover have "slug_char (?b ! 62) \<longleftrightarrow> ?b ! 62 \<noteq> CHR ''-''"
      using slug_base_chars [of "?b ! 62" name] slug_team(3) 4 by (auto simp: nth_mem)
    moreover have "take 63 ?b \<notin> set reservedSlugs" "?b \<notin> set reservedSlugs"
      using reserved_no_hyphen 4 by fastforce+
    moreover have "list_all (\<lambda>c. slug_char c \<or> c = CHR ''-'') (take 63 ?b)"
      using slug_base_chars by (auto simp: list_all_iff dest: in_set_takeD)
    ultimately show ?thesis
      using 4 ne slug_base_ends(1) [OF ne] by (auto simp: GenerateSlug_base valid slug_matches_def)
  qed
qed

theorem generated_slug_valid_witness: "ValidateSlug (GenerateSlug ''A  B!'') = None"
proof -
  have "slug_base ''A  B!'' = ''a-b''"
    by code_simp
  then show ?thesis unfolding generated_slug_valid by (simp add: reservedSlugs_def)
qed

end
