(* ===== verification/Spec2Isabelle.thy ===== *)
theory Spec2Isabelle
  imports Connector_Approval Channel_Workers Outbox_Senders Access_Control Agent_Conn_Properties
    Agent_Provisioning Agent_Handlers Approved_Execution Channel_Admin Webhook_Properties
    Tenant_Properties
begin

text \<open>
  Heimdall is a control plane for AI agents that run in virtual machines. Users reach their
  agent over Slack, Telegram and WhatsApp; replies leave through an outbox with screening,
  human review and retries; writes to third-party systems are governed actions that wait for
  an approval. All state is in PostgreSQL, separated by tenant with row-level security.

  \<^bold>\<open>Foundations.\<close>
  \<^item> \<^verbatim>\<open>Heimdall_Prelude\<close>: Go values (byte strings, times, errors, JSON), tables as lists of
    rows with \<open>upd_where\<close> and \<open>select_order_limit\<close>, and their lemmas.
  \<^item> \<^verbatim>\<open>Database\<close> (\<open>platform/database/tenant.go\<close>): the rows of every table, the session of a
    connection, statements run by \<open>sql\<close> against a script of driver faults, tenant connections
    and transactions. The rule set \<open>keeps\<close> carries invariants through any composition of
    statements; a failed transaction leaves the tables unchanged.
  \<^item> \<^verbatim>\<open>Go_Regexp\<close>, \<^verbatim>\<open>Go_Float\<close>, \<^verbatim>\<open>Go_Crypto\<close>, \<^verbatim>\<open>Go_JSON\<close>: what the modelled code uses of the
    standard library: leftmost-first matching, \<open>float64\<close> rounding, base64 with AES-GCM, and the
    decoding of JSON values into structs.

  \<^bold>\<open>The outbox.\<close>
  \<^item> \<^verbatim>\<open>Channel_Errors\<close>, \<^verbatim>\<open>Outbox_Store\<close>, \<^verbatim>\<open>Outbox_Lifecycle\<close> (\<open>channels/channels.go\<close>,
    \<open>channels/store.go\<close>): the jobs and the nine operations on them; the status machine
    \<open>ob_step\<close>, well-formedness, exclusive claims, finality of sent jobs, tenant isolation.
  \<^item> \<^verbatim>\<open>Outbox_Errors\<close>, \<^verbatim>\<open>Outbound_Scan\<close>, \<^verbatim>\<open>Outbox_Dispatcher\<close>, \<^verbatim>\<open>Retry_Delay\<close>
    (\<open>channels/outbox_errors.go\<close>, \<open>outbound_scan.go\<close>, \<open>outbox_dispatcher.go\<close>): classification of
    send errors, the scanner with its four patterns, \<open>DispatchOnce\<close>, and the delay in
    \<open>float64\<close> arithmetic with its bounds and its overflow.
  \<^item> \<^verbatim>\<open>Dispatcher_Contract\<close>, \<^verbatim>\<open>Dispatcher_Database\<close>: the interface of the dispatcher as the
    locale \<open>outbox_contract\<close>, its theorems proved once from the laws, and the interpretation on
    the database store and the review sink of \<open>cmd/heimdall\<close>: a call terminates, refines the
    abstract outcome of each job, sends a job at most once and never what the scan flags.
    \<open>DispatchOnce\<close> takes the number of claims it may make; \<open>dispatch_terminates\<close> shows that the
    sends the open jobs have left, plus one, are enough.
  \<^item> \<^verbatim>\<open>Channel_Config\<close>, \<^verbatim>\<open>Outbox_Senders\<close>, \<^verbatim>\<open>Channel_Workers\<close> (\<open>cmd/heimdall\<close>): provider
    configuration, the HTTP senders and their verdicts, and the two sweeps over all tenants,
    which end and do exactly their work.

  \<^bold>\<open>Inbound side of the store.\<close>
  \<^item> \<^verbatim>\<open>Credential_Crypto\<close>, \<^verbatim>\<open>Channel_Store\<close>, \<^verbatim>\<open>Channel_Laws\<close>, \<^verbatim>\<open>Channel_Properties\<close>
    (\<open>channels/credential_crypto.go\<close>, \<open>channels/store.go\<close>): encrypted credentials over the
    locale \<open>aead_contract\<close>, identity links, the idempotency ledger, history, expiry and
    recovery, with the invariant of the four tables and the promises of each operation.

  \<^bold>\<open>Webhooks and channel execution.\<close>
  \<^item> \<^verbatim>\<open>Go_Hash\<close>, \<^verbatim>\<open>Channel_Verify\<close>, \<^verbatim>\<open>Channel_Parser\<close>, \<^verbatim>\<open>Channel_Ingress\<close>
    (\<open>channels/verifier*.go\<close>, \<open>parser.go\<close>, \<open>ingress.go\<close>, \<open>cmd/heimdall/main.go\<close>): SHA-256 and HMAC, the
    signatures of the three providers with the tenant's stored secret, the payloads, and the guard.
  \<^item> \<^verbatim>\<open>Channel_Execution\<close>, \<^verbatim>\<open>Channel_Webhook\<close>, \<^verbatim>\<open>Channel_Admin\<close> (\<open>cmd/heimdall/channels_execution.go\<close>,
    \<open>channels/handler.go\<close>): the executor of an accepted message, the webhook with its loop over the
    messages, the recovery of replies, and the administration endpoints. The state is
    \<open>channel_world\<close>: the database, the clock readings and the events.
  \<^item> \<^verbatim>\<open>Webhook_Laws\<close>, \<^verbatim>\<open>Webhook_Trace\<close>, \<^verbatim>\<open>Webhook_Properties\<close>: the locale \<open>channel_endpoints\<close> between the
    handler and its functions, which follows from the writes of the store (\<open>channel_writes\<close>,
    \<open>channel_administration\<close>) and is interpreted for the table invariant and for taken keys; only
    signed requests act, a message is executed once, and agents are reached by their own users.

  \<^bold>\<open>Authentication.\<close>
  \<^item> \<^verbatim>\<open>Auth_Tokens\<close>, \<^verbatim>\<open>Login_State\<close>, \<^verbatim>\<open>Auth_Store\<close>, \<^verbatim>\<open>Auth_Handlers\<close> (\<open>auth\<close>, \<open>tenant/invite_*.go\<close>):
    access and refresh tokens, the middleware, the signed state of a login, users by their external
    credentials, families of refresh tokens with rotation and reuse detection, tenants by host name,
    invites, the cached keys of the issuer, and the endpoints.
  \<^item> \<^verbatim>\<open>Auth_Laws\<close>, \<^verbatim>\<open>Auth_Trace\<close>, \<^verbatim>\<open>Auth_Properties\<close>: the locale \<open>auth_writes\<close> carries what the statements
    keep to every endpoint, and is interpreted for the growth of the families and for the accounts; a
    refresh token is accepted once, its reuse revokes the family, the middleware admits access tokens
    only. Three theorems state defects: the email hint, refreshes of suspended accounts, invites.

  \<^bold>\<open>Tenant administration.\<close>
  \<^item> \<^verbatim>\<open>Tenant_Store\<close>, \<^verbatim>\<open>Tenant_Handlers\<close> (\<open>tenant\<close>, \<open>platform/admin\<close>): roles and their assignments,
    users, departments, tenants and slugs; the endpoints with their audit events and the reload of the
    evaluator, the onboarding of a team, the proxy and the impersonation for platform administrators.
  \<^item> \<^verbatim>\<open>Tenant_Laws\<close>, \<^verbatim>\<open>Tenant_Links\<close>, \<^verbatim>\<open>Tenant_Guards\<close>, \<^verbatim>\<open>Tenant_Properties\<close>: the locale
    \<open>tenant_writes\<close> carries what the statements keep on a connection of a tenant to the twenty
    endpoints. It is interpreted three times: for the isolation of tenants under row-level security,
    for privileges and for the names of roles. A changed role decides the next request; without
    the policies the stores reach every tenant, and self-service creation never completes.

  \<^bold>\<open>Governance.\<close>
  \<^item> \<^verbatim>\<open>Governed_Actions\<close>, \<^verbatim>\<open>Approvals\<close>, \<^verbatim>\<open>Approval_Laws\<close>, \<^verbatim>\<open>Connector_Approval\<close>
    (\<open>connectors/actions.go\<close>, \<open>approvals\<close>): actions and their status machine, approval
    requests and handlers; decisions are final, nobody reviews their own request, nothing
    awaiting approval is executed without it, and an approval and its action are created
    together (locale \<open>action_writer\<close>).

  \<^item> \<^verbatim>\<open>Access_Control\<close> (\<open>rbac\<close>): roles, resource policies and the middleware; they refine a table
    of the effective role definitions.
  \<^item> \<^verbatim>\<open>Policies\<close>, \<^verbatim>\<open>Connectors\<close> (\<open>policies\<close>, \<open>connectors\<close>): decisions per risk class, stored in two
    jsonb columns, and the connector catalogue with the metadata of its tools; what is written is
    what is evaluated, and the catalogue stays well formed under every request.
  \<^item> \<^verbatim>\<open>Action_Resumer\<close> (\<open>proxy/connector_action_resumer.go\<close>): what happens to an action after its
    approval was decided; an action is settled at most once.

  \<^bold>\<open>Agents.\<close>
  \<^item> \<^verbatim>\<open>Agent_Store\<close>, \<^verbatim>\<open>Agent_Manager\<close>, \<^verbatim>\<open>Agent_Fleet\<close>, \<^verbatim>\<open>Agent_Provisioning\<close>
    (\<open>orchestrator/store.go\<close>, \<open>manager.go\<close>, \<open>kb_store.go\<close>): instances, provisioning, destruction,
    the warm pool and the health checks over a driver that may fail; machines stay accounted for.
  \<^item> \<^verbatim>\<open>Runtime_Policy\<close>, \<^verbatim>\<open>Agent_Config\<close>, \<^verbatim>\<open>Agent_Handlers\<close> (\<open>orchestrator/runtime_policy.go\<close>,
    \<open>handler.go\<close>, \<open>proxy/push.go\<close>): hardening of a configuration, the connectors with their
    governance that an agent is sent, and the HTTP handlers; tenants stay apart and only hardened
    configurations are pushed by a configure request.
  \<^item> \<^verbatim>\<open>Agent_Conn\<close>, \<^verbatim>\<open>Agent_Conn_Laws\<close>, \<^verbatim>\<open>Agent_Conn_Properties\<close> (\<open>proxy/conn.go\<close>): the request
    multiplexer as a step relation between callers, the read loop and \<open>Close\<close>; replies arrive
    in order, and the one race that panics is identified.
  \<^item> \<^verbatim>\<open>Guest_Agent\<close>, \<^verbatim>\<open>Guest_Loop\<close>, \<^verbatim>\<open>Guest_Properties\<close> (\<open>cmd/heimdall-agent\<close>): the program in the
    virtual machine: configuration updates, the tool loop, validation, governance, canaries, the MCP
    client and resumed actions. Its state is the trace of frames and tool calls; the configuration
    may change at every point where the code takes the lock (\<open>ge_agent\<close> at the number of the read).
    The loop is bounded by the code's own limit of ten iterations.
  \<^item> \<^verbatim>\<open>Governance_Chain\<close>, \<^verbatim>\<open>Approved_Execution\<close>: the compositions. Policies and catalogue rows, as
    encoded by the control plane and decoded by the guest, decide the calls the guest makes; and an
    approved action is executed as approved and recorded as executed.

  \<^bold>\<open>Parameters.\<close> Code outside the repository is an argument: \<open>parse_uuid\<close> and \<open>show_uuid\<close>
  (\<open>google/uuid\<close>), the HTTP answers of providers, of the model and of connectors, the machine driver,
  the clock and the random source (numbered calls), \<open>ovf\<close> (a conversion the Go specification
  leaves open), and the fault script of the database driver. So is what the standard library does
  with text the model does not look into: \<open>url.Parse\<close>, \<open>net.ParseIP\<close>, the quoting of \<open>%q\<close>, and the
  reading of a string as JSON. The executor is built from lookups of identity, agents and user context
  that read the database, and from the scan of the sentinel. Signing and reading of web tokens is
  \<open>golang-jwt\<close> (\<open>jwt_lib\<close>, \<open>id_lib\<close>); the identity provider and its key endpoint answer as they like. JSON documents are values; their bytes are not modelled.

  \<^bold>\<open>Not modelled.\<close> The virtual machine and container drivers, the sockets, subprocess and heartbeat
  of the guest, the bytes of the frame format, process start-up, telemetry, migrations and the HTTP
  routing are I/O. The chat endpoints of the proxy, the listing of audit and activity, and the
  remote classifier are listed in the manifest as not modelled. Logging is left out of the operations
  that are modelled; activity and audit events are kept.
\<close>

end
